(* ===== verification/Prelude.thy ===== *)
theory Prelude
  imports Main "HOL-Library.Multiset" "HOL-Library.Char_ord" "HOL-Library.List_Lexorder" "HOL-Library.Product_Lexorder"
begin

text \<open>
  Shared vocabulary of the development: Python exceptions as values, the sequencing of
  fallible computations, the string predicates of the standard library that the source
  relies on, and generic lemmas on lists and association lists.

  A Python call that may raise is a value of \<open>'a exc\<close>: \<open>Inl e\<close> is the raised
  exception and \<open>Inr x\<close> the returned value. Exception messages are kept, so a model
  raises the same exception with the same text as the code.

  Strings are the UTF-8 bytes of the Python \<open>str\<close>. For ASCII text (every identifier,
  digest and tag of the program) bytes and code points coincide; \<open>len\<close>, \<open>strip\<close>
  and \<open>int(_, 16)\<close> are modelled on ASCII text.
\<close>

section \<open>Proof automation\<close>

named_theorems exc_simps \<open>equations and inversions for fallible computations\<close>
named_theorems validity \<open>definitions of the constructor checks\<close>
named_theorems encodings \<open>definitions of the dictionary encodings\<close>

section \<open>Exceptions\<close>

text \<open>
  One constructor per exception class raised in the modelled modules. The standard classes
  come first; the others are the program's own.
\<close>

datatype py_error =
    ValueError string
  | TypeError string
  | KeyError string
  | AttributeError string
  | AssertionError
  | IntegrityError
  | SessionError string
  | AdapterError string
  | PhysicalAttemptError string
  | PhysicalOutcomeCodecError string
  | CapacityError string
  | DurableCapacityError string
  | DispatchIntentError string
  | SessionRecoveryError string
  | RecoveryDriverError string
  | RetryAuthorityError string
  | TransitionPolicyError string
  | PortfolioStateError string
  | ExecutionCheckpointError string
  | PortfolioPersistenceError string
  | AspTransitionError string
  | ReconciliationError string
  | ConformanceError string
  | ResumeTickError string
  | HumanAuthorityError string
  | ConformanceHarnessError string

type_synonym 'a exc = "py_error + 'a"

text \<open>
  The class hierarchy, as \<open>except\<close> clauses see it: every exception class of the program
  derives from \<open>ValueError\<close>, and \<open>DurableCapacityError\<close> from \<open>CapacityError\<close>.
\<close>

fun is_value_error :: "py_error \<Rightarrow> bool" where
  "is_value_error (TypeError _) = False"
| "is_value_error (KeyError _) = False"
| "is_value_error (AttributeError _) = False"
| "is_value_error AssertionError = False"
| "is_value_error IntegrityError = False"
| "is_value_error _ = True"

fun is_capacity_error :: "py_error \<Rightarrow> bool" where
  "is_capacity_error (CapacityError _) = True"
| "is_capacity_error (DurableCapacityError _) = True"
| "is_capacity_error _ = False"

fun is_adapter_error :: "py_error \<Rightarrow> bool" where
  "is_adapter_error (AdapterError _) = True"
| "is_adapter_error _ = False"

fun is_durable_capacity_error :: "py_error \<Rightarrow> bool" where
  "is_durable_capacity_error (DurableCapacityError _) = True"
| "is_durable_capacity_error _ = False"

fun is_dispatch_intent_error :: "py_error \<Rightarrow> bool" where
  "is_dispatch_intent_error (DispatchIntentError _) = True"
| "is_dispatch_intent_error _ = False"

fun is_codec_error :: "py_error \<Rightarrow> bool" where
  "is_codec_error (PhysicalOutcomeCodecError _) = True"
| "is_codec_error _ = False"

text \<open>The clause \<open>except (KeyError, TypeError, ValueError)\<close>.\<close>

fun is_decode_error :: "py_error \<Rightarrow> bool" where
  "is_decode_error AssertionError = False"
| "is_decode_error (AttributeError _) = False"
| "is_decode_error IntegrityError = False"
| "is_decode_error _ = True"

text \<open>The clause \<open>except (TypeError, KeyError)\<close>.\<close>

fun is_type_or_key_error :: "py_error \<Rightarrow> bool" where
  "is_type_or_key_error (TypeError _) = True"
| "is_type_or_key_error (KeyError _) = True"
| "is_type_or_key_error _ = False"

fun is_transition_policy_error :: "py_error \<Rightarrow> bool" where
  "is_transition_policy_error (TransitionPolicyError _) = True"
| "is_transition_policy_error _ = False"

text \<open>The clause \<open>except (TypeError, ValueError)\<close>, and with the program's own classes.\<close>

fun is_type_or_value_error :: "py_error \<Rightarrow> bool" where
  "is_type_or_value_error (TypeError _) = True"
| "is_type_or_value_error e = is_value_error e"

section \<open>Sequencing\<close>

definition ebind :: "'a exc \<Rightarrow> ('a \<Rightarrow> 'b exc) \<Rightarrow> 'b exc" where
  "ebind m f = (case m of Inl e \<Rightarrow> Inl e | Inr x \<Rightarrow> f x)"

text \<open>\<open>try m except E: raise e'\<close>, for the classes selected by \<open>p\<close>.\<close>

definition rethrow :: "(py_error \<Rightarrow> bool) \<Rightarrow> py_error \<Rightarrow> 'a exc \<Rightarrow> 'a exc" where
  "rethrow p e' m = (case m of Inl e \<Rightarrow> (if p e then Inl e' else Inl e) | Inr x \<Rightarrow> Inr x)"

text \<open>\<open>try m except E: return d\<close>.\<close>

definition handle :: "(py_error \<Rightarrow> bool) \<Rightarrow> 'a \<Rightarrow> 'a exc \<Rightarrow> 'a exc" where
  "handle p d m = (case m of Inl e \<Rightarrow> (if p e then Inr d else Inl e) | Inr x \<Rightarrow> Inr x)"

fun emap :: "('a \<Rightarrow> 'b exc) \<Rightarrow> 'a list \<Rightarrow> 'b list exc" where
  "emap f [] = Inr []"
| "emap f (x # xs) = ebind (f x) (\<lambda>y. ebind (emap f xs) (\<lambda>ys. Inr (y # ys)))"

text \<open>A \<open>for\<close> loop of checks: the first exception ends it.\<close>

fun eall :: "('a \<Rightarrow> unit exc) \<Rightarrow> 'a list \<Rightarrow> unit exc" where
  "eall f [] = Inr ()"
| "eall f (x # xs) = ebind (f x) (\<lambda>_. eall f xs)"

text \<open>A \<open>for\<close> loop that threads a state through fallible steps.\<close>

fun efold :: "('s \<Rightarrow> 'a \<Rightarrow> 's exc) \<Rightarrow> 's \<Rightarrow> 'a list \<Rightarrow> 's exc" where
  "efold f s [] = Inr s"
| "efold f s (x # xs) = ebind (f s x) (\<lambda>t. efold f t xs)"

lemma ebind_Inl [simp]: "ebind (Inl e) f = Inl e"
  by (simp add: ebind_def)

lemma ebind_Inr [simp]: "ebind (Inr x) f = f x"
  by (simp add: ebind_def)

lemma ebind_eq_Inr [exc_simps]: "ebind m f = Inr y \<longleftrightarrow> (\<exists>x. m = Inr x \<and> f x = Inr y)"
  by (cases m) auto

lemma ebind_eq_Inl [exc_simps]:
  "ebind m f = Inl e \<longleftrightarrow> m = Inl e \<or> (\<exists>x. m = Inr x \<and> f x = Inl e)"
  by (cases m) auto

lemma raise_unless_eq [exc_simps]: "(if c then Inl e else m) = Inr y \<longleftrightarrow> \<not> c \<and> m = Inr y"
  by simp

lemma return_False_unless_eq [exc_simps]: "(if c then Inr False else m) = Inr True \<longleftrightarrow> \<not> c \<and> m = Inr True"
  by simp

lemma ebind_guard: "ebind m (\<lambda>ok. if \<not> ok then Inl e else f ok) = Inr y \<longleftrightarrow> m = Inr True \<and> f True = Inr y"
  by (cases m) auto

lemma rethrow_Inr [simp]: "rethrow p e (Inr x) = Inr x"
  by (simp add: rethrow_def)

lemma rethrow_eq_Inr [exc_simps]: "rethrow p e m = Inr y \<longleftrightarrow> m = Inr y"
  by (cases m) (auto simp: rethrow_def)

lemma handle_Inr [simp]: "handle p d (Inr x) = Inr x"
  by (simp add: handle_def)

lemma handle_eq_Inr [exc_simps]:
  "handle p d m = Inr y \<longleftrightarrow> m = Inr y \<or> (\<exists>e. m = Inl e \<and> p e \<and> y = d)"
  by (cases m) (auto simp: handle_def)

lemma emap_eq_Inr_map: "(\<And>x. x \<in> set xs \<Longrightarrow> f (g x) = Inr x) \<Longrightarrow> emap f (map g xs) = Inr xs"
  by (induction xs) auto

lemma emap_length: "emap f xs = Inr ys \<Longrightarrow> length ys = length xs"
  by (induction xs arbitrary: ys) (auto simp: exc_simps)

lemma eall_eq_Inr [exc_simps]: "eall f xs = Inr u \<longleftrightarrow> (\<forall>x\<in>set xs. f x = Inr ())"
  by (induction xs) (auto simp: exc_simps)

lemma efold_append: "efold f s (xs @ ys) = ebind (efold f s xs) (\<lambda>t. efold f t ys)"
  by (induction xs arbitrary: s) (auto simp: ebind_def split: sum.splits)

lemma efold_snoc: "efold f s (xs @ [x]) = ebind (efold f s xs) (\<lambda>t. f t x)"
  by (simp add: efold_append) (simp add: ebind_def split: sum.splits)

section \<open>Python strings\<close>

text \<open>ASCII white space, as \<open>str.strip\<close> removes it.\<close>

definition is_space :: "char \<Rightarrow> bool" where
  "is_space c \<longleftrightarrow> (let n = (of_char c :: nat) in (9 \<le> n \<and> n \<le> 13) \<or> (28 \<le> n \<and> n \<le> 32))"

definition strip :: "string \<Rightarrow> string" where
  "strip s = rev (dropWhile is_space (rev (dropWhile is_space s)))"

text \<open>The condition \<open>not value or not value.strip()\<close>.\<close>

definition blank :: "string \<Rightarrow> bool" where
  "blank s \<longleftrightarrow> s = [] \<or> strip s = []"

definition startswith :: "string \<Rightarrow> string \<Rightarrow> bool" where
  "startswith s p \<longleftrightarrow> take (length p) s = p"

lemma startswith_append [simp]: "startswith (p @ s) p"
  by (simp add: startswith_def)

lemma strip_Nil_iff: "strip s = [] \<longleftrightarrow> (\<forall>c\<in>set s. is_space c)"
proof -
  have "strip s = [] \<longleftrightarrow> (\<forall>c\<in>set (dropWhile is_space s). is_space c)"
    by (simp add: strip_def)
  also have "\<dots> \<longleftrightarrow> (\<forall>c\<in>set s. is_space c)"
    by (induction s) auto
  finally show ?thesis .
qed

lemma blank_iff: "blank s \<longleftrightarrow> (\<forall>c\<in>set s. is_space c)"
  by (auto simp: blank_def strip_Nil_iff)

text \<open>
  \<open>int(s, 16)\<close> raises nothing exactly on these texts: optional white space around an
  optional sign, an optional \<open>0x\<close> prefix and hexadecimal digits, where single underscores
  may separate digits (and follow the prefix).
\<close>

definition is_hex_digit :: "char \<Rightarrow> bool" where
  "is_hex_digit c \<longleftrightarrow> (let n = (of_char c :: nat) in
     (48 \<le> n \<and> n \<le> 57) \<or> (65 \<le> n \<and> n \<le> 70) \<or> (97 \<le> n \<and> n \<le> 102))"

definition is_lower_hex :: "char \<Rightarrow> bool" where
  "is_lower_hex c \<longleftrightarrow> (let n = (of_char c :: nat) in (48 \<le> n \<and> n \<le> 57) \<or> (97 \<le> n \<and> n \<le> 102))"

text \<open>Digits with single underscores between them.\<close>

fun hex_digits_ok :: "string \<Rightarrow> bool" where
  "hex_digits_ok [] = False"
| "hex_digits_ok [c] = is_hex_digit c"
| "hex_digits_ok (c # d # cs) =
     (is_hex_digit c \<and> (if d = CHR ''_'' then hex_digits_ok cs else hex_digits_ok (d # cs)))"

definition drop_sign :: "string \<Rightarrow> string" where
  "drop_sign s = (case s of [] \<Rightarrow> [] | c # cs \<Rightarrow> if c = CHR ''+'' \<or> c = CHR ''-'' then cs else s)"

definition drop_hex_prefix :: "string \<Rightarrow> string" where
  "drop_hex_prefix s =
     (if startswith s ''0x_'' \<or> startswith s ''0X_'' then drop 3 s
      else if startswith s ''0x'' \<or> startswith s ''0X'' then drop 2 s else s)"

definition int16_ok :: "string \<Rightarrow> bool" where
  "int16_ok s \<longleftrightarrow> hex_digits_ok (drop_hex_prefix (drop_sign (strip s)))"

lemma is_lower_hex_is_hex: "is_lower_hex c \<Longrightarrow> is_hex_digit c"
  by (auto simp: is_lower_hex_def is_hex_digit_def Let_def)

lemma hex_digits_ok_all:
  "s \<noteq> [] \<Longrightarrow> \<forall>c\<in>set s. is_hex_digit c \<Longrightarrow> hex_digits_ok s"
  by (induction s rule: hex_digits_ok.induct) (auto simp: is_hex_digit_def)

lemma not_space_hex: "is_hex_digit c \<Longrightarrow> \<not> is_space c"
  by (auto simp: is_hex_digit_def is_space_def Let_def)

lemma dropWhile_none: "\<forall>x\<in>set xs. \<not> P x \<Longrightarrow> dropWhile P xs = xs"
  by (cases xs) auto

lemma strip_no_space: "\<forall>c\<in>set s. \<not> is_space c \<Longrightarrow> strip s = s"
  by (simp add: strip_def dropWhile_none)

text \<open>Hexadecimal text of the digest's shape always passes \<open>int(_, 16)\<close>.\<close>

lemma startswith_0x_not_hex: "startswith s ''0x'' \<or> startswith s ''0X'' \<Longrightarrow> \<exists>c\<in>set s. \<not> is_hex_digit c"
  by (cases s; cases "tl s")
    (auto simp: startswith_def is_hex_digit_def Let_def)

lemma int16_ok_hex:
  assumes "s \<noteq> []" and hex: "\<forall>c\<in>set s. is_hex_digit c"
  shows "int16_ok s"
proof -
  have strip: "strip s = s"
    using hex by (intro strip_no_space) (auto dest: not_space_hex)
  have sign: "drop_sign s = s"
    using hex by (auto simp: drop_sign_def is_hex_digit_def split: list.splits)
  have "\<not> startswith s ''0x''" "\<not> startswith s ''0X''"
    using startswith_0x_not_hex hex by blast+
  moreover from this have "\<not> startswith s ''0x_''" "\<not> startswith s ''0X_''"
    by (cases s; cases "tl s"; auto simp: startswith_def)+
  ultimately have prefix: "drop_hex_prefix s = s"
    by (simp add: drop_hex_prefix_def)
  show ?thesis
    unfolding int16_ok_def strip sign prefix using assms by (rule hex_digits_ok_all)
qed

section \<open>Lists and association lists\<close>

lemma map_of_insort_key:
  "map_of (insort_key fst kv kvs) k = (if k = fst kv then Some (snd kv) else map_of kvs k)"
  for kv :: "'a::linorder \<times> 'b"
  by (induction kvs) (auto split: if_splits)

lemma map_of_sort_key [simp]: "map_of (sort_key fst kvs) = map_of (kvs :: ('a::linorder \<times> 'b) list)"
  by (induction kvs) (auto simp: fun_eq_iff map_of_insort_key)

lemma map_of_map_snd: "map_of (map (\<lambda>(k, v). (k, f v)) kvs) k = map_option f (map_of kvs k)"
  by (induction kvs) auto

lemma distinct_fst_sort_key:
  "distinct (map fst (sort_key fst kvs)) \<longleftrightarrow> distinct (map fst (kvs :: ('a::linorder \<times> 'b) list))"
proof -
  have "mset (map fst (sort_key fst kvs)) = mset (map fst kvs)"
    by (simp only: mset_map mset_sort)
  then show ?thesis by (rule mset_eq_imp_distinct_iff)
qed

lemma sort_key_idem: "sort_key f (sort_key f xs) = sort_key f xs"
  by (simp add: sort_key_id_if_sorted)

lemma sort_key_map_snd:
  "sort_key fst (map (\<lambda>(k, v). (k, f v)) kvs) = map (\<lambda>(k, v). (k, f v)) (sort_key fst kvs)"
  for kvs :: "('a::linorder \<times> 'b) list"
proof (induction kvs)
  case (Cons a kvs)
  have "insort_key fst (fst a, f (snd a)) (map (\<lambda>(k, v). (k, f v)) xs) =
        map (\<lambda>(k, v). (k, f v)) (insort_key fst a xs)" for xs
    by (induction xs) (auto split: prod.splits)
  with Cons show ?case by (simp add: case_prod_unfold)
qed simp

end
