(* ===== verification/Json_Loads.thy ===== *)
theory Json_Loads
  imports Canonical
begin

text \<open>
  \<open>json.loads\<close> as the durable stores use it, and its round trip with \<open>canonical_json\<close>.

  The parser follows the standard library: white space between tokens, all string escapes
  (with surrogate pairs), integers without leading zeros, repeated keys where the last one
  wins. Two inputs that Python accepts are rejected here: numbers with a fraction or an
  exponent (and \<open>NaN\<close>, \<open>Infinity\<close>), which are floats, and lone surrogates. No value
  that the program writes contains either.

  The parsers take fuel; \<open>json_loads\<close> gives the length of the text, and
  \<open>json_loads_dumps\<close> shows that this is enough for every text that was printed.
\<close>

section \<open>The parser\<close>

definition is_ws :: "char \<Rightarrow> bool" where
  "is_ws c \<longleftrightarrow> c = CHR '' '' \<or> c = CHR 0x09 \<or> c = CHR 0x0A \<or> c = CHR 0x0D"

abbreviation skip_ws :: "string \<Rightarrow> string" where
  "skip_ws \<equiv> dropWhile is_ws"

definition is_digit :: "char \<Rightarrow> bool" where
  "is_digit c \<longleftrightarrow> (let n = (of_char c :: nat) in 48 \<le> n \<and> n \<le> 57)"

definition digit_value :: "char \<Rightarrow> nat" where
  "digit_value c = of_char c - 48"

definition hex_value :: "char \<Rightarrow> nat option" where
  "hex_value c = (let n = of_char c in
     if 48 \<le> n \<and> n \<le> 57 then Some (n - 48)
     else if 65 \<le> n \<and> n \<le> 70 then Some (n - 55)
     else if 97 \<le> n \<and> n \<le> 102 then Some (n - 87) else None)"

definition hex4 :: "string \<Rightarrow> nat option" where
  "hex4 s = (case s of
     a # b # c # d # _ \<Rightarrow>
       (case (hex_value a, hex_value b, hex_value c, hex_value d) of
          (Some w, Some x, Some y, Some z) \<Rightarrow> Some (((w * 16 + x) * 16 + y) * 16 + z)
        | _ \<Rightarrow> None)
   | _ \<Rightarrow> None)"

definition utf8 :: "nat \<Rightarrow> string" where
  "utf8 n = (if n < 128 then [char_of n]
     else if n < 2048 then [char_of (192 + n div 64), char_of (128 + n mod 64)]
     else if n < 65536 then
       [char_of (224 + n div 4096), char_of (128 + n div 64 mod 64), char_of (128 + n mod 64)]
     else [char_of (240 + n div 262144), char_of (128 + n div 4096 mod 64),
           char_of (128 + n div 64 mod 64), char_of (128 + n mod 64)])"

definition simple_escape :: "char \<Rightarrow> char option" where
  "simple_escape c =
     (if c = CHR 0x22 then Some (CHR 0x22) else if c = CHR 0x5C then Some (CHR 0x5C)
      else if c = CHR ''/'' then Some (CHR ''/'') else if c = CHR ''b'' then Some (CHR 0x08)
      else if c = CHR ''f'' then Some (CHR 0x0C) else if c = CHR ''n'' then Some (CHR 0x0A)
      else if c = CHR ''r'' then Some (CHR 0x0D) else if c = CHR ''t'' then Some (CHR 0x09)
      else None)"

text \<open>The text after \<open>\u\<close>: the decoded bytes and how many characters were read.\<close>

definition unicode_escape :: "string \<Rightarrow> (string \<times> nat) option" where
  "unicode_escape s = (case hex4 s of
     None \<Rightarrow> None
   | Some u \<Rightarrow>
       (if 55296 \<le> u \<and> u < 56320 then
          (if take 2 (drop 4 s) = [CHR 0x5C, CHR ''u''] then
             (case hex4 (drop 6 s) of
                Some v \<Rightarrow> (if 56320 \<le> v \<and> v < 57344
                  then Some (utf8 (65536 + (u - 55296) * 1024 + (v - 56320)), 10) else None)
              | None \<Rightarrow> None)
           else None)
        else if 56320 \<le> u \<and> u < 57344 then None
        else Some (utf8 u, 4)))"

definition prepend :: "'a list \<Rightarrow> ('a list \<times> 'b) option \<Rightarrow> ('a list \<times> 'b) option" where
  "prepend xs r = map_option (\<lambda>(ys, z). (xs @ ys, z)) r"

text \<open>The body of a string literal, after its opening quote.\<close>

function parse_string :: "string \<Rightarrow> (string \<times> string) option" where
  "parse_string [] = None"
| "parse_string (c # r) =
     (if c = CHR 0x22 then Some ([], r)
      else if c = CHR 0x5C then
        (case r of
           [] \<Rightarrow> None
         | e # r' \<Rightarrow>
             (if e = CHR ''u'' then
                (case unicode_escape r' of
                   None \<Rightarrow> None
                 | Some (t, n) \<Rightarrow> prepend t (parse_string (drop n r')))
              else (case simple_escape e of
                   None \<Rightarrow> None
                 | Some x \<Rightarrow> prepend [x] (parse_string r'))))
      else if (of_char c :: nat) < 32 then None
      else prepend [c] (parse_string r))"
  by pat_completeness auto
termination by (relation "measure length") auto

definition parse_nat :: "string \<Rightarrow> (nat \<times> string) option" where
  "parse_nat s = (case s of
     [] \<Rightarrow> None
   | c # r \<Rightarrow>
       (if \<not> is_digit c then None
        else if c = CHR ''0'' then Some (0, r)
        else Some (foldl (\<lambda>n d. 10 * n + digit_value d) 0 (takeWhile is_digit s), dropWhile is_digit s)))"

definition float_mark :: "string \<Rightarrow> bool" where
  "float_mark s \<longleftrightarrow> s \<noteq> [] \<and> (hd s = CHR ''.'' \<or> hd s = CHR ''e'' \<or> hd s = CHR ''E'')"

definition parse_number :: "string \<Rightarrow> (pyval \<times> string) option" where
  "parse_number s =
     (let neg = (s \<noteq> [] \<and> hd s = CHR ''-'') in
      case parse_nat (if neg then tl s else s) of
        None \<Rightarrow> None
      | Some (n, r) \<Rightarrow> (if float_mark r then None
          else Some (PInt (if neg then - int n else int n), r)))"

text \<open>\<open>d[k] = v\<close> on an item list: an existing key keeps its position.\<close>

fun dict_set :: "string \<Rightarrow> 'v \<Rightarrow> (string \<times> 'v) list \<Rightarrow> (string \<times> 'v) list" where
  "dict_set k v [] = [(k, v)]"
| "dict_set k v ((l, w) # kvs) = (if k = l then (k, v) # kvs else (l, w) # dict_set k v kvs)"

definition dict_of_items :: "(string \<times> 'v) list \<Rightarrow> (string \<times> 'v) list" where
  "dict_of_items kvs = foldl (\<lambda>d (k, v). dict_set k v d) [] kvs"

fun parse_value :: "nat \<Rightarrow> string \<Rightarrow> (pyval \<times> string) option"
and parse_elements :: "nat \<Rightarrow> string \<Rightarrow> (pyval list \<times> string) option"
and parse_members :: "nat \<Rightarrow> string \<Rightarrow> ((string \<times> pyval) list \<times> string) option" where
  "parse_value 0 s = None"
| "parse_value (Suc n) s = (case skip_ws s of
     [] \<Rightarrow> None
   | c # r \<Rightarrow>
       (if c = CHR 0x22 then map_option (\<lambda>(t, r'). (PStr t, r')) (parse_string r)
        else if c = CHR ''['' then
          (if startswith (skip_ws r) '']'' then Some (PList [], tl (skip_ws r))
           else map_option (\<lambda>(xs, r'). (PList xs, r')) (parse_elements n r))
        else if c = CHR ''{'' then
          (if startswith (skip_ws r) ''}'' then Some (PDict [], tl (skip_ws r))
           else map_option (\<lambda>(kvs, r'). (PDict (dict_of_items kvs), r')) (parse_members n r))
        else if startswith (c # r) ''null'' then Some (PNone, drop 3 r)
        else if startswith (c # r) ''true'' then Some (PBool True, drop 3 r)
        else if startswith (c # r) ''false'' then Some (PBool False, drop 4 r)
        else parse_number (c # r)))"
| "parse_elements 0 s = None"
| "parse_elements (Suc n) s = (case parse_value n s of
     None \<Rightarrow> None
   | Some (v, r) \<Rightarrow> (case skip_ws r of
       [] \<Rightarrow> None
     | c # r' \<Rightarrow>
         (if c = CHR '','' then prepend [v] (parse_elements n r')
          else if c = CHR '']'' then Some ([v], r') else None)))"
| "parse_members 0 s = None"
| "parse_members (Suc n) s = (case skip_ws s of
     [] \<Rightarrow> None
   | q # r \<Rightarrow>
       (if q \<noteq> CHR 0x22 then None
        else (case parse_string r of
          None \<Rightarrow> None
        | Some (k, r1) \<Rightarrow> (case skip_ws r1 of
            [] \<Rightarrow> None
          | c # r2 \<Rightarrow>
              (if c \<noteq> CHR '':'' then None
               else (case parse_value n r2 of
                 None \<Rightarrow> None
               | Some (v, r3) \<Rightarrow> (case skip_ws r3 of
                   [] \<Rightarrow> None
                 | d # r4 \<Rightarrow>
                     (if d = CHR '','' then prepend [(k, v)] (parse_members n r4)
                      else if d = CHR ''}'' then Some ([(k, v)], r4) else None))))))))"

text \<open>\<open>None\<close> is \<open>json.JSONDecodeError\<close>.\<close>

definition json_loads :: "string \<Rightarrow> pyval option" where
  "json_loads s = (case parse_value (Suc (length s)) s of
     None \<Rightarrow> None
   | Some (v, r) \<Rightarrow> (if skip_ws r = [] then Some v else None))"

section \<open>Reading printed strings\<close>

lemma hex_value_hex_char: "n < 16 \<Longrightarrow> hex_value (hex_char n) = Some n"
  by (auto simp: hex_value_def hex_char_def Let_def)

lemma unicode_escape_small:
  assumes "(n::nat) < 32"
  shows "unicode_escape (CHR ''0'' # CHR ''0'' # hex_char (n div 16) # hex_char (n mod 16) # s)
    = Some ([char_of n], 4)"
proof -
  have "hex_value (CHR ''0'') = Some 0" by (simp add: hex_value_def)
  moreover have "n div 16 < 16" "n mod 16 < 16" using assms by auto
  moreover have "n div 16 * 16 + n mod 16 = n" by simp
  ultimately show ?thesis
    using assms by (simp add: unicode_escape_def hex4_def hex_value_hex_char utf8_def)
qed

lemma parse_string_raw:
  "c \<noteq> CHR 0x22 \<Longrightarrow> c \<noteq> CHR 0x5C \<Longrightarrow> \<not> (of_char c :: nat) < 32 \<Longrightarrow>
   parse_string (c # s) = prepend [c] (parse_string s)"
  by simp

lemma parse_string_simple:
  "e \<noteq> CHR ''u'' \<Longrightarrow> simple_escape e = Some x \<Longrightarrow>
   parse_string (CHR 0x5C # e # s) = prepend [x] (parse_string s)"
  by simp

lemma parse_string_control:
  "(of_char c :: nat) < 32 \<Longrightarrow>
   parse_string (CHR 0x5C # CHR ''u'' # CHR ''0'' # CHR ''0'' # hex_char (of_char c div 16) # hex_char (of_char c mod 16) # s)
   = prepend [c] (parse_string s)"
  by (simp add: unicode_escape_small)

declare parse_string.simps [simp del]

lemma escape_char_cases:
  "c \<in> {CHR 0x22, CHR 0x5C, CHR 0x0A, CHR 0x0D, CHR 0x09, CHR 0x0C, CHR 0x08} \<or>
   (of_char c :: nat) < 32 \<and> escape_char c = [CHR 0x5C, CHR ''u'', CHR ''0'', CHR ''0'',
      hex_char (of_char c div 16), hex_char (of_char c mod 16)] \<or>
   escape_char c = [c] \<and> \<not> (of_char c :: nat) < 32 \<and> c \<noteq> CHR 0x22 \<and> c \<noteq> CHR 0x5C"
  unfolding escape_char_def by (simp split: if_splits)

lemma parse_string_escape:
  "parse_string (escape_char c @ s) = prepend [c] (parse_string s)"
  using escape_char_cases [of c]
proof (elim disjE)
  assume "c \<in> {CHR 0x22, CHR 0x5C, CHR 0x0A, CHR 0x0D, CHR 0x09, CHR 0x0C, CHR 0x08}"
  then show ?thesis
    by (auto simp: escape_char_def parse_string_simple simple_escape_def)
qed (simp_all add: parse_string_control parse_string_raw)

lemma prepend_Some [simp]: "prepend xs (Some (ys, z)) = Some (xs @ ys, z)"
  by (simp add: prepend_def)

lemma parse_string_body:
  "parse_string (concat (map escape_char t) @ CHR 0x22 # r) = Some (t, r)"
  by (induction t) (simp_all add: parse_string_escape, simp add: parse_string.simps)

section \<open>Reading printed numbers\<close>

declare nat_repr.simps [simp del]

lemma digit_char [simp]: "n < 10 \<Longrightarrow> is_digit (digit_char n)" "n < 10 \<Longrightarrow> digit_value (digit_char n) = n"
  by (simp_all add: digit_char_def is_digit_def digit_value_def)

lemma nat_repr_digits: "c \<in> set (nat_repr n) \<Longrightarrow> is_digit c"
proof (induction n rule: nat_repr.induct)
  case (1 n)
  then show ?case by (subst (asm) nat_repr.simps) (auto split: if_splits)
qed

lemma nat_repr_not_Nil [simp]: "nat_repr n \<noteq> []"
  by (subst nat_repr.simps) simp

lemma nat_repr_value: "foldl (\<lambda>n d. 10 * n + digit_value d) 0 (nat_repr n) = n"
proof (induction n rule: nat_repr.induct)
  case (1 n)
  then show ?case by (subst nat_repr.simps) simp
qed

lemma nat_repr_hd_zero: "hd (nat_repr n) = CHR ''0'' \<Longrightarrow> n = 0"
proof (induction n rule: nat_repr.induct)
  case (1 n)
  show ?case
  proof (cases "n < 10")
    case True
    then have "digit_char n = CHR ''0'' \<Longrightarrow> digit_value (CHR ''0'') = n" using digit_char(2) by metis
    then show ?thesis using 1(2) True by (subst (asm) nat_repr.simps) (simp add: digit_value_def)
  next
    case False
    then have "hd (nat_repr n) = hd (nat_repr (n div 10))" by (subst nat_repr.simps) simp
    then show ?thesis using 1 False by simp
  qed
qed

lemma nat_repr_0: "nat_repr 0 = ''0''"
  by (simp add: nat_repr.simps digit_char_def char_of_eq_iff)

lemma takeWhile_digits:
  assumes "\<forall>c\<in>set ds. P c" and "r = [] \<or> \<not> P (hd r)"
  shows "takeWhile P (ds @ r) = ds" and "dropWhile P (ds @ r) = r"
  using assms by (induction ds; cases r; auto)+

lemma parse_nat_repr:
  assumes "r = [] \<or> \<not> is_digit (hd r)"
  shows "parse_nat (nat_repr n @ r) = Some (n, r)"
proof (cases "n = 0")
  case True
  then show ?thesis by (simp add: parse_nat_def nat_repr_0 is_digit_def)
next
  case False
  obtain c cs where c: "nat_repr n = c # cs" by (cases "nat_repr n") auto
  then have "c \<noteq> CHR ''0''" "is_digit c"
    using nat_repr_hd_zero [of n] nat_repr_digits [of c n] False by auto
  moreover have "takeWhile is_digit (nat_repr n @ r) = nat_repr n" "dropWhile is_digit (nat_repr n @ r) = r"
    using takeWhile_digits [of "nat_repr n" is_digit r] assms nat_repr_digits by auto
  ultimately show ?thesis
    using nat_repr_value [of n] by (simp add: parse_nat_def c)
qed

definition delimiter :: "string \<Rightarrow> bool" where
  "delimiter r \<longleftrightarrow> r = [] \<or> hd r \<in> {CHR '','', CHR '']'', CHR ''}''}"

lemma delimiter_not_number: "delimiter r \<Longrightarrow> (r = [] \<or> \<not> is_digit (hd r)) \<and> \<not> float_mark r"
  by (auto simp: delimiter_def is_digit_def float_mark_def)

lemma parse_number_repr: "delimiter r \<Longrightarrow> parse_number (int_repr i @ r) = Some (PInt i, r)"
proof (cases "i < 0")
  case True
  assume "delimiter r"
  with True show ?thesis
    by (simp add: parse_number_def int_repr_def parse_nat_repr delimiter_not_number)
next
  case False
  assume r: "delimiter r"
  have "hd (nat_repr (nat i)) \<noteq> CHR ''-''"
    using nat_repr_digits [of "hd (nat_repr (nat i))" "nat i"] by (auto simp: is_digit_def)
  with False r show ?thesis
    by (simp add: parse_number_def int_repr_def parse_nat_repr delimiter_not_number)
qed

lemma int_repr_hd: "\<exists>c cs. int_repr i = c # cs \<and> (c = CHR ''-'' \<or> is_digit c)"
proof (cases "i < 0")
  case False
  obtain c cs where c: "nat_repr (nat i) = c # cs" by (cases "nat_repr (nat i)") auto
  then show ?thesis using False nat_repr_digits [of c "nat i"] by (simp add: int_repr_def)
qed (simp add: int_repr_def)

section \<open>Reading printed values\<close>

lemma not_ws_delimiter [simp]:
  "\<not> is_ws (CHR '','')" "\<not> is_ws (CHR '']'')" "\<not> is_ws (CHR ''}'')" "\<not> is_ws (CHR '':'')"
  "\<not> is_ws (CHR ''['')" "\<not> is_ws (CHR ''{'')" "\<not> is_ws (CHR 0x22)" "\<not> is_ws (CHR ''-'')"
  by (simp_all add: is_ws_def)

lemma digit_not_special:
  "is_digit c \<Longrightarrow> \<not> is_ws c \<and> c \<noteq> CHR 0x22 \<and> c \<noteq> CHR ''['' \<and> c \<noteq> CHR ''{'' \<and> c \<noteq> CHR '']'' \<and> c \<noteq> CHR ''}''
     \<and> c \<noteq> CHR ''n'' \<and> c \<noteq> CHR ''t'' \<and> c \<noteq> CHR ''f''"
  by (auto simp: is_digit_def is_ws_def)

lemma parse_value_number:
  assumes "delimiter r"
  shows "parse_value (Suc n) (int_repr i @ r) = Some (PInt i, r)"
proof -
  obtain c cs where c: "int_repr i = c # cs" and "c = CHR ''-'' \<or> is_digit c"
    using int_repr_hd by blast
  then have "\<not> is_ws c \<and> c \<noteq> CHR 0x22 \<and> c \<noteq> CHR ''['' \<and> c \<noteq> CHR ''{'' \<and> c \<noteq> CHR ''n'' \<and> c \<noteq> CHR ''t'' \<and> c \<noteq> CHR ''f''"
    using digit_not_special [of c] by auto
  then show ?thesis
    using parse_number_repr [OF assms, of i] c by (simp add: startswith_def)
qed

lemma json_dumps_hd:
  "\<exists>c cs. json_dumps v = c # cs \<and> \<not> is_ws c \<and> c \<noteq> CHR '']'' \<and> c \<noteq> CHR ''}''"
proof (cases v)
  case (PInt i)
  then show ?thesis using int_repr_hd [of i] by (auto dest: digit_not_special)
qed (auto simp: json_string_def is_ws_def)

text \<open>The contract of a printed value: it is read back in front of any delimiter.\<close>

definition reads_as :: "string \<Rightarrow> pyval \<Rightarrow> bool" where
  "reads_as s v \<longleftrightarrow> s \<noteq> [] \<and> \<not> is_ws (hd s) \<and> hd s \<noteq> CHR '']'' \<and> hd s \<noteq> CHR ''}'' \<and>
     (\<forall>n r. length s \<le> n \<longrightarrow> delimiter r \<longrightarrow> parse_value n (s @ r) = Some (v, r))"

lemma join_comma_Cons: "xs \<noteq> [] \<Longrightarrow> join_comma (s # xs) = s @ CHR '','' # join_comma xs"
  by (cases xs) auto

lemma delimiter_simps [simp]:
  "delimiter (CHR '','' # r)" "delimiter (CHR '']'' # r)" "delimiter (CHR ''}'' # r)" "delimiter []"
  by (simp_all add: delimiter_def)

lemma parse_elements_join:
  assumes "\<forall>(s, v)\<in>set svs. reads_as s v" and "svs \<noteq> []" and "length (join_comma (map fst svs)) < n"
  shows "parse_elements n (join_comma (map fst svs) @ CHR '']'' # r) = Some (map snd svs, r)"
  using assms
proof (induction svs arbitrary: n)
  case (Cons p svs)
  obtain s v where p: "p = (s, v)" by (cases p)
  obtain m where n: "n = Suc m" using Cons.prems(3) by (cases n) auto
  have s: "reads_as s v" using Cons.prems(1) p by simp
  show ?case
  proof (cases "svs = []")
    case True
    then show ?thesis using s p n Cons.prems(3) by (simp add: reads_as_def)
  next
    case False
    then have j: "join_comma (map fst (p # svs)) = s @ CHR '','' # join_comma (map fst svs)"
      by (simp add: join_comma_Cons p)
    have "0 < length s" using s by (simp add: reads_as_def)
    then have "length s \<le> m" "length (join_comma (map fst svs)) < m"
      using Cons.prems(3) j n by auto
    then show ?thesis
      using Cons.IH [of m] Cons.prems(1) False s p n unfolding j by (simp add: reads_as_def)
  qed
qed simp

definition member_text :: "string \<times> string \<times> pyval \<Rightarrow> string" where
  "member_text m = json_string (fst m) @ CHR '':'' # fst (snd m)"

lemma member_text_hd: "\<exists>t. member_text m = CHR 0x22 # t"
  by (simp add: member_text_def json_string_def)

lemma parse_members_step:
  assumes "reads_as s v" and "length s \<le> n" and "delimiter r"
  shows "parse_members (Suc n) (member_text (k, s, v) @ r) =
    (case skip_ws r of [] \<Rightarrow> None
     | d # r4 \<Rightarrow> (if d = CHR '','' then prepend [(k, v)] (parse_members n r4)
                 else if d = CHR ''}'' then Some ([(k, v)], r4) else None))"
  using assms by (simp add: member_text_def json_string_def parse_string_body reads_as_def)

lemma parse_members_join:
  assumes "\<forall>(k, s, v)\<in>set ms. reads_as s v" and "ms \<noteq> []" and "length (join_comma (map member_text ms)) < n"
  shows "parse_members n (join_comma (map member_text ms) @ CHR ''}'' # r) = Some (map (\<lambda>(k, s, v). (k, v)) ms, r)"
  using assms
proof (induction ms arbitrary: n)
  case (Cons p ms)
  obtain k s v where p: "p = (k, s, v)" by (cases p)
  obtain m where n: "n = Suc m" using Cons.prems(3) by (cases n) auto
  have s: "reads_as s v" using Cons.prems(1) p by simp
  have len: "length s < length (member_text p)" by (simp add: p member_text_def)
  show ?case
  proof (cases "ms = []")
    case True
    then show ?thesis using parse_members_step [OF s, of m "CHR ''}'' # r" k] p n Cons.prems(3) len by simp
  next
    case False
    then have j: "join_comma (map member_text (p # ms)) = member_text p @ CHR '','' # join_comma (map member_text ms)"
      by (simp add: join_comma_Cons)
    then have "length s \<le> m" "length (join_comma (map member_text ms)) < m"
      using Cons.prems(3) n len by auto
    then show ?thesis
      using Cons.IH [of m] Cons.prems(1) False parse_members_step [OF s, of m _ k] p n unfolding j by simp
  qed
qed simp

lemma dict_set_new: "k \<notin> fst ` set d \<Longrightarrow> dict_set k v d = d @ [(k, v)]"
  by (induction k v d rule: dict_set.induct) auto

lemma dict_of_items_distinct: "distinct (map fst kvs) \<Longrightarrow> dict_of_items kvs = kvs"
proof -
  have "distinct (map fst (d @ kvs)) \<Longrightarrow> foldl (\<lambda>d (k, v). dict_set k v d) d kvs = d @ kvs" for d
    by (induction kvs arbitrary: d) (auto simp: dict_set_new)
  from this [of "[]"] show "distinct (map fst kvs) \<Longrightarrow> dict_of_items kvs = kvs"
    by (simp add: dict_of_items_def)
qed

lemma reads_as_list:
  assumes "\<And>x. x \<in> set xs \<Longrightarrow> reads_as (json_dumps x) (normalize x)"
  shows "reads_as (CHR ''['' # join_comma (map json_dumps xs) @ '']'') (PList (map normalize xs))"
proof (cases "xs = []")
  case True
  then show ?thesis
    by (auto simp: reads_as_def startswith_def Suc_le_eq dest!: less_imp_Suc_add)
next
  case False
  let ?svs = "map (\<lambda>x. (json_dumps x, normalize x)) xs"
  have all: "\<forall>(s, v)\<in>set ?svs. reads_as s v" using assms by auto
  have maps: "map fst ?svs = map json_dumps xs" "map snd ?svs = map normalize xs"
    by simp_all
  obtain s ss where ss: "map json_dumps xs = s # ss" using False by (cases xs) auto
  obtain c cs where c: "s = c # cs" "\<not> is_ws c" "c \<noteq> CHR '']''"
    using json_dumps_hd ss by (cases xs) fastforce+
  then have hd: "\<not> startswith (skip_ws (join_comma (map json_dumps xs) @ r)) '']''" for r
    unfolding ss by (cases ss) (auto simp: startswith_def)
  show ?thesis
    unfolding reads_as_def
  proof (intro conjI allI impI)
    fix n r
    assume n: "length (CHR ''['' # join_comma (map json_dumps xs) @ '']'') \<le> n"
    then obtain m where m: "n = Suc m" by (cases n) auto
    have "parse_elements m (join_comma (map json_dumps xs) @ CHR '']'' # r) = Some (map normalize xs, r)"
      using parse_elements_join [OF all, of m r, unfolded maps] False n m by simp
    then show "parse_value n ((CHR ''['' # join_comma (map json_dumps xs) @ '']'') @ r) = Some (PList (map normalize xs), r)"
      using hd [of "CHR '']'' # r"] m by simp
  qed simp_all
qed

lemma join_comma_first:
  "xs \<noteq> [] \<Longrightarrow> \<forall>x\<in>set xs. \<exists>t. x = c # t \<Longrightarrow> \<exists>t. join_comma xs = c # t"
  by (cases xs; cases "tl xs") auto

lemma reads_as_dict:
  assumes "\<And>k v. (k, v) \<in> set kvs \<Longrightarrow> reads_as (json_dumps v) (normalize v)" and dist: "distinct (map fst kvs)"
  shows "reads_as (json_dumps (PDict kvs)) (normalize (PDict kvs))"
proof -
  let ?srt = "sort_key fst kvs"
  let ?ms = "map (\<lambda>(k, v). (k, json_dumps v, normalize v)) ?srt"
  let ?j = "join_comma (map member_text ?ms)"
  have dump: "json_dumps (PDict kvs) = CHR ''{'' # ?j @ ''}''"
    unfolding json_dumps.simps sort_key_map_snd
    by (simp add: comp_def case_prod_unfold member_text_def)
  have val: "normalize (PDict kvs) = PDict (map (\<lambda>(k, s, v). (k, v)) ?ms)"
    unfolding normalize.simps sort_key_map_snd by (simp add: comp_def case_prod_unfold)
  have all: "\<forall>(k, s, v)\<in>set ?ms. reads_as s v" using assms(1) by auto
  have items: "dict_of_items (map (\<lambda>(k, s, v). (k, v)) ?ms) = map (\<lambda>(k, s, v). (k, v)) ?ms"
    using dist distinct_fst_sort_key [of kvs]
    by (intro dict_of_items_distinct) (simp add: comp_def case_prod_unfold)
  show ?thesis
  proof (cases "kvs = []")
    case True
    then show ?thesis
      by (auto simp: reads_as_def startswith_def Suc_le_eq dest!: less_imp_Suc_add)
  next
    case False
    have "0 < length ?ms" using False by simp
    then have ne: "?ms \<noteq> []" by (rule length_greater_0_conv [THEN iffD1])
    then obtain t where "?j = CHR 0x22 # t"
      using join_comma_first [of "map member_text ?ms" "CHR 0x22"] ne member_text_hd by auto
    then have hd: "\<not> startswith (skip_ws (?j @ r)) ''}''" for r
      by (simp add: startswith_def)
    show ?thesis
      unfolding reads_as_def
    proof (intro conjI allI impI)
      fix n r
      assume n: "length (json_dumps (PDict kvs)) \<le> n"
      then obtain m where m: "n = Suc m" unfolding dump by (cases n) auto
      have "parse_members m (?j @ CHR ''}'' # r) = Some (map (\<lambda>(k, s, v). (k, v)) ?ms, r)"
        using n m unfolding dump by (intro parse_members_join [OF all ne]) simp
      then show "parse_value n (json_dumps (PDict kvs) @ r) = Some (normalize (PDict kvs), r)"
        unfolding dump val using hd [of "CHR ''}'' # r"] m items by simp
    qed (simp_all add: dump del: json_dumps.simps)
  qed
qed

lemma reads_as_dumps: "wf_py v \<Longrightarrow> reads_as (json_dumps v) (normalize v)"
proof (induction v rule: json_dumps.induct)
  case 1
  then show ?case
    by (auto simp: reads_as_def startswith_def is_ws_def Suc_le_eq dest!: less_imp_Suc_add)
next
  case (2 b)
  then show ?case
    by (auto simp: reads_as_def startswith_def is_ws_def Suc_le_eq dest!: less_imp_Suc_add)
next
  case (3 i)
  obtain c cs where c: "int_repr i = c # cs" and "c = CHR ''-'' \<or> is_digit c"
    using int_repr_hd by blast
  then have "\<not> is_ws c \<and> c \<noteq> CHR '']'' \<and> c \<noteq> CHR ''}''" using digit_not_special [of c] by auto
  moreover have "parse_value n (int_repr i @ r) = Some (PInt i, r)"
    if "length (int_repr i) \<le> n" "delimiter r" for n r
    using that c parse_value_number by (cases n) (simp, metis)
  ultimately show ?case
    using c by (simp add: reads_as_def del: parse_value.simps)
next
  case (4 s)
  then show ?case
    by (auto simp: reads_as_def json_string_def parse_string_body Suc_le_eq dest!: less_imp_Suc_add)
next
  case (5 xs)
  then show ?case by (simp add: reads_as_list list_all_iff)
next
  case (6 xs)
  then show ?case by (simp add: reads_as_list list_all_iff)
next
  case (7 kvs)
  then have "\<And>k v. (k, v) \<in> set kvs \<Longrightarrow> reads_as (json_dumps v) (normalize v)"
    by (auto simp: list_all_iff)
  with 7 show ?case by (intro reads_as_dict) auto
qed

section \<open>Normal forms\<close>

lemma normalize_idem [simp]: "normalize (normalize v) = normalize v"
proof (induction v rule: normalize.induct)
  case (3 kvs)
  have "sort_key fst (map (\<lambda>(k, v). (k, normalize v)) (sort_key fst (map (\<lambda>(k, v). (k, normalize v)) kvs)))
      = sort_key fst (map (\<lambda>(k, v). (k, normalize v)) (map (\<lambda>(k, v). (k, normalize v)) kvs))"
    by (simp only: sort_key_map_snd sort_key_idem)
  also have "\<dots> = sort_key fst (map (\<lambda>(k, v). (k, normalize v)) kvs)"
    using 3 by (intro arg_cong [where f = "sort_key fst"]) auto
  finally show ?case by simp
qed simp_all

lemma wf_py_normalize: "wf_py v \<Longrightarrow> wf_py (normalize v)"
  by (induction v rule: normalize.induct)
    (auto simp: list_all_iff distinct_fst_sort_key comp_def case_prod_unfold)

theorem json_loads_canonical:
  assumes "wf_py v"
  shows "json_loads (canonical_json v) = Some (normalize v)"
proof -
  have "reads_as (canonical_json v) (normalize v)"
    using reads_as_dumps [OF wf_py_normalize [OF assms]] by (simp add: canonical_json_def)
  then have "parse_value (Suc (length (canonical_json v))) (canonical_json v @ []) = Some (normalize v, [])"
    unfolding reads_as_def by (metis delimiter_simps(4) le_SucI order_refl)
  then show ?thesis by (simp add: json_loads_def del: parse_value.simps)
qed

theorem canonical_json_inject:
  assumes "wf_py v" and "wf_py w"
  shows "canonical_json v = canonical_json w \<longleftrightarrow> normalize v = normalize w"
proof
  assume "canonical_json v = canonical_json w"
  then have "Some (normalize v) = Some (normalize w)"
    using json_loads_canonical [OF assms(1)] json_loads_canonical [OF assms(2)] by simp
  then show "normalize v = normalize w" by simp
qed (simp add: canonical_json_def)

section \<open>Dictionaries with the same keys\<close>

declare normalize.simps(3) [simp del]

lemma normalize_dict_get:
  "normalize (PDict kvs) = PDict ls \<Longrightarrow> map_of ls k = map_option normalize (map_of kvs k)"
  by (auto simp: map_of_map_snd normalize.simps(3))

text \<open>Two dictionaries with the same distinct keys normalise alike iff their values do.\<close>

lemma normalize_dict_inject:
  assumes keys: "map fst kvs = map fst ls" and dist: "distinct (map fst kvs)"
  shows "normalize (PDict kvs) = normalize (PDict ls) \<longleftrightarrow>
    map (\<lambda>kv. normalize (snd kv)) kvs = map (\<lambda>kv. normalize (snd kv)) ls"
proof
  assume eq: "normalize (PDict kvs) = normalize (PDict ls)"
  have len: "length kvs = length ls" using keys by (metis length_map)
  show "map (\<lambda>kv. normalize (snd kv)) kvs = map (\<lambda>kv. normalize (snd kv)) ls"
  proof (rule nth_equalityI)
    fix i
    assume "i < length (map (\<lambda>kv. normalize (snd kv)) kvs)"
    then have i: "i < length kvs" by simp
    let ?k = "fst (kvs ! i)"
    have "fst (ls ! i) = ?k" using keys i len by (metis nth_map)
    then have "map_of kvs ?k = Some (snd (kvs ! i))" "map_of ls ?k = Some (snd (ls ! i))"
      using map_of_is_SomeI [OF dist] map_of_is_SomeI [OF dist [unfolded keys]] i len
      by (metis nth_mem prod.collapse)+
    moreover obtain ds where "normalize (PDict kvs) = PDict ds" "normalize (PDict ls) = PDict ds"
      using eq by (simp add: normalize.simps(3))
    ultimately show "map (\<lambda>kv. normalize (snd kv)) kvs ! i = map (\<lambda>kv. normalize (snd kv)) ls ! i"
      using normalize_dict_get [of kvs ds ?k] normalize_dict_get [of ls ds ?k] i len by simp
  qed (simp add: len)
next
  assume vals: "map (\<lambda>kv. normalize (snd kv)) kvs = map (\<lambda>kv. normalize (snd kv)) ls"
  have items: "map (\<lambda>(k, v). (k, normalize v)) xs = zip (map fst xs) (map (\<lambda>kv. normalize (snd kv)) xs)" for xs
    by (induction xs) auto
  show "normalize (PDict kvs) = normalize (PDict ls)"
    unfolding normalize.simps(3) items keys vals ..
qed

lemma map_eq_iff_inj: "(\<And>x y. f x = f y \<longleftrightarrow> x = y) \<Longrightarrow> map f xs = map f ys \<longleftrightarrow> xs = ys"
  by (rule inj_map_eq_map) (auto intro: injI)

section \<open>Properties\<close>

text \<open>Canonical text identifies a value: what is stored is read back as the same value up to
  normalisation (sorted keys, tuples as lists), and two values have the same canonical text
  exactly when they normalise to the same value.\<close>

theorem canonical_text_identity:
  assumes "wf_py v" and "wf_py w"
  shows "json_loads (canonical_json v) = Some (normalize v) \<and>
    (canonical_json v = canonical_json w \<longleftrightarrow> normalize v = normalize w)"
  using assms by (simp add: json_loads_canonical canonical_json_inject)

theorem canonical_text_identity_witness:
  "json_loads (canonical_json (PDict [(''b'', PTuple [PInt 1]), (''a'', PNone)]))
     = Some (normalize (PDict [(''b'', PTuple [PInt 1]), (''a'', PNone)])) \<and>
   (canonical_json (PDict [(''b'', PTuple [PInt 1]), (''a'', PNone)]) = canonical_json (PDict [(''a'', PNone), (''b'', PList [PInt 1])])
     \<longleftrightarrow> normalize (PDict [(''b'', PTuple [PInt 1]), (''a'', PNone)]) = normalize (PDict [(''a'', PNone), (''b'', PList [PInt 1])]))"
proof -
  have "wf_py (PDict [(''b'', PTuple [PInt 1]), (''a'', PNone)])" "wf_py (PDict [(''a'', PNone), (''b'', PList [PInt 1])])"
    by simp_all
  then show ?thesis by (rule canonical_text_identity)
qed

end
