(* ===== verification/Encoding.thy ===== *)
theory Encoding
  imports Json_Loads
begin

text \<open>
  How the program's classes become Python values and come back. The first part is the
  vocabulary of \<open>asdict\<close> encodings and of \<open>from_dict\<close> decoders (\<open>d["k"]\<close>,
  \<open>d.get\<close>, \<open>str\<close>, \<open>int\<close>, truthiness, iteration, keyword construction). The second
  part states the two interfaces the rest of the development relies on: \<open>encoding\<close>, an
  injective encoding of a class, from which equal digests mean equal objects as long as the
  digest function has no collision between the two texts; and \<open>codec\<close>, an encoding with a
  decoder, which gives the round trip through stored JSON text.
\<close>

section \<open>Encoding helpers\<close>

definition py_opt :: "('a \<Rightarrow> pyval) \<Rightarrow> 'a option \<Rightarrow> pyval" where
  "py_opt f x = (case x of None \<Rightarrow> PNone | Some y \<Rightarrow> f y)"

definition py_strs :: "string list \<Rightarrow> pyval" where
  "py_strs xs = PTuple (map PStr xs)"

lemma py_opt_simps [simp]: "py_opt f None = PNone" "py_opt f (Some x) = f x"
  by (simp_all add: py_opt_def)

lemma wf_py_strs [simp]: "wf_py (py_strs xs)"
  by (simp add: py_strs_def list_all_iff)

lemma normalize_strs [simp]: "normalize (py_strs xs) = PList (map PStr xs)"
  by (simp add: py_strs_def)

lemma normalize_comp_PStr [simp]: "normalize \<circ> PStr = PStr"
  by (rule ext) simp

lemma map_PStr_inject [simp]: "map PStr xs = map PStr ys \<longleftrightarrow> xs = ys"
  by (rule map_eq_iff_inj) simp

lemma wf_py_opt: "(\<And>y. x = Some y \<Longrightarrow> wf_py (f y)) \<Longrightarrow> wf_py (py_opt f x)"
  by (cases x) auto

lemma normalize_opt: "normalize (py_opt f x) = py_opt (\<lambda>y. normalize (f y)) x"
  by (cases x) auto

text \<open>An optional field is determined by its encoding when \<open>None\<close> is not a value.\<close>

lemma py_opt_inject:
  assumes "\<And>x y. f x = f y \<longleftrightarrow> x = y" and "\<And>x. f x \<noteq> PNone"
  shows "py_opt f a = py_opt f b \<longleftrightarrow> a = b"
  using assms by (cases a; cases b) (auto dest: sym)

lemma py_opt_PStr_inject [simp]: "py_opt PStr a = py_opt PStr b \<longleftrightarrow> a = b"
  by (rule py_opt_inject) auto

lemma normalize_opt_PStr [simp]: "normalize (py_opt PStr a) = py_opt PStr a"
  by (cases a) auto

lemma wf_py_opt_PStr [simp]: "wf_py (py_opt PStr a)"
  by (cases a) auto

text \<open>The same for optional integers.\<close>

lemma py_opt_PInt_inject [simp]: "py_opt PInt a = py_opt PInt b \<longleftrightarrow> a = b"
  by (rule py_opt_inject) auto

lemma normalize_opt_PInt [simp]: "normalize (py_opt PInt a) = py_opt PInt a"
  by (simp add: normalize_opt)

lemma wf_py_opt_PInt [simp]: "wf_py (py_opt PInt a)"
  by (rule wf_py_opt) simp

section \<open>Decoding helpers\<close>

text \<open>\<open>data["k"]\<close> and \<open>data.get("k", default)\<close>.\<close>

definition py_index :: "pyval \<Rightarrow> string \<Rightarrow> pyval exc" where
  "py_index d k = (case d of
     PDict kvs \<Rightarrow> (case map_of kvs k of Some v \<Rightarrow> Inr v | None \<Rightarrow> Inl (KeyError k))
   | _ \<Rightarrow> Inl (TypeError ''object is not subscriptable by a string''))"

definition py_get :: "pyval \<Rightarrow> string \<Rightarrow> pyval \<Rightarrow> pyval exc" where
  "py_get d k v0 = (case d of
     PDict kvs \<Rightarrow> (case map_of kvs k of Some v \<Rightarrow> Inr v | None \<Rightarrow> Inr v0)
   | _ \<Rightarrow> Inl (AttributeError ''get''))"

definition py_is_dict :: "pyval \<Rightarrow> bool" where
  "py_is_dict d = (case d of PDict _ \<Rightarrow> True | _ \<Rightarrow> False)"

text \<open>Truth value testing.\<close>

definition py_truth :: "pyval \<Rightarrow> bool" where
  "py_truth v = (case v of
     PNone \<Rightarrow> False | PBool b \<Rightarrow> b | PInt i \<Rightarrow> i \<noteq> 0 | PStr s \<Rightarrow> s \<noteq> []
   | PList xs \<Rightarrow> xs \<noteq> [] | PTuple xs \<Rightarrow> xs \<noteq> [] | PDict kvs \<Rightarrow> kvs \<noteq> [])"

text \<open>
  \<open>str(v)\<close>. The text of a container (its \<open>repr\<close>) is not modelled and is an error here.
\<close>

definition py_str :: "pyval \<Rightarrow> string exc" where
  "py_str v = (case v of
     PStr s \<Rightarrow> Inr s | PInt i \<Rightarrow> Inr (int_repr i) | PNone \<Rightarrow> Inr ''None''
   | PBool b \<Rightarrow> Inr (if b then ''True'' else ''False'')
   | _ \<Rightarrow> Inl (TypeError ''str of a container''))"

text \<open>Decimal digits with single underscores between them, and \<open>int(v)\<close>.\<close>

fun dec_digits_ok :: "string \<Rightarrow> bool" where
  "dec_digits_ok [] = False"
| "dec_digits_ok [c] = is_digit c"
| "dec_digits_ok (c # d # cs) =
     (is_digit c \<and> (if d = CHR ''_'' then dec_digits_ok cs else dec_digits_ok (d # cs)))"

definition int_of_text :: "string \<Rightarrow> int exc" where
  "int_of_text s = (let t = strip s; ds = drop_sign t in
     if dec_digits_ok ds then
       (let n = foldl (\<lambda>n d. 10 * n + digit_value d) 0 (filter is_digit ds) in
        Inr (if hd t = CHR ''-'' then - int n else int n))
     else Inl (ValueError ''invalid literal for int() with base 10''))"

definition py_int :: "pyval \<Rightarrow> int exc" where
  "py_int v = (case v of
     PInt i \<Rightarrow> Inr i | PBool b \<Rightarrow> Inr (of_bool b) | PStr s \<Rightarrow> int_of_text s
   | _ \<Rightarrow> Inl (TypeError ''int() argument must be a string or a number''))"

text \<open>Iteration: over a string it yields its characters, over a dictionary its keys.\<close>

definition py_iter :: "pyval \<Rightarrow> pyval list exc" where
  "py_iter v = (case v of
     PList xs \<Rightarrow> Inr xs | PTuple xs \<Rightarrow> Inr xs | PStr s \<Rightarrow> Inr (map (\<lambda>c. PStr [c]) s)
   | PDict kvs \<Rightarrow> Inr (map (\<lambda>kv. PStr (fst kv)) kvs)
   | _ \<Rightarrow> Inl (TypeError ''object is not iterable''))"

text \<open>\<open>f(v) if v is not None else None\<close>.\<close>

definition py_unless_none :: "(pyval \<Rightarrow> 'a exc) \<Rightarrow> pyval \<Rightarrow> 'a option exc" where
  "py_unless_none f v = (if v = PNone then Inr None else ebind (f v) (\<lambda>x. Inr (Some x)))"

text \<open>\<open>isinstance(data, dict) and data.get("schema_version") == expected\<close>.\<close>

definition has_schema :: "pyval \<Rightarrow> string \<Rightarrow> bool" where
  "has_schema d expected \<longleftrightarrow> py_is_dict d \<and> py_get d ''schema_version'' PNone = Inr (PStr expected)"

text \<open>
  \<open>C(**data)\<close>: an unknown keyword or a missing required one is a \<open>TypeError\<close>. Python
  then stores any value in any field; the model's fields are typed as annotated, so a value
  of another JSON type is a \<open>TypeError\<close> at this point.
\<close>

definition py_kwargs :: "string list \<Rightarrow> string list \<Rightarrow> pyval \<Rightarrow> (string \<times> pyval) list exc" where
  "py_kwargs req opt d = (case d of
     PDict kvs \<Rightarrow>
       (if \<not> list_all (\<lambda>kv. fst kv \<in> set (req @ opt)) kvs
        then Inl (TypeError ''unexpected keyword argument'')
        else if \<not> list_all (\<lambda>k. map_of kvs k \<noteq> None) req
        then Inl (TypeError ''missing required argument'')
        else Inr kvs)
   | _ \<Rightarrow> Inl (TypeError ''argument after ** must be a mapping''))"

definition kw :: "(string \<times> pyval) list \<Rightarrow> string \<Rightarrow> pyval \<Rightarrow> pyval" where
  "kw kvs k v0 = (case map_of kvs k of Some v \<Rightarrow> v | None \<Rightarrow> v0)"

definition typed_str :: "pyval \<Rightarrow> string exc" where
  "typed_str v = (case v of PStr s \<Rightarrow> Inr s | _ \<Rightarrow> Inl (TypeError ''str expected''))"

definition typed_int :: "pyval \<Rightarrow> int exc" where
  "typed_int v = (case v of PInt i \<Rightarrow> Inr i | _ \<Rightarrow> Inl (TypeError ''int expected''))"

definition typed_bool :: "pyval \<Rightarrow> bool exc" where
  "typed_bool v = (case v of PBool b \<Rightarrow> Inr b | _ \<Rightarrow> Inl (TypeError ''bool expected''))"

lemma py_kwargs_Inr: "py_kwargs req opt d = Inr kvs \<Longrightarrow> d = PDict kvs"
  by (auto simp: py_kwargs_def split: pyval.splits if_splits)

lemma has_schema_kw: "has_schema (PDict kvs) expected \<Longrightarrow> kw kvs ''schema_version'' v0 = PStr expected"
  by (auto simp: has_schema_def py_get_def kw_def split: option.splits)

lemma typed_simps [simp]:
  "typed_str (PStr s) = Inr s" "typed_int (PInt i) = Inr i" "typed_bool (PBool b) = Inr b"
  "py_str (PStr s) = Inr s" "py_int (PInt i) = Inr i"
  "py_iter (PList xs) = Inr xs"
  "py_unless_none f PNone = Inr None"
  "py_is_dict (PDict kvs)" "\<not> py_is_dict PNone"
  by (simp_all add: typed_str_def typed_int_def typed_bool_def py_str_def py_int_def py_iter_def
      py_unless_none_def py_is_dict_def)

lemma py_unless_none_opt:
  "(\<And>y. x = Some y \<Longrightarrow> f (g y) = Inr y \<and> g y \<noteq> PNone) \<Longrightarrow> py_unless_none f (py_opt g x) = Inr x"
  by (cases x) (auto simp: py_unless_none_def)

lemma py_unless_none_typed_str [simp]: "py_unless_none typed_str (py_opt PStr x) = Inr x"
  by (rule py_unless_none_opt) simp

lemma py_unless_none_py_str [simp]: "py_unless_none py_str (py_opt PStr x) = Inr x"
  by (rule py_unless_none_opt) simp

text \<open>Reading a normalised dictionary is reading the original one.\<close>

lemma py_index_normalize [simp]:
  "py_index (normalize (PDict kvs)) k =
    (case map_of kvs k of Some v \<Rightarrow> Inr (normalize v) | None \<Rightarrow> Inl (KeyError k))"
  by (simp add: py_index_def normalize.simps(3) map_of_map_snd split: option.splits)

lemma py_get_normalize [simp]:
  "py_get (normalize (PDict kvs)) k v0 =
    (case map_of kvs k of Some v \<Rightarrow> Inr (normalize v) | None \<Rightarrow> Inr v0)"
  by (simp add: py_get_def normalize.simps(3) map_of_map_snd split: option.splits)

lemma py_is_dict_normalize [simp]: "py_is_dict (normalize (PDict kvs))"
  by (simp add: normalize.simps(3))

lemma has_schema_normalize [simp]:
  "has_schema (normalize (PDict kvs)) expected \<longleftrightarrow> map_option normalize (map_of kvs ''schema_version'') = Some (PStr expected)"
  by (auto simp: has_schema_def split: option.splits)

definition normal_items :: "(string \<times> pyval) list \<Rightarrow> (string \<times> pyval) list" where
  "normal_items kvs = sort_key fst (map (\<lambda>(k, v). (k, normalize v)) kvs)"

lemma kw_normal_items [simp]:
  "kw (normal_items kvs) k v0 = (case map_of kvs k of Some v \<Rightarrow> normalize v | None \<Rightarrow> v0)"
  by (simp add: kw_def normal_items_def map_of_map_snd split: option.splits)

lemma py_kwargs_normalize:
  assumes "list_all (\<lambda>k. k \<in> set (req @ opt)) (map fst kvs)" and "list_all (\<lambda>k. k \<in> set (map fst kvs)) req"
  shows "py_kwargs req opt (normalize (PDict kvs)) = Inr (normal_items kvs)"
proof -
  have "map_of (normal_items kvs) k \<noteq> None" if "k \<in> set req" for k
    using assms(2) that by (auto simp: normal_items_def map_of_map_snd list_all_iff map_of_eq_None_iff)
  moreover have "fst kv \<in> set (req @ opt)" if "kv \<in> set (normal_items kvs)" for kv
    using assms(1) that by (auto simp: normal_items_def list_all_iff)
  ultimately show ?thesis
    by (auto simp: py_kwargs_def normalize.simps(3) list_all_iff normal_items_def)
qed

text \<open>Removing a key from a normalised dictionary.\<close>

lemma normalize_PDict: "normalize (PDict kvs) = PDict (normal_items kvs)"
  by (simp add: normalize.simps(3) normal_items_def)

lemma set_normal_items: "fst ` set (normal_items kvs) = fst ` set kvs"
  by (simp add: normal_items_def image_image case_prod_unfold)

lemma normal_items_filter:
  "normal_items (filter (\<lambda>kv. fst kv \<noteq> k) kvs) = filter (\<lambda>kv. fst kv \<noteq> k) (normal_items kvs)"
proof -
  have "filter (\<lambda>kv. fst kv \<noteq> k) (map (\<lambda>(k, v). (k, normalize v)) kvs) =
      map (\<lambda>(k, v). (k, normalize v)) (filter (\<lambda>kv. fst kv \<noteq> k) kvs)"
    by (induction kvs) auto
  then show ?thesis by (simp add: normal_items_def filter_sort)
qed

lemma digest_without_key:
  "sha256_digest h (PDict (filter (\<lambda>kv. fst kv \<noteq> k) (normal_items kvs))) =
   sha256_digest h (PDict (filter (\<lambda>kv. fst kv \<noteq> k) kvs))"
proof -
  have "normalize (PDict (normal_items ls)) = normalize (PDict ls)" for ls
    by (simp only: normalize_PDict [symmetric] normalize_idem)
  then show ?thesis
    by (simp only: sha256_digest_def canonical_json_def normal_items_filter [symmetric])
qed

section \<open>The interfaces\<close>

definition collision_free :: "hash \<Rightarrow> string set \<Rightarrow> bool" where
  "collision_free h T \<longleftrightarrow> inj_on h T"

lemma collision_freeD: "collision_free h T \<Longrightarrow> s \<in> T \<Longrightarrow> t \<in> T \<Longrightarrow> h s = h t \<longleftrightarrow> s = t"
  by (auto simp: collision_free_def inj_on_def)

lemma collision_free_subset: "collision_free h T \<Longrightarrow> S \<subseteq> T \<Longrightarrow> collision_free h S"
  by (auto simp: collision_free_def intro: inj_on_subset)

lemma sha256_digest_inject [simp]: "sha256_digest h v = sha256_digest h w \<longleftrightarrow> h (canonical_json v) = h (canonical_json w)"
  by (simp add: sha256_digest_def)

locale encoding =
  fixes enc :: "'a \<Rightarrow> pyval"
  assumes enc_wf: "wf_py (enc x)"
    and enc_inject: "normalize (enc x) = normalize (enc y) \<longleftrightarrow> x = y"
begin

lemma canonical_inject: "canonical_json (enc x) = canonical_json (enc y) \<longleftrightarrow> x = y"
  by (simp add: canonical_json_inject enc_wf enc_inject)

text \<open>Equal digests mean equal objects, unless the two texts are a collision.\<close>

lemma digest_inject:
  "collision_free h {canonical_json (enc x), canonical_json (enc y)} \<Longrightarrow>
   sha256_digest h (enc x) = sha256_digest h (enc y) \<longleftrightarrow> x = y"
  by (simp add: collision_freeD canonical_inject)

end

locale codec = encoding +
  fixes dec :: "pyval \<Rightarrow> 'a exc" and ok :: "'a \<Rightarrow> bool"
  assumes dec_enc: "ok x \<Longrightarrow> dec (normalize (enc x)) = Inr x"
begin

text \<open>Stored text is read back to the object that was written.\<close>

lemma loads_dumps: "ok x \<Longrightarrow> \<exists>d. json_loads (canonical_json (enc x)) = Some d \<and> dec d = Inr x"
  by (simp add: json_loads_canonical enc_wf dec_enc)

end

text \<open>A decoder that accepts exactly the valid objects' encodings, and only as themselves.\<close>

locale strict_codec = encoding +
  fixes dec :: "pyval \<Rightarrow> 'a exc" and ok :: "'a \<Rightarrow> bool"
  assumes dec_iff: "dec (normalize (enc x)) = Inr y \<longleftrightarrow> ok x \<and> y = x"

sublocale strict_codec \<subseteq> codec
  by unfold_locales (simp add: dec_iff)

context strict_codec
begin

lemma emap_dec: "emap dec (map (normalize \<circ> enc) xs) = Inr ys \<longleftrightarrow> list_all ok xs \<and> ys = xs"
  by (induction xs arbitrary: ys) (auto simp: exc_simps dec_iff)

end

text \<open>
  A decoder that only ever returns valid objects. A reader that also checks that the text is the
  canonical one then accepts exactly the canonical texts of the valid objects.
\<close>

locale sound_codec = codec +
  assumes dec_ok: "dec d = Inr x \<Longrightarrow> ok x"

context sound_codec
begin

lemma canonical_reader: "(\<exists>d. json_loads t = Some d \<and> dec d = Inr x) \<and> canonical_json (enc x) = t \<longleftrightarrow>
   ok x \<and> t = canonical_json (enc x)"
  using loads_dumps dec_ok by blast

lemma emap_ok: "emap dec ds = Inr xs \<Longrightarrow> list_all ok xs"
  by (induction ds arbitrary: xs) (auto simp: exc_simps dec_ok)

end

end
