(* ===== verification/Models.thy ===== *)
theory Models
  imports Encoding
begin

text \<open>
  The value objects of the protocol (\<open>models.py\<close>). A frozen dataclass is a record whose
  fields carry a prefix for their class (\<open>es_\<close> for \<open>ExecutionSpec\<close>, \<open>rc_\<close> for
  \<open>RunnerCapabilities\<close>, ...); \<open>X_py\<close> is its \<open>asdict\<close> dictionary, \<open>X_init\<close> the
  checks of its \<open>__post_init__\<close> in source order (the object itself, or the exception), and
  \<open>X_digest\<close>, \<open>X_id\<close> its digest properties. The interpretations show that every
  encoding is injective, so digests identify objects.
\<close>

section \<open>Constructor checks\<close>

definition check_nonempty :: "string \<Rightarrow> string \<Rightarrow> unit exc" where
  "check_nonempty name value =
     (if blank value then Inl (ValueError (name @ '' must be non-empty'')) else Inr ())"

definition check_unique :: "string \<Rightarrow> string list \<Rightarrow> unit exc" where
  "check_unique name values =
     (if length values \<noteq> length (remdups values)
      then Inl (ValueError (name @ '' must not contain duplicates'')) else Inr ())"

lemma length_remdups_eq: "length xs \<noteq> length (remdups xs) \<longleftrightarrow> \<not> distinct xs"
  by (metis distinct_remdups length_remdups_eq remdups_id_iff_distinct)

lemma check_nonempty_Inr [exc_simps]: "check_nonempty n v = Inr u \<longleftrightarrow> \<not> blank v"
  by (simp add: check_nonempty_def)

lemma check_unique_Inr [exc_simps]: "check_unique n vs = Inr u \<longleftrightarrow> distinct vs"
  using length_remdups_eq [of vs] by (auto simp: check_unique_def)

definition valid_modes :: "string list" where
  "valid_modes = [''read_only'', ''bounded_write'']"

definition valid_result_statuses :: "string list" where
  "valid_result_statuses = [''completed'', ''failed'']"

text \<open>The shape \<open>sha256:<64-hex>\<close>, as the constructors test it.\<close>

definition digest_shape :: "string \<Rightarrow> bool" where
  "digest_shape d \<longleftrightarrow> startswith d ''sha256:'' \<and> length d = 71"

definition digest_ok :: "string \<Rightarrow> bool" where
  "digest_ok d \<longleftrightarrow> digest_shape d \<and> int16_ok (drop 7 d)"

section \<open>ArtifactRef\<close>

record artifact_ref =
  ar_name :: string
  ar_uri :: string
  ar_digest :: string

definition artifact_ref_py :: "artifact_ref \<Rightarrow> pyval" where
  "artifact_ref_py x = PDict [
    (''name'', PStr (ar_name x)),
    (''uri'', PStr (ar_uri x)),
    (''digest'', PStr (ar_digest x))]"

definition artifact_ref_init :: "artifact_ref \<Rightarrow> artifact_ref exc" where
  "artifact_ref_init r =
     ebind (check_nonempty ''artifact.name'' (ar_name r)) (\<lambda>_.
     ebind (check_nonempty ''artifact.uri'' (ar_uri r)) (\<lambda>_.
     if \<not> digest_shape (ar_digest r)
     then Inl (ValueError ''artifact.digest must be a sha256:<64-hex> digest'')
     else if \<not> int16_ok (drop 7 (ar_digest r))
     then Inl (ValueError ''artifact.digest must contain 64 hexadecimal characters'')
     else Inr r))"

lemma artifact_ref_init_eq [exc_simps]: "artifact_ref_init r = Inr r' \<longleftrightarrow>
   r' = r \<and> \<not> blank (ar_name r) \<and> \<not> blank (ar_uri r) \<and> digest_ok (ar_digest r)"
  by (auto simp: artifact_ref_init_def digest_ok_def exc_simps)

interpretation artifact_ref: encoding artifact_ref_py
proof unfold_locales
  show "wf_py (artifact_ref_py x)" for x
    by (simp add: artifact_ref_py_def)
  show "normalize (artifact_ref_py x) = normalize (artifact_ref_py y) \<longleftrightarrow> x = y" for x y
    by (cases x; cases y) (simp add: artifact_ref_py_def normalize_dict_inject)
qed

lemmas artifact_ref_wf [simp] = artifact_ref.enc_wf
lemmas artifact_ref_inject [simp] = artifact_ref.enc_inject

section \<open>Optional and repeated members\<close>

text \<open>Pairs of strings, as in \<open>ExecutionSpec.metadata\<close>.\<close>

definition py_pairs :: "(string \<times> string) list \<Rightarrow> pyval" where
  "py_pairs kvs = PTuple (map (\<lambda>(k, v). PTuple [PStr k, PStr v]) kvs)"

lemma wf_py_pairs [simp]: "wf_py (py_pairs kvs)"
  by (auto simp: py_pairs_def list_all_iff)

lemma normalize_pairs_inject [simp]: "normalize (py_pairs xs) = normalize (py_pairs ys) \<longleftrightarrow> xs = ys"
proof -
  have "map (\<lambda>kv. PList [PStr (fst kv), PStr (snd kv)]) xs = map (\<lambda>kv. PList [PStr (fst kv), PStr (snd kv)]) ys \<longleftrightarrow> xs = ys"
    by (rule map_eq_iff_inj) (auto simp: prod_eq_iff)
  then show ?thesis by (simp add: py_pairs_def comp_def case_prod_unfold)
qed

lemma dict_not_None [simp]: "normalize (PDict kvs) \<noteq> PNone"
  by (simp add: normalize.simps(3))

context encoding
begin

lemma list_wf: "list_all wf_py (map enc xs)"
  by (auto simp: list_all_iff enc_wf)

lemma list_inject: "map (normalize \<circ> enc) xs = map (normalize \<circ> enc) ys \<longleftrightarrow> xs = ys"
  by (rule map_eq_iff_inj) (simp add: enc_inject)

lemma opt_wf: "wf_py (py_opt enc x)"
  by (cases x) (auto simp: enc_wf)

lemma opt_inject:
  "(\<And>x. normalize (enc x) \<noteq> PNone) \<Longrightarrow> normalize (py_opt enc x) = normalize (py_opt enc y) \<longleftrightarrow> x = y"
  unfolding normalize_opt by (rule py_opt_inject) (rule enc_inject)

end

lemma artifact_ref_opt_inject [simp]: "normalize (py_opt artifact_ref_py x) = normalize (py_opt artifact_ref_py y) \<longleftrightarrow> x = y"
  by (rule artifact_ref.opt_inject) (simp add: artifact_ref_py_def)

lemmas artifact_ref_list [simp] = artifact_ref.list_wf artifact_ref.list_inject artifact_ref.opt_wf

section \<open>ExecutionSpec\<close>

record execution_spec =
  es_producer :: string
  es_producer_revision :: string
  es_task_kind :: string
  es_objective :: string
  es_source_revision :: string
  es_required_capabilities :: "string list"
  es_allowed_scopes :: "string list"
  es_forbidden_actions :: "string list"
  es_evidence_requirements :: "string list"
  es_inputs :: "artifact_ref list"
  es_authority_ref :: "artifact_ref option"
  es_metadata :: "(string \<times> string) list"
  es_schema_version :: string

definition execution_spec_py :: "execution_spec \<Rightarrow> pyval" where
  "execution_spec_py x = PDict [
    (''producer'', PStr (es_producer x)),
    (''producer_revision'', PStr (es_producer_revision x)),
    (''task_kind'', PStr (es_task_kind x)),
    (''objective'', PStr (es_objective x)),
    (''source_revision'', PStr (es_source_revision x)),
    (''required_capabilities'', py_strs (es_required_capabilities x)),
    (''allowed_scopes'', py_strs (es_allowed_scopes x)),
    (''forbidden_actions'', py_strs (es_forbidden_actions x)),
    (''evidence_requirements'', py_strs (es_evidence_requirements x)),
    (''inputs'', PTuple (map artifact_ref_py (es_inputs x))),
    (''authority_ref'', py_opt artifact_ref_py (es_authority_ref x)),
    (''metadata'', py_pairs (es_metadata x)),
    (''schema_version'', PStr (es_schema_version x))]"

definition execution_spec_init :: "execution_spec \<Rightarrow> execution_spec exc" where
  "execution_spec_init s =
     ebind (eall (\<lambda>(n, v). check_nonempty n v)
       [(''producer'', es_producer s), (''producer_revision'', es_producer_revision s),
        (''task_kind'', es_task_kind s), (''objective'', es_objective s),
        (''source_revision'', es_source_revision s)]) (\<lambda>_.
     ebind (eall (\<lambda>(n, vs). check_unique n vs)
       [(''required_capabilities'', es_required_capabilities s), (''allowed_scopes'', es_allowed_scopes s),
        (''forbidden_actions'', es_forbidden_actions s),
        (''evidence_requirements'', es_evidence_requirements s)]) (\<lambda>_.
     if length (map fst (es_metadata s)) \<noteq> length (remdups (map fst (es_metadata s)))
     then Inl (ValueError ''metadata keys must be unique'') else Inr s))"

lemma execution_spec_init_eq [exc_simps]: "execution_spec_init s = Inr s' \<longleftrightarrow>
   s' = s \<and> (\<forall>v\<in>{es_producer s, es_producer_revision s, es_task_kind s, es_objective s, es_source_revision s}. \<not> blank v)
   \<and> (\<forall>vs\<in>{es_required_capabilities s, es_allowed_scopes s, es_forbidden_actions s, es_evidence_requirements s}. distinct vs)
   \<and> distinct (map fst (es_metadata s))"
  using length_remdups_eq [of "map fst (es_metadata s)"]
  by (auto simp: execution_spec_init_def exc_simps)

interpretation execution_spec: encoding execution_spec_py
proof unfold_locales
  show "wf_py (execution_spec_py x)" for x
    by (simp add: execution_spec_py_def)
  show "normalize (execution_spec_py x) = normalize (execution_spec_py y) \<longleftrightarrow> x = y" for x y
    by (cases x; cases y) (simp add: execution_spec_py_def normalize_dict_inject)
qed

lemmas execution_spec_wf [simp] = execution_spec.enc_wf
lemmas execution_spec_inject [simp] = execution_spec.enc_inject

definition spec_digest :: "hash \<Rightarrow> execution_spec \<Rightarrow> string" where
  "spec_digest h s = sha256_digest h (execution_spec_py s)"

definition spec_id :: "hash \<Rightarrow> execution_spec \<Rightarrow> string" where
  "spec_id h s = stable_id h ''ges'' (execution_spec_py s)"

section \<open>RunnerCapabilities and RunnerRegistry\<close>

record runner_capabilities =
  rc_runner_id :: string
  rc_provider :: string
  rc_adapter :: string
  rc_adapter_version :: string
  rc_capabilities :: "string list"
  rc_modes :: "string list"
  rc_max_parallelism :: int

definition runner_capabilities_py :: "runner_capabilities \<Rightarrow> pyval" where
  "runner_capabilities_py x = PDict [
    (''runner_id'', PStr (rc_runner_id x)),
    (''provider'', PStr (rc_provider x)),
    (''adapter'', PStr (rc_adapter x)),
    (''adapter_version'', PStr (rc_adapter_version x)),
    (''capabilities'', py_strs (rc_capabilities x)),
    (''modes'', py_strs (rc_modes x)),
    (''max_parallelism'', PInt (rc_max_parallelism x))]"

definition runner_capabilities_init :: "runner_capabilities \<Rightarrow> runner_capabilities exc" where
  "runner_capabilities_init r =
     ebind (eall (\<lambda>(n, v). check_nonempty n v)
       [(''runner_id'', rc_runner_id r), (''provider'', rc_provider r), (''adapter'', rc_adapter r),
        (''adapter_version'', rc_adapter_version r)]) (\<lambda>_.
     ebind (check_unique ''capabilities'' (rc_capabilities r)) (\<lambda>_.
     ebind (check_unique ''modes'' (rc_modes r)) (\<lambda>_.
     if rc_modes r = [] \<or> list_ex (\<lambda>m. m \<notin> set valid_modes) (rc_modes r)
     then Inl (ValueError ''modes must contain only read_only or bounded_write'')
     else if rc_max_parallelism r < 1 then Inl (ValueError ''max_parallelism must be >= 1'')
     else Inr r)))"

lemma runner_capabilities_init_eq [exc_simps]: "runner_capabilities_init r = Inr r' \<longleftrightarrow>
   r' = r \<and> (\<forall>v\<in>{rc_runner_id r, rc_provider r, rc_adapter r, rc_adapter_version r}. \<not> blank v)
   \<and> distinct (rc_capabilities r) \<and> distinct (rc_modes r) \<and> rc_modes r \<noteq> []
   \<and> set (rc_modes r) \<subseteq> set valid_modes \<and> 1 \<le> rc_max_parallelism r"
  by (auto simp: runner_capabilities_init_def exc_simps list_ex_iff)

interpretation runner_capabilities: encoding runner_capabilities_py
proof unfold_locales
  show "wf_py (runner_capabilities_py x)" for x
    by (simp add: runner_capabilities_py_def)
  show "normalize (runner_capabilities_py x) = normalize (runner_capabilities_py y) \<longleftrightarrow> x = y" for x y
    by (cases x; cases y) (simp add: runner_capabilities_py_def normalize_dict_inject)
qed

lemmas runner_capabilities_wf [simp] = runner_capabilities.enc_wf
lemmas runner_capabilities_inject [simp] = runner_capabilities.enc_inject
lemmas runner_capabilities_list [simp] = runner_capabilities.list_wf runner_capabilities.list_inject

definition runner_digest :: "hash \<Rightarrow> runner_capabilities \<Rightarrow> string" where
  "runner_digest h r = sha256_digest h (runner_capabilities_py r)"

record runner_registry =
  rg_runners :: "runner_capabilities list"
  rg_schema_version :: string

definition runner_registry_init :: "runner_registry \<Rightarrow> runner_registry exc" where
  "runner_registry_init g =
     (if length (map rc_runner_id (rg_runners g)) \<noteq> length (remdups (map rc_runner_id (rg_runners g)))
      then Inl (ValueError ''runner ids must be unique'') else Inr g)"

lemma runner_registry_init_eq [exc_simps]:
  "runner_registry_init g = Inr g' \<longleftrightarrow> g' = g \<and> distinct (map rc_runner_id (rg_runners g))"
  using length_remdups_eq [of "map rc_runner_id (rg_runners g)"]
  by (auto simp: runner_registry_init_def)

text \<open>The registry digest does not depend on the order of the runners.\<close>

definition registry_py :: "runner_registry \<Rightarrow> pyval" where
  "registry_py g = PDict [
    (''schema_version'', PStr (rg_schema_version g)),
    (''runners'', PTuple (map runner_capabilities_py (sort_key rc_runner_id (rg_runners g))))]"

definition registry_digest :: "hash \<Rightarrow> runner_registry \<Rightarrow> string" where
  "registry_digest h g = sha256_digest h (registry_py g)"

section \<open>DispatchPlan\<close>

record dispatch_plan =
  dp_spec_id :: string
  dp_spec_digest :: string
  dp_registry_digest :: string
  dp_mode :: string
  dp_runner_id :: "string option"
  dp_runner_capability_digest :: "string option"
  dp_deferral_reason :: "string option"
  dp_schema_version :: string

definition dispatch_plan_py :: "dispatch_plan \<Rightarrow> pyval" where
  "dispatch_plan_py x = PDict [
    (''spec_id'', PStr (dp_spec_id x)),
    (''spec_digest'', PStr (dp_spec_digest x)),
    (''registry_digest'', PStr (dp_registry_digest x)),
    (''mode'', PStr (dp_mode x)),
    (''runner_id'', py_opt PStr (dp_runner_id x)),
    (''runner_capability_digest'', py_opt PStr (dp_runner_capability_digest x)),
    (''deferral_reason'', py_opt PStr (dp_deferral_reason x)),
    (''schema_version'', PStr (dp_schema_version x))]"

definition dispatch_plan_init :: "dispatch_plan \<Rightarrow> dispatch_plan exc" where
  "dispatch_plan_init p =
     (if dp_mode p \<notin> set valid_modes then Inl (ValueError ''mode must be read_only or bounded_write'')
      else if (dp_runner_id p = None) \<noteq> (dp_runner_capability_digest p = None)
      then Inl (ValueError ''runner_id and runner_capability_digest must be both present or both absent'')
      else if dp_runner_id p = None \<and> dp_deferral_reason p = None
      then Inl (ValueError ''a deferred plan requires deferral_reason'')
      else if dp_runner_id p \<noteq> None \<and> dp_deferral_reason p \<noteq> None
      then Inl (ValueError ''an assigned plan cannot have deferral_reason'')
      else Inr p)"

lemma dispatch_plan_init_eq [exc_simps]: "dispatch_plan_init p = Inr p' \<longleftrightarrow>
   p' = p \<and> dp_mode p \<in> set valid_modes \<and> (dp_runner_id p = None \<longleftrightarrow> dp_runner_capability_digest p = None)
   \<and> (dp_runner_id p = None \<longleftrightarrow> dp_deferral_reason p \<noteq> None)"
  by (auto simp: dispatch_plan_init_def)

interpretation dispatch_plan: encoding dispatch_plan_py
proof unfold_locales
  show "wf_py (dispatch_plan_py x)" for x
    by (simp add: dispatch_plan_py_def)
  show "normalize (dispatch_plan_py x) = normalize (dispatch_plan_py y) \<longleftrightarrow> x = y" for x y
    by (cases x; cases y) (simp add: dispatch_plan_py_def normalize_dict_inject)
qed

definition plan_digest :: "hash \<Rightarrow> dispatch_plan \<Rightarrow> string" where
  "plan_digest h p = sha256_digest h (dispatch_plan_py p)"

definition plan_id :: "hash \<Rightarrow> dispatch_plan \<Rightarrow> string" where
  "plan_id h p = stable_id h ''gep'' (dispatch_plan_py p)"

section \<open>ExecutionSession\<close>

record execution_session =
  xs_spec_id :: string
  xs_spec_digest :: string
  xs_plan_id :: string
  xs_plan_digest :: string
  xs_runner_id :: string
  xs_runner_capability_digest :: string
  xs_mode :: string
  xs_attempt :: int
  xs_state :: string
  xs_result_digest :: "string option"
  xs_schema_version :: string

definition execution_session_py :: "execution_session \<Rightarrow> pyval" where
  "execution_session_py x = PDict [
    (''spec_id'', PStr (xs_spec_id x)),
    (''spec_digest'', PStr (xs_spec_digest x)),
    (''plan_id'', PStr (xs_plan_id x)),
    (''plan_digest'', PStr (xs_plan_digest x)),
    (''runner_id'', PStr (xs_runner_id x)),
    (''runner_capability_digest'', PStr (xs_runner_capability_digest x)),
    (''mode'', PStr (xs_mode x)),
    (''attempt'', PInt (xs_attempt x)),
    (''state'', PStr (xs_state x)),
    (''result_digest'', py_opt PStr (xs_result_digest x)),
    (''schema_version'', PStr (xs_schema_version x))]"

definition execution_session_init :: "execution_session \<Rightarrow> execution_session exc" where
  "execution_session_init s =
     (if xs_attempt s < 1 then Inl (ValueError ''attempt must be >= 1'')
      else if xs_mode s \<notin> set valid_modes then Inl (ValueError ''mode must be read_only or bounded_write'')
      else if xs_state s = ''result_submitted'' \<and> xs_result_digest s = None
      then Inl (ValueError ''result_submitted state requires result_digest'')
      else if xs_state s \<noteq> ''result_submitted'' \<and> xs_result_digest s \<noteq> None
      then Inl (ValueError ''only result_submitted state may carry result_digest'')
      else Inr s)"

lemma execution_session_init_eq [exc_simps]: "execution_session_init s = Inr s' \<longleftrightarrow>
   s' = s \<and> 1 \<le> xs_attempt s \<and> xs_mode s \<in> set valid_modes
   \<and> (xs_state s = ''result_submitted'' \<longleftrightarrow> xs_result_digest s \<noteq> None)"
  by (auto simp: execution_session_init_def)

interpretation execution_session: encoding execution_session_py
proof unfold_locales
  show "wf_py (execution_session_py x)" for x
    by (simp add: execution_session_py_def)
  show "normalize (execution_session_py x) = normalize (execution_session_py y) \<longleftrightarrow> x = y" for x y
    by (cases x; cases y) (simp add: execution_session_py_def normalize_dict_inject)
qed

lemmas execution_session_wf [simp] = execution_session.enc_wf
lemmas execution_session_inject [simp] = execution_session.enc_inject

definition session_py :: "execution_session \<Rightarrow> pyval" where
  "session_py s = PDict [
    (''spec_digest'', PStr (xs_spec_digest s)),
    (''plan_digest'', PStr (xs_plan_digest s)),
    (''runner_id'', PStr (xs_runner_id s)),
    (''runner_capability_digest'', PStr (xs_runner_capability_digest s)),
    (''mode'', PStr (xs_mode s)),
    (''attempt'', PInt (xs_attempt s))]"

definition session_id :: "hash \<Rightarrow> execution_session \<Rightarrow> string" where
  "session_id h s = stable_id h ''gex'' (session_py s)"

text \<open>The session identity is made of fields that no transition of a session changes.\<close>

lemma session_id_update [simp]:
  "session_id h (s\<lparr>xs_state := st\<rparr>) = session_id h s"
  "session_id h (s\<lparr>xs_result_digest := d\<rparr>) = session_id h s"
  by (simp_all add: session_id_def session_py_def)

section \<open>ResultEnvelope\<close>

record result_envelope =
  re_session_id :: string
  re_spec_id :: string
  re_spec_digest :: string
  re_runner_id :: string
  re_attempt :: int
  re_status :: string
  re_output_artifacts :: "artifact_ref list"
  re_evidence :: "artifact_ref list"
  re_summary :: string
  re_schema_version :: string

definition result_envelope_py :: "result_envelope \<Rightarrow> pyval" where
  "result_envelope_py x = PDict [
    (''session_id'', PStr (re_session_id x)),
    (''spec_id'', PStr (re_spec_id x)),
    (''spec_digest'', PStr (re_spec_digest x)),
    (''runner_id'', PStr (re_runner_id x)),
    (''attempt'', PInt (re_attempt x)),
    (''status'', PStr (re_status x)),
    (''output_artifacts'', PTuple (map artifact_ref_py (re_output_artifacts x))),
    (''evidence'', PTuple (map artifact_ref_py (re_evidence x))),
    (''summary'', PStr (re_summary x)),
    (''schema_version'', PStr (re_schema_version x))]"

definition result_envelope_init :: "result_envelope \<Rightarrow> result_envelope exc" where
  "result_envelope_init r =
     ebind (eall (\<lambda>(n, v). check_nonempty n v)
       [(''session_id'', re_session_id r), (''spec_id'', re_spec_id r),
        (''spec_digest'', re_spec_digest r), (''runner_id'', re_runner_id r)]) (\<lambda>_.
     if re_attempt r < 1 then Inl (ValueError ''attempt must be >= 1'')
     else if re_status r \<notin> set valid_result_statuses
     then Inl (ValueError ''status must be completed or failed'')
     else Inr r)"

lemma result_envelope_init_eq [exc_simps]: "result_envelope_init r = Inr r' \<longleftrightarrow>
   r' = r \<and> (\<forall>v\<in>{re_session_id r, re_spec_id r, re_spec_digest r, re_runner_id r}. \<not> blank v)
   \<and> 1 \<le> re_attempt r \<and> re_status r \<in> set valid_result_statuses"
  by (auto simp: result_envelope_init_def exc_simps)

interpretation result_envelope: encoding result_envelope_py
proof unfold_locales
  show "wf_py (result_envelope_py x)" for x
    by (simp add: result_envelope_py_def)
  show "normalize (result_envelope_py x) = normalize (result_envelope_py y) \<longleftrightarrow> x = y" for x y
    by (cases x; cases y) (simp add: result_envelope_py_def normalize_dict_inject)
qed

lemmas result_envelope_wf [simp] = result_envelope.enc_wf result_envelope.opt_wf
lemmas result_envelope_inject [simp] = result_envelope.enc_inject

lemma result_envelope_opt_inject [simp]: "normalize (py_opt result_envelope_py x) = normalize (py_opt result_envelope_py y) \<longleftrightarrow> x = y"
  by (rule result_envelope.opt_inject) (simp add: result_envelope_py_def)

definition result_digest :: "hash \<Rightarrow> result_envelope \<Rightarrow> string" where
  "result_digest h r = sha256_digest h (result_envelope_py r)"

section \<open>An example\<close>

definition ex_spec :: execution_spec where
  "ex_spec = \<lparr>es_producer = ''ci'', es_producer_revision = ''r1'', es_task_kind = ''reference-probe'',
     es_objective = ''probe'', es_source_revision = ''abc'', es_required_capabilities = [''reference.probe''],
     es_allowed_scopes = [], es_forbidden_actions = [], es_evidence_requirements = [''reference-probe-digest''],
     es_inputs = [], es_authority_ref = None, es_metadata = [(''k'', ''v'')],
     es_schema_version = ''ge.execution-spec.v1''\<rparr>"

definition ex_runner :: runner_capabilities where
  "ex_runner = \<lparr>rc_runner_id = ''r1'', rc_provider = ''reference-provider'', rc_adapter = ''reference-adapter'',
     rc_adapter_version = ''1'', rc_capabilities = [''reference.probe''], rc_modes = [''read_only''],
     rc_max_parallelism = 1\<rparr>"

definition ex_other :: runner_capabilities where
  "ex_other = \<lparr>rc_runner_id = ''r0'', rc_provider = ''p'', rc_adapter = ''a'', rc_adapter_version = ''1'',
     rc_capabilities = [], rc_modes = [''read_only'', ''bounded_write''], rc_max_parallelism = 2\<rparr>"

definition ex_registry :: runner_registry where
  "ex_registry = \<lparr>rg_runners = [ex_other, ex_runner], rg_schema_version = ''ge.runner-registry.v1''\<rparr>"

lemma ex_valid:
  "execution_spec_init ex_spec = Inr ex_spec" "runner_capabilities_init ex_runner = Inr ex_runner"
  "runner_registry_init ex_registry = Inr ex_registry"
  by (simp_all add: exc_simps ex_spec_def ex_runner_def ex_registry_def ex_other_def blank_iff is_space_def valid_modes_def)

section \<open>Properties\<close>

text \<open>The content digest of a specification identifies it: as long as the two canonical texts
  are not a collision of the digest function, equal digests mean equal specifications in every
  field, and equal specifications have equal digests and identifiers.\<close>

theorem spec_digest_identity:
  assumes "collision_free h {canonical_json (execution_spec_py s), canonical_json (execution_spec_py t)}"
  shows "spec_digest h s = spec_digest h t \<longleftrightarrow> s = t"
  unfolding spec_digest_def by (rule execution_spec.digest_inject [OF assms])

theorem spec_digest_identity_witness:
  "spec_digest (\<lambda>t. t) ex_spec = spec_digest (\<lambda>t. t) (ex_spec\<lparr>es_objective := ''other''\<rparr>) \<longleftrightarrow>
   ex_spec = ex_spec\<lparr>es_objective := ''other''\<rparr>"
  by (rule spec_digest_identity) (simp add: collision_free_def)

end
