(* ===== verification/Planner.thy ===== *)
theory Planner
  imports Models
begin

text \<open>
  Deterministic planning (\<open>planner.py\<close>): choose the compatible runner with the least
  \<open>(runner_id, digest)\<close>, or defer. A plan is trusted only when it can be recomputed from
  the specification and the registry (\<open>verify_plan\<close>).
\<close>

section \<open>The planner\<close>

definition compatible :: "execution_spec \<Rightarrow> runner_capabilities \<Rightarrow> string \<Rightarrow> bool" where
  "compatible spec runner mode \<longleftrightarrow>
     mode \<in> set (rc_modes runner) \<and> set (es_required_capabilities spec) \<subseteq> set (rc_capabilities runner)"

definition runner_key :: "hash \<Rightarrow> runner_capabilities \<Rightarrow> string \<times> string" where
  "runner_key h r = (rc_runner_id r, runner_digest h r)"

definition compatible_runners :: "hash \<Rightarrow> execution_spec \<Rightarrow> runner_registry \<Rightarrow> string \<Rightarrow> runner_capabilities list" where
  "compatible_runners h spec registry mode =
     sort_key (runner_key h) (filter (\<lambda>r. compatible spec r mode) (rg_runners registry))"

definition plan_execution :: "hash \<Rightarrow> execution_spec \<Rightarrow> runner_registry \<Rightarrow> string \<Rightarrow> dispatch_plan exc" where
  "plan_execution h spec registry mode =
     (case compatible_runners h spec registry mode of
        [] \<Rightarrow> dispatch_plan_init
          \<lparr>dp_spec_id = spec_id h spec, dp_spec_digest = spec_digest h spec,
           dp_registry_digest = registry_digest h registry, dp_mode = mode, dp_runner_id = None,
           dp_runner_capability_digest = None, dp_deferral_reason = Some ''no_compatible_runner'',
           dp_schema_version = ''ge.dispatch-plan.v1''\<rparr>
      | chosen # _ \<Rightarrow> dispatch_plan_init
          \<lparr>dp_spec_id = spec_id h spec, dp_spec_digest = spec_digest h spec,
           dp_registry_digest = registry_digest h registry, dp_mode = mode,
           dp_runner_id = Some (rc_runner_id chosen),
           dp_runner_capability_digest = Some (runner_digest h chosen), dp_deferral_reason = None,
           dp_schema_version = ''ge.dispatch-plan.v1''\<rparr>)"

definition verify_plan :: "hash \<Rightarrow> execution_spec \<Rightarrow> runner_registry \<Rightarrow> dispatch_plan \<Rightarrow> bool exc" where
  "verify_plan h spec registry plan =
     ebind (plan_execution h spec registry (dp_mode plan)) (\<lambda>p. Inr (plan = p))"

section \<open>Lemmas\<close>

lemma set_compatible_runners:
  "set (compatible_runners h spec registry mode) = {r \<in> set (rg_runners registry). compatible spec r mode}"
  by (auto simp: compatible_runners_def)

lemma compatible_runners_least:
  assumes "compatible_runners h spec registry mode = r # rs"
    and "r' \<in> set (rg_runners registry)" and "compatible spec r' mode"
  shows "runner_key h r \<le> runner_key h r'"
proof -
  have "sorted (map (runner_key h) (r # rs))"
    unfolding assms(1) [symmetric] compatible_runners_def by simp
  moreover have "r' \<in> set (r # rs)"
    using assms set_compatible_runners [of h spec registry mode] by simp
  ultimately show ?thesis by auto
qed

lemma plan_execution_mode: "plan_execution h spec registry mode = Inr p \<Longrightarrow> dp_mode p = mode"
  by (auto simp: plan_execution_def exc_simps split: list.splits)

lemma plan_execution_valid_mode: "plan_execution h spec registry mode = Inr p \<Longrightarrow> mode \<in> set valid_modes"
  by (auto simp: plan_execution_def exc_simps split: list.splits)

lemma plan_execution_ok: "mode \<in> set valid_modes \<Longrightarrow> \<exists>p. plan_execution h spec registry mode = Inr p"
  by (auto simp: plan_execution_def exc_simps split: list.splits)

lemma verify_plan_True [exc_simps]:
  "verify_plan h spec registry plan = Inr True \<longleftrightarrow> plan_execution h spec registry (dp_mode plan) = Inr plan"
  by (auto simp: verify_plan_def exc_simps)

text \<open>What an accepted plan binds.\<close>

lemma plan_execution_binds:
  assumes "plan_execution h spec registry mode = Inr p"
  shows "dp_spec_id p = spec_id h spec" "dp_spec_digest p = spec_digest h spec"
    "dp_registry_digest p = registry_digest h registry"
  using assms by (auto simp: plan_execution_def exc_simps split: list.splits)

lemma sort_key_perm:
  assumes "mset xs = mset ys" and "distinct (map f xs)"
  shows "sort_key f xs = sort_key f ys"
proof (rule map_sorted_distinct_set_unique)
  have m: "mset (map f xs) = mset (map f ys)" using assms(1) by simp
  have "distinct (map f ys)" using assms(2) mset_eq_imp_distinct_iff [OF m] by simp
  moreover have sorted_distinct: "distinct (map f (sort_key f zs)) = distinct (map f zs)" for zs
    by (rule mset_eq_imp_distinct_iff) simp
  ultimately show "distinct (map f (sort_key f xs))" "distinct (map f (sort_key f ys))"
    using assms(2) by simp_all
  show "inj_on f (set (sort_key f xs) \<union> set (sort_key f ys))"
    using assms mset_eq_setD [OF assms(1)] by (simp add: distinct_map)
  show "set (sort_key f xs) = set (sort_key f ys)"
    using mset_eq_setD [OF assms(1)] by simp
qed simp_all

lemma distinct_map_filter_key: "distinct (map rc_runner_id xs) \<Longrightarrow> distinct (map (runner_key h) (filter P xs))"
  by (induction xs) (auto simp: runner_key_def)

lemma compatible_runners_perm:
  assumes "mset (rg_runners g) = mset (rg_runners g')" and "distinct (map rc_runner_id (rg_runners g))"
  shows "compatible_runners h spec g mode = compatible_runners h spec g' mode"
  unfolding compatible_runners_def
  by (rule sort_key_perm) (simp_all add: assms distinct_map_filter_key)

lemma registry_digest_perm:
  assumes "mset (rg_runners g) = mset (rg_runners g')" and "distinct (map rc_runner_id (rg_runners g))"
    and "rg_schema_version g = rg_schema_version g'"
  shows "registry_digest h g = registry_digest h g'"
  using sort_key_perm [OF assms(1,2)] assms(3) by (simp add: registry_digest_def registry_py_def)

section \<open>An example\<close>

definition ex_plan :: "hash \<Rightarrow> dispatch_plan" where
  "ex_plan h = \<lparr>dp_spec_id = spec_id h ex_spec, dp_spec_digest = spec_digest h ex_spec,
     dp_registry_digest = registry_digest h ex_registry, dp_mode = ''read_only'', dp_runner_id = Some ''r1'',
     dp_runner_capability_digest = Some (runner_digest h ex_runner), dp_deferral_reason = None,
     dp_schema_version = ''ge.dispatch-plan.v1''\<rparr>"

lemma ex_plan: "plan_execution h ex_spec ex_registry ''read_only'' = Inr (ex_plan h)"
proof -
  have "compatible_runners h ex_spec ex_registry ''read_only'' = [ex_runner]"
    by (simp add: compatible_runners_def ex_registry_def compatible_def ex_spec_def ex_runner_def ex_other_def)
  then show ?thesis
    by (simp add: plan_execution_def ex_plan_def exc_simps valid_modes_def) (simp add: ex_runner_def)
qed

section \<open>Properties\<close>

text \<open>A plan names a runner exactly when a registered runner supports the mode and every
  required capability; the runner it names is the compatible one with the least
  \<open>(runner_id, digest)\<close>, and the plan carries that runner's digest.\<close>

theorem plan_picks_least_compatible:
  assumes "plan_execution h spec registry mode = Inr p"
  shows "if \<exists>r\<in>set (rg_runners registry). compatible spec r mode
    then \<exists>r\<in>set (rg_runners registry). compatible spec r mode \<and>
      dp_runner_id p = Some (rc_runner_id r) \<and> dp_runner_capability_digest p = Some (runner_digest h r) \<and>
      (\<forall>r'\<in>set (rg_runners registry). compatible spec r' mode \<longrightarrow> runner_key h r \<le> runner_key h r')
    else dp_runner_id p = None \<and> dp_deferral_reason p = Some ''no_compatible_runner''"
proof (cases "compatible_runners h spec registry mode")
  case Nil
  then have "\<not> (\<exists>r\<in>set (rg_runners registry). compatible spec r mode)"
    using set_compatible_runners [of h spec registry mode] by auto
  moreover have "dp_runner_id p = None \<and> dp_deferral_reason p = Some ''no_compatible_runner''"
    using assms Nil by (auto simp: plan_execution_def dispatch_plan_init_eq)
  ultimately show ?thesis by simp
next
  case (Cons r rs)
  then have "r \<in> set (rg_runners registry)" "compatible spec r mode"
    using set_compatible_runners [of h spec registry mode] by auto
  moreover have "dp_runner_id p = Some (rc_runner_id r)" "dp_runner_capability_digest p = Some (runner_digest h r)"
    using assms Cons by (auto simp: plan_execution_def dispatch_plan_init_eq)
  ultimately show ?thesis using compatible_runners_least [OF Cons] by auto
qed

theorem plan_picks_least_compatible_witness:
  "\<exists>r\<in>set (rg_runners ex_registry). compatible ex_spec r ''read_only'' \<and>
     dp_runner_id (ex_plan (\<lambda>t. t)) = Some (rc_runner_id r)"
proof -
  have "\<exists>r\<in>set (rg_runners ex_registry). compatible ex_spec r ''read_only''"
    by (simp add: ex_registry_def compatible_def ex_spec_def ex_runner_def ex_other_def)
  with plan_picks_least_compatible [OF ex_plan [of "\<lambda>t. t"]] show ?thesis by auto
qed

text \<open>Planning does not depend on the order in which runners were registered: registries with
  the same runners (with distinct identifiers) give the same plan, digests included, for every
  specification and mode.\<close>

theorem plan_order_independent:
  assumes "mset (rg_runners g) = mset (rg_runners g')" and "runner_registry_init g = Inr g"
    and "rg_schema_version g = rg_schema_version g'"
  shows "plan_execution h spec g mode = plan_execution h spec g' mode"
proof -
  have dist: "distinct (map rc_runner_id (rg_runners g))" using assms(2) by (simp add: runner_registry_init_eq)
  show ?thesis
    unfolding plan_execution_def compatible_runners_perm [OF assms(1) dist] registry_digest_perm [OF assms(1) dist assms(3)] ..
qed

theorem plan_order_independent_witness:
  "plan_execution (\<lambda>t. t) ex_spec ex_registry ''read_only'' =
   plan_execution (\<lambda>t. t) ex_spec (ex_registry\<lparr>rg_runners := [ex_runner, ex_other]\<rparr>) ''read_only''"
  by (rule plan_order_independent) (simp_all add: ex_registry_def ex_runner_def ex_other_def runner_registry_init_eq add_mset_commute)

end
