(* ===== verification/Replay.thy ===== *)
theory Replay
  imports Prelude
begin

text \<open>
  The interface of an append-only state: a fallible step that extends a history by the item
  it applied. Both logs of the program have this contract (the ledger with its events, the
  runner capacity with its transitions), and for both \<open>verify\<close> means that replaying the
  history from the initial state gives the state back.
\<close>

section \<open>Reachable states\<close>

inductive reachable :: "('s \<Rightarrow> 't \<Rightarrow> 's exc) \<Rightarrow> 's \<Rightarrow> 's \<Rightarrow> bool" for step s0 where
  start: "reachable step s0 s0"
| advance: "reachable step s0 s \<Longrightarrow> step s t = Inr s' \<Longrightarrow> reachable step s0 s'"

lemma reachable_iff_efold: "reachable step s0 s \<longleftrightarrow> (\<exists>ts. efold step s0 ts = Inr s)"
proof
  show "reachable step s0 s \<Longrightarrow> \<exists>ts. efold step s0 ts = Inr s"
  proof (induction rule: reachable.induct)
    case start
    have "efold step s0 [] = Inr s0" by simp
    then show ?case by blast
  next
    case (advance s t s')
    then obtain ts where "efold step s0 ts = Inr s" by blast
    then have "efold step s0 (ts @ [t]) = Inr s'" using advance(2) by (simp add: efold_snoc)
    then show ?case by blast
  qed
next
  have "efold step s0 ts = Inr s \<Longrightarrow> reachable step s0 s" for ts
  proof (induction ts arbitrary: s rule: rev_induct)
    case Nil
    then show ?case by (simp add: reachable.start)
  next
    case (snoc t ts)
    then obtain r where "efold step s0 ts = Inr r" "step r t = Inr s"
      by (auto simp: efold_snoc exc_simps)
    with snoc.IH show ?case by (blast intro: reachable.advance)
  qed
  then show "\<exists>ts. efold step s0 ts = Inr s \<Longrightarrow> reachable step s0 s" by blast
qed

lemma reachable_invariant [consumes 1, case_names start advance]:
  assumes "reachable step s0 s" and "I s0"
    and "\<And>s t s'. reachable step s0 s \<Longrightarrow> I s \<Longrightarrow> step s t = Inr s' \<Longrightarrow> I s'"
  shows "I s"
  using assms by (induction rule: reachable.induct) blast+

section \<open>The interface\<close>

locale append_only =
  fixes step :: "'s \<Rightarrow> 't \<Rightarrow> 's exc" and history :: "'s \<Rightarrow> 't list"
  assumes history_step: "step s t = Inr s' \<Longrightarrow> history s' = history s @ [t]"
begin

lemma history_efold: "efold step s ts = Inr s' \<Longrightarrow> history s' = history s @ ts"
  by (induction ts arbitrary: s) (auto simp: exc_simps dest: history_step)

text \<open>A state reached from an empty history is the replay of its own history.\<close>

lemma replay_history:
  assumes "history s0 = []"
  shows "reachable step s0 s \<longleftrightarrow> efold step s0 (history s) = Inr s"
  using assms history_efold by (auto simp: reachable_iff_efold)

lemma history_prefix: "reachable step s s' \<Longrightarrow> \<exists>ts. history s' = history s @ ts"
  by (auto simp: reachable_iff_efold dest: history_efold)

text \<open>The history determines the state.\<close>

lemma history_determines:
  assumes "history s0 = []" and "reachable step s0 s" and "reachable step s0 s'" and "history s = history s'"
  shows "s = s'"
  using assms replay_history by (metis sum.inject(2))

end

end
