(* ===== verification/Session.thy ===== *)
theory Session
  imports Planner Replay
begin

text \<open>
  The logical session (\<open>session.py\<close>): bound to one verified plan, started once, then closed
  by exactly one result or by revocation. The abstract specification is the transition
  relation \<open>phase_step\<close> on four phases; every operation of the code refines it.
\<close>

section \<open>Operations\<close>

definition bind_session :: "hash \<Rightarrow> execution_spec \<Rightarrow> runner_registry \<Rightarrow> dispatch_plan \<Rightarrow> int \<Rightarrow> execution_session exc" where
  "bind_session h spec registry plan attempt =
     ebind (verify_plan h spec registry plan) (\<lambda>ok.
     if \<not> ok then Inl (SessionError ''dispatch plan does not reproduce from the supplied spec and registry'')
     else (case (dp_runner_id plan, dp_runner_capability_digest plan) of
       (Some r, Some d) \<Rightarrow> execution_session_init
         \<lparr>xs_spec_id = spec_id h spec, xs_spec_digest = spec_digest h spec, xs_plan_id = plan_id h plan,
          xs_plan_digest = plan_digest h plan, xs_runner_id = r, xs_runner_capability_digest = d,
          xs_mode = dp_mode plan, xs_attempt = attempt, xs_state = ''bound'', xs_result_digest = None,
          xs_schema_version = ''ge.execution-session.v1''\<rparr>
     | _ \<Rightarrow> Inl (SessionError ''cannot bind a deferred dispatch plan'')))"

definition start_session :: "execution_session \<Rightarrow> execution_session exc" where
  "start_session s =
     (if xs_state s \<noteq> ''bound'' then Inl (SessionError ''only a bound session can start'')
      else execution_session_init (s\<lparr>xs_state := ''running''\<rparr>))"

definition revoke_session :: "execution_session \<Rightarrow> execution_session exc" where
  "revoke_session s =
     (if xs_state s \<notin> {''bound'', ''running''}
      then Inl (SessionError ''only a bound or running session can be revoked'')
      else execution_session_init (s\<lparr>xs_state := ''revoked''\<rparr>))"

definition submit_result :: "hash \<Rightarrow> execution_session \<Rightarrow> result_envelope \<Rightarrow> execution_session exc" where
  "submit_result h s r =
     (if xs_state s \<noteq> ''running'' then Inl (SessionError ''only a running session can submit a result'')
      else if (re_session_id r, re_spec_id r, re_spec_digest r, re_runner_id r, re_attempt r)
        \<noteq> (session_id h s, xs_spec_id s, xs_spec_digest s, xs_runner_id s, xs_attempt s)
      then Inl (SessionError ''result is not bound to the exact active session'')
      else execution_session_init
        (s\<lparr>xs_state := ''result_submitted'', xs_result_digest := Some (result_digest h r)\<rparr>))"

text \<open>The calls a client can make on a session.\<close>

datatype session_call = Start | Revoke | Submit result_envelope

fun session_call_step :: "hash \<Rightarrow> execution_session \<Rightarrow> session_call \<Rightarrow> execution_session exc" where
  "session_call_step h s Start = start_session s"
| "session_call_step h s Revoke = revoke_session s"
| "session_call_step h s (Submit r) = submit_result h s r"

section \<open>The abstract lifecycle\<close>

datatype phase = Bound | Running | Submitted string | Revoked

inductive phase_step :: "phase \<Rightarrow> phase \<Rightarrow> bool" where
  start: "phase_step Bound Running"
| revoke_bound: "phase_step Bound Revoked"
| revoke_running: "phase_step Running Revoked"
| submit: "phase_step Running (Submitted d)"

inductive_cases phase_step_Bound: "phase_step Bound q"
inductive_cases phase_step_Running: "phase_step Running q"
inductive_simps phase_step_Submitted [simp]: "phase_step (Submitted d) q"
inductive_simps phase_step_Revoked [simp]: "phase_step Revoked q"

definition session_phase :: "execution_session \<Rightarrow> phase option" where
  "session_phase s =
     (if xs_state s = ''bound'' then Some Bound
      else if xs_state s = ''running'' then Some Running
      else if xs_state s = ''revoked'' then Some Revoked
      else if xs_state s = ''result_submitted'' then map_option Submitted (xs_result_digest s)
      else None)"

text \<open>The fields that identify the session, all but state and result digest.\<close>

definition session_identity :: "execution_session \<Rightarrow> execution_session" where
  "session_identity s = s\<lparr>xs_state := ''bound'', xs_result_digest := None\<rparr>"

section \<open>Lemmas\<close>

lemma session_id_identity: "session_identity s = session_identity s' \<Longrightarrow> session_id h s = session_id h s'"
  by (metis session_id_update session_identity_def)

lemma start_session_eq: "start_session s = Inr s' \<longleftrightarrow>
    xs_state s = ''bound'' \<and> s' = s\<lparr>xs_state := ''running''\<rparr> \<and> execution_session_init s' = Inr s'"
  by (auto simp: start_session_def exc_simps)

lemma revoke_session_eq: "revoke_session s = Inr s' \<longleftrightarrow>
    xs_state s \<in> {''bound'', ''running''} \<and> s' = s\<lparr>xs_state := ''revoked''\<rparr> \<and> execution_session_init s' = Inr s'"
  by (auto simp: revoke_session_def exc_simps)

lemma submit_result_eq: "submit_result h s r = Inr s' \<longleftrightarrow>
    xs_state s = ''running'' \<and>
    (re_session_id r, re_spec_id r, re_spec_digest r, re_runner_id r, re_attempt r)
      = (session_id h s, xs_spec_id s, xs_spec_digest s, xs_runner_id s, xs_attempt s) \<and>
    s' = s\<lparr>xs_state := ''result_submitted'', xs_result_digest := Some (result_digest h r)\<rparr> \<and>
    execution_session_init s' = Inr s'"
  by (auto simp: submit_result_def exc_simps)

lemma session_step_identity: "session_call_step h s c = Inr s' \<Longrightarrow> session_identity s' = session_identity s"
  by (cases c) (auto simp: start_session_eq revoke_session_eq submit_result_eq session_identity_def)

lemma session_step_valid: "session_call_step h s c = Inr s' \<Longrightarrow> execution_session_init s' = Inr s'"
  by (cases c) (auto simp: start_session_eq revoke_session_eq submit_result_eq)

text \<open>Every successful call is a step of the abstract lifecycle.\<close>

lemma session_step_refines:
  assumes "execution_session_init s = Inr s" and "session_call_step h s c = Inr s'"
  shows "\<exists>p q. session_phase s = Some p \<and> session_phase s' = Some q \<and> phase_step p q"
  using assms
  by (cases c)
    (auto simp: start_session_eq revoke_session_eq submit_result_eq session_phase_def intro: phase_step.intros)

lemma bind_session_eq: "bind_session h spec registry plan attempt = Inr s \<Longrightarrow>
    xs_state s = ''bound'' \<and> execution_session_init s = Inr s \<and> plan_execution h spec registry (dp_mode plan) = Inr plan
    \<and> dp_runner_id plan = Some (xs_runner_id s) \<and> dp_runner_capability_digest plan = Some (xs_runner_capability_digest s)
    \<and> xs_spec_id s = spec_id h spec \<and> xs_spec_digest s = spec_digest h spec
    \<and> xs_plan_id s = plan_id h plan \<and> xs_plan_digest s = plan_digest h plan \<and> xs_mode s = dp_mode plan
    \<and> xs_attempt s = attempt"
  by (auto simp: bind_session_def verify_plan_def exc_simps split: option.splits if_splits)

text \<open>No call succeeds on a closed session.\<close>

lemma closed_session_stuck:
  "xs_state s \<in> {''revoked'', ''result_submitted''} \<Longrightarrow> \<exists>e. session_call_step h s c = Inl e"
  by (cases c) (auto simp: start_session_def revoke_session_def submit_result_def)

section \<open>An example\<close>

definition ex_session :: "hash \<Rightarrow> execution_session" where
  "ex_session h = \<lparr>xs_spec_id = spec_id h ex_spec, xs_spec_digest = spec_digest h ex_spec, xs_plan_id = plan_id h (ex_plan h),
     xs_plan_digest = plan_digest h (ex_plan h), xs_runner_id = ''r1'', xs_runner_capability_digest = runner_digest h ex_runner,
     xs_mode = ''read_only'', xs_attempt = 1, xs_state = ''bound'', xs_result_digest = None,
     xs_schema_version = ''ge.execution-session.v1''\<rparr>"

definition ex_running :: "hash \<Rightarrow> execution_session" where
  "ex_running h = (ex_session h)\<lparr>xs_state := ''running''\<rparr>"

lemma ex_session: "bind_session h ex_spec ex_registry (ex_plan h) 1 = Inr (ex_session h)"
    "execution_session_init (ex_session h) = Inr (ex_session h)" "start_session (ex_session h) = Inr (ex_running h)"
    "execution_session_init (ex_running h) = Inr (ex_running h)"
proof -
  have "verify_plan h ex_spec ex_registry (ex_plan h) = Inr True"
    using ex_plan by (simp add: verify_plan_def ex_plan_def)
  moreover show init: "execution_session_init (ex_session h) = Inr (ex_session h)"
    by (simp add: ex_session_def execution_session_init_eq valid_modes_def)
  ultimately show "bind_session h ex_spec ex_registry (ex_plan h) 1 = Inr (ex_session h)"
    by (simp add: bind_session_def) (simp add: ex_plan_def ex_session_def execution_session_init_eq)
  show "start_session (ex_session h) = Inr (ex_running h)" "execution_session_init (ex_running h) = Inr (ex_running h)"
    by (simp_all add: start_session_eq ex_running_def ex_session_def execution_session_init_eq valid_modes_def)
qed

section \<open>Properties\<close>

text \<open>C4: Every successful call on a session is a step of the abstract lifecycle (bound, running, then
  closed by revocation or by one result), and it keeps the session identity.\<close>

theorem session_refines_lifecycle:
  assumes "execution_session_init s = Inr s" and "session_call_step h s c = Inr s'"
  shows "\<exists>p q. session_phase s = Some p \<and> session_phase s' = Some q \<and> phase_step p q \<and> session_id h s' = session_id h s"
  using session_step_refines [OF assms] session_id_identity [OF session_step_identity [OF assms(2)]] by metis

theorem session_refines_lifecycle_witness:
  "\<exists>p q. session_phase (ex_session (\<lambda>t. t)) = Some p \<and> session_phase (ex_running (\<lambda>t. t)) = Some q \<and> phase_step p q
     \<and> session_id (\<lambda>t. t) (ex_running (\<lambda>t. t)) = session_id (\<lambda>t. t) (ex_session (\<lambda>t. t))"
  by (rule session_refines_lifecycle [where c = Start]) (simp_all add: ex_session)

text \<open>A session takes at most two successful calls in its life, whatever calls are made in whatever
  order: after a result or a revocation every further call fails.\<close>

theorem session_closes:
  assumes "execution_session_init s = Inr s" and "efold (session_call_step h) s calls = Inr s'"
  shows "length calls \<le> 2 \<and> (length calls = 2 \<longrightarrow> (\<forall>c. \<exists>e. session_call_step h s' c = Inl e))"
proof -
  have stuck: "calls = []" if closed: "xs_state r \<in> {''revoked'', ''result_submitted''}" and run: "efold (session_call_step h) r calls = Inr r'" for r r' calls
    using closed run closed_session_stuck [of r h "hd calls"] by (cases calls) auto
  have step: "xs_state r' \<in> {''revoked'', ''result_submitted''} \<or> xs_state r = ''bound'' \<and> xs_state r' = ''running''"
    if "session_call_step h r c = Inr r'" for r r' c
    using that by (cases c) (auto simp: start_session_eq revoke_session_eq submit_result_eq)
  have from_running: "length calls \<le> 1 \<and> (calls \<noteq> [] \<longrightarrow> xs_state r' \<in> {''revoked'', ''result_submitted''})"
    if running: "xs_state r = ''running''" and run: "efold (session_call_step h) r calls = Inr r'" for r r' calls
  proof (cases calls)
    case (Cons d ds)
    then obtain q where q: "session_call_step h r d = Inr q" "efold (session_call_step h) q ds = Inr r'"
      using run by (auto simp: exc_simps)
    then have "xs_state q \<in> {''revoked'', ''result_submitted''}" using step [OF q(1)] running by auto
    with stuck [OF this q(2)] q(2) show ?thesis using Cons by auto
  qed simp
  have "length calls \<le> 2 \<and> (length calls = 2 \<longrightarrow> xs_state s' \<in> {''revoked'', ''result_submitted''})"
  proof (cases calls)
    case (Cons d ds)
    then obtain q where q: "session_call_step h s d = Inr q" "efold (session_call_step h) q ds = Inr s'"
      using assms(2) by (auto simp: exc_simps)
    show ?thesis
      using step [OF q(1)] stuck [OF _ q(2)] from_running [OF _ q(2)] Cons by (cases "ds = []") auto
  qed simp
  then show ?thesis using closed_session_stuck by blast
qed

theorem session_closes_witness:
  "\<forall>c. \<exists>e. session_call_step (\<lambda>t. t) ((ex_running (\<lambda>t. t))\<lparr>xs_state := ''revoked''\<rparr>) c = Inl e"
proof -
  let ?h = "\<lambda>t. t"
  have "revoke_session (ex_running ?h) = Inr ((ex_running ?h)\<lparr>xs_state := ''revoked''\<rparr>)"
    by (simp add: revoke_session_eq ex_running_def execution_session_init_eq ex_session_def valid_modes_def)
  then have "efold (session_call_step ?h) (ex_session ?h) [Start, Revoke] = Inr ((ex_running ?h)\<lparr>xs_state := ''revoked''\<rparr>)"
    using ex_session(3) [of ?h] by simp
  from session_closes [OF ex_session(2) this] show ?thesis by simp
qed

end
