(* ===== verification/Wire.thy ===== *)
theory Wire
  imports Models
begin

text \<open>
  Dictionaries on the wire (\<open>wire.py\<close>): artifacts, specifications and results as plain
  dictionaries and back. Every value goes through \<open>str\<close> or \<open>int\<close> on the way in and the
  constructor checks run again. The \<open>codec\<close> interpretations at the end are the round trips.
\<close>

section \<open>To dictionaries\<close>

definition artifact_to_dict :: "artifact_ref \<Rightarrow> pyval" where
  "artifact_to_dict a = PDict [
    (''name'', PStr (ar_name a)), (''uri'', PStr (ar_uri a)), (''digest'', PStr (ar_digest a))]"

definition spec_to_dict :: "execution_spec \<Rightarrow> pyval" where
  "spec_to_dict s = PDict [
    (''schema_version'', PStr (es_schema_version s)),
    (''producer'', PStr (es_producer s)),
    (''producer_revision'', PStr (es_producer_revision s)),
    (''task_kind'', PStr (es_task_kind s)),
    (''objective'', PStr (es_objective s)),
    (''source_revision'', PStr (es_source_revision s)),
    (''required_capabilities'', PList (map PStr (es_required_capabilities s))),
    (''allowed_scopes'', PList (map PStr (es_allowed_scopes s))),
    (''forbidden_actions'', PList (map PStr (es_forbidden_actions s))),
    (''evidence_requirements'', PList (map PStr (es_evidence_requirements s))),
    (''inputs'', PList (map artifact_to_dict (es_inputs s))),
    (''authority_ref'', py_opt artifact_to_dict (es_authority_ref s)),
    (''metadata'', PList (map (\<lambda>(k, v). PList [PStr k, PStr v]) (es_metadata s)))]"

definition result_to_dict :: "result_envelope \<Rightarrow> pyval" where
  "result_to_dict r = PDict [
    (''schema_version'', PStr (re_schema_version r)),
    (''session_id'', PStr (re_session_id r)),
    (''spec_id'', PStr (re_spec_id r)),
    (''spec_digest'', PStr (re_spec_digest r)),
    (''runner_id'', PStr (re_runner_id r)),
    (''attempt'', PInt (re_attempt r)),
    (''status'', PStr (re_status r)),
    (''output_artifacts'', PList (map artifact_to_dict (re_output_artifacts r))),
    (''evidence'', PList (map artifact_to_dict (re_evidence r))),
    (''summary'', PStr (re_summary r))]"

section \<open>From dictionaries\<close>

text \<open>\<open>str(data["k"])\<close>, and \<open>tuple(f(item) for item in data.get("k", []))\<close>.\<close>

definition str_at :: "pyval \<Rightarrow> string \<Rightarrow> string exc" where
  "str_at d k = ebind (py_index d k) py_str"

definition int_at :: "pyval \<Rightarrow> string \<Rightarrow> int exc" where
  "int_at d k = ebind (py_index d k) py_int"

definition tuple_at :: "(pyval \<Rightarrow> 'a exc) \<Rightarrow> pyval \<Rightarrow> string \<Rightarrow> 'a list exc" where
  "tuple_at f d k = ebind (py_get d k (PList [])) (\<lambda>v. ebind (py_iter v) (emap f))"

text \<open>\<open>for key, value in ...\<close> unpacks exactly two items.\<close>

definition str_pair :: "pyval \<Rightarrow> (string \<times> string) exc" where
  "str_pair v = ebind (py_iter v) (\<lambda>xs. case xs of
     [a, b] \<Rightarrow> ebind (py_str a) (\<lambda>k. ebind (py_str b) (\<lambda>w. Inr (k, w)))
   | _ \<Rightarrow> Inl (ValueError ''wrong number of values to unpack''))"

definition artifact_from_dict :: "pyval \<Rightarrow> artifact_ref exc" where
  "artifact_from_dict d =
     ebind (str_at d ''name'') (\<lambda>n.
     ebind (str_at d ''uri'') (\<lambda>u.
     ebind (str_at d ''digest'') (\<lambda>g.
     artifact_ref_init \<lparr>ar_name = n, ar_uri = u, ar_digest = g\<rparr>)))"

text \<open>\<open>artifact_from_dict(authority) if authority else None\<close>.\<close>

definition optional_artifact :: "pyval \<Rightarrow> artifact_ref option exc" where
  "optional_artifact v = (if py_truth v then ebind (artifact_from_dict v) (\<lambda>a. Inr (Some a)) else Inr None)"

definition spec_from_dict :: "pyval \<Rightarrow> execution_spec exc" where
  "spec_from_dict d =
     ebind (py_get d ''schema_version'' (PStr ''ge.execution-spec.v1'')) (\<lambda>sv.
     if \<not> py_eq sv (PStr ''ge.execution-spec.v1'') then Inl (ValueError ''unsupported execution spec schema'')
     else
     ebind (py_get d ''authority_ref'' PNone) (\<lambda>authority.
     ebind (str_at d ''producer'') (\<lambda>producer.
     ebind (str_at d ''producer_revision'') (\<lambda>producer_revision.
     ebind (str_at d ''task_kind'') (\<lambda>task_kind.
     ebind (str_at d ''objective'') (\<lambda>objective.
     ebind (str_at d ''source_revision'') (\<lambda>source_revision.
     ebind (tuple_at py_str d ''required_capabilities'') (\<lambda>capabilities.
     ebind (tuple_at py_str d ''allowed_scopes'') (\<lambda>scopes.
     ebind (tuple_at py_str d ''forbidden_actions'') (\<lambda>actions.
     ebind (tuple_at py_str d ''evidence_requirements'') (\<lambda>requirements.
     ebind (tuple_at artifact_from_dict d ''inputs'') (\<lambda>inputs.
     ebind (optional_artifact authority) (\<lambda>authority_ref.
     ebind (tuple_at str_pair d ''metadata'') (\<lambda>metadata.
     execution_spec_init
       \<lparr>es_producer = producer, es_producer_revision = producer_revision, es_task_kind = task_kind,
        es_objective = objective, es_source_revision = source_revision,
        es_required_capabilities = capabilities, es_allowed_scopes = scopes,
        es_forbidden_actions = actions, es_evidence_requirements = requirements, es_inputs = inputs,
        es_authority_ref = authority_ref, es_metadata = metadata,
        es_schema_version = ''ge.execution-spec.v1''\<rparr>))))))))))))))"

definition result_from_dict :: "pyval \<Rightarrow> result_envelope exc" where
  "result_from_dict d =
     ebind (py_get d ''schema_version'' (PStr ''ge.result-envelope.v1'')) (\<lambda>sv.
     if \<not> py_eq sv (PStr ''ge.result-envelope.v1'') then Inl (ValueError ''unsupported result envelope schema'')
     else
     ebind (str_at d ''session_id'') (\<lambda>sid.
     ebind (str_at d ''spec_id'') (\<lambda>spid.
     ebind (str_at d ''spec_digest'') (\<lambda>spd.
     ebind (str_at d ''runner_id'') (\<lambda>rid.
     ebind (int_at d ''attempt'') (\<lambda>attempt.
     ebind (str_at d ''status'') (\<lambda>status.
     ebind (tuple_at artifact_from_dict d ''output_artifacts'') (\<lambda>outputs.
     ebind (tuple_at artifact_from_dict d ''evidence'') (\<lambda>evidence.
     ebind (ebind (py_get d ''summary'' (PStr '''')) py_str) (\<lambda>summary.
     result_envelope_init
       \<lparr>re_session_id = sid, re_spec_id = spid, re_spec_digest = spd, re_runner_id = rid,
        re_attempt = attempt, re_status = status, re_output_artifacts = outputs,
        re_evidence = evidence, re_summary = summary,
        re_schema_version = ''ge.result-envelope.v1''\<rparr>))))))))))"

section \<open>Round trips\<close>

lemma emap_py_str [simp]: "emap py_str (map PStr xs) = Inr xs"
  by (rule emap_eq_Inr_map) simp

lemma artifact_to_dict_py: "artifact_to_dict = artifact_ref_py"
  by (rule ext) (simp add: artifact_to_dict_def artifact_ref_py_def)

definition valid_artifact :: "artifact_ref \<Rightarrow> bool" where
  "valid_artifact a \<longleftrightarrow> artifact_ref_init a = Inr a"

interpretation artifact_wire: codec artifact_to_dict artifact_from_dict valid_artifact
proof unfold_locales
  fix x y
  show "wf_py (artifact_to_dict x)" "normalize (artifact_to_dict x) = normalize (artifact_to_dict y) \<longleftrightarrow> x = y"
    by (simp_all add: artifact_to_dict_py)
  show "artifact_from_dict (normalize (artifact_to_dict x)) = Inr x" if "valid_artifact x"
    using that
    by (cases x) (simp add: artifact_from_dict_def artifact_to_dict_def str_at_def valid_artifact_def)
qed

lemma artifact_not_none [simp]: "normalize (artifact_to_dict a) \<noteq> PNone" "artifact_to_dict a \<noteq> PNone"
  by (simp_all add: artifact_to_dict_def)

lemma artifact_truth [simp]: "py_truth (normalize (artifact_to_dict a))"
proof -
  have "0 < length (sort_key fst (map (\<lambda>(k, v). (k, normalize v)) [(''name'', PStr (ar_name a)), (''uri'', PStr (ar_uri a)), (''digest'', PStr (ar_digest a))]))"
    unfolding length_sort by simp
  then show ?thesis by (simp add: artifact_to_dict_def normalize.simps(3) py_truth_def)
qed

lemma emap_artifacts:
  "list_all valid_artifact xs \<Longrightarrow> emap artifact_from_dict (map (normalize \<circ> artifact_to_dict) xs) = Inr xs"
  by (rule emap_eq_Inr_map) (simp add: list_all_iff artifact_wire.dec_enc)

lemma emap_pairs: "emap str_pair (map (normalize \<circ> (\<lambda>(k, v). PList [PStr k, PStr v])) xs) = Inr xs"
  by (rule emap_eq_Inr_map) (simp add: str_pair_def split: prod.split)

text \<open>The objects that a constructor accepts, with the schema it stamps.\<close>

definition valid_spec :: "execution_spec \<Rightarrow> bool" where
  "valid_spec s \<longleftrightarrow> execution_spec_init s = Inr s \<and> es_schema_version s = ''ge.execution-spec.v1''
     \<and> list_all valid_artifact (es_inputs s) \<and> pred_option valid_artifact (es_authority_ref s)"

definition valid_result :: "result_envelope \<Rightarrow> bool" where
  "valid_result r \<longleftrightarrow> result_envelope_init r = Inr r \<and> re_schema_version r = ''ge.result-envelope.v1''
     \<and> list_all valid_artifact (re_output_artifacts r) \<and> list_all valid_artifact (re_evidence r)"

lemma spec_to_dict_normal: "normalize (spec_to_dict s) = normalize (execution_spec_py s)"
  by (simp add: spec_to_dict_def execution_spec_py_def artifact_to_dict_py normalize.simps(3) py_strs_def
      normalize_opt py_pairs_def comp_def case_prod_unfold)

lemma result_to_dict_normal: "normalize (result_to_dict r) = normalize (result_envelope_py r)"
  by (simp add: result_to_dict_def result_envelope_py_def artifact_to_dict_py normalize.simps(3))

lemma spec_to_dict_wf: "wf_py (spec_to_dict s)"
  by (auto simp: spec_to_dict_def artifact_to_dict_py list_all_iff)

lemma result_to_dict_wf: "wf_py (result_to_dict r)"
  by (auto simp: result_to_dict_def artifact_to_dict_py)

lemma optional_artifact_opt:
  "pred_option valid_artifact a \<Longrightarrow> optional_artifact (normalize (py_opt artifact_to_dict a)) = Inr a"
proof (cases a)
  case None
  then show ?thesis by (simp add: optional_artifact_def py_truth_def)
next
  case (Some x)
  then show "pred_option valid_artifact a \<Longrightarrow> ?thesis"
    by (simp add: optional_artifact_def artifact_wire.dec_enc)
qed

interpretation artifact_codec: sound_codec artifact_to_dict artifact_from_dict valid_artifact
  by unfold_locales (auto simp: artifact_from_dict_def valid_artifact_def exc_simps)

lemma tuple_at_artifacts_ok: "tuple_at artifact_from_dict d k = Inr xs \<Longrightarrow> list_all valid_artifact xs"
  by (auto simp: tuple_at_def ebind_eq_Inr dest: artifact_codec.emap_ok)

lemma optional_artifact_ok: "optional_artifact v = Inr a \<Longrightarrow> pred_option valid_artifact a"
  by (auto simp: optional_artifact_def ebind_eq_Inr artifact_codec.dec_ok split: if_splits)

interpretation spec_wire: codec spec_to_dict spec_from_dict valid_spec
proof unfold_locales
  fix x y
  show "wf_py (spec_to_dict x)" by (rule spec_to_dict_wf)
  show "normalize (spec_to_dict x) = normalize (spec_to_dict y) \<longleftrightarrow> x = y"
    by (simp add: spec_to_dict_normal)
  show "spec_from_dict (normalize (spec_to_dict x)) = Inr x" if "valid_spec x"
    using that
    by (cases x) (simp add: spec_from_dict_def spec_to_dict_def str_at_def tuple_at_def valid_spec_def
        emap_artifacts emap_pairs optional_artifact_opt)
qed

interpretation result_wire: codec result_to_dict result_from_dict valid_result
proof unfold_locales
  fix x y
  show "wf_py (result_to_dict x)" by (rule result_to_dict_wf)
  show "normalize (result_to_dict x) = normalize (result_to_dict y) \<longleftrightarrow> x = y"
    by (simp add: result_to_dict_normal)
  show "result_from_dict (normalize (result_to_dict x)) = Inr x" if "valid_result x"
    using that
    by (cases x) (simp add: result_from_dict_def result_to_dict_def str_at_def int_at_def tuple_at_def
        valid_result_def emap_artifacts)
qed

interpretation spec_codec: sound_codec spec_to_dict spec_from_dict valid_spec
proof unfold_locales
  fix d x
  assume "spec_from_dict d = Inr x"
  then show "valid_spec x"
    by (auto simp: spec_from_dict_def valid_spec_def ebind_eq_Inr execution_spec_init_eq dest: tuple_at_artifacts_ok optional_artifact_ok
        split: if_splits)
qed

interpretation result_codec: sound_codec result_to_dict result_from_dict valid_result
proof unfold_locales
  fix d x
  assume "result_from_dict d = Inr x"
  then show "valid_result x"
    by (auto simp: result_from_dict_def valid_result_def ebind_eq_Inr result_envelope_init_eq dest: tuple_at_artifacts_ok
        split: if_splits)
qed

section \<open>Properties\<close>

text \<open>A result envelope that a constructor accepted is read back exactly from its stored JSON text,
  artifacts and summary included; the text of another envelope is never read as it.\<close>

theorem result_round_trip:
  assumes "valid_result r"
  shows "(\<exists>d. json_loads (canonical_json (result_to_dict r)) = Some d \<and> result_from_dict d = Inr r) \<and>
    (canonical_json (result_to_dict r) = canonical_json (result_to_dict q) \<longleftrightarrow> r = q)"
  using result_wire.loads_dumps [OF assms] result_wire.canonical_inject by blast

definition zero_digest :: string where
  "zero_digest = ''sha256:'' @ replicate 64 CHR ''0''"

definition ex_artifact :: artifact_ref where
  "ex_artifact = \<lparr>ar_name = ''log'', ar_uri = ''file:log'', ar_digest = zero_digest\<rparr>"

definition ex_result :: result_envelope where
  "ex_result = \<lparr>re_session_id = ''gex-1'', re_spec_id = ''ges-1'', re_spec_digest = ''d'', re_runner_id = ''r1'',
     re_attempt = 1, re_status = ''completed'', re_output_artifacts = [ex_artifact], re_evidence = [],
     re_summary = ''ok'', re_schema_version = ''ge.result-envelope.v1''\<rparr>"

lemma ex_result_valid: "valid_result ex_result" "valid_result (ex_result\<lparr>re_summary := []\<rparr>)"
proof -
  have "int16_ok (replicate 64 CHR ''0'')"
    by (rule int16_ok_hex) (simp_all add: is_hex_digit_def)
  then have "digest_ok zero_digest"
    by (simp add: digest_ok_def digest_shape_def zero_digest_def startswith_def)
  then have "valid_artifact ex_artifact"
    by (simp add: valid_artifact_def ex_artifact_def artifact_ref_init_eq blank_iff is_space_def)
  then show "valid_result ex_result" "valid_result (ex_result\<lparr>re_summary := []\<rparr>)"
    by (simp_all add: valid_result_def ex_result_def result_envelope_init_eq valid_result_statuses_def blank_iff is_space_def)
qed

theorem result_round_trip_witness:
  "(\<exists>d. json_loads (canonical_json (result_to_dict ex_result)) = Some d \<and> result_from_dict d = Inr ex_result) \<and>
   (canonical_json (result_to_dict ex_result) = canonical_json (result_to_dict (ex_result\<lparr>re_summary := []\<rparr>))
     \<longleftrightarrow> ex_result = ex_result\<lparr>re_summary := []\<rparr>)"
  by (rule result_round_trip [OF ex_result_valid(1)])

end
