(* ===== verification/Hex_Digest.thy ===== *)
theory Hex_Digest
  imports Json_Loads
begin

text \<open>
  What the program relies on in \<open>hashlib.sha256(_).hexdigest()\<close>: 64 lower-case hexadecimal
  digits. The development is parametric in the digest function; theory \<open>Sha256\<close> gives the
  concrete one and interprets the locale.
\<close>

section \<open>The interface of a hexadecimal digest\<close>

locale hex_digest =
  fixes h :: hash
  assumes digest_length: "length (h s) = 64"
    and digest_hex: "c \<in> set (h s) \<Longrightarrow> is_lower_hex c"
begin

lemma digest_not_Nil: "h s \<noteq> []"
  using digest_length [of s] by auto

lemma digest_int16_ok: "int16_ok (h s)"
  by (rule int16_ok_hex) (auto simp: digest_not_Nil dest: digest_hex is_lower_hex_is_hex)

lemma sha256_digest_length: "length (sha256_digest h v) = 71"
  by (simp add: sha256_digest_def digest_length)

lemma sha256_digest_prefix: "startswith (sha256_digest h v) ''sha256:''"
  by (simp add: sha256_digest_def startswith_def)

lemma sha256_digest_int16: "int16_ok (drop 7 (sha256_digest h v))"
  by (simp add: sha256_digest_def digest_int16_ok)

lemma stable_id_length: "length (stable_id h p v) = length p + 25"
  by (simp add: stable_id_def sha256_digest_def digest_length)

end

text \<open>A constant digest, for examples that need the shape only.\<close>

definition zero_hash :: hash where
  "zero_hash s = replicate 64 CHR ''0''"

lemma zero_hash: "hex_digest zero_hash"
  by unfold_locales (simp_all add: zero_hash_def is_lower_hex_def)

text \<open>
  A digest that tells apart the texts that contain the letter Z, for examples that need two
  different digests. Whether the canonical text of a value contains it can be read off the value.
\<close>

definition mark_hash :: hash where
  "mark_hash s = replicate 64 (if CHR ''Z'' \<in> set s then CHR ''1'' else CHR ''0'')"

lemma mark_hash: "hex_digest mark_hash"
  by unfold_locales (auto simp: mark_hash_def is_lower_hex_def)

fun marked :: "pyval \<Rightarrow> bool" where
  "marked (PStr s) = (CHR ''Z'' \<in> set s)"
| "marked (PList xs) = list_ex marked xs"
| "marked (PTuple xs) = list_ex marked xs"
| "marked (PDict kvs) = list_ex (\<lambda>kv. CHR ''Z'' \<in> set (fst kv) \<or> marked (snd kv)) kvs"
| "marked _ = False"

lemma marked_escape: "CHR ''Z'' \<in> set (escape_char c) \<longleftrightarrow> c = CHR ''Z''"
proof (cases "(of_char c :: nat) < 32")
  case True
  have hex: "hex_char n \<noteq> CHR ''Z''" if "n < 16" for n
    using that by (auto simp: hex_char_def char_of_eq_iff take_bit_eq_mod)
  have "(of_char c :: nat) div 16 < 16" "(of_char c :: nat) mod 16 < 16" using True by auto
  then have "hex_char (of_char c div 16) \<noteq> CHR ''Z''" "hex_char (of_char c mod 16) \<noteq> CHR ''Z''" using hex by blast+
  moreover have "c \<noteq> CHR ''Z''" using True by auto
  ultimately show ?thesis by (auto simp: escape_char_def)
qed (auto simp: escape_char_def)

lemma marked_string: "CHR ''Z'' \<in> set (json_string s) \<longleftrightarrow> CHR ''Z'' \<in> set s"
  by (auto simp: json_string_def marked_escape)

lemma marked_join: "CHR ''Z'' \<in> set (join_comma ts) \<longleftrightarrow> (\<exists>t\<in>set ts. CHR ''Z'' \<in> set t)"
  by (induction ts rule: join_comma.induct) auto

lemma marked_int: "CHR ''Z'' \<notin> set (int_repr i)"
proof -
  have "CHR ''Z'' \<notin> set (nat_repr n)" for n using nat_repr_digits [of "CHR ''Z''" n] by (auto simp: is_digit_def)
  then show ?thesis by (simp add: int_repr_def)
qed

lemma marked_dumps: "CHR ''Z'' \<in> set (json_dumps v) \<longleftrightarrow> marked v"
proof (induction v rule: json_dumps.induct)
  case (7 kvs)
  have IH: "CHR ''Z'' \<in> set (json_dumps (snd kv)) \<longleftrightarrow> marked (snd kv)" if "kv \<in> set kvs" for kv
    by (rule 7 [OF that prod.collapse])
  have "CHR ''Z'' \<in> set (json_dumps (PDict kvs)) \<longleftrightarrow>
      (\<exists>kv\<in>set kvs. CHR ''Z'' \<in> set (fst kv) \<or> CHR ''Z'' \<in> set (json_dumps (snd kv)))"
    by (simp add: marked_join marked_string case_prod_unfold)
  also have "\<dots> \<longleftrightarrow> marked (PDict kvs)"
    using IH by (auto simp: list_ex_iff)
  finally show ?case .
qed (auto simp: marked_string marked_join marked_int list_ex_iff)

lemma marked_normalize: "marked (normalize v) \<longleftrightarrow> marked v"
proof (induction v rule: normalize.induct)
  case (3 kvs)
  have IH: "marked (normalize (snd kv)) \<longleftrightarrow> marked (snd kv)" if "kv \<in> set kvs" for kv
    by (rule 3 [OF that prod.collapse])
  have "marked (normalize (PDict kvs)) \<longleftrightarrow> (\<exists>kv\<in>set kvs. CHR ''Z'' \<in> set (fst kv) \<or> marked (normalize (snd kv)))"
    by (simp add: normalize.simps(3) list_ex_iff case_prod_unfold)
  also have "\<dots> \<longleftrightarrow> (\<exists>kv\<in>set kvs. CHR ''Z'' \<in> set (fst kv) \<or> marked (snd kv))"
    using IH by blast
  finally show ?case by (simp add: list_ex_iff)
qed (auto simp: list_ex_iff)

lemma mark_hash_canonical: "mark_hash (canonical_json v) = replicate 64 (if marked v then CHR ''1'' else CHR ''0'')"
  by (simp add: mark_hash_def canonical_json_def marked_dumps marked_normalize)

lemma not_marked_digest [simp]: "CHR ''Z'' \<notin> set (sha256_digest mark_hash v)"
  by (simp add: sha256_digest_def mark_hash_def)

lemma not_marked_id [simp]: "CHR ''Z'' \<in> set (stable_id mark_hash p v) \<longleftrightarrow> CHR ''Z'' \<in> set p"
proof -
  have "set (tl ys) \<subseteq> set ys" for ys :: string by (cases ys) auto
  then have "set (take 24 (tl (dropWhile P s))) \<subseteq> set s" for P and s :: string
    using set_take_subset [of 24 "tl (dropWhile P s)"] set_dropWhileD [of _ P s] by blast
  then have "CHR ''Z'' \<notin> set (take 24 (tl (dropWhile P (sha256_digest mark_hash v))))" for P
    using not_marked_digest [of v] by (meson subsetD)
  then show ?thesis by (simp add: stable_id_def)
qed

text \<open>A marked and an unmarked value have different digests and identifiers.\<close>

lemma mark_distinct:
  assumes "marked v" and "\<not> marked w"
  shows "sha256_digest mark_hash v \<noteq> sha256_digest mark_hash w" "stable_id mark_hash p v \<noteq> stable_id mark_hash p w"
  using assms by (simp_all add: sha256_digest_def stable_id_def mark_hash_canonical)

end
