(* ===== verification/Adapter.thy ===== *)
theory Adapter
  imports Session Wire Hex_Digest
begin

text \<open>
  The provider-neutral adapter contract (\<open>adapter.py\<close>): a dispatch request is built only
  from an exactly bound specification, registry, plan, running session and runner, and it is
  verified by rebuilding it. An observation is admitted only against the request that caused
  it. \<open>uuid.uuid4().hex\<close> is the argument \<open>fresh\<close> of the operations that draw one.
\<close>

section \<open>Requests, observations and receipts\<close>

record adapter_request =
  aq_invocation_id :: string
  aq_session_id :: string
  aq_spec_id :: string
  aq_spec_digest :: string
  aq_plan_id :: string
  aq_plan_digest :: string
  aq_registry_digest :: string
  aq_runner_id :: string
  aq_runner_capability_digest :: string
  aq_mode :: string
  aq_attempt :: int
  aq_provider :: string
  aq_adapter :: string
  aq_adapter_version :: string
  aq_spec :: execution_spec
  aq_schema_version :: string

definition adapter_request_py :: "adapter_request \<Rightarrow> pyval" where
  "adapter_request_py x = PDict [
    (''invocation_id'', PStr (aq_invocation_id x)),
    (''session_id'', PStr (aq_session_id x)),
    (''spec_id'', PStr (aq_spec_id x)),
    (''spec_digest'', PStr (aq_spec_digest x)),
    (''plan_id'', PStr (aq_plan_id x)),
    (''plan_digest'', PStr (aq_plan_digest x)),
    (''registry_digest'', PStr (aq_registry_digest x)),
    (''runner_id'', PStr (aq_runner_id x)),
    (''runner_capability_digest'', PStr (aq_runner_capability_digest x)),
    (''mode'', PStr (aq_mode x)),
    (''attempt'', PInt (aq_attempt x)),
    (''provider'', PStr (aq_provider x)),
    (''adapter'', PStr (aq_adapter x)),
    (''adapter_version'', PStr (aq_adapter_version x)),
    (''spec'', execution_spec_py (aq_spec x)),
    (''schema_version'', PStr (aq_schema_version x))]"

definition adapter_request_init :: "adapter_request \<Rightarrow> adapter_request exc" where
  "adapter_request_init r =
     (if \<not> startswith (aq_invocation_id r) ''gei-''
      then Inl (ValueError ''invocation_id must use the gei- namespace'')
      else if aq_attempt r < 1 then Inl (ValueError ''attempt must be >= 1'')
      else Inr r)"

lemma adapter_request_init_eq [exc_simps]: "adapter_request_init r = Inr r' \<longleftrightarrow>
   r' = r \<and> startswith (aq_invocation_id r) ''gei-'' \<and> 1 \<le> aq_attempt r"
  by (auto simp: adapter_request_init_def)

interpretation adapter_request: encoding adapter_request_py
proof unfold_locales
  show "wf_py (adapter_request_py x)" for x
    by (simp add: adapter_request_py_def)
  show "normalize (adapter_request_py x) = normalize (adapter_request_py y) \<longleftrightarrow> x = y" for x y
    by (cases x; cases y) (simp add: adapter_request_py_def normalize_dict_inject)
qed

lemmas adapter_request_wf [simp] = adapter_request.enc_wf
lemmas adapter_request_inject [simp] = adapter_request.enc_inject

definition request_digest :: "hash \<Rightarrow> adapter_request \<Rightarrow> string" where
  "request_digest h r = sha256_digest h (adapter_request_py r)"

definition request_id :: "hash \<Rightarrow> adapter_request \<Rightarrow> string" where
  "request_id h r = stable_id h ''ger'' (adapter_request_py r)"

record provider_observation =
  po_invocation_id :: string
  po_request_digest :: string
  po_provider_invocation_id :: string
  po_transport_status :: string
  po_result :: result_envelope
  po_response_digest :: string
  po_schema_version :: string

definition provider_observation_py :: "provider_observation \<Rightarrow> pyval" where
  "provider_observation_py x = PDict [
    (''invocation_id'', PStr (po_invocation_id x)),
    (''request_digest'', PStr (po_request_digest x)),
    (''provider_invocation_id'', PStr (po_provider_invocation_id x)),
    (''transport_status'', PStr (po_transport_status x)),
    (''result'', result_envelope_py (po_result x)),
    (''response_digest'', PStr (po_response_digest x)),
    (''schema_version'', PStr (po_schema_version x))]"

definition provider_observation_init :: "provider_observation \<Rightarrow> provider_observation exc" where
  "provider_observation_init ob =
     (if po_transport_status ob \<noteq> ''completed''
      then Inl (ValueError ''v0.0.2 observations support only completed transport status'')
      else Inr ob)"

interpretation provider_observation: encoding provider_observation_py
proof unfold_locales
  show "wf_py (provider_observation_py x)" for x
    by (simp add: provider_observation_py_def)
  show "normalize (provider_observation_py x) = normalize (provider_observation_py y) \<longleftrightarrow> x = y" for x y
    by (cases x; cases y) (simp add: provider_observation_py_def normalize_dict_inject)
qed

lemmas provider_observation_wf [simp] = provider_observation.enc_wf
lemmas provider_observation_inject [simp] = provider_observation.enc_inject

definition provider_observation_digest :: "hash \<Rightarrow> provider_observation \<Rightarrow> string" where
  "provider_observation_digest h ob = sha256_digest h (provider_observation_py ob)"

record adapter_receipt =
  ac_invocation_id :: string
  ac_request_id :: string
  ac_request_digest :: string
  ac_session_id :: string
  ac_runner_id :: string
  ac_provider :: string
  ac_adapter :: string
  ac_adapter_version :: string
  ac_provider_invocation_id :: string
  ac_transport_status :: string
  ac_response_digest :: string
  ac_result_digest :: string
  ac_schema_version :: string

definition adapter_receipt_py :: "adapter_receipt \<Rightarrow> pyval" where
  "adapter_receipt_py x = PDict [
    (''invocation_id'', PStr (ac_invocation_id x)),
    (''request_id'', PStr (ac_request_id x)),
    (''request_digest'', PStr (ac_request_digest x)),
    (''session_id'', PStr (ac_session_id x)),
    (''runner_id'', PStr (ac_runner_id x)),
    (''provider'', PStr (ac_provider x)),
    (''adapter'', PStr (ac_adapter x)),
    (''adapter_version'', PStr (ac_adapter_version x)),
    (''provider_invocation_id'', PStr (ac_provider_invocation_id x)),
    (''transport_status'', PStr (ac_transport_status x)),
    (''response_digest'', PStr (ac_response_digest x)),
    (''result_digest'', PStr (ac_result_digest x)),
    (''schema_version'', PStr (ac_schema_version x))]"

interpretation adapter_receipt: encoding adapter_receipt_py
proof unfold_locales
  show "wf_py (adapter_receipt_py x)" for x
    by (simp add: adapter_receipt_py_def)
  show "normalize (adapter_receipt_py x) = normalize (adapter_receipt_py y) \<longleftrightarrow> x = y" for x y
    by (cases x; cases y) (simp add: adapter_receipt_py_def normalize_dict_inject)
qed

lemmas adapter_receipt_wf [simp] = adapter_receipt.enc_wf
lemmas adapter_receipt_inject [simp] = adapter_receipt.enc_inject

definition adapter_receipt_digest :: "hash \<Rightarrow> adapter_receipt \<Rightarrow> string" where
  "adapter_receipt_digest h r = sha256_digest h (adapter_receipt_py r)"

record invocation_bundle =
  ib_request :: adapter_request
  ib_observation :: provider_observation
  ib_receipt :: adapter_receipt
  ib_result :: result_envelope
  ib_schema_version :: string

definition invocation_bundle_py :: "invocation_bundle \<Rightarrow> pyval" where
  "invocation_bundle_py x = PDict [
    (''request'', adapter_request_py (ib_request x)),
    (''observation'', provider_observation_py (ib_observation x)),
    (''receipt'', adapter_receipt_py (ib_receipt x)),
    (''result'', result_envelope_py (ib_result x)),
    (''schema_version'', PStr (ib_schema_version x))]"

interpretation invocation_bundle: encoding invocation_bundle_py
proof unfold_locales
  show "wf_py (invocation_bundle_py x)" for x
    by (simp add: invocation_bundle_py_def)
  show "normalize (invocation_bundle_py x) = normalize (invocation_bundle_py y) \<longleftrightarrow> x = y" for x y
    by (cases x; cases y) (simp add: invocation_bundle_py_def normalize_dict_inject)
qed

definition bundle_digest :: "hash \<Rightarrow> invocation_bundle \<Rightarrow> string" where
  "bundle_digest h b = sha256_digest h (invocation_bundle_py b)"

section \<open>The request codec\<close>

definition request_to_dict :: "adapter_request \<Rightarrow> pyval" where
  "request_to_dict r = PDict [
    (''schema_version'', PStr (aq_schema_version r)),
    (''invocation_id'', PStr (aq_invocation_id r)),
    (''session_id'', PStr (aq_session_id r)),
    (''spec_id'', PStr (aq_spec_id r)),
    (''spec_digest'', PStr (aq_spec_digest r)),
    (''plan_id'', PStr (aq_plan_id r)),
    (''plan_digest'', PStr (aq_plan_digest r)),
    (''registry_digest'', PStr (aq_registry_digest r)),
    (''runner_id'', PStr (aq_runner_id r)),
    (''runner_capability_digest'', PStr (aq_runner_capability_digest r)),
    (''mode'', PStr (aq_mode r)),
    (''attempt'', PInt (aq_attempt r)),
    (''provider'', PStr (aq_provider r)),
    (''adapter'', PStr (aq_adapter r)),
    (''adapter_version'', PStr (aq_adapter_version r)),
    (''spec'', spec_to_dict (aq_spec r))]"

definition request_from_dict :: "pyval \<Rightarrow> adapter_request exc" where
  "request_from_dict d =
     ebind (py_get d ''schema_version'' PNone) (\<lambda>sv.
     if \<not> py_eq sv (PStr ''ge.adapter-dispatch.v1'') then Inl (AdapterError ''unsupported adapter dispatch schema'')
     else
     ebind (str_at d ''invocation_id'') (\<lambda>invocation.
     ebind (str_at d ''session_id'') (\<lambda>session.
     ebind (str_at d ''spec_id'') (\<lambda>sid.
     ebind (str_at d ''spec_digest'') (\<lambda>sdigest.
     ebind (str_at d ''plan_id'') (\<lambda>pid.
     ebind (str_at d ''plan_digest'') (\<lambda>pdigest.
     ebind (str_at d ''registry_digest'') (\<lambda>rdigest.
     ebind (str_at d ''runner_id'') (\<lambda>runner.
     ebind (str_at d ''runner_capability_digest'') (\<lambda>capability.
     ebind (str_at d ''mode'') (\<lambda>mode.
     ebind (int_at d ''attempt'') (\<lambda>attempt.
     ebind (str_at d ''provider'') (\<lambda>provider.
     ebind (str_at d ''adapter'') (\<lambda>adapter.
     ebind (str_at d ''adapter_version'') (\<lambda>version.
     ebind (ebind (py_index d ''spec'') spec_from_dict) (\<lambda>spec.
     adapter_request_init
       \<lparr>aq_invocation_id = invocation, aq_session_id = session, aq_spec_id = sid, aq_spec_digest = sdigest,
        aq_plan_id = pid, aq_plan_digest = pdigest, aq_registry_digest = rdigest, aq_runner_id = runner,
        aq_runner_capability_digest = capability, aq_mode = mode, aq_attempt = attempt,
        aq_provider = provider, aq_adapter = adapter, aq_adapter_version = version, aq_spec = spec,
        aq_schema_version = ''ge.adapter-dispatch.v1''\<rparr>))))))))))))))))"

definition valid_request :: "adapter_request \<Rightarrow> bool" where
  "valid_request r \<longleftrightarrow> adapter_request_init r = Inr r \<and> aq_schema_version r = ''ge.adapter-dispatch.v1''
     \<and> valid_spec (aq_spec r)"

interpretation request_wire: codec request_to_dict request_from_dict valid_request
proof unfold_locales
  fix x y
  show "wf_py (request_to_dict x)"
    by (simp add: request_to_dict_def spec_wire.enc_wf)
  show "normalize (request_to_dict x) = normalize (request_to_dict y) \<longleftrightarrow> x = y"
    by (cases x; cases y) (auto simp: request_to_dict_def normalize_dict_inject spec_wire.enc_inject)
  show "request_from_dict (normalize (request_to_dict x)) = Inr x" if "valid_request x"
    using that
    by (cases x) (simp add: request_from_dict_def request_to_dict_def str_at_def int_at_def
        valid_request_def spec_wire.dec_enc)
qed

interpretation request_codec: sound_codec request_to_dict request_from_dict valid_request
proof unfold_locales
  fix d x
  assume "request_from_dict d = Inr x"
  then show "valid_request x"
    by (auto simp: request_from_dict_def valid_request_def ebind_eq_Inr adapter_request_init_eq spec_codec.dec_ok split: if_splits)
qed

section \<open>Building and verifying a request\<close>

definition verify_static_binding ::
  "hash \<Rightarrow> execution_spec \<Rightarrow> runner_registry \<Rightarrow> dispatch_plan \<Rightarrow> execution_session \<Rightarrow> runner_capabilities \<Rightarrow> unit exc" where
  "verify_static_binding h spec registry plan session runner =
     ebind (verify_plan h spec registry plan) (\<lambda>ok.
     if \<not> ok then Inl (AdapterError ''dispatch plan does not reproduce'')
     else if runner \<notin> set (rg_runners registry) then Inl (AdapterError ''runner is absent from registry'')
     else if xs_state session \<noteq> ''running'' then Inl (AdapterError ''dispatch requires a running session'')
     else if (xs_spec_id session, xs_spec_digest session, xs_plan_id session, xs_plan_digest session,
              dp_registry_digest plan, xs_runner_id session, xs_runner_capability_digest session, xs_mode session)
       \<noteq> (spec_id h spec, spec_digest h spec, plan_id h plan, plan_digest h plan,
          registry_digest h registry, rc_runner_id runner, runner_digest h runner, dp_mode plan)
     then Inl (AdapterError ''spec, registry, plan, runner, and session are not exactly bound'')
     else Inr ())"

text \<open>\<open>invocation_id or f"gei-{uuid.uuid4().hex}"\<close>.\<close>

definition choose_invocation :: "string \<Rightarrow> string option \<Rightarrow> string" where
  "choose_invocation fresh invocation_id = (case invocation_id of
     Some i \<Rightarrow> (if i \<noteq> [] then i else ''gei-'' @ fresh) | None \<Rightarrow> ''gei-'' @ fresh)"

definition build_dispatch_request ::
  "hash \<Rightarrow> execution_spec \<Rightarrow> runner_registry \<Rightarrow> dispatch_plan \<Rightarrow> execution_session \<Rightarrow> runner_capabilities
   \<Rightarrow> string \<Rightarrow> string option \<Rightarrow> adapter_request exc" where
  "build_dispatch_request h spec registry plan session runner fresh invocation_id =
     ebind (verify_static_binding h spec registry plan session runner) (\<lambda>_.
     adapter_request_init
       \<lparr>aq_invocation_id = choose_invocation fresh invocation_id,
        aq_session_id = session_id h session, aq_spec_id = spec_id h spec,
        aq_spec_digest = spec_digest h spec, aq_plan_id = plan_id h plan,
        aq_plan_digest = plan_digest h plan, aq_registry_digest = registry_digest h registry,
        aq_runner_id = rc_runner_id runner, aq_runner_capability_digest = runner_digest h runner,
        aq_mode = xs_mode session, aq_attempt = xs_attempt session, aq_provider = rc_provider runner,
        aq_adapter = rc_adapter runner, aq_adapter_version = rc_adapter_version runner, aq_spec = spec,
        aq_schema_version = ''ge.adapter-dispatch.v1''\<rparr>)"

text \<open>
  Only \<open>AdapterError\<close> is caught; the fresh identifier is never drawn for a request that was
  constructed, whose invocation identifier is not empty.
\<close>

definition verify_dispatch_request ::
  "hash \<Rightarrow> execution_spec \<Rightarrow> runner_registry \<Rightarrow> dispatch_plan \<Rightarrow> execution_session \<Rightarrow> runner_capabilities
   \<Rightarrow> adapter_request \<Rightarrow> bool exc" where
  "verify_dispatch_request h spec registry plan session runner request =
     handle is_adapter_error False
       (ebind (build_dispatch_request h spec registry plan session runner [] (Some (aq_invocation_id request)))
         (\<lambda>expected. Inr (request = expected)))"

lemma verify_static_binding_Inr [exc_simps]:
  "verify_static_binding h spec registry plan session runner = Inr u \<longleftrightarrow>
   plan_execution h spec registry (dp_mode plan) = Inr plan \<and> runner \<in> set (rg_runners registry) \<and>
   xs_state session = ''running'' \<and> xs_spec_id session = spec_id h spec \<and>
   xs_spec_digest session = spec_digest h spec \<and> xs_plan_id session = plan_id h plan \<and>
   xs_plan_digest session = plan_digest h plan \<and> dp_registry_digest plan = registry_digest h registry \<and>
   xs_runner_id session = rc_runner_id runner \<and> xs_runner_capability_digest session = runner_digest h runner \<and>
   xs_mode session = dp_mode plan"
  by (auto simp: verify_static_binding_def verify_plan_def exc_simps)

text \<open>The binding that a verified request carries.\<close>

definition request_bound ::
  "hash \<Rightarrow> execution_spec \<Rightarrow> runner_registry \<Rightarrow> dispatch_plan \<Rightarrow> execution_session \<Rightarrow> runner_capabilities
   \<Rightarrow> adapter_request \<Rightarrow> bool" where
  "request_bound h spec registry plan session runner r \<longleftrightarrow>
     verify_static_binding h spec registry plan session runner = Inr () \<and> adapter_request_init r = Inr r \<and>
     r = \<lparr>aq_invocation_id = aq_invocation_id r,
        aq_session_id = session_id h session, aq_spec_id = spec_id h spec,
        aq_spec_digest = spec_digest h spec, aq_plan_id = plan_id h plan,
        aq_plan_digest = plan_digest h plan, aq_registry_digest = registry_digest h registry,
        aq_runner_id = rc_runner_id runner, aq_runner_capability_digest = runner_digest h runner,
        aq_mode = xs_mode session, aq_attempt = xs_attempt session, aq_provider = rc_provider runner,
        aq_adapter = rc_adapter runner, aq_adapter_version = rc_adapter_version runner, aq_spec = spec,
        aq_schema_version = ''ge.adapter-dispatch.v1''\<rparr>"

lemma request_bound_fields:
  assumes "request_bound h spec registry plan session runner r"
  shows "aq_session_id r = session_id h session" "aq_spec_id r = spec_id h spec"
    "aq_spec_digest r = spec_digest h spec" "aq_runner_id r = rc_runner_id runner"
    "aq_runner_capability_digest r = runner_digest h runner" "aq_attempt r = xs_attempt session"
    "aq_spec r = spec" "aq_plan_id r = plan_id h plan" "aq_plan_digest r = plan_digest h plan"
    "aq_mode r = xs_mode session" "xs_state session = ''running''" "adapter_request_init r = Inr r"
proof -
  obtain i where r: "r = \<lparr>aq_invocation_id = i,
        aq_session_id = session_id h session, aq_spec_id = spec_id h spec,
        aq_spec_digest = spec_digest h spec, aq_plan_id = plan_id h plan,
        aq_plan_digest = plan_digest h plan, aq_registry_digest = registry_digest h registry,
        aq_runner_id = rc_runner_id runner, aq_runner_capability_digest = runner_digest h runner,
        aq_mode = xs_mode session, aq_attempt = xs_attempt session, aq_provider = rc_provider runner,
        aq_adapter = rc_adapter runner, aq_adapter_version = rc_adapter_version runner, aq_spec = spec,
        aq_schema_version = ''ge.adapter-dispatch.v1''\<rparr>"
    using assms unfolding request_bound_def by blast
  then show "aq_session_id r = session_id h session" "aq_spec_id r = spec_id h spec"
    "aq_spec_digest r = spec_digest h spec" "aq_runner_id r = rc_runner_id runner"
    "aq_runner_capability_digest r = runner_digest h runner" "aq_attempt r = xs_attempt session"
    "aq_spec r = spec" "aq_plan_id r = plan_id h plan" "aq_plan_digest r = plan_digest h plan"
    "aq_mode r = xs_mode session"
    by simp_all
  show "xs_state session = ''running''" "adapter_request_init r = Inr r"
    using assms unfolding request_bound_def verify_static_binding_Inr by blast+
qed

lemma build_dispatch_request_bound:
  "build_dispatch_request h spec registry plan session runner fresh iid = Inr r \<Longrightarrow>
   request_bound h spec registry plan session runner r \<and> aq_invocation_id r = choose_invocation fresh iid"
  unfolding build_dispatch_request_def ebind_eq_Inr adapter_request_init_eq request_bound_def by auto

lemma startswith_not_Nil: "startswith s (c # p) \<Longrightarrow> s \<noteq> []"
  by (auto simp: startswith_def)

lemma verify_dispatch_request_True [exc_simps]:
  "verify_dispatch_request h spec registry plan session runner r = Inr True \<longleftrightarrow>
   request_bound h spec registry plan session runner r"
proof -
  have "verify_dispatch_request h spec registry plan session runner r = Inr True \<longleftrightarrow>
      build_dispatch_request h spec registry plan session runner [] (Some (aq_invocation_id r)) = Inr r"
    by (auto simp: verify_dispatch_request_def exc_simps)
  also have "\<dots> \<longleftrightarrow> request_bound h spec registry plan session runner r"
  proof
    show "build_dispatch_request h spec registry plan session runner [] (Some (aq_invocation_id r)) = Inr r \<Longrightarrow>
        request_bound h spec registry plan session runner r"
      using build_dispatch_request_bound by blast
    assume b: "request_bound h spec registry plan session runner r"
    then have "aq_invocation_id r \<noteq> []"
      unfolding request_bound_def adapter_request_init_eq using startswith_not_Nil by blast
    then have "choose_invocation [] (Some (aq_invocation_id r)) = aq_invocation_id r"
      by (simp add: choose_invocation_def)
    with b show "build_dispatch_request h spec registry plan session runner [] (Some (aq_invocation_id r)) = Inr r"
      unfolding build_dispatch_request_def request_bound_def by simp
  qed
  finally show ?thesis .
qed

section \<open>The reference adapter\<close>

definition REFERENCE_PROVIDER :: string where "REFERENCE_PROVIDER = ''reference-provider''"
definition REFERENCE_ADAPTER :: string where "REFERENCE_ADAPTER = ''reference-adapter''"
definition REFERENCE_ADAPTER_VERSION :: string where "REFERENCE_ADAPTER_VERSION = ''1''"
definition REFERENCE_CAPABILITY :: string where "REFERENCE_CAPABILITY = ''reference.probe''"
definition REFERENCE_TASK_KIND :: string where "REFERENCE_TASK_KIND = ''reference-probe''"
definition REFERENCE_EVIDENCE :: string where "REFERENCE_EVIDENCE = ''reference-probe-digest''"

definition reference_runner :: "string \<Rightarrow> runner_capabilities exc" where
  "reference_runner rid = runner_capabilities_init
     \<lparr>rc_runner_id = rid, rc_provider = REFERENCE_PROVIDER, rc_adapter = REFERENCE_ADAPTER,
      rc_adapter_version = REFERENCE_ADAPTER_VERSION, rc_capabilities = [REFERENCE_CAPABILITY],
      rc_modes = [''read_only''], rc_max_parallelism = 1\<rparr>"

definition reference_evidence_digest :: "hash \<Rightarrow> adapter_request \<Rightarrow> string" where
  "reference_evidence_digest h r = sha256_digest h (PDict [
     (''protocol'', PStr ''ge.reference-probe.v1''),
     (''invocation_id'', PStr (aq_invocation_id r)),
     (''session_id'', PStr (aq_session_id r)),
     (''spec_digest'', PStr (aq_spec_digest r)),
     (''source_revision'', PStr (es_source_revision (aq_spec r))),
     (''objective'', PStr (es_objective (aq_spec r))),
     (''inputs'', PTuple (map artifact_ref_py (es_inputs (aq_spec r))))])"

definition evidence_uri :: "adapter_request \<Rightarrow> string" where
  "evidence_uri r = ''ge+reference://evidence/'' @ aq_invocation_id r"

definition response_digest :: "hash \<Rightarrow> adapter_request \<Rightarrow> string \<Rightarrow> result_envelope \<Rightarrow> string" where
  "response_digest h r provider_invocation_id res = sha256_digest h (PDict [
     (''invocation_id'', PStr (aq_invocation_id r)),
     (''request_digest'', PStr (request_digest h r)),
     (''provider_invocation_id'', PStr provider_invocation_id),
     (''result'', result_to_dict res)])"

definition make_reference_observation :: "hash \<Rightarrow> adapter_request \<Rightarrow> string \<Rightarrow> provider_observation exc" where
  "make_reference_observation h r provider_invocation_id =
     (if aq_mode r \<noteq> ''read_only'' then Inl (AdapterError ''reference adapter is read-only'')
      else if es_task_kind (aq_spec r) \<noteq> REFERENCE_TASK_KIND
      then Inl (AdapterError ''reference adapter accepts only reference-probe'')
      else if REFERENCE_CAPABILITY \<notin> set (es_required_capabilities (aq_spec r))
      then Inl (AdapterError ''reference capability must be requested'')
      else if list_ex (\<lambda>q. q \<noteq> REFERENCE_EVIDENCE) (es_evidence_requirements (aq_spec r))
      then Inl (AdapterError ''unsupported evidence requirement'')
      else
        ebind (artifact_ref_init \<lparr>ar_name = REFERENCE_EVIDENCE, ar_uri = evidence_uri r,
          ar_digest = reference_evidence_digest h r\<rparr>) (\<lambda>evidence.
        ebind (result_envelope_init
          \<lparr>re_session_id = aq_session_id r, re_spec_id = aq_spec_id r, re_spec_digest = aq_spec_digest r,
           re_runner_id = aq_runner_id r, re_attempt = aq_attempt r, re_status = ''completed'',
           re_output_artifacts = [], re_evidence = [evidence],
           re_summary = ''Reference provider completed the bounded conformance probe.'',
           re_schema_version = ''ge.result-envelope.v1''\<rparr>) (\<lambda>res.
        provider_observation_init
          \<lparr>po_invocation_id = aq_invocation_id r, po_request_digest = request_digest h r,
           po_provider_invocation_id = provider_invocation_id, po_transport_status = ''completed'',
           po_result = res, po_response_digest = response_digest h r provider_invocation_id res,
           po_schema_version = ''ge.provider-observation.v1''\<rparr>)))"

section \<open>Admission of an observation\<close>

definition result_bound :: "hash \<Rightarrow> execution_spec \<Rightarrow> execution_session \<Rightarrow> runner_capabilities \<Rightarrow> result_envelope \<Rightarrow> bool" where
  "result_bound h spec session runner res \<longleftrightarrow>
     re_session_id res = session_id h session \<and> re_spec_id res = spec_id h spec \<and>
     re_spec_digest res = spec_digest h spec \<and> re_runner_id res = rc_runner_id runner \<and>
     re_attempt res = xs_attempt session"

definition evidence_bound :: "hash \<Rightarrow> adapter_request \<Rightarrow> result_envelope \<Rightarrow> bool" where
  "evidence_bound h r res = (case re_evidence res of
     [e] \<Rightarrow> ar_name e = REFERENCE_EVIDENCE \<and> ar_uri e = evidence_uri r \<and> ar_digest e = reference_evidence_digest h r
   | _ \<Rightarrow> False)"

definition verify_invocation_bundle ::
  "hash \<Rightarrow> execution_spec \<Rightarrow> runner_registry \<Rightarrow> dispatch_plan \<Rightarrow> execution_session \<Rightarrow> runner_capabilities
   \<Rightarrow> invocation_bundle \<Rightarrow> bool exc" where
  "verify_invocation_bundle h spec registry plan session runner b =
     (let r = ib_request b; ob = ib_observation b; rc = ib_receipt b; res = ib_result b in
      ebind (verify_dispatch_request h spec registry plan session runner r) (\<lambda>ok.
      if \<not> ok then Inr False
      else if po_result ob \<noteq> res \<or> ac_result_digest rc \<noteq> result_digest h res then Inr False
      else if po_invocation_id ob \<noteq> aq_invocation_id r \<or> po_request_digest ob \<noteq> request_digest h r
        \<or> ac_invocation_id rc \<noteq> aq_invocation_id r \<or> ac_request_id rc \<noteq> request_id h r
        \<or> ac_request_digest rc \<noteq> request_digest h r
        \<or> ac_provider_invocation_id rc \<noteq> po_provider_invocation_id ob
        \<or> ac_response_digest rc \<noteq> po_response_digest ob \<or> ac_transport_status rc \<noteq> ''completed''
      then Inr False
      else if po_response_digest ob \<noteq> response_digest h r (po_provider_invocation_id ob) res then Inr False
      else if re_status res \<noteq> ''completed'' \<or> length (re_evidence res) \<noteq> 1 then Inr False
      else Inr (result_bound h spec session runner res \<and> evidence_bound h r res)))"

definition admit_observation ::
  "hash \<Rightarrow> execution_spec \<Rightarrow> runner_registry \<Rightarrow> dispatch_plan \<Rightarrow> execution_session \<Rightarrow> runner_capabilities
   \<Rightarrow> adapter_request \<Rightarrow> provider_observation \<Rightarrow> invocation_bundle exc" where
  "admit_observation h spec registry plan session runner r ob =
     ebind (verify_dispatch_request h spec registry plan session runner r) (\<lambda>ok.
     if \<not> ok then Inl (AdapterError ''dispatch request is not admissible'')
     else if po_invocation_id ob \<noteq> aq_invocation_id r \<or> po_request_digest ob \<noteq> request_digest h r
       \<or> po_response_digest ob \<noteq> response_digest h r (po_provider_invocation_id ob) (po_result ob)
       \<or> \<not> result_bound h spec session runner (po_result ob)
     then Inl (AdapterError ''provider observation is not bound to the exact request'')
     else (let
       receipt = \<lparr>ac_invocation_id = aq_invocation_id r, ac_request_id = request_id h r,
         ac_request_digest = request_digest h r, ac_session_id = session_id h session,
         ac_runner_id = rc_runner_id runner, ac_provider = rc_provider runner,
         ac_adapter = rc_adapter runner, ac_adapter_version = rc_adapter_version runner,
         ac_provider_invocation_id = po_provider_invocation_id ob,
         ac_transport_status = po_transport_status ob, ac_response_digest = po_response_digest ob,
         ac_result_digest = result_digest h (po_result ob), ac_schema_version = ''ge.adapter-receipt.v1''\<rparr>;
       b = \<lparr>ib_request = r, ib_observation = ob, ib_receipt = receipt, ib_result = po_result ob,
         ib_schema_version = ''ge.invocation-bundle.v1''\<rparr>
     in ebind (verify_invocation_bundle h spec registry plan session runner b) (\<lambda>verified.
        if \<not> verified then Inl (AdapterError ''invocation bundle verification failed'') else Inr b)))"

lemma admit_observation_verified:
  "admit_observation h spec registry plan session runner r ob = Inr b \<Longrightarrow>
   verify_invocation_bundle h spec registry plan session runner b = Inr True"
  by (auto simp: admit_observation_def Let_def exc_simps)

lemma admit_observation_bundle:
  "admit_observation h spec registry plan session runner r ob = Inr b \<Longrightarrow>
   ib_request b = r \<and> ib_observation b = ob \<and> ib_result b = po_result ob \<and>
   request_bound h spec registry plan session runner r \<and> result_bound h spec session runner (po_result ob)"
  by (auto simp: admit_observation_def Let_def exc_simps)

lemma verify_invocation_bundle_True:
  "verify_invocation_bundle h spec registry plan session runner b = Inr True \<Longrightarrow>
   request_bound h spec registry plan session runner (ib_request b) \<and>
   result_bound h spec session runner (ib_result b) \<and> evidence_bound h (ib_request b) (ib_result b) \<and>
   po_response_digest (ib_observation b) =
     response_digest h (ib_request b) (po_provider_invocation_id (ib_observation b)) (ib_result b) \<and>
   ac_result_digest (ib_receipt b) = result_digest h (ib_result b)"
  by (auto simp: verify_invocation_bundle_def Let_def exc_simps)

text \<open>An admitted result can be submitted to the session that asked for it.\<close>

lemma admitted_result_submits:
  assumes "admit_observation h spec registry plan session runner r ob = Inr b"
    and "execution_session_init session = Inr session"
  shows "\<exists>s'. submit_result h session (ib_result b) = Inr s' \<and> xs_result_digest s' = Some (result_digest h (ib_result b))"
proof -
  have "verify_static_binding h spec registry plan session runner = Inr ()" "result_bound h spec session runner (ib_result b)"
    using admit_observation_bundle [OF assms(1)] by (auto simp: request_bound_def)
  then show ?thesis using assms(2)
    by (auto simp: submit_result_eq result_bound_def exc_simps)
qed

section \<open>The reference adapter end to end\<close>

lemma not_blank_append: "c \<in> set s \<Longrightarrow> \<not> is_space c \<Longrightarrow> \<not> blank s"
  by (auto simp: blank_iff)

lemma not_blank_stable_id [simp]: "\<not> blank (stable_id h p v)"
  by (rule not_blank_append [of "CHR ''-''"]) (simp_all add: stable_id_def is_space_def)

lemma not_blank_digest [simp]: "\<not> blank (sha256_digest h v)"
  by (rule not_blank_append [of "CHR '':''"]) (simp_all add: sha256_digest_def is_space_def)

text \<open>The probe that the reference adapter accepts.\<close>

definition reference_probe :: "adapter_request \<Rightarrow> bool" where
  "reference_probe r \<longleftrightarrow> aq_mode r = ''read_only'' \<and> es_task_kind (aq_spec r) = REFERENCE_TASK_KIND
     \<and> REFERENCE_CAPABILITY \<in> set (es_required_capabilities (aq_spec r))
     \<and> set (es_evidence_requirements (aq_spec r)) \<subseteq> {REFERENCE_EVIDENCE}"

context hex_digest
begin

lemma digest_ok_sha256: "digest_ok (sha256_digest h v)"
  by (simp add: digest_ok_def digest_shape_def sha256_digest_length sha256_digest_prefix sha256_digest_int16)

lemma reference_observation_admitted:
  assumes bound: "request_bound h spec registry plan session runner r" and probe: "reference_probe r"
    and runner: "runner_capabilities_init runner = Inr runner"
  shows "\<exists>ob b. make_reference_observation h r pid = Inr ob \<and>
    admit_observation h spec registry plan session runner r ob = Inr b \<and> ib_observation b = ob"
proof -
  note fields = request_bound_fields [OF bound]
  have blanks: "\<not> blank (aq_session_id r)" "\<not> blank (aq_spec_id r)" "\<not> blank (aq_spec_digest r)" "\<not> blank (aq_runner_id r)"
    using runner by (simp_all add: fields session_id_def spec_id_def spec_digest_def runner_capabilities_init_eq)
  have attempt: "1 \<le> aq_attempt r" using fields(12) by (simp add: adapter_request_init_eq)
  define evidence where "evidence = \<lparr>ar_name = REFERENCE_EVIDENCE, ar_uri = evidence_uri r, ar_digest = reference_evidence_digest h r\<rparr>"
  have "\<not> blank (evidence_uri r)"
    by (rule not_blank_append [of "CHR ''g''"]) (simp_all add: evidence_uri_def is_space_def)
  then have ev: "artifact_ref_init evidence = Inr evidence"
    by (simp add: artifact_ref_init_eq evidence_def REFERENCE_EVIDENCE_def blank_iff is_space_def reference_evidence_digest_def digest_ok_sha256)
  define res where "res = \<lparr>re_session_id = aq_session_id r, re_spec_id = aq_spec_id r, re_spec_digest = aq_spec_digest r,
     re_runner_id = aq_runner_id r, re_attempt = aq_attempt r, re_status = ''completed'',
     re_output_artifacts = [], re_evidence = [evidence],
     re_summary = ''Reference provider completed the bounded conformance probe.'',
     re_schema_version = ''ge.result-envelope.v1''\<rparr>"
  have res: "result_envelope_init res = Inr res"
    using blanks attempt by (simp add: result_envelope_init_eq res_def valid_result_statuses_def)
  define ob where "ob = \<lparr>po_invocation_id = aq_invocation_id r, po_request_digest = request_digest h r,
     po_provider_invocation_id = pid, po_transport_status = ''completed'', po_result = res,
     po_response_digest = response_digest h r pid res, po_schema_version = ''ge.provider-observation.v1''\<rparr>"
  have "\<not> list_ex (\<lambda>q. q \<noteq> REFERENCE_EVIDENCE) (es_evidence_requirements (aq_spec r))"
    using probe by (auto simp: reference_probe_def list_ex_iff)
  then have made: "make_reference_observation h r pid = Inr ob"
    using probe ev res unfolding make_reference_observation_def
    by (simp add: reference_probe_def evidence_def [symmetric] res_def [symmetric] ob_def provider_observation_init_def)
  have verified: "verify_dispatch_request h spec registry plan session runner r = Inr True"
    using bound by (simp add: verify_dispatch_request_True)
  have rb: "result_bound h spec session runner res" by (simp add: result_bound_def res_def fields)
  have eb: "evidence_bound h r res" by (simp add: evidence_bound_def res_def evidence_def)
  have "re_status res = ''completed''" "length (re_evidence res) = 1" by (simp_all add: res_def)
  with verified rb eb have "\<exists>b. admit_observation h spec registry plan session runner r ob = Inr b \<and> ib_observation b = ob"
    by (simp add: admit_observation_def verify_invocation_bundle_def ob_def Let_def)
  with made show ?thesis by blast
qed

end

section \<open>An example\<close>

definition ex_request :: "hash \<Rightarrow> adapter_request" where
  "ex_request h = \<lparr>aq_invocation_id = ''gei-1'', aq_session_id = session_id h (ex_running h), aq_spec_id = spec_id h ex_spec,
     aq_spec_digest = spec_digest h ex_spec, aq_plan_id = plan_id h (ex_plan h),
     aq_plan_digest = plan_digest h (ex_plan h), aq_registry_digest = registry_digest h ex_registry,
     aq_runner_id = ''r1'', aq_runner_capability_digest = runner_digest h ex_runner,
     aq_mode = ''read_only'', aq_attempt = 1, aq_provider = ''reference-provider'',
     aq_adapter = ''reference-adapter'', aq_adapter_version = ''1'', aq_spec = ex_spec,
     aq_schema_version = ''ge.adapter-dispatch.v1''\<rparr>"

lemma ex_request_built: "build_dispatch_request h ex_spec ex_registry (ex_plan h) (ex_running h) ex_runner [] (Some ''gei-1'') = Inr (ex_request h)"
proof -
  have "plan_execution h ex_spec ex_registry (dp_mode (ex_plan h)) = Inr (ex_plan h)"
    using ex_plan by (simp add: ex_plan_def)
  moreover have "ex_runner \<in> set (rg_runners ex_registry)" by (simp add: ex_registry_def)
  moreover have "xs_state (ex_running h) = ''running''" "xs_spec_id (ex_running h) = spec_id h ex_spec"
      "xs_spec_digest (ex_running h) = spec_digest h ex_spec" "xs_plan_id (ex_running h) = plan_id h (ex_plan h)"
      "xs_plan_digest (ex_running h) = plan_digest h (ex_plan h)" "dp_registry_digest (ex_plan h) = registry_digest h ex_registry"
      "xs_runner_id (ex_running h) = rc_runner_id ex_runner"
      "xs_runner_capability_digest (ex_running h) = runner_digest h ex_runner" "xs_mode (ex_running h) = dp_mode (ex_plan h)"
    by (simp_all add: ex_running_def ex_session_def ex_runner_def) (simp_all add: ex_plan_def)
  ultimately have "verify_static_binding h ex_spec ex_registry (ex_plan h) (ex_running h) ex_runner = Inr ()"
    unfolding verify_static_binding_Inr by blast
  moreover have "xs_mode (ex_running h) = ''read_only''" "xs_attempt (ex_running h) = 1" "rc_runner_id ex_runner = ''r1''"
      "rc_provider ex_runner = ''reference-provider''" "rc_adapter ex_runner = ''reference-adapter''" "rc_adapter_version ex_runner = ''1''"
    by (simp_all add: ex_running_def ex_session_def ex_runner_def)
  ultimately show ?thesis
    by (simp add: build_dispatch_request_def choose_invocation_def ex_request_def adapter_request_init_def startswith_def)
qed

lemma ex_request_bound: "request_bound h ex_spec ex_registry (ex_plan h) (ex_running h) ex_runner (ex_request h)"
  using build_dispatch_request_bound [OF ex_request_built] by blast

lemma ex_request_probe: "reference_probe (ex_request h)"
  by (simp add: reference_probe_def ex_request_def ex_spec_def REFERENCE_TASK_KIND_def REFERENCE_CAPABILITY_def REFERENCE_EVIDENCE_def)

section \<open>Properties\<close>

text \<open>A dispatch request verifies exactly when it carries the binding computed from the context: the
  plan reproduces, the runner is registered, the session runs, and every identifier and digest in
  the request is the one of that specification, registry, plan, session and runner.\<close>

theorem verified_request_is_bound:
  "verify_dispatch_request h spec registry plan session runner r = Inr True \<longleftrightarrow>
   request_bound h spec registry plan session runner r"
  by (rule verify_dispatch_request_True)

text \<open>An admitted provider result can be submitted to the running session that asked for it, and
  the session then records exactly the digest of that result.\<close>

theorem admitted_result_closes_session:
  assumes "admit_observation h spec registry plan session runner r ob = Inr b"
    and "execution_session_init session = Inr session"
  shows "\<exists>s'. submit_result h session (ib_result b) = Inr s' \<and> xs_state s' = ''result_submitted'' \<and>
    xs_result_digest s' = Some (result_digest h (po_result ob)) \<and> session_id h s' = session_id h session"
proof -
  obtain s' where s': "submit_result h session (ib_result b) = Inr s'" using admitted_result_submits [OF assms] by blast
  moreover have "ib_result b = po_result ob" using admit_observation_bundle [OF assms(1)] by blast
  ultimately show ?thesis by (auto simp: submit_result_eq)
qed

theorem admitted_result_closes_session_witness:
  "\<exists>(ob :: provider_observation) s'. submit_result zero_hash (ex_running zero_hash) (po_result ob) = Inr s' \<and> xs_state s' = ''result_submitted''"
proof -
  obtain ob b where b: "admit_observation zero_hash ex_spec ex_registry (ex_plan zero_hash) (ex_running zero_hash) ex_runner
      (ex_request zero_hash) ob = Inr b"
    using hex_digest.reference_observation_admitted [OF zero_hash ex_request_bound ex_request_probe ex_valid(2)] by blast
  then have "ib_result b = po_result ob" using admit_observation_bundle by blast
  moreover obtain s' where "submit_result zero_hash (ex_running zero_hash) (ib_result b) = Inr s'" "xs_state s' = ''result_submitted''"
    using admitted_result_closes_session [OF b ex_session(4)] by blast
  ultimately have "submit_result zero_hash (ex_running zero_hash) (po_result ob) = Inr s' \<and> xs_state s' = ''result_submitted''"
    by simp
  then show ?thesis by (intro exI [of _ ob] exI [of _ s'])
qed

text \<open>The reference adapter answers every admissible probe: for a bound request of its task kind the
  observation is constructed without an exception and is admitted (for a digest function that
  yields 64 hexadecimal digits, as SHA-256 does).\<close>

theorem reference_adapter_total:
  assumes "hex_digest h" and "request_bound h spec registry plan session runner r" and "reference_probe r"
    and "runner_capabilities_init runner = Inr runner"
  shows "\<exists>ob b. make_reference_observation h r pid = Inr ob \<and>
    admit_observation h spec registry plan session runner r ob = Inr b"
  using hex_digest.reference_observation_admitted [OF assms] by blast

theorem reference_adapter_total_witness:
  "\<exists>ob b. make_reference_observation zero_hash (ex_request zero_hash) ''p'' = Inr ob \<and>
    admit_observation zero_hash ex_spec ex_registry (ex_plan zero_hash) (ex_running zero_hash) ex_runner
      (ex_request zero_hash) ob = Inr b"
  by (rule reference_adapter_total [OF zero_hash ex_request_bound ex_request_probe ex_valid(2)])

end
