(* ===== verification/Ledger.thy ===== *)
theory Ledger
  imports Encoding Replay
begin

text \<open>
  The execution ledger (\<open>ledger.py\<close>): a hash chain of events. \<open>append_event\<close> links a new
  event to the head, \<open>verify_ledger\<close> recomputes every link. The lemmas show that appending
  keeps a ledger verified and leaves the past alone, and that the head of a verified ledger
  determines all of its events as long as the digest function has no collision among their
  texts.
\<close>

section \<open>Events and ledgers\<close>

definition GENESIS :: string where
  "GENESIS = ''sha256:'' @ replicate 64 CHR ''0''"

record ledger_event =
  le_index :: int
  le_event_type :: string
  le_previous_hash :: string
  le_payload :: pyval
  le_event_hash :: string
  le_schema_version :: string

record execution_ledger =
  el_events :: "ledger_event list"
  el_schema_version :: string

definition empty_ledger :: execution_ledger where
  "empty_ledger = \<lparr>el_events = [], el_schema_version = ''ge.execution-ledger.v1''\<rparr>"

definition head :: "execution_ledger \<Rightarrow> string" where
  "head l = (if el_events l = [] then GENESIS else le_event_hash (last (el_events l)))"

definition event_py :: "int \<Rightarrow> string \<Rightarrow> string \<Rightarrow> pyval \<Rightarrow> pyval" where
  "event_py index event_type previous_hash payload = PDict [
    (''schema_version'', PStr ''ge.ledger-event.v1''),
    (''index'', PInt index),
    (''event_type'', PStr event_type),
    (''previous_hash'', PStr previous_hash),
    (''payload'', payload)]"

definition event_hash :: "hash \<Rightarrow> int \<Rightarrow> string \<Rightarrow> string \<Rightarrow> pyval \<Rightarrow> string" where
  "event_hash h index event_type previous_hash payload =
     sha256_digest h (event_py index event_type previous_hash payload)"

definition append_event :: "hash \<Rightarrow> execution_ledger \<Rightarrow> string \<Rightarrow> pyval \<Rightarrow> execution_ledger exc" where
  "append_event h l event_type payload =
     (if blank event_type then Inl (ValueError ''event_type must be non-empty'')
      else let index = int (length (el_events l));
               previous_hash = head l;
               event = \<lparr>le_index = index, le_event_type = event_type, le_previous_hash = previous_hash,
                        le_payload = payload,
                        le_event_hash = event_hash h index event_type previous_hash payload,
                        le_schema_version = ''ge.ledger-event.v1''\<rparr>
           in Inr \<lparr>el_events = el_events l @ [event], el_schema_version = ''ge.execution-ledger.v1''\<rparr>)"

text \<open>The loop of \<open>verify_ledger\<close>, from position \<open>i\<close> and the running hash.\<close>

fun verify_events :: "hash \<Rightarrow> int \<Rightarrow> string \<Rightarrow> ledger_event list \<Rightarrow> bool" where
  "verify_events h i previous [] = True"
| "verify_events h i previous (e # es) =
     (if le_index e \<noteq> i \<or> le_previous_hash e \<noteq> previous then False
      else if le_event_hash e \<noteq> event_hash h (le_index e) (le_event_type e) (le_previous_hash e) (le_payload e)
      then False
      else verify_events h (i + 1) (le_event_hash e) es)"

definition verify_ledger :: "hash \<Rightarrow> execution_ledger \<Rightarrow> bool" where
  "verify_ledger h l = verify_events h 0 GENESIS (el_events l)"

text \<open>Appending a sequence of typed payloads, as the recorders do.\<close>

definition append_events :: "hash \<Rightarrow> execution_ledger \<Rightarrow> (string \<times> pyval) list \<Rightarrow> execution_ledger exc" where
  "append_events h l items = efold (\<lambda>l (t, p). append_event h l t p) l items"

section \<open>Appending\<close>

lemma append_event_Inr: "append_event h l t p = Inr l' \<longleftrightarrow> \<not> blank t \<and>
   l' = \<lparr>el_events = el_events l @ [\<lparr>le_index = int (length (el_events l)), le_event_type = t,
          le_previous_hash = head l, le_payload = p,
          le_event_hash = event_hash h (int (length (el_events l))) t (head l) p,
          le_schema_version = ''ge.ledger-event.v1''\<rparr>], el_schema_version = ''ge.execution-ledger.v1''\<rparr>"
  by (auto simp: append_event_def Let_def)

definition event_item :: "ledger_event \<Rightarrow> string \<times> pyval" where
  "event_item e = (le_event_type e, le_payload e)"

interpretation ledger: append_only "\<lambda>l (t, p). append_event h l t p" "\<lambda>l. map event_item (el_events l)" for h
  by unfold_locales (auto simp: append_event_Inr event_item_def)

lemma verify_events_append:
  "verify_events h i p (es @ fs) \<longleftrightarrow> verify_events h i p es \<and>
     verify_events h (i + int (length es)) (if es = [] then p else le_event_hash (last es)) fs"
  by (induction es arbitrary: i p) (auto simp: algebra_simps)

lemma verify_append_event: "verify_ledger h l \<Longrightarrow> append_event h l t p = Inr l' \<Longrightarrow> verify_ledger h l'"
  by (auto simp: append_event_Inr verify_ledger_def verify_events_append head_def)

lemma append_event_extends: "append_event h l t p = Inr l' \<Longrightarrow> \<exists>e. el_events l' = el_events l @ [e]"
  by (auto simp: append_event_Inr)

lemma append_events_Inr_Nil [simp]: "append_events h l [] = Inr l"
  by (simp add: append_events_def)

lemma append_events_Cons: "append_events h l ((t, p) # items) = ebind (append_event h l t p) (\<lambda>l'. append_events h l' items)"
  by (simp add: append_events_def)

lemma append_events_ok:
  "\<forall>(t, p)\<in>set items. \<not> blank t \<Longrightarrow> \<exists>l'. append_events h l items = Inr l'"
proof (induction items arbitrary: l)
  case (Cons a items)
  obtain t p where a: "a = (t, p)" by (cases a)
  with Cons.prems obtain l' where "append_event h l t p = Inr l'" by (auto simp: append_event_Inr)
  with Cons a show ?case by (simp add: append_events_Cons)
qed simp

text \<open>A batch of appended events: the old ledger is a prefix, and the new tail is the batch.\<close>

lemma append_events_extends:
  "append_events h l items = Inr l' \<Longrightarrow>
   \<exists>es. el_events l' = el_events l @ es \<and> map event_item es = items \<and> (verify_ledger h l \<longrightarrow> verify_ledger h l')"
proof (induction items arbitrary: l)
  case Nil
  then show ?case by simp
next
  case (Cons a items)
  obtain t p where a: "a = (t, p)" by (cases a)
  with Cons.prems obtain m where m: "append_event h l t p = Inr m" and rest: "append_events h m items = Inr l'"
    by (auto simp: append_events_Cons exc_simps)
  obtain e where e: "el_events m = el_events l @ [e]" "event_item e = a"
    using m a by (auto simp: append_event_Inr event_item_def)
  obtain es where es: "el_events l' = el_events m @ es" "map event_item es = items"
      "verify_ledger h m \<longrightarrow> verify_ledger h l'"
    using Cons.IH [OF rest] by blast
  have "verify_ledger h l \<longrightarrow> verify_ledger h l'"
    using verify_append_event [OF _ m] es(3) by blast
  then show ?case using e es by (intro exI [of _ "e # es"]) simp
qed

section \<open>The head determines the history\<close>

text \<open>What the hash of an event covers, up to normalisation of its payload.\<close>

definition event_content :: "ledger_event \<Rightarrow> int \<times> string \<times> string \<times> pyval \<times> string" where
  "event_content e = (le_index e, le_event_type e, le_previous_hash e, normalize (le_payload e), le_event_hash e)"

definition event_text :: "ledger_event \<Rightarrow> string" where
  "event_text e = canonical_json (event_py (le_index e) (le_event_type e) (le_previous_hash e) (le_payload e))"

definition payloads_wf :: "execution_ledger \<Rightarrow> bool" where
  "payloads_wf l \<longleftrightarrow> list_all (\<lambda>e. wf_py (le_payload e)) (el_events l)"

lemma event_py_wf [simp]: "wf_py (event_py i t q p) \<longleftrightarrow> wf_py p"
  by (simp add: event_py_def)

lemma event_py_inject:
  "normalize (event_py i t q p) = normalize (event_py i' t' q' p') \<longleftrightarrow>
   i = i' \<and> t = t' \<and> q = q' \<and> normalize p = normalize p'"
  by (simp add: event_py_def normalize_dict_inject)

lemma event_text_inject:
  assumes "wf_py (le_payload e)" and "wf_py (le_payload f)" and "event_text e = event_text f"
  shows "le_index e = le_index f" "le_event_type e = le_event_type f"
    "le_previous_hash e = le_previous_hash f" "normalize (le_payload e) = normalize (le_payload f)"
  using assms by (simp_all add: event_text_def canonical_json_inject event_py_inject)

lemma verified_event_hash:
  "verify_events h i p es \<Longrightarrow> e \<in> set es \<Longrightarrow> le_event_hash e = ''sha256:'' @ h (event_text e)"
  by (induction es arbitrary: i p) (auto simp: event_hash_def sha256_digest_def event_text_def split: if_splits)

lemma verify_events_snoc:
  "verify_events h 0 GENESIS (es @ [e]) \<longleftrightarrow> verify_events h 0 GENESIS es \<and>
     le_index e = int (length es) \<and> le_previous_hash e = (if es = [] then GENESIS else le_event_hash (last es)) \<and>
     le_event_hash e = event_hash h (le_index e) (le_event_type e) (le_previous_hash e) (le_payload e)"
  by (auto simp: verify_events_append split: if_splits)

lemma chain_determined:
  assumes "verify_events h 0 GENESIS es" and "verify_events h 0 GENESIS fs"
    and "(if es = [] then GENESIS else le_event_hash (last es)) = (if fs = [] then GENESIS else le_event_hash (last fs))"
    and "collision_free h (event_text ` set (es @ fs))"
    and "\<forall>e\<in>set (es @ fs). wf_py (le_payload e) \<and> le_event_hash e \<noteq> GENESIS"
  shows "map event_content es = map event_content fs"
  using assms
proof (induction es arbitrary: fs rule: rev_induct)
  case Nil
  then show ?case by (cases fs rule: rev_cases) (auto split: if_splits)
next
  case (snoc e es)
  show ?case
  proof (cases fs rule: rev_cases)
    case Nil
    then show ?thesis using snoc.prems by (auto split: if_splits)
  next
    case (snoc gs g)
    have e: "le_event_hash e = ''sha256:'' @ h (event_text e)" and g: "le_event_hash g = ''sha256:'' @ h (event_text g)"
      using verified_event_hash [OF snoc.prems(1)] verified_event_hash [OF snoc.prems(2)] snoc by simp_all
    have hash: "le_event_hash e = le_event_hash g" using snoc.prems(3) snoc by simp
    then have "h (event_text e) = h (event_text g)" using e g by simp
    moreover have "event_text e \<in> event_text ` set ((es @ [e]) @ fs)" "event_text g \<in> event_text ` set ((es @ [e]) @ fs)"
      using snoc by simp_all
    ultimately have same_text: "event_text e = event_text g"
      using collision_freeD [OF snoc.prems(4)] by blast
    have wf: "wf_py (le_payload e)" "wf_py (le_payload g)"
      using snoc.prems(5) unfolding snoc by simp_all
    note eq = event_text_inject [OF wf same_text]
    have prev: "le_previous_hash e = (if es = [] then GENESIS else le_event_hash (last es))"
        "le_previous_hash g = (if gs = [] then GENESIS else le_event_hash (last gs))"
      using snoc.prems(1,2) unfolding snoc verify_events_snoc by blast+
    have "map event_content es = map event_content gs"
    proof (rule snoc.IH)
      show "verify_events h 0 GENESIS es" "verify_events h 0 GENESIS gs"
        using snoc.prems(1,2) unfolding snoc verify_events_snoc by blast+
      show "(if es = [] then GENESIS else le_event_hash (last es)) = (if gs = [] then GENESIS else le_event_hash (last gs))"
        using prev eq(3) by (simp only:)
      show "collision_free h (event_text ` set (es @ gs))"
        by (rule collision_free_subset [OF snoc.prems(4)]) (auto simp: snoc)
      show "\<forall>e\<in>set (es @ gs). wf_py (le_payload e) \<and> le_event_hash e \<noteq> GENESIS"
        using snoc.prems(5) snoc by auto
    qed
    moreover have "event_content e = event_content g"
      by (simp add: event_content_def eq hash)
    ultimately show ?thesis using snoc by simp
  qed
qed

section \<open>Properties\<close>

text \<open>Appending to a verified ledger either fails, exactly when the event type is blank, or gives
  a verified ledger whose earlier events are untouched and whose last event carries the type and
  payload.\<close>

theorem append_keeps_verified:
  assumes "verify_ledger h l"
  shows "if blank t then append_event h l t p = Inl (ValueError ''event_type must be non-empty'')
    else \<exists>l' e. append_event h l t p = Inr l' \<and> verify_ledger h l' \<and> el_events l' = el_events l @ [e]
      \<and> event_item e = (t, p) \<and> head l' = le_event_hash e"
proof (cases "blank t")
  case True
  then show ?thesis by (simp add: append_event_def)
next
  case False
  then obtain l' where l': "append_event h l t p = Inr l'" by (auto simp: append_event_Inr)
  then have "\<exists>e. el_events l' = el_events l @ [e] \<and> event_item e = (t, p) \<and> head l' = le_event_hash e"
    by (auto simp: append_event_Inr event_item_def head_def)
  then show ?thesis using False l' verify_append_event [OF assms l'] by auto
qed

theorem append_keeps_verified_witness:
  "\<exists>l' e. append_event (\<lambda>t. t) empty_ledger ''X'' PNone = Inr l' \<and> verify_ledger (\<lambda>t. t) l'
     \<and> el_events l' = [e] \<and> event_item e = (''X'', PNone)"
proof -
  have "verify_ledger (\<lambda>t. t) empty_ledger" by (simp add: verify_ledger_def empty_ledger_def)
  moreover have "\<not> blank ''X''" by (simp add: blank_iff is_space_def)
  ultimately show ?thesis
    using append_keeps_verified [of "\<lambda>t. t" empty_ledger "''X''" PNone] by (auto simp: empty_ledger_def)
qed

text \<open>C20: The head of a verified ledger determines its whole history: two verified ledgers with the
  same head agree on the index, type, links, hash and (normalised) payload of every event, as long
  as the digest function has no collision among the texts of their events and never produces the
  genesis value.\<close>

theorem head_determines_history:
  assumes "verify_ledger h l" and "verify_ledger h m" and "head l = head m"
    and "collision_free h (event_text ` set (el_events l @ el_events m))"
    and "payloads_wf l" and "payloads_wf m"
    and "\<forall>e\<in>set (el_events l @ el_events m). le_event_hash e \<noteq> GENESIS"
  shows "map event_content (el_events l) = map event_content (el_events m)"
  using assms by (intro chain_determined) (auto simp: verify_ledger_def head_def payloads_wf_def list_all_iff)

definition ex_ledger :: "pyval \<Rightarrow> execution_ledger" where
  "ex_ledger p = \<lparr>el_events = [\<lparr>le_index = 0, le_event_type = ''X'', le_previous_hash = GENESIS, le_payload = p,
     le_event_hash = event_hash (\<lambda>t. t) 0 ''X'' GENESIS p, le_schema_version = ''ge.ledger-event.v1''\<rparr>],
     el_schema_version = ''ge.execution-ledger.v1''\<rparr>"

theorem head_determines_history_witness:
  "map event_content (el_events (ex_ledger (PTuple [PInt 1]))) = map event_content (el_events (ex_ledger (PList [PInt 1])))"
proof (rule head_determines_history [where h = "\<lambda>t. t"])
  show "verify_ledger (\<lambda>t. t) (ex_ledger (PTuple [PInt 1]))" "verify_ledger (\<lambda>t. t) (ex_ledger (PList [PInt 1]))"
    by (simp_all add: verify_ledger_def ex_ledger_def)
  show "head (ex_ledger (PTuple [PInt 1])) = head (ex_ledger (PList [PInt 1]))"
    by (simp add: head_def ex_ledger_def event_hash_def event_py_def canonical_json_def normalize.simps(3))
  show "collision_free (\<lambda>t. t) (event_text ` set (el_events (ex_ledger (PTuple [PInt 1])) @ el_events (ex_ledger (PList [PInt 1]))))"
    by (simp add: collision_free_def)
  show "payloads_wf (ex_ledger (PTuple [PInt 1]))" "payloads_wf (ex_ledger (PList [PInt 1]))"
    by (simp_all add: payloads_wf_def ex_ledger_def)
  have "event_hash (\<lambda>t. t) 0 ''X'' GENESIS p \<noteq> GENESIS" for p
    by (simp add: event_hash_def event_py_def sha256_digest_def canonical_json_def normalize_PDict GENESIS_def
        replicate_Suc [of 63, simplified])
  then show "\<forall>e\<in>set (el_events (ex_ledger (PTuple [PInt 1])) @ el_events (ex_ledger (PList [PInt 1]))). le_event_hash e \<noteq> GENESIS"
    by (simp add: ex_ledger_def)
qed

end
