(* ===== verification/Provenance.thy ===== *)
theory Provenance
  imports Adapter Ledger
begin

text \<open>
  Invocation provenance (\<open>provenance.py\<close>): an admitted bundle is recorded as four consecutive
  ledger events, and the record is checked against the ledger later. A record stays valid
  whatever is appended afterwards.
\<close>

section \<open>Recording\<close>

record invocation_record =
  ir_invocation_id :: string
  ir_bundle_digest :: string
  ir_first_event_index :: int
  ir_last_event_index :: int
  ir_recorded_head :: string
  ir_schema_version :: string

definition payloads :: "hash \<Rightarrow> invocation_bundle \<Rightarrow> (string \<times> pyval) list" where
  "payloads h b = [
     (''ADAPTER_DISPATCH'', PDict [(''request'', request_to_dict (ib_request b)),
        (''request_digest'', PStr (request_digest h (ib_request b)))]),
     (''PROVIDER_OBSERVATION'', PDict [(''observation'', provider_observation_py (ib_observation b)),
        (''observation_digest'', PStr (provider_observation_digest h (ib_observation b)))]),
     (''ADAPTER_RECEIPT'', PDict [(''receipt'', adapter_receipt_py (ib_receipt b)),
        (''receipt_digest'', PStr (adapter_receipt_digest h (ib_receipt b)))]),
     (''ADAPTER_RESULT'', PDict [(''result'', result_to_dict (ib_result b)),
        (''result_digest'', PStr (result_digest h (ib_result b)))])]"

definition record_invocation :: "hash \<Rightarrow> execution_ledger \<Rightarrow> invocation_bundle \<Rightarrow> (execution_ledger \<times> invocation_record) exc" where
  "record_invocation h l b =
     ebind (append_events h l (payloads h b)) (\<lambda>current.
     Inr (current, \<lparr>ir_invocation_id = aq_invocation_id (ib_request b), ir_bundle_digest = bundle_digest h b,
       ir_first_event_index = int (length (el_events l)),
       ir_last_event_index = int (length (el_events l)) + 3,
       ir_recorded_head = head current, ir_schema_version = ''ge.invocation-record.v1''\<rparr>))"

text \<open>
  The events from position \<open>first\<close> to \<open>last\<close> match the expected payloads, and the last one
  carries the recorded head. Payloads compare with Python's \<open>==\<close>. The physical attempt
  records of \<open>physical.py\<close> are checked by the same steps.
\<close>

definition events_match :: "ledger_event list \<Rightarrow> int \<Rightarrow> int \<Rightarrow> (string \<times> pyval) list \<Rightarrow> string \<Rightarrow> bool" where
  "events_match events first last_index expected recorded_head \<longleftrightarrow>
     (if last_index \<noteq> first + 3 then False
      else if first < 0 \<or> last_index \<ge> int (length events) then False
      else (let actual = take (nat (last_index + 1) - nat first) (drop (nat first) events) in
        if length actual \<noteq> 4 then False
        else list_all (\<lambda>(e, t, p). le_event_type e = t \<and> py_eq (le_payload e) p) (zip actual expected)
          \<and> le_event_hash (last actual) = recorded_head))"

definition verify_invocation_record :: "hash \<Rightarrow> execution_ledger \<Rightarrow> invocation_bundle \<Rightarrow> invocation_record \<Rightarrow> bool" where
  "verify_invocation_record h l b r \<longleftrightarrow>
     (if \<not> verify_ledger h l then False
      else if ir_invocation_id r \<noteq> aq_invocation_id (ib_request b) \<or> ir_bundle_digest r \<noteq> bundle_digest h b then False
      else events_match (el_events l) (ir_first_event_index r) (ir_last_event_index r) (payloads h b) (ir_recorded_head r))"

section \<open>Lemmas\<close>

lemma py_eq_refl: "wf_py v \<Longrightarrow> py_eq v v"
proof (induction v)
  case (PList xs)
  then show ?case by (auto simp: list_all_iff zip_same)
next
  case (PTuple xs)
  then show ?case by (auto simp: list_all_iff zip_same)
next
  case (PDict kvs)
  have "case map_of kvs (fst kv) of None \<Rightarrow> False | Some u \<Rightarrow> py_eq (snd kv) u" if kv: "kv \<in> set kvs" for kv
  proof -
    have "map_of kvs (fst kv) = Some (snd kv)"
      using kv PDict.prems by (simp add: map_of_is_SomeI)
    moreover have "py_eq (snd kv) (snd kv)"
      using PDict.IH [of kv "snd kv"] PDict.prems kv by (cases kv) (auto simp: list_all_iff)
    ultimately show ?thesis by simp
  qed
  then have "\<forall>kv\<in>set kvs. case kv of (k, v) \<Rightarrow> case map_of kvs k of None \<Rightarrow> False | Some u \<Rightarrow> py_eq v u"
    by (simp add: case_prod_unfold)
  then show ?case by (simp add: list_all_iff)
qed simp_all

text \<open>Appended batches of four are found again at their position, in every later ledger.\<close>

lemma events_match_appended:
  assumes "events = pre @ es @ post" and "map event_item es = items" and "length items = 4"
    and "list_all (\<lambda>(t, p). wf_py p) items"
  shows "events_match events (int (length pre)) (int (length pre) + 3) items (le_event_hash (last es))"
proof -
  have len: "length es = 4" using assms(2,3) by (metis length_map)
  have slice: "take (nat (int (length pre) + 3 + 1) - nat (int (length pre))) (drop (nat (int (length pre))) events) = es"
    using len assms(1) by simp
  have "le_event_type e = t \<and> py_eq (le_payload e) p" if "(e, t, p) \<in> set (zip es items)" for e t p
  proof -
    have "(t, p) = event_item e" using that assms(2) by (auto simp: in_set_zip)
    moreover have "wf_py p" using that assms(4) by (auto simp: list_all_iff dest!: set_zip_rightD)
    ultimately show ?thesis by (auto simp: event_item_def py_eq_refl)
  qed
  then show ?thesis
    unfolding events_match_def slice using assms(1) len by (auto simp: Let_def list_all_iff)
qed

lemma payloads_wf_py: "list_all (\<lambda>(t, p). wf_py p) (payloads h b)"
  by (simp add: payloads_def request_wire.enc_wf result_wire.enc_wf)

lemma record_invocation_ok: "\<exists>l' r. record_invocation h l b = Inr (l', r)"
proof -
  have "\<forall>(t, p)\<in>set (payloads h b). \<not> blank t"
    by (auto simp: payloads_def blank_iff is_space_def)
  then obtain l' where "append_events h l (payloads h b) = Inr l'" using append_events_ok by blast
  then show ?thesis by (simp add: record_invocation_def)
qed

lemma record_verifies_later:
  assumes rec: "record_invocation h l b = Inr (l', r)" and "verify_ledger h l"
    and later: "el_events l'' = el_events l' @ post" and "verify_ledger h l''"
  shows "verify_invocation_record h l'' b r"
proof -
  have app: "append_events h l (payloads h b) = Inr l'" and r: "r = \<lparr>ir_invocation_id = aq_invocation_id (ib_request b),
       ir_bundle_digest = bundle_digest h b, ir_first_event_index = int (length (el_events l)),
       ir_last_event_index = int (length (el_events l)) + 3,
       ir_recorded_head = head l', ir_schema_version = ''ge.invocation-record.v1''\<rparr>"
    using rec by (auto simp: record_invocation_def exc_simps)
  obtain es where es: "el_events l' = el_events l @ es" "map event_item es = payloads h b"
    using append_events_extends [OF app] by blast
  have four: "length (payloads h b) = 4" by (simp add: payloads_def)
  then have ne: "es \<noteq> []" using es(2) by auto
  have "head l' = le_event_hash (last es)" using es(1) ne by (simp add: head_def)
  then show ?thesis
    using events_match_appended [OF _ es(2) four payloads_wf_py, of "el_events l''" "el_events l" post] assms(4) later es(1) r
    by (simp add: verify_invocation_record_def)
qed

section \<open>Properties\<close>

text \<open>An invocation record stays valid: recording a bundle on a verified ledger never fails, and
  the record verifies against every verified ledger that extends the one it was made on.\<close>

theorem invocation_record_stays_valid:
  assumes "verify_ledger h l"
  shows "\<exists>l' r. record_invocation h l b = Inr (l', r) \<and>
    (\<forall>l'' post. el_events l'' = el_events l' @ post \<and> verify_ledger h l'' \<longrightarrow> verify_invocation_record h l'' b r)
    \<and> verify_ledger h l'"
proof -
  obtain l' r where rec: "record_invocation h l b = Inr (l', r)" using record_invocation_ok by blast
  then have "append_events h l (payloads h b) = Inr l'" by (auto simp: record_invocation_def ebind_eq_Inr)
  then have "verify_ledger h l'" using append_events_extends assms by blast
  with rec show ?thesis using record_verifies_later [OF rec assms] by blast
qed

theorem invocation_record_stays_valid_witness:
  "\<exists>b l' r. admit_observation zero_hash ex_spec ex_registry (ex_plan zero_hash) (ex_running zero_hash) ex_runner
      (ex_request zero_hash) (ib_observation b) = Inr b \<and>
    record_invocation zero_hash empty_ledger b = Inr (l', r) \<and> verify_invocation_record zero_hash l' b r"
proof -
  obtain ob b where b: "admit_observation zero_hash ex_spec ex_registry (ex_plan zero_hash) (ex_running zero_hash) ex_runner
      (ex_request zero_hash) ob = Inr b"
    using hex_digest.reference_observation_admitted [OF zero_hash ex_request_bound ex_request_probe ex_valid(2)] by blast
  have "verify_ledger zero_hash empty_ledger" by (simp add: verify_ledger_def empty_ledger_def)
  from invocation_record_stays_valid [OF this, of b] obtain l' r where
    r: "record_invocation zero_hash empty_ledger b = Inr (l', r)"
      "\<forall>l'' post. el_events l'' = el_events l' @ post \<and> verify_ledger zero_hash l'' \<longrightarrow> verify_invocation_record zero_hash l'' b r"
      "verify_ledger zero_hash l'"
    by blast
  then have "verify_invocation_record zero_hash l' b r" by (metis append_Nil2)
  moreover have "ib_observation b = ob" using admit_observation_bundle [OF b] by blast
  ultimately show ?thesis using b r(1) by blast
qed

end
