(* ===== verification/Physical.thy ===== *)
theory Physical
  imports Provenance
begin

text \<open>
  Physical failure semantics (\<open>physical.py\<close>): one logical attempt may need several physical
  attempts. Each has an authorization that names its predecessor, an observation bound to the
  authorization by a response digest, a receipt, and at most one result. The lemmas show
  what an admitted outcome binds, that honest observations are admitted, and that the loop of
  \<open>verify_retry_chain\<close> decides a declarative chain property: attempts are numbered from
  one, linked to their predecessors by receipt digest, and only the last can have completed.
\<close>

section \<open>Objects\<close>

definition valid_transport_statuses :: "string list" where
  "valid_transport_statuses = [''completed'', ''rejected'', ''timed_out'', ''cancelled'', ''transport_failed'']"

definition failure_transport_statuses :: "string list" where
  "failure_transport_statuses = [''rejected'', ''timed_out'', ''cancelled'', ''transport_failed'']"

lemma valid_transport_iff: "s \<in> set valid_transport_statuses \<longleftrightarrow> s = ''completed'' \<or> s \<in> set failure_transport_statuses"
  by (auto simp: valid_transport_statuses_def failure_transport_statuses_def)

lemma completed_not_failure [simp]: "''completed'' \<notin> set failure_transport_statuses"
  by (simp add: failure_transport_statuses_def)

record physical_authorization =
  pa_request :: adapter_request
  pa_physical_attempt :: int
  pa_previous_invocation_id :: "string option"
  pa_previous_receipt_digest :: "string option"
  pa_schema_version :: string

definition physical_authorization_py :: "physical_authorization \<Rightarrow> pyval" where
  "physical_authorization_py x = PDict [
    (''request'', adapter_request_py (pa_request x)),
    (''physical_attempt'', PInt (pa_physical_attempt x)),
    (''previous_invocation_id'', py_opt PStr (pa_previous_invocation_id x)),
    (''previous_receipt_digest'', py_opt PStr (pa_previous_receipt_digest x)),
    (''schema_version'', PStr (pa_schema_version x))]"

definition physical_authorization_init :: "physical_authorization \<Rightarrow> physical_authorization exc" where
  "physical_authorization_init a =
     (let first = (pa_physical_attempt a = 1) in
      if pa_physical_attempt a < 1 then Inl (ValueError ''physical_attempt must be >= 1'')
      else if first \<and> (pa_previous_invocation_id a \<noteq> None \<or> pa_previous_receipt_digest a \<noteq> None)
      then Inl (ValueError ''first physical attempt cannot have a predecessor'')
      else if \<not> first \<and> (pa_previous_invocation_id a = None \<or> pa_previous_receipt_digest a = None)
      then Inl (ValueError ''retry physical attempt requires predecessor bindings'')
      else (case pa_previous_receipt_digest a of
          None \<Rightarrow> Inr a
        | Some d \<Rightarrow>
            (if \<not> digest_shape d then Inl (ValueError ''previous_receipt_digest must be sha256:<64-hex>'')
             else if \<not> int16_ok (drop 7 d)
             then Inl (ValueError ''previous_receipt_digest must contain 64 hexadecimal characters'')
             else Inr a)))"

lemma physical_authorization_init_eq [exc_simps]: "physical_authorization_init a = Inr a' \<longleftrightarrow>
   a' = a \<and> 1 \<le> pa_physical_attempt a
   \<and> (pa_physical_attempt a = 1 \<longleftrightarrow> pa_previous_invocation_id a = None)
   \<and> (pa_physical_attempt a = 1 \<longleftrightarrow> pa_previous_receipt_digest a = None)
   \<and> pred_option digest_ok (pa_previous_receipt_digest a)"
  by (cases "pa_previous_receipt_digest a") (auto simp: physical_authorization_init_def Let_def digest_ok_def)

interpretation physical_authorization: encoding physical_authorization_py
proof unfold_locales
  show "wf_py (physical_authorization_py x)" for x
    by (simp add: physical_authorization_py_def)
  show "normalize (physical_authorization_py x) = normalize (physical_authorization_py y) \<longleftrightarrow> x = y" for x y
    by (cases x; cases y) (simp add: physical_authorization_py_def normalize_dict_inject)
qed

lemmas physical_authorization_wf [simp] = physical_authorization.enc_wf
lemmas physical_authorization_inject [simp] = physical_authorization.enc_inject

definition authorization_digest :: "hash \<Rightarrow> physical_authorization \<Rightarrow> string" where
  "authorization_digest h a = sha256_digest h (physical_authorization_py a)"

definition authorization_id :: "hash \<Rightarrow> physical_authorization \<Rightarrow> string" where
  "authorization_id h a = stable_id h ''gea'' (physical_authorization_py a)"

record physical_observation =
  pb_authorization_id :: string
  pb_invocation_id :: string
  pb_request_digest :: string
  pb_provider_invocation_id :: "string option"
  pb_transport_status :: string
  pb_result :: "result_envelope option"
  pb_failure_code :: "string option"
  pb_detail_digest :: "string option"
  pb_response_digest :: string
  pb_schema_version :: string

definition physical_observation_py :: "physical_observation \<Rightarrow> pyval" where
  "physical_observation_py x = PDict [
    (''authorization_id'', PStr (pb_authorization_id x)),
    (''invocation_id'', PStr (pb_invocation_id x)),
    (''request_digest'', PStr (pb_request_digest x)),
    (''provider_invocation_id'', py_opt PStr (pb_provider_invocation_id x)),
    (''transport_status'', PStr (pb_transport_status x)),
    (''result'', py_opt result_envelope_py (pb_result x)),
    (''failure_code'', py_opt PStr (pb_failure_code x)),
    (''detail_digest'', py_opt PStr (pb_detail_digest x)),
    (''response_digest'', PStr (pb_response_digest x)),
    (''schema_version'', PStr (pb_schema_version x))]"

text \<open>The condition \<open>not value or not value.strip()\<close> on an optional string.\<close>

definition blank_opt :: "string option \<Rightarrow> bool" where
  "blank_opt v = (case v of None \<Rightarrow> True | Some s \<Rightarrow> blank s)"

definition physical_observation_init :: "physical_observation \<Rightarrow> physical_observation exc" where
  "physical_observation_init ob =
     (if pb_transport_status ob \<notin> set valid_transport_statuses then Inl (ValueError ''unsupported transport_status'')
      else if pb_transport_status ob = ''completed'' then
        (if pb_result ob = None then Inl (ValueError ''completed observation requires a result'')
         else if pb_failure_code ob \<noteq> None then Inl (ValueError ''completed observation cannot carry failure_code'')
         else if blank_opt (pb_provider_invocation_id ob)
         then Inl (ValueError ''completed observation requires provider_invocation_id'')
         else Inr ob)
      else if pb_result ob \<noteq> None then Inl (ValueError ''failed transport observation cannot carry a result'')
      else if blank_opt (pb_failure_code ob) then Inl (ValueError ''failed transport observation requires failure_code'')
      else Inr ob)"

lemma physical_observation_init_eq [exc_simps]: "physical_observation_init ob = Inr ob' \<longleftrightarrow>
   ob' = ob \<and> (if pb_transport_status ob = ''completed''
     then pb_result ob \<noteq> None \<and> pb_failure_code ob = None \<and> \<not> blank_opt (pb_provider_invocation_id ob)
     else pb_transport_status ob \<in> set failure_transport_statuses \<and> pb_result ob = None \<and> \<not> blank_opt (pb_failure_code ob))"
  by (auto simp: physical_observation_init_def valid_transport_iff)

interpretation physical_observation: encoding physical_observation_py
proof unfold_locales
  show "wf_py (physical_observation_py x)" for x
    by (simp add: physical_observation_py_def)
  show "normalize (physical_observation_py x) = normalize (physical_observation_py y) \<longleftrightarrow> x = y" for x y
    by (cases x; cases y) (simp add: physical_observation_py_def normalize_dict_inject)
qed

lemmas physical_observation_wf [simp] = physical_observation.enc_wf
lemmas physical_observation_inject [simp] = physical_observation.enc_inject

definition observation_digest :: "hash \<Rightarrow> physical_observation \<Rightarrow> string" where
  "observation_digest h ob = sha256_digest h (physical_observation_py ob)"

record physical_receipt =
  pr_authorization_id :: string
  pr_authorization_digest :: string
  pr_invocation_id :: string
  pr_request_digest :: string
  pr_physical_attempt :: int
  pr_previous_invocation_id :: "string option"
  pr_previous_receipt_digest :: "string option"
  pr_session_id :: string
  pr_runner_id :: string
  pr_provider :: string
  pr_adapter :: string
  pr_adapter_version :: string
  pr_provider_invocation_id :: "string option"
  pr_transport_status :: string
  pr_response_digest :: string
  pr_observation_digest :: string
  pr_result_digest :: "string option"
  pr_failure_code :: "string option"
  pr_schema_version :: string

definition physical_receipt_py :: "physical_receipt \<Rightarrow> pyval" where
  "physical_receipt_py x = PDict [
    (''authorization_id'', PStr (pr_authorization_id x)),
    (''authorization_digest'', PStr (pr_authorization_digest x)),
    (''invocation_id'', PStr (pr_invocation_id x)),
    (''request_digest'', PStr (pr_request_digest x)),
    (''physical_attempt'', PInt (pr_physical_attempt x)),
    (''previous_invocation_id'', py_opt PStr (pr_previous_invocation_id x)),
    (''previous_receipt_digest'', py_opt PStr (pr_previous_receipt_digest x)),
    (''session_id'', PStr (pr_session_id x)),
    (''runner_id'', PStr (pr_runner_id x)),
    (''provider'', PStr (pr_provider x)),
    (''adapter'', PStr (pr_adapter x)),
    (''adapter_version'', PStr (pr_adapter_version x)),
    (''provider_invocation_id'', py_opt PStr (pr_provider_invocation_id x)),
    (''transport_status'', PStr (pr_transport_status x)),
    (''response_digest'', PStr (pr_response_digest x)),
    (''observation_digest'', PStr (pr_observation_digest x)),
    (''result_digest'', py_opt PStr (pr_result_digest x)),
    (''failure_code'', py_opt PStr (pr_failure_code x)),
    (''schema_version'', PStr (pr_schema_version x))]"

text \<open>The condition \<open>not value\<close> on an optional string.\<close>

definition empty_opt :: "string option \<Rightarrow> bool" where
  "empty_opt v = (case v of None \<Rightarrow> True | Some s \<Rightarrow> s = [])"

definition physical_receipt_init :: "physical_receipt \<Rightarrow> physical_receipt exc" where
  "physical_receipt_init r =
     (if pr_physical_attempt r < 1 then Inl (ValueError ''physical_attempt must be >= 1'')
      else if pr_transport_status r \<notin> set valid_transport_statuses then Inl (ValueError ''unsupported transport_status'')
      else if pr_transport_status r = ''completed'' then
        (if pr_result_digest r = None \<or> pr_failure_code r \<noteq> None
         then Inl (ValueError ''completed receipt requires result_digest and no failure_code'') else Inr r)
      else if pr_result_digest r \<noteq> None \<or> empty_opt (pr_failure_code r)
      then Inl (ValueError ''failure receipt requires failure_code and no result_digest'')
      else Inr r)"

lemma physical_receipt_init_eq [exc_simps]: "physical_receipt_init r = Inr r' \<longleftrightarrow>
   r' = r \<and> 1 \<le> pr_physical_attempt r \<and> (if pr_transport_status r = ''completed''
     then pr_result_digest r \<noteq> None \<and> pr_failure_code r = None
     else pr_transport_status r \<in> set failure_transport_statuses \<and> pr_result_digest r = None \<and> \<not> empty_opt (pr_failure_code r))"
  by (auto simp: physical_receipt_init_def valid_transport_iff)

interpretation physical_receipt: encoding physical_receipt_py
proof unfold_locales
  show "wf_py (physical_receipt_py x)" for x
    by (simp add: physical_receipt_py_def)
  show "normalize (physical_receipt_py x) = normalize (physical_receipt_py y) \<longleftrightarrow> x = y" for x y
    by (cases x; cases y) (simp add: physical_receipt_py_def normalize_dict_inject)
qed

lemmas physical_receipt_wf [simp] = physical_receipt.enc_wf
lemmas physical_receipt_inject [simp] = physical_receipt.enc_inject

definition receipt_digest :: "hash \<Rightarrow> physical_receipt \<Rightarrow> string" where
  "receipt_digest h r = sha256_digest h (physical_receipt_py r)"

record physical_outcome =
  pt_authorization :: physical_authorization
  pt_observation :: physical_observation
  pt_receipt :: physical_receipt
  pt_result :: "result_envelope option"
  pt_schema_version :: string

definition physical_outcome_py :: "physical_outcome \<Rightarrow> pyval" where
  "physical_outcome_py x = PDict [
    (''authorization'', physical_authorization_py (pt_authorization x)),
    (''observation'', physical_observation_py (pt_observation x)),
    (''receipt'', physical_receipt_py (pt_receipt x)),
    (''result'', py_opt result_envelope_py (pt_result x)),
    (''schema_version'', PStr (pt_schema_version x))]"

interpretation physical_outcome: encoding physical_outcome_py
proof unfold_locales
  show "wf_py (physical_outcome_py x)" for x
    by (simp add: physical_outcome_py_def)
  show "normalize (physical_outcome_py x) = normalize (physical_outcome_py y) \<longleftrightarrow> x = y" for x y
    by (cases x; cases y) (simp add: physical_outcome_py_def normalize_dict_inject)
qed

lemmas physical_outcome_wf [simp] = physical_outcome.enc_wf
lemmas physical_outcome_inject [simp] = physical_outcome.enc_inject

definition outcome_digest :: "hash \<Rightarrow> physical_outcome \<Rightarrow> string" where
  "outcome_digest h b = sha256_digest h (physical_outcome_py b)"

record duplicate_attempt =
  da_authorization_id :: string
  da_invocation_id :: string
  da_request_digest :: string
  da_physical_attempt :: int
  da_canonical_observation_digest :: string
  da_duplicate_observation_digest :: string
  da_canonical_provider_invocation_id :: string
  da_duplicate_provider_invocation_id :: string
  da_schema_version :: string

definition duplicate_attempt_py :: "duplicate_attempt \<Rightarrow> pyval" where
  "duplicate_attempt_py x = PDict [
    (''authorization_id'', PStr (da_authorization_id x)),
    (''invocation_id'', PStr (da_invocation_id x)),
    (''request_digest'', PStr (da_request_digest x)),
    (''physical_attempt'', PInt (da_physical_attempt x)),
    (''canonical_observation_digest'', PStr (da_canonical_observation_digest x)),
    (''duplicate_observation_digest'', PStr (da_duplicate_observation_digest x)),
    (''canonical_provider_invocation_id'', PStr (da_canonical_provider_invocation_id x)),
    (''duplicate_provider_invocation_id'', PStr (da_duplicate_provider_invocation_id x)),
    (''schema_version'', PStr (da_schema_version x))]"

interpretation duplicate_attempt: encoding duplicate_attempt_py
proof unfold_locales
  show "wf_py (duplicate_attempt_py x)" for x
    by (simp add: duplicate_attempt_py_def)
  show "normalize (duplicate_attempt_py x) = normalize (duplicate_attempt_py y) \<longleftrightarrow> x = y" for x y
    by (cases x; cases y) (simp add: duplicate_attempt_py_def normalize_dict_inject)
qed

definition duplicate_digest :: "hash \<Rightarrow> duplicate_attempt \<Rightarrow> string" where
  "duplicate_digest h d = sha256_digest h (duplicate_attempt_py d)"

record physical_attempt_record =
  px_authorization_id :: string
  px_outcome_digest :: string
  px_first_event_index :: int
  px_last_event_index :: int
  px_recorded_head :: string
  px_schema_version :: string

section \<open>Observations\<close>

definition physical_response_digest ::
  "hash \<Rightarrow> physical_authorization \<Rightarrow> string option \<Rightarrow> string \<Rightarrow> result_envelope option \<Rightarrow> string option
   \<Rightarrow> string option \<Rightarrow> string" where
  "physical_response_digest h a provider_invocation_id transport_status res failure_code detail_digest =
     sha256_digest h (PDict [
       (''protocol'', PStr ''ge.physical-outcome.v1''),
       (''authorization_id'', PStr (authorization_id h a)),
       (''authorization_digest'', PStr (authorization_digest h a)),
       (''invocation_id'', PStr (aq_invocation_id (pa_request a))),
       (''request_digest'', PStr (request_digest h (pa_request a))),
       (''physical_attempt'', PInt (pa_physical_attempt a)),
       (''provider_invocation_id'', py_opt PStr provider_invocation_id),
       (''transport_status'', PStr transport_status),
       (''result'', py_opt result_to_dict res),
       (''failure_code'', py_opt PStr failure_code),
       (''detail_digest'', py_opt PStr detail_digest)])"

definition observe_completed ::
  "hash \<Rightarrow> physical_authorization \<Rightarrow> result_envelope \<Rightarrow> string \<Rightarrow> string option \<Rightarrow> physical_observation exc" where
  "observe_completed h a res provider_invocation_id detail_digest =
     physical_observation_init
       \<lparr>pb_authorization_id = authorization_id h a, pb_invocation_id = aq_invocation_id (pa_request a),
        pb_request_digest = request_digest h (pa_request a),
        pb_provider_invocation_id = Some provider_invocation_id, pb_transport_status = ''completed'',
        pb_result = Some res, pb_failure_code = None, pb_detail_digest = detail_digest,
        pb_response_digest =
          physical_response_digest h a (Some provider_invocation_id) ''completed'' (Some res) None detail_digest,
        pb_schema_version = ''ge.physical-observation.v1''\<rparr>"

definition observe_failure ::
  "hash \<Rightarrow> physical_authorization \<Rightarrow> string \<Rightarrow> string \<Rightarrow> string option \<Rightarrow> string option \<Rightarrow> physical_observation exc" where
  "observe_failure h a transport_status failure_code provider_invocation_id detail_digest =
     (if transport_status \<notin> set failure_transport_statuses
      then Inl (PhysicalAttemptError ''failure observation requires a failure transport status'')
      else physical_observation_init
       \<lparr>pb_authorization_id = authorization_id h a, pb_invocation_id = aq_invocation_id (pa_request a),
        pb_request_digest = request_digest h (pa_request a),
        pb_provider_invocation_id = provider_invocation_id, pb_transport_status = transport_status,
        pb_result = None, pb_failure_code = Some failure_code, pb_detail_digest = detail_digest,
        pb_response_digest =
          physical_response_digest h a provider_invocation_id transport_status None (Some failure_code) detail_digest,
        pb_schema_version = ''ge.physical-observation.v1''\<rparr>)"

section \<open>Verification\<close>

definition verify_result_binding :: "adapter_request \<Rightarrow> result_envelope \<Rightarrow> bool" where
  "verify_result_binding r res \<longleftrightarrow>
     re_session_id res = aq_session_id r \<and> re_spec_id res = aq_spec_id r \<and>
     re_spec_digest res = aq_spec_digest r \<and> re_runner_id res = aq_runner_id r \<and>
     re_attempt res = aq_attempt r"

definition verify_observation :: "hash \<Rightarrow> physical_authorization \<Rightarrow> physical_observation \<Rightarrow> bool" where
  "verify_observation h a ob =
     (let r = pa_request a;
          expected = physical_response_digest h a (pb_provider_invocation_id ob) (pb_transport_status ob)
            (pb_result ob) (pb_failure_code ob) (pb_detail_digest ob) in
      if pb_authorization_id ob \<noteq> authorization_id h a \<or> pb_invocation_id ob \<noteq> aq_invocation_id r
        \<or> pb_request_digest ob \<noteq> request_digest h r \<or> pb_response_digest ob \<noteq> expected then False
      else (case pb_result ob of None \<Rightarrow> True | Some res \<Rightarrow> verify_result_binding r res))"

definition verify_intrinsic_outcome :: "hash \<Rightarrow> physical_outcome \<Rightarrow> bool" where
  "verify_intrinsic_outcome h b =
     (let a = pt_authorization b; ob = pt_observation b; rc = pt_receipt b; res = pt_result b;
          r = pa_request a in
      if pb_result ob \<noteq> res \<or> \<not> verify_observation h a ob then False
      else if pr_authorization_id rc \<noteq> authorization_id h a \<or> pr_authorization_digest rc \<noteq> authorization_digest h a
        \<or> pr_invocation_id rc \<noteq> aq_invocation_id r \<or> pr_request_digest rc \<noteq> request_digest h r
        \<or> pr_physical_attempt rc \<noteq> pa_physical_attempt a
        \<or> pr_previous_invocation_id rc \<noteq> pa_previous_invocation_id a
        \<or> pr_previous_receipt_digest rc \<noteq> pa_previous_receipt_digest a
        \<or> pr_session_id rc \<noteq> aq_session_id r \<or> pr_runner_id rc \<noteq> aq_runner_id r
        \<or> pr_provider rc \<noteq> aq_provider r \<or> pr_adapter rc \<noteq> aq_adapter r
        \<or> pr_adapter_version rc \<noteq> aq_adapter_version r
        \<or> pr_provider_invocation_id rc \<noteq> pb_provider_invocation_id ob
        \<or> pr_transport_status rc \<noteq> pb_transport_status ob
        \<or> pr_response_digest rc \<noteq> pb_response_digest ob
        \<or> pr_observation_digest rc \<noteq> observation_digest h ob
        \<or> pr_failure_code rc \<noteq> pb_failure_code ob then False
      else if pb_transport_status ob = ''completed'' then
        (case res of None \<Rightarrow> False
         | Some e \<Rightarrow> pr_result_digest rc = Some (result_digest h e) \<and> verify_result_binding r e)
      else res = None \<and> pr_result_digest rc = None \<and> pb_transport_status ob \<in> set failure_transport_statuses)"

definition verify_physical_outcome ::
  "hash \<Rightarrow> execution_spec \<Rightarrow> runner_registry \<Rightarrow> dispatch_plan \<Rightarrow> execution_session \<Rightarrow> runner_capabilities
   \<Rightarrow> physical_outcome \<Rightarrow> bool exc" where
  "verify_physical_outcome h spec registry plan session runner b =
     ebind (verify_dispatch_request h spec registry plan session runner (pa_request (pt_authorization b))) (\<lambda>ok.
     if \<not> ok then Inr False else Inr (verify_intrinsic_outcome h b))"

section \<open>Authorization\<close>

definition authorize_physical_attempt ::
  "hash \<Rightarrow> execution_spec \<Rightarrow> runner_registry \<Rightarrow> dispatch_plan \<Rightarrow> execution_session \<Rightarrow> runner_capabilities
   \<Rightarrow> string \<Rightarrow> string option \<Rightarrow> physical_authorization exc" where
  "authorize_physical_attempt h spec registry plan session runner fresh invocation_id =
     ebind (build_dispatch_request h spec registry plan session runner fresh
       (Some (choose_invocation fresh invocation_id))) (\<lambda>request.
     physical_authorization_init
       \<lparr>pa_request = request, pa_physical_attempt = 1, pa_previous_invocation_id = None,
        pa_previous_receipt_digest = None, pa_schema_version = ''ge.physical-authorization.v1''\<rparr>)"

definition authorize_retry ::
  "hash \<Rightarrow> execution_spec \<Rightarrow> runner_registry \<Rightarrow> dispatch_plan \<Rightarrow> execution_session \<Rightarrow> runner_capabilities
   \<Rightarrow> physical_outcome \<Rightarrow> string \<Rightarrow> string option \<Rightarrow> physical_authorization exc" where
  "authorize_retry h spec registry plan session runner prior fresh invocation_id =
     ebind (verify_physical_outcome h spec registry plan session runner prior) (\<lambda>ok.
     if \<not> ok then Inl (PhysicalAttemptError ''prior physical outcome is not admissible'')
     else if pr_transport_status (pt_receipt prior) = ''completed''
     then Inl (PhysicalAttemptError ''cannot retry after a completed physical attempt'')
     else ebind (build_dispatch_request h spec registry plan session runner fresh
       (Some (choose_invocation fresh invocation_id))) (\<lambda>request.
     physical_authorization_init
       \<lparr>pa_request = request, pa_physical_attempt = pa_physical_attempt (pt_authorization prior) + 1,
        pa_previous_invocation_id = Some (aq_invocation_id (pa_request (pt_authorization prior))),
        pa_previous_receipt_digest = Some (receipt_digest h (pt_receipt prior)),
        pa_schema_version = ''ge.physical-authorization.v1''\<rparr>))"

section \<open>Admission\<close>

definition receipt_for :: "hash \<Rightarrow> physical_authorization \<Rightarrow> physical_observation \<Rightarrow> physical_receipt" where
  "receipt_for h a ob =
     (let r = pa_request a in
      \<lparr>pr_authorization_id = authorization_id h a, pr_authorization_digest = authorization_digest h a,
       pr_invocation_id = aq_invocation_id r, pr_request_digest = request_digest h r,
       pr_physical_attempt = pa_physical_attempt a, pr_previous_invocation_id = pa_previous_invocation_id a,
       pr_previous_receipt_digest = pa_previous_receipt_digest a, pr_session_id = aq_session_id r,
       pr_runner_id = aq_runner_id r, pr_provider = aq_provider r, pr_adapter = aq_adapter r,
       pr_adapter_version = aq_adapter_version r, pr_provider_invocation_id = pb_provider_invocation_id ob,
       pr_transport_status = pb_transport_status ob, pr_response_digest = pb_response_digest ob,
       pr_observation_digest = observation_digest h ob,
       pr_result_digest = map_option (result_digest h) (pb_result ob),
       pr_failure_code = pb_failure_code ob, pr_schema_version = ''ge.physical-receipt.v1''\<rparr>)"

definition admit_physical_observation ::
  "hash \<Rightarrow> execution_spec \<Rightarrow> runner_registry \<Rightarrow> dispatch_plan \<Rightarrow> execution_session \<Rightarrow> runner_capabilities
   \<Rightarrow> physical_authorization \<Rightarrow> physical_observation \<Rightarrow> physical_outcome exc" where
  "admit_physical_observation h spec registry plan session runner a ob =
     ebind (verify_dispatch_request h spec registry plan session runner (pa_request a)) (\<lambda>ok.
     if \<not> ok then Inl (PhysicalAttemptError ''physical authorization contains an inadmissible request'')
     else if \<not> verify_observation h a ob
     then Inl (PhysicalAttemptError ''physical observation is not bound to the exact authorization'')
     else ebind (physical_receipt_init (receipt_for h a ob)) (\<lambda>receipt.
       (let b = \<lparr>pt_authorization = a, pt_observation = ob, pt_receipt = receipt, pt_result = pb_result ob,
                 pt_schema_version = ''ge.physical-outcome.v1''\<rparr> in
        ebind (verify_physical_outcome h spec registry plan session runner b) (\<lambda>verified.
        if \<not> verified then Inl (PhysicalAttemptError ''physical outcome verification failed'') else Inr b))))"

definition identify_duplicate_physical_attempt ::
  "hash \<Rightarrow> physical_authorization \<Rightarrow> physical_observation \<Rightarrow> physical_observation \<Rightarrow> duplicate_attempt exc" where
  "identify_duplicate_physical_attempt h a canonical duplicate =
     ebind (eall (\<lambda>ob. if \<not> verify_observation h a ob
       then Inl (PhysicalAttemptError ''observation is not bound to the physical authorization'') else Inr ())
       [canonical, duplicate]) (\<lambda>_.
     (case (pb_provider_invocation_id canonical, pb_provider_invocation_id duplicate) of
        (Some x, Some y) \<Rightarrow>
          (if x = [] \<or> y = [] \<or> x = y
           then Inl (PhysicalAttemptError ''duplicate evidence requires two distinct provider invocation ids'')
           else if observation_digest h canonical = observation_digest h duplicate
           then Inl (PhysicalAttemptError ''duplicate evidence must identify distinct observations'')
           else Inr \<lparr>da_authorization_id = authorization_id h a, da_invocation_id = aq_invocation_id (pa_request a),
             da_request_digest = request_digest h (pa_request a), da_physical_attempt = pa_physical_attempt a,
             da_canonical_observation_digest = observation_digest h canonical,
             da_duplicate_observation_digest = observation_digest h duplicate,
             da_canonical_provider_invocation_id = x, da_duplicate_provider_invocation_id = y,
             da_schema_version = ''ge.duplicate-physical-attempt.v1''\<rparr>)
      | _ \<Rightarrow> Inl (PhysicalAttemptError ''duplicate evidence requires two distinct provider invocation ids'')))"

section \<open>Retry chains\<close>

definition chain_base :: "physical_outcome \<Rightarrow> string \<times> string \<times> string \<times> string \<times> int" where
  "chain_base b = (let r = pa_request (pt_authorization b) in
     (aq_session_id r, aq_spec_id r, aq_spec_digest r, aq_runner_id r, aq_attempt r))"

definition outcome_invocation :: "physical_outcome \<Rightarrow> string" where
  "outcome_invocation b = aq_invocation_id (pa_request (pt_authorization b))"

text \<open>The loop body: \<open>prior\<close> is \<open>outcomes[index - 2]\<close> when \<open>index\<close> is not 1.\<close>

fun retry_chain_from ::
  "hash \<Rightarrow> string \<times> string \<times> string \<times> string \<times> int \<Rightarrow> string set \<Rightarrow> int \<Rightarrow> physical_outcome option
   \<Rightarrow> physical_outcome list \<Rightarrow> bool" where
  "retry_chain_from h base seen index prior [] = True"
| "retry_chain_from h base seen index prior (b # bs) =
     (let a = pt_authorization b in
      if \<not> verify_intrinsic_outcome h b then False
      else if pa_physical_attempt a \<noteq> index then False
      else if chain_base b \<noteq> base then False
      else if outcome_invocation b \<in> seen then False
      else if (case prior of
          None \<Rightarrow> pa_previous_invocation_id a \<noteq> None \<or> pa_previous_receipt_digest a \<noteq> None
        | Some p \<Rightarrow> pr_transport_status (pt_receipt p) = ''completed''
            \<or> pa_previous_invocation_id a \<noteq> Some (outcome_invocation p)
            \<or> pa_previous_receipt_digest a \<noteq> Some (receipt_digest h (pt_receipt p))) then False
      else retry_chain_from h base (insert (outcome_invocation b) seen) (index + 1) (Some b) bs)"

definition verify_retry_chain :: "hash \<Rightarrow> physical_outcome list \<Rightarrow> bool" where
  "verify_retry_chain h outcomes = (case outcomes of
     [] \<Rightarrow> False
   | first # _ \<Rightarrow> retry_chain_from h (chain_base first) {} 1 None outcomes)"

section \<open>Recording\<close>

definition physical_payloads :: "hash \<Rightarrow> physical_outcome \<Rightarrow> (string \<times> pyval) list" where
  "physical_payloads h b = [
     (''PHYSICAL_DISPATCH'', PDict [(''authorization'', physical_authorization_py (pt_authorization b)),
        (''authorization_digest'', PStr (authorization_digest h (pt_authorization b)))]),
     (''PHYSICAL_OBSERVATION'', PDict [(''observation'', physical_observation_py (pt_observation b)),
        (''observation_digest'', PStr (observation_digest h (pt_observation b)))]),
     (''PHYSICAL_RECEIPT'', PDict [(''receipt'', physical_receipt_py (pt_receipt b)),
        (''receipt_digest'', PStr (receipt_digest h (pt_receipt b)))]),
     (case pt_result b of
        Some res \<Rightarrow> (''PHYSICAL_RESULT'', PDict [(''result'', result_to_dict res),
          (''result_digest'', PStr (result_digest h res))])
      | None \<Rightarrow> (''PHYSICAL_TERMINAL_FAILURE'', PDict [
          (''transport_status'', PStr (pr_transport_status (pt_receipt b))),
          (''failure_code'', py_opt PStr (pr_failure_code (pt_receipt b))),
          (''receipt_digest'', PStr (receipt_digest h (pt_receipt b)))]))]"

text \<open>Members of a Python set must be hashable.\<close>

fun hashable :: "pyval \<Rightarrow> bool" where
  "hashable (PList xs) = False"
| "hashable (PDict kvs) = False"
| "hashable (PTuple xs) = list_all hashable xs"
| "hashable v = True"

definition recorded_authorizations :: "execution_ledger \<Rightarrow> pyval list" where
  "recorded_authorizations l =
     map (\<lambda>e. case le_payload e of PDict kvs \<Rightarrow> kw kvs ''authorization_digest'' PNone | v \<Rightarrow> v)
       (filter (\<lambda>e. le_event_type e = ''PHYSICAL_DISPATCH'' \<and> py_is_dict (le_payload e)) (el_events l))"

definition record_physical_attempt ::
  "hash \<Rightarrow> execution_ledger \<Rightarrow> physical_outcome \<Rightarrow> (execution_ledger \<times> physical_attempt_record) exc" where
  "record_physical_attempt h l b =
     (if list_ex (\<lambda>v. \<not> hashable v) (recorded_authorizations l) then Inl (TypeError ''unhashable type'')
      else if PStr (authorization_digest h (pt_authorization b)) \<in> set (recorded_authorizations l)
      then Inl (PhysicalAttemptError ''physical authorization is already recorded'')
      else ebind (append_events h l (physical_payloads h b)) (\<lambda>current.
        Inr (current, \<lparr>px_authorization_id = authorization_id h (pt_authorization b),
          px_outcome_digest = outcome_digest h b, px_first_event_index = int (length (el_events l)),
          px_last_event_index = int (length (el_events l)) + 3, px_recorded_head = head current,
          px_schema_version = ''ge.physical-attempt-record.v1''\<rparr>)))"

definition verify_physical_attempt_record ::
  "hash \<Rightarrow> execution_ledger \<Rightarrow> physical_outcome \<Rightarrow> physical_attempt_record \<Rightarrow> bool" where
  "verify_physical_attempt_record h l b r \<longleftrightarrow>
     (if \<not> verify_ledger h l then False
      else if px_authorization_id r \<noteq> authorization_id h (pt_authorization b) \<or> px_outcome_digest r \<noteq> outcome_digest h b
      then False
      else events_match (el_events l) (px_first_event_index r) (px_last_event_index r) (physical_payloads h b) (px_recorded_head r))"

definition record_duplicate_physical_attempt :: "hash \<Rightarrow> execution_ledger \<Rightarrow> duplicate_attempt \<Rightarrow> execution_ledger exc" where
  "record_duplicate_physical_attempt h l d =
     append_event h l ''DUPLICATE_PHYSICAL_ATTEMPT''
       (PDict [(''duplicate'', duplicate_attempt_py d), (''duplicate_digest'', PStr (duplicate_digest h d))])"

section \<open>What a verified outcome binds\<close>

lemma verify_physical_outcome_True [exc_simps]:
  "verify_physical_outcome h spec registry plan session runner b = Inr True \<longleftrightarrow>
   request_bound h spec registry plan session runner (pa_request (pt_authorization b)) \<and> verify_intrinsic_outcome h b"
  unfolding verify_dispatch_request_True [symmetric]
  by (auto simp: verify_physical_outcome_def ebind_eq_Inr split: if_splits)

lemma intrinsic_receipt:
  assumes "verify_intrinsic_outcome h b"
  shows "pr_authorization_digest (pt_receipt b) = authorization_digest h (pt_authorization b)"
    "pr_authorization_id (pt_receipt b) = authorization_id h (pt_authorization b)"
    "pr_invocation_id (pt_receipt b) = outcome_invocation b"
    "pr_physical_attempt (pt_receipt b) = pa_physical_attempt (pt_authorization b)"
    "pr_transport_status (pt_receipt b) = pb_transport_status (pt_observation b)"
    "pr_provider_invocation_id (pt_receipt b) = pb_provider_invocation_id (pt_observation b)"
    "pr_observation_digest (pt_receipt b) = observation_digest h (pt_observation b)"
    "pr_failure_code (pt_receipt b) = pb_failure_code (pt_observation b)"
    "pt_result b = pb_result (pt_observation b)"
    "verify_observation h (pt_authorization b) (pt_observation b)"
  using assms by (auto simp: verify_intrinsic_outcome_def Let_def outcome_invocation_def split: if_splits)

lemma intrinsic_result:
  assumes "verify_intrinsic_outcome h b"
  shows "pr_transport_status (pt_receipt b) = ''completed'' \<longleftrightarrow> pt_result b \<noteq> None"
    and "pr_transport_status (pt_receipt b) \<in> set valid_transport_statuses"
    and "pr_result_digest (pt_receipt b) = map_option (result_digest h) (pt_result b)"
    and "pt_result b = Some res \<Longrightarrow> verify_result_binding (pa_request (pt_authorization b)) res"
  using assms
  by (auto simp: verify_intrinsic_outcome_def Let_def valid_transport_iff split: if_splits option.splits)

lemma observe_completed_verified:
  assumes "observe_completed h a res pid detail = Inr ob" and "verify_result_binding (pa_request a) res"
  shows "verify_observation h a ob" "physical_observation_init ob = Inr ob"
  using assms by (auto simp: observe_completed_def verify_observation_def Let_def exc_simps)

lemma observe_failure_verified:
  assumes "observe_failure h a status code pid detail = Inr ob"
  shows "verify_observation h a ob" "physical_observation_init ob = Inr ob"
  using assms by (auto simp: observe_failure_def verify_observation_def Let_def exc_simps)

lemma receipt_for_valid:
  assumes "physical_observation_init ob = Inr ob" and "1 \<le> pa_physical_attempt a"
  shows "physical_receipt_init (receipt_for h a ob) = Inr (receipt_for h a ob)"
proof -
  have "\<not> blank_opt c \<Longrightarrow> \<not> empty_opt c" for c
    by (cases c) (auto simp: blank_opt_def empty_opt_def blank_def)
  then show ?thesis using assms by (auto simp: receipt_for_def Let_def exc_simps split: if_splits)
qed

definition outcome_for :: "hash \<Rightarrow> physical_authorization \<Rightarrow> physical_observation \<Rightarrow> physical_outcome" where
  "outcome_for h a ob =
     \<lparr>pt_authorization = a, pt_observation = ob, pt_receipt = receipt_for h a ob, pt_result = pb_result ob,
      pt_schema_version = ''ge.physical-outcome.v1''\<rparr>"

lemma outcome_for_intrinsic:
  assumes "verify_observation h a ob" and "physical_observation_init ob = Inr ob"
  shows "verify_intrinsic_outcome h (outcome_for h a ob)"
  using assms
  by (auto simp: outcome_for_def verify_intrinsic_outcome_def receipt_for_def verify_observation_def Let_def exc_simps
      split: if_splits option.splits)

text \<open>Every bound observation of a bound request is admitted, as \<open>outcome_for\<close>.\<close>

lemma admit_physical_ok:
  assumes "request_bound h spec registry plan session runner (pa_request a)"
    and "physical_authorization_init a = Inr a"
    and "verify_observation h a ob" and "physical_observation_init ob = Inr ob"
  shows "admit_physical_observation h spec registry plan session runner a ob = Inr (outcome_for h a ob)"
proof -
  have vr: "verify_dispatch_request h spec registry plan session runner (pa_request a) = Inr True"
    using assms(1) by (simp add: exc_simps)
  have rc: "physical_receipt_init (receipt_for h a ob) = Inr (receipt_for h a ob)"
    using receipt_for_valid [OF assms(4)] assms(2) by (simp add: exc_simps)
  have "verify_physical_outcome h spec registry plan session runner (outcome_for h a ob) = Inr True"
    using outcome_for_intrinsic [OF assms(3,4)] assms(1)
    by (simp add: verify_physical_outcome_True outcome_for_def)
  with vr rc assms(3) show ?thesis
    by (simp add: admit_physical_observation_def outcome_for_def Let_def)
qed

lemma admit_physical_verified:
  "admit_physical_observation h spec registry plan session runner a ob = Inr b \<Longrightarrow>
   verify_physical_outcome h spec registry plan session runner b = Inr True \<and> pt_authorization b = a \<and> pt_observation b = ob"
  by (auto simp: admit_physical_observation_def Let_def exc_simps)

section \<open>Retry chains, declaratively\<close>

definition linked :: "hash \<Rightarrow> physical_outcome option \<Rightarrow> physical_outcome \<Rightarrow> bool" where
  "linked h prior b = (let a = pt_authorization b in
     case prior of
       None \<Rightarrow> pa_previous_invocation_id a = None \<and> pa_previous_receipt_digest a = None
     | Some p \<Rightarrow> pr_transport_status (pt_receipt p) \<noteq> ''completed''
         \<and> pa_previous_invocation_id a = Some (outcome_invocation p)
         \<and> pa_previous_receipt_digest a = Some (receipt_digest h (pt_receipt p)))"

definition prior_of :: "physical_outcome list \<Rightarrow> nat \<Rightarrow> physical_outcome option" where
  "prior_of bs j = (if j = 0 then None else Some (bs ! (j - 1)))"

definition retry_chain :: "hash \<Rightarrow> physical_outcome list \<Rightarrow> bool" where
  "retry_chain h bs \<longleftrightarrow> bs \<noteq> [] \<and> distinct (map outcome_invocation bs) \<and>
     (\<forall>j<length bs. verify_intrinsic_outcome h (bs ! j) \<and> pa_physical_attempt (pt_authorization (bs ! j)) = int j + 1
        \<and> chain_base (bs ! j) = chain_base (bs ! 0) \<and> linked h (prior_of bs j) (bs ! j))"

lemma retry_chain_from_step:
  "retry_chain_from h base seen index prior (b # bs) \<longleftrightarrow>
     verify_intrinsic_outcome h b \<and> pa_physical_attempt (pt_authorization b) = index \<and> chain_base b = base \<and>
     outcome_invocation b \<notin> seen \<and> linked h prior b \<and>
     retry_chain_from h base (insert (outcome_invocation b) seen) (index + 1) (Some b) bs"
  by (cases prior) (auto simp: linked_def Let_def)

declare retry_chain_from.simps(2) [simp del]

lemma retry_chain_from_iff:
  "retry_chain_from h base seen index prior bs \<longleftrightarrow>
     distinct (map outcome_invocation bs) \<and> outcome_invocation ` set bs \<inter> seen = {} \<and>
     (\<forall>j<length bs. verify_intrinsic_outcome h (bs ! j)
        \<and> pa_physical_attempt (pt_authorization (bs ! j)) = index + int j \<and> chain_base (bs ! j) = base
        \<and> linked h (if j = 0 then prior else Some (bs ! (j - 1))) (bs ! j))"
proof (induction bs arbitrary: seen index prior)
  case Nil
  then show ?case by simp
next
  case (Cons b bs)
  have shift: "(if j = 0 then Some b else Some (bs ! (j - 1))) = Some ((b # bs) ! j)" for j
    by (cases j) auto
  show ?case
    unfolding retry_chain_from_step Cons.IH length_Cons All_less_Suc2 shift
    by (auto simp: algebra_simps)
qed

lemma verify_retry_chain_iff: "verify_retry_chain h bs \<longleftrightarrow> retry_chain h bs"
  by (cases bs) (auto simp: verify_retry_chain_def retry_chain_from_iff retry_chain_def prior_of_def add.commute)

text \<open>A retry that was authorized from the last outcome extends the chain.\<close>

lemma authorize_retry_Inr:
  assumes "authorize_retry h spec registry plan session runner prior fr iid = Inr a"
  shows "request_bound h spec registry plan session runner (pa_request a)"
    and "request_bound h spec registry plan session runner (pa_request (pt_authorization prior))"
    and "pr_transport_status (pt_receipt prior) \<noteq> ''completed''"
    and "pa_physical_attempt a = pa_physical_attempt (pt_authorization prior) + 1"
    and "pa_previous_invocation_id a = Some (outcome_invocation prior)"
    and "pa_previous_receipt_digest a = Some (receipt_digest h (pt_receipt prior))"
    and "physical_authorization_init a = Inr a"
    and "verify_physical_outcome h spec registry plan session runner prior = Inr True"
proof -
  obtain request where prior: "verify_physical_outcome h spec registry plan session runner prior = Inr True"
    and status: "pr_transport_status (pt_receipt prior) \<noteq> ''completed''"
    and request: "build_dispatch_request h spec registry plan session runner fr (Some (choose_invocation fr iid)) = Inr request"
    and init: "physical_authorization_init
       \<lparr>pa_request = request, pa_physical_attempt = pa_physical_attempt (pt_authorization prior) + 1,
        pa_previous_invocation_id = Some (aq_invocation_id (pa_request (pt_authorization prior))),
        pa_previous_receipt_digest = Some (receipt_digest h (pt_receipt prior)),
        pa_schema_version = ''ge.physical-authorization.v1''\<rparr> = Inr a"
    using assms unfolding authorize_retry_def ebind_eq_Inr raise_unless_eq by (auto split: if_splits)
  from init have a: "a = \<lparr>pa_request = request, pa_physical_attempt = pa_physical_attempt (pt_authorization prior) + 1,
        pa_previous_invocation_id = Some (aq_invocation_id (pa_request (pt_authorization prior))),
        pa_previous_receipt_digest = Some (receipt_digest h (pt_receipt prior)),
        pa_schema_version = ''ge.physical-authorization.v1''\<rparr>"
    by (simp only: physical_authorization_init_eq)
  show "request_bound h spec registry plan session runner (pa_request a)"
    using build_dispatch_request_bound [OF request] by (simp add: a)
  show "request_bound h spec registry plan session runner (pa_request (pt_authorization prior))"
    using prior by (simp add: verify_physical_outcome_True)
  show "physical_authorization_init a = Inr a" using init by (simp add: a)
  show "pr_transport_status (pt_receipt prior) \<noteq> ''completed''" using status .
  show "verify_physical_outcome h spec registry plan session runner prior = Inr True" using prior .
  show "pa_physical_attempt a = pa_physical_attempt (pt_authorization prior) + 1"
    and "pa_previous_invocation_id a = Some (outcome_invocation prior)"
    and "pa_previous_receipt_digest a = Some (receipt_digest h (pt_receipt prior))"
    by (simp_all add: a outcome_invocation_def)
qed

lemma retry_chain_snoc:
  assumes chain: "retry_chain h bs" and new: "verify_intrinsic_outcome h b"
    and fresh: "outcome_invocation b \<notin> outcome_invocation ` set bs"
    and auth: "authorize_retry h spec registry plan session runner (last bs) fr iid = Inr (pt_authorization b)"
  shows "retry_chain h (bs @ [b])"
proof -
  have ne: "bs \<noteq> []" using chain by (simp add: retry_chain_def)
  let ?n = "length bs - 1"
  have n: "?n < length bs" "last bs = bs ! ?n" using ne by (simp_all add: last_conv_nth)
  have last: "chain_base (bs ! ?n) = chain_base (bs ! 0)"
      "pa_physical_attempt (pt_authorization (bs ! ?n)) = int ?n + 1"
    using chain n(1) unfolding retry_chain_def by blast+
  note new_auth = authorize_retry_Inr [OF auth]
  have link: "linked h (Some (last bs)) b"
    using new_auth by (simp add: linked_def outcome_invocation_def)
  note attempt = new_auth(4) and bound = new_auth(1,2)
  have base_of: "chain_base c = (session_id h session, spec_id h spec, spec_digest h spec, rc_runner_id runner, xs_attempt session)"
    if "request_bound h spec registry plan session runner (pa_request (pt_authorization c))" for c
    using request_bound_fields [OF that] by (simp add: chain_base_def Let_def)
  have base: "chain_base b = chain_base (bs ! 0)"
    using base_of [OF bound(1)] base_of [OF bound(2)] last n by simp
  show ?thesis
    unfolding retry_chain_def
  proof (intro conjI allI impI)
    show "distinct (map outcome_invocation (bs @ [b]))"
      using chain fresh by (simp add: retry_chain_def)
  next
    fix j
    assume "j < length (bs @ [b])"
    then consider "j < length bs" | "j = length bs" by force
    then have "verify_intrinsic_outcome h ((bs @ [b]) ! j) \<and> pa_physical_attempt (pt_authorization ((bs @ [b]) ! j)) = int j + 1
        \<and> chain_base ((bs @ [b]) ! j) = chain_base (bs ! 0) \<and> linked h (prior_of (bs @ [b]) j) ((bs @ [b]) ! j)"
    proof cases
      case 1
      then have "prior_of (bs @ [b]) j = prior_of bs j" by (auto simp: prior_of_def nth_append)
      moreover have "verify_intrinsic_outcome h (bs ! j)" "pa_physical_attempt (pt_authorization (bs ! j)) = int j + 1"
          "chain_base (bs ! j) = chain_base (bs ! 0)" "linked h (prior_of bs j) (bs ! j)"
        using 1 chain unfolding retry_chain_def by blast+
      ultimately show ?thesis using 1 by (simp add: nth_append)
    next
      case 2
      then have "prior_of (bs @ [b]) j = Some (last bs)" using ne n by (simp add: prior_of_def nth_append)
      moreover have "pa_physical_attempt (pt_authorization b) = int (length bs) + 1"
        using attempt last(2) n ne by (simp add: of_nat_diff Suc_le_eq)
      ultimately show ?thesis using 2 new base link by simp
    qed
    then show "verify_intrinsic_outcome h ((bs @ [b]) ! j)" "pa_physical_attempt (pt_authorization ((bs @ [b]) ! j)) = int j + 1"
      "chain_base ((bs @ [b]) ! j) = chain_base ((bs @ [b]) ! 0)" "linked h (prior_of (bs @ [b]) j) ((bs @ [b]) ! j)"
      using ne by (simp_all add: nth_append)
  qed simp
qed

section \<open>Recording once\<close>

lemma recorded_authorizations_items:
  "recorded_authorizations l =
     map (\<lambda>(t, p). case p of PDict kvs \<Rightarrow> kw kvs ''authorization_digest'' PNone | v \<Rightarrow> v)
       (filter (\<lambda>(t, p). t = ''PHYSICAL_DISPATCH'' \<and> py_is_dict p) (map event_item (el_events l)))"
  by (simp add: recorded_authorizations_def filter_map comp_def event_item_def)

lemma physical_payloads_wf: "list_all (\<lambda>(t, p). wf_py p) (physical_payloads h b)"
  by (simp add: physical_payloads_def result_wire.enc_wf split: option.split)

lemma record_physical_events:
  assumes "record_physical_attempt h l b = Inr (l', r)"
  shows "\<exists>es. el_events l' = el_events l @ es \<and> map event_item es = physical_payloads h b"
    and "recorded_authorizations l' = recorded_authorizations l @ [PStr (authorization_digest h (pt_authorization b))]"
proof -
  have "append_events h l (physical_payloads h b) = Inr l'"
    using assms by (auto simp: record_physical_attempt_def exc_simps)
  then show es: "\<exists>es. el_events l' = el_events l @ es \<and> map event_item es = physical_payloads h b"
    using append_events_extends by blast
  then show "recorded_authorizations l' = recorded_authorizations l @ [PStr (authorization_digest h (pt_authorization b))]"
    by (auto simp: recorded_authorizations_items physical_payloads_def kw_def split: option.splits)
qed

lemma record_physical_twice:
  assumes "record_physical_attempt h l b = Inr (l', r)"
    and "pt_authorization b' = pt_authorization b"
  shows "record_physical_attempt h l' b' = Inl (PhysicalAttemptError ''physical authorization is already recorded'')"
proof -
  have "\<not> list_ex (\<lambda>v. \<not> hashable v) (recorded_authorizations l)"
    using assms(1) by (auto simp: record_physical_attempt_def exc_simps)
  then show ?thesis
    using record_physical_events(2) [OF assms(1)] assms(2) by (simp add: record_physical_attempt_def list_ex_iff)
qed

lemma record_physical_verifies_later:
  assumes rec: "record_physical_attempt h l b = Inr (l', r)"
    and later: "el_events l'' = el_events l' @ post" and "verify_ledger h l''"
  shows "verify_physical_attempt_record h l'' b r"
proof -
  have r: "r = \<lparr>px_authorization_id = authorization_id h (pt_authorization b),
       px_outcome_digest = outcome_digest h b, px_first_event_index = int (length (el_events l)),
       px_last_event_index = int (length (el_events l)) + 3, px_recorded_head = head l',
       px_schema_version = ''ge.physical-attempt-record.v1''\<rparr>"
    using rec by (auto simp: record_physical_attempt_def exc_simps)
  obtain es where es: "el_events l' = el_events l @ es" "map event_item es = physical_payloads h b"
    using record_physical_events(1) [OF rec] by blast
  have four: "length (physical_payloads h b) = 4" by (simp add: physical_payloads_def)
  then have "es \<noteq> []" using es(2) by auto
  then have "head l' = le_event_hash (last es)" using es(1) by (simp add: head_def)
  then show ?thesis
    using events_match_appended [OF _ es(2) four physical_payloads_wf, of "el_events l''" "el_events l" post] assms(3) later es(1) r
    by (simp add: verify_physical_attempt_record_def)
qed

section \<open>An example\<close>

definition ex_authorization :: "hash \<Rightarrow> physical_authorization" where
  "ex_authorization h = \<lparr>pa_request = ex_request h, pa_physical_attempt = 1, pa_previous_invocation_id = None,
     pa_previous_receipt_digest = None, pa_schema_version = ''ge.physical-authorization.v1''\<rparr>"

lemma ex_authorization:
  "authorize_physical_attempt h ex_spec ex_registry (ex_plan h) (ex_running h) ex_runner [] (Some ''gei-1'') = Inr (ex_authorization h)"
  "physical_authorization_init (ex_authorization h) = Inr (ex_authorization h)"
proof -
  show "physical_authorization_init (ex_authorization h) = Inr (ex_authorization h)"
    by (simp add: physical_authorization_init_eq ex_authorization_def)
  then show "authorize_physical_attempt h ex_spec ex_registry (ex_plan h) (ex_running h) ex_runner [] (Some ''gei-1'') = Inr (ex_authorization h)"
    by (simp add: authorize_physical_attempt_def choose_invocation_def ex_request_built) (simp add: ex_authorization_def)
qed

definition ex_failure :: "hash \<Rightarrow> physical_authorization \<Rightarrow> physical_observation" where
  "ex_failure h a = \<lparr>pb_authorization_id = authorization_id h a, pb_invocation_id = aq_invocation_id (pa_request a),
     pb_request_digest = request_digest h (pa_request a), pb_provider_invocation_id = None,
     pb_transport_status = ''timed_out'', pb_result = None, pb_failure_code = Some ''T'', pb_detail_digest = None,
     pb_response_digest = physical_response_digest h a None ''timed_out'' None (Some ''T'') None,
     pb_schema_version = ''ge.physical-observation.v1''\<rparr>"

lemma ex_failure: "observe_failure h a ''timed_out'' ''T'' None None = Inr (ex_failure h a)"
  by (simp add: observe_failure_def ex_failure_def physical_observation_init_eq failure_transport_statuses_def
      blank_opt_def blank_iff is_space_def)

definition ex_outcome :: "hash \<Rightarrow> physical_outcome" where
  "ex_outcome h = outcome_for h (ex_authorization h) (ex_failure h (ex_authorization h))"

lemma ex_authorization_bound: "request_bound h ex_spec ex_registry (ex_plan h) (ex_running h) ex_runner (pa_request (ex_authorization h))"
  by (simp add: ex_authorization_def ex_request_bound)

lemma ex_outcome:
  "admit_physical_observation h ex_spec ex_registry (ex_plan h) (ex_running h) ex_runner (ex_authorization h)
     (ex_failure h (ex_authorization h)) = Inr (ex_outcome h)"
  unfolding ex_outcome_def
  by (rule admit_physical_ok [OF ex_authorization_bound ex_authorization(2) observe_failure_verified [OF ex_failure]])

lemma ex_outcome_fields [simp]:
  "pt_authorization (ex_outcome h) = ex_authorization h" "pt_observation (ex_outcome h) = ex_failure h (ex_authorization h)"
  "pt_result (ex_outcome h) = None"
  "pr_transport_status (pt_receipt (ex_outcome h)) = ''timed_out''"
  by (simp_all add: ex_outcome_def outcome_for_def receipt_for_def Let_def) (simp_all add: ex_failure_def)

definition ex_retry :: "hash \<Rightarrow> physical_authorization" where
  "ex_retry h = \<lparr>pa_request = (ex_request h)\<lparr>aq_invocation_id := ''gei-Z''\<rparr>, pa_physical_attempt = 2,
     pa_previous_invocation_id = Some ''gei-1'', pa_previous_receipt_digest = Some (receipt_digest h (pt_receipt (ex_outcome h))),
     pa_schema_version = ''ge.physical-authorization.v1''\<rparr>"

lemma ex_retry:
  assumes "hex_digest h"
  shows "authorize_retry h ex_spec ex_registry (ex_plan h) (ex_running h) ex_runner (ex_outcome h) [] (Some ''gei-Z'') = Inr (ex_retry h)"
proof -
  have prior: "verify_physical_outcome h ex_spec ex_registry (ex_plan h) (ex_running h) ex_runner (ex_outcome h) = Inr True"
    using admit_physical_verified [OF ex_outcome] by blast
  have "build_dispatch_request h ex_spec ex_registry (ex_plan h) (ex_running h) ex_runner [] (Some ''gei-Z'') = Inr ((ex_request h)\<lparr>aq_invocation_id := ''gei-Z''\<rparr>)"
    using ex_request_built [of h]
    by (auto simp: build_dispatch_request_def ebind_eq_Inr choose_invocation_def adapter_request_init_eq startswith_def ex_request_def)
  moreover have "digest_ok (receipt_digest h (pt_receipt (ex_outcome h)))"
    by (simp add: receipt_digest_def hex_digest.digest_ok_sha256 [OF assms])
  then have "physical_authorization_init (ex_retry h) = Inr (ex_retry h)"
    by (simp add: physical_authorization_init_eq ex_retry_def)
  ultimately show ?thesis
    unfolding authorize_retry_def by (simp add: prior choose_invocation_def) (simp add: ex_retry_def ex_authorization_def ex_request_def)
qed

section \<open>Properties\<close>

text \<open>Physical admission is exact: an observation is admitted exactly when the authorization's request
  is bound to the context and the observation is bound to the authorization, and the admitted
  outcome is then the one determined by the two. In particular an honest observation, as
  \<open>observe_completed\<close> or \<open>observe_failure\<close> makes it, is never refused.\<close>

theorem physical_admission_exact:
  assumes "physical_authorization_init a = Inr a" and "physical_observation_init ob = Inr ob"
  shows "admit_physical_observation h spec registry plan session runner a ob = Inr b \<longleftrightarrow>
    request_bound h spec registry plan session runner (pa_request a) \<and> verify_observation h a ob \<and> b = outcome_for h a ob"
proof
  assume adm: "admit_physical_observation h spec registry plan session runner a ob = Inr b"
  then have "request_bound h spec registry plan session runner (pa_request a)" "verify_observation h a ob"
    by (auto simp: admit_physical_observation_def ebind_guard verify_dispatch_request_True split: if_splits)
  then show "request_bound h spec registry plan session runner (pa_request a) \<and> verify_observation h a ob \<and> b = outcome_for h a ob"
    using adm admit_physical_ok assms by (metis sum.inject(2))
next
  show "request_bound h spec registry plan session runner (pa_request a) \<and> verify_observation h a ob \<and> b = outcome_for h a ob \<Longrightarrow>
    admit_physical_observation h spec registry plan session runner a ob = Inr b"
    using admit_physical_ok assms by blast
qed

theorem physical_admission_exact_witness:
  "admit_physical_observation (\<lambda>t. t) ex_spec ex_registry (ex_plan (\<lambda>t. t)) (ex_running (\<lambda>t. t)) ex_runner
     (ex_authorization (\<lambda>t. t)) (ex_failure (\<lambda>t. t) (ex_authorization (\<lambda>t. t)))
   = Inr (outcome_for (\<lambda>t. t) (ex_authorization (\<lambda>t. t)) (ex_failure (\<lambda>t. t) (ex_authorization (\<lambda>t. t))))"
  using physical_admission_exact [OF ex_authorization(2) observe_failure_verified(2) [OF ex_failure]]
    ex_authorization_bound observe_failure_verified(1) [OF ex_failure] by blast

text \<open>C3: The loop of \<open>verify_retry_chain\<close> decides the declarative chain property: a non-empty sequence
  of intrinsically verified outcomes of one logical attempt, with fresh invocation identifiers,
  numbered from one, where the first has no predecessor and every other one names the
  invocation and receipt digest of the one before it, which did not complete.\<close>

theorem retry_chain_decided: "verify_retry_chain h bs \<longleftrightarrow> retry_chain h bs"
  by (rule verify_retry_chain_iff)

text \<open>In a verified retry chain only the last outcome can have completed, and only it can carry a
  result: a logical attempt has at most one result.\<close>

theorem only_last_attempt_completes:
  assumes "verify_retry_chain h bs" and "j < length bs" and "pt_result (bs ! j) \<noteq> None"
  shows "Suc j = length bs \<and> pr_transport_status (pt_receipt (bs ! j)) = ''completed''"
proof -
  have c: "retry_chain h bs" using assms(1) by (simp add: verify_retry_chain_iff)
  then have "verify_intrinsic_outcome h (bs ! j)" using assms(2) unfolding retry_chain_def by blast
  then have status: "pr_transport_status (pt_receipt (bs ! j)) = ''completed''" using intrinsic_result(1) assms(3) by blast
  have "\<not> Suc j < length bs"
  proof
    assume "Suc j < length bs"
    then have "linked h (prior_of bs (Suc j)) (bs ! Suc j)" using c unfolding retry_chain_def by blast
    then show False using status by (simp add: prior_of_def linked_def Let_def)
  qed
  with assms(2) status show ?thesis by linarith
qed

definition ex_done :: "hash \<Rightarrow> result_envelope" where
  "ex_done h = \<lparr>re_session_id = session_id h (ex_running h), re_spec_id = spec_id h ex_spec, re_spec_digest = spec_digest h ex_spec,
     re_runner_id = ''r1'', re_attempt = 1, re_status = ''completed'', re_output_artifacts = [], re_evidence = [],
     re_summary = [], re_schema_version = ''ge.result-envelope.v1''\<rparr>"

lemma ex_done: "\<exists>ob. observe_completed h (ex_authorization h) (ex_done h) ''p'' None = Inr ob \<and> pb_result ob = Some (ex_done h)
    \<and> verify_retry_chain h [outcome_for h (ex_authorization h) ob]"
proof -
  have bind: "verify_result_binding (pa_request (ex_authorization h)) (ex_done h)"
    by (simp add: verify_result_binding_def ex_done_def ex_authorization_def ex_request_def)
  obtain ob where ob: "observe_completed h (ex_authorization h) (ex_done h) ''p'' None = Inr ob" "pb_result ob = Some (ex_done h)"
    by (simp add: observe_completed_def physical_observation_init_eq blank_opt_def blank_iff is_space_def)
  have "verify_intrinsic_outcome h (outcome_for h (ex_authorization h) ob)"
    by (rule outcome_for_intrinsic [OF observe_completed_verified [OF ob(1) bind]])
  then have "verify_retry_chain h [outcome_for h (ex_authorization h) ob]"
    by (simp add: verify_retry_chain_iff retry_chain_def prior_of_def linked_def Let_def outcome_for_def ex_authorization_def)
  with ob show ?thesis by blast
qed

theorem only_last_attempt_completes_witness:
  "\<exists>b :: physical_outcome. pt_result b = Some (ex_done (\<lambda>t. t)) \<and> pr_transport_status (pt_receipt b) = ''completed''"
proof -
  let ?h = "\<lambda>t. t"
  obtain ob where ob: "pb_result ob = Some (ex_done ?h)" "verify_retry_chain ?h [outcome_for ?h (ex_authorization ?h) ob]"
    using ex_done by blast
  let ?b = "outcome_for ?h (ex_authorization ?h) ob"
  have "pt_result ?b = Some (ex_done ?h)" using ob(1) by (simp add: outcome_for_def)
  with only_last_attempt_completes [OF ob(2), of 0] have "pt_result ?b = Some (ex_done ?h) \<and> pr_transport_status (pt_receipt ?b) = ''completed''"
    by simp
  then show ?thesis by blast
qed

text \<open>A retry that was authorized from the last outcome of a verified chain continues the chain:
  its admitted outcome, under a fresh invocation identifier, makes the longer chain verify.\<close>

theorem authorized_retry_extends_chain:
  assumes "verify_retry_chain h bs"
    and "authorize_retry h spec registry plan session runner (last bs) fr iid = Inr a"
    and "aq_invocation_id (pa_request a) \<notin> outcome_invocation ` set bs"
    and "verify_observation h a ob" and "physical_observation_init ob = Inr ob"
  shows "\<exists>b. admit_physical_observation h spec registry plan session runner a ob = Inr b \<and> verify_retry_chain h (bs @ [b])"
proof -
  note retry = authorize_retry_Inr [OF assms(2)]
  have "retry_chain h (bs @ [outcome_for h a ob])"
    using assms retry by (intro retry_chain_snoc [where b = "outcome_for h a ob"] outcome_for_intrinsic)
      (simp_all add: verify_retry_chain_iff outcome_for_def outcome_invocation_def)
  then show ?thesis
    using admit_physical_ok [OF retry(1,7) assms(4,5)] by (auto simp: verify_retry_chain_iff)
qed

lemma ex_chain: "verify_retry_chain h [ex_outcome h]"
proof -
  have "verify_physical_outcome h ex_spec ex_registry (ex_plan h) (ex_running h) ex_runner (ex_outcome h) = Inr True"
    using admit_physical_verified [OF ex_outcome] by blast
  then have "verify_intrinsic_outcome h (ex_outcome h)" by (simp add: verify_physical_outcome_True)
  then show ?thesis
    by (simp add: verify_retry_chain_iff retry_chain_def prior_of_def linked_def Let_def) (simp add: ex_authorization_def)
qed

theorem authorized_retry_extends_chain_witness:
  "\<exists>b. admit_physical_observation zero_hash ex_spec ex_registry (ex_plan zero_hash) (ex_running zero_hash) ex_runner
     (ex_retry zero_hash) (ex_failure zero_hash (ex_retry zero_hash)) = Inr b \<and>
   verify_retry_chain zero_hash ([ex_outcome zero_hash] @ [b])"
proof (rule authorized_retry_extends_chain [OF ex_chain])
  show "authorize_retry zero_hash ex_spec ex_registry (ex_plan zero_hash) (ex_running zero_hash) ex_runner
      (last [ex_outcome zero_hash]) [] (Some ''gei-Z'') = Inr (ex_retry zero_hash)"
    using ex_retry [OF zero_hash] by simp
  show "aq_invocation_id (pa_request (ex_retry zero_hash)) \<notin> outcome_invocation ` set [ex_outcome zero_hash]"
    by (simp add: outcome_invocation_def) (simp add: ex_retry_def ex_authorization_def ex_request_def)
qed (rule observe_failure_verified [OF ex_failure])+

text \<open>A physical authorization is recorded at most once, however its outcome is presented again, and
  the record of the first time verifies against every verified extension of that ledger.\<close>

theorem physical_attempt_recorded_once:
  assumes "record_physical_attempt h l b = Inr (l', r)"
  shows "(\<forall>b'. pt_authorization b' = pt_authorization b \<longrightarrow>
      record_physical_attempt h l' b' = Inl (PhysicalAttemptError ''physical authorization is already recorded'')) \<and>
    (\<forall>l'' post. el_events l'' = el_events l' @ post \<and> verify_ledger h l'' \<longrightarrow> verify_physical_attempt_record h l'' b r)"
  using record_physical_twice [OF assms] record_physical_verifies_later [OF assms] by blast

theorem physical_attempt_recorded_once_witness:
  "\<exists>l' r. record_physical_attempt (\<lambda>t. t) empty_ledger (ex_outcome (\<lambda>t. t)) = Inr (l', r) \<and>
    record_physical_attempt (\<lambda>t. t) l' (ex_outcome (\<lambda>t. t)) = Inl (PhysicalAttemptError ''physical authorization is already recorded'')"
proof -
  let ?h = "\<lambda>t. t"
  have "\<forall>(t, p)\<in>set (physical_payloads ?h (ex_outcome ?h)). \<not> blank t"
    by (simp add: physical_payloads_def blank_iff is_space_def)
  then obtain m where "append_events ?h empty_ledger (physical_payloads ?h (ex_outcome ?h)) = Inr m"
    using append_events_ok by blast
  then obtain l' r where rec: "record_physical_attempt ?h empty_ledger (ex_outcome ?h) = Inr (l', r)"
    by (simp add: record_physical_attempt_def recorded_authorizations_def empty_ledger_def)
  with physical_attempt_recorded_once [OF rec] show ?thesis by blast
qed

end
