(* ===== verification/Capacity_State.thy ===== *)
theory Capacity_State
  imports Physical
begin

text \<open>
  Runner capacity as an event-sourced state (\<open>capacity.py\<close>, data and replay). The state
  of a runner is the tuple of its reserve and release transitions; leases, releases and
  active leases are read off the tuple. \<open>apply_transition\<close> is
  \<open>_apply_transition_unchecked\<close>, and \<open>verify_capacity_state\<close> replays the transitions
  from the genesis state. The lemmas show the invariant of the replayed states (bounded, exclusive
  slots; one active lease per logical attempt; leases never reissued) and that every
  transition is a step of an abstract slot table.
\<close>

section \<open>Leases, releases and transitions\<close>

record capacity_lease =
  cl_runner_id :: string
  cl_runner_capability_digest :: string
  cl_slot :: int
  cl_session_id :: string
  cl_logical_attempt :: int
  cl_authorization_id :: string
  cl_authorization_digest :: string
  cl_invocation_id :: string
  cl_physical_attempt :: int
  cl_previous_invocation_id :: "string option"
  cl_previous_receipt_digest :: "string option"
  cl_expected_state_digest :: string
  cl_schema_version :: string

definition capacity_lease_py :: "capacity_lease \<Rightarrow> pyval" where
  "capacity_lease_py x = PDict [
    (''runner_id'', PStr (cl_runner_id x)),
    (''runner_capability_digest'', PStr (cl_runner_capability_digest x)),
    (''slot'', PInt (cl_slot x)),
    (''session_id'', PStr (cl_session_id x)),
    (''logical_attempt'', PInt (cl_logical_attempt x)),
    (''authorization_id'', PStr (cl_authorization_id x)),
    (''authorization_digest'', PStr (cl_authorization_digest x)),
    (''invocation_id'', PStr (cl_invocation_id x)),
    (''physical_attempt'', PInt (cl_physical_attempt x)),
    (''previous_invocation_id'', py_opt PStr (cl_previous_invocation_id x)),
    (''previous_receipt_digest'', py_opt PStr (cl_previous_receipt_digest x)),
    (''expected_state_digest'', PStr (cl_expected_state_digest x)),
    (''schema_version'', PStr (cl_schema_version x))]"

definition capacity_lease_init :: "capacity_lease \<Rightarrow> capacity_lease exc" where
  "capacity_lease_init l =
     (let first = (cl_physical_attempt l = 1) in
      if cl_slot l < 0 then Inl (ValueError ''slot must be >= 0'')
      else if cl_logical_attempt l < 1 \<or> cl_physical_attempt l < 1
      then Inl (ValueError ''attempt ordinals must be >= 1'')
      else if first \<and> (cl_previous_invocation_id l \<noteq> None \<or> cl_previous_receipt_digest l \<noteq> None)
      then Inl (ValueError ''first physical lease cannot have predecessor bindings'')
      else if \<not> first \<and> (cl_previous_invocation_id l = None \<or> cl_previous_receipt_digest l = None)
      then Inl (ValueError ''retry physical lease requires predecessor bindings'')
      else Inr l)"

lemma capacity_lease_init_eq [exc_simps]: "capacity_lease_init l = Inr l' \<longleftrightarrow>
   l' = l \<and> 0 \<le> cl_slot l \<and> 1 \<le> cl_logical_attempt l \<and> 1 \<le> cl_physical_attempt l
   \<and> (cl_physical_attempt l = 1 \<longleftrightarrow> cl_previous_invocation_id l = None)
   \<and> (cl_physical_attempt l = 1 \<longleftrightarrow> cl_previous_receipt_digest l = None)"
  by (auto simp: capacity_lease_init_def Let_def)

interpretation capacity_lease: encoding capacity_lease_py
proof unfold_locales
  show "wf_py (capacity_lease_py x)" for x
    by (simp add: capacity_lease_py_def)
  show "normalize (capacity_lease_py x) = normalize (capacity_lease_py y) \<longleftrightarrow> x = y" for x y
    by (cases x; cases y) (simp add: capacity_lease_py_def normalize_dict_inject)
qed

lemmas capacity_lease_wf [simp] = capacity_lease.enc_wf capacity_lease.opt_wf
lemmas capacity_lease_inject [simp] = capacity_lease.enc_inject

lemma capacity_lease_opt_inject [simp]: "normalize (py_opt capacity_lease_py x) = normalize (py_opt capacity_lease_py y) \<longleftrightarrow> x = y"
  by (rule capacity_lease.opt_inject) (simp add: capacity_lease_py_def)

definition lease_id :: "hash \<Rightarrow> capacity_lease \<Rightarrow> string" where
  "lease_id h l = stable_id h ''gecl'' (capacity_lease_py l)"

definition lease_digest :: "hash \<Rightarrow> capacity_lease \<Rightarrow> string" where
  "lease_digest h l = sha256_digest h (capacity_lease_py l)"

record capacity_release =
  cr_lease_id :: string
  cr_lease_digest :: string
  cr_runner_id :: string
  cr_session_id :: string
  cr_logical_attempt :: int
  cr_authorization_id :: string
  cr_authorization_digest :: string
  cr_invocation_id :: string
  cr_physical_attempt :: int
  cr_release_kind :: string
  cr_expected_state_digest :: string
  cr_outcome_digest :: "string option"
  cr_receipt_digest :: "string option"
  cr_transport_status :: "string option"
  cr_revoked_session_digest :: "string option"
  cr_schema_version :: string

definition capacity_release_py :: "capacity_release \<Rightarrow> pyval" where
  "capacity_release_py x = PDict [
    (''lease_id'', PStr (cr_lease_id x)),
    (''lease_digest'', PStr (cr_lease_digest x)),
    (''runner_id'', PStr (cr_runner_id x)),
    (''session_id'', PStr (cr_session_id x)),
    (''logical_attempt'', PInt (cr_logical_attempt x)),
    (''authorization_id'', PStr (cr_authorization_id x)),
    (''authorization_digest'', PStr (cr_authorization_digest x)),
    (''invocation_id'', PStr (cr_invocation_id x)),
    (''physical_attempt'', PInt (cr_physical_attempt x)),
    (''release_kind'', PStr (cr_release_kind x)),
    (''expected_state_digest'', PStr (cr_expected_state_digest x)),
    (''outcome_digest'', py_opt PStr (cr_outcome_digest x)),
    (''receipt_digest'', py_opt PStr (cr_receipt_digest x)),
    (''transport_status'', py_opt PStr (cr_transport_status x)),
    (''revoked_session_digest'', py_opt PStr (cr_revoked_session_digest x)),
    (''schema_version'', PStr (cr_schema_version x))]"

definition capacity_release_init :: "capacity_release \<Rightarrow> capacity_release exc" where
  "capacity_release_init r =
     (if cr_release_kind r = ''terminal_outcome'' then
        (if empty_opt (cr_outcome_digest r) \<or> empty_opt (cr_receipt_digest r) \<or> empty_opt (cr_transport_status r)
            \<or> cr_revoked_session_digest r \<noteq> None
         then Inl (ValueError ''terminal outcome release requires outcome, receipt and transport status only'')
         else if cr_transport_status r \<notin> Some ` set valid_transport_statuses
         then Inl (ValueError ''unsupported terminal transport status'')
         else Inr r)
      else if cr_release_kind r = ''session_revoked'' then
        (if empty_opt (cr_revoked_session_digest r) \<or> cr_outcome_digest r \<noteq> None
            \<or> cr_receipt_digest r \<noteq> None \<or> cr_transport_status r \<noteq> None
         then Inl (ValueError ''session revocation release requires revoked session digest only'')
         else Inr r)
      else Inl (ValueError ''unsupported release_kind''))"

lemma capacity_release_init_eq [exc_simps]: "capacity_release_init r = Inr r' \<longleftrightarrow> r' = r \<and>
   (cr_release_kind r = ''terminal_outcome'' \<and> \<not> empty_opt (cr_outcome_digest r) \<and> \<not> empty_opt (cr_receipt_digest r)
      \<and> cr_transport_status r \<in> Some ` set valid_transport_statuses \<and> cr_revoked_session_digest r = None
    \<or> cr_release_kind r = ''session_revoked'' \<and> \<not> empty_opt (cr_revoked_session_digest r)
      \<and> cr_outcome_digest r = None \<and> cr_receipt_digest r = None \<and> cr_transport_status r = None)"
  by (auto simp: capacity_release_init_def empty_opt_def valid_transport_statuses_def split: option.splits)

interpretation capacity_release: encoding capacity_release_py
proof unfold_locales
  show "wf_py (capacity_release_py x)" for x
    by (simp add: capacity_release_py_def)
  show "normalize (capacity_release_py x) = normalize (capacity_release_py y) \<longleftrightarrow> x = y" for x y
    by (cases x; cases y) (simp add: capacity_release_py_def normalize_dict_inject)
qed

lemmas capacity_release_wf [simp] = capacity_release.enc_wf capacity_release.opt_wf
lemmas capacity_release_inject [simp] = capacity_release.enc_inject

lemma capacity_release_opt_inject [simp]: "normalize (py_opt capacity_release_py x) = normalize (py_opt capacity_release_py y) \<longleftrightarrow> x = y"
  by (rule capacity_release.opt_inject) (simp add: capacity_release_py_def)

record capacity_transition =
  ct_kind :: string
  ct_expected_state_digest :: string
  ct_lease :: "capacity_lease option"
  ct_release :: "capacity_release option"
  ct_schema_version :: string

definition capacity_transition_py :: "capacity_transition \<Rightarrow> pyval" where
  "capacity_transition_py x = PDict [
    (''kind'', PStr (ct_kind x)),
    (''expected_state_digest'', PStr (ct_expected_state_digest x)),
    (''lease'', py_opt capacity_lease_py (ct_lease x)),
    (''release'', py_opt capacity_release_py (ct_release x)),
    (''schema_version'', PStr (ct_schema_version x))]"

definition capacity_transition_init :: "capacity_transition \<Rightarrow> capacity_transition exc" where
  "capacity_transition_init t =
     (if ct_kind t = ''reserve'' then
        (if ct_lease t = None \<or> ct_release t \<noteq> None
         then Inl (ValueError ''reserve transition requires lease only'') else Inr t)
      else if ct_kind t = ''release'' then
        (if ct_release t = None \<or> ct_lease t \<noteq> None
         then Inl (ValueError ''release transition requires release only'') else Inr t)
      else Inl (ValueError ''unsupported transition kind''))"

lemma capacity_transition_init_eq [exc_simps]: "capacity_transition_init t = Inr t' \<longleftrightarrow> t' = t \<and>
   (ct_kind t = ''reserve'' \<and> ct_lease t \<noteq> None \<and> ct_release t = None
    \<or> ct_kind t = ''release'' \<and> ct_release t \<noteq> None \<and> ct_lease t = None)"
  by (auto simp: capacity_transition_init_def)

interpretation capacity_transition: encoding capacity_transition_py
proof unfold_locales
  show "wf_py (capacity_transition_py x)" for x
    by (simp add: capacity_transition_py_def)
  show "normalize (capacity_transition_py x) = normalize (capacity_transition_py y) \<longleftrightarrow> x = y" for x y
    by (cases x; cases y) (simp add: capacity_transition_py_def normalize_dict_inject)
qed

lemmas capacity_transition_wf [simp] = capacity_transition.enc_wf capacity_transition.list_wf
lemmas capacity_transition_inject [simp] = capacity_transition.enc_inject capacity_transition.list_inject

definition transition_digest :: "hash \<Rightarrow> capacity_transition \<Rightarrow> string" where
  "transition_digest h t = sha256_digest h (capacity_transition_py t)"

section \<open>The state of a runner\<close>

record capacity_state =
  cs_runner_id :: string
  cs_runner_capability_digest :: string
  cs_max_parallelism :: int
  cs_generation :: int
  cs_previous_state_digest :: "string option"
  cs_transitions :: "capacity_transition list"
  cs_schema_version :: string

definition capacity_state_py :: "capacity_state \<Rightarrow> pyval" where
  "capacity_state_py x = PDict [
    (''runner_id'', PStr (cs_runner_id x)),
    (''runner_capability_digest'', PStr (cs_runner_capability_digest x)),
    (''max_parallelism'', PInt (cs_max_parallelism x)),
    (''generation'', PInt (cs_generation x)),
    (''previous_state_digest'', py_opt PStr (cs_previous_state_digest x)),
    (''transitions'', PTuple (map capacity_transition_py (cs_transitions x))),
    (''schema_version'', PStr (cs_schema_version x))]"

definition capacity_state_init :: "capacity_state \<Rightarrow> capacity_state exc" where
  "capacity_state_init s =
     (if cs_max_parallelism s < 1 then Inl (ValueError ''max_parallelism must be >= 1'')
      else if cs_generation s < 0 then Inl (ValueError ''generation must be >= 0'')
      else if cs_generation s = 0 \<and> cs_previous_state_digest s \<noteq> None
      then Inl (ValueError ''genesis capacity state cannot have predecessor'')
      else if cs_generation s > 0 \<and> cs_previous_state_digest s = None
      then Inl (ValueError ''non-genesis capacity state requires predecessor digest'')
      else if cs_generation s \<noteq> int (length (cs_transitions s))
      then Inl (ValueError ''generation must equal transition count'')
      else Inr s)"

lemma capacity_state_init_eq [exc_simps]: "capacity_state_init s = Inr s' \<longleftrightarrow> s' = s \<and> 1 \<le> cs_max_parallelism s
   \<and> cs_generation s = int (length (cs_transitions s)) \<and> (cs_generation s = 0 \<longleftrightarrow> cs_previous_state_digest s = None)"
  by (auto simp: capacity_state_init_def)

interpretation capacity_state: encoding capacity_state_py
proof unfold_locales
  show "wf_py (capacity_state_py x)" for x
    by (simp add: capacity_state_py_def)
  show "normalize (capacity_state_py x) = normalize (capacity_state_py y) \<longleftrightarrow> x = y" for x y
    by (cases x; cases y) (simp add: capacity_state_py_def normalize_dict_inject)
qed

lemmas capacity_state_wf [simp] = capacity_state.enc_wf
lemmas capacity_state_inject [simp] = capacity_state.enc_inject

definition state_digest :: "hash \<Rightarrow> capacity_state \<Rightarrow> string" where
  "state_digest h s = sha256_digest h (capacity_state_py s)"

definition leases :: "capacity_state \<Rightarrow> capacity_lease list" where
  "leases s = List.map_filter (\<lambda>t. if ct_kind t = ''reserve'' then ct_lease t else None) (cs_transitions s)"

definition releases :: "capacity_state \<Rightarrow> capacity_release list" where
  "releases s = List.map_filter (\<lambda>t. if ct_kind t = ''release'' then ct_release t else None) (cs_transitions s)"

definition active_leases :: "hash \<Rightarrow> capacity_state \<Rightarrow> capacity_lease list" where
  "active_leases h s = (let released = map cr_lease_id (releases s) in
     filter (\<lambda>l. lease_id h l \<notin> set released) (leases s))"

definition initialize_capacity_state :: "hash \<Rightarrow> runner_capabilities \<Rightarrow> capacity_state exc" where
  "initialize_capacity_state h runner = capacity_state_init
     \<lparr>cs_runner_id = rc_runner_id runner, cs_runner_capability_digest = runner_digest h runner,
      cs_max_parallelism = rc_max_parallelism runner, cs_generation = 0, cs_previous_state_digest = None,
      cs_transitions = [], cs_schema_version = ''ge.runner-capacity-state.v1''\<rparr>"

definition session_key :: "capacity_lease \<Rightarrow> string \<times> int" where
  "session_key l = (cl_session_id l, cl_logical_attempt l)"

definition active_session_keys :: "hash \<Rightarrow> capacity_state \<Rightarrow> (string \<times> int) list" where
  "active_session_keys h s = map session_key (active_leases h s)"

definition predecessor_released ::
  "capacity_state \<Rightarrow> string \<Rightarrow> int \<Rightarrow> int \<Rightarrow> string option \<Rightarrow> string option \<Rightarrow> bool" where
  "predecessor_released s session attempt physical_attempt previous_invocation previous_receipt =
     (if physical_attempt = 1 then previous_invocation = None \<and> previous_receipt = None
      else list_ex (\<lambda>r. cr_release_kind r = ''terminal_outcome'' \<and> cr_session_id r = session
             \<and> cr_logical_attempt r = attempt \<and> cr_physical_attempt r = physical_attempt - 1
             \<and> Some (cr_invocation_id r) = previous_invocation \<and> cr_receipt_digest r = previous_receipt
             \<and> cr_transport_status r \<noteq> Some ''completed'') (releases s))"

section \<open>Applying a transition\<close>

text \<open>The two branches of \<open>_apply_transition_unchecked\<close>, and the function.\<close>

definition check_reserve :: "hash \<Rightarrow> capacity_state \<Rightarrow> capacity_lease \<Rightarrow> unit exc" where
  "check_reserve h s l =
     (if cl_expected_state_digest l \<noteq> state_digest h s then Inl (CapacityError ''lease snapshot binding mismatch'')
      else if cl_runner_id l \<noteq> cs_runner_id s \<or> cl_runner_capability_digest l \<noteq> cs_runner_capability_digest s
      then Inl (CapacityError ''lease runner binding mismatch'')
      else if cl_slot l \<ge> cs_max_parallelism s then Inl (CapacityError ''lease slot is outside runner capacity'')
      else if int (length (active_leases h s)) \<ge> cs_max_parallelism s \<or> cl_slot l \<in> set (map cl_slot (active_leases h s))
      then Inl (CapacityError ''capacity slot is already occupied'')
      else if list_ex (\<lambda>x. lease_id h x = lease_id h l \<or> cl_authorization_digest x = cl_authorization_digest l) (leases s)
      then Inl (CapacityError ''duplicate canonical lease'')
      else if (cl_session_id l, cl_logical_attempt l) \<in> set (active_session_keys h s)
      then Inl (CapacityError ''logical Session already has an active lease'')
      else if \<not> predecessor_released s (cl_session_id l) (cl_logical_attempt l) (cl_physical_attempt l)
          (cl_previous_invocation_id l) (cl_previous_receipt_digest l)
      then Inl (CapacityError ''lease retry predecessor is not canonically released'')
      else Inr ())"

definition release_identity :: "capacity_release \<Rightarrow> string \<times> string \<times> int \<times> string \<times> string \<times> string \<times> int" where
  "release_identity r = (cr_runner_id r, cr_session_id r, cr_logical_attempt r, cr_authorization_id r,
     cr_authorization_digest r, cr_invocation_id r, cr_physical_attempt r)"

definition lease_identity :: "capacity_lease \<Rightarrow> string \<times> string \<times> int \<times> string \<times> string \<times> string \<times> int" where
  "lease_identity l = (cl_runner_id l, cl_session_id l, cl_logical_attempt l, cl_authorization_id l,
     cl_authorization_digest l, cl_invocation_id l, cl_physical_attempt l)"

definition check_release :: "hash \<Rightarrow> capacity_state \<Rightarrow> capacity_release \<Rightarrow> unit exc" where
  "check_release h s r =
     (if cr_expected_state_digest r \<noteq> state_digest h s then Inl (CapacityError ''release snapshot binding mismatch'')
      else (case filter (\<lambda>x. lease_id h x = cr_lease_id r \<and> lease_digest h x = cr_lease_digest r) (active_leases h s) of
          [l] \<Rightarrow> (if release_identity r \<noteq> lease_identity l
                  then Inl (CapacityError ''release identity does not match active lease'') else Inr ())
        | _ \<Rightarrow> Inl (CapacityError ''release does not reference one active lease'')))"

definition apply_transition :: "hash \<Rightarrow> capacity_state \<Rightarrow> capacity_transition \<Rightarrow> capacity_state exc" where
  "apply_transition h s t =
     (if ct_expected_state_digest t \<noteq> state_digest h s then Inl (CapacityError ''stale capacity transition'')
      else ebind
        (if ct_kind t = ''reserve''
         then (case ct_lease t of None \<Rightarrow> Inl AssertionError | Some l \<Rightarrow> check_reserve h s l)
         else (case ct_release t of None \<Rightarrow> Inl AssertionError | Some r \<Rightarrow> check_release h s r)) (\<lambda>_.
      capacity_state_init
        \<lparr>cs_runner_id = cs_runner_id s, cs_runner_capability_digest = cs_runner_capability_digest s,
         cs_max_parallelism = cs_max_parallelism s, cs_generation = cs_generation s + 1,
         cs_previous_state_digest = Some (state_digest h s), cs_transitions = cs_transitions s @ [t],
         cs_schema_version = ''ge.runner-capacity-state.v1''\<rparr>))"

text \<open>Replay; an assertion failure is not caught.\<close>

definition verify_capacity_state :: "hash \<Rightarrow> capacity_state \<Rightarrow> runner_capabilities \<Rightarrow> bool exc" where
  "verify_capacity_state h s runner =
     (if (cs_runner_id s, cs_runner_capability_digest s, cs_max_parallelism s)
         \<noteq> (rc_runner_id runner, runner_digest h runner, rc_max_parallelism runner) then Inr False
      else ebind (initialize_capacity_state h runner) (\<lambda>genesis.
        handle is_value_error False
          (ebind (efold (apply_transition h) genesis (cs_transitions s)) (\<lambda>current. Inr (current = s)))))"

text \<open>The loop of \<open>_committed_transition_at_generation\<close>, with the transitions still to replay.\<close>

fun committed_from ::
  "hash \<Rightarrow> int \<Rightarrow> int \<Rightarrow> capacity_state \<Rightarrow> capacity_transition list
   \<Rightarrow> (capacity_state \<times> capacity_transition) option exc" where
  "committed_from h generation index current [] = Inr None"
| "committed_from h generation index current (t # ts) =
     ebind (apply_transition h current t) (\<lambda>next_state.
     if index = generation then Inr (Some (next_state, t))
     else committed_from h generation (index + 1) next_state ts)"

definition committed_transition_at_generation ::
  "hash \<Rightarrow> capacity_state \<Rightarrow> runner_capabilities \<Rightarrow> int \<Rightarrow> (capacity_state \<times> capacity_transition) option exc" where
  "committed_transition_at_generation h s runner generation =
     (if generation < 1 \<or> generation > cs_generation s then Inr None
      else ebind (initialize_capacity_state h runner) (\<lambda>genesis.
        handle is_value_error None (committed_from h generation 1 genesis (cs_transitions s))))"

section \<open>Steps\<close>

definition advance :: "hash \<Rightarrow> capacity_state \<Rightarrow> capacity_transition \<Rightarrow> capacity_state" where
  "advance h s t =
     \<lparr>cs_runner_id = cs_runner_id s, cs_runner_capability_digest = cs_runner_capability_digest s,
      cs_max_parallelism = cs_max_parallelism s, cs_generation = cs_generation s + 1,
      cs_previous_state_digest = Some (state_digest h s), cs_transitions = cs_transitions s @ [t],
      cs_schema_version = ''ge.runner-capacity-state.v1''\<rparr>"

lemma advance_fields [simp]:
  "cs_runner_id (advance h s t) = cs_runner_id s"
  "cs_runner_capability_digest (advance h s t) = cs_runner_capability_digest s"
  "cs_max_parallelism (advance h s t) = cs_max_parallelism s"
  "cs_generation (advance h s t) = cs_generation s + 1"
  "cs_previous_state_digest (advance h s t) = Some (state_digest h s)"
  "cs_transitions (advance h s t) = cs_transitions s @ [t]"
  by (simp_all add: advance_def)

lemma assert_some_Inr [exc_simps]:
  "(case x of None \<Rightarrow> Inl e | Some y \<Rightarrow> f y) = Inr z \<longleftrightarrow> (\<exists>y. x = Some y \<and> f y = Inr z)"
  by (cases x) auto

text \<open>What a transition must satisfy, as one condition.\<close>

definition reserve_ok :: "hash \<Rightarrow> capacity_state \<Rightarrow> capacity_lease \<Rightarrow> bool" where
  "reserve_ok h s l \<longleftrightarrow> cl_expected_state_digest l = state_digest h s \<and>
     cl_runner_id l = cs_runner_id s \<and> cl_runner_capability_digest l = cs_runner_capability_digest s \<and>
     cl_slot l < cs_max_parallelism s \<and> int (length (active_leases h s)) < cs_max_parallelism s \<and>
     cl_slot l \<notin> cl_slot ` set (active_leases h s) \<and>
     lease_id h l \<notin> lease_id h ` set (leases s) \<and>
     cl_authorization_digest l \<notin> cl_authorization_digest ` set (leases s) \<and>
     session_key l \<notin> session_key ` set (active_leases h s) \<and>
     predecessor_released s (cl_session_id l) (cl_logical_attempt l) (cl_physical_attempt l)
       (cl_previous_invocation_id l) (cl_previous_receipt_digest l)"

definition release_ok :: "hash \<Rightarrow> capacity_state \<Rightarrow> capacity_release \<Rightarrow> bool" where
  "release_ok h s r \<longleftrightarrow> cr_expected_state_digest r = state_digest h s \<and>
     (\<exists>l. filter (\<lambda>x. lease_id h x = cr_lease_id r \<and> lease_digest h x = cr_lease_digest r) (active_leases h s) = [l]
        \<and> release_identity r = lease_identity l)"

lemma check_reserve_Inr [exc_simps]: "check_reserve h s l = Inr u \<longleftrightarrow> reserve_ok h s l"
proof -
  have fresh: "\<not> list_ex (\<lambda>x. lease_id h x = lease_id h l \<or> cl_authorization_digest x = cl_authorization_digest l) (leases s) \<longleftrightarrow>
      lease_id h l \<notin> lease_id h ` set (leases s) \<and> cl_authorization_digest l \<notin> cl_authorization_digest ` set (leases s)"
    by (auto simp: list_ex_iff image_iff)
  show ?thesis
    unfolding check_reserve_def raise_unless_eq fresh reserve_ok_def active_session_keys_def
    by (auto simp: session_key_def)
qed

lemma check_release_Inr [exc_simps]: "check_release h s r = Inr u \<longleftrightarrow> release_ok h s r"
  by (auto simp: check_release_def release_ok_def split: list.splits)

definition transition_ok :: "hash \<Rightarrow> capacity_state \<Rightarrow> capacity_transition \<Rightarrow> bool" where
  "transition_ok h s t \<longleftrightarrow> ct_expected_state_digest t = state_digest h s \<and>
     (if ct_kind t = ''reserve'' then \<exists>l. ct_lease t = Some l \<and> reserve_ok h s l
      else \<exists>r. ct_release t = Some r \<and> release_ok h s r)"

lemma apply_transition_Inr: "apply_transition h s t = Inr s' \<longleftrightarrow>
   transition_ok h s t \<and> s' = advance h s t \<and> capacity_state_init (advance h s t) = Inr (advance h s t)"
  unfolding apply_transition_def raise_unless_eq ebind_eq_Inr transition_ok_def advance_def [symmetric]
  by (auto simp: exc_simps)

interpretation capacity: append_only "apply_transition h" cs_transitions for h
  by unfold_locales (auto simp: apply_transition_Inr)

lemma leases_advance:
  "leases (advance h s t) = leases s @ (if ct_kind t = ''reserve'' then case ct_lease t of None \<Rightarrow> [] | Some l \<Rightarrow> [l] else [])"
  by (simp add: leases_def List.map_filter_def split: option.split)

lemma releases_advance:
  "releases (advance h s t) = releases s @ (if ct_kind t = ''release'' then case ct_release t of None \<Rightarrow> [] | Some r \<Rightarrow> [r] else [])"
  by (simp add: releases_def List.map_filter_def split: option.split)

section \<open>The invariant\<close>

definition lease_predecessor_released :: "capacity_state \<Rightarrow> capacity_lease \<Rightarrow> bool" where
  "lease_predecessor_released s l = predecessor_released s (cl_session_id l) (cl_logical_attempt l)
     (cl_physical_attempt l) (cl_previous_invocation_id l) (cl_previous_receipt_digest l)"

definition capacity_inv :: "hash \<Rightarrow> capacity_state \<Rightarrow> bool" where
  "capacity_inv h s \<longleftrightarrow>
     cr_lease_id ` set (releases s) \<subseteq> lease_id h ` set (leases s) \<and>
     distinct (map (lease_id h) (leases s)) \<and>
     distinct (map cl_authorization_digest (leases s)) \<and>
     distinct (map cr_lease_id (releases s)) \<and>
     distinct (map cl_slot (active_leases h s)) \<and>
     distinct (map session_key (active_leases h s)) \<and>
     int (length (active_leases h s)) \<le> cs_max_parallelism s \<and>
     list_all (\<lambda>l. cl_slot l < cs_max_parallelism s) (active_leases h s) \<and>
     list_all (\<lambda>l. cl_runner_id l = cs_runner_id s \<and> cl_runner_capability_digest l = cs_runner_capability_digest s) (leases s) \<and>
     list_all (lease_predecessor_released s) (leases s)"

lemma set_active_leases: "set (active_leases h s) = {l \<in> set (leases s). lease_id h l \<notin> cr_lease_id ` set (releases s)}"
  by (auto simp: active_leases_def Let_def)

lemma active_reserve:
  assumes "ct_kind t = ''reserve''" and "ct_lease t = Some l"
    and "cr_lease_id ` set (releases s) \<subseteq> lease_id h ` set (leases s)" and "lease_id h l \<notin> lease_id h ` set (leases s)"
  shows "active_leases h (advance h s t) = active_leases h s @ [l]"
proof -
  have "lease_id h l \<notin> cr_lease_id ` set (releases s)" using assms(3,4) by blast
  then show ?thesis using assms(1,2) by (simp add: active_leases_def leases_advance releases_advance)
qed

lemma active_release:
  assumes "ct_kind t = ''release''" and "ct_release t = Some r"
  shows "active_leases h (advance h s t) = filter (\<lambda>l. lease_id h l \<noteq> cr_lease_id r) (active_leases h s)"
proof -
  have "active_leases h (advance h s t) = filter (\<lambda>l. lease_id h l \<noteq> cr_lease_id r \<and> lease_id h l \<notin> cr_lease_id ` set (releases s)) (leases s)"
    using assms by (simp add: active_leases_def leases_advance releases_advance)
  then show ?thesis by (simp add: active_leases_def conj_commute)
qed

lemma active_other:
  assumes "ct_kind t \<notin> {''reserve'', ''release''}"
  shows "active_leases h (advance h s t) = active_leases h s" "leases (advance h s t) = leases s"
    "releases (advance h s t) = releases s"
  using assms by (simp_all add: active_leases_def leases_advance releases_advance)

lemma predecessor_released_mono:
  assumes "set (releases s) \<subseteq> set (releases s')" and "lease_predecessor_released s l"
  shows "lease_predecessor_released s' l"
  using assms by (auto simp: lease_predecessor_released_def predecessor_released_def list_ex_iff split: if_splits)

lemma releases_advance_mono: "set (releases s) \<subseteq> set (releases (advance h s t))"
  unfolding releases_advance set_append by (rule Un_upper1)

lemma distinct_map_filter_sub: "distinct (map f xs) \<Longrightarrow> distinct (map f (filter P xs))"
  by (induction xs) auto

lemma released_lease:
  assumes "release_ok h s r"
  shows "\<exists>l\<in>set (active_leases h s). lease_id h l = cr_lease_id r \<and> lease_digest h l = cr_lease_digest r
    \<and> release_identity r = lease_identity l"
proof -
  obtain l where f: "filter (\<lambda>x. lease_id h x = cr_lease_id r \<and> lease_digest h x = cr_lease_digest r) (active_leases h s) = [l]"
    and id: "release_identity r = lease_identity l"
    using assms unfolding release_ok_def by blast
  have "l \<in> set (filter (\<lambda>x. lease_id h x = cr_lease_id r \<and> lease_digest h x = cr_lease_digest r) (active_leases h s))"
    by (simp add: f)
  with id show ?thesis by auto
qed

lemma inv_reserve:
  assumes "capacity_inv h s" and "ct_kind t = ''reserve''" and "ct_lease t = Some l" and ok: "reserve_ok h s l"
  shows "capacity_inv h (advance h s t)"
proof -
  have active: "active_leases h (advance h s t) = active_leases h s @ [l]"
    using assms by (intro active_reserve) (auto simp: capacity_inv_def reserve_ok_def)
  have ls: "leases (advance h s t) = leases s @ [l]" and rs: "releases (advance h s t) = releases s"
    using assms(2,3) by (simp_all add: leases_advance releases_advance)
  have "lease_predecessor_released s l" using ok by (simp add: reserve_ok_def lease_predecessor_released_def)
  moreover have "lease_predecessor_released (advance h s t) = lease_predecessor_released s"
    by (rule ext) (simp add: lease_predecessor_released_def predecessor_released_def rs)
  ultimately show ?thesis
    using assms(1) ok unfolding capacity_inv_def active ls rs reserve_ok_def by (simp add: subset_insertI2)
qed

lemma inv_release:
  assumes "capacity_inv h s" and "ct_kind t = ''release''" and "ct_release t = Some r" and ok: "release_ok h s r"
  shows "capacity_inv h (advance h s t)"
proof -
  have active: "active_leases h (advance h s t) = filter (\<lambda>l. lease_id h l \<noteq> cr_lease_id r) (active_leases h s)"
    using assms by (intro active_release)
  have ls: "leases (advance h s t) = leases s" and rs: "releases (advance h s t) = releases s @ [r]"
    using assms(2,3) by (simp_all add: leases_advance releases_advance)
  obtain l where l: "l \<in> set (active_leases h s)" "lease_id h l = cr_lease_id r"
    using released_lease [OF ok] by blast
  have fresh: "cr_lease_id r \<notin> cr_lease_id ` set (releases s)" and mem: "l \<in> set (leases s)"
    using l unfolding set_active_leases by auto
  have known: "cr_lease_id r \<in> lease_id h ` set (leases s)"
    using imageI [OF mem, of "lease_id h"] l(2) by simp
  have "length (filter (\<lambda>l. lease_id h l \<noteq> cr_lease_id r) (active_leases h s)) \<le> length (active_leases h s)"
    by (rule length_filter_le)
  then have "int (length (filter (\<lambda>l. lease_id h l \<noteq> cr_lease_id r) (active_leases h s))) \<le> cs_max_parallelism s"
    using assms(1) unfolding capacity_inv_def by linarith
  moreover have "list_all (lease_predecessor_released (advance h s t)) (leases s)"
    using assms(1) predecessor_released_mono [OF releases_advance_mono] unfolding capacity_inv_def list_all_iff by blast
  ultimately show ?thesis
    using assms(1) fresh known unfolding capacity_inv_def active ls rs
    by (simp add: distinct_map_filter_sub list_all_iff)
qed

lemma step_invariant: "capacity_inv h s \<Longrightarrow> apply_transition h s t = Inr s' \<Longrightarrow> capacity_inv h s'"
proof -
  assume inv: "capacity_inv h s" and "apply_transition h s t = Inr s'"
  then have ok: "transition_ok h s t" and s': "s' = advance h s t" by (simp_all add: apply_transition_Inr)
  consider "ct_kind t = ''reserve''" | "ct_kind t = ''release''" | "ct_kind t \<notin> {''reserve'', ''release''}" by blast
  then show "capacity_inv h s'"
  proof cases
    case 1
    then show ?thesis using ok inv inv_reserve unfolding s' transition_ok_def by auto
  next
    case 2
    then show ?thesis using ok inv inv_release unfolding s' transition_ok_def by auto
  next
    case 3
    have "lease_predecessor_released (advance h s t) = lease_predecessor_released s"
      by (rule ext) (simp add: lease_predecessor_released_def predecessor_released_def active_other(3) [OF 3])
    with inv show ?thesis unfolding s' capacity_inv_def active_other [OF 3] by simp
  qed
qed

section \<open>Replay\<close>

lemma genesis_Inr: "initialize_capacity_state h runner = Inr s \<longleftrightarrow> 1 \<le> rc_max_parallelism runner \<and>
   s = \<lparr>cs_runner_id = rc_runner_id runner, cs_runner_capability_digest = runner_digest h runner,
      cs_max_parallelism = rc_max_parallelism runner, cs_generation = 0, cs_previous_state_digest = None,
      cs_transitions = [], cs_schema_version = ''ge.runner-capacity-state.v1''\<rparr>"
  by (auto simp: initialize_capacity_state_def exc_simps)

lemma genesis_invariant: "initialize_capacity_state h runner = Inr s \<Longrightarrow> capacity_inv h s \<and> cs_transitions s = [] \<and> capacity_state_init s = Inr s
   \<and> cs_runner_id s = rc_runner_id runner \<and> cs_runner_capability_digest s = runner_digest h runner
   \<and> cs_max_parallelism s = rc_max_parallelism runner"
  by (auto simp: genesis_Inr exc_simps capacity_inv_def leases_def releases_def active_leases_def List.map_filter_def)

text \<open>The states that commits can reach from the genesis state of a runner.\<close>

definition committed :: "hash \<Rightarrow> runner_capabilities \<Rightarrow> capacity_state \<Rightarrow> bool" where
  "committed h runner s \<longleftrightarrow> (\<exists>genesis. initialize_capacity_state h runner = Inr genesis \<and> reachable (apply_transition h) genesis s)"

lemma committed_runner:
  assumes "committed h runner s"
  shows "cs_runner_id s = rc_runner_id runner" "cs_runner_capability_digest s = runner_digest h runner"
    "cs_max_parallelism s = rc_max_parallelism runner" "capacity_state_init s = Inr s" "capacity_inv h s"
proof -
  obtain genesis where g: "initialize_capacity_state h runner = Inr genesis" and r: "reachable (apply_transition h) genesis s"
    using assms by (auto simp: committed_def)
  from r have "cs_runner_id s = rc_runner_id runner \<and> cs_runner_capability_digest s = runner_digest h runner
    \<and> cs_max_parallelism s = rc_max_parallelism runner \<and> capacity_state_init s = Inr s \<and> capacity_inv h s"
  proof (induction rule: reachable_invariant)
    case start
    then show ?case using genesis_invariant [OF g] by blast
  next
    case (advance s t s')
    then show ?case using step_invariant by (auto simp: apply_transition_Inr)
  qed
  then show "cs_runner_id s = rc_runner_id runner" "cs_runner_capability_digest s = runner_digest h runner"
    "cs_max_parallelism s = rc_max_parallelism runner" "capacity_state_init s = Inr s" "capacity_inv h s"
    by blast+
qed

lemma committed_step: "committed h runner s \<Longrightarrow> apply_transition h s t = Inr s' \<Longrightarrow> committed h runner s'"
  by (auto simp: committed_def intro: reachable.advance)

lemma verify_capacity_state_True [exc_simps]: "verify_capacity_state h s runner = Inr True \<longleftrightarrow> committed h runner s"
proof
  assume "verify_capacity_state h s runner = Inr True"
  then obtain genesis where g: "initialize_capacity_state h runner = Inr genesis"
    and "efold (apply_transition h) genesis (cs_transitions s) = Inr s"
    by (auto simp: verify_capacity_state_def exc_simps split: if_splits)
  then show "committed h runner s" by (auto simp: committed_def reachable_iff_efold)
next
  assume c: "committed h runner s"
  then obtain genesis where g: "initialize_capacity_state h runner = Inr genesis" and r: "reachable (apply_transition h) genesis s"
    by (auto simp: committed_def)
  have "efold (apply_transition h) genesis (cs_transitions s) = Inr s"
    using r genesis_invariant [OF g] by (simp add: capacity.replay_history)
  then show "verify_capacity_state h s runner = Inr True"
    using g committed_runner(1-3) [OF c] by (simp add: verify_capacity_state_def)
qed

text \<open>Committed states are determined by their transitions, and every prefix was committed.\<close>

lemma committed_determined:
  assumes "committed h runner s" and "committed h runner s'" and "cs_transitions s = cs_transitions s'"
  shows "s = s'"
proof -
  obtain genesis where g: "initialize_capacity_state h runner = Inr genesis"
    and r: "reachable (apply_transition h) genesis s" "reachable (apply_transition h) genesis s'"
    using assms(1,2) by (auto simp: committed_def)
  show ?thesis
    using capacity.history_determines [OF _ r assms(3)] genesis_invariant [OF g] by simp
qed

lemma committed_from_some:
  "efold (apply_transition h) s ts = Inr s' \<Longrightarrow> index \<le> generation \<Longrightarrow> nat (generation - index) < length ts \<Longrightarrow>
   \<exists>c. efold (apply_transition h) s (take (Suc (nat (generation - index))) ts) = Inr c \<and>
     committed_from h generation index s ts = Inr (Some (c, ts ! nat (generation - index)))"
proof (induction ts arbitrary: s index)
  case Nil
  then show ?case by simp
next
  case (Cons t ts)
  then obtain n where n: "apply_transition h s t = Inr n" "efold (apply_transition h) n ts = Inr s'"
    by (auto simp: exc_simps)
  show ?case
  proof (cases "index = generation")
    case True
    then show ?thesis using n by simp
  next
    case False
    with Cons.prems have eq: "nat (generation - index) = Suc (nat (generation - (index + 1)))" by simp
    with Cons.prems False have le: "index + 1 \<le> generation" and lt: "nat (generation - (index + 1)) < length ts" by simp_all
    show ?thesis
      using Cons.IH [OF n(2) le lt] False n(1) by (simp add: eq)
  qed
qed

lemma committed_transition_at:
  assumes c: "committed h runner s" and g: "1 \<le> generation" "generation \<le> cs_generation s"
  shows "\<exists>c. committed h runner c \<and> cs_transitions c = take (nat generation) (cs_transitions s) \<and>
    committed_transition_at_generation h s runner generation = Inr (Some (c, cs_transitions s ! nat (generation - 1)))"
proof -
  obtain genesis where init: "initialize_capacity_state h runner = Inr genesis" and r: "reachable (apply_transition h) genesis s"
    using c by (auto simp: committed_def)
  have empty: "cs_transitions genesis = []" using genesis_invariant [OF init] by simp
  have replay: "efold (apply_transition h) genesis (cs_transitions s) = Inr s"
    using r empty by (simp add: capacity.replay_history)
  have len: "cs_generation s = int (length (cs_transitions s))"
    using committed_runner(4) [OF c] by (simp add: exc_simps)
  have "nat (generation - 1) < length (cs_transitions s)" using g len by linarith
  from committed_from_some [OF replay g(1) this] obtain d where
    d: "efold (apply_transition h) genesis (take (Suc (nat (generation - 1))) (cs_transitions s)) = Inr d"
      "committed_from h generation 1 genesis (cs_transitions s) = Inr (Some (d, cs_transitions s ! nat (generation - 1)))"
    by blast
  have suc: "Suc (nat (generation - 1)) = nat generation" using g by linarith
  have "committed h runner d" using d(1) init by (auto simp: committed_def reachable_iff_efold)
  moreover have "cs_transitions d = take (nat generation) (cs_transitions s)"
    using capacity.history_efold [OF d(1)] empty suc by simp
  moreover have "committed_transition_at_generation h s runner generation = Inr (Some (d, cs_transitions s ! nat (generation - 1)))"
    using g init d(2) by (simp add: committed_transition_at_generation_def)
  ultimately show ?thesis by blast
qed

lemma committed_prefix_at:
  assumes "committed h runner c" and "committed h runner s" and "cs_transitions s = cs_transitions c @ ts"
    and "cs_generation c \<ge> 1"
  shows "committed_transition_at_generation h s runner (cs_generation c) = Inr (Some (c, last (cs_transitions c)))"
proof -
  have len: "cs_generation c = int (length (cs_transitions c))" "cs_generation s = int (length (cs_transitions s))"
    using committed_runner(4) [OF assms(1)] committed_runner(4) [OF assms(2)] by (simp_all add: exc_simps)
  then have le: "cs_generation c \<le> cs_generation s" using assms(3) by simp
  from committed_transition_at [OF assms(2,4) le] obtain d where
    d: "committed h runner d" "cs_transitions d = take (nat (cs_generation c)) (cs_transitions s)"
      "committed_transition_at_generation h s runner (cs_generation c) = Inr (Some (d, cs_transitions s ! nat (cs_generation c - 1)))"
    by blast
  have "cs_transitions d = cs_transitions c" using d(2) len(1) assms(3) by simp
  then have "d = c" using committed_determined d(1) assms(1) by blast
  moreover have "cs_transitions s ! nat (cs_generation c - 1) = last (cs_transitions c)"
  proof -
    have ne: "cs_transitions c \<noteq> []" using len(1) assms(4) by auto
    have i: "nat (cs_generation c - 1) = length (cs_transitions c) - 1" unfolding len(1) using ne by (cases "cs_transitions c") auto
    show ?thesis unfolding i assms(3) using ne by (simp add: nth_append last_conv_nth)
  qed
  ultimately show ?thesis using d(3) by simp
qed

section \<open>The abstract slot table\<close>

text \<open>
  What a runner promises: a partial map from slots to the logical attempts that occupy them.
  A step occupies a free slot for a logical attempt that holds none, or frees a slot.
\<close>

type_synonym slot_table = "int \<Rightarrow> (string \<times> int) option"

inductive slot_step :: "int \<Rightarrow> slot_table \<Rightarrow> slot_table \<Rightarrow> bool" for n where
  occupy: "i < n \<Longrightarrow> T i = None \<Longrightarrow> k \<notin> ran T \<Longrightarrow> slot_step n T (T(i \<mapsto> k))"
| free: "T i = Some k \<Longrightarrow> slot_step n T (T(i := None))"

definition slot_table :: "hash \<Rightarrow> capacity_state \<Rightarrow> slot_table" where
  "slot_table h s = map_of (map (\<lambda>l. (cl_slot l, session_key l)) (active_leases h s))"

lemma map_of_remove:
  "distinct (map f xs) \<Longrightarrow> x \<in> set xs \<Longrightarrow> (\<And>y. y \<in> set xs \<Longrightarrow> P y \<longleftrightarrow> y \<noteq> x) \<Longrightarrow>
   map_of (map (\<lambda>y. (f y, g y)) (filter P xs)) = (map_of (map (\<lambda>y. (f y, g y)) xs))(f x := None)"
proof (induction xs)
  case Nil
  then show ?case by simp
next
  case (Cons a xs)
  show ?case
  proof (cases "a = x")
    case True
    have "filter P xs = xs" using Cons.prems True by (intro filter_True) auto
    moreover have "f a \<notin> dom (map_of (map (\<lambda>y. (f y, g y)) xs))"
      using Cons.prems(1) by (auto simp: dom_map_of_conv_image_fst image_image)
    ultimately show ?thesis using True Cons.prems(2,3) by (auto simp: fun_eq_iff domIff)
  next
    case False
    with Cons.prems have "x \<in> set xs" "f a \<noteq> f x" "P a" by auto
    with Cons show ?thesis by (auto simp: fun_eq_iff)
  qed
qed

lemma ran_slot_table: "distinct (map cl_slot (active_leases h s)) \<Longrightarrow> ran (slot_table h s) = session_key ` set (active_leases h s)"
  by (simp add: slot_table_def ran_distinct comp_def image_image)

lemma slot_table_None: "slot_table h s i = None \<longleftrightarrow> i \<notin> cl_slot ` set (active_leases h s)"
  by (simp add: slot_table_def map_of_eq_None_iff image_image)

lemma transition_refines:
  assumes "capacity_inv h s" and "capacity_transition_init t = Inr t" and "apply_transition h s t = Inr s'"
  shows "slot_step (cs_max_parallelism s) (slot_table h s) (slot_table h s')"
proof -
  have ok: "transition_ok h s t" and s': "s' = advance h s t" using assms(3) by (simp_all add: apply_transition_Inr)
  have slots: "distinct (map cl_slot (active_leases h s))" and ids: "distinct (map (lease_id h) (leases s))"
    using assms(1) by (simp_all add: capacity_inv_def)
  consider l where "ct_kind t = ''reserve''" "ct_lease t = Some l" "reserve_ok h s l"
    | r where "ct_kind t = ''release''" "ct_release t = Some r" "release_ok h s r"
    using assms(2) ok unfolding capacity_transition_init_eq transition_ok_def by auto
  then show ?thesis
  proof cases
    case 1
    have "active_leases h s' = active_leases h s @ [l]"
      unfolding s' using 1 assms(1) by (intro active_reserve) (auto simp: capacity_inv_def reserve_ok_def)
    moreover have new: "slot_table h s (cl_slot l) = None" using 1 by (simp add: slot_table_None reserve_ok_def)
    ultimately have "slot_table h s' = (slot_table h s)(cl_slot l \<mapsto> session_key l)"
      by (auto simp: slot_table_def map_add_def fun_eq_iff split: option.splits)
    then show ?thesis using new 1 slots by (auto simp: ran_slot_table reserve_ok_def intro!: slot_step.occupy)
  next
    case 2
    obtain l where l: "l \<in> set (active_leases h s)" "lease_id h l = cr_lease_id r"
      using released_lease [OF 2(3)] by blast
    have inj: "inj_on (lease_id h) (set (leases s))" using ids by (simp add: distinct_map)
    have "lease_id h x \<noteq> cr_lease_id r \<longleftrightarrow> x \<noteq> l" if "x \<in> set (active_leases h s)" for x
      using that l inj by (auto simp: set_active_leases inj_on_def)
    then have "slot_table h s' = (slot_table h s)(cl_slot l := None)"
      unfolding slot_table_def s' active_release [OF 2(1,2)] by (intro map_of_remove slots l(1))
    moreover have "slot_table h s (cl_slot l) \<noteq> None" using l(1) by (simp add: slot_table_None)
    ultimately show ?thesis by (auto intro: slot_step.free)
  qed
qed

end
