(* ===== verification/Capacity.thy ===== *)
theory Capacity
  imports Capacity_State
begin

text \<open>
  The operations on runner capacity (\<open>capacity.py\<close>): reserve a slot for an authorized
  physical attempt, release it for a terminal outcome or a revoked session, and check the
  grants and ledger records that these leave behind. Each operation is propose, then commit;
  a commit proposes again and compares. The lemmas show when a reservation succeeds, which
  slot it takes, that a grant verifies as long as its lease is active, and that a release
  frees exactly its lease.
\<close>

section \<open>Grants\<close>

record lease_grant =
  cg_lease :: capacity_lease
  cg_reservation_transition_digest :: string
  cg_committed_state_digest :: string
  cg_committed_generation :: int
  cg_schema_version :: string

definition lease_grant_py :: "lease_grant \<Rightarrow> pyval" where
  "lease_grant_py x = PDict [
    (''lease'', capacity_lease_py (cg_lease x)),
    (''reservation_transition_digest'', PStr (cg_reservation_transition_digest x)),
    (''committed_state_digest'', PStr (cg_committed_state_digest x)),
    (''committed_generation'', PInt (cg_committed_generation x)),
    (''schema_version'', PStr (cg_schema_version x))]"

interpretation lease_grant: encoding lease_grant_py
proof unfold_locales
  show "wf_py (lease_grant_py x)" for x
    by (simp add: lease_grant_py_def)
  show "normalize (lease_grant_py x) = normalize (lease_grant_py y) \<longleftrightarrow> x = y" for x y
    by (cases x; cases y) (simp add: lease_grant_py_def normalize_dict_inject)
qed

record release_grant =
  cq_release :: capacity_release
  cq_release_transition_digest :: string
  cq_committed_state_digest :: string
  cq_committed_generation :: int
  cq_schema_version :: string

definition release_grant_py :: "release_grant \<Rightarrow> pyval" where
  "release_grant_py x = PDict [
    (''release'', capacity_release_py (cq_release x)),
    (''release_transition_digest'', PStr (cq_release_transition_digest x)),
    (''committed_state_digest'', PStr (cq_committed_state_digest x)),
    (''committed_generation'', PInt (cq_committed_generation x)),
    (''schema_version'', PStr (cq_schema_version x))]"

interpretation release_grant: encoding release_grant_py
proof unfold_locales
  show "wf_py (release_grant_py x)" for x
    by (simp add: release_grant_py_def)
  show "normalize (release_grant_py x) = normalize (release_grant_py y) \<longleftrightarrow> x = y" for x y
    by (cases x; cases y) (simp add: release_grant_py_def normalize_dict_inject)
qed

record transition_record =
  cd_transition_digest :: string
  cd_state_digest :: string
  cd_event_index :: int
  cd_recorded_head :: string
  cd_schema_version :: string

section \<open>Reservation\<close>

definition validate_state_runner :: "hash \<Rightarrow> capacity_state \<Rightarrow> runner_capabilities \<Rightarrow> unit exc" where
  "validate_state_runner h s runner =
     (if (cs_runner_id s, cs_runner_capability_digest s, cs_max_parallelism s)
         \<noteq> (rc_runner_id runner, runner_digest h runner, rc_max_parallelism runner)
      then Inl (CapacityError ''capacity state is not bound to the exact runner capabilities'')
      else ebind (verify_capacity_state h s runner) (\<lambda>ok.
      if \<not> ok then Inl (CapacityError ''capacity state does not replay'') else Inr ()))"

definition retry_predecessor_released :: "capacity_state \<Rightarrow> physical_authorization \<Rightarrow> bool" where
  "retry_predecessor_released s a =
     predecessor_released s (aq_session_id (pa_request a)) (aq_attempt (pa_request a)) (pa_physical_attempt a)
       (pa_previous_invocation_id a) (pa_previous_receipt_digest a)"

text \<open>\<open>next((i for i in range(n) if i not in occupied), None)\<close>.\<close>

definition first_free :: "int \<Rightarrow> int list \<Rightarrow> int option" where
  "first_free n occupied = List.find (\<lambda>i. i \<notin> set occupied) (map int [0..<nat n])"

definition lease_for :: "hash \<Rightarrow> capacity_state \<Rightarrow> runner_capabilities \<Rightarrow> physical_authorization \<Rightarrow> int \<Rightarrow> capacity_lease" where
  "lease_for h s runner a slot =
     \<lparr>cl_runner_id = rc_runner_id runner, cl_runner_capability_digest = runner_digest h runner, cl_slot = slot,
      cl_session_id = aq_session_id (pa_request a), cl_logical_attempt = aq_attempt (pa_request a),
      cl_authorization_id = authorization_id h a, cl_authorization_digest = authorization_digest h a,
      cl_invocation_id = aq_invocation_id (pa_request a), cl_physical_attempt = pa_physical_attempt a,
      cl_previous_invocation_id = pa_previous_invocation_id a,
      cl_previous_receipt_digest = pa_previous_receipt_digest a,
      cl_expected_state_digest = state_digest h s, cl_schema_version = ''ge.capacity-lease.v1''\<rparr>"

definition propose_capacity_reservation ::
  "hash \<Rightarrow> capacity_state \<Rightarrow> execution_spec \<Rightarrow> runner_registry \<Rightarrow> dispatch_plan \<Rightarrow> execution_session \<Rightarrow> runner_capabilities
   \<Rightarrow> physical_authorization \<Rightarrow> capacity_transition exc" where
  "propose_capacity_reservation h s spec registry plan session runner a =
     ebind (validate_state_runner h s runner) (\<lambda>_.
     ebind (verify_dispatch_request h spec registry plan session runner (pa_request a)) (\<lambda>ok.
     let request = pa_request a in
     if \<not> ok then Inl (CapacityError ''physical authorization request does not reproduce from execution context'')
     else if aq_runner_id request \<noteq> rc_runner_id runner \<or> aq_runner_capability_digest request \<noteq> runner_digest h runner
     then Inl (CapacityError ''physical authorization is not bound to this runner'')
     else if int (length (active_leases h s)) \<ge> cs_max_parallelism s
     then Inl (CapacityError ''runner capacity exhausted'')
     else if list_ex (\<lambda>l. cl_authorization_digest l = authorization_digest h a) (leases s)
     then Inl (CapacityError ''physical authorization already has a canonical capacity lease'')
     else if (aq_session_id request, aq_attempt request) \<in> set (active_session_keys h s)
     then Inl (CapacityError ''logical Session already has an active canonical physical lease'')
     else if \<not> retry_predecessor_released s a
     then Inl (CapacityError ''retry predecessor has not been canonically released'')
     else (case first_free (cs_max_parallelism s) (map cl_slot (active_leases h s)) of
         None \<Rightarrow> Inl (CapacityError ''runner capacity exhausted'')
       | Some slot \<Rightarrow> ebind (capacity_lease_init (lease_for h s runner a slot)) (\<lambda>lease.
           capacity_transition_init
             \<lparr>ct_kind = ''reserve'', ct_expected_state_digest = state_digest h s, ct_lease = Some lease,
              ct_release = None, ct_schema_version = ''ge.capacity-transition.v1''\<rparr>))))"

text \<open>
  An applied reserve transition has a lease; without one the replay step has already raised
  the assertion failure.
\<close>

definition commit_capacity_reservation ::
  "hash \<Rightarrow> capacity_state \<Rightarrow> execution_spec \<Rightarrow> runner_registry \<Rightarrow> dispatch_plan \<Rightarrow> execution_session \<Rightarrow> runner_capabilities
   \<Rightarrow> physical_authorization \<Rightarrow> capacity_transition \<Rightarrow> (capacity_state \<times> lease_grant) exc" where
  "commit_capacity_reservation h s spec registry plan session runner a t =
     ebind (propose_capacity_reservation h s spec registry plan session runner a) (\<lambda>expected.
     if t \<noteq> expected then Inl (CapacityError ''reservation transition does not reproduce from current state'')
     else ebind (apply_transition h s t) (\<lambda>new_state.
     case ct_lease t of
       None \<Rightarrow> Inl AssertionError
     | Some lease \<Rightarrow> Inr (new_state,
         \<lparr>cg_lease = lease, cg_reservation_transition_digest = transition_digest h t,
          cg_committed_state_digest = state_digest h new_state,
          cg_committed_generation = cs_generation new_state,
          cg_schema_version = ''ge.capacity-lease-grant.v1''\<rparr>)))"

definition reserve_capacity ::
  "hash \<Rightarrow> capacity_state \<Rightarrow> execution_spec \<Rightarrow> runner_registry \<Rightarrow> dispatch_plan \<Rightarrow> execution_session \<Rightarrow> runner_capabilities
   \<Rightarrow> physical_authorization \<Rightarrow> (capacity_state \<times> lease_grant \<times> capacity_transition) exc" where
  "reserve_capacity h s spec registry plan session runner a =
     ebind (propose_capacity_reservation h s spec registry plan session runner a) (\<lambda>t.
     ebind (commit_capacity_reservation h s spec registry plan session runner a t) (\<lambda>(new_state, grant).
     Inr (new_state, grant, t)))"

section \<open>Release\<close>

definition find_active_lease :: "hash \<Rightarrow> capacity_state \<Rightarrow> capacity_lease \<Rightarrow> capacity_lease exc" where
  "find_active_lease h s lease =
     (case filter (\<lambda>x. lease_id h x = lease_id h lease \<and> lease_digest h x = lease_digest h lease) (active_leases h s) of
        [l] \<Rightarrow> Inr l
      | _ \<Rightarrow> Inl (CapacityError ''capacity lease is not active''))"

text \<open>The fields that both kinds of release copy from the lease.\<close>

definition release_of :: "hash \<Rightarrow> capacity_state \<Rightarrow> capacity_lease \<Rightarrow> string \<Rightarrow> string option \<Rightarrow> string option \<Rightarrow> string option \<Rightarrow> string option \<Rightarrow> capacity_release" where
  "release_of h s lease kind outcome_d receipt_d status revoked_d =
     \<lparr>cr_lease_id = lease_id h lease, cr_lease_digest = lease_digest h lease,
      cr_runner_id = cl_runner_id lease, cr_session_id = cl_session_id lease,
      cr_logical_attempt = cl_logical_attempt lease, cr_authorization_id = cl_authorization_id lease,
      cr_authorization_digest = cl_authorization_digest lease, cr_invocation_id = cl_invocation_id lease,
      cr_physical_attempt = cl_physical_attempt lease, cr_release_kind = kind,
      cr_expected_state_digest = state_digest h s, cr_outcome_digest = outcome_d,
      cr_receipt_digest = receipt_d, cr_transport_status = status, cr_revoked_session_digest = revoked_d,
      cr_schema_version = ''ge.capacity-release.v1''\<rparr>"

definition release_transition :: "hash \<Rightarrow> capacity_state \<Rightarrow> capacity_release \<Rightarrow> capacity_transition exc" where
  "release_transition h s r = ebind (capacity_release_init r) (\<lambda>release.
     capacity_transition_init
       \<lparr>ct_kind = ''release'', ct_expected_state_digest = state_digest h s, ct_lease = None,
        ct_release = Some release, ct_schema_version = ''ge.capacity-transition.v1''\<rparr>)"

definition propose_outcome_release ::
  "hash \<Rightarrow> capacity_state \<Rightarrow> execution_spec \<Rightarrow> runner_registry \<Rightarrow> dispatch_plan \<Rightarrow> execution_session \<Rightarrow> runner_capabilities
   \<Rightarrow> capacity_lease \<Rightarrow> physical_outcome \<Rightarrow> capacity_transition exc" where
  "propose_outcome_release h s spec registry plan session runner lease0 outcome =
     ebind (validate_state_runner h s runner) (\<lambda>_.
     ebind (verify_physical_outcome h spec registry plan session runner outcome) (\<lambda>ok.
     if \<not> ok then Inl (CapacityError ''physical outcome does not reproduce from execution context'')
     else ebind (find_active_lease h s lease0) (\<lambda>lease.
     let a = pt_authorization outcome in
     if (authorization_id h a, authorization_digest h a, aq_invocation_id (pa_request a), pa_physical_attempt a)
       \<noteq> (cl_authorization_id lease, cl_authorization_digest lease, cl_invocation_id lease, cl_physical_attempt lease)
     then Inl (CapacityError ''physical outcome does not belong to active lease'')
     else if (aq_session_id (pa_request a), aq_attempt (pa_request a), aq_runner_id (pa_request a))
       \<noteq> (cl_session_id lease, cl_logical_attempt lease, cl_runner_id lease)
     then Inl (CapacityError ''physical outcome Session binding mismatch'')
     else release_transition h s
       (release_of h s lease ''terminal_outcome'' (Some (outcome_digest h outcome))
         (Some (receipt_digest h (pt_receipt outcome))) (Some (pr_transport_status (pt_receipt outcome))) None))))"

definition commit_release :: "hash \<Rightarrow> capacity_state \<Rightarrow> capacity_transition \<Rightarrow> (capacity_state \<times> release_grant) exc" where
  "commit_release h s t =
     ebind (apply_transition h s t) (\<lambda>new_state.
     case ct_release t of
       None \<Rightarrow> Inl AssertionError
     | Some release \<Rightarrow> Inr (new_state,
         \<lparr>cq_release = release, cq_release_transition_digest = transition_digest h t,
          cq_committed_state_digest = state_digest h new_state,
          cq_committed_generation = cs_generation new_state,
          cq_schema_version = ''ge.capacity-release-grant.v1''\<rparr>))"

definition commit_outcome_release ::
  "hash \<Rightarrow> capacity_state \<Rightarrow> execution_spec \<Rightarrow> runner_registry \<Rightarrow> dispatch_plan \<Rightarrow> execution_session \<Rightarrow> runner_capabilities
   \<Rightarrow> capacity_lease \<Rightarrow> physical_outcome \<Rightarrow> capacity_transition \<Rightarrow> (capacity_state \<times> release_grant) exc" where
  "commit_outcome_release h s spec registry plan session runner lease outcome t =
     ebind (propose_outcome_release h s spec registry plan session runner lease outcome) (\<lambda>expected.
     if t \<noteq> expected then Inl (CapacityError ''outcome release transition does not reproduce'')
     else commit_release h s t)"

definition release_capacity_for_outcome ::
  "hash \<Rightarrow> capacity_state \<Rightarrow> execution_spec \<Rightarrow> runner_registry \<Rightarrow> dispatch_plan \<Rightarrow> execution_session \<Rightarrow> runner_capabilities
   \<Rightarrow> capacity_lease \<Rightarrow> physical_outcome \<Rightarrow> (capacity_state \<times> release_grant \<times> capacity_transition) exc" where
  "release_capacity_for_outcome h s spec registry plan session runner lease outcome =
     ebind (propose_outcome_release h s spec registry plan session runner lease outcome) (\<lambda>t.
     ebind (commit_outcome_release h s spec registry plan session runner lease outcome t) (\<lambda>(new_state, grant).
     Inr (new_state, grant, t)))"

definition propose_revocation_release ::
  "hash \<Rightarrow> capacity_state \<Rightarrow> runner_capabilities \<Rightarrow> capacity_lease \<Rightarrow> execution_session \<Rightarrow> capacity_transition exc" where
  "propose_revocation_release h s runner lease0 revoked =
     ebind (validate_state_runner h s runner) (\<lambda>_.
     ebind (find_active_lease h s lease0) (\<lambda>lease.
     if xs_state revoked \<noteq> ''revoked'' then Inl (CapacityError ''Session must be revoked before capacity release'')
     else if (session_id h revoked, xs_attempt revoked, xs_runner_id revoked, xs_runner_capability_digest revoked)
       \<noteq> (cl_session_id lease, cl_logical_attempt lease, cl_runner_id lease, cl_runner_capability_digest lease)
     then Inl (CapacityError ''revoked Session does not own this capacity lease'')
     else release_transition h s
       (release_of h s lease ''session_revoked'' None None None (Some (sha256_digest h (execution_session_py revoked))))))"

definition commit_revocation_release ::
  "hash \<Rightarrow> capacity_state \<Rightarrow> runner_capabilities \<Rightarrow> capacity_lease \<Rightarrow> execution_session \<Rightarrow> capacity_transition
   \<Rightarrow> (capacity_state \<times> release_grant) exc" where
  "commit_revocation_release h s runner lease revoked t =
     ebind (propose_revocation_release h s runner lease revoked) (\<lambda>expected.
     if t \<noteq> expected then Inl (CapacityError ''revocation release transition does not reproduce'')
     else commit_release h s t)"

definition release_capacity_for_revocation ::
  "hash \<Rightarrow> capacity_state \<Rightarrow> runner_capabilities \<Rightarrow> capacity_lease \<Rightarrow> execution_session
   \<Rightarrow> (capacity_state \<times> release_grant \<times> capacity_transition) exc" where
  "release_capacity_for_revocation h s runner lease revoked =
     ebind (propose_revocation_release h s runner lease revoked) (\<lambda>t.
     ebind (commit_revocation_release h s runner lease revoked t) (\<lambda>(new_state, grant).
     Inr (new_state, grant, t)))"

section \<open>Grants and records\<close>

definition verify_active_lease_grant :: "hash \<Rightarrow> capacity_state \<Rightarrow> runner_capabilities \<Rightarrow> lease_grant \<Rightarrow> bool exc" where
  "verify_active_lease_grant h s runner g =
     ebind (verify_capacity_state h s runner) (\<lambda>ok.
     if \<not> ok then Inr False
     else ebind (committed_transition_at_generation h s runner (cg_committed_generation g)) (\<lambda>found.
     case found of
       None \<Rightarrow> Inr False
     | Some (c, t) \<Rightarrow>
         (if ct_kind t \<noteq> ''reserve'' \<or> ct_lease t \<noteq> Some (cg_lease g)
             \<or> transition_digest h t \<noteq> cg_reservation_transition_digest g
             \<or> state_digest h c \<noteq> cg_committed_state_digest g
          then Inr False else Inr (list_ex (\<lambda>l. l = cg_lease g) (active_leases h s)))))"

definition verify_capacity_release_grant :: "hash \<Rightarrow> capacity_state \<Rightarrow> runner_capabilities \<Rightarrow> release_grant \<Rightarrow> bool exc" where
  "verify_capacity_release_grant h s runner g =
     ebind (verify_capacity_state h s runner) (\<lambda>ok.
     if \<not> ok then Inr False
     else ebind (committed_transition_at_generation h s runner (cq_committed_generation g)) (\<lambda>found.
     case found of
       None \<Rightarrow> Inr False
     | Some (c, t) \<Rightarrow>
         (if ct_kind t \<noteq> ''release'' \<or> ct_release t \<noteq> Some (cq_release g)
             \<or> transition_digest h t \<noteq> cq_release_transition_digest g
             \<or> state_digest h c \<noteq> cq_committed_state_digest g
          then Inr False else Inr (list_ex (\<lambda>r. r = cq_release g) (releases s)))))"

definition transition_event :: "hash \<Rightarrow> capacity_transition \<Rightarrow> capacity_state \<Rightarrow> string \<times> pyval" where
  "transition_event h t s =
     (if ct_kind t = ''reserve'' then ''CAPACITY_RESERVED'' else ''CAPACITY_RELEASED'',
      PDict [(''transition'', capacity_transition_py t), (''transition_digest'', PStr (transition_digest h t)),
        (''state_digest'', PStr (state_digest h s)), (''generation'', PInt (cs_generation s))])"

text \<open>\<open>isinstance(p, dict) and p.get("transition_digest") == digest\<close>.\<close>

definition payload_has :: "string \<Rightarrow> string \<Rightarrow> pyval \<Rightarrow> bool" where
  "payload_has k d p = (case p of PDict kvs \<Rightarrow> py_eq (kw kvs k PNone) (PStr d) | _ \<Rightarrow> False)"

definition record_capacity_transition ::
  "hash \<Rightarrow> execution_ledger \<Rightarrow> capacity_transition \<Rightarrow> capacity_state \<Rightarrow> (execution_ledger \<times> transition_record) exc" where
  "record_capacity_transition h l t s =
     (if cs_transitions s = [] \<or> last (cs_transitions s) \<noteq> t
      then Inl (CapacityError ''state does not end with supplied capacity transition'')
      else if list_ex (\<lambda>e. payload_has ''transition_digest'' (transition_digest h t) (le_payload e)) (el_events l)
      then Inl (CapacityError ''capacity transition is already recorded'')
      else ebind (append_event h l (fst (transition_event h t s)) (snd (transition_event h t s))) (\<lambda>updated.
      Inr (updated,
        \<lparr>cd_transition_digest = transition_digest h t, cd_state_digest = state_digest h s,
         cd_event_index = int (length (el_events updated)) - 1, cd_recorded_head = head updated,
         cd_schema_version = ''ge.capacity-transition-record.v1''\<rparr>)))"

definition verify_capacity_transition_record ::
  "hash \<Rightarrow> execution_ledger \<Rightarrow> capacity_transition \<Rightarrow> capacity_state \<Rightarrow> transition_record \<Rightarrow> bool" where
  "verify_capacity_transition_record h l t s r =
     (if \<not> verify_ledger h l then False
      else if cd_event_index r < 0 \<or> cd_event_index r \<ge> int (length (el_events l)) then False
      else (let e = el_events l ! nat (cd_event_index r) in
        cd_transition_digest r = transition_digest h t \<and> cd_state_digest r = state_digest h s
        \<and> le_event_type e = fst (transition_event h t s) \<and> py_eq (le_payload e) (snd (transition_event h t s))
        \<and> le_event_hash e = cd_recorded_head r))"

section \<open>The lowest free slot\<close>

lemma first_free_Some:
  "first_free n occupied = Some i \<longleftrightarrow> 0 \<le> i \<and> i < n \<and> i \<notin> set occupied \<and> (\<forall>j. 0 \<le> j \<and> j < i \<longrightarrow> j \<in> set occupied)"
proof
  assume "first_free n occupied = Some i"
  then obtain k where k: "k < nat n" "int k \<notin> set occupied" "i = int k" "\<forall>j<k. int j \<in> set occupied"
    by (auto simp: first_free_def find_Some_iff nth_append)
  have "j \<in> set occupied" if "0 \<le> j" "j < i" for j
  proof -
    have "nat j < k" using that k(3) by linarith
    then have "int (nat j) \<in> set occupied" using k(4) by blast
    then show ?thesis using that(1) by simp
  qed
  with k show "0 \<le> i \<and> i < n \<and> i \<notin> set occupied \<and> (\<forall>j. 0 \<le> j \<and> j < i \<longrightarrow> j \<in> set occupied)"
    by auto
next
  assume i: "0 \<le> i \<and> i < n \<and> i \<notin> set occupied \<and> (\<forall>j. 0 \<le> j \<and> j < i \<longrightarrow> j \<in> set occupied)"
  then have "nat i < length (map int [0..<nat n])" "map int [0..<nat n] ! nat i = i" by auto
  with i show "first_free n occupied = Some i"
    by (auto simp: first_free_def find_Some_iff intro!: exI [of _ "nat i"])
qed

lemma first_free_exists:
  assumes "int (length occupied) < n"
  shows "\<exists>i. first_free n occupied = Some i"
proof (rule ccontr)
  assume "\<not> ?thesis"
  then have "\<forall>k<nat n. int k \<in> set occupied"
    by (auto simp: first_free_def find_None_iff)
  then have sub: "int ` {..<nat n} \<subseteq> set occupied" by auto
  have "card (int ` {..<nat n}) \<le> card (set occupied)" by (rule card_mono [OF finite_set sub])
  moreover have "card (set occupied) \<le> length occupied" by (rule card_length)
  moreover have "card (int ` {..<nat n}) = nat n" by (simp add: card_image)
  ultimately show False using assms by linarith
qed

section \<open>When a reservation succeeds\<close>

lemma validate_state_runner_Inr [exc_simps]: "validate_state_runner h s runner = Inr u \<longleftrightarrow> committed h runner s"
proof
  assume "validate_state_runner h s runner = Inr u"
  then have "verify_capacity_state h s runner = Inr True"
    by (auto simp: validate_state_runner_def ebind_eq_Inr split: if_splits)
  then show "committed h runner s" by (simp add: verify_capacity_state_True)
next
  assume c: "committed h runner s"
  then have "verify_capacity_state h s runner = Inr True" by (simp add: verify_capacity_state_True)
  then show "validate_state_runner h s runner = Inr u"
    using committed_runner(1-3) [OF c] by (simp add: validate_state_runner_def)
qed

definition reserve_transition :: "hash \<Rightarrow> capacity_state \<Rightarrow> runner_capabilities \<Rightarrow> physical_authorization \<Rightarrow> int \<Rightarrow> capacity_transition" where
  "reserve_transition h s runner a slot =
     \<lparr>ct_kind = ''reserve'', ct_expected_state_digest = state_digest h s, ct_lease = Some (lease_for h s runner a slot),
      ct_release = None, ct_schema_version = ''ge.capacity-transition.v1''\<rparr>"

text \<open>The conditions under which a runner has room for an authorized attempt.\<close>

definition reservable ::
  "hash \<Rightarrow> capacity_state \<Rightarrow> execution_spec \<Rightarrow> runner_registry \<Rightarrow> dispatch_plan \<Rightarrow> execution_session
   \<Rightarrow> runner_capabilities \<Rightarrow> physical_authorization \<Rightarrow> bool" where
  "reservable h s spec registry plan session runner a \<longleftrightarrow>
     committed h runner s \<and> request_bound h spec registry plan session runner (pa_request a) \<and>
     int (length (active_leases h s)) < cs_max_parallelism s \<and>
     authorization_digest h a \<notin> cl_authorization_digest ` set (leases s) \<and>
     (aq_session_id (pa_request a), aq_attempt (pa_request a)) \<notin> session_key ` set (active_leases h s) \<and>
     retry_predecessor_released s a \<and> physical_authorization_init a = Inr a"

lemma lease_for_fields [simp]:
  "cl_runner_id (lease_for h s runner a i) = rc_runner_id runner"
  "cl_runner_capability_digest (lease_for h s runner a i) = runner_digest h runner"
  "cl_slot (lease_for h s runner a i) = i"
  "cl_session_id (lease_for h s runner a i) = aq_session_id (pa_request a)"
  "cl_logical_attempt (lease_for h s runner a i) = aq_attempt (pa_request a)"
  "cl_authorization_id (lease_for h s runner a i) = authorization_id h a"
  "cl_authorization_digest (lease_for h s runner a i) = authorization_digest h a"
  "cl_invocation_id (lease_for h s runner a i) = aq_invocation_id (pa_request a)"
  "cl_physical_attempt (lease_for h s runner a i) = pa_physical_attempt a"
  "cl_previous_invocation_id (lease_for h s runner a i) = pa_previous_invocation_id a"
  "cl_previous_receipt_digest (lease_for h s runner a i) = pa_previous_receipt_digest a"
  "cl_expected_state_digest (lease_for h s runner a i) = state_digest h s"
  by (simp_all add: lease_for_def)

lemma authorization_fresh:
  "\<not> list_ex (\<lambda>l. cl_authorization_digest l = d) ls \<longleftrightarrow> d \<notin> cl_authorization_digest ` set ls"
  by (auto simp: list_ex_iff image_iff)

lemma request_bound_runner:
  "request_bound h spec registry plan session runner r \<Longrightarrow>
   \<not> (aq_runner_id r \<noteq> rc_runner_id runner \<or> aq_runner_capability_digest r \<noteq> runner_digest h runner)"
  using request_bound_fields(4,5) by blast

lemma propose_reservation_Inr:
  assumes "physical_authorization_init a = Inr a"
  shows "propose_capacity_reservation h s spec registry plan session runner a = Inr t \<longleftrightarrow>
    reservable h s spec registry plan session runner a \<and>
    (\<exists>i. first_free (cs_max_parallelism s) (map cl_slot (active_leases h s)) = Some i \<and> t = reserve_transition h s runner a i)"
    (is "?lhs \<longleftrightarrow> ?rhs")
proof
  assume ?lhs
  then show ?rhs
    unfolding propose_capacity_reservation_def ebind_eq_Inr Let_def raise_unless_eq authorization_fresh
      validate_state_runner_Inr active_session_keys_def set_map assert_some_Inr capacity_lease_init_eq
      capacity_transition_init_eq
    using assms by (auto simp: reservable_def verify_dispatch_request_True reserve_transition_def)
next
  assume r: ?rhs
  then obtain i where i: "first_free (cs_max_parallelism s) (map cl_slot (active_leases h s)) = Some i"
    and t: "t = reserve_transition h s runner a i" by blast
  have res: "reservable h s spec registry plan session runner a" using r by blast
  then have bound: "request_bound h spec registry plan session runner (pa_request a)" by (simp add: reservable_def)
  have "1 \<le> aq_attempt (pa_request a)"
    using request_bound_fields(12) [OF bound] unfolding adapter_request_init_eq by blast
  moreover have "0 \<le> i" using i by (simp add: first_free_Some)
  ultimately have lease: "capacity_lease_init (lease_for h s runner a i) = Inr (lease_for h s runner a i)"
    using assms unfolding physical_authorization_init_eq capacity_lease_init_eq lease_for_fields by blast
  have "verify_dispatch_request h spec registry plan session runner (pa_request a) = Inr True"
    using bound by (simp add: verify_dispatch_request_True)
  moreover have "validate_state_runner h s runner = Inr ()" using res by (simp add: reservable_def validate_state_runner_Inr)
  moreover have "\<not> int (length (active_leases h s)) \<ge> cs_max_parallelism s" using res by (simp add: reservable_def)
  moreover have "\<not> list_ex (\<lambda>l. cl_authorization_digest l = authorization_digest h a) (leases s)"
    unfolding authorization_fresh using res by (simp add: reservable_def)
  moreover have "(aq_session_id (pa_request a), aq_attempt (pa_request a)) \<notin> set (active_session_keys h s)"
    using res by (simp add: reservable_def active_session_keys_def)
  moreover have "retry_predecessor_released s a" using res by (simp add: reservable_def)
  moreover note request_bound_runner [OF bound]
  ultimately show ?lhs
    using i t lease by (simp add: propose_capacity_reservation_def reserve_transition_def capacity_transition_init_def)
qed

lemma reserve_transition_ok:
  assumes "reservable h s spec registry plan session runner a"
    and "first_free (cs_max_parallelism s) (map cl_slot (active_leases h s)) = Some i"
    and "lease_id h (lease_for h s runner a i) \<notin> lease_id h ` set (leases s)"
  shows "apply_transition h s (reserve_transition h s runner a i) = Inr (advance h s (reserve_transition h s runner a i))"
proof -
  have c: "committed h runner s" using assms(1) by (simp add: reservable_def)
  have "reserve_ok h s (lease_for h s runner a i)"
    using assms committed_runner(1,2) [OF c]
    by (auto simp: reserve_ok_def reservable_def first_free_Some session_key_def retry_predecessor_released_def)
  moreover have "capacity_state_init (advance h s (reserve_transition h s runner a i)) = Inr (advance h s (reserve_transition h s runner a i))"
    using committed_runner(4) [OF c] by (auto simp: exc_simps)
  ultimately show ?thesis
    by (simp add: apply_transition_Inr transition_ok_def reserve_transition_def)
qed

text \<open>
  A reservable attempt gets the lowest free slot, unless its truncated lease identifier
  collides with an earlier one.
\<close>

definition grant_for :: "hash \<Rightarrow> capacity_state \<Rightarrow> capacity_transition \<Rightarrow> capacity_lease \<Rightarrow> lease_grant" where
  "grant_for h s t l = \<lparr>cg_lease = l, cg_reservation_transition_digest = transition_digest h t,
     cg_committed_state_digest = state_digest h s, cg_committed_generation = cs_generation s,
     cg_schema_version = ''ge.capacity-lease-grant.v1''\<rparr>"

lemma reserve_capacity_ok:
  assumes "reservable h s spec registry plan session runner a"
    and "\<forall>i. first_free (cs_max_parallelism s) (map cl_slot (active_leases h s)) = Some i \<longrightarrow>
      lease_id h (lease_for h s runner a i) \<notin> lease_id h ` set (leases s)"
  shows "\<exists>i. first_free (cs_max_parallelism s) (map cl_slot (active_leases h s)) = Some i \<and>
    (let t = reserve_transition h s runner a i; s' = advance h s t in
     reserve_capacity h s spec registry plan session runner a = Inr (s', grant_for h s' t (lease_for h s runner a i), t))"
proof -
  obtain i where i: "first_free (cs_max_parallelism s) (map cl_slot (active_leases h s)) = Some i"
    using assms(1) first_free_exists [of "map cl_slot (active_leases h s)" "cs_max_parallelism s"]
    unfolding reservable_def length_map by blast
  let ?t = "reserve_transition h s runner a i"
  have "physical_authorization_init a = Inr a" using assms(1) by (simp add: reservable_def)
  then have proposed: "propose_capacity_reservation h s spec registry plan session runner a = Inr ?t"
    using assms(1) i by (simp add: propose_reservation_Inr)
  have app: "apply_transition h s ?t = Inr (advance h s ?t)"
    using reserve_transition_ok [OF assms(1) i] assms(2) i by blast
  have "ct_lease ?t = Some (lease_for h s runner a i)" by (simp add: reserve_transition_def)
  then have "reserve_capacity h s spec registry plan session runner a = Inr (advance h s ?t, grant_for h (advance h s ?t) ?t (lease_for h s runner a i), ?t)"
    by (simp add: reserve_capacity_def commit_capacity_reservation_def proposed app grant_for_def)
  with i show ?thesis by (simp add: Let_def)
qed

text \<open>Conversely, what a successful reservation did.\<close>

lemma reserve_capacity_Inr:
  assumes "reserve_capacity h s spec registry plan session runner a = Inr (s', g, t)" and "physical_authorization_init a = Inr a"
  shows "reservable h s spec registry plan session runner a" "apply_transition h s t = Inr s'"
    "\<exists>i. first_free (cs_max_parallelism s) (map cl_slot (active_leases h s)) = Some i \<and> t = reserve_transition h s runner a i
       \<and> g = grant_for h s' t (lease_for h s runner a i)"
proof -
  have proposed: "propose_capacity_reservation h s spec registry plan session runner a = Inr t"
    and app: "apply_transition h s t = Inr s'"
    and g: "\<exists>l. ct_lease t = Some l \<and> g = grant_for h s' t l"
    using assms(1) by (auto simp: reserve_capacity_def commit_capacity_reservation_def ebind_eq_Inr raise_unless_eq
        assert_some_Inr grant_for_def split: prod.splits)
  from proposed assms(2) obtain i where i: "reservable h s spec registry plan session runner a"
      "first_free (cs_max_parallelism s) (map cl_slot (active_leases h s)) = Some i" "t = reserve_transition h s runner a i"
    unfolding propose_reservation_Inr [OF assms(2)] by blast
  then have "g = grant_for h s' t (lease_for h s runner a i)" using g by (auto simp: reserve_transition_def)
  with i app show "reservable h s spec registry plan session runner a" "apply_transition h s t = Inr s'"
    "\<exists>i. first_free (cs_max_parallelism s) (map cl_slot (active_leases h s)) = Some i \<and> t = reserve_transition h s runner a i
       \<and> g = grant_for h s' t (lease_for h s runner a i)" by blast+
qed

section \<open>Grants stay verifiable\<close>

lemma later_state:
  assumes "committed h runner s'" and "reachable (apply_transition h) s' s''"
  shows "committed h runner s'' \<and> (\<exists>ts. cs_transitions s'' = cs_transitions s' @ ts)"
proof -
  have "committed h runner s''" using assms(2,1) by (induction rule: reachable.induct) (auto intro: committed_step)
  then show ?thesis using capacity.history_prefix [OF assms(2)] by blast
qed

lemma lease_grant_verifies:
  assumes "reserve_capacity h s spec registry plan session runner a = Inr (s', g, t)" and "physical_authorization_init a = Inr a"
    and "reachable (apply_transition h) s' s''" and "cg_lease g \<in> set (active_leases h s'')"
  shows "verify_active_lease_grant h s'' runner g = Inr True"
proof -
  note r = reserve_capacity_Inr [OF assms(1,2)]
  obtain i where i: "t = reserve_transition h s runner a i" "g = grant_for h s' t (lease_for h s runner a i)"
    using r(3) by blast
  have c: "committed h runner s" using r(1) by (simp add: reservable_def)
  have c': "committed h runner s'" by (rule committed_step [OF c r(2)])
  have s': "s' = advance h s t" using r(2) by (simp add: apply_transition_Inr)
  obtain ts where c'': "committed h runner s''" and ts: "cs_transitions s'' = cs_transitions s' @ ts"
    using later_state [OF c' assms(3)] by blast
  have gen: "1 \<le> cs_generation s'"
    using committed_runner(4) [OF c] unfolding capacity_state_init_eq s' by simp
  have "committed_transition_at_generation h s'' runner (cs_generation s') = Inr (Some (s', t))"
    using committed_prefix_at [OF c' c'' ts gen] by (simp add: s')
  moreover have "verify_capacity_state h s'' runner = Inr True" using c'' by (simp add: verify_capacity_state_True)
  ultimately show ?thesis
    using assms(4) unfolding i(2) by (simp add: verify_active_lease_grant_def grant_for_def i(1) reserve_transition_def list_ex_iff)
qed

section \<open>Releasing\<close>

lemma filter_singleton: "distinct xs \<Longrightarrow> x \<in> set xs \<Longrightarrow> (\<And>y. y \<in> set xs \<Longrightarrow> P y \<longleftrightarrow> y = x) \<Longrightarrow> filter P xs = [x]"
proof (induction xs)
  case (Cons a xs)
  show ?case
  proof (cases "a = x")
    case True
    then have "filter P xs = []" using Cons.prems by (auto simp: filter_empty_conv)
    with True Cons.prems show ?thesis by simp
  next
    case False
    with Cons show ?thesis by simp
  qed
qed simp

text \<open>An active lease of a committed state is found by its identifier and digest.\<close>

lemma active_lease_unique:
  assumes "committed h runner s" and "l \<in> set (active_leases h s)"
  shows "filter (\<lambda>x. lease_id h x = lease_id h l \<and> lease_digest h x = lease_digest h l) (active_leases h s) = [l]"
proof (rule filter_singleton [OF _ assms(2)])
  have inv: "capacity_inv h s" by (rule committed_runner(5) [OF assms(1)])
  then have ids: "distinct (map (lease_id h) (leases s))" by (simp add: capacity_inv_def)
  then have "distinct (leases s)" by (simp add: distinct_map)
  then show "distinct (active_leases h s)" by (simp add: active_leases_def)
  fix y
  assume y: "y \<in> set (active_leases h s)"
  have "inj_on (lease_id h) (set (leases s))" using ids by (simp add: distinct_map)
  then show "lease_id h y = lease_id h l \<and> lease_digest h y = lease_digest h l \<longleftrightarrow> y = l"
    using y assms(2) by (auto simp: set_active_leases inj_on_def)
qed

lemma find_active_lease_Inr [simp]:
  "committed h runner s \<Longrightarrow> l \<in> set (active_leases h s) \<Longrightarrow> find_active_lease h s l = Inr l"
  by (simp add: find_active_lease_def active_lease_unique)

lemma release_of_fields [simp]:
  "cr_lease_id (release_of h s l k b c d e) = lease_id h l" "cr_lease_digest (release_of h s l k b c d e) = lease_digest h l"
  "cr_expected_state_digest (release_of h s l k b c d e) = state_digest h s"
  "release_identity (release_of h s l k b c d e) = lease_identity l"
  "cr_release_kind (release_of h s l k b c d e) = k" "cr_outcome_digest (release_of h s l k b c d e) = b"
  "cr_receipt_digest (release_of h s l k b c d e) = c" "cr_transport_status (release_of h s l k b c d e) = d"
  "cr_revoked_session_digest (release_of h s l k b c d e) = e"
  "cr_session_id (release_of h s l k b c d e) = cl_session_id l"
  "cr_logical_attempt (release_of h s l k b c d e) = cl_logical_attempt l"
  "cr_invocation_id (release_of h s l k b c d e) = cl_invocation_id l"
  "cr_physical_attempt (release_of h s l k b c d e) = cl_physical_attempt l"
  by (simp_all add: release_of_def release_identity_def lease_identity_def)

lemma release_of_ok:
  "committed h runner s \<Longrightarrow> l \<in> set (active_leases h s) \<Longrightarrow> release_ok h s (release_of h s l k b c d e)"
  by (simp add: release_ok_def active_lease_unique)

definition release_step :: "hash \<Rightarrow> capacity_state \<Rightarrow> capacity_release \<Rightarrow> capacity_transition" where
  "release_step h s r = \<lparr>ct_kind = ''release'', ct_expected_state_digest = state_digest h s, ct_lease = None,
     ct_release = Some r, ct_schema_version = ''ge.capacity-transition.v1''\<rparr>"

lemma release_step_fields [simp]:
  "ct_kind (release_step h s r) = ''release''" "ct_release (release_step h s r) = Some r" "ct_lease (release_step h s r) = None"
  "ct_expected_state_digest (release_step h s r) = state_digest h s"
  by (simp_all add: release_step_def)

lemma release_transition_Inr: "release_transition h s r = Inr t \<longleftrightarrow> capacity_release_init r = Inr r \<and> t = release_step h s r"
proof -
  have "capacity_release_init r = Inr r' \<Longrightarrow> r' = r" for r' unfolding capacity_release_init_eq by blast
  then show ?thesis
    unfolding release_transition_def ebind_eq_Inr capacity_transition_init_eq release_step_def by auto
qed

definition release_grant_for :: "hash \<Rightarrow> capacity_state \<Rightarrow> capacity_transition \<Rightarrow> capacity_release \<Rightarrow> release_grant" where
  "release_grant_for h s t r = \<lparr>cq_release = r, cq_release_transition_digest = transition_digest h t,
     cq_committed_state_digest = state_digest h s, cq_committed_generation = cs_generation s,
     cq_schema_version = ''ge.capacity-release-grant.v1''\<rparr>"

text \<open>Committing a release of an active lease never fails, and frees that lease only.\<close>

lemma commit_release_ok:
  assumes "committed h runner s" and "l \<in> set (active_leases h s)"
  shows "let r = release_of h s l k b c d e; t = release_step h s r; s' = advance h s t in
    commit_release h s t = Inr (s', release_grant_for h s' t r) \<and> apply_transition h s t = Inr s'
    \<and> active_leases h s' = filter (\<lambda>x. x \<noteq> l) (active_leases h s)"
proof -
  let ?r = "release_of h s l k b c d e"
  let ?t = "release_step h s ?r"
  have "capacity_state_init (advance h s ?t) = Inr (advance h s ?t)"
    using committed_runner(4) [OF assms(1)] unfolding capacity_state_init_eq by simp
  then have app: "apply_transition h s ?t = Inr (advance h s ?t)"
    using release_of_ok [OF assms] by (simp add: apply_transition_Inr transition_ok_def)
  have inj: "inj_on (lease_id h) (set (leases s))"
    using committed_runner(5) [OF assms(1)] by (simp add: capacity_inv_def distinct_map)
  have "active_leases h (advance h s ?t) = filter (\<lambda>x. lease_id h x \<noteq> lease_id h l) (active_leases h s)"
    using active_release [of ?t ?r h s] by simp
  also have "\<dots> = filter (\<lambda>x. x \<noteq> l) (active_leases h s)"
    using inj assms(2) by (intro filter_cong refl) (auto simp: set_active_leases inj_on_def)
  finally show ?thesis
    using app by (simp add: Let_def commit_release_def release_grant_for_def)
qed

lemma nonempty_digest [simp]: "sha256_digest h v \<noteq> []"
  by (simp add: sha256_digest_def)

lemma outcome_release_init:
  assumes "verify_intrinsic_outcome h b"
  shows "capacity_release_init (release_of h s l ''terminal_outcome'' (Some (outcome_digest h b))
    (Some (receipt_digest h (pt_receipt b))) (Some (pr_transport_status (pt_receipt b))) None)
    = Inr (release_of h s l ''terminal_outcome'' (Some (outcome_digest h b))
    (Some (receipt_digest h (pt_receipt b))) (Some (pr_transport_status (pt_receipt b))) None)"
  using intrinsic_result(2) [OF assms]
  by (simp add: capacity_release_init_def empty_opt_def outcome_digest_def receipt_digest_def) (auto simp: valid_transport_statuses_def)

text \<open>An outcome belongs to a lease when the lease was issued for its authorization.\<close>

definition owns :: "hash \<Rightarrow> physical_outcome \<Rightarrow> capacity_lease \<Rightarrow> bool" where
  "owns h b l \<longleftrightarrow> (let a = pt_authorization b in
     lease_identity l = (aq_runner_id (pa_request a), aq_session_id (pa_request a), aq_attempt (pa_request a),
       authorization_id h a, authorization_digest h a, aq_invocation_id (pa_request a), pa_physical_attempt a))"

lemma lease_for_owned: "request_bound h spec registry plan session runner (pa_request (pt_authorization b)) \<Longrightarrow>
   owns h b (lease_for h s runner (pt_authorization b) i)"
  using request_bound_fields(4) by (simp add: owns_def lease_identity_def)

definition outcome_release :: "hash \<Rightarrow> capacity_state \<Rightarrow> capacity_lease \<Rightarrow> physical_outcome \<Rightarrow> capacity_release" where
  "outcome_release h s l b = release_of h s l ''terminal_outcome'' (Some (outcome_digest h b))
     (Some (receipt_digest h (pt_receipt b))) (Some (pr_transport_status (pt_receipt b))) None"

lemma propose_outcome_release_Inr:
  assumes "committed h runner s" and "l \<in> set (active_leases h s)"
  shows "propose_outcome_release h s spec registry plan session runner l b = Inr t \<longleftrightarrow>
    verify_physical_outcome h spec registry plan session runner b = Inr True \<and> owns h b l
    \<and> t = release_step h s (outcome_release h s l b)"
    (is "?lhs \<longleftrightarrow> ?rhs")
proof -
  have valid: "validate_state_runner h s runner = Inr ()" using assms(1) by (simp add: validate_state_runner_Inr)
  have "?lhs \<longleftrightarrow> verify_physical_outcome h spec registry plan session runner b = Inr True \<and> owns h b l \<and>
      release_transition h s (outcome_release h s l b) = Inr t"
    unfolding propose_outcome_release_def valid find_active_lease_Inr [OF assms] ebind_Inr ebind_eq_Inr [where m = "verify_physical_outcome _ _ _ _ _ _ _"]
      Let_def raise_unless_eq owns_def lease_identity_def outcome_release_def
    by auto
  also have "\<dots> \<longleftrightarrow> ?rhs"
    using outcome_release_init by (auto simp: release_transition_Inr outcome_release_def verify_physical_outcome_True)
  finally show ?thesis .
qed

lemma release_for_outcome_ok:
  assumes "committed h runner s" and "l \<in> set (active_leases h s)"
    and "verify_physical_outcome h spec registry plan session runner b = Inr True" and "owns h b l"
  shows "let t = release_step h s (outcome_release h s l b); s' = advance h s t in
    release_capacity_for_outcome h s spec registry plan session runner l b
      = Inr (s', release_grant_for h s' t (outcome_release h s l b), t)
    \<and> apply_transition h s t = Inr s' \<and> active_leases h s' = filter (\<lambda>x. x \<noteq> l) (active_leases h s)"
proof -
  have "propose_outcome_release h s spec registry plan session runner l b = Inr (release_step h s (outcome_release h s l b))"
    using assms by (simp add: propose_outcome_release_Inr)
  then show ?thesis
    using commit_release_ok [OF assms(1,2)]
    by (simp add: Let_def release_capacity_for_outcome_def commit_outcome_release_def outcome_release_def)
qed

text \<open>A revoked session frees its own lease, and no one else's.\<close>

definition revocation_release :: "hash \<Rightarrow> capacity_state \<Rightarrow> capacity_lease \<Rightarrow> execution_session \<Rightarrow> capacity_release" where
  "revocation_release h s l x = release_of h s l ''session_revoked'' None None None
     (Some (sha256_digest h (execution_session_py x)))"

definition revoked_owner :: "hash \<Rightarrow> execution_session \<Rightarrow> capacity_lease \<Rightarrow> bool" where
  "revoked_owner h x l \<longleftrightarrow> xs_state x = ''revoked'' \<and>
     (session_id h x, xs_attempt x, xs_runner_id x, xs_runner_capability_digest x)
       = (cl_session_id l, cl_logical_attempt l, cl_runner_id l, cl_runner_capability_digest l)"

lemma propose_revocation_release_Inr:
  assumes "committed h runner s" and "l \<in> set (active_leases h s)"
  shows "propose_revocation_release h s runner l x = Inr t \<longleftrightarrow>
    revoked_owner h x l \<and> t = release_step h s (revocation_release h s l x)"
proof -
  have valid: "validate_state_runner h s runner = Inr ()" using assms(1) by (simp add: validate_state_runner_Inr)
  have init: "capacity_release_init (revocation_release h s l x) = Inr (revocation_release h s l x)"
    by (simp add: capacity_release_init_def empty_opt_def revocation_release_def)
  show ?thesis
    unfolding propose_revocation_release_def valid find_active_lease_Inr [OF assms] ebind_Inr
      raise_unless_eq revoked_owner_def revocation_release_def [symmetric] release_transition_Inr init
    by auto
qed

lemma release_for_revocation_ok:
  assumes "committed h runner s" and "l \<in> set (active_leases h s)" and "revoked_owner h x l"
  shows "let t = release_step h s (revocation_release h s l x); s' = advance h s t in
    release_capacity_for_revocation h s runner l x = Inr (s', release_grant_for h s' t (revocation_release h s l x), t)
    \<and> apply_transition h s t = Inr s' \<and> active_leases h s' = filter (\<lambda>y. y \<noteq> l) (active_leases h s)"
proof -
  have "propose_revocation_release h s runner l x = Inr (release_step h s (revocation_release h s l x))"
    using assms by (simp add: propose_revocation_release_Inr)
  then show ?thesis
    using commit_release_ok [OF assms(1,2)]
    by (simp add: Let_def release_capacity_for_revocation_def commit_revocation_release_def revocation_release_def)
qed

text \<open>A release grant verifies in every later state.\<close>

lemma release_grant_verifies:
  assumes "committed h runner s" and "apply_transition h s t = Inr s'" and "ct_kind t = ''release''" and "ct_release t = Some r"
    and "reachable (apply_transition h) s' s''"
  shows "verify_capacity_release_grant h s'' runner (release_grant_for h s' t r) = Inr True"
proof -
  have c': "committed h runner s'" by (rule committed_step [OF assms(1,2)])
  have s': "s' = advance h s t" using assms(2) by (simp add: apply_transition_Inr)
  obtain ts where c'': "committed h runner s''" and ts: "cs_transitions s'' = cs_transitions s' @ ts"
    using later_state [OF c' assms(5)] by blast
  have gen: "1 \<le> cs_generation s'"
    using committed_runner(4) [OF assms(1)] unfolding capacity_state_init_eq s' by simp
  have "committed_transition_at_generation h s'' runner (cs_generation s') = Inr (Some (s', t))"
    using committed_prefix_at [OF c' c'' ts gen] by (simp add: s')
  moreover have "verify_capacity_state h s'' runner = Inr True" using c'' by (simp add: verify_capacity_state_True)
  moreover have "r \<in> set (releases s'')"
    using assms(3,4) ts s' by (force simp: releases_def List.map_filter_def)
  ultimately show ?thesis
    using assms(3,4) by (simp add: verify_capacity_release_grant_def release_grant_for_def list_ex_iff)
qed

section \<open>Retries\<close>

text \<open>
  After a failed outcome has been released, the retry that \<open>authorize_retry\<close> issues for it
  meets the predecessor condition, in this state and in every later one.
\<close>

lemma retry_after_release:
  assumes "r \<in> set (releases s)" and "r = outcome_release h s0 l b" and "owns h b l"
    and auth: "authorize_retry h spec registry plan session runner b fr iid = Inr a"
  shows "retry_predecessor_released s a"
proof -
  note new = authorize_retry_Inr [OF auth]
  have prior: "aq_session_id (pa_request (pt_authorization b)) = session_id h session"
      "aq_attempt (pa_request (pt_authorization b)) = xs_attempt session"
    using request_bound_fields(1,6) [OF new(2)] by simp_all
  have "1 \<le> pa_physical_attempt (pt_authorization b)"
  proof (rule ccontr)
    assume "\<not> 1 \<le> pa_physical_attempt (pt_authorization b)"
    then have "\<not> 1 < pa_physical_attempt a" using new(4) by simp
    moreover have "1 \<le> pa_physical_attempt a" "(pa_physical_attempt a = 1) = (pa_previous_invocation_id a = None)"
      using new(7) unfolding physical_authorization_init_eq by blast+
    ultimately show False using new(5) by simp
  qed
  then have retry: "pa_physical_attempt a \<noteq> 1" using new(4) by simp
  have r: "cr_release_kind r = ''terminal_outcome''" "cr_session_id r = session_id h session"
      "cr_logical_attempt r = xs_attempt session" "cr_physical_attempt r = pa_physical_attempt a - 1"
      "Some (cr_invocation_id r) = pa_previous_invocation_id a" "cr_receipt_digest r = pa_previous_receipt_digest a"
      "cr_transport_status r \<noteq> Some ''completed''"
    using assms(2,3) new prior by (simp_all add: outcome_release_def owns_def lease_identity_def Let_def outcome_invocation_def)
  have "aq_session_id (pa_request a) = session_id h session" "aq_attempt (pa_request a) = xs_attempt session"
    using request_bound_fields(1,6) [OF new(1)] by simp_all
  then show ?thesis
    using r assms(1) retry by (auto simp: retry_predecessor_released_def predecessor_released_def list_ex_iff)
qed

section \<open>Ledger records\<close>

lemma py_eq_PStr [simp]: "py_eq v (PStr d) \<longleftrightarrow> v = PStr d" "py_eq (PStr d) v \<longleftrightarrow> v = PStr d"
  by (cases v; auto)+

lemma transition_event_facts:
  "payload_has ''transition_digest'' (transition_digest h t) (snd (transition_event h t s))"
  "wf_py (snd (transition_event h t s))" "\<not> blank (fst (transition_event h t s))"
  by (auto simp: transition_event_def payload_has_def kw_def blank_iff is_space_def)

lemma record_transition_Inr:
  "record_capacity_transition h l t s = Inr (l', r) \<longleftrightarrow>
    cs_transitions s \<noteq> [] \<and> last (cs_transitions s) = t \<and>
    (\<forall>e\<in>set (el_events l). \<not> payload_has ''transition_digest'' (transition_digest h t) (le_payload e)) \<and>
    append_event h l (fst (transition_event h t s)) (snd (transition_event h t s)) = Inr l' \<and>
    r = \<lparr>cd_transition_digest = transition_digest h t, cd_state_digest = state_digest h s,
         cd_event_index = int (length (el_events l')) - 1, cd_recorded_head = head l',
         cd_schema_version = ''ge.capacity-transition-record.v1''\<rparr>"
  unfolding record_capacity_transition_def raise_unless_eq ebind_eq_Inr list_ex_iff by auto

lemma transition_record_verifies_later:
  assumes "record_capacity_transition h l t s = Inr (l', r)"
    and "el_events l'' = el_events l' @ post" and "verify_ledger h l''"
  shows "verify_capacity_transition_record h l'' t s r"
proof -
  obtain e where e: "el_events l' = el_events l @ [e]" "le_event_type e = fst (transition_event h t s)"
      "le_payload e = snd (transition_event h t s)" "le_event_hash e = head l'"
    using assms(1) by (auto simp: record_transition_Inr append_event_Inr head_def)
  have r: "cd_transition_digest r = transition_digest h t" "cd_state_digest r = state_digest h s"
      "cd_event_index r = int (length (el_events l))" "cd_recorded_head r = head l'"
    using assms(1) e(1) by (auto simp: record_transition_Inr)
  then show ?thesis
    using assms(2,3) e by (simp add: verify_capacity_transition_record_def nth_append py_eq_refl transition_event_facts)
qed

lemma transition_recorded_once:
  assumes "record_capacity_transition h l t s = Inr (l', r)"
  shows "\<nexists>x. record_capacity_transition h l' t s' = Inr x"
proof -
  obtain e where "el_events l' = el_events l @ [e]" "le_payload e = snd (transition_event h t s)"
    using assms by (auto simp: record_transition_Inr append_event_Inr)
  then have e: "e \<in> set (el_events l')" "payload_has ''transition_digest'' (transition_digest h t) (le_payload e)"
    using transition_event_facts(1) [of h t s] by simp_all
  have "record_capacity_transition h l' t s' \<noteq> Inr (m, q)" for m q
    unfolding record_transition_Inr using e by blast
  then show ?thesis by auto
qed

section \<open>An example\<close>

definition ex_genesis :: "hash \<Rightarrow> capacity_state" where
  "ex_genesis h = \<lparr>cs_runner_id = ''r1'', cs_runner_capability_digest = runner_digest h ex_runner,
     cs_max_parallelism = 1, cs_generation = 0, cs_previous_state_digest = None, cs_transitions = [],
     cs_schema_version = ''ge.runner-capacity-state.v1''\<rparr>"

definition ex_lease :: "hash \<Rightarrow> capacity_lease" where
  "ex_lease h = lease_for h (ex_genesis h) ex_runner (ex_authorization h) 0"

definition ex_reserve :: "hash \<Rightarrow> capacity_transition" where
  "ex_reserve h = reserve_transition h (ex_genesis h) ex_runner (ex_authorization h) 0"

definition ex_reserved :: "hash \<Rightarrow> capacity_state" where
  "ex_reserved h = advance h (ex_genesis h) (ex_reserve h)"

lemma ex_genesis: "initialize_capacity_state h ex_runner = Inr (ex_genesis h)" "committed h ex_runner (ex_genesis h)"
proof -
  show "initialize_capacity_state h ex_runner = Inr (ex_genesis h)"
    by (simp add: genesis_Inr ex_genesis_def) (simp add: ex_runner_def)
  then show "committed h ex_runner (ex_genesis h)" by (auto simp: committed_def intro: reachable.start)
qed

lemma ex_genesis_empty [simp]: "leases (ex_genesis h) = []" "active_leases h (ex_genesis h) = []" "cs_max_parallelism (ex_genesis h) = 1"
  by (simp_all add: ex_genesis_def leases_def active_leases_def List.map_filter_def)

lemma ex_reservable: "reservable h (ex_genesis h) ex_spec ex_registry (ex_plan h) (ex_running h) ex_runner (ex_authorization h)"
  using ex_genesis(2) ex_authorization_bound ex_authorization(2)
  by (simp add: reservable_def retry_predecessor_released_def predecessor_released_def) (simp add: ex_authorization_def)

lemma ex_slot: "first_free (cs_max_parallelism (ex_genesis h)) (map cl_slot (active_leases h (ex_genesis h))) = Some 0"
  by (simp add: first_free_Some)

lemma ex_reserve_capacity:
  "reserve_capacity h (ex_genesis h) ex_spec ex_registry (ex_plan h) (ex_running h) ex_runner (ex_authorization h)
    = Inr (ex_reserved h, grant_for h (ex_reserved h) (ex_reserve h) (ex_lease h), ex_reserve h)"
proof -
  have "\<forall>i. lease_id h (lease_for h (ex_genesis h) ex_runner (ex_authorization h) i) \<notin> lease_id h ` set (leases (ex_genesis h))"
    by simp
  then show ?thesis
    using reserve_capacity_ok [OF ex_reservable] ex_slot by (simp add: Let_def ex_reserved_def ex_reserve_def ex_lease_def)
qed

lemma ex_reserved: "apply_transition h (ex_genesis h) (ex_reserve h) = Inr (ex_reserved h)" "committed h ex_runner (ex_reserved h)"
    "active_leases h (ex_reserved h) = [ex_lease h]" "leases (ex_reserved h) = [ex_lease h]"
proof -
  show app: "apply_transition h (ex_genesis h) (ex_reserve h) = Inr (ex_reserved h)"
    using reserve_capacity_Inr(2) [OF ex_reserve_capacity ex_authorization(2)] .
  show "committed h ex_runner (ex_reserved h)" by (rule committed_step [OF ex_genesis(2) app])
  have "ct_kind (ex_reserve h) = ''reserve''" "ct_lease (ex_reserve h) = Some (ex_lease h)"
    by (simp_all add: ex_reserve_def reserve_transition_def ex_lease_def)
  moreover have "releases (ex_genesis h) = []" by (simp add: ex_genesis_def releases_def List.map_filter_def)
  ultimately show "active_leases h (ex_reserved h) = [ex_lease h]" "leases (ex_reserved h) = [ex_lease h]"
    by (simp_all add: ex_reserved_def active_reserve leases_advance)
qed

lemma ex_owned: "owns h (ex_outcome h) (ex_lease h)"
  unfolding ex_lease_def by (rule lease_for_owned [where b = "ex_outcome h", simplified]) (rule ex_authorization_bound)

lemma ex_outcome_verified: "verify_physical_outcome h ex_spec ex_registry (ex_plan h) (ex_running h) ex_runner (ex_outcome h) = Inr True"
  using admit_physical_verified [OF ex_outcome] by blast

definition ex_released :: "hash \<Rightarrow> capacity_state" where
  "ex_released h = advance h (ex_reserved h) (release_step h (ex_reserved h) (outcome_release h (ex_reserved h) (ex_lease h) (ex_outcome h)))"

lemma ex_released: "apply_transition h (ex_reserved h) (release_step h (ex_reserved h) (outcome_release h (ex_reserved h) (ex_lease h) (ex_outcome h))) = Inr (ex_released h)"
    "active_leases h (ex_released h) = []" "committed h ex_runner (ex_released h)"
proof -
  note ok = release_for_outcome_ok [OF ex_reserved(2) _ ex_outcome_verified ex_owned, unfolded Let_def, folded ex_released_def]
  show app: "apply_transition h (ex_reserved h) (release_step h (ex_reserved h) (outcome_release h (ex_reserved h) (ex_lease h) (ex_outcome h))) = Inr (ex_released h)"
    and "active_leases h (ex_released h) = []"
    using ok by (simp_all add: ex_reserved(3))
  show "committed h ex_runner (ex_released h)" by (rule committed_step [OF ex_reserved(2) app])
qed

text \<open>The retry of the failed attempt, under the digest that tells it apart.\<close>

lemma marked_py [simp]:
  "\<not> marked (py_opt PStr None)" "marked (py_opt PStr (Some s)) \<longleftrightarrow> CHR ''Z'' \<in> set s"
  "marked (py_strs ss) \<longleftrightarrow> (\<exists>s\<in>set ss. CHR ''Z'' \<in> set s)"
  by (auto simp: py_strs_def list_ex_iff)

lemma ex_spec_unmarked: "\<not> marked (execution_spec_py ex_spec)"
  by (simp add: execution_spec_py_def ex_spec_def py_pairs_def)

lemma ex_marks:
  "\<not> marked (physical_authorization_py (ex_authorization mark_hash))"
  "marked (physical_authorization_py (ex_retry mark_hash))"
proof -
  have "\<not> marked (adapter_request_py (ex_request mark_hash))"
    by (simp add: adapter_request_py_def ex_request_def ex_spec_unmarked session_id_def spec_id_def spec_digest_def plan_id_def
        plan_digest_def registry_digest_def runner_digest_def)
  then show "\<not> marked (physical_authorization_py (ex_authorization mark_hash))"
    by (simp add: physical_authorization_py_def ex_authorization_def)
  show "marked (physical_authorization_py (ex_retry mark_hash))"
    by (simp add: physical_authorization_py_def ex_retry_def adapter_request_py_def)
qed

lemma ex_lease_marks:
  "\<not> marked (capacity_lease_py (ex_lease mark_hash))"
  "marked (capacity_lease_py (lease_for mark_hash s runner (ex_retry mark_hash) i))"
  by (simp_all add: capacity_lease_py_def ex_lease_def lease_for_def ex_authorization_def ex_request_def runner_digest_def
      session_id_def authorization_id_def authorization_digest_def state_digest_def ex_runner_def)
    (simp add: ex_retry_def)

lemma ex_released_leases: "leases (ex_released h) = [ex_lease h]" "releases (ex_released h) = [outcome_release h (ex_reserved h) (ex_lease h) (ex_outcome h)]"
proof -
  have "releases (ex_reserved h) = []"
    by (simp add: ex_reserved_def releases_advance ex_reserve_def reserve_transition_def) (simp add: ex_genesis_def releases_def List.map_filter_def)
  then show "leases (ex_released h) = [ex_lease h]" "releases (ex_released h) = [outcome_release h (ex_reserved h) (ex_lease h) (ex_outcome h)]"
    by (simp_all add: ex_released_def leases_advance releases_advance ex_reserved(4))
qed

lemma ex_retry_fresh: "authorization_digest mark_hash (ex_retry mark_hash) \<notin> cl_authorization_digest ` set (leases (ex_released mark_hash))"
  using mark_distinct(1) [OF ex_marks(2) ex_marks(1)] by (simp add: ex_released_leases ex_lease_def authorization_digest_def)

lemma ex_released_room: "int (length (active_leases h (ex_released h))) < cs_max_parallelism (ex_released h)"
  by (simp add: ex_released(2)) (simp add: ex_released_def ex_reserved_def)

lemma ex_retry_reservable:
  "reservable mark_hash (ex_released mark_hash) ex_spec ex_registry (ex_plan mark_hash) (ex_running mark_hash) ex_runner (ex_retry mark_hash)"
  using retry_after_release [OF _ refl ex_owned ex_retry [OF mark_hash]] authorize_retry_Inr(1,7) [OF ex_retry [OF mark_hash]]
    ex_released_room ex_retry_fresh by (simp add: reservable_def ex_released(2,3) ex_released_leases(2))

lemma ex_retry_new:
  "lease_id mark_hash (lease_for mark_hash (ex_released mark_hash) ex_runner (ex_retry mark_hash) i) \<notin>
     lease_id mark_hash ` set (leases (ex_released mark_hash))"
  using mark_distinct(2) [OF ex_lease_marks(2) ex_lease_marks(1)] by (simp add: ex_released_leases lease_id_def)

section \<open>Properties\<close>

text \<open>C1: The capacity invariant: in every state that replays for a runner, at most
  \<open>max_parallelism\<close> leases are active, on different slots below that bound and for different
  logical attempts; no lease identifier and no physical authorization was ever leased twice, and
  no lease was released twice.\<close>

theorem capacity_invariant:
  assumes "verify_capacity_state h s runner = Inr True"
  shows "int (length (active_leases h s)) \<le> rc_max_parallelism runner \<and>
    (\<forall>l\<in>set (active_leases h s). cl_slot l < rc_max_parallelism runner) \<and>
    distinct (map cl_slot (active_leases h s)) \<and> distinct (map session_key (active_leases h s)) \<and>
    distinct (map (lease_id h) (leases s)) \<and> distinct (map cl_authorization_digest (leases s)) \<and>
    distinct (map cr_lease_id (releases s))"
proof -
  have c: "committed h runner s" using assms by (simp add: verify_capacity_state_True)
  show ?thesis
    using committed_runner(5) [OF c] committed_runner(3) [OF c] by (simp add: capacity_inv_def list_all_iff)
qed

theorem capacity_invariant_witness: "int (length [ex_lease (\<lambda>t. t)]) \<le> rc_max_parallelism ex_runner"
proof -
  have "verify_capacity_state (\<lambda>t. t) (ex_reserved (\<lambda>t. t)) ex_runner = Inr True"
    by (simp add: verify_capacity_state_True ex_reserved(2))
  from capacity_invariant [OF this] show ?thesis by (simp add: ex_reserved(3))
qed

text \<open>A capacity state verifies for a runner exactly when it can be reached from the runner's genesis
  state by applying transitions.\<close>

theorem verified_states_are_reachable:
  "verify_capacity_state h s runner = Inr True \<longleftrightarrow>
   (\<exists>genesis. initialize_capacity_state h runner = Inr genesis \<and> reachable (apply_transition h) genesis s)"
  by (simp add: verify_capacity_state_True committed_def)

text \<open>C16: Every accepted transition of a verified state is a step of the abstract slot table: it either
  occupies a free slot below the bound for a logical attempt that holds none, or frees a slot.\<close>

theorem transitions_refine_slot_table:
  assumes "verify_capacity_state h s runner = Inr True" and "capacity_transition_init t = Inr t"
    and "apply_transition h s t = Inr s'"
  shows "slot_step (rc_max_parallelism runner) (slot_table h s) (slot_table h s') \<and> verify_capacity_state h s' runner = Inr True"
proof -
  have c: "committed h runner s" using assms(1) by (simp add: verify_capacity_state_True)
  show ?thesis
    using transition_refines [OF committed_runner(5) [OF c] assms(2,3)] committed_runner(3) [OF c] committed_step [OF c assms(3)]
    by (simp add: verify_capacity_state_True)
qed

theorem transitions_refine_slot_table_witness:
  "slot_step (rc_max_parallelism ex_runner) (slot_table (\<lambda>t. t) (ex_genesis (\<lambda>t. t))) (slot_table (\<lambda>t. t) (ex_reserved (\<lambda>t. t)))"
proof -
  have "verify_capacity_state (\<lambda>t. t) (ex_genesis (\<lambda>t. t)) ex_runner = Inr True"
    by (simp add: verify_capacity_state_True ex_genesis(2))
  moreover have "capacity_transition_init (ex_reserve (\<lambda>t. t)) = Inr (ex_reserve (\<lambda>t. t))"
    by (simp add: capacity_transition_init_eq ex_reserve_def reserve_transition_def)
  ultimately show ?thesis using transitions_refine_slot_table [OF _ _ ex_reserved(1)] by blast
qed

text \<open>The slot that a successful reservation took.\<close>

lemma reserved_slot:
  assumes "reserve_capacity h s spec registry plan session runner a = Inr (s', g, t)" and "physical_authorization_init a = Inr a"
  shows "\<exists>i. first_free (cs_max_parallelism s) (map cl_slot (active_leases h s)) = Some i \<and> t = reserve_transition h s runner a i \<and>
    g = grant_for h s' t (lease_for h s runner a i) \<and> lease_id h (lease_for h s runner a i) \<notin> lease_id h ` set (leases s)"
proof -
  obtain i where i: "first_free (cs_max_parallelism s) (map cl_slot (active_leases h s)) = Some i" "t = reserve_transition h s runner a i"
      "g = grant_for h s' t (lease_for h s runner a i)"
    using reserve_capacity_Inr(3) [OF assms] by blast
  have "reserve_ok h s (lease_for h s runner a i)"
    using reserve_capacity_Inr(2) [OF assms] by (simp add: i(2) apply_transition_Inr transition_ok_def reserve_transition_def)
  then show ?thesis using i by (simp add: reserve_ok_def)
qed

text \<open>C17: A reservation takes the lowest free slot. For an authorization whose retry chain position was
  constructed validly, reserving succeeds exactly under the listed conditions (the state replays, the
  request is bound, capacity is left, the authorization and the logical attempt are not already
  leased, the predecessor was released) and when the truncated identifier of the lease for that one slot is
  not the identifier of an earlier lease; no other collision matters. The new state replays, and has exactly
  one more active lease, at that slot and for that authorization.\<close>

theorem reservation_exact:
  assumes "physical_authorization_init a = Inr a"
  shows "((\<exists>s' g t. reserve_capacity h s spec registry plan session runner a = Inr (s', g, t)) \<longleftrightarrow>
      reservable h s spec registry plan session runner a \<and>
      (\<exists>i. 0 \<le> i \<and> i \<notin> cl_slot ` set (active_leases h s) \<and> (\<forall>j. 0 \<le> j \<and> j < i \<longrightarrow> j \<in> cl_slot ` set (active_leases h s)) \<and>
        lease_id h (lease_for h s runner a i) \<notin> lease_id h ` set (leases s))) \<and>
    (\<forall>s' g t. reserve_capacity h s spec registry plan session runner a = Inr (s', g, t) \<longrightarrow>
      active_leases h s' = active_leases h s @ [cg_lease g] \<and> verify_capacity_state h s' runner = Inr True \<and>
      cl_authorization_digest (cg_lease g) = authorization_digest h a \<and>
      0 \<le> cl_slot (cg_lease g) \<and> cl_slot (cg_lease g) < cs_max_parallelism s \<and>
      cl_slot (cg_lease g) \<notin> cl_slot ` set (active_leases h s) \<and>
      (\<forall>j. 0 \<le> j \<and> j < cl_slot (cg_lease g) \<longrightarrow> j \<in> cl_slot ` set (active_leases h s)))"
proof (intro conjI iffI allI impI)
  assume "\<exists>s' g t. reserve_capacity h s spec registry plan session runner a = Inr (s', g, t)"
  then obtain s' g t where rc: "reserve_capacity h s spec registry plan session runner a = Inr (s', g, t)" by blast
  show "reservable h s spec registry plan session runner a" by (rule reserve_capacity_Inr(1) [OF rc assms])
  show "\<exists>i. 0 \<le> i \<and> i \<notin> cl_slot ` set (active_leases h s) \<and> (\<forall>j. 0 \<le> j \<and> j < i \<longrightarrow> j \<in> cl_slot ` set (active_leases h s)) \<and>
      lease_id h (lease_for h s runner a i) \<notin> lease_id h ` set (leases s)"
    using reserved_slot [OF rc assms] by (simp add: first_free_Some) blast
next
  assume "reservable h s spec registry plan session runner a \<and>
      (\<exists>i. 0 \<le> i \<and> i \<notin> cl_slot ` set (active_leases h s) \<and> (\<forall>j. 0 \<le> j \<and> j < i \<longrightarrow> j \<in> cl_slot ` set (active_leases h s)) \<and>
        lease_id h (lease_for h s runner a i) \<notin> lease_id h ` set (leases s))"
  then obtain i where res: "reservable h s spec registry plan session runner a" and i: "0 \<le> i" "i \<notin> cl_slot ` set (active_leases h s)"
      "\<forall>j. 0 \<le> j \<and> j < i \<longrightarrow> j \<in> cl_slot ` set (active_leases h s)"
      "lease_id h (lease_for h s runner a i) \<notin> lease_id h ` set (leases s)" by blast
  have "k = i" if "first_free (cs_max_parallelism s) (map cl_slot (active_leases h s)) = Some k" for k
    using that i(1-3) unfolding first_free_Some set_map by (metis linorder_neqE)
  then show "\<exists>s' g t. reserve_capacity h s spec registry plan session runner a = Inr (s', g, t)"
    using reserve_capacity_ok [OF res] i(4) unfolding Let_def by blast
next
  fix s' g t assume rc: "reserve_capacity h s spec registry plan session runner a = Inr (s', g, t)"
  obtain i where i: "first_free (cs_max_parallelism s) (map cl_slot (active_leases h s)) = Some i" "t = reserve_transition h s runner a i"
      "g = grant_for h s' t (lease_for h s runner a i)" "lease_id h (lease_for h s runner a i) \<notin> lease_id h ` set (leases s)"
    using reserved_slot [OF rc assms] by blast
  note r = reserve_capacity_Inr(1,2) [OF rc assms]
  have c: "committed h runner s" using r(1) by (simp add: reservable_def)
  have "s' = advance h s (reserve_transition h s runner a i)" using r(2) by (simp add: i(2) apply_transition_Inr)
  moreover have "active_leases h (advance h s (reserve_transition h s runner a i)) = active_leases h s @ [lease_for h s runner a i]"
    using committed_runner(5) [OF c] i(4) by (intro active_reserve) (simp_all add: reserve_transition_def capacity_inv_def)
  ultimately have "active_leases h s' = active_leases h s @ [lease_for h s runner a i]" by simp
  then show "active_leases h s' = active_leases h s @ [cg_lease g]" by (simp add: i(3) grant_for_def)
  show "verify_capacity_state h s' runner = Inr True" using committed_step [OF c r(2)] by (simp add: verify_capacity_state_True)
  show "cl_authorization_digest (cg_lease g) = authorization_digest h a" by (simp add: i(3) grant_for_def)
  show "0 \<le> cl_slot (cg_lease g)" "cl_slot (cg_lease g) < cs_max_parallelism s" "cl_slot (cg_lease g) \<notin> cl_slot ` set (active_leases h s)"
    using i(1) by (simp_all add: i(3) grant_for_def first_free_Some)
  show "j \<in> cl_slot ` set (active_leases h s)" if "0 \<le> j \<and> j < cl_slot (cg_lease g)" for j
    using i(1) that by (simp add: i(3) grant_for_def first_free_Some)
qed

theorem reservation_exact_witness:
  "\<exists>s' g t. reserve_capacity mark_hash (ex_released mark_hash) ex_spec ex_registry (ex_plan mark_hash) (ex_running mark_hash) ex_runner
     (ex_retry mark_hash) = Inr (s', g, t) \<and> leases (ex_released mark_hash) \<noteq> [] \<and> active_leases mark_hash s' = [cg_lease g]"
proof -
  let ?h = mark_hash
  note exact = reservation_exact [OF authorize_retry_Inr(7) [OF ex_retry [OF mark_hash]], of ?h "ex_released ?h" ex_spec ex_registry "ex_plan ?h"
    "ex_running ?h" ex_runner]
  have "lease_id ?h (lease_for ?h (ex_released ?h) ex_runner (ex_retry ?h) 0) \<notin> lease_id ?h ` set (leases (ex_released ?h))"
    by (rule ex_retry_new)
  then obtain s' g t where rc: "reserve_capacity ?h (ex_released ?h) ex_spec ex_registry (ex_plan ?h) (ex_running ?h) ex_runner (ex_retry ?h) = Inr (s', g, t)"
    using exact ex_retry_reservable by (force simp: ex_released(2))
  moreover from rc exact have "active_leases ?h s' = [cg_lease g]" by (simp add: ex_released(2))
  ultimately show ?thesis by (simp add: ex_released_leases)
qed

text \<open>A lease grant is verifiable exactly as long as it should be: it verifies in every later state in
  which its lease is still active.\<close>

theorem active_grant_verifies:
  assumes "reserve_capacity h s spec registry plan session runner a = Inr (s', g, t)"
    and "physical_authorization_init a = Inr a" and "reachable (apply_transition h) s' s''"
  shows "verify_active_lease_grant h s'' runner g = Inr (cg_lease g \<in> set (active_leases h s''))"
proof (cases "cg_lease g \<in> set (active_leases h s'')")
  case True
  then show ?thesis using lease_grant_verifies [OF assms] by simp
next
  case False
  note r = reserve_capacity_Inr [OF assms(1,2)]
  have c: "committed h runner s" using r(1) by (simp add: reservable_def)
  have c': "committed h runner s'" by (rule committed_step [OF c r(2)])
  have s': "s' = advance h s t" using r(2) by (simp add: apply_transition_Inr)
  obtain i where g: "g = grant_for h s' t (lease_for h s runner a i)" using r(3) by blast
  obtain ts where c'': "committed h runner s''" and ts: "cs_transitions s'' = cs_transitions s' @ ts"
    using later_state [OF c' assms(3)] by blast
  have gen: "1 \<le> cs_generation s'"
    using committed_runner(4) [OF c] unfolding capacity_state_init_eq s' by simp
  have "committed_transition_at_generation h s'' runner (cg_committed_generation g) = Inr (Some (s', t))"
    using committed_prefix_at [OF c' c'' ts gen] by (simp add: s' g grant_for_def)
  moreover have "verify_capacity_state h s'' runner = Inr True" using c'' by (simp add: verify_capacity_state_True)
  moreover have "\<not> list_ex (\<lambda>l. l = cg_lease g) (active_leases h s'')" using False by (simp add: list_ex_iff)
  ultimately show ?thesis using False by (simp add: verify_active_lease_grant_def)
qed

theorem active_grant_verifies_witness:
  "verify_active_lease_grant (\<lambda>t. t) (ex_reserved (\<lambda>t. t)) ex_runner
     (grant_for (\<lambda>t. t) (ex_reserved (\<lambda>t. t)) (ex_reserve (\<lambda>t. t)) (ex_lease (\<lambda>t. t))) = Inr True"
  using active_grant_verifies [OF ex_reserve_capacity ex_authorization(2) reachable.start, of "\<lambda>t. t"]
  by (simp add: ex_reserved(3) grant_for_def)

text \<open>Releasing a lease for the verified outcome of its own authorization always succeeds, frees that
  lease and no other, and leaves a grant that verifies in every later state.\<close>

theorem outcome_release_exact:
  assumes "verify_capacity_state h s runner = Inr True" and "l \<in> set (active_leases h s)"
    and "verify_physical_outcome h spec registry plan session runner b = Inr True" and "owns h b l"
  shows "\<exists>s' g t. release_capacity_for_outcome h s spec registry plan session runner l b = Inr (s', g, t) \<and>
    active_leases h s' = filter (\<lambda>x. x \<noteq> l) (active_leases h s) \<and> leases s' = leases s \<and>
    (\<forall>s''. reachable (apply_transition h) s' s'' \<longrightarrow> verify_capacity_release_grant h s'' runner g = Inr True)"
proof -
  have c: "committed h runner s" using assms(1) by (simp add: verify_capacity_state_True)
  let ?r = "outcome_release h s l b"
  let ?t = "release_step h s ?r"
  note ok = release_for_outcome_ok [OF c assms(2-4), unfolded Let_def]
  have app: "apply_transition h s ?t = Inr (advance h s ?t)" using ok by blast
  have "leases (advance h s ?t) = leases s" by (simp add: leases_advance)
  moreover have "verify_capacity_release_grant h s'' runner (release_grant_for h (advance h s ?t) ?t ?r) = Inr True"
    if "reachable (apply_transition h) (advance h s ?t) s''" for s''
    by (rule release_grant_verifies [OF c app _ _ that]) simp_all
  ultimately show ?thesis using ok by blast
qed

theorem outcome_release_exact_witness:
  "\<exists>s' g t. release_capacity_for_outcome (\<lambda>t. t) (ex_reserved (\<lambda>t. t)) ex_spec ex_registry (ex_plan (\<lambda>t. t)) (ex_running (\<lambda>t. t))
     ex_runner (ex_lease (\<lambda>t. t)) (ex_outcome (\<lambda>t. t)) = Inr (s', g, t) \<and> active_leases (\<lambda>t. t) s' = []"
proof -
  have "verify_capacity_state (\<lambda>t. t) (ex_reserved (\<lambda>t. t)) ex_runner = Inr True"
    by (simp add: verify_capacity_state_True ex_reserved(2))
  moreover have "ex_lease (\<lambda>t. t) \<in> set (active_leases (\<lambda>t. t) (ex_reserved (\<lambda>t. t)))" by (simp add: ex_reserved(3))
  ultimately show ?thesis
    using outcome_release_exact [OF _ _ ex_outcome_verified ex_owned, of "\<lambda>t. t"] by (fastforce simp: ex_reserved(3))
qed

text \<open>C18: No retry without a failed predecessor: in a verified state every lease of a later physical
  attempt has a canonical release of the previous attempt of the same logical attempt, for the
  invocation and receipt that the lease names, whose transport status is not \<open>completed\<close>.\<close>

theorem leased_retry_has_failed_predecessor:
  assumes "verify_capacity_state h s runner = Inr True" and "l \<in> set (leases s)" and "cl_physical_attempt l \<noteq> 1"
  shows "\<exists>r\<in>set (releases s). cr_release_kind r = ''terminal_outcome'' \<and> cr_session_id r = cl_session_id l \<and>
    cr_logical_attempt r = cl_logical_attempt l \<and> cr_physical_attempt r = cl_physical_attempt l - 1 \<and>
    Some (cr_invocation_id r) = cl_previous_invocation_id l \<and> cr_receipt_digest r = cl_previous_receipt_digest l \<and>
    cr_transport_status r \<noteq> Some ''completed''"
proof -
  have c: "committed h runner s" using assms(1) by (simp add: verify_capacity_state_True)
  have "lease_predecessor_released s l"
    using committed_runner(5) [OF c] assms(2) by (simp add: capacity_inv_def list_all_iff)
  then show ?thesis
    using assms(3) by (auto simp: lease_predecessor_released_def predecessor_released_def list_ex_iff)
qed

theorem leased_retry_has_failed_predecessor_witness:
  "\<exists>s' g t r. reserve_capacity mark_hash (ex_released mark_hash) ex_spec ex_registry (ex_plan mark_hash) (ex_running mark_hash)
     ex_runner (ex_retry mark_hash) = Inr (s', g, t) \<and> r \<in> set (releases s') \<and> cr_physical_attempt r = 1"
proof -
  let ?h = mark_hash
  from reserve_capacity_ok [OF ex_retry_reservable] ex_retry_new obtain s' g t where
    rc: "reserve_capacity ?h (ex_released ?h) ex_spec ex_registry (ex_plan ?h) (ex_running ?h) ex_runner (ex_retry ?h) = Inr (s', g, t)"
    by (auto simp: Let_def)
  note r = reserve_capacity_Inr [OF rc authorize_retry_Inr(7) [OF ex_retry [OF mark_hash]]]
  obtain i where i: "t = reserve_transition ?h (ex_released ?h) ex_runner (ex_retry ?h) i" using r(3) by blast
  have "verify_capacity_state ?h s' ex_runner = Inr True"
    using committed_step [OF ex_released(3) r(2)] by (simp add: verify_capacity_state_True)
  moreover have "lease_for ?h (ex_released ?h) ex_runner (ex_retry ?h) i \<in> set (leases s')"
    using r(2) i by (simp add: apply_transition_Inr leases_advance reserve_transition_def)
  moreover have "pa_physical_attempt (ex_retry ?h) = 2" by (simp add: ex_retry_def)
  ultimately show ?thesis
    using leased_retry_has_failed_predecessor [of ?h s' ex_runner "lease_for ?h (ex_released ?h) ex_runner (ex_retry ?h) i"] rc by auto
qed

text \<open>After the release of a failed outcome, the retry that \<open>authorize_retry\<close> issues for it can be
  reserved in every later state with free capacity (when its authorization is not leased, its
  logical attempt holds no slot, and no truncated identifier collides).\<close>

theorem retry_reservable_after_release:
  assumes "verify_capacity_state h s runner = Inr True" and "l \<in> set (active_leases h s)" and "owns h b l"
    and "authorize_retry h spec registry plan session runner b fr iid = Inr a"
    and "apply_transition h s (release_step h s (outcome_release h s l b)) = Inr s'"
    and "reachable (apply_transition h) s' s''" and "int (length (active_leases h s'')) < cs_max_parallelism s''"
    and "authorization_digest h a \<notin> cl_authorization_digest ` set (leases s'')"
    and "(session_id h session, xs_attempt session) \<notin> session_key ` set (active_leases h s'')"
  shows "reservable h s'' spec registry plan session runner a"
proof -
  have c: "committed h runner s" using assms(1) by (simp add: verify_capacity_state_True)
  let ?r = "outcome_release h s l b"
  have s': "s' = advance h s (release_step h s ?r)" using assms(5) by (simp add: apply_transition_Inr)
  obtain ts where c'': "committed h runner s''" and ts: "cs_transitions s'' = cs_transitions s' @ ts"
    using later_state [OF committed_step [OF c assms(5)] assms(6)] by blast
  have "?r \<in> set (releases s'')" using ts by (force simp: s' releases_def List.map_filter_def)
  then have "retry_predecessor_released s'' a"
    using retry_after_release [OF _ refl assms(3,4)] by blast
  moreover note retry = authorize_retry_Inr [OF assms(4)]
  moreover note request_bound_fields [OF retry(1)]
  ultimately show ?thesis using c'' assms(7-9) by (simp add: reservable_def)
qed

theorem retry_reservable_after_release_witness:
  "reservable mark_hash (ex_released mark_hash) ex_spec ex_registry (ex_plan mark_hash) (ex_running mark_hash) ex_runner (ex_retry mark_hash)"
proof (rule retry_reservable_after_release [OF _ _ ex_owned ex_retry [OF mark_hash] ex_released(1) reachable.start ex_released_room ex_retry_fresh])
  show "verify_capacity_state mark_hash (ex_reserved mark_hash) ex_runner = Inr True"
    by (simp add: verify_capacity_state_True ex_reserved(2))
qed (simp_all add: ex_reserved(3) ex_released(2))

text \<open>A capacity transition is recorded in the ledger at most once, and its record verifies against
  every verified extension of that ledger.\<close>

theorem capacity_transition_recorded_once:
  assumes "record_capacity_transition h l t s = Inr (l', r)"
  shows "(\<forall>s'. \<nexists>x. record_capacity_transition h l' t s' = Inr x) \<and>
    (\<forall>l'' post. el_events l'' = el_events l' @ post \<and> verify_ledger h l'' \<longrightarrow> verify_capacity_transition_record h l'' t s r)"
  using transition_recorded_once [OF assms] transition_record_verifies_later [OF assms] by blast

theorem capacity_transition_recorded_once_witness:
  "\<exists>l' r. record_capacity_transition (\<lambda>t. t) empty_ledger (ex_reserve (\<lambda>t. t)) (ex_reserved (\<lambda>t. t)) = Inr (l', r) \<and>
    (\<nexists>x. record_capacity_transition (\<lambda>t. t) l' (ex_reserve (\<lambda>t. t)) (ex_reserved (\<lambda>t. t)) = Inr x)"
proof -
  let ?h = "\<lambda>t. t"
  have "cs_transitions (ex_reserved ?h) = [ex_reserve ?h]" by (simp add: ex_reserved_def ex_genesis_def)
  moreover obtain m where "append_event ?h empty_ledger (fst (transition_event ?h (ex_reserve ?h) (ex_reserved ?h)))
      (snd (transition_event ?h (ex_reserve ?h) (ex_reserved ?h))) = Inr m"
    using transition_event_facts(3) [of ?h] by (auto simp: append_event_Inr)
  ultimately obtain l' r where rec: "record_capacity_transition ?h empty_ledger (ex_reserve ?h) (ex_reserved ?h) = Inr (l', r)"
    by (simp add: record_transition_Inr empty_ledger_def)
  with capacity_transition_recorded_once [OF rec] show ?thesis by blast
qed

end
