(* ===== verification/Cas_Store.thy ===== *)
theory Cas_Store
  imports Prelude
begin

text \<open>
  The interface of a compare-and-swap store: a value is kept per key, \<open>commit\<close> names the
  token of the value it read, and succeeds only while that value is still current. Two
  tables of the program have this contract, the capacity heads and the dispatch intents.
\<close>

locale cas_store =
  fixes load :: "'st \<Rightarrow> 'k \<Rightarrow> 'v exc" and commit :: "'st \<Rightarrow> 'k \<Rightarrow> 't \<Rightarrow> 'v \<Rightarrow> 'st exc"
    and token :: "'v \<Rightarrow> 't" and key :: "'k \<Rightarrow> 'i" and succeeds :: "'v \<Rightarrow> 'v \<Rightarrow> bool"
  assumes commit_current: "commit st k t v = Inr st' \<Longrightarrow> \<exists>u. load st k = Inr u \<and> token u = t \<and> succeeds u v"
    and commit_load: "commit st k t v = Inr st' \<Longrightarrow> load st' k = Inr v"
    and commit_other: "commit st k t v = Inr st' \<Longrightarrow> key k' \<noteq> key k \<Longrightarrow> load st' k' = load st k'"
begin

text \<open>No lost update: once a commit has replaced the value, its token is stale.\<close>

lemma stale_commit:
  assumes "commit st k t v = Inr st'" and "token v \<noteq> t"
  shows "\<exists>e. commit st' k t w = Inl e"
proof (cases "commit st' k t w")
  case (Inr st'')
  then obtain u where "load st' k = Inr u" "token u = t" using commit_current by blast
  with commit_load [OF assms(1)] assms(2) show ?thesis by simp
qed simp

text \<open>A run of commits on one key walks along the successor relation.\<close>

inductive commits :: "'k \<Rightarrow> 'st \<Rightarrow> 'v list \<Rightarrow> 'st \<Rightarrow> bool" for k where
  none: "commits k st [] st"
| more: "commit st k t v = Inr st' \<Longrightarrow> commits k st' vs st'' \<Longrightarrow> commits k st (v # vs) st''"

lemma commits_load: "commits k st vs st' \<Longrightarrow> vs \<noteq> [] \<Longrightarrow> load st' k = Inr (last vs)"
proof (induction rule: commits.induct)
  case (more st t v st' vs st'')
  then show ?case using commit_load by (cases vs) (auto elim: commits.cases)
qed simp

lemma commits_succeed: "commits k st vs st' \<Longrightarrow> load st k = Inr u \<Longrightarrow> successively succeeds (u # vs)"
proof (induction arbitrary: u rule: commits.induct)
  case (more st t v st' vs st'')
  then have "succeeds u v" using commit_current by fastforce
  moreover have "successively succeeds (v # vs)" using more commit_load by blast
  ultimately show ?case by simp
qed simp

lemma commits_other: "commits k st vs st' \<Longrightarrow> key k' \<noteq> key k \<Longrightarrow> load st' k' = load st k'"
  by (induction rule: commits.induct) (auto dest: commit_other)

end

end
