(* ===== verification/Durable.thy ===== *)
theory Durable
  imports Capacity Cas_Store
begin

text \<open>
  Durable capacity heads (\<open>durable.py\<close>): the snapshot codec, the one-head-per-runner table
  with its compare-and-swap commit, and the restart recovery report. The SQLite table is a
  map from runner identifiers to rows; a transaction that raises leaves the map unchanged,
  so an operation returns the new map or the exception. The lemmas show that a snapshot is
  read back exactly, that a committed head loads as the state that was committed, that a
  commit only ever extends the stored history by one transition, and that of two commits
  from the same head at most one succeeds.
\<close>

section \<open>Heads and reports\<close>

record capacity_head =
  dh_runner_id :: string
  dh_runner_capability_digest :: string
  dh_state_digest :: string
  dh_generation :: int
  dh_snapshot_digest :: string
  dh_schema_version :: string

definition capacity_head_py :: "capacity_head \<Rightarrow> pyval" where
  "capacity_head_py x = PDict [
    (''runner_id'', PStr (dh_runner_id x)),
    (''runner_capability_digest'', PStr (dh_runner_capability_digest x)),
    (''state_digest'', PStr (dh_state_digest x)),
    (''generation'', PInt (dh_generation x)),
    (''snapshot_digest'', PStr (dh_snapshot_digest x)),
    (''schema_version'', PStr (dh_schema_version x))]"

interpretation capacity_head: encoding capacity_head_py
proof unfold_locales
  show "wf_py (capacity_head_py x)" for x
    by (simp add: capacity_head_py_def)
  show "normalize (capacity_head_py x) = normalize (capacity_head_py y) \<longleftrightarrow> x = y" for x y
    by (cases x; cases y) (simp add: capacity_head_py_def normalize_dict_inject)
qed

definition head_digest :: "hash \<Rightarrow> capacity_head \<Rightarrow> string" where
  "head_digest h d = sha256_digest h (capacity_head_py d)"

record recovered_lease =
  rl_lease_id :: string
  rl_lease_digest :: string
  rl_runner_id :: string
  rl_slot :: int
  rl_session_id :: string
  rl_logical_attempt :: int
  rl_authorization_id :: string
  rl_authorization_digest :: string
  rl_invocation_id :: string
  rl_physical_attempt :: int
  rl_status :: string
  rl_physical_outcome_fabricated :: bool
  rl_capacity_released :: bool
  rl_schema_version :: string

definition recovered_lease_py :: "recovered_lease \<Rightarrow> pyval" where
  "recovered_lease_py x = PDict [
    (''lease_id'', PStr (rl_lease_id x)),
    (''lease_digest'', PStr (rl_lease_digest x)),
    (''runner_id'', PStr (rl_runner_id x)),
    (''slot'', PInt (rl_slot x)),
    (''session_id'', PStr (rl_session_id x)),
    (''logical_attempt'', PInt (rl_logical_attempt x)),
    (''authorization_id'', PStr (rl_authorization_id x)),
    (''authorization_digest'', PStr (rl_authorization_digest x)),
    (''invocation_id'', PStr (rl_invocation_id x)),
    (''physical_attempt'', PInt (rl_physical_attempt x)),
    (''status'', PStr (rl_status x)),
    (''physical_outcome_fabricated'', PBool (rl_physical_outcome_fabricated x)),
    (''capacity_released'', PBool (rl_capacity_released x)),
    (''schema_version'', PStr (rl_schema_version x))]"

definition recovered_lease_init :: "recovered_lease \<Rightarrow> recovered_lease exc" where
  "recovered_lease_init r =
     (if rl_status r \<noteq> ''in_flight_unresolved'' then Inl (ValueError ''recovered lease status must remain in_flight_unresolved'')
      else if rl_physical_outcome_fabricated r then Inl (ValueError ''restart recovery cannot fabricate a physical outcome'')
      else if rl_capacity_released r then Inl (ValueError ''restart recovery cannot release unresolved capacity'')
      else Inr r)"

record recovery_report =
  rr_runner_id :: string
  rr_runner_capability_digest :: string
  rr_state_digest :: string
  rr_snapshot_digest :: string
  rr_generation :: int
  rr_active_lease_count :: int
  rr_unresolved_leases :: "recovered_lease list"
  rr_physical_outcomes_fabricated :: int
  rr_capacity_releases_fabricated :: int
  rr_schema_version :: string

definition recovery_report_py :: "recovery_report \<Rightarrow> pyval" where
  "recovery_report_py x = PDict [
    (''runner_id'', PStr (rr_runner_id x)),
    (''runner_capability_digest'', PStr (rr_runner_capability_digest x)),
    (''state_digest'', PStr (rr_state_digest x)),
    (''snapshot_digest'', PStr (rr_snapshot_digest x)),
    (''generation'', PInt (rr_generation x)),
    (''active_lease_count'', PInt (rr_active_lease_count x)),
    (''unresolved_leases'', PTuple (map recovered_lease_py (rr_unresolved_leases x))),
    (''physical_outcomes_fabricated'', PInt (rr_physical_outcomes_fabricated x)),
    (''capacity_releases_fabricated'', PInt (rr_capacity_releases_fabricated x)),
    (''schema_version'', PStr (rr_schema_version x))]"

definition recovery_report_init :: "recovery_report \<Rightarrow> recovery_report exc" where
  "recovery_report_init r =
     (if rr_active_lease_count r \<noteq> int (length (rr_unresolved_leases r))
      then Inl (ValueError ''active lease count must equal unresolved lease count'')
      else if rr_physical_outcomes_fabricated r \<noteq> 0
      then Inl (ValueError ''restart recovery cannot fabricate physical outcomes'')
      else if rr_capacity_releases_fabricated r \<noteq> 0
      then Inl (ValueError ''restart recovery cannot fabricate capacity releases'')
      else Inr r)"

section \<open>Decoding\<close>

definition require_schema :: "pyval \<Rightarrow> string \<Rightarrow> string \<Rightarrow> unit exc" where
  "require_schema d expected label =
     (if \<not> py_is_dict d \<or> py_get d ''schema_version'' PNone \<noteq> Inr (PStr expected)
      then Inl (DurableCapacityError (''unsupported '' @ label @ '' schema'')) else Inr ())"

definition lease_of_kwargs :: "pyval \<Rightarrow> capacity_lease exc" where
  "lease_of_kwargs d =
     ebind (py_kwargs [''runner_id'', ''runner_capability_digest'', ''slot'', ''session_id'', ''logical_attempt'', ''authorization_id'', ''authorization_digest'', ''invocation_id'', ''physical_attempt'', ''previous_invocation_id'', ''previous_receipt_digest'', ''expected_state_digest'']
         [''schema_version''] d) (\<lambda>kvs.
     ebind (typed_str (kw kvs ''runner_id'' PNone)) (\<lambda>v_runner_id.
     ebind (typed_str (kw kvs ''runner_capability_digest'' PNone)) (\<lambda>v_runner_capability_digest.
     ebind (typed_int (kw kvs ''slot'' PNone)) (\<lambda>v_slot.
     ebind (typed_str (kw kvs ''session_id'' PNone)) (\<lambda>v_session_id.
     ebind (typed_int (kw kvs ''logical_attempt'' PNone)) (\<lambda>v_logical_attempt.
     ebind (typed_str (kw kvs ''authorization_id'' PNone)) (\<lambda>v_authorization_id.
     ebind (typed_str (kw kvs ''authorization_digest'' PNone)) (\<lambda>v_authorization_digest.
     ebind (typed_str (kw kvs ''invocation_id'' PNone)) (\<lambda>v_invocation_id.
     ebind (typed_int (kw kvs ''physical_attempt'' PNone)) (\<lambda>v_physical_attempt.
     ebind (py_unless_none typed_str (kw kvs ''previous_invocation_id'' PNone)) (\<lambda>v_previous_invocation_id.
     ebind (py_unless_none typed_str (kw kvs ''previous_receipt_digest'' PNone)) (\<lambda>v_previous_receipt_digest.
     ebind (typed_str (kw kvs ''expected_state_digest'' PNone)) (\<lambda>v_expected_state_digest.
     ebind (typed_str (kw kvs ''schema_version'' (PStr ''ge.capacity-lease.v1''))) (\<lambda>v_schema_version.
     capacity_lease_init
       \<lparr>cl_runner_id = v_runner_id, cl_runner_capability_digest = v_runner_capability_digest,
        cl_slot = v_slot, cl_session_id = v_session_id, cl_logical_attempt = v_logical_attempt,
        cl_authorization_id = v_authorization_id, cl_authorization_digest = v_authorization_digest,
        cl_invocation_id = v_invocation_id, cl_physical_attempt = v_physical_attempt,
        cl_previous_invocation_id = v_previous_invocation_id,
        cl_previous_receipt_digest = v_previous_receipt_digest,
        cl_expected_state_digest = v_expected_state_digest, cl_schema_version = v_schema_version\<rparr>))))))))))))))"

definition lease_from_dict :: "pyval \<Rightarrow> capacity_lease exc" where
  "lease_from_dict d =
     ebind (require_schema d ''ge.capacity-lease.v1'' ''capacity lease'') (\<lambda>_.
     rethrow is_type_or_value_error (DurableCapacityError ''invalid durable capacity lease'') (lease_of_kwargs d))"

definition release_of_kwargs :: "pyval \<Rightarrow> capacity_release exc" where
  "release_of_kwargs d =
     ebind (py_kwargs [''lease_id'', ''lease_digest'', ''runner_id'', ''session_id'', ''logical_attempt'', ''authorization_id'', ''authorization_digest'', ''invocation_id'', ''physical_attempt'', ''release_kind'', ''expected_state_digest'']
         [''outcome_digest'', ''receipt_digest'', ''transport_status'', ''revoked_session_digest'', ''schema_version''] d) (\<lambda>kvs.
     ebind (typed_str (kw kvs ''lease_id'' PNone)) (\<lambda>v_lease_id.
     ebind (typed_str (kw kvs ''lease_digest'' PNone)) (\<lambda>v_lease_digest.
     ebind (typed_str (kw kvs ''runner_id'' PNone)) (\<lambda>v_runner_id.
     ebind (typed_str (kw kvs ''session_id'' PNone)) (\<lambda>v_session_id.
     ebind (typed_int (kw kvs ''logical_attempt'' PNone)) (\<lambda>v_logical_attempt.
     ebind (typed_str (kw kvs ''authorization_id'' PNone)) (\<lambda>v_authorization_id.
     ebind (typed_str (kw kvs ''authorization_digest'' PNone)) (\<lambda>v_authorization_digest.
     ebind (typed_str (kw kvs ''invocation_id'' PNone)) (\<lambda>v_invocation_id.
     ebind (typed_int (kw kvs ''physical_attempt'' PNone)) (\<lambda>v_physical_attempt.
     ebind (typed_str (kw kvs ''release_kind'' PNone)) (\<lambda>v_release_kind.
     ebind (typed_str (kw kvs ''expected_state_digest'' PNone)) (\<lambda>v_expected_state_digest.
     ebind (py_unless_none typed_str (kw kvs ''outcome_digest'' PNone)) (\<lambda>v_outcome_digest.
     ebind (py_unless_none typed_str (kw kvs ''receipt_digest'' PNone)) (\<lambda>v_receipt_digest.
     ebind (py_unless_none typed_str (kw kvs ''transport_status'' PNone)) (\<lambda>v_transport_status.
     ebind (py_unless_none typed_str (kw kvs ''revoked_session_digest'' PNone)) (\<lambda>v_revoked_session_digest.
     ebind (typed_str (kw kvs ''schema_version'' (PStr ''ge.capacity-release.v1''))) (\<lambda>v_schema_version.
     capacity_release_init
       \<lparr>cr_lease_id = v_lease_id, cr_lease_digest = v_lease_digest, cr_runner_id = v_runner_id,
        cr_session_id = v_session_id, cr_logical_attempt = v_logical_attempt,
        cr_authorization_id = v_authorization_id, cr_authorization_digest = v_authorization_digest,
        cr_invocation_id = v_invocation_id, cr_physical_attempt = v_physical_attempt,
        cr_release_kind = v_release_kind, cr_expected_state_digest = v_expected_state_digest,
        cr_outcome_digest = v_outcome_digest, cr_receipt_digest = v_receipt_digest,
        cr_transport_status = v_transport_status, cr_revoked_session_digest = v_revoked_session_digest,
        cr_schema_version = v_schema_version\<rparr>)))))))))))))))))"

definition release_from_dict :: "pyval \<Rightarrow> capacity_release exc" where
  "release_from_dict d =
     ebind (require_schema d ''ge.capacity-release.v1'' ''capacity release'') (\<lambda>_.
     rethrow is_type_or_value_error (DurableCapacityError ''invalid durable capacity release'') (release_of_kwargs d))"

text \<open>\<open>f(x) if isinstance(x, dict) else None\<close>.\<close>

definition if_dict :: "(pyval \<Rightarrow> 'a exc) \<Rightarrow> pyval \<Rightarrow> 'a option exc" where
  "if_dict f v = (if py_is_dict v then ebind (f v) (\<lambda>x. Inr (Some x)) else Inr None)"

definition transition_of_kwargs :: "capacity_lease option \<Rightarrow> capacity_release option \<Rightarrow> pyval \<Rightarrow> capacity_transition exc" where
  "transition_of_kwargs v_lease v_release d =
     ebind (py_kwargs [''kind'', ''expected_state_digest'']
         [''lease'', ''release'', ''schema_version''] d) (\<lambda>kvs.
     ebind (typed_str (kw kvs ''kind'' PNone)) (\<lambda>v_kind.
     ebind (typed_str (kw kvs ''expected_state_digest'' PNone)) (\<lambda>v_expected_state_digest.
     ebind (typed_str (kw kvs ''schema_version'' (PStr ''ge.capacity-transition.v1''))) (\<lambda>v_schema_version.
     capacity_transition_init
       \<lparr>ct_kind = v_kind, ct_expected_state_digest = v_expected_state_digest, ct_lease = v_lease,
        ct_release = v_release, ct_schema_version = v_schema_version\<rparr>))))"

definition transition_from_dict :: "pyval \<Rightarrow> capacity_transition exc" where
  "transition_from_dict d =
     ebind (require_schema d ''ge.capacity-transition.v1'' ''capacity transition'') (\<lambda>_.
     ebind (ebind (py_get d ''lease'' PNone) (if_dict lease_from_dict)) (\<lambda>lease.
     ebind (ebind (py_get d ''release'' PNone) (if_dict release_from_dict)) (\<lambda>release.
     rethrow is_type_or_value_error (DurableCapacityError ''invalid durable capacity transition'')
       (transition_of_kwargs lease release d))))"

definition state_of_kwargs :: "capacity_transition list \<Rightarrow> pyval \<Rightarrow> capacity_state exc" where
  "state_of_kwargs v_transitions d =
     ebind (py_kwargs [''runner_id'', ''runner_capability_digest'', ''max_parallelism'']
         [''generation'', ''previous_state_digest'', ''transitions'', ''schema_version''] d) (\<lambda>kvs.
     ebind (typed_str (kw kvs ''runner_id'' PNone)) (\<lambda>v_runner_id.
     ebind (typed_str (kw kvs ''runner_capability_digest'' PNone)) (\<lambda>v_runner_capability_digest.
     ebind (typed_int (kw kvs ''max_parallelism'' PNone)) (\<lambda>v_max_parallelism.
     ebind (typed_int (kw kvs ''generation'' ((PInt 0)))) (\<lambda>v_generation.
     ebind (py_unless_none typed_str (kw kvs ''previous_state_digest'' PNone)) (\<lambda>v_previous_state_digest.
     ebind (typed_str (kw kvs ''schema_version'' (PStr ''ge.runner-capacity-state.v1''))) (\<lambda>v_schema_version.
     capacity_state_init
       \<lparr>cs_runner_id = v_runner_id, cs_runner_capability_digest = v_runner_capability_digest,
        cs_max_parallelism = v_max_parallelism, cs_generation = v_generation,
        cs_previous_state_digest = v_previous_state_digest, cs_transitions = v_transitions,
        cs_schema_version = v_schema_version\<rparr>)))))))"

definition capacity_state_from_dict :: "pyval \<Rightarrow> capacity_state exc" where
  "capacity_state_from_dict d =
     ebind (require_schema d ''ge.runner-capacity-state.v1'' ''runner capacity state'') (\<lambda>_.
     ebind (py_get d ''transitions'' PNone) (\<lambda>items.
     ebind (case items of PList xs \<Rightarrow> Inr xs | PTuple xs \<Rightarrow> Inr xs
       | _ \<Rightarrow> Inl (DurableCapacityError ''capacity state transitions must be a sequence'')) (\<lambda>xs.
     ebind (emap transition_from_dict xs) (\<lambda>transitions.
     rethrow is_type_or_value_error (DurableCapacityError ''invalid durable runner capacity state'')
       (state_of_kwargs transitions d)))))"

section \<open>Snapshots\<close>

definition snapshot_payload :: "hash \<Rightarrow> capacity_state \<Rightarrow> (string \<times> pyval) list" where
  "snapshot_payload h s = [
     (''schema_version'', PStr ''ge.capacity-snapshot.v1''),
     (''state'', capacity_state_py s),
     (''state_digest'', PStr (state_digest h s))]"

definition capacity_snapshot :: "hash \<Rightarrow> capacity_state \<Rightarrow> pyval" where
  "capacity_snapshot h s = PDict (snapshot_payload h s @
     [(''snapshot_digest'', PStr (sha256_digest h (PDict (snapshot_payload h s))))])"

definition serialize_capacity_snapshot :: "hash \<Rightarrow> capacity_state \<Rightarrow> string" where
  "serialize_capacity_snapshot h s = canonical_json (capacity_snapshot h s)"

definition deserialize_capacity_snapshot ::
  "hash \<Rightarrow> string \<Rightarrow> runner_capabilities \<Rightarrow> (capacity_state \<times> string) exc" where
  "deserialize_capacity_snapshot h snapshot_json runner =
     (case json_loads snapshot_json of
        None \<Rightarrow> Inl (DurableCapacityError ''durable capacity snapshot is not valid JSON'')
      | Some (PDict kvs) \<Rightarrow>
          (if set (map fst kvs) \<noteq> {''schema_version'', ''state'', ''state_digest'', ''snapshot_digest''}
           then Inl (DurableCapacityError ''durable capacity snapshot fields mismatch'')
           else ebind (require_schema (PDict kvs) ''ge.capacity-snapshot.v1'' ''capacity snapshot'') (\<lambda>_.
           case kw kvs ''snapshot_digest'' PNone of
             PStr snapshot_digest \<Rightarrow>
               (if sha256_digest h (PDict (filter (\<lambda>kv. fst kv \<noteq> ''snapshot_digest'') kvs)) \<noteq> snapshot_digest
                then Inl (DurableCapacityError ''capacity snapshot digest mismatch'')
                else if \<not> py_is_dict (kw kvs ''state'' PNone)
                then Inl (DurableCapacityError ''capacity snapshot state is required'')
                else ebind (capacity_state_from_dict (kw kvs ''state'' PNone)) (\<lambda>s.
                if PStr (state_digest h s) \<noteq> kw kvs ''state_digest'' PNone
                then Inl (DurableCapacityError ''capacity snapshot state digest mismatch'')
                else ebind (verify_capacity_state h s runner) (\<lambda>ok.
                if \<not> ok then Inl (DurableCapacityError ''capacity snapshot does not replay for runner'')
                else Inr (s, snapshot_digest))))
           | _ \<Rightarrow> Inl (DurableCapacityError ''capacity snapshot digest is required'')))
      | Some _ \<Rightarrow> Inl (DurableCapacityError ''durable capacity snapshot must be an object''))"

section \<open>The head store\<close>

record head_row =
  hr_capability_digest :: string
  hr_state_digest :: string
  hr_generation :: int
  hr_snapshot_digest :: string
  hr_snapshot_json :: string

type_synonym head_store = "string \<Rightarrow> head_row option"

definition head_of :: "hash \<Rightarrow> capacity_state \<Rightarrow> string \<Rightarrow> capacity_head" where
  "head_of h s snapshot_digest =
     \<lparr>dh_runner_id = cs_runner_id s, dh_runner_capability_digest = cs_runner_capability_digest s,
      dh_state_digest = state_digest h s, dh_generation = cs_generation s,
      dh_snapshot_digest = snapshot_digest, dh_schema_version = ''ge.durable-capacity-head.v1''\<rparr>"

definition row_of :: "hash \<Rightarrow> capacity_state \<Rightarrow> string \<Rightarrow> string \<Rightarrow> head_row" where
  "row_of h s snapshot_digest snapshot_json =
     \<lparr>hr_capability_digest = cs_runner_capability_digest s, hr_state_digest = state_digest h s,
      hr_generation = cs_generation s, hr_snapshot_digest = snapshot_digest, hr_snapshot_json = snapshot_json\<rparr>"

definition decode_head_row :: "hash \<Rightarrow> head_row \<Rightarrow> runner_capabilities \<Rightarrow> (capacity_state \<times> capacity_head) exc" where
  "decode_head_row h row runner =
     (if hr_capability_digest row \<noteq> runner_digest h runner
      then Inl (DurableCapacityError ''durable capacity head runner capabilities changed'')
      else ebind (deserialize_capacity_snapshot h (hr_snapshot_json row) runner) (\<lambda>(s, snapshot_digest).
      if state_digest h s \<noteq> hr_state_digest row \<or> cs_generation s \<noteq> hr_generation row
        \<or> snapshot_digest \<noteq> hr_snapshot_digest row
      then Inl (DurableCapacityError ''durable capacity head metadata mismatch'')
      else Inr (s, head_of h s snapshot_digest)))"

definition head_initialize ::
  "hash \<Rightarrow> head_store \<Rightarrow> runner_capabilities \<Rightarrow> capacity_state option \<Rightarrow> (head_store \<times> capacity_head) exc" where
  "head_initialize h store runner state0 =
     ebind (case state0 of Some s \<Rightarrow> Inr s | None \<Rightarrow> initialize_capacity_state h runner) (\<lambda>s.
     ebind (verify_capacity_state h s runner) (\<lambda>ok.
     if \<not> ok then Inl (DurableCapacityError ''initial durable capacity state does not replay for runner'')
     else ebind (deserialize_capacity_snapshot h (serialize_capacity_snapshot h s) runner) (\<lambda>(_, snapshot_digest).
     case store (rc_runner_id runner) of
       Some row \<Rightarrow> ebind (decode_head_row h row runner) (\<lambda>(existing, existing_head).
         if existing \<noteq> s then Inl (DurableCapacityError ''durable capacity head already exists with different state'')
         else Inr (store, existing_head))
     | None \<Rightarrow> Inr (store(cs_runner_id s \<mapsto> row_of h s snapshot_digest (serialize_capacity_snapshot h s)),
         head_of h s snapshot_digest))))"

definition head_load :: "hash \<Rightarrow> head_store \<Rightarrow> runner_capabilities \<Rightarrow> (capacity_state \<times> capacity_head) exc" where
  "head_load h store runner = (case store (rc_runner_id runner) of
     None \<Rightarrow> Inl (DurableCapacityError ''durable capacity head does not exist'')
   | Some row \<Rightarrow> decode_head_row h row runner)"

definition head_commit ::
  "hash \<Rightarrow> head_store \<Rightarrow> runner_capabilities \<Rightarrow> string \<Rightarrow> capacity_state \<Rightarrow> (head_store \<times> capacity_head) exc" where
  "head_commit h store runner expected new_state =
     ebind (verify_capacity_state h new_state runner) (\<lambda>ok.
     if \<not> ok then Inl (DurableCapacityError ''candidate durable capacity state does not replay for runner'')
     else case store (rc_runner_id runner) of
       None \<Rightarrow> Inl (DurableCapacityError ''durable capacity head does not exist'')
     | Some row \<Rightarrow> ebind (decode_head_row h row runner) (\<lambda>(current, _).
         if state_digest h current \<noteq> expected then Inl (DurableCapacityError ''stale durable capacity head'')
         else if cs_generation new_state \<noteq> cs_generation current + 1
         then Inl (DurableCapacityError ''durable capacity commit must advance exactly one generation'')
         else if cs_previous_state_digest new_state \<noteq> Some (state_digest h current)
         then Inl (DurableCapacityError ''durable capacity commit predecessor mismatch'')
         else if butlast (cs_transitions new_state) \<noteq> cs_transitions current
         then Inl (DurableCapacityError ''durable capacity commit must extend the canonical transition history'')
         else ebind (deserialize_capacity_snapshot h (serialize_capacity_snapshot h new_state) runner) (\<lambda>(_, snapshot_digest).
         if \<not> (hr_state_digest row = expected \<and> hr_generation row = cs_generation current)
         then Inl (DurableCapacityError ''durable capacity compare-and-swap failed'')
         else Inr (store(rc_runner_id runner \<mapsto> row_of h new_state snapshot_digest (serialize_capacity_snapshot h new_state)),
           head_of h new_state snapshot_digest))))"

section \<open>Restart recovery\<close>

definition recovered_lease_of :: "hash \<Rightarrow> capacity_lease \<Rightarrow> recovered_lease" where
  "recovered_lease_of h l =
     \<lparr>rl_lease_id = lease_id h l, rl_lease_digest = lease_digest h l, rl_runner_id = cl_runner_id l, rl_slot = cl_slot l,
      rl_session_id = cl_session_id l, rl_logical_attempt = cl_logical_attempt l,
      rl_authorization_id = cl_authorization_id l, rl_authorization_digest = cl_authorization_digest l,
      rl_invocation_id = cl_invocation_id l, rl_physical_attempt = cl_physical_attempt l,
      rl_status = ''in_flight_unresolved'', rl_physical_outcome_fabricated = False, rl_capacity_released = False,
      rl_schema_version = ''ge.recovered-lease.v1''\<rparr>"

definition make_recovery_report :: "hash \<Rightarrow> capacity_state \<Rightarrow> capacity_head \<Rightarrow> recovery_report exc" where
  "make_recovery_report h s d =
     ebind (emap (\<lambda>l. recovered_lease_init (recovered_lease_of h l)) (active_leases h s)) (\<lambda>unresolved.
     recovery_report_init
       \<lparr>rr_runner_id = cs_runner_id s, rr_runner_capability_digest = cs_runner_capability_digest s,
        rr_state_digest = state_digest h s, rr_snapshot_digest = dh_snapshot_digest d, rr_generation = cs_generation s,
        rr_active_lease_count = int (length unresolved), rr_unresolved_leases = unresolved,
        rr_physical_outcomes_fabricated = 0, rr_capacity_releases_fabricated = 0,
        rr_schema_version = ''ge.restart-recovery.v1''\<rparr>)"

definition verify_restart_recovery :: "hash \<Rightarrow> capacity_state \<Rightarrow> capacity_head \<Rightarrow> recovery_report \<Rightarrow> bool exc" where
  "verify_restart_recovery h s d report =
     (if state_digest h s \<noteq> dh_state_digest d \<or> cs_generation s \<noteq> dh_generation d then Inr False
      else if cs_runner_id s \<noteq> dh_runner_id d \<or> cs_runner_capability_digest s \<noteq> dh_runner_capability_digest d then Inr False
      else ebind (make_recovery_report h s d) (\<lambda>expected. Inr (report = expected)))"

definition recover_capacity_after_restart ::
  "hash \<Rightarrow> head_store \<Rightarrow> runner_capabilities \<Rightarrow> (capacity_state \<times> recovery_report) exc" where
  "recover_capacity_after_restart h store runner =
     ebind (head_load h store runner) (\<lambda>(s, d).
     ebind (make_recovery_report h s d) (\<lambda>report.
     ebind (verify_restart_recovery h s d report) (\<lambda>ok.
     if \<not> ok then Inl (DurableCapacityError ''restart recovery report does not reproduce'') else Inr (s, report))))"

section \<open>Round trips\<close>

lemma require_schema_normalize [simp]:
  "require_schema (normalize (PDict kvs)) expected label =
    (if map_option normalize (map_of kvs ''schema_version'') = Some (PStr expected) then Inr ()
     else Inl (DurableCapacityError (''unsupported '' @ label @ '' schema'')))"
  by (auto simp: require_schema_def split: option.splits)

definition valid_lease :: "capacity_lease \<Rightarrow> bool" where
  "valid_lease l \<longleftrightarrow> capacity_lease_init l = Inr l \<and> cl_schema_version l = ''ge.capacity-lease.v1''"

definition valid_release :: "capacity_release \<Rightarrow> bool" where
  "valid_release r \<longleftrightarrow> capacity_release_init r = Inr r \<and> cr_schema_version r = ''ge.capacity-release.v1''"

definition valid_transition :: "capacity_transition \<Rightarrow> bool" where
  "valid_transition t \<longleftrightarrow> capacity_transition_init t = Inr t \<and> ct_schema_version t = ''ge.capacity-transition.v1''
     \<and> pred_option valid_lease (ct_lease t) \<and> pred_option valid_release (ct_release t)"

definition valid_state :: "capacity_state \<Rightarrow> bool" where
  "valid_state s \<longleftrightarrow> capacity_state_init s = Inr s \<and> cs_schema_version s = ''ge.runner-capacity-state.v1''
     \<and> list_all valid_transition (cs_transitions s)"

lemma lease_of_kwargs_py: "lease_of_kwargs (normalize (capacity_lease_py l)) = capacity_lease_init l"
  by (cases l) (simp add: lease_of_kwargs_def capacity_lease_py_def py_kwargs_normalize)

lemma release_of_kwargs_py: "release_of_kwargs (normalize (capacity_release_py r)) = capacity_release_init r"
  by (cases r) (simp add: release_of_kwargs_def capacity_release_py_def py_kwargs_normalize)

lemma transition_of_kwargs_py:
  "transition_of_kwargs (ct_lease t) (ct_release t) (normalize (capacity_transition_py t)) = capacity_transition_init t"
  by (cases t) (simp add: transition_of_kwargs_def capacity_transition_py_def py_kwargs_normalize)

lemma state_of_kwargs_py:
  "state_of_kwargs (cs_transitions s) (normalize (capacity_state_py s)) = capacity_state_init s"
  by (cases s) (simp add: state_of_kwargs_def capacity_state_py_def py_kwargs_normalize)

interpretation lease_codec: strict_codec capacity_lease_py lease_from_dict valid_lease
proof unfold_locales
  fix x y
  have "require_schema (normalize (capacity_lease_py x)) ''ge.capacity-lease.v1'' ''capacity lease'' = Inr () \<longleftrightarrow>
      cl_schema_version x = ''ge.capacity-lease.v1''"
    by (simp add: capacity_lease_py_def)
  then show "lease_from_dict (normalize (capacity_lease_py x)) = Inr y \<longleftrightarrow> valid_lease x \<and> y = x"
    by (auto simp: lease_from_dict_def lease_of_kwargs_py valid_lease_def exc_simps)
qed

interpretation release_codec: strict_codec capacity_release_py release_from_dict valid_release
proof unfold_locales
  fix x y
  have "require_schema (normalize (capacity_release_py x)) ''ge.capacity-release.v1'' ''capacity release'' = Inr () \<longleftrightarrow>
      cr_schema_version x = ''ge.capacity-release.v1''"
    by (simp add: capacity_release_py_def)
  moreover have "capacity_release_init x = Inr y \<longleftrightarrow> capacity_release_init x = Inr x \<and> y = x"
    unfolding capacity_release_init_eq by blast
  ultimately show "release_from_dict (normalize (capacity_release_py x)) = Inr y \<longleftrightarrow> valid_release x \<and> y = x"
    unfolding release_from_dict_def ebind_eq_Inr rethrow_eq_Inr release_of_kwargs_py valid_release_def by auto
qed

lemma is_dict_py [simp]: "py_is_dict (normalize (capacity_lease_py x))" "py_is_dict (normalize (capacity_release_py y))"
  by (simp_all add: capacity_lease_py_def capacity_release_py_def)

lemma if_dict_lease: "if_dict lease_from_dict (normalize (py_opt capacity_lease_py x)) = Inr y \<longleftrightarrow> pred_option valid_lease x \<and> y = x"
  by (cases x) (auto simp: if_dict_def exc_simps lease_codec.dec_iff)

lemma if_dict_release: "if_dict release_from_dict (normalize (py_opt capacity_release_py x)) = Inr y \<longleftrightarrow> pred_option valid_release x \<and> y = x"
  by (cases x) (auto simp: if_dict_def exc_simps release_codec.dec_iff)

interpretation transition_codec: strict_codec capacity_transition_py transition_from_dict valid_transition
proof unfold_locales
  fix x y
  have schema: "require_schema (normalize (capacity_transition_py x)) ''ge.capacity-transition.v1'' ''capacity transition'' = Inr () \<longleftrightarrow>
      ct_schema_version x = ''ge.capacity-transition.v1''"
    by (simp add: capacity_transition_py_def)
  have get: "py_get (normalize (capacity_transition_py x)) ''lease'' PNone = Inr (normalize (py_opt capacity_lease_py (ct_lease x)))"
      "py_get (normalize (capacity_transition_py x)) ''release'' PNone = Inr (normalize (py_opt capacity_release_py (ct_release x)))"
    by (simp_all add: capacity_transition_py_def)
  have init: "capacity_transition_init x = Inr y \<longleftrightarrow> capacity_transition_init x = Inr x \<and> y = x"
    unfolding capacity_transition_init_eq by blast
  show "transition_from_dict (normalize (capacity_transition_py x)) = Inr y \<longleftrightarrow> valid_transition x \<and> y = x"
    unfolding transition_from_dict_def get ebind_Inr ebind_eq_Inr schema if_dict_lease if_dict_release rethrow_eq_Inr
    by (auto simp: transition_of_kwargs_py valid_transition_def init schema)
qed

interpretation state_codec: strict_codec capacity_state_py capacity_state_from_dict valid_state
proof unfold_locales
  fix x y
  have schema: "require_schema (normalize (capacity_state_py x)) ''ge.runner-capacity-state.v1'' ''runner capacity state'' = Inr () \<longleftrightarrow>
      cs_schema_version x = ''ge.runner-capacity-state.v1''"
    by (simp add: capacity_state_py_def)
  have get: "py_get (normalize (capacity_state_py x)) ''transitions'' PNone = Inr (PList (map (normalize \<circ> capacity_transition_py) (cs_transitions x)))"
    by (simp add: capacity_state_py_def)
  have init: "capacity_state_init x = Inr y \<longleftrightarrow> capacity_state_init x = Inr x \<and> y = x"
    unfolding capacity_state_init_eq by blast
  show "capacity_state_from_dict (normalize (capacity_state_py x)) = Inr y \<longleftrightarrow> valid_state x \<and> y = x"
    unfolding capacity_state_from_dict_def get ebind_Inr ebind_eq_Inr schema pyval.case transition_codec.emap_dec rethrow_eq_Inr
    by (auto simp: state_of_kwargs_py valid_state_def init schema)
qed

section \<open>Snapshots are read back exactly\<close>

definition snapshot_digest :: "hash \<Rightarrow> capacity_state \<Rightarrow> string" where
  "snapshot_digest h s = sha256_digest h (PDict (snapshot_payload h s))"

lemma capacity_snapshot_wf: "wf_py (capacity_snapshot h s)"
  by (simp add: capacity_snapshot_def snapshot_payload_def)

lemma loads_snapshot: "json_loads (serialize_capacity_snapshot h s) =
   Some (PDict (normal_items (snapshot_payload h s @ [(''snapshot_digest'', PStr (snapshot_digest h s))])))"
  unfolding serialize_capacity_snapshot_def json_loads_canonical [OF capacity_snapshot_wf]
  by (simp add: capacity_snapshot_def normalize_PDict snapshot_digest_def)

lemma snapshot_fields:
  "kw (normal_items (snapshot_payload h s @ [(''snapshot_digest'', PStr d)])) ''state'' PNone = normalize (capacity_state_py s)"
  "kw (normal_items (snapshot_payload h s @ [(''snapshot_digest'', PStr d)])) ''state_digest'' PNone = PStr (state_digest h s)"
  "kw (normal_items (snapshot_payload h s @ [(''snapshot_digest'', PStr d)])) ''snapshot_digest'' PNone = PStr d"
  "require_schema (PDict (normal_items (snapshot_payload h s @ [(''snapshot_digest'', PStr d)]))) ''ge.capacity-snapshot.v1'' ''capacity snapshot'' = Inr ()"
  by (simp_all add: snapshot_payload_def normalize_PDict [symmetric])

lemma deserialize_snapshot_iff:
  "deserialize_capacity_snapshot h (serialize_capacity_snapshot h s) runner = Inr (s', d) \<longleftrightarrow>
   valid_state s \<and> committed h runner s \<and> s' = s \<and> d = snapshot_digest h s"
proof -
  let ?kvs = "snapshot_payload h s @ [(''snapshot_digest'', PStr (snapshot_digest h s))]"
  have keys: "set (map fst (normal_items ?kvs)) = {''schema_version'', ''state'', ''state_digest'', ''snapshot_digest''}"
    unfolding set_map set_normal_items by (auto simp: snapshot_payload_def)
  have "filter (\<lambda>kv. fst kv \<noteq> ''snapshot_digest'') ?kvs = snapshot_payload h s"
    by (simp add: snapshot_payload_def)
  then have digest: "sha256_digest h (PDict (filter (\<lambda>kv. fst kv \<noteq> ''snapshot_digest'') (normal_items ?kvs))) = snapshot_digest h s"
    unfolding digest_without_key by (simp add: snapshot_digest_def)
  have "py_is_dict (normalize (capacity_state_py s))" by (simp add: capacity_state_py_def)
  then show ?thesis
    unfolding deserialize_capacity_snapshot_def loads_snapshot option.case pyval.case keys snapshot_fields digest
    by (auto simp: ebind_eq_Inr state_codec.dec_iff verify_capacity_state_True)
qed

lemma deserialize_snapshot_Inl:
  "\<not> (valid_state s \<and> committed h runner s) \<Longrightarrow> \<exists>e. deserialize_capacity_snapshot h (serialize_capacity_snapshot h s) runner = Inl e"
  using deserialize_snapshot_iff by (cases "deserialize_capacity_snapshot h (serialize_capacity_snapshot h s) runner") auto

text \<open>A row that was written for a state decodes to it.\<close>

definition stored_row :: "hash \<Rightarrow> capacity_state \<Rightarrow> head_row" where
  "stored_row h s = row_of h s (snapshot_digest h s) (serialize_capacity_snapshot h s)"

definition stored_head :: "hash \<Rightarrow> capacity_state \<Rightarrow> capacity_head" where
  "stored_head h s = head_of h s (snapshot_digest h s)"

lemma decode_stored_row:
  "decode_head_row h (stored_row h s) runner = Inr (s', d) \<longleftrightarrow>
   valid_state s \<and> committed h runner s \<and> s' = s \<and> d = stored_head h s"
  using committed_runner(2)
  by (auto simp: decode_head_row_def stored_row_def row_of_def stored_head_def ebind_eq_Inr deserialize_snapshot_iff)

section \<open>Only valid states are read\<close>

lemma require_schema_Inr: "require_schema d expected label = Inr u \<longleftrightarrow> has_schema d expected"
  by (simp add: require_schema_def has_schema_def)

interpretation lease_reader: sound_codec capacity_lease_py lease_from_dict valid_lease
proof unfold_locales
  fix d x
  assume "lease_from_dict d = Inr x"
  then have "has_schema d ''ge.capacity-lease.v1''" "lease_of_kwargs d = Inr x"
    by (auto simp: lease_from_dict_def ebind_eq_Inr rethrow_eq_Inr require_schema_Inr)
  then show "valid_lease x"
    unfolding lease_of_kwargs_def ebind_eq_Inr valid_lease_def
    by (auto dest!: py_kwargs_Inr simp: has_schema_kw capacity_lease_init_eq)
qed

interpretation release_reader: sound_codec capacity_release_py release_from_dict valid_release
proof unfold_locales
  fix d x
  assume "release_from_dict d = Inr x"
  then have "has_schema d ''ge.capacity-release.v1''" "release_of_kwargs d = Inr x"
    by (auto simp: release_from_dict_def ebind_eq_Inr rethrow_eq_Inr require_schema_Inr)
  then show "valid_release x"
    unfolding release_of_kwargs_def ebind_eq_Inr valid_release_def
    by (auto dest!: py_kwargs_Inr simp: has_schema_kw capacity_release_init_eq)
qed

lemma if_dict_ok: "if_dict f v = Inr y \<Longrightarrow> (\<And>d x. f d = Inr x \<Longrightarrow> P x) \<Longrightarrow> pred_option P y"
  by (auto simp: if_dict_def ebind_eq_Inr split: if_splits)

interpretation transition_reader: sound_codec capacity_transition_py transition_from_dict valid_transition
proof unfold_locales
  fix d x
  assume "transition_from_dict d = Inr x"
  then obtain v w lease release where r: "has_schema d ''ge.capacity-transition.v1''"
      "if_dict lease_from_dict v = Inr lease" "if_dict release_from_dict w = Inr release" "transition_of_kwargs lease release d = Inr x"
    by (auto simp: transition_from_dict_def ebind_eq_Inr rethrow_eq_Inr require_schema_Inr)
  note parts = if_dict_ok [OF r(2) lease_reader.dec_ok] if_dict_ok [OF r(3) release_reader.dec_ok]
  show "valid_transition x"
    using r(1,4) parts unfolding transition_of_kwargs_def ebind_eq_Inr valid_transition_def
    by (auto dest!: py_kwargs_Inr simp: has_schema_kw capacity_transition_init_eq)
qed

interpretation state_reader: sound_codec capacity_state_py capacity_state_from_dict valid_state
proof unfold_locales
  fix d x
  assume "capacity_state_from_dict d = Inr x"
  then obtain xs ts where r: "has_schema d ''ge.runner-capacity-state.v1''" "emap transition_from_dict xs = Inr ts"
      "state_of_kwargs ts d = Inr x"
    by (auto simp: capacity_state_from_dict_def ebind_eq_Inr rethrow_eq_Inr require_schema_Inr)
  note ts = transition_reader.emap_ok [OF r(2)]
  show "valid_state x"
    using r(1,3) ts unfolding state_of_kwargs_def ebind_eq_Inr valid_state_def
    by (auto dest!: py_kwargs_Inr simp: has_schema_kw capacity_state_init_eq)
qed

lemma deserialize_snapshot_valid: "deserialize_capacity_snapshot h t runner = Inr (s, d) \<Longrightarrow> valid_state s \<and> committed h runner s"
  unfolding deserialize_capacity_snapshot_def
  by (auto simp: ebind_eq_Inr verify_capacity_state_True dest: state_reader.dec_ok split: option.splits pyval.splits if_splits)

lemma head_load_valid: "head_load h store runner = Inr (s, d) \<Longrightarrow> valid_state s \<and> committed h runner s"
proof -
  assume "head_load h store runner = Inr (s, d)"
  then obtain row where "decode_head_row h row runner = Inr (s, d)"
    by (auto simp: head_load_def split: option.splits)
  then have "\<exists>dig. deserialize_capacity_snapshot h (hr_snapshot_json row) runner = Inr (s, dig)"
    by (auto simp: decode_head_row_def ebind_eq_Inr split: if_splits)
  then show ?thesis using deserialize_snapshot_valid by blast
qed

lemma head_load_committed: "head_load h store runner = Inr (s, d) \<Longrightarrow> committed h runner s"
  by (drule head_load_valid) (rule conjunct2)

section \<open>The head store is a compare-and-swap store\<close>

text \<open>One transition further: the only way a stored head moves.\<close>

definition extends_by_one :: "hash \<Rightarrow> capacity_state \<Rightarrow> capacity_state \<Rightarrow> bool" where
  "extends_by_one h s s' \<longleftrightarrow> cs_generation s' = cs_generation s + 1 \<and>
     cs_previous_state_digest s' = Some (state_digest h s) \<and> butlast (cs_transitions s') = cs_transitions s"

lemma head_commit_Inr:
  "head_commit h store runner expected new = Inr (store', d) \<longleftrightarrow>
   (\<exists>row current. store (rc_runner_id runner) = Some row \<and>
      (\<exists>cd. decode_head_row h row runner = Inr (current, cd)) \<and> state_digest h current = expected \<and>
      extends_by_one h current new \<and> committed h runner new \<and> valid_state new \<and>
      hr_state_digest row = expected \<and> hr_generation row = cs_generation current \<and>
      store' = store(rc_runner_id runner \<mapsto> stored_row h new) \<and> d = stored_head h new)"
proof (cases "store (rc_runner_id runner)")
  case None
  then show ?thesis by (simp add: head_commit_def ebind_guard)
next
  case (Some row)
  show ?thesis
  proof (cases "decode_head_row h row runner")
    case (Inl e)
    then show ?thesis using Some by (simp add: head_commit_def ebind_guard)
  next
    case (Inr sd)
    obtain current cd where sd: "sd = (current, cd)" by (cases sd)
    have "head_commit h store runner expected new = Inr (store', d) \<longleftrightarrow> committed h runner new \<and>
        state_digest h current = expected \<and> extends_by_one h current new \<and> valid_state new \<and>
        hr_state_digest row = expected \<and> hr_generation row = cs_generation current \<and>
        store' = store(rc_runner_id runner \<mapsto> stored_row h new) \<and> d = stored_head h new"
      unfolding head_commit_def ebind_guard verify_capacity_state_True Some option.case Inr sd ebind_Inr prod.case raise_unless_eq
        extends_by_one_def
      by (auto simp: ebind_eq_Inr deserialize_snapshot_iff stored_row_def stored_head_def)
    then show ?thesis using Some Inr sd by auto
  qed
qed

lemma decode_row_meta: "decode_head_row h row runner = Inr (s, d) \<Longrightarrow> hr_state_digest row = state_digest h s \<and> hr_generation row = cs_generation s
   \<and> d = head_of h s (hr_snapshot_digest row)"
  by (auto simp: decode_head_row_def ebind_eq_Inr split: if_splits)

interpretation heads: cas_store "\<lambda>store runner. head_load h store runner"
    "\<lambda>store runner expected v. ebind (head_commit h store runner expected (fst v)) (\<lambda>(store', d). if d = snd v then Inr store' else Inl AssertionError)"
    "\<lambda>v. state_digest h (fst v)" rc_runner_id "\<lambda>u v. extends_by_one h (fst u) (fst v)" for h
proof unfold_locales
  fix store runner expected v store'
  assume "ebind (head_commit h store runner expected (fst v)) (\<lambda>(store', d). if d = snd v then Inr store' else Inl AssertionError) = Inr store'"
  then have c: "head_commit h store runner expected (fst v) = Inr (store', snd v)"
    by (auto simp: ebind_eq_Inr split: if_splits)
  then obtain row current cd where r: "store (rc_runner_id runner) = Some row" "decode_head_row h row runner = Inr (current, cd)"
      "state_digest h current = expected" "extends_by_one h current (fst v)"
    and new: "committed h runner (fst v)" "valid_state (fst v)" "store' = store(rc_runner_id runner \<mapsto> stored_row h (fst v))"
      "snd v = stored_head h (fst v)"
    unfolding head_commit_Inr by blast
  show "\<exists>u. head_load h store runner = Inr u \<and> state_digest h (fst u) = expected \<and> extends_by_one h (fst u) (fst v)"
    using r by (intro exI [of _ "(current, cd)"]) (simp add: head_load_def)
  have "decode_head_row h (stored_row h (fst v)) runner = Inr (fst v, snd v)" using new by (simp add: decode_stored_row)
  then show "head_load h store' runner = Inr v" using new(3) by (simp add: head_load_def)
  show "head_load h store' k' = head_load h store k'" if "rc_runner_id k' \<noteq> rc_runner_id runner" for k'
    using that new(3) by (simp add: head_load_def)
qed

lemma heads_after_commit:
  assumes "head_commit h store runner expected new = Inr (store', d)"
  shows "head_load h store' runner = Inr (new, d)"
proof -
  have "ebind (head_commit h store runner expected (fst (new, d))) (\<lambda>(store', e). if e = snd (new, d) then Inr store' else Inl AssertionError) = Inr store'"
    using assms by simp
  then show ?thesis by (rule heads.commit_load)
qed

section \<open>Restart recovery\<close>

text \<open>Recovery reports every active lease as unresolved, and invents nothing.\<close>

lemma make_recovery_report_eq: "make_recovery_report h s d = Inr
   \<lparr>rr_runner_id = cs_runner_id s, rr_runner_capability_digest = cs_runner_capability_digest s,
    rr_state_digest = state_digest h s, rr_snapshot_digest = dh_snapshot_digest d, rr_generation = cs_generation s,
    rr_active_lease_count = int (length (active_leases h s)),
    rr_unresolved_leases = map (recovered_lease_of h) (active_leases h s),
    rr_physical_outcomes_fabricated = 0, rr_capacity_releases_fabricated = 0,
    rr_schema_version = ''ge.restart-recovery.v1''\<rparr>"
proof -
  have "recovered_lease_init (recovered_lease_of h l) = Inr (recovered_lease_of h l)" for l
    by (simp add: recovered_lease_init_def recovered_lease_of_def)
  then have "emap (\<lambda>l. recovered_lease_init (recovered_lease_of h l)) ls = Inr (map (recovered_lease_of h) ls)" for ls
    by (induction ls) simp_all
  then show ?thesis by (simp add: make_recovery_report_def recovery_report_init_def)
qed

lemma recover_after_restart:
  assumes "head_load h store runner = Inr (s, d)"
  shows "\<exists>report. recover_capacity_after_restart h store runner = Inr (s, report) \<and> make_recovery_report h s d = Inr report"
proof -
  obtain row where row: "decode_head_row h row runner = Inr (s, d)"
    using assms by (auto simp: head_load_def split: option.splits)
  have "d = head_of h s (hr_snapshot_digest row)" using decode_row_meta [OF row] by blast
  then show ?thesis
    using assms by (simp add: recover_capacity_after_restart_def verify_restart_recovery_def make_recovery_report_eq head_of_def)
qed

section \<open>Progress\<close>

lemma head_commit_step:
  assumes "head_load h store runner = Inr (s, d)" and "apply_transition h s t = Inr s'" and "valid_state s'"
  shows "head_commit h store runner (state_digest h s) s' = Inr (store(rc_runner_id runner \<mapsto> stored_row h s'), stored_head h s')"
proof -
  obtain row where row: "store (rc_runner_id runner) = Some row" "decode_head_row h row runner = Inr (s, d)"
    using assms(1) by (auto simp: head_load_def split: option.splits)
  have "committed h runner s'" by (rule committed_step [OF head_load_committed [OF assms(1)] assms(2)])
  moreover have "extends_by_one h s s'" using assms(2) by (simp add: apply_transition_Inr extends_by_one_def)
  ultimately show ?thesis
    unfolding head_commit_Inr using row decode_row_meta [OF row(2)] assms(3) by blast
qed

lemma reserve_keeps_valid:
  assumes "reserve_capacity h s spec registry plan session runner a = Inr (s', g, t)" and "physical_authorization_init a = Inr a"
    and "valid_state s"
  shows "valid_state s'"
proof -
  note r = reserve_capacity_Inr [OF assms(1,2)]
  obtain i where i: "first_free (cs_max_parallelism s) (map cl_slot (active_leases h s)) = Some i"
      "t = reserve_transition h s runner a i" using r(3) by blast
  have s': "s' = advance h s t" "capacity_state_init s' = Inr s'" using r(2) by (simp_all add: apply_transition_Inr)
  have bound: "request_bound h spec registry plan session runner (pa_request a)" using r(1) by (simp add: reservable_def)
  have "1 \<le> aq_attempt (pa_request a)"
    using request_bound_fields(12) [OF bound] by (simp add: adapter_request_init_eq)
  then have "capacity_lease_init (lease_for h s runner a i) = Inr (lease_for h s runner a i)"
    using i(1) assms(2) unfolding capacity_lease_init_eq physical_authorization_init_eq lease_for_fields first_free_Some by blast
  then have "valid_transition t"
    by (simp add: valid_transition_def i(2) reserve_transition_def capacity_transition_init_eq valid_lease_def lease_for_def)
  then show ?thesis
    using assms(3) s'(2) unfolding s'(1) valid_state_def by (simp add: advance_def)
qed

lemma release_step_valid:
  assumes "apply_transition h s (release_step h s r) = Inr s'" and "valid_state s" and "valid_release r"
  shows "valid_state s'"
proof -
  have s': "s' = advance h s (release_step h s r)" "capacity_state_init s' = Inr s'" using assms(1) by (simp_all add: apply_transition_Inr)
  have "valid_transition (release_step h s r)"
    using assms(3) by (simp add: valid_transition_def release_step_def capacity_transition_init_eq)
  then show ?thesis
    using assms(2) s'(2) unfolding s'(1) valid_state_def by (simp add: advance_def)
qed

lemma outcome_release_valid: "verify_intrinsic_outcome h b \<Longrightarrow> valid_release (outcome_release h s l b)"
  using outcome_release_init [of h b s l] by (simp add: valid_release_def outcome_release_def release_of_def)

section \<open>An example\<close>

definition ex_heads :: "hash \<Rightarrow> head_store" where
  "ex_heads h = (\<lambda>_. None)(''r1'' \<mapsto> stored_row h (ex_genesis h))"

lemma ex_genesis_valid: "valid_state (ex_genesis h)"
  by (simp add: valid_state_def ex_genesis_def capacity_state_init_eq)

lemma ex_heads: "head_load h (ex_heads h) ex_runner = Inr (ex_genesis h, stored_head h (ex_genesis h))"
proof -
  have "rc_runner_id ex_runner = ''r1''" by (simp add: ex_runner_def)
  then show ?thesis
    using ex_genesis_valid ex_genesis(2) by (simp add: head_load_def ex_heads_def decode_stored_row)
qed

lemma ex_reserved_valid: "valid_state (ex_reserved h)"
  by (rule reserve_keeps_valid [OF ex_reserve_capacity ex_authorization(2) ex_genesis_valid])

lemma ex_commit: "head_commit h (ex_heads h) ex_runner (state_digest h (ex_genesis h)) (ex_reserved h)
   = Inr ((ex_heads h)(rc_runner_id ex_runner \<mapsto> stored_row h (ex_reserved h)), stored_head h (ex_reserved h))"
  by (rule head_commit_step [OF ex_heads ex_reserved(1) ex_reserved_valid])

section \<open>Properties\<close>

text \<open>C19: A capacity snapshot is read back exactly: the text written for a state is accepted for a runner
  exactly when the state was validly constructed and replays for that runner, and it yields that
  state with the digest of its payload.\<close>

theorem snapshot_round_trip:
  "deserialize_capacity_snapshot h (serialize_capacity_snapshot h s) runner = Inr (s', d) \<longleftrightarrow>
   valid_state s \<and> verify_capacity_state h s runner = Inr True \<and> s' = s \<and> d = snapshot_digest h s"
  by (simp add: deserialize_snapshot_iff verify_capacity_state_True)

text \<open>A successful durable commit replaced exactly the head that the caller had read, by a state one
  transition further; the new head loads as that state, and no other runner's head changed.\<close>

theorem durable_commit_extends_head:
  assumes "head_commit h store runner expected new = Inr (store', d)"
  shows "(\<exists>s e. head_load h store runner = Inr (s, e) \<and> state_digest h s = expected \<and> extends_by_one h s new) \<and>
    head_load h store' runner = Inr (new, d) \<and>
    (\<forall>other. rc_runner_id other \<noteq> rc_runner_id runner \<longrightarrow> head_load h store' other = head_load h store other)"
proof -
  have c: "ebind (head_commit h store runner expected (fst (new, d))) (\<lambda>(store', e). if e = snd (new, d) then Inr store' else Inl AssertionError) = Inr store'"
    using assms by simp
  show ?thesis using heads.commit_current [OF c] heads.commit_load [OF c] heads.commit_other [OF c] by auto
qed

theorem durable_commit_extends_head_witness:
  "\<exists>store'. head_commit (\<lambda>t. t) (ex_heads (\<lambda>t. t)) ex_runner (state_digest (\<lambda>t. t) (ex_genesis (\<lambda>t. t))) (ex_reserved (\<lambda>t. t))
     = Inr (store', stored_head (\<lambda>t. t) (ex_reserved (\<lambda>t. t))) \<and>
   head_load (\<lambda>t. t) store' ex_runner = Inr (ex_reserved (\<lambda>t. t), stored_head (\<lambda>t. t) (ex_reserved (\<lambda>t. t)))"
  using durable_commit_extends_head [OF ex_commit] ex_commit by blast

text \<open>C2: No lost update: of two commits prepared from the same durable head at most one succeeds. Once
  one has committed a state with another digest, every commit that expects the old digest fails.\<close>

theorem durable_commit_single_winner:
  assumes "head_commit h store runner expected new = Inr (store', d)" and "state_digest h new \<noteq> expected"
  shows "\<exists>e. head_commit h store' runner expected other = Inl e"
proof (cases "head_commit h store' runner expected other")
  case (Inr p)
  then obtain store'' d' where p: "head_commit h store' runner expected other = Inr (store'', d')" by (cases p) simp
  have c: "ebind (head_commit h store runner expected (fst (new, d))) (\<lambda>(store', e). if e = snd (new, d) then Inr store' else Inl AssertionError) = Inr store'"
    using assms by simp
  have "state_digest h (fst (new, d)) \<noteq> expected" using assms(2) by simp
  from heads.stale_commit [OF c this, of "(other, d')"] show ?thesis using p by simp
qed simp

theorem durable_commit_single_winner_witness:
  "\<exists>e. head_commit (\<lambda>t. t) ((ex_heads (\<lambda>t. t))(rc_runner_id ex_runner \<mapsto> stored_row (\<lambda>t. t) (ex_reserved (\<lambda>t. t)))) ex_runner
     (state_digest (\<lambda>t. t) (ex_genesis (\<lambda>t. t))) (ex_reserved (\<lambda>t. t)) = Inl e"
proof (rule durable_commit_single_winner [OF ex_commit])
  have "ex_reserved (\<lambda>t. t) \<noteq> ex_genesis (\<lambda>t. t)" by (simp add: ex_reserved_def advance_def ex_genesis_def)
  then show "state_digest (\<lambda>t. t) (ex_reserved (\<lambda>t. t)) \<noteq> state_digest (\<lambda>t. t) (ex_genesis (\<lambda>t. t))"
    using capacity_state.digest_inject [of "\<lambda>t. t"] by (simp add: state_digest_def collision_free_def)
qed

text \<open>A reservation made on the loaded head can be committed: reserving on the durable state and then
  committing against the digest that was read succeeds, and a restart
  then loads the reserved state.\<close>

theorem reservation_commits_durably:
  assumes "head_load h store runner = Inr (s, d)" and "physical_authorization_init a = Inr a"
    and "reserve_capacity h s spec registry plan session runner a = Inr (s', g, t)"
  shows "\<exists>store'. head_commit h store runner (state_digest h s) s' = Inr (store', stored_head h s') \<and>
    head_load h store' runner = Inr (s', stored_head h s') \<and>
    verify_active_lease_grant h s' runner g = Inr True"
proof -
  note r = reserve_capacity_Inr [OF assms(3,2)]
  have valid: "valid_state s'" by (rule reserve_keeps_valid [OF assms(3,2) conjunct1 [OF head_load_valid [OF assms(1)]]])
  note commit = head_commit_step [OF assms(1) r(2) valid]
  have c': "committed h runner s'" by (rule committed_step [OF head_load_committed [OF assms(1)] r(2)])
  obtain i where i: "t = reserve_transition h s runner a i" "g = grant_for h s' t (lease_for h s runner a i)" using r(3) by blast
  have "cg_lease g \<in> set (active_leases h s')"
    using active_reserve [of t "cg_lease g" s h] committed_runner(5) [OF head_load_committed [OF assms(1)]] r(2) i
    by (auto simp: apply_transition_Inr transition_ok_def reserve_transition_def grant_for_def capacity_inv_def reserve_ok_def)
  then have "verify_active_lease_grant h s' runner g = Inr True"
    by (rule lease_grant_verifies [OF assms(3,2) reachable.start])
  moreover have "head_load h (store(rc_runner_id runner \<mapsto> stored_row h s')) runner = Inr (s', stored_head h s')"
    using valid c' by (simp add: head_load_def decode_stored_row)
  ultimately show ?thesis using commit by blast
qed

theorem reservation_commits_durably_witness:
  "\<exists>store'. head_load (\<lambda>t. t) store' ex_runner = Inr (ex_reserved (\<lambda>t. t), stored_head (\<lambda>t. t) (ex_reserved (\<lambda>t. t)))"
  using reservation_commits_durably [OF ex_heads ex_authorization(2) ex_reserve_capacity] by blast

text \<open>Restart recovery reports every active lease of the loaded state as in flight and unresolved, in
  order, and invents nothing: no outcome, no release. It succeeds whenever the head loads.\<close>

theorem recovery_reports_active_leases:
  assumes "head_load h store runner = Inr (s, d)"
  shows "\<exists>report. recover_capacity_after_restart h store runner = Inr (s, report) \<and>
    rr_unresolved_leases report = map (recovered_lease_of h) (active_leases h s) \<and>
    rr_active_lease_count report = int (length (active_leases h s)) \<and>
    list_all (\<lambda>r. rl_status r = ''in_flight_unresolved'' \<and> \<not> rl_physical_outcome_fabricated r \<and> \<not> rl_capacity_released r)
      (rr_unresolved_leases report) \<and>
    rr_physical_outcomes_fabricated report = 0 \<and> rr_capacity_releases_fabricated report = 0 \<and>
    verify_restart_recovery h s d report = Inr True"
proof -
  obtain report where r: "recover_capacity_after_restart h store runner = Inr (s, report)" "make_recovery_report h s d = Inr report"
    using recover_after_restart [OF assms] by blast
  then have "verify_restart_recovery h s d report = Inr True"
    using assms by (auto simp: recover_capacity_after_restart_def ebind_guard)
  then show ?thesis
    using r by (auto simp: make_recovery_report_eq list_all_iff recovered_lease_of_def)
qed

theorem recovery_reports_active_leases_witness:
  "\<exists>report. recover_capacity_after_restart (\<lambda>t. t) (ex_heads (\<lambda>t. t)) ex_runner = Inr (ex_genesis (\<lambda>t. t), report)
     \<and> rr_active_lease_count report = 0"
  using recovery_reports_active_leases [OF ex_heads, of "\<lambda>t. t"] by auto

end
