(* ===== verification/Physical_Wire.thy ===== *)
theory Physical_Wire
  imports Physical
begin

text \<open>
  The stored form of physical outcomes (\<open>physical_wire.py\<close>): authorizations, observations,
  receipts and outcome bundles as dictionaries, and the reader that checks every schema, rebuilds
  every object through its constructor, re-verifies the bundle and insists on canonical text.
  The interpretations say that each reader accepts exactly the canonical texts of valid objects.
\<close>

section \<open>To dictionaries\<close>

definition physical_authorization_to_dict :: "physical_authorization \<Rightarrow> pyval" where
  "physical_authorization_to_dict x = PDict [
    (''schema_version'', PStr (pa_schema_version x)),
    (''request'', request_to_dict (pa_request x)),
    (''physical_attempt'', PInt (pa_physical_attempt x)),
    (''previous_invocation_id'', py_opt PStr (pa_previous_invocation_id x)),
    (''previous_receipt_digest'', py_opt PStr (pa_previous_receipt_digest x))]"

definition physical_observation_to_dict :: "physical_observation \<Rightarrow> pyval" where
  "physical_observation_to_dict x = PDict [
    (''schema_version'', PStr (pb_schema_version x)),
    (''authorization_id'', PStr (pb_authorization_id x)),
    (''invocation_id'', PStr (pb_invocation_id x)),
    (''request_digest'', PStr (pb_request_digest x)),
    (''provider_invocation_id'', py_opt PStr (pb_provider_invocation_id x)),
    (''transport_status'', PStr (pb_transport_status x)),
    (''result'', py_opt result_to_dict (pb_result x)),
    (''failure_code'', py_opt PStr (pb_failure_code x)),
    (''detail_digest'', py_opt PStr (pb_detail_digest x)),
    (''response_digest'', PStr (pb_response_digest x))]"

definition physical_receipt_to_dict :: "physical_receipt \<Rightarrow> pyval" where
  "physical_receipt_to_dict x = PDict [
    (''schema_version'', PStr (pr_schema_version x)),
    (''authorization_id'', PStr (pr_authorization_id x)),
    (''authorization_digest'', PStr (pr_authorization_digest x)),
    (''invocation_id'', PStr (pr_invocation_id x)),
    (''request_digest'', PStr (pr_request_digest x)),
    (''physical_attempt'', PInt (pr_physical_attempt x)),
    (''previous_invocation_id'', py_opt PStr (pr_previous_invocation_id x)),
    (''previous_receipt_digest'', py_opt PStr (pr_previous_receipt_digest x)),
    (''session_id'', PStr (pr_session_id x)),
    (''runner_id'', PStr (pr_runner_id x)),
    (''provider'', PStr (pr_provider x)),
    (''adapter'', PStr (pr_adapter x)),
    (''adapter_version'', PStr (pr_adapter_version x)),
    (''provider_invocation_id'', py_opt PStr (pr_provider_invocation_id x)),
    (''transport_status'', PStr (pr_transport_status x)),
    (''response_digest'', PStr (pr_response_digest x)),
    (''observation_digest'', PStr (pr_observation_digest x)),
    (''result_digest'', py_opt PStr (pr_result_digest x)),
    (''failure_code'', py_opt PStr (pr_failure_code x))]"

definition physical_outcome_to_dict :: "physical_outcome \<Rightarrow> pyval" where
  "physical_outcome_to_dict x = PDict [
    (''schema_version'', PStr ''ge.physical-outcome-wire.v1''),
    (''authorization'', physical_authorization_to_dict (pt_authorization x)),
    (''observation'', physical_observation_to_dict (pt_observation x)),
    (''receipt'', physical_receipt_to_dict (pt_receipt x)),
    (''result'', py_opt result_to_dict (pt_result x))]"

section \<open>From dictionaries\<close>

text \<open>\<open>str(data["k"]) if data.get("k") is not None else None\<close>, and the same with \<open>result_from_dict\<close>.\<close>

definition opt_str_at :: "pyval \<Rightarrow> string \<Rightarrow> string option exc" where
  "opt_str_at d k = ebind (py_get d k PNone) (py_unless_none py_str)"

definition result_at :: "pyval \<Rightarrow> result_envelope option exc" where
  "result_at d = ebind (py_get d ''result'' PNone) (py_unless_none result_from_dict)"

definition physical_authorization_from_dict_fields :: "pyval \<Rightarrow> physical_authorization exc" where
  "physical_authorization_from_dict_fields d =
     ebind (ebind (py_index d ''request'') request_from_dict) (\<lambda>v_request.
     ebind (int_at d ''physical_attempt'') (\<lambda>v_physical_attempt.
     ebind (opt_str_at d ''previous_invocation_id'') (\<lambda>v_previous_invocation_id.
     ebind (opt_str_at d ''previous_receipt_digest'') (\<lambda>v_previous_receipt_digest.
     physical_authorization_init
       \<lparr>pa_request = v_request, pa_physical_attempt = v_physical_attempt,
        pa_previous_invocation_id = v_previous_invocation_id,
        pa_previous_receipt_digest = v_previous_receipt_digest,
        pa_schema_version = ''ge.physical-authorization.v1''\<rparr>))))"

definition physical_authorization_from_dict :: "pyval \<Rightarrow> physical_authorization exc" where
  "physical_authorization_from_dict d =
     (if \<not> has_schema d ''ge.physical-authorization.v1'' then Inl (PhysicalOutcomeCodecError ''unsupported physical authorization schema'')
      else rethrow is_decode_error (PhysicalOutcomeCodecError ''invalid physical authorization payload'') (physical_authorization_from_dict_fields d))"

definition physical_observation_from_dict_fields :: "pyval \<Rightarrow> physical_observation exc" where
  "physical_observation_from_dict_fields d =
     ebind (result_at d) (\<lambda>v_result.
     ebind (str_at d ''authorization_id'') (\<lambda>v_authorization_id.
     ebind (str_at d ''invocation_id'') (\<lambda>v_invocation_id.
     ebind (str_at d ''request_digest'') (\<lambda>v_request_digest.
     ebind (opt_str_at d ''provider_invocation_id'') (\<lambda>v_provider_invocation_id.
     ebind (str_at d ''transport_status'') (\<lambda>v_transport_status.
     ebind (opt_str_at d ''failure_code'') (\<lambda>v_failure_code.
     ebind (opt_str_at d ''detail_digest'') (\<lambda>v_detail_digest.
     ebind (str_at d ''response_digest'') (\<lambda>v_response_digest.
     physical_observation_init
       \<lparr>pb_authorization_id = v_authorization_id, pb_invocation_id = v_invocation_id,
        pb_request_digest = v_request_digest, pb_provider_invocation_id = v_provider_invocation_id,
        pb_transport_status = v_transport_status, pb_result = v_result, pb_failure_code = v_failure_code,
        pb_detail_digest = v_detail_digest, pb_response_digest = v_response_digest,
        pb_schema_version = ''ge.physical-observation.v1''\<rparr>)))))))))"

definition physical_observation_from_dict :: "pyval \<Rightarrow> physical_observation exc" where
  "physical_observation_from_dict d =
     (if \<not> has_schema d ''ge.physical-observation.v1'' then Inl (PhysicalOutcomeCodecError ''unsupported physical observation schema'')
      else rethrow is_decode_error (PhysicalOutcomeCodecError ''invalid physical observation payload'') (physical_observation_from_dict_fields d))"

definition physical_receipt_from_dict_fields :: "pyval \<Rightarrow> physical_receipt exc" where
  "physical_receipt_from_dict_fields d =
     ebind (str_at d ''authorization_id'') (\<lambda>v_authorization_id.
     ebind (str_at d ''authorization_digest'') (\<lambda>v_authorization_digest.
     ebind (str_at d ''invocation_id'') (\<lambda>v_invocation_id.
     ebind (str_at d ''request_digest'') (\<lambda>v_request_digest.
     ebind (int_at d ''physical_attempt'') (\<lambda>v_physical_attempt.
     ebind (opt_str_at d ''previous_invocation_id'') (\<lambda>v_previous_invocation_id.
     ebind (opt_str_at d ''previous_receipt_digest'') (\<lambda>v_previous_receipt_digest.
     ebind (str_at d ''session_id'') (\<lambda>v_session_id.
     ebind (str_at d ''runner_id'') (\<lambda>v_runner_id.
     ebind (str_at d ''provider'') (\<lambda>v_provider.
     ebind (str_at d ''adapter'') (\<lambda>v_adapter.
     ebind (str_at d ''adapter_version'') (\<lambda>v_adapter_version.
     ebind (opt_str_at d ''provider_invocation_id'') (\<lambda>v_provider_invocation_id.
     ebind (str_at d ''transport_status'') (\<lambda>v_transport_status.
     ebind (str_at d ''response_digest'') (\<lambda>v_response_digest.
     ebind (str_at d ''observation_digest'') (\<lambda>v_observation_digest.
     ebind (opt_str_at d ''result_digest'') (\<lambda>v_result_digest.
     ebind (opt_str_at d ''failure_code'') (\<lambda>v_failure_code.
     physical_receipt_init
       \<lparr>pr_authorization_id = v_authorization_id,
        pr_authorization_digest = v_authorization_digest, pr_invocation_id = v_invocation_id,
        pr_request_digest = v_request_digest, pr_physical_attempt = v_physical_attempt,
        pr_previous_invocation_id = v_previous_invocation_id,
        pr_previous_receipt_digest = v_previous_receipt_digest, pr_session_id = v_session_id,
        pr_runner_id = v_runner_id, pr_provider = v_provider, pr_adapter = v_adapter,
        pr_adapter_version = v_adapter_version, pr_provider_invocation_id = v_provider_invocation_id,
        pr_transport_status = v_transport_status, pr_response_digest = v_response_digest,
        pr_observation_digest = v_observation_digest, pr_result_digest = v_result_digest,
        pr_failure_code = v_failure_code, pr_schema_version = ''ge.physical-receipt.v1''\<rparr>))))))))))))))))))"

definition physical_receipt_from_dict :: "pyval \<Rightarrow> physical_receipt exc" where
  "physical_receipt_from_dict d =
     (if \<not> has_schema d ''ge.physical-receipt.v1'' then Inl (PhysicalOutcomeCodecError ''unsupported physical receipt schema'')
      else rethrow is_decode_error (PhysicalOutcomeCodecError ''invalid physical receipt payload'') (physical_receipt_from_dict_fields d))"

text \<open>The outcome reader keeps a codec error of a part as it is and wraps the others.\<close>

definition physical_outcome_fields :: "pyval \<Rightarrow> physical_outcome exc" where
  "physical_outcome_fields d =
     ebind (ebind (py_index d ''authorization'') physical_authorization_from_dict) (\<lambda>a.
     ebind (ebind (py_index d ''observation'') physical_observation_from_dict) (\<lambda>ob.
     ebind (ebind (py_index d ''receipt'') physical_receipt_from_dict) (\<lambda>rc.
     ebind (result_at d) (\<lambda>res.
     Inr \<lparr>pt_authorization = a, pt_observation = ob, pt_receipt = rc, pt_result = res,
       pt_schema_version = ''ge.physical-outcome.v1''\<rparr>))))"

definition physical_outcome_from_dict :: "hash \<Rightarrow> pyval \<Rightarrow> physical_outcome exc" where
  "physical_outcome_from_dict h d =
     (if \<not> has_schema d ''ge.physical-outcome-wire.v1''
      then Inl (PhysicalOutcomeCodecError ''unsupported physical outcome wire schema'')
      else ebind (rethrow (\<lambda>e. is_decode_error e \<and> \<not> is_codec_error e)
          (PhysicalOutcomeCodecError ''invalid physical outcome payload'') (physical_outcome_fields d)) (\<lambda>b.
      if \<not> verify_intrinsic_outcome h b
      then Inl (PhysicalOutcomeCodecError ''physical outcome payload fails intrinsic verification'')
      else Inr b))"

definition serialize_physical_outcome :: "hash \<Rightarrow> physical_outcome \<Rightarrow> string exc" where
  "serialize_physical_outcome h b =
     (if \<not> verify_intrinsic_outcome h b
      then Inl (PhysicalOutcomeCodecError ''physical outcome fails intrinsic verification'')
      else Inr (canonical_json (physical_outcome_to_dict b)))"

definition deserialize_physical_outcome :: "hash \<Rightarrow> string \<Rightarrow> physical_outcome exc" where
  "deserialize_physical_outcome h payload =
     (case json_loads payload of
        None \<Rightarrow> Inl (PhysicalOutcomeCodecError ''physical outcome payload is not valid JSON'')
      | Some d \<Rightarrow>
          ebind (physical_outcome_from_dict h d) (\<lambda>b.
          ebind (serialize_physical_outcome h b) (\<lambda>t.
          if t \<noteq> payload then Inl (PhysicalOutcomeCodecError ''physical outcome payload is not canonical'')
          else Inr b)))"

section \<open>Each reader accepts exactly the valid objects\<close>

definition valid_authorization :: "physical_authorization \<Rightarrow> bool" where
  "valid_authorization a \<longleftrightarrow> physical_authorization_init a = Inr a \<and> pa_schema_version a = ''ge.physical-authorization.v1''
     \<and> valid_request (pa_request a)"

definition valid_observation :: "physical_observation \<Rightarrow> bool" where
  "valid_observation ob \<longleftrightarrow> physical_observation_init ob = Inr ob \<and> pb_schema_version ob = ''ge.physical-observation.v1''
     \<and> pred_option valid_result (pb_result ob)"

definition valid_receipt :: "physical_receipt \<Rightarrow> bool" where
  "valid_receipt rc \<longleftrightarrow> physical_receipt_init rc = Inr rc \<and> pr_schema_version rc = ''ge.physical-receipt.v1''"

lemma request_dict_wf [simp]: "wf_py (request_to_dict r)" by (rule request_wire.enc_wf)

lemma request_dict_inject [simp]: "normalize (request_to_dict x) = normalize (request_to_dict y) \<longleftrightarrow> x = y"
  by (rule request_wire.enc_inject)

lemma result_dict_wf [simp]: "wf_py (py_opt result_to_dict r)"
  by (rule wf_py_opt) (rule result_wire.enc_wf)

lemma result_dict_not_none [simp]: "normalize (result_to_dict r) \<noteq> PNone"
  by (simp add: result_to_dict_def)

lemma result_dict_inject [simp]: "normalize (py_opt result_to_dict x) = normalize (py_opt result_to_dict y) \<longleftrightarrow> x = y"
  unfolding normalize_opt by (rule py_opt_inject) (simp_all add: result_wire.enc_inject)

lemma opt_str_at_normalize [simp]:
  "map_of kvs k = Some (py_opt PStr v) \<Longrightarrow> opt_str_at (normalize (PDict kvs)) k = Inr v"
  by (simp add: opt_str_at_def)

lemma str_at_normalize [simp]: "map_of kvs k = Some (PStr s) \<Longrightarrow> str_at (normalize (PDict kvs)) k = Inr s"
  by (simp add: str_at_def)

lemma int_at_normalize [simp]: "map_of kvs k = Some (PInt i) \<Longrightarrow> int_at (normalize (PDict kvs)) k = Inr i"
  by (simp add: int_at_def)

lemma result_at_normalize:
  "map_of kvs ''result'' = Some (py_opt result_to_dict v) \<Longrightarrow> pred_option valid_result v \<Longrightarrow> result_at (normalize (PDict kvs)) = Inr v"
  by (cases v) (auto simp: result_at_def py_unless_none_def result_wire.dec_enc)

lemma result_at_ok: "result_at d = Inr v \<Longrightarrow> pred_option valid_result v"
  by (cases v) (auto simp: result_at_def py_unless_none_def ebind_eq_Inr result_codec.dec_ok split: if_splits)

interpretation authorization_codec: sound_codec physical_authorization_to_dict physical_authorization_from_dict valid_authorization
proof unfold_locales
  fix d x y
  show "wf_py (physical_authorization_to_dict x)" by (simp add: physical_authorization_to_dict_def)
  show "normalize (physical_authorization_to_dict x) = normalize (physical_authorization_to_dict y) \<longleftrightarrow> x = y"
    by (cases x; cases y) (auto simp: physical_authorization_to_dict_def normalize_dict_inject)
  show "physical_authorization_from_dict (normalize (physical_authorization_to_dict x)) = Inr x" if "valid_authorization x"
    using that
    by (cases x) (simp add: physical_authorization_from_dict_def physical_authorization_from_dict_fields_def
        physical_authorization_to_dict_def valid_authorization_def request_wire.dec_enc)
  show "valid_authorization x" if "physical_authorization_from_dict d = Inr x"
    using that
    by (auto simp: physical_authorization_from_dict_def physical_authorization_from_dict_fields_def valid_authorization_def
        ebind_eq_Inr rethrow_eq_Inr physical_authorization_init_eq request_codec.dec_ok split: if_splits)
qed

interpretation observation_codec: sound_codec physical_observation_to_dict physical_observation_from_dict valid_observation
proof unfold_locales
  fix d x y
  show "wf_py (physical_observation_to_dict x)" by (simp add: physical_observation_to_dict_def)
  show "normalize (physical_observation_to_dict x) = normalize (physical_observation_to_dict y) \<longleftrightarrow> x = y"
    by (cases x; cases y) (auto simp: physical_observation_to_dict_def normalize_dict_inject)
  show "physical_observation_from_dict (normalize (physical_observation_to_dict x)) = Inr x" if "valid_observation x"
    using that
    by (cases x) (simp add: physical_observation_from_dict_def physical_observation_from_dict_fields_def
        physical_observation_to_dict_def valid_observation_def result_at_normalize)
  show "valid_observation x" if "physical_observation_from_dict d = Inr x"
  proof -
    have "physical_observation_from_dict_fields d = Inr x" using that by (simp add: physical_observation_from_dict_def rethrow_eq_Inr split: if_splits)
    then show ?thesis
      unfolding physical_observation_from_dict_fields_def ebind_eq_Inr valid_observation_def physical_observation_init_eq
      by (auto dest: result_at_ok)
  qed
qed

interpretation receipt_codec: sound_codec physical_receipt_to_dict physical_receipt_from_dict valid_receipt
proof unfold_locales
  fix d x y
  show "wf_py (physical_receipt_to_dict x)" by (simp add: physical_receipt_to_dict_def)
  show "normalize (physical_receipt_to_dict x) = normalize (physical_receipt_to_dict y) \<longleftrightarrow> x = y"
    by (cases x; cases y) (auto simp: physical_receipt_to_dict_def normalize_dict_inject)
  show "physical_receipt_from_dict (normalize (physical_receipt_to_dict x)) = Inr x" if "valid_receipt x"
    using that
    by (cases x) (simp add: physical_receipt_from_dict_def physical_receipt_from_dict_fields_def
        physical_receipt_to_dict_def valid_receipt_def)
  show "valid_receipt x" if "physical_receipt_from_dict d = Inr x"
  proof -
    have "physical_receipt_from_dict_fields d = Inr x" using that by (simp add: physical_receipt_from_dict_def rethrow_eq_Inr split: if_splits)
    then show ?thesis
      unfolding physical_receipt_from_dict_fields_def ebind_eq_Inr valid_receipt_def physical_receipt_init_eq by auto
  qed
qed

section \<open>Outcomes\<close>

definition valid_outcome :: "hash \<Rightarrow> physical_outcome \<Rightarrow> bool" where
  "valid_outcome h b \<longleftrightarrow> valid_authorization (pt_authorization b) \<and> valid_observation (pt_observation b)
     \<and> valid_receipt (pt_receipt b) \<and> pt_schema_version b = ''ge.physical-outcome.v1'' \<and> verify_intrinsic_outcome h b"

lemma physical_outcome_dict_wf: "wf_py (physical_outcome_to_dict b)"
  by (simp add: physical_outcome_to_dict_def authorization_codec.enc_wf observation_codec.enc_wf receipt_codec.enc_wf)

lemma physical_outcome_from_to:
  assumes "valid_outcome h b"
  shows "physical_outcome_from_dict h (normalize (physical_outcome_to_dict b)) = Inr b"
proof -
  have "pred_option valid_result (pt_result b)"
    using assms intrinsic_receipt(9) [of h b] by (simp add: valid_outcome_def valid_observation_def)
  then have "physical_outcome_fields (normalize (physical_outcome_to_dict b)) = Inr b"
    using assms
    by (cases b) (simp add: physical_outcome_fields_def physical_outcome_to_dict_def valid_outcome_def authorization_codec.dec_enc
        observation_codec.dec_enc receipt_codec.dec_enc result_at_normalize)
  moreover have "has_schema (normalize (physical_outcome_to_dict b)) ''ge.physical-outcome-wire.v1''"
    by (simp add: physical_outcome_to_dict_def)
  ultimately show ?thesis
    using assms by (simp add: physical_outcome_from_dict_def valid_outcome_def)
qed

lemma physical_outcome_from_ok:
  assumes "physical_outcome_from_dict h d = Inr b"
  shows "valid_outcome h b"
proof -
  have "physical_outcome_fields d = Inr b" "verify_intrinsic_outcome h b"
    using assms by (auto simp: physical_outcome_from_dict_def ebind_eq_Inr rethrow_eq_Inr split: if_splits)
  then show ?thesis
    unfolding physical_outcome_fields_def ebind_eq_Inr valid_outcome_def
    by (auto dest: authorization_codec.dec_ok observation_codec.dec_ok receipt_codec.dec_ok)
qed

lemma deserialize_outcome_iff:
  "deserialize_physical_outcome h t = Inr b \<longleftrightarrow> valid_outcome h b \<and> serialize_physical_outcome h b = Inr t"
proof
  assume "deserialize_physical_outcome h t = Inr b"
  then show "valid_outcome h b \<and> serialize_physical_outcome h b = Inr t"
    by (auto simp: deserialize_physical_outcome_def ebind_eq_Inr physical_outcome_from_ok split: option.splits if_splits)
next
  assume b: "valid_outcome h b \<and> serialize_physical_outcome h b = Inr t"
  then have "t = canonical_json (physical_outcome_to_dict b)"
    by (simp add: serialize_physical_outcome_def split: if_splits)
  then have "json_loads t = Some (normalize (physical_outcome_to_dict b))"
    by (simp add: json_loads_canonical physical_outcome_dict_wf)
  then show "deserialize_physical_outcome h t = Inr b"
    using b by (simp add: deserialize_physical_outcome_def physical_outcome_from_to)
qed

lemma serialize_outcome_ok: "verify_intrinsic_outcome h b \<Longrightarrow> \<exists>t. serialize_physical_outcome h b = Inr t"
  by (simp add: serialize_physical_outcome_def)

text \<open>Outcomes admitted for a valid authorization and observation are valid.\<close>

lemma outcome_for_wire:
  assumes "valid_authorization a" and "valid_observation ob" and "verify_observation h a ob"
  shows "valid_outcome h (outcome_for h a ob)"
proof -
  have init: "physical_observation_init ob = Inr ob" "1 \<le> pa_physical_attempt a"
    using assms(1,2) by (simp_all add: valid_observation_def valid_authorization_def physical_authorization_init_eq)
  have "valid_receipt (receipt_for h a ob)"
    using receipt_for_valid [OF init] by (simp add: valid_receipt_def receipt_for_def Let_def)
  then show ?thesis
    using assms outcome_for_intrinsic [OF assms(3) init(1)] by (simp add: valid_outcome_def outcome_for_def)
qed

section \<open>Properties\<close>

text \<open>C15: The stored text of a physical outcome is exact: a text is read as an outcome exactly when the
  outcome was built through the constructors, verifies intrinsically, and the text is the one
  that \<open>serialize_physical_outcome\<close> writes for it. In particular no other text is accepted.\<close>

theorem outcome_text_exact:
  "deserialize_physical_outcome h t = Inr b \<longleftrightarrow> valid_outcome h b \<and> serialize_physical_outcome h b = Inr t"
  by (rule deserialize_outcome_iff)

end
