(* ===== verification/Dispatch.thy ===== *)
theory Dispatch
  imports Durable Physical_Wire
begin

text \<open>
  The dispatch outbox (\<open>dispatch.py\<close>): an intent binds one active capacity lease to one
  physical authorization, and its durable state moves from \<open>prepared\<close> over
  \<open>submission_unknown\<close> to \<open>observed\<close> by compare-and-swap on a SQLite table. The table is the
  list of its rows; \<open>SELECT ... WHERE\<close> is a search, \<open>UPDATE ... WHERE\<close> a map that counts the
  rows it changed, \<open>ORDER BY\<close> a sort on the bytes of the key, and a transaction that raises
  leaves the table as it was. An operation that reads outside its transaction takes two tables,
  the one it read and the one its transaction meets, so every interleaving with another process
  is covered.
\<close>

section \<open>Intents and states\<close>

record dispatch_intent =
  di_runner_id :: string
  di_runner_capability_digest :: string
  di_lease_id :: string
  di_lease_digest :: string
  di_slot :: int
  di_session_id :: string
  di_logical_attempt :: int
  di_authorization_id :: string
  di_authorization_digest :: string
  di_invocation_id :: string
  di_request_digest :: string
  di_physical_attempt :: int
  di_capacity_state_digest :: string
  di_schema_version :: string

definition dispatch_intent_py :: "dispatch_intent \<Rightarrow> pyval" where
  "dispatch_intent_py x = PDict [
    (''runner_id'', PStr (di_runner_id x)),
    (''runner_capability_digest'', PStr (di_runner_capability_digest x)),
    (''lease_id'', PStr (di_lease_id x)),
    (''lease_digest'', PStr (di_lease_digest x)),
    (''slot'', PInt (di_slot x)),
    (''session_id'', PStr (di_session_id x)),
    (''logical_attempt'', PInt (di_logical_attempt x)),
    (''authorization_id'', PStr (di_authorization_id x)),
    (''authorization_digest'', PStr (di_authorization_digest x)),
    (''invocation_id'', PStr (di_invocation_id x)),
    (''request_digest'', PStr (di_request_digest x)),
    (''physical_attempt'', PInt (di_physical_attempt x)),
    (''capacity_state_digest'', PStr (di_capacity_state_digest x)),
    (''schema_version'', PStr (di_schema_version x))]"

text \<open>\<open>for name in (...): if not getattr(self, name): raise ...\<close>.\<close>

definition check_present :: "(string \<times> string) list \<Rightarrow> unit exc" where
  "check_present = eall (\<lambda>(name, v). if v = [] then Inl (ValueError (name @ '' must be non-empty'')) else Inr ())"

lemma check_present_Inr [simp]: "check_present nvs = Inr u \<longleftrightarrow> list_all (\<lambda>nv. snd nv \<noteq> []) nvs"
  by (auto simp: check_present_def eall_eq_Inr list_all_iff)

definition dispatch_intent_init :: "dispatch_intent \<Rightarrow> dispatch_intent exc" where
  "dispatch_intent_init i =
     (if di_slot i < 0 then Inl (ValueError ''slot must be >= 0'')
      else if di_logical_attempt i < 1 \<or> di_physical_attempt i < 1 then Inl (ValueError ''attempt ordinals must be >= 1'')
      else ebind (check_present [
        (''runner_id'', di_runner_id i), (''runner_capability_digest'', di_runner_capability_digest i),
        (''lease_id'', di_lease_id i), (''lease_digest'', di_lease_digest i), (''session_id'', di_session_id i),
        (''authorization_id'', di_authorization_id i), (''authorization_digest'', di_authorization_digest i),
        (''invocation_id'', di_invocation_id i), (''request_digest'', di_request_digest i),
        (''capacity_state_digest'', di_capacity_state_digest i)]) (\<lambda>_. Inr i))"

lemma dispatch_intent_init_eq: "dispatch_intent_init i = Inr i' \<longleftrightarrow>
   i' = i \<and> 0 \<le> di_slot i \<and> 1 \<le> di_logical_attempt i \<and> 1 \<le> di_physical_attempt i
   \<and> di_runner_id i \<noteq> [] \<and> di_runner_capability_digest i \<noteq> [] \<and> di_lease_id i \<noteq> [] \<and> di_lease_digest i \<noteq> []
   \<and> di_session_id i \<noteq> [] \<and> di_authorization_id i \<noteq> [] \<and> di_authorization_digest i \<noteq> []
   \<and> di_invocation_id i \<noteq> [] \<and> di_request_digest i \<noteq> [] \<and> di_capacity_state_digest i \<noteq> []"
  by (auto simp: dispatch_intent_init_def ebind_eq_Inr)

interpretation dispatch_intent: encoding dispatch_intent_py
proof unfold_locales
  show "wf_py (dispatch_intent_py x)" for x
    by (simp add: dispatch_intent_py_def)
  show "normalize (dispatch_intent_py x) = normalize (dispatch_intent_py y) \<longleftrightarrow> x = y" for x y
    by (cases x; cases y) (simp add: dispatch_intent_py_def normalize_dict_inject)
qed

lemmas dispatch_intent_wf [simp] = dispatch_intent.enc_wf
lemmas dispatch_intent_inject [simp] = dispatch_intent.enc_inject

definition intent_id :: "hash \<Rightarrow> dispatch_intent \<Rightarrow> string" where
  "intent_id h i = stable_id h ''gedi'' (dispatch_intent_py i)"

definition intent_digest :: "hash \<Rightarrow> dispatch_intent \<Rightarrow> string" where
  "intent_digest h i = sha256_digest h (dispatch_intent_py i)"

record dispatch_state =
  ds_intent :: dispatch_intent
  ds_status :: string
  ds_revision :: int
  ds_previous_state_digest :: "string option"
  ds_provider_invocation_id :: "string option"
  ds_observation_digest :: "string option"
  ds_receipt_digest :: "string option"
  ds_outcome_digest :: "string option"
  ds_transport_status :: "string option"
  ds_schema_version :: string

definition dispatch_state_py :: "dispatch_state \<Rightarrow> pyval" where
  "dispatch_state_py x = PDict [
    (''intent'', dispatch_intent_py (ds_intent x)),
    (''status'', PStr (ds_status x)),
    (''revision'', PInt (ds_revision x)),
    (''previous_state_digest'', py_opt PStr (ds_previous_state_digest x)),
    (''provider_invocation_id'', py_opt PStr (ds_provider_invocation_id x)),
    (''observation_digest'', py_opt PStr (ds_observation_digest x)),
    (''receipt_digest'', py_opt PStr (ds_receipt_digest x)),
    (''outcome_digest'', py_opt PStr (ds_outcome_digest x)),
    (''transport_status'', py_opt PStr (ds_transport_status x)),
    (''schema_version'', PStr (ds_schema_version x))]"

definition observed_fields :: "dispatch_state \<Rightarrow> string option list" where
  "observed_fields s = [ds_observation_digest s, ds_receipt_digest s, ds_outcome_digest s, ds_transport_status s]"

definition dispatch_state_init :: "dispatch_state \<Rightarrow> dispatch_state exc" where
  "dispatch_state_init s =
     (if ds_status s = ''prepared'' then
        (if ds_revision s \<noteq> 0 \<or> ds_previous_state_digest s \<noteq> None
         then Inl (ValueError ''prepared dispatch state must be revision 0 without predecessor'')
         else if ds_provider_invocation_id s \<noteq> None \<or> list_ex (\<lambda>v. v \<noteq> None) (observed_fields s)
         then Inl (ValueError ''prepared dispatch state cannot carry provider evidence'')
         else Inr s)
      else if ds_status s = ''submission_unknown'' then
        (if ds_revision s \<noteq> 1 \<or> empty_opt (ds_previous_state_digest s)
         then Inl (ValueError ''submission_unknown dispatch state must be revision 1 with predecessor'')
         else if ds_provider_invocation_id s \<noteq> None \<or> list_ex (\<lambda>v. v \<noteq> None) (observed_fields s)
         then Inl (ValueError ''submission_unknown state cannot claim provider evidence'')
         else Inr s)
      else if ds_status s = ''observed'' then
        (if ds_revision s \<noteq> 2 \<or> empty_opt (ds_previous_state_digest s)
         then Inl (ValueError ''observed dispatch state must be revision 2 with predecessor'')
         else if list_ex (\<lambda>v. v = None) (observed_fields s)
         then Inl (ValueError ''observed dispatch state requires admitted outcome evidence'')
         else if \<not> list_ex (\<lambda>t. ds_transport_status s = Some t) valid_transport_statuses
         then Inl (ValueError ''observed dispatch state has unsupported transport status'')
         else Inr s)
      else Inl (ValueError ''unsupported dispatch status''))"

lemma dispatch_state_init_same: "dispatch_state_init s = Inr s' \<Longrightarrow> s' = s"
  by (auto simp: dispatch_state_init_def split: if_splits)

text \<open>The status and the revision of a state determine each other.\<close>

definition status_at :: "int \<Rightarrow> string" where
  "status_at n = (if n = 0 then ''prepared'' else if n = 1 then ''submission_unknown'' else ''observed'')"

lemma dispatch_state_status:
  assumes "dispatch_state_init s = Inr s"
  shows "ds_status s = status_at (ds_revision s)" and "ds_revision s \<in> {0, 1, 2}"
    and "ds_status s = ''prepared'' \<longleftrightarrow> ds_revision s = 0"
    and "ds_status s = ''submission_unknown'' \<longleftrightarrow> ds_revision s = 1"
    and "ds_status s = ''observed'' \<longleftrightarrow> ds_revision s = 2"
  using assms by (auto simp: dispatch_state_init_def status_at_def split: if_splits)

interpretation dispatch_state: encoding dispatch_state_py
proof unfold_locales
  show "wf_py (dispatch_state_py x)" for x
    by (simp add: dispatch_state_py_def)
  show "normalize (dispatch_state_py x) = normalize (dispatch_state_py y) \<longleftrightarrow> x = y" for x y
    by (cases x; cases y) (simp add: dispatch_state_py_def normalize_dict_inject)
qed

lemmas dispatch_state_wf [simp] = dispatch_state.enc_wf
lemmas dispatch_state_inject [simp] = dispatch_state.enc_inject

definition dispatch_digest :: "hash \<Rightarrow> dispatch_state \<Rightarrow> string" where
  "dispatch_digest h s = sha256_digest h (dispatch_state_py s)"

section \<open>Permits and recovery reports\<close>

record dispatch_permit =
  dq_intent_id :: string
  dq_intent_digest :: string
  dq_state_digest :: string
  dq_invocation_id :: string
  dq_request_digest :: string
  dq_authorization_id :: string
  dq_authorization_digest :: string
  dq_transport_authority :: bool
  dq_schema_version :: string

definition dispatch_permit_py :: "dispatch_permit \<Rightarrow> pyval" where
  "dispatch_permit_py x = PDict [
    (''intent_id'', PStr (dq_intent_id x)),
    (''intent_digest'', PStr (dq_intent_digest x)),
    (''state_digest'', PStr (dq_state_digest x)),
    (''invocation_id'', PStr (dq_invocation_id x)),
    (''request_digest'', PStr (dq_request_digest x)),
    (''authorization_id'', PStr (dq_authorization_id x)),
    (''authorization_digest'', PStr (dq_authorization_digest x)),
    (''transport_authority'', PBool (dq_transport_authority x)),
    (''schema_version'', PStr (dq_schema_version x))]"

definition dispatch_permit_init :: "dispatch_permit \<Rightarrow> dispatch_permit exc" where
  "dispatch_permit_init p =
     (if dq_transport_authority p then Inl (ValueError ''durable dispatch permit cannot grant transport authority'')
      else Inr p)"

definition permit_digest :: "hash \<Rightarrow> dispatch_permit \<Rightarrow> string" where
  "permit_digest h p = sha256_digest h (dispatch_permit_py p)"

record dispatch_recovery_item =
  ri_intent_id :: string
  ri_state_digest :: string
  ri_status :: string
  ri_invocation_id :: string
  ri_request_digest :: string
  ri_runner_id :: string
  ri_lease_id :: string
  ri_recovery_action :: string
  ri_blind_resubmission_authorized :: bool
  ri_provider_outcome_inferred :: bool
  ri_schema_version :: string

definition dispatch_recovery_item_py :: "dispatch_recovery_item \<Rightarrow> pyval" where
  "dispatch_recovery_item_py x = PDict [
    (''intent_id'', PStr (ri_intent_id x)),
    (''state_digest'', PStr (ri_state_digest x)),
    (''status'', PStr (ri_status x)),
    (''invocation_id'', PStr (ri_invocation_id x)),
    (''request_digest'', PStr (ri_request_digest x)),
    (''runner_id'', PStr (ri_runner_id x)),
    (''lease_id'', PStr (ri_lease_id x)),
    (''recovery_action'', PStr (ri_recovery_action x)),
    (''blind_resubmission_authorized'', PBool (ri_blind_resubmission_authorized x)),
    (''provider_outcome_inferred'', PBool (ri_provider_outcome_inferred x)),
    (''schema_version'', PStr (ri_schema_version x))]"

text \<open>The dictionary from statuses to recovery actions, indexed by the status.\<close>

definition recovery_action :: "string \<Rightarrow> string exc" where
  "recovery_action status =
     (if status = ''prepared'' then Inr ''begin_submission''
      else if status = ''submission_unknown'' then Inr ''reconcile_provider''
      else if status = ''observed'' then Inr ''none''
      else Inl (KeyError status))"

definition dispatch_recovery_item_init :: "dispatch_recovery_item \<Rightarrow> dispatch_recovery_item exc" where
  "dispatch_recovery_item_init r =
     (if ri_blind_resubmission_authorized r then Inl (ValueError ''dispatch recovery cannot authorize blind resubmission'')
      else if ri_provider_outcome_inferred r then Inl (ValueError ''dispatch recovery cannot infer provider outcome'')
      else ebind (recovery_action (ri_status r)) (\<lambda>expected.
      if ri_recovery_action r \<noteq> expected
      then Inl (ValueError ''dispatch recovery action does not match durable status'')
      else Inr r))"

record dispatch_recovery_report =
  rq_runner_id :: string
  rq_items :: "dispatch_recovery_item list"
  rq_prepared_count :: int
  rq_submission_unknown_count :: int
  rq_observed_count :: int
  rq_blind_resubmissions_authorized :: int
  rq_provider_outcomes_inferred :: int
  rq_schema_version :: string

definition dispatch_recovery_report_py :: "dispatch_recovery_report \<Rightarrow> pyval" where
  "dispatch_recovery_report_py x = PDict [
    (''runner_id'', PStr (rq_runner_id x)),
    (''items'', PTuple (map dispatch_recovery_item_py (rq_items x))),
    (''prepared_count'', PInt (rq_prepared_count x)),
    (''submission_unknown_count'', PInt (rq_submission_unknown_count x)),
    (''observed_count'', PInt (rq_observed_count x)),
    (''blind_resubmissions_authorized'', PInt (rq_blind_resubmissions_authorized x)),
    (''provider_outcomes_inferred'', PInt (rq_provider_outcomes_inferred x)),
    (''schema_version'', PStr (rq_schema_version x))]"

definition status_count :: "string \<Rightarrow> dispatch_recovery_item list \<Rightarrow> int" where
  "status_count status items = int (length (filter (\<lambda>r. ri_status r = status) items))"

definition dispatch_recovery_report_init :: "dispatch_recovery_report \<Rightarrow> dispatch_recovery_report exc" where
  "dispatch_recovery_report_init r =
     (if rq_blind_resubmissions_authorized r \<noteq> 0
      then Inl (ValueError ''dispatch recovery cannot authorize blind resubmission'')
      else if rq_provider_outcomes_inferred r \<noteq> 0
      then Inl (ValueError ''dispatch recovery cannot infer provider outcome'')
      else if rq_prepared_count r \<noteq> status_count ''prepared'' (rq_items r)
        \<or> rq_submission_unknown_count r \<noteq> status_count ''submission_unknown'' (rq_items r)
        \<or> rq_observed_count r \<noteq> status_count ''observed'' (rq_items r)
      then Inl (ValueError ''dispatch recovery counts do not reconcile'')
      else if list_ex (\<lambda>i. ri_runner_id i \<noteq> rq_runner_id r) (rq_items r)
      then Inl (ValueError ''dispatch recovery report mixes runners'')
      else Inr r)"

section \<open>Preparing an intent\<close>

definition dispatch_find_lease :: "hash \<Rightarrow> capacity_state \<Rightarrow> string \<Rightarrow> string \<Rightarrow> capacity_lease exc" where
  "dispatch_find_lease h s lid ldig =
     (case filter (\<lambda>l. lease_id h l = lid \<and> lease_digest h l = ldig) (active_leases h s) of
        [l] \<Rightarrow> Inr l
      | _ \<Rightarrow> Inl (DispatchIntentError ''dispatch intent does not reference one active capacity lease''))"

text \<open>The intent that \<open>prepare_dispatch_intent\<close> constructs once its guards have passed.\<close>

definition intent_for ::
  "hash \<Rightarrow> capacity_state \<Rightarrow> runner_capabilities \<Rightarrow> capacity_lease \<Rightarrow> physical_authorization \<Rightarrow> dispatch_intent" where
  "intent_for h s runner l a = (let r = pa_request a in
     \<lparr>di_runner_id = rc_runner_id runner, di_runner_capability_digest = runner_digest h runner,
      di_lease_id = lease_id h l, di_lease_digest = lease_digest h l, di_slot = cl_slot l,
      di_session_id = cl_session_id l, di_logical_attempt = cl_logical_attempt l,
      di_authorization_id = authorization_id h a, di_authorization_digest = authorization_digest h a,
      di_invocation_id = aq_invocation_id r, di_request_digest = request_digest h r,
      di_physical_attempt = pa_physical_attempt a, di_capacity_state_digest = state_digest h s,
      di_schema_version = ''ge.dispatch-intent.v1''\<rparr>)"

definition prepare_dispatch_intent ::
  "hash \<Rightarrow> capacity_state \<Rightarrow> runner_capabilities \<Rightarrow> capacity_lease \<Rightarrow> physical_authorization \<Rightarrow> dispatch_intent exc" where
  "prepare_dispatch_intent h s runner l a =
     ebind (verify_capacity_state h s runner) (\<lambda>ok.
     if \<not> ok then Inl (DispatchIntentError ''capacity state does not replay for runner'')
     else ebind (dispatch_find_lease h s (lease_id h l) (lease_digest h l)) (\<lambda>active.
     if active \<noteq> l then Inl (DispatchIntentError ''capacity lease is not the exact active lease'')
     else let r = pa_request a in
     if cl_runner_id l \<noteq> rc_runner_id runner \<or> cl_runner_capability_digest l \<noteq> runner_digest h runner
       \<or> cl_authorization_id l \<noteq> authorization_id h a \<or> cl_authorization_digest l \<noteq> authorization_digest h a
       \<or> cl_invocation_id l \<noteq> aq_invocation_id r \<or> cl_physical_attempt l \<noteq> pa_physical_attempt a
       \<or> cl_session_id l \<noteq> aq_session_id r \<or> cl_logical_attempt l \<noteq> aq_attempt r
       \<or> aq_runner_id r \<noteq> rc_runner_id runner \<or> aq_runner_capability_digest r \<noteq> runner_digest h runner
     then Inl (DispatchIntentError ''authorization does not reproduce the active capacity lease'')
     else dispatch_intent_init (intent_for h s runner l a)))"

section \<open>The state codec\<close>

definition initial_dispatch_state :: "dispatch_intent \<Rightarrow> dispatch_state" where
  "initial_dispatch_state i =
     \<lparr>ds_intent = i, ds_status = ''prepared'', ds_revision = 0, ds_previous_state_digest = None,
      ds_provider_invocation_id = None, ds_observation_digest = None, ds_receipt_digest = None,
      ds_outcome_digest = None, ds_transport_status = None, ds_schema_version = ''ge.dispatch-intent-state.v1''\<rparr>"

definition intent_of_kwargs :: "pyval \<Rightarrow> dispatch_intent exc" where
  "intent_of_kwargs d =
     ebind (py_kwargs [''runner_id'', ''runner_capability_digest'', ''lease_id'', ''lease_digest'', ''slot'', ''session_id'', ''logical_attempt'', ''authorization_id'', ''authorization_digest'', ''invocation_id'', ''request_digest'', ''physical_attempt'', ''capacity_state_digest'']
         [''schema_version''] d) (\<lambda>kvs.
     ebind (typed_str (kw kvs ''runner_id'' PNone)) (\<lambda>v_runner_id.
     ebind (typed_str (kw kvs ''runner_capability_digest'' PNone)) (\<lambda>v_runner_capability_digest.
     ebind (typed_str (kw kvs ''lease_id'' PNone)) (\<lambda>v_lease_id.
     ebind (typed_str (kw kvs ''lease_digest'' PNone)) (\<lambda>v_lease_digest.
     ebind (typed_int (kw kvs ''slot'' PNone)) (\<lambda>v_slot.
     ebind (typed_str (kw kvs ''session_id'' PNone)) (\<lambda>v_session_id.
     ebind (typed_int (kw kvs ''logical_attempt'' PNone)) (\<lambda>v_logical_attempt.
     ebind (typed_str (kw kvs ''authorization_id'' PNone)) (\<lambda>v_authorization_id.
     ebind (typed_str (kw kvs ''authorization_digest'' PNone)) (\<lambda>v_authorization_digest.
     ebind (typed_str (kw kvs ''invocation_id'' PNone)) (\<lambda>v_invocation_id.
     ebind (typed_str (kw kvs ''request_digest'' PNone)) (\<lambda>v_request_digest.
     ebind (typed_int (kw kvs ''physical_attempt'' PNone)) (\<lambda>v_physical_attempt.
     ebind (typed_str (kw kvs ''capacity_state_digest'' PNone)) (\<lambda>v_capacity_state_digest.
     ebind (typed_str (kw kvs ''schema_version'' (PStr ''ge.dispatch-intent.v1''))) (\<lambda>v_schema_version.
     dispatch_intent_init
       \<lparr>di_runner_id = v_runner_id, di_runner_capability_digest = v_runner_capability_digest,
        di_lease_id = v_lease_id, di_lease_digest = v_lease_digest, di_slot = v_slot,
        di_session_id = v_session_id, di_logical_attempt = v_logical_attempt,
        di_authorization_id = v_authorization_id, di_authorization_digest = v_authorization_digest,
        di_invocation_id = v_invocation_id, di_request_digest = v_request_digest,
        di_physical_attempt = v_physical_attempt, di_capacity_state_digest = v_capacity_state_digest,
        di_schema_version = v_schema_version\<rparr>)))))))))))))))"

definition intent_from_dict :: "pyval \<Rightarrow> dispatch_intent exc" where
  "intent_from_dict d =
     (if \<not> has_schema d ''ge.dispatch-intent.v1'' then Inl (DispatchIntentError ''unsupported dispatch intent schema'')
      else rethrow is_type_or_value_error (DispatchIntentError ''invalid durable dispatch intent'') (intent_of_kwargs d))"

definition dispatch_state_of_kwargs :: "dispatch_intent \<Rightarrow> pyval \<Rightarrow> dispatch_state exc" where
  "dispatch_state_of_kwargs v_intent d =
     ebind (py_kwargs [''intent'', ''status'', ''revision'']
         [''previous_state_digest'', ''provider_invocation_id'', ''observation_digest'', ''receipt_digest'', ''outcome_digest'', ''transport_status'', ''schema_version''] d) (\<lambda>kvs.
     ebind (typed_str (kw kvs ''status'' PNone)) (\<lambda>v_status.
     ebind (typed_int (kw kvs ''revision'' PNone)) (\<lambda>v_revision.
     ebind (py_unless_none typed_str (kw kvs ''previous_state_digest'' PNone)) (\<lambda>v_previous_state_digest.
     ebind (py_unless_none typed_str (kw kvs ''provider_invocation_id'' PNone)) (\<lambda>v_provider_invocation_id.
     ebind (py_unless_none typed_str (kw kvs ''observation_digest'' PNone)) (\<lambda>v_observation_digest.
     ebind (py_unless_none typed_str (kw kvs ''receipt_digest'' PNone)) (\<lambda>v_receipt_digest.
     ebind (py_unless_none typed_str (kw kvs ''outcome_digest'' PNone)) (\<lambda>v_outcome_digest.
     ebind (py_unless_none typed_str (kw kvs ''transport_status'' PNone)) (\<lambda>v_transport_status.
     ebind (typed_str (kw kvs ''schema_version'' (PStr ''ge.dispatch-intent-state.v1''))) (\<lambda>v_schema_version.
     dispatch_state_init
       \<lparr>ds_intent = v_intent, ds_status = v_status, ds_revision = v_revision,
        ds_previous_state_digest = v_previous_state_digest,
        ds_provider_invocation_id = v_provider_invocation_id, ds_observation_digest = v_observation_digest,
        ds_receipt_digest = v_receipt_digest, ds_outcome_digest = v_outcome_digest,
        ds_transport_status = v_transport_status, ds_schema_version = v_schema_version\<rparr>))))))))))"

definition dispatch_state_from_dict :: "pyval \<Rightarrow> dispatch_state exc" where
  "dispatch_state_from_dict d =
     (if \<not> has_schema d ''ge.dispatch-intent-state.v1''
      then Inl (DispatchIntentError ''unsupported dispatch intent state schema'')
      else ebind (py_get d ''intent'' PNone) (\<lambda>intent.
      if \<not> py_is_dict intent then Inl (DispatchIntentError ''dispatch intent state requires intent'')
      else ebind (intent_from_dict intent) (\<lambda>i.
      rethrow is_type_or_value_error (DispatchIntentError ''invalid durable dispatch intent state'')
        (dispatch_state_of_kwargs i d))))"

definition serialize_dispatch_state :: "dispatch_state \<Rightarrow> string" where
  "serialize_dispatch_state s = canonical_json (dispatch_state_py s)"

definition deserialize_dispatch_state :: "string \<Rightarrow> dispatch_state exc" where
  "deserialize_dispatch_state t = (case json_loads t of
     None \<Rightarrow> Inl (DispatchIntentError ''durable dispatch state is not valid JSON'')
   | Some d \<Rightarrow> dispatch_state_from_dict d)"

definition valid_intent :: "dispatch_intent \<Rightarrow> bool" where
  "valid_intent i \<longleftrightarrow> dispatch_intent_init i = Inr i \<and> di_schema_version i = ''ge.dispatch-intent.v1''"

definition valid_dispatch :: "dispatch_state \<Rightarrow> bool" where
  "valid_dispatch s \<longleftrightarrow> dispatch_state_init s = Inr s \<and> ds_schema_version s = ''ge.dispatch-intent-state.v1''
     \<and> valid_intent (ds_intent s)"

lemma intent_of_kwargs_py: "intent_of_kwargs (normalize (dispatch_intent_py i)) = dispatch_intent_init i"
  by (cases i) (simp add: intent_of_kwargs_def dispatch_intent_py_def py_kwargs_normalize)

lemma dispatch_state_of_kwargs_py:
  "dispatch_state_of_kwargs (ds_intent s) (normalize (dispatch_state_py s)) = dispatch_state_init s"
  by (cases s) (simp add: dispatch_state_of_kwargs_def dispatch_state_py_def py_kwargs_normalize)

interpretation intent_codec: strict_codec dispatch_intent_py intent_from_dict valid_intent
proof unfold_locales
  fix x y
  have "has_schema (normalize (dispatch_intent_py x)) ''ge.dispatch-intent.v1'' \<longleftrightarrow> di_schema_version x = ''ge.dispatch-intent.v1''"
    by (simp add: dispatch_intent_py_def)
  then show "intent_from_dict (normalize (dispatch_intent_py x)) = Inr y \<longleftrightarrow> valid_intent x \<and> y = x"
    by (auto simp: intent_from_dict_def intent_of_kwargs_py valid_intent_def rethrow_eq_Inr dispatch_intent_init_eq)
qed

interpretation dispatch_codec: strict_codec dispatch_state_py dispatch_state_from_dict valid_dispatch
proof unfold_locales
  fix x y
  have "has_schema (normalize (dispatch_state_py x)) ''ge.dispatch-intent-state.v1'' \<longleftrightarrow> ds_schema_version x = ''ge.dispatch-intent-state.v1''"
    and get: "py_get (normalize (dispatch_state_py x)) ''intent'' PNone = Inr (normalize (dispatch_intent_py (ds_intent x)))"
    by (simp_all add: dispatch_state_py_def)
  moreover have "py_is_dict (normalize (dispatch_intent_py i))" for i by (simp add: dispatch_intent_py_def)
  moreover have "dispatch_state_init x = Inr y \<longleftrightarrow> dispatch_state_init x = Inr x \<and> y = x"
    using dispatch_state_init_same by blast
  ultimately show "dispatch_state_from_dict (normalize (dispatch_state_py x)) = Inr y \<longleftrightarrow> valid_dispatch x \<and> y = x"
    by (auto simp: dispatch_state_from_dict_def ebind_eq_Inr rethrow_eq_Inr intent_codec.dec_iff dispatch_state_of_kwargs_py valid_dispatch_def)
qed

lemma deserialize_serialize_dispatch: "deserialize_dispatch_state (serialize_dispatch_state s) = Inr s' \<longleftrightarrow> valid_dispatch s \<and> s' = s"
  by (simp add: deserialize_dispatch_state_def serialize_dispatch_state_def json_loads_canonical dispatch_codec.dec_iff)

interpretation intent_reader: sound_codec dispatch_intent_py intent_from_dict valid_intent
proof unfold_locales
  fix d x
  assume "intent_from_dict d = Inr x"
  then have "has_schema d ''ge.dispatch-intent.v1''" "intent_of_kwargs d = Inr x"
    by (auto simp: intent_from_dict_def rethrow_eq_Inr split: if_splits)
  then show "valid_intent x"
    unfolding intent_of_kwargs_def ebind_eq_Inr valid_intent_def
    by (auto dest!: py_kwargs_Inr simp: has_schema_kw dispatch_intent_init_eq)
qed

interpretation dispatch_reader: sound_codec dispatch_state_py dispatch_state_from_dict valid_dispatch
proof unfold_locales
  fix d x
  assume "dispatch_state_from_dict d = Inr x"
  then obtain v i where r: "has_schema d ''ge.dispatch-intent-state.v1''" "intent_from_dict v = Inr i"
      "dispatch_state_of_kwargs i d = Inr x"
    by (auto simp: dispatch_state_from_dict_def ebind_eq_Inr rethrow_eq_Inr split: if_splits)
  note i = intent_reader.dec_ok [OF r(2)]
  show "valid_dispatch x"
    using r(1,3) i unfolding dispatch_state_of_kwargs_def ebind_eq_Inr valid_dispatch_def
    by (auto dest!: py_kwargs_Inr dest: dispatch_state_init_same simp: has_schema_kw)
qed

lemma deserialize_dispatch_valid: "deserialize_dispatch_state t = Inr s \<Longrightarrow> valid_dispatch s"
  by (auto simp: deserialize_dispatch_state_def dispatch_reader.dec_ok split: option.splits)

end
