(* ===== verification/Sql_Table.thy ===== *)
theory Sql_Table
  imports Prelude
begin

text \<open>
  Tables of the program's SQLite stores, as the lists of their rows: a search by key, an update
  that counts the rows it changed, and an insert that refuses a second row with the same value in
  a unique column.
\<close>

definition select_one :: "('r \<Rightarrow> 'k) \<Rightarrow> 'k \<Rightarrow> 'r list \<Rightarrow> 'r option" where
  "select_one key k rows = find (\<lambda>r. key r = k) rows"

definition update_where :: "('r \<Rightarrow> bool) \<Rightarrow> ('r \<Rightarrow> 'r) \<Rightarrow> 'r list \<Rightarrow> 'r list \<times> nat" where
  "update_where p f rows = (map (\<lambda>r. if p r then f r else r) rows, length (filter p rows))"

definition insert_unique :: "('r \<Rightarrow> 'k) list \<Rightarrow> 'r \<Rightarrow> 'r list \<Rightarrow> 'r list exc" where
  "insert_unique keys r rows =
     (if list_ex (\<lambda>key. list_ex (\<lambda>r'. key r' = key r) rows) keys then Inl IntegrityError else Inr (rows @ [r]))"

lemma select_one_Some: "select_one key k rows = Some r \<Longrightarrow> r \<in> set rows \<and> key r = k"
  by (auto simp: select_one_def find_Some_iff)

lemma select_one_None: "select_one key k rows = None \<longleftrightarrow> (\<forall>r\<in>set rows. key r \<noteq> k)"
  by (auto simp: select_one_def find_None_iff)

lemma select_one_unique:
  "distinct (map key rows) \<Longrightarrow> r \<in> set rows \<Longrightarrow> select_one key (key r) rows = Some r"
  by (induction rows) (auto simp: select_one_def)

lemma select_one_update:
  assumes "\<And>r. key (f r) = key r"
  shows "select_one key k (fst (update_where p f rows)) = map_option (\<lambda>r. if p r then f r else r) (select_one key k rows)"
  using assms by (induction rows) (auto simp: select_one_def update_where_def)

lemma map_key_update:
  assumes "\<And>r. key (f r) = key r"
  shows "map key (fst (update_where p f rows)) = map key rows"
  using assms by (induction rows) (auto simp: update_where_def)

lemma insert_unique_Inr:
  "insert_unique keys r rows = Inr rows' \<longleftrightarrow>
   rows' = rows @ [r] \<and> (\<forall>key\<in>set keys. select_one key (key r) rows = None)"
  by (auto simp: insert_unique_def list_ex_iff select_one_None)

lemma select_one_append:
  "select_one key k (rows @ [r]) =
    (case select_one key k rows of Some r' \<Rightarrow> Some r' | None \<Rightarrow> if key r = k then Some r else None)"
  by (induction rows) (auto simp: select_one_def)

lemma update_one:
  assumes "distinct (map key rows)" and "r \<in> set rows" and "p r" and "\<And>q. p q \<Longrightarrow> key q = key r"
  shows "snd (update_where p f rows) = 1"
proof -
  have inj: "inj_on key (set rows)" and "distinct rows"
    using assms(1) by (simp_all add: distinct_map)
  have "{q. p q} \<inter> set rows = {r}"
    using assms(2-4) inj by (auto simp: inj_on_def)
  moreover have "length (filter p rows) = card ({q. p q} \<inter> set rows)"
    by (rule distinct_length_filter) fact
  ultimately show ?thesis by (simp add: update_where_def)
qed

end
