(* ===== verification/Outbox.thy ===== *)
theory Outbox
  imports Dispatch Sql_Table
begin

text \<open>
  The dispatch outbox store (\<open>SqliteDispatchIntentStore\<close> and the recovery functions of
  \<open>dispatch.py\<close>). The lemmas show that a committed state loads again, that a commit only
  replaces the state it read, that every operation moves one intent one revision further and
  leaves the others alone, and that recovery reports what the table holds.
\<close>

section \<open>Validation against capacity, and permits\<close>

definition validate_intent_against_capacity ::
  "hash \<Rightarrow> dispatch_intent \<Rightarrow> capacity_state \<Rightarrow> runner_capabilities \<Rightarrow> capacity_lease exc" where
  "validate_intent_against_capacity h i s runner =
     ebind (verify_capacity_state h s runner) (\<lambda>ok.
     if \<not> ok then Inl (DispatchIntentError ''capacity state does not replay for runner'')
     else if di_runner_id i \<noteq> rc_runner_id runner \<or> di_runner_capability_digest i \<noteq> runner_digest h runner
     then Inl (DispatchIntentError ''dispatch intent runner capabilities changed'')
     else ebind (dispatch_find_lease h s (di_lease_id i) (di_lease_digest i)) (\<lambda>l.
     if cl_authorization_id l \<noteq> di_authorization_id i \<or> cl_authorization_digest l \<noteq> di_authorization_digest i
       \<or> cl_invocation_id l \<noteq> di_invocation_id i \<or> cl_physical_attempt l \<noteq> di_physical_attempt i
       \<or> cl_session_id l \<noteq> di_session_id i \<or> cl_logical_attempt l \<noteq> di_logical_attempt i
     then Inl (DispatchIntentError ''active lease no longer matches dispatch intent'')
     else Inr l))"

definition permit_of :: "hash \<Rightarrow> dispatch_state \<Rightarrow> dispatch_permit" where
  "permit_of h s = (let i = ds_intent s in
     \<lparr>dq_intent_id = intent_id h i, dq_intent_digest = intent_digest h i, dq_state_digest = dispatch_digest h s,
      dq_invocation_id = di_invocation_id i, dq_request_digest = di_request_digest i,
      dq_authorization_id = di_authorization_id i, dq_authorization_digest = di_authorization_digest i,
      dq_transport_authority = False, dq_schema_version = ''ge.dispatch-permit.v1''\<rparr>)"

definition make_permit :: "hash \<Rightarrow> dispatch_state \<Rightarrow> dispatch_permit exc" where
  "make_permit h s =
     (if ds_status s \<noteq> ''submission_unknown''
      then Inl (DispatchIntentError ''dispatch permit requires submission_unknown durable state'')
      else dispatch_permit_init (permit_of h s))"

definition verify_dispatch_permit :: "hash \<Rightarrow> dispatch_state \<Rightarrow> dispatch_permit \<Rightarrow> bool exc" where
  "verify_dispatch_permit h s p =
     (if ds_status s \<noteq> ''submission_unknown'' \<or> dq_transport_authority p then Inr False
      else ebind (make_permit h s) (\<lambda>expected. Inr (p = expected)))"

section \<open>The table\<close>

record dispatch_row =
  dr_intent_id :: string
  dr_runner_id :: string
  dr_lease_id :: string
  dr_state_digest :: string
  dr_revision :: int
  dr_state_json :: string

type_synonym dispatch_table = "dispatch_row list"

definition dispatch_row_of :: "hash \<Rightarrow> dispatch_state \<Rightarrow> dispatch_row" where
  "dispatch_row_of h s = (let i = ds_intent s in
     \<lparr>dr_intent_id = intent_id h i, dr_runner_id = di_runner_id i, dr_lease_id = di_lease_id i,
      dr_state_digest = dispatch_digest h s, dr_revision = ds_revision s,
      dr_state_json = serialize_dispatch_state s\<rparr>)"

definition decode_dispatch_row :: "hash \<Rightarrow> dispatch_row \<Rightarrow> dispatch_state exc" where
  "decode_dispatch_row h row =
     ebind (deserialize_dispatch_state (dr_state_json row)) (\<lambda>s. let i = ds_intent s in
     if intent_id h i \<noteq> dr_intent_id row \<or> di_runner_id i \<noteq> dr_runner_id row \<or> di_lease_id i \<noteq> dr_lease_id row
       \<or> dispatch_digest h s \<noteq> dr_state_digest row \<or> ds_revision s \<noteq> dr_revision row
     then Inl (DispatchIntentError ''durable dispatch row metadata mismatch'')
     else Inr s)"

definition dispatch_initialize :: "hash \<Rightarrow> dispatch_table \<Rightarrow> dispatch_intent \<Rightarrow> (dispatch_table \<times> dispatch_state) exc" where
  "dispatch_initialize h tbl i = (let s = initial_dispatch_state i in
     case select_one dr_intent_id (intent_id h i) tbl of
       Some row \<Rightarrow> ebind (decode_dispatch_row h row) (\<lambda>existing.
         if existing \<noteq> s then Inl (DispatchIntentError ''durable dispatch intent already exists with different state'')
         else Inr (tbl, existing))
     | None \<Rightarrow>
         if select_one dr_lease_id (di_lease_id i) tbl \<noteq> None
         then Inl (DispatchIntentError ''capacity lease already has a durable dispatch intent'')
         else ebind (insert_unique [dr_intent_id, dr_lease_id] (dispatch_row_of h s) tbl) (\<lambda>tbl'. Inr (tbl', s)))"

definition dispatch_load :: "hash \<Rightarrow> dispatch_table \<Rightarrow> string \<Rightarrow> dispatch_state exc" where
  "dispatch_load h tbl iid = (case select_one dr_intent_id iid tbl of
     None \<Rightarrow> Inl (DispatchIntentError ''durable dispatch intent does not exist'')
   | Some row \<Rightarrow> decode_dispatch_row h row)"

definition load_for_runner :: "hash \<Rightarrow> dispatch_table \<Rightarrow> string \<Rightarrow> dispatch_state list exc" where
  "load_for_runner h tbl runner_id =
     ebind (emap (decode_dispatch_row h) (sort_key dr_intent_id tbl)) (\<lambda>decoded.
     Inr (filter (\<lambda>s. di_runner_id (ds_intent s) = runner_id) decoded))"

text \<open>The \<open>WHERE\<close> and \<open>SET\<close> clauses of the compare-and-swap update.\<close>

definition cas_match :: "hash \<Rightarrow> dispatch_state \<Rightarrow> dispatch_row \<Rightarrow> bool" where
  "cas_match h s r \<longleftrightarrow> dr_intent_id r = intent_id h (ds_intent s) \<and> dr_runner_id r = di_runner_id (ds_intent s)
     \<and> dr_lease_id r = di_lease_id (ds_intent s) \<and> dr_state_digest r = dispatch_digest h s \<and> dr_revision r = ds_revision s"

definition cas_set :: "hash \<Rightarrow> dispatch_state \<Rightarrow> dispatch_row \<Rightarrow> dispatch_row" where
  "cas_set h s r = r\<lparr>dr_state_digest := dispatch_digest h s, dr_revision := ds_revision s,
     dr_state_json := serialize_dispatch_state s\<rparr>"

definition dispatch_commit :: "hash \<Rightarrow> dispatch_table \<Rightarrow> dispatch_state \<Rightarrow> dispatch_state \<Rightarrow> (dispatch_table \<times> dispatch_state) exc" where
  "dispatch_commit h tbl current new =
     (if ds_intent new \<noteq> ds_intent current
      then Inl (DispatchIntentError ''dispatch state transition cannot change intent identity'')
      else if ds_revision new \<noteq> ds_revision current + 1 \<or> ds_previous_state_digest new \<noteq> Some (dispatch_digest h current)
      then Inl (DispatchIntentError ''dispatch state transition predecessor mismatch'')
      else case select_one dr_intent_id (intent_id h (ds_intent current)) tbl of
        None \<Rightarrow> Inl (DispatchIntentError ''durable dispatch intent does not exist'')
      | Some row \<Rightarrow> ebind (decode_dispatch_row h row) (\<lambda>durable.
          if durable \<noteq> current then Inl (DispatchIntentError ''stale durable dispatch intent state'')
          else let (tbl', rowcount) = update_where (cas_match h current) (cas_set h new) tbl in
          if rowcount \<noteq> 1 then Inl (DispatchIntentError ''durable dispatch compare-and-swap failed'')
          else Inr (tbl', new)))"

text \<open>
  The operations that load first and commit later: \<open>seen\<close> is the table at the time of the load
  and \<open>tbl\<close> the one the transaction meets.
\<close>

definition unknown_state :: "hash \<Rightarrow> dispatch_state \<Rightarrow> dispatch_state" where
  "unknown_state h current =
     \<lparr>ds_intent = ds_intent current, ds_status = ''submission_unknown'', ds_revision = 1,
      ds_previous_state_digest = Some (dispatch_digest h current), ds_provider_invocation_id = None,
      ds_observation_digest = None, ds_receipt_digest = None, ds_outcome_digest = None, ds_transport_status = None,
      ds_schema_version = ''ge.dispatch-intent-state.v1''\<rparr>"

definition begin_submission ::
  "hash \<Rightarrow> dispatch_table \<Rightarrow> head_store \<Rightarrow> dispatch_table \<Rightarrow> string \<Rightarrow> string \<Rightarrow> runner_capabilities \<Rightarrow>
   (dispatch_table \<times> dispatch_state \<times> dispatch_permit) exc" where
  "begin_submission h seen heads tbl iid expected runner =
     ebind (dispatch_load h seen iid) (\<lambda>current.
     if dispatch_digest h current \<noteq> expected then Inl (DispatchIntentError ''stale durable dispatch intent state'')
     else if ds_status current \<noteq> ''prepared''
     then Inl (DispatchIntentError ''only prepared dispatch intent may begin submission'')
     else ebind (rethrow is_durable_capacity_error (DispatchIntentError ''canonical durable capacity head is unavailable'')
         (head_load h heads runner)) (\<lambda>(capacity, _).
     ebind (validate_intent_against_capacity h (ds_intent current) capacity runner) (\<lambda>_.
     ebind (dispatch_state_init (unknown_state h current)) (\<lambda>new.
     ebind (dispatch_commit h tbl current new) (\<lambda>(tbl', committed).
     ebind (make_permit h committed) (\<lambda>permit. Inr (tbl', committed, permit)))))))"

definition outcome_of_intent :: "hash \<Rightarrow> dispatch_intent \<Rightarrow> physical_outcome \<Rightarrow> bool" where
  "outcome_of_intent h i b = (let a = pt_authorization b; r = pa_request a in
     authorization_id h a = di_authorization_id i \<and> authorization_digest h a = di_authorization_digest i \<and>
     aq_invocation_id r = di_invocation_id i \<and> request_digest h r = di_request_digest i \<and>
     aq_runner_id r = di_runner_id i \<and> aq_runner_capability_digest r = di_runner_capability_digest i \<and>
     pa_physical_attempt a = di_physical_attempt i)"

definition observed_state :: "hash \<Rightarrow> dispatch_state \<Rightarrow> physical_outcome \<Rightarrow> dispatch_state" where
  "observed_state h current b = (let rc = pt_receipt b in
     \<lparr>ds_intent = ds_intent current, ds_status = ''observed'', ds_revision = 2,
      ds_previous_state_digest = Some (dispatch_digest h current),
      ds_provider_invocation_id = pr_provider_invocation_id rc,
      ds_observation_digest = Some (observation_digest h (pt_observation b)),
      ds_receipt_digest = Some (receipt_digest h rc), ds_outcome_digest = Some (outcome_digest h b),
      ds_transport_status = Some (pr_transport_status rc), ds_schema_version = ''ge.dispatch-intent-state.v1''\<rparr>)"

definition dispatch_record_observed ::
  "hash \<Rightarrow> dispatch_table \<Rightarrow> dispatch_table \<Rightarrow> string \<Rightarrow> string \<Rightarrow> execution_spec \<Rightarrow> runner_registry \<Rightarrow> dispatch_plan \<Rightarrow>
   execution_session \<Rightarrow> runner_capabilities \<Rightarrow> physical_outcome \<Rightarrow> (dispatch_table \<times> dispatch_state) exc" where
  "dispatch_record_observed h seen tbl iid expected spec registry plan session runner b =
     ebind (dispatch_load h seen iid) (\<lambda>current.
     if dispatch_digest h current \<noteq> expected then Inl (DispatchIntentError ''stale durable dispatch intent state'')
     else if ds_status current \<noteq> ''submission_unknown''
     then Inl (DispatchIntentError ''provider observation requires submission_unknown state'')
     else ebind (verify_physical_outcome h spec registry plan session runner b) (\<lambda>ok.
     if \<not> ok then Inl (DispatchIntentError ''physical outcome does not verify'')
     else if \<not> outcome_of_intent h (ds_intent current) b
     then Inl (DispatchIntentError ''physical outcome does not belong to durable dispatch intent'')
     else ebind (dispatch_state_init (observed_state h current b)) (dispatch_commit h tbl current)))"

section \<open>Recovery\<close>

definition dispatch_recovery_item_of :: "hash \<Rightarrow> dispatch_state \<Rightarrow> dispatch_recovery_item exc" where
  "dispatch_recovery_item_of h s =
     ebind (recovery_action (ds_status s)) (\<lambda>action. let i = ds_intent s in
     dispatch_recovery_item_init
       \<lparr>ri_intent_id = intent_id h i, ri_state_digest = dispatch_digest h s, ri_status = ds_status s,
        ri_invocation_id = di_invocation_id i, ri_request_digest = di_request_digest i,
        ri_runner_id = di_runner_id i, ri_lease_id = di_lease_id i, ri_recovery_action = action,
        ri_blind_resubmission_authorized = False, ri_provider_outcome_inferred = False,
        ri_schema_version = ''ge.dispatch-recovery-item.v1''\<rparr>)"

definition recover_dispatch_after_restart :: "hash \<Rightarrow> dispatch_table \<Rightarrow> string \<Rightarrow> dispatch_recovery_report exc" where
  "recover_dispatch_after_restart h tbl runner_id =
     ebind (load_for_runner h tbl runner_id) (\<lambda>states.
     ebind (emap (dispatch_recovery_item_of h) states) (\<lambda>items.
     dispatch_recovery_report_init
       \<lparr>rq_runner_id = runner_id, rq_items = items, rq_prepared_count = status_count ''prepared'' items,
        rq_submission_unknown_count = status_count ''submission_unknown'' items,
        rq_observed_count = status_count ''observed'' items, rq_blind_resubmissions_authorized = 0,
        rq_provider_outcomes_inferred = 0, rq_schema_version = ''ge.dispatch-recovery-report.v1''\<rparr>))"

definition verify_dispatch_recovery :: "hash \<Rightarrow> dispatch_table \<Rightarrow> dispatch_recovery_report \<Rightarrow> bool exc" where
  "verify_dispatch_recovery h tbl report =
     handle is_dispatch_intent_error False
       (ebind (recover_dispatch_after_restart h tbl (rq_runner_id report)) (\<lambda>expected. Inr (report = expected)))"

section \<open>Loading what was written\<close>

lemma initial_state_valid: "valid_intent i \<Longrightarrow> valid_dispatch (initial_dispatch_state i)"
  by (simp add: valid_dispatch_def initial_dispatch_state_def dispatch_state_init_def observed_fields_def)

lemma initial_state_fields [simp]:
  "ds_intent (initial_dispatch_state i) = i" "ds_revision (initial_dispatch_state i) = 0"
  by (simp_all add: initial_dispatch_state_def)

lemma decode_dispatch_row_Inr: "decode_dispatch_row h row = Inr s \<longleftrightarrow>
   deserialize_dispatch_state (dr_state_json row) = Inr s \<and> cas_match h s row"
  by (auto simp: decode_dispatch_row_def cas_match_def ebind_eq_Inr Let_def)

lemma decode_dispatch_valid: "decode_dispatch_row h row = Inr s \<Longrightarrow> valid_dispatch s"
  by (auto simp: decode_dispatch_row_Inr dest: deserialize_dispatch_valid)

lemma decode_written:
  assumes "valid_dispatch s"
  shows "decode_dispatch_row h (dispatch_row_of h s) = Inr s"
    and "cas_match h current r \<Longrightarrow> ds_intent s = ds_intent current \<Longrightarrow> decode_dispatch_row h (cas_set h s r) = Inr s"
  using assms by (simp_all add: decode_dispatch_row_Inr cas_match_def cas_set_def dispatch_row_of_def Let_def
      deserialize_serialize_dispatch)

lemma dispatch_load_valid: "dispatch_load h tbl iid = Inr s \<Longrightarrow> valid_dispatch s \<and> intent_id h (ds_intent s) = iid"
  by (auto simp: dispatch_load_def decode_dispatch_row_Inr cas_match_def dest: deserialize_dispatch_valid
      dest!: select_one_Some split: option.splits)

lemma cas_set_keys [simp]: "dr_intent_id (cas_set h s r) = dr_intent_id r" "dr_lease_id (cas_set h s r) = dr_lease_id r"
  by (simp_all add: cas_set_def)

lemma dispatch_commit_Inr:
  assumes "dispatch_commit h tbl current new = Inr (tbl', s)"
  shows "s = new" and "ds_intent new = ds_intent current" and "ds_revision new = ds_revision current + 1"
    and "ds_previous_state_digest new = Some (dispatch_digest h current)"
    and "dispatch_load h tbl (intent_id h (ds_intent current)) = Inr current"
    and "tbl' = fst (update_where (cas_match h current) (cas_set h new) tbl)"
  using assms
  by (auto simp: dispatch_commit_def dispatch_load_def ebind_eq_Inr case_prod_unfold Let_def split: option.splits if_splits)

lemma dispatch_commit_load:
  assumes "dispatch_commit h tbl current new = Inr (tbl', s)" and "valid_dispatch new"
  shows "dispatch_load h tbl' (intent_id h (ds_intent current)) = Inr new"
proof -
  note c = dispatch_commit_Inr [OF assms(1)]
  obtain row where row: "select_one dr_intent_id (intent_id h (ds_intent current)) tbl = Some row"
      "decode_dispatch_row h row = Inr current"
    using c(5) by (auto simp: dispatch_load_def split: option.splits)
  then have m: "cas_match h current row" by (simp add: decode_dispatch_row_Inr)
  show ?thesis
    unfolding dispatch_load_def c(6) select_one_update [of dr_intent_id, OF cas_set_keys(1)] row
    using m decode_written(2) [OF assms(2) m c(2)] by simp
qed

lemma dispatch_commit_other:
  assumes "dispatch_commit h tbl current new = Inr (tbl', s)" and "k \<noteq> intent_id h (ds_intent current)"
  shows "dispatch_load h tbl' k = dispatch_load h tbl k"
proof (cases "select_one dr_intent_id k tbl")
  case None
  then show ?thesis
    unfolding dispatch_load_def dispatch_commit_Inr(6) [OF assms(1)] select_one_update [of dr_intent_id, OF cas_set_keys(1)] by simp
next
  case (Some row)
  then have "\<not> cas_match h current row" using select_one_Some [OF Some] assms(2) by (simp add: cas_match_def)
  then show ?thesis
    unfolding dispatch_load_def dispatch_commit_Inr(6) [OF assms(1)] select_one_update [of dr_intent_id, OF cas_set_keys(1)]
    using Some by simp
qed

text \<open>The outbox is a compare-and-swap store, as the capacity heads are.\<close>

definition next_revision :: "hash \<Rightarrow> dispatch_state \<Rightarrow> dispatch_state \<Rightarrow> bool" where
  "next_revision h s s' \<longleftrightarrow> ds_intent s' = ds_intent s \<and> ds_revision s' = ds_revision s + 1
     \<and> ds_previous_state_digest s' = Some (dispatch_digest h s)"

interpretation outbox: cas_store "dispatch_load h"
    "\<lambda>tbl k current new. if valid_dispatch new \<and> k = intent_id h (ds_intent current)
       then ebind (dispatch_commit h tbl current new) (\<lambda>(tbl', _). Inr tbl') else Inl AssertionError"
    "\<lambda>s. s" "\<lambda>k. k" "next_revision h" for h
proof unfold_locales
  fix tbl k current new tbl'
  assume "(if valid_dispatch new \<and> k = intent_id h (ds_intent current)
       then ebind (dispatch_commit h tbl current new) (\<lambda>(tbl', _). Inr tbl') else Inl AssertionError) = Inr tbl'"
  then obtain s where c: "valid_dispatch new" "k = intent_id h (ds_intent current)" "dispatch_commit h tbl current new = Inr (tbl', s)"
    by (auto simp: ebind_eq_Inr split: if_splits)
  show "\<exists>u. dispatch_load h tbl k = Inr u \<and> u = current \<and> next_revision h u new"
    using dispatch_commit_Inr [OF c(3)] c(2) by (simp add: next_revision_def)
  show "dispatch_load h tbl' k = Inr new" unfolding c(2) by (rule dispatch_commit_load [OF c(3,1)])
  show "dispatch_load h tbl' k' = dispatch_load h tbl k'" if "k' \<noteq> k" for k'
    using dispatch_commit_other [OF c(3)] that c(2) by simp
qed

section \<open>One revision at a time\<close>

text \<open>The revision the outbox holds for an intent, and the abstract machine on these revisions.\<close>

definition revision_of :: "hash \<Rightarrow> dispatch_table \<Rightarrow> string \<Rightarrow> int option" where
  "revision_of h tbl k = (case dispatch_load h tbl k of Inl _ \<Rightarrow> None | Inr s \<Rightarrow> Some (ds_revision s))"

inductive outbox_move :: "(string \<Rightarrow> int option) \<Rightarrow> (string \<Rightarrow> int option) \<Rightarrow> bool" where
  stay: "outbox_move m m"
| enter: "m k = None \<Longrightarrow> outbox_move m (m(k \<mapsto> 0))"
| advance: "m k = Some n \<Longrightarrow> 0 \<le> n \<Longrightarrow> n < 2 \<Longrightarrow> outbox_move m (m(k \<mapsto> n + 1))"

text \<open>The operations on the table, with whatever was read before.\<close>

inductive outbox_step :: "hash \<Rightarrow> dispatch_table \<Rightarrow> dispatch_table \<Rightarrow> bool" for h where
  prepare: "dispatch_initialize h tbl i = Inr (tbl', s) \<Longrightarrow> valid_intent i \<Longrightarrow> outbox_step h tbl tbl'"
| submit: "begin_submission h seen heads tbl iid expected runner = Inr (tbl', s, p) \<Longrightarrow> outbox_step h tbl tbl'"
| observe: "dispatch_record_observed h seen tbl iid expected spec registry plan session runner b = Inr (tbl', s) \<Longrightarrow>
    outbox_step h tbl tbl'"

lemma revision_of_Some: "revision_of h tbl k = Some n \<longleftrightarrow> (\<exists>s. dispatch_load h tbl k = Inr s \<and> ds_revision s = n)"
  by (auto simp: revision_of_def split: sum.splits)

lemma begin_submission_Inr:
  "begin_submission h seen heads tbl iid expected runner = Inr (tbl', s, p) \<longleftrightarrow>
   (\<exists>current capacity d l. dispatch_load h seen iid = Inr current \<and> dispatch_digest h current = expected \<and>
      ds_status current = ''prepared'' \<and> head_load h heads runner = Inr (capacity, d) \<and>
      validate_intent_against_capacity h (ds_intent current) capacity runner = Inr l \<and>
      dispatch_commit h tbl current (unknown_state h current) = Inr (tbl', s) \<and> s = unknown_state h current \<and> p = permit_of h s)"
proof -
  have init: "dispatch_state_init (unknown_state h current) = Inr (unknown_state h current)" for current
    by (simp add: dispatch_state_init_def unknown_state_def observed_fields_def empty_opt_def dispatch_digest_def sha256_digest_def)
  have permit: "make_permit h (unknown_state h current) = Inr (permit_of h (unknown_state h current))" for current
    by (simp add: make_permit_def unknown_state_def permit_of_def dispatch_permit_init_def Let_def)
  have tail: "ebind (dispatch_commit h tbl current (unknown_state h current)) (\<lambda>(tbl', committed).
      ebind (make_permit h committed) (\<lambda>permit. Inr (tbl', committed, permit))) = Inr (tbl', s, p) \<longleftrightarrow>
    dispatch_commit h tbl current (unknown_state h current) = Inr (tbl', s) \<and> s = unknown_state h current \<and> p = permit_of h s" for current
  proof (cases "dispatch_commit h tbl current (unknown_state h current)")
    case (Inr tc)
    then obtain t where "tc = (t, unknown_state h current)" using dispatch_commit_Inr(1) by (cases tc) blast
    then show ?thesis using Inr permit by auto
  qed simp
  show ?thesis
    unfolding begin_submission_def init ebind_Inr tail ebind_eq_Inr [of "dispatch_load h seen iid"]
      ebind_eq_Inr [of "rethrow is_durable_capacity_error e m" for e m] ebind_eq_Inr [of "validate_intent_against_capacity h i c r" for i c r]
      raise_unless_eq rethrow_eq_Inr split_paired_Ex prod.case
    by blast
qed

lemma begin_submissionI:
  assumes "dispatch_load h seen iid = Inr current" and "ds_status current = ''prepared''"
    and "head_load h heads runner = Inr (capacity, d)"
    and "validate_intent_against_capacity h (ds_intent current) capacity runner = Inr l"
    and "dispatch_commit h tbl current (unknown_state h current) = Inr (tbl', unknown_state h current)"
  shows "begin_submission h seen heads tbl iid (dispatch_digest h current) runner
    = Inr (tbl', unknown_state h current, permit_of h (unknown_state h current))"
  unfolding begin_submission_Inr using assms by blast

lemma unknown_state_valid: "valid_dispatch current \<Longrightarrow> valid_dispatch (unknown_state h current)"
  by (simp add: valid_dispatch_def dispatch_state_init_def unknown_state_def observed_fields_def empty_opt_def
      dispatch_digest_def sha256_digest_def)

lemma record_observed_Inr:
  assumes "dispatch_record_observed h seen tbl iid expected spec registry plan session runner b = Inr (tbl', s)"
  obtains current where "dispatch_load h seen iid = Inr current" and "dispatch_digest h current = expected"
    and "ds_status current = ''submission_unknown''"
    and "verify_physical_outcome h spec registry plan session runner b = Inr True"
    and "outcome_of_intent h (ds_intent current) b"
    and "dispatch_state_init (observed_state h current b) = Inr (observed_state h current b)"
    and "dispatch_commit h tbl current (observed_state h current b) = Inr (tbl', s)"
proof -
  obtain current new where c: "dispatch_load h seen iid = Inr current" "dispatch_digest h current = expected"
      "ds_status current = ''submission_unknown''"
      "verify_physical_outcome h spec registry plan session runner b = Inr True" "outcome_of_intent h (ds_intent current) b"
      "dispatch_state_init (observed_state h current b) = Inr new" "dispatch_commit h tbl current new = Inr (tbl', s)"
    using assms by (auto simp: dispatch_record_observed_def ebind_eq_Inr split: if_splits)
  with dispatch_state_init_same [OF c(6)] show thesis using that by simp
qed

lemma observed_state_valid:
  "valid_dispatch current \<Longrightarrow> dispatch_state_init (observed_state h current b) = Inr (observed_state h current b) \<Longrightarrow>
   valid_dispatch (observed_state h current b)"
  by (simp add: valid_dispatch_def observed_state_def Let_def)

lemma commit_moves:
  assumes "dispatch_commit h tbl current new = Inr (tbl', s)" and "valid_dispatch current" and "valid_dispatch new"
  shows "outbox_move (revision_of h tbl) (revision_of h tbl')"
    and "revision_of h tbl' (intent_id h (ds_intent current)) = Some (ds_revision current + 1)"
proof -
  let ?k = "intent_id h (ds_intent current)"
  note c = dispatch_commit_Inr [OF assms(1)]
  have old: "revision_of h tbl ?k = Some (ds_revision current)" using c(5) by (simp add: revision_of_Some)
  have new: "revision_of h tbl' ?k = Some (ds_revision current + 1)"
    using dispatch_commit_load [OF assms(1,3)] c(3) by (simp add: revision_of_Some)
  then have "revision_of h tbl' = (revision_of h tbl)(?k \<mapsto> ds_revision current + 1)"
    using dispatch_commit_other [OF assms(1)] by (auto simp: revision_of_def fun_eq_iff)
  moreover have "ds_revision current \<in> {0, 1, 2}" "ds_revision current + 1 \<in> {0, 1, 2}"
    using dispatch_state_status(2) [of current] dispatch_state_status(2) [of new] assms(2,3) c(3) by (auto simp: valid_dispatch_def)
  ultimately show "outbox_move (revision_of h tbl) (revision_of h tbl')"
    using outbox_move.advance [of "revision_of h tbl" ?k "ds_revision current"] old by auto
  show "revision_of h tbl' ?k = Some (ds_revision current + 1)" by (rule new)
qed

lemma initialize_Inr:
  assumes "dispatch_initialize h tbl i = Inr (tbl', s)"
  shows "s = initial_dispatch_state i \<and>
    (tbl' = tbl \<and> dispatch_load h tbl (intent_id h i) = Inr s \<or>
     select_one dr_intent_id (intent_id h i) tbl = None \<and> select_one dr_lease_id (di_lease_id i) tbl = None
       \<and> tbl' = tbl @ [dispatch_row_of h s])"
  using assms
  by (auto simp: dispatch_initialize_def dispatch_load_def Let_def ebind_eq_Inr insert_unique_Inr split: option.splits if_splits)

lemma dispatch_load_append:
  assumes "select_one dr_intent_id (intent_id h (ds_intent s)) tbl = None" and "valid_dispatch s"
  shows "dispatch_load h (tbl @ [dispatch_row_of h s]) k =
    (if k = intent_id h (ds_intent s) then Inr s else dispatch_load h tbl k)"
proof -
  have "dr_intent_id (dispatch_row_of h s) = intent_id h (ds_intent s)" by (simp add: dispatch_row_of_def Let_def)
  then show ?thesis
    using assms decode_written(1) [OF assms(2)] by (auto simp: dispatch_load_def select_one_append split: option.splits)
qed

lemma initialize_load:
  assumes "dispatch_initialize h tbl i = Inr (tbl', s)" and "valid_intent i"
  shows "dispatch_load h tbl' (intent_id h i) = Inr s"
  using initialize_Inr [OF assms(1)] dispatch_load_append [of h s tbl "intent_id h i"] initial_state_valid [OF assms(2)] by auto

lemma initialize_moves:
  assumes "dispatch_initialize h tbl i = Inr (tbl', s)" and "valid_intent i"
  shows "outbox_move (revision_of h tbl) (revision_of h tbl')"
proof (cases "tbl' = tbl")
  case True
  then show ?thesis by (simp add: outbox_move.stay)
next
  case False
  have s: "s = initial_dispatch_state i" "valid_dispatch s" using initialize_Inr [OF assms(1)] initial_state_valid [OF assms(2)] by auto
  have fresh: "select_one dr_intent_id (intent_id h (ds_intent s)) tbl = None" and tbl': "tbl' = tbl @ [dispatch_row_of h s]"
    using initialize_Inr [OF assms(1)] False by auto
  have "revision_of h tbl' = (revision_of h tbl)(intent_id h i \<mapsto> 0)"
    unfolding tbl' revision_of_def using dispatch_load_append [OF fresh s(2)] s(1) by (auto simp: fun_eq_iff)
  moreover have "revision_of h tbl (intent_id h i) = None"
    using fresh s(1) by (simp add: revision_of_def dispatch_load_def)
  ultimately show ?thesis using outbox_move.enter by metis
qed

lemma outbox_step_moves: "outbox_step h tbl tbl' \<Longrightarrow> outbox_move (revision_of h tbl) (revision_of h tbl')"
proof (induction rule: outbox_step.induct)
  case (prepare tbl i tbl' s)
  then show ?case by (rule initialize_moves)
next
  case (submit seen heads tbl iid expected runner tbl' s p)
  then obtain current where "dispatch_load h seen iid = Inr current" "dispatch_commit h tbl current (unknown_state h current) = Inr (tbl', s)"
    unfolding begin_submission_Inr by blast
  then show ?case using commit_moves(1) dispatch_load_valid unknown_state_valid by blast
next
  case (observe seen tbl iid expected spec registry plan session runner b tbl' s)
  then obtain current where "dispatch_load h seen iid = Inr current"
      "dispatch_state_init (observed_state h current b) = Inr (observed_state h current b)"
      "dispatch_commit h tbl current (observed_state h current b) = Inr (tbl', s)"
    by (rule record_observed_Inr)
  then show ?case using commit_moves(1) dispatch_load_valid observed_state_valid by blast
qed

text \<open>Revisions never go back.\<close>

lemma outbox_move_mono: "outbox_move m m' \<Longrightarrow> m k = Some n \<Longrightarrow> \<exists>n'\<ge>n. m' k = Some n'"
proof (induction rule: outbox_move.induct)
  case (advance m j i)
  then show ?case by (cases "j = k") auto
qed auto

lemma outbox_steps_mono: "(outbox_step h)\<^sup>*\<^sup>* tbl tbl' \<Longrightarrow> revision_of h tbl k = Some n \<Longrightarrow> \<exists>n'\<ge>n. revision_of h tbl' k = Some n'"
proof (induction rule: rtranclp_induct)
  case (step tbl' tbl'')
  then obtain n' where n': "n' \<ge> n" "revision_of h tbl' k = Some n'" by blast
  obtain n'' where "n'' \<ge> n'" "revision_of h tbl'' k = Some n''" using outbox_move_mono [OF outbox_step_moves [OF step(2)] n'(2)] by blast
  then show ?case using n' by (intro exI [of _ n'']) simp
qed blast

lemma begin_submission_revision:
  assumes "begin_submission h seen heads tbl iid expected runner = Inr (tbl', s, p)"
  shows "revision_of h tbl iid = Some 0" and "revision_of h tbl' iid = Some 1"
proof -
  obtain current where c: "dispatch_load h seen iid = Inr current" "ds_status current = ''prepared''"
      "dispatch_commit h tbl current (unknown_state h current) = Inr (tbl', s)"
    using assms unfolding begin_submission_Inr by blast
  have v: "valid_dispatch current" "intent_id h (ds_intent current) = iid" using dispatch_load_valid [OF c(1)] by auto
  then have "ds_revision current = 0" using dispatch_state_status(3) [of current] c(2) by (simp add: valid_dispatch_def)
  then show "revision_of h tbl iid = Some 0" "revision_of h tbl' iid = Some 1"
    using dispatch_commit_Inr(5) [OF c(3)] commit_moves(2) [OF c(3) v(1) unknown_state_valid [OF v(1)]] v(2)
    by (simp_all add: revision_of_Some)
qed

section \<open>Preparing and submitting\<close>

lemma find_lease_Inr: "dispatch_find_lease h s lid ldig = Inr l \<longleftrightarrow>
   filter (\<lambda>l. lease_id h l = lid \<and> lease_digest h l = ldig) (active_leases h s) = [l]"
  by (auto simp: dispatch_find_lease_def split: list.splits)

lemma prepare_Inr:
  assumes "prepare_dispatch_intent h s runner l a = Inr i"
  shows "i = intent_for h s runner l a" and "valid_intent i"
    and "validate_intent_against_capacity h i s runner = Inr l"
proof -
  have p: "verify_capacity_state h s runner = Inr True" "dispatch_find_lease h s (lease_id h l) (lease_digest h l) = Inr l"
      "dispatch_intent_init (intent_for h s runner l a) = Inr i"
      "cl_authorization_id l = authorization_id h a \<and> cl_authorization_digest l = authorization_digest h a
       \<and> cl_invocation_id l = aq_invocation_id (pa_request a) \<and> cl_physical_attempt l = pa_physical_attempt a"
    using assms by (auto simp: prepare_dispatch_intent_def ebind_eq_Inr Let_def split: if_splits)
  then show i: "i = intent_for h s runner l a" by (simp add: dispatch_intent_init_eq)
  show "valid_intent i"
    using p(3) i by (simp add: valid_intent_def intent_for_def Let_def)
  show "validate_intent_against_capacity h i s runner = Inr l"
    unfolding i validate_intent_against_capacity_def using p(1,2,4) by (simp add: intent_for_def Let_def)
qed

lemma begin_after_initialize:
  assumes "dispatch_initialize h tbl i = Inr (tbl', s)" and "select_one dr_intent_id (intent_id h i) tbl = None" and "valid_intent i"
  shows "\<exists>tbl''. dispatch_commit h tbl' s (unknown_state h s) = Inr (tbl'', unknown_state h s)"
proof -
  have s: "s = initial_dispatch_state i" "tbl' = tbl @ [dispatch_row_of h s]"
    using initialize_Inr [OF assms(1)] assms(2) by (auto simp: dispatch_load_def)
  have keyed: "\<not> cas_match h s r" if "r \<in> set tbl" for r
    using that assms(2) s(1) by (auto simp: select_one_None cas_match_def)
  have "cas_match h s (dispatch_row_of h s)" by (simp add: cas_match_def dispatch_row_of_def Let_def)
  then have count: "snd (update_where (cas_match h s) (cas_set h (unknown_state h s)) tbl') = 1"
    using keyed by (simp add: update_where_def s(2))
  have load: "dispatch_load h tbl' (intent_id h (ds_intent s)) = Inr s"
    using initialize_load [OF assms(1,3)] s(1) by simp
  obtain row where "select_one dr_intent_id (intent_id h (ds_intent s)) tbl' = Some row" "decode_dispatch_row h row = Inr s"
    using load by (auto simp: dispatch_load_def split: option.splits)
  then show ?thesis
    using count s(1) by (simp add: dispatch_commit_def case_prod_unfold Let_def) (simp add: unknown_state_def)
qed

section \<open>What recovery reports\<close>

lemma recovery_item:
  assumes "valid_dispatch s"
  shows "\<exists>r. dispatch_recovery_item_of h s = Inr r \<and> ri_intent_id r = intent_id h (ds_intent s) \<and> ri_state_digest r = dispatch_digest h s \<and>
    ri_status r = ds_status s \<and> ri_runner_id r = di_runner_id (ds_intent s) \<and>
    Inr (ri_recovery_action r) = recovery_action (ds_status s) \<and>
    \<not> ri_blind_resubmission_authorized r \<and> \<not> ri_provider_outcome_inferred r"
proof -
  have "ds_status s \<in> {''prepared'', ''submission_unknown'', ''observed''}"
    using dispatch_state_status(1) [of s] assms by (simp add: valid_dispatch_def status_at_def)
  then show ?thesis
    by (auto simp: dispatch_recovery_item_of_def recovery_action_def dispatch_recovery_item_init_def Let_def)
qed

definition item_of :: "hash \<Rightarrow> dispatch_state \<Rightarrow> dispatch_recovery_item" where
  "item_of h s = (case dispatch_recovery_item_of h s of Inr r \<Rightarrow> r | Inl _ \<Rightarrow> undefined)"

lemma item_of:
  assumes "valid_dispatch s"
  shows "dispatch_recovery_item_of h s = Inr (item_of h s)" "ri_intent_id (item_of h s) = intent_id h (ds_intent s)"
    "ri_state_digest (item_of h s) = dispatch_digest h s" "ri_status (item_of h s) = ds_status s"
    "ri_runner_id (item_of h s) = di_runner_id (ds_intent s)" "Inr (ri_recovery_action (item_of h s)) = recovery_action (ds_status s)"
    "\<not> ri_blind_resubmission_authorized (item_of h s)" "\<not> ri_provider_outcome_inferred (item_of h s)"
  using recovery_item [OF assms, of h] by (auto simp: item_of_def)

lemma emap_decode_valid: "emap (decode_dispatch_row h) rows = Inr ss \<Longrightarrow> \<forall>s\<in>set ss. valid_dispatch s"
  by (induction rows arbitrary: ss) (auto simp: ebind_eq_Inr dest: decode_dispatch_valid)

lemma emap_Inr_iff: "(\<exists>ys. emap f xs = Inr ys) \<longleftrightarrow> (\<forall>x\<in>set xs. \<exists>y. f x = Inr y)"
  by (induction xs) (auto simp: ebind_def split: sum.splits)

lemma load_for_runner_Inr:
  assumes "load_for_runner h tbl runner_id = Inr states"
  shows "\<forall>s\<in>set states. valid_dispatch s \<and> di_runner_id (ds_intent s) = runner_id"
  using assms emap_decode_valid by (auto simp: load_for_runner_def ebind_eq_Inr)

lemma recover_dispatch_Inr:
  assumes "load_for_runner h tbl runner_id = Inr states"
  shows "\<exists>report. recover_dispatch_after_restart h tbl runner_id = Inr report \<and> rq_items report = map (item_of h) states \<and>
    rq_runner_id report = runner_id \<and> rq_blind_resubmissions_authorized report = 0 \<and> rq_provider_outcomes_inferred report = 0 \<and>
    rq_prepared_count report = status_count ''prepared'' (rq_items report) \<and>
    rq_submission_unknown_count report = status_count ''submission_unknown'' (rq_items report) \<and>
    rq_observed_count report = status_count ''observed'' (rq_items report)"
proof -
  note v = load_for_runner_Inr [OF assms]
  have "emap (dispatch_recovery_item_of h) ss = Inr (map (item_of h) ss)" if "\<forall>s\<in>set ss. valid_dispatch s" for ss
    using that by (induction ss) (auto simp: item_of(1))
  then have "emap (dispatch_recovery_item_of h) states = Inr (map (item_of h) states)" using v by blast
  moreover have "\<not> list_ex (\<lambda>i. ri_runner_id i \<noteq> runner_id) (map (item_of h) states)"
    using v item_of(5) by (auto simp: list_ex_iff)
  ultimately show ?thesis
    using assms by (simp add: recover_dispatch_after_restart_def dispatch_recovery_report_init_def)
qed

section \<open>An example\<close>

definition ex_intent :: "hash \<Rightarrow> dispatch_intent" where
  "ex_intent h = intent_for h (ex_reserved h) ex_runner (ex_lease h) (ex_authorization h)"

lemma ex_request_runner: "aq_runner_id (ex_request h) = rc_runner_id ex_runner" "aq_runner_capability_digest (ex_request h) = runner_digest h ex_runner"
  by (simp_all add: ex_request_def) (simp add: ex_runner_def)

lemma ex_prepare: "prepare_dispatch_intent h (ex_reserved h) ex_runner (ex_lease h) (ex_authorization h) = Inr (ex_intent h)"
proof -
  have verify: "verify_capacity_state h (ex_reserved h) ex_runner = Inr True" by (simp add: verify_capacity_state_True ex_reserved(2))
  have find: "dispatch_find_lease h (ex_reserved h) (lease_id h (ex_lease h)) (lease_digest h (ex_lease h)) = Inr (ex_lease h)"
    by (simp add: find_lease_Inr ex_reserved(3))
  have req: "pa_request (ex_authorization h) = ex_request h" by (simp add: ex_authorization_def)
  have fields: "cl_slot (ex_lease h) = 0" "cl_session_id (ex_lease h) = aq_session_id (ex_request h)"
      "cl_logical_attempt (ex_lease h) = aq_attempt (ex_request h)" "cl_runner_id (ex_lease h) = rc_runner_id ex_runner"
      "cl_runner_capability_digest (ex_lease h) = runner_digest h ex_runner"
      "cl_authorization_id (ex_lease h) = authorization_id h (ex_authorization h)"
      "cl_authorization_digest (ex_lease h) = authorization_digest h (ex_authorization h)"
      "cl_invocation_id (ex_lease h) = aq_invocation_id (ex_request h)"
      "cl_physical_attempt (ex_lease h) = pa_physical_attempt (ex_authorization h)"
    by (simp_all add: ex_lease_def req)
  have "pa_physical_attempt (ex_authorization h) = 1" "aq_attempt (ex_request h) = 1" "aq_invocation_id (ex_request h) \<noteq> []"
      "aq_session_id (ex_request h) \<noteq> []" "rc_runner_id ex_runner \<noteq> []"
    by (simp_all add: ex_authorization_def ex_request_def session_id_def stable_id_def ex_runner_def)
  then have "dispatch_intent_init (ex_intent h) = Inr (ex_intent h)"
    by (simp add: dispatch_intent_init_eq ex_intent_def intent_for_def Let_def fields req runner_digest_def lease_id_def lease_digest_def
        stable_id_def sha256_digest_def authorization_id_def authorization_digest_def request_digest_def state_digest_def)
  then show ?thesis
    by (simp add: prepare_dispatch_intent_def verify find Let_def fields req ex_request_runner) (simp add: ex_intent_def)
qed

definition ex_reserved_heads :: "hash \<Rightarrow> head_store" where
  "ex_reserved_heads h = (ex_heads h)(rc_runner_id ex_runner \<mapsto> stored_row h (ex_reserved h))"

lemma ex_reserved_heads: "head_load h (ex_reserved_heads h) ex_runner = Inr (ex_reserved h, stored_head h (ex_reserved h))"
  using ex_reserved_valid ex_reserved(2) by (simp add: head_load_def ex_reserved_heads_def decode_stored_row)

definition ex_prepared :: "hash \<Rightarrow> dispatch_state" where
  "ex_prepared h = initial_dispatch_state (ex_intent h)"

lemma ex_initialize: "dispatch_initialize h [] (ex_intent h) = Inr ([dispatch_row_of h (ex_prepared h)], ex_prepared h)"
  by (simp add: dispatch_initialize_def select_one_def insert_unique_def ex_prepared_def Let_def)

lemma ex_begin: "\<exists>tbl. begin_submission h [dispatch_row_of h (ex_prepared h)] (ex_reserved_heads h) [dispatch_row_of h (ex_prepared h)]
     (intent_id h (ex_intent h)) (dispatch_digest h (ex_prepared h)) ex_runner
   = Inr (tbl, unknown_state h (ex_prepared h), permit_of h (unknown_state h (ex_prepared h)))"
proof -
  note p = prepare_Inr [OF ex_prepare]
  have load: "dispatch_load h [dispatch_row_of h (ex_prepared h)] (intent_id h (ex_intent h)) = Inr (ex_prepared h)"
    by (rule initialize_load [OF ex_initialize p(2)])
  have i: "ds_intent (ex_prepared h) = ex_intent h" "ds_status (ex_prepared h) = ''prepared''"
    by (simp_all add: ex_prepared_def) (simp add: initial_dispatch_state_def)
  obtain tbl where "dispatch_commit h [dispatch_row_of h (ex_prepared h)] (ex_prepared h) (unknown_state h (ex_prepared h))
      = Inr (tbl, unknown_state h (ex_prepared h))"
    using begin_after_initialize [OF ex_initialize _ p(2)] by (auto simp: select_one_def)
  note commit = this
  have valid: "validate_intent_against_capacity h (ds_intent (ex_prepared h)) (ex_reserved h) ex_runner = Inr (ex_lease h)"
    unfolding i(1) by (rule p(3))
  show ?thesis by (rule exI, rule begin_submissionI [OF load i(2) ex_reserved_heads valid commit])
qed

section \<open>Properties\<close>

text \<open>C12: The outbox refines an abstract machine: whatever was read beforehand, an operation that succeeds
  either leaves every intent's durable revision alone, enters a new intent at revision 0, or moves
  exactly one intent one revision further, never beyond 2.\<close>

theorem outbox_refines:
  assumes "outbox_step h tbl tbl'"
  shows "outbox_move (revision_of h tbl) (revision_of h tbl')"
  using assms by (rule outbox_step_moves)

theorem outbox_refines_witness:
  "outbox_move (revision_of (\<lambda>t. t) []) (revision_of (\<lambda>t. t) [dispatch_row_of (\<lambda>t. t) (ex_prepared (\<lambda>t. t))])"
  by (rule outbox_refines [OF outbox_step.prepare [OF ex_initialize prepare_Inr(2) [OF ex_prepare]]])

text \<open>C5: Submission begins at most once: after \<open>begin_submission\<close> has succeeded for an intent, it fails
  for that intent on every later table, whatever table and capacity head the caller had read.\<close>

theorem submission_begins_once:
  assumes "begin_submission h seen heads tbl iid expected runner = Inr (tbl', s, p)"
    and "(outbox_step h)\<^sup>*\<^sup>* tbl' later"
  shows "\<exists>e. begin_submission h seen' heads' later iid expected' runner' = Inl e"
proof (cases "begin_submission h seen' heads' later iid expected' runner'")
  case (Inr r)
  obtain tbl'' s' p' where r: "begin_submission h seen' heads' later iid expected' runner' = Inr (tbl'', s', p')"
    using Inr by (cases r) simp
  obtain n where "1 \<le> n" "revision_of h later iid = Some n"
    using outbox_steps_mono [OF assms(2) begin_submission_revision(2) [OF assms(1)]] by blast
  with begin_submission_revision(1) [OF r] show ?thesis by simp
qed simp

theorem submission_begins_once_witness:
  "\<exists>tbl e. begin_submission (\<lambda>t. t) [dispatch_row_of (\<lambda>t. t) (ex_prepared (\<lambda>t. t))] (ex_reserved_heads (\<lambda>t. t)) tbl
     (intent_id (\<lambda>t. t) (ex_intent (\<lambda>t. t))) (dispatch_digest (\<lambda>t. t) (ex_prepared (\<lambda>t. t))) ex_runner = Inl e"
proof -
  obtain tbl where b: "begin_submission (\<lambda>t. t) [dispatch_row_of (\<lambda>t. t) (ex_prepared (\<lambda>t. t))] (ex_reserved_heads (\<lambda>t. t))
     [dispatch_row_of (\<lambda>t. t) (ex_prepared (\<lambda>t. t))] (intent_id (\<lambda>t. t) (ex_intent (\<lambda>t. t))) (dispatch_digest (\<lambda>t. t) (ex_prepared (\<lambda>t. t))) ex_runner
   = Inr (tbl, unknown_state (\<lambda>t. t) (ex_prepared (\<lambda>t. t)), permit_of (\<lambda>t. t) (unknown_state (\<lambda>t. t) (ex_prepared (\<lambda>t. t))))"
    using ex_begin by blast
  show ?thesis using submission_begins_once [OF b rtranclp.rtrancl_refl] by blast
qed

text \<open>A prepared intent can be submitted: an intent prepared for an active lease of the loaded
  capacity head can be entered into an outbox that knows neither the intent nor the lease, its
  submission can begin, and the permit that is returned verifies.\<close>

theorem prepared_intent_submits:
  assumes "head_load h heads runner = Inr (s, d)" and "prepare_dispatch_intent h s runner l a = Inr i"
    and "select_one dr_intent_id (intent_id h i) tbl = None" and "select_one dr_lease_id (di_lease_id i) tbl = None"
  shows "\<exists>tbl' tbl'' st p. dispatch_initialize h tbl i = Inr (tbl', initial_dispatch_state i) \<and>
    begin_submission h tbl' heads tbl' (intent_id h i) (dispatch_digest h (initial_dispatch_state i)) runner = Inr (tbl'', st, p) \<and>
    ds_status st = ''submission_unknown'' \<and> dispatch_load h tbl'' (intent_id h i) = Inr st \<and>
    verify_dispatch_permit h st p = Inr True"
proof -
  let ?s = "initial_dispatch_state i" let ?u = "unknown_state h ?s"
  note p = prepare_Inr [OF assms(2)]
  obtain tbl' where init: "dispatch_initialize h tbl i = Inr (tbl', ?s)"
    using assms(3,4) by (simp add: dispatch_initialize_def insert_unique_Inr Let_def ebind_def insert_unique_def select_one_None
        list_ex_iff dispatch_row_of_def)
  obtain tbl'' where commit: "dispatch_commit h tbl' ?s ?u = Inr (tbl'', ?u)"
    using begin_after_initialize [OF init assms(3) p(2)] by blast
  have "ds_status ?s = ''prepared''" by (simp add: initial_dispatch_state_def)
  then have begin_ok: "begin_submission h tbl' heads tbl' (intent_id h i) (dispatch_digest h ?s) runner = Inr (tbl'', ?u, permit_of h ?u)"
    using begin_submissionI [OF initialize_load [OF init p(2)] _ assms(1) _ commit] p(3) by simp
  have "verify_dispatch_permit h ?u (permit_of h ?u) = Inr True"
    by (simp add: verify_dispatch_permit_def make_permit_def dispatch_permit_init_def permit_of_def Let_def) (simp add: unknown_state_def)
  moreover have "dispatch_load h tbl'' (intent_id h i) = Inr ?u"
    using dispatch_commit_load [OF commit unknown_state_valid [OF initial_state_valid [OF p(2)]]] by simp
  ultimately show ?thesis using init begin_ok by (metis (no_types) unknown_state_def dispatch_state.select_convs(2))
qed

theorem prepared_intent_submits_witness:
  "\<exists>tbl' st. dispatch_load (\<lambda>t. t) tbl' (intent_id (\<lambda>t. t) (ex_intent (\<lambda>t. t))) = Inr st \<and> ds_status st = ''submission_unknown''"
proof -
  have "select_one dr_intent_id (intent_id (\<lambda>t. t) (ex_intent (\<lambda>t. t))) [] = None" "select_one dr_lease_id (di_lease_id (ex_intent (\<lambda>t. t))) [] = None"
    by (simp_all add: select_one_def)
  from prepared_intent_submits [OF ex_reserved_heads ex_prepare this] show ?thesis by blast
qed

text \<open>Dispatch recovery reports exactly the runner's durable states: one item per state, in the order
  of the intent identifiers, that says to begin a submission at revision 0, to reconcile with the
  provider at revision 1 and to do nothing at revision 2; it authorises no blind
  resubmission, infers no outcome, and the report verifies against the table.\<close>

theorem dispatch_recovery_exact:
  assumes "load_for_runner h tbl runner_id = Inr states"
  shows "\<exists>report. recover_dispatch_after_restart h tbl runner_id = Inr report \<and>
    map ri_state_digest (rq_items report) = map (dispatch_digest h) states \<and>
    map ri_recovery_action (rq_items report) = map (\<lambda>s. if ds_revision s = 0 then ''begin_submission''
      else if ds_revision s = 1 then ''reconcile_provider'' else ''none'') states \<and>
    list_all (\<lambda>r. ri_runner_id r = runner_id \<and> \<not> ri_blind_resubmission_authorized r \<and> \<not> ri_provider_outcome_inferred r) (rq_items report) \<and>
    rq_prepared_count report + rq_submission_unknown_count report + rq_observed_count report = int (length states) \<and>
    verify_dispatch_recovery h tbl report = Inr True"
proof -
  note v = load_for_runner_Inr [OF assms]
  obtain report where r: "recover_dispatch_after_restart h tbl runner_id = Inr report" "rq_items report = map (item_of h) states"
      "rq_runner_id report = runner_id" "rq_prepared_count report = status_count ''prepared'' (rq_items report)"
      "rq_submission_unknown_count report = status_count ''submission_unknown'' (rq_items report)"
      "rq_observed_count report = status_count ''observed'' (rq_items report)"
    using recover_dispatch_Inr [OF assms] by blast
  have "verify_dispatch_recovery h tbl report = Inr True" using r(1,3) by (simp add: verify_dispatch_recovery_def)
  moreover have "status_count ''prepared'' (map (item_of h) ss) + status_count ''submission_unknown'' (map (item_of h) ss)
      + status_count ''observed'' (map (item_of h) ss) = int (length ss)" if "\<forall>s\<in>set ss. valid_dispatch s" for ss
    using that
  proof (induction ss)
    case (Cons s ss)
    have "ds_status s \<in> {''prepared'', ''submission_unknown'', ''observed''}"
      using dispatch_state_status(1) [of s] Cons.prems by (simp add: valid_dispatch_def status_at_def)
    then show ?case using Cons item_of(4) [of s h] by (auto simp: status_count_def)
  qed (simp add: status_count_def)
  moreover have "ri_recovery_action (item_of h s) = (if ds_revision s = 0 then ''begin_submission''
      else if ds_revision s = 1 then ''reconcile_provider'' else ''none'')" if "valid_dispatch s" for s
    using item_of(6) [OF that, of h] dispatch_state_status(1) [of s] that
    by (simp add: valid_dispatch_def status_at_def recovery_action_def split: if_splits)
  ultimately show ?thesis
    using r v item_of by (intro exI [of _ report]) (auto simp: list_all_iff)
qed

theorem dispatch_recovery_exact_witness:
  "\<exists>report. recover_dispatch_after_restart (\<lambda>t. t) [dispatch_row_of (\<lambda>t. t) (ex_prepared (\<lambda>t. t))] ''r1'' = Inr report \<and>
     length (rq_items report) = 1"
proof -
  have v: "valid_dispatch (ex_prepared (\<lambda>t. t))"
    using initial_state_valid [OF prepare_Inr(2) [OF ex_prepare]] by (simp add: ex_prepared_def)
  have "di_runner_id (ds_intent (ex_prepared (\<lambda>t. t))) = ''r1''"
    by (simp add: ex_prepared_def ex_intent_def intent_for_def Let_def) (simp add: ex_runner_def)
  then have "load_for_runner (\<lambda>t. t) [dispatch_row_of (\<lambda>t. t) (ex_prepared (\<lambda>t. t))] ''r1'' = Inr [ex_prepared (\<lambda>t. t)]"
    by (simp add: load_for_runner_def decode_written(1) [OF v])
  from dispatch_recovery_exact [OF this] show ?thesis by (metis length_map length_Cons list.size(3) One_nat_def)
qed

text \<open>C14: Corruption cannot hide an intent: if any row of the outbox fails to decode, whichever runner its
  columns name, recovery fails for every runner instead of reporting the remaining rows.\<close>

theorem corrupt_row_blocks_recovery:
  assumes "row \<in> set tbl" and "decode_dispatch_row h row = Inl e"
  shows "\<exists>e'. recover_dispatch_after_restart h tbl runner_id = Inl e'"
proof -
  have "\<nexists>ss. emap (decode_dispatch_row h) (sort_key dr_intent_id tbl) = Inr ss"
    unfolding emap_Inr_iff using assms by (metis Inl_Inr_False set_sort)
  then obtain e' where "emap (decode_dispatch_row h) (sort_key dr_intent_id tbl) = Inl e'"
    by (cases "emap (decode_dispatch_row h) (sort_key dr_intent_id tbl)") auto
  then show ?thesis by (simp add: recover_dispatch_after_restart_def load_for_runner_def)
qed

theorem corrupt_row_blocks_recovery_witness:
  "\<exists>e. recover_dispatch_after_restart (\<lambda>t. t)
     [dispatch_row_of (\<lambda>t. t) (ex_prepared (\<lambda>t. t)), (dispatch_row_of (\<lambda>t. t) (ex_prepared (\<lambda>t. t)))\<lparr>dr_runner_id := ''r2''\<rparr>] ''r1'' = Inl e"
proof -
  have "di_runner_id (ex_intent (\<lambda>t. t)) = ''r1''"
    by (simp add: ex_intent_def intent_for_def Let_def) (simp add: ex_runner_def)
  moreover have "valid_dispatch (ex_prepared (\<lambda>t. t))"
    using initial_state_valid [OF prepare_Inr(2) [OF ex_prepare]] by (simp add: ex_prepared_def)
  ultimately have "\<exists>e. decode_dispatch_row (\<lambda>t. t) ((dispatch_row_of (\<lambda>t. t) (ex_prepared (\<lambda>t. t)))\<lparr>dr_runner_id := ''r2''\<rparr>) = Inl e"
    by (simp add: decode_dispatch_row_def dispatch_row_of_def Let_def ebind_def deserialize_serialize_dispatch ex_prepared_def
        split: sum.splits)
  then show ?thesis using corrupt_row_blocks_recovery by (metis list.set_intros)
qed

end
