(* ===== verification/Dispatch_Guard.thy ===== *)
theory Dispatch_Guard
  imports Outbox
begin

text \<open>
  Live dispatch permits (\<open>dispatch_guard.py\<close>): the permit of the outbox is not transport authority;
  a live permit binds it to the capacity head that is current when it is checked. The lemmas
  characterise when one is granted; the property says that releasing the lease withdraws it.
\<close>

record live_permit =
  lp_intent_id :: string
  lp_intent_digest :: string
  lp_dispatch_state_digest :: string
  lp_dispatch_permit_digest :: string
  lp_runner_id :: string
  lp_runner_capability_digest :: string
  lp_capacity_head_digest :: string
  lp_capacity_state_digest :: string
  lp_capacity_snapshot_digest :: string
  lp_capacity_generation :: int
  lp_lease_id :: string
  lp_lease_digest :: string
  lp_authorization_id :: string
  lp_authorization_digest :: string
  lp_invocation_id :: string
  lp_request_digest :: string
  lp_physical_attempt :: int
  lp_schema_version :: string

definition live_permit_py :: "live_permit \<Rightarrow> pyval" where
  "live_permit_py x = PDict [
    (''intent_id'', PStr (lp_intent_id x)),
    (''intent_digest'', PStr (lp_intent_digest x)),
    (''dispatch_state_digest'', PStr (lp_dispatch_state_digest x)),
    (''dispatch_permit_digest'', PStr (lp_dispatch_permit_digest x)),
    (''runner_id'', PStr (lp_runner_id x)),
    (''runner_capability_digest'', PStr (lp_runner_capability_digest x)),
    (''capacity_head_digest'', PStr (lp_capacity_head_digest x)),
    (''capacity_state_digest'', PStr (lp_capacity_state_digest x)),
    (''capacity_snapshot_digest'', PStr (lp_capacity_snapshot_digest x)),
    (''capacity_generation'', PInt (lp_capacity_generation x)),
    (''lease_id'', PStr (lp_lease_id x)),
    (''lease_digest'', PStr (lp_lease_digest x)),
    (''authorization_id'', PStr (lp_authorization_id x)),
    (''authorization_digest'', PStr (lp_authorization_digest x)),
    (''invocation_id'', PStr (lp_invocation_id x)),
    (''request_digest'', PStr (lp_request_digest x)),
    (''physical_attempt'', PInt (lp_physical_attempt x)),
    (''schema_version'', PStr (lp_schema_version x))]"

definition live_permit_init :: "live_permit \<Rightarrow> live_permit exc" where
  "live_permit_init p =
     (if lp_capacity_generation p < 1 then Inl (ValueError ''live dispatch requires a committed capacity generation'')
      else if lp_physical_attempt p < 1 then Inl (ValueError ''physical_attempt must be >= 1'')
      else ebind (check_present [
        (''intent_id'', lp_intent_id p), (''intent_digest'', lp_intent_digest p),
        (''dispatch_state_digest'', lp_dispatch_state_digest p), (''dispatch_permit_digest'', lp_dispatch_permit_digest p),
        (''runner_id'', lp_runner_id p), (''runner_capability_digest'', lp_runner_capability_digest p),
        (''capacity_head_digest'', lp_capacity_head_digest p), (''capacity_state_digest'', lp_capacity_state_digest p),
        (''capacity_snapshot_digest'', lp_capacity_snapshot_digest p), (''lease_id'', lp_lease_id p),
        (''lease_digest'', lp_lease_digest p), (''authorization_id'', lp_authorization_id p),
        (''authorization_digest'', lp_authorization_digest p), (''invocation_id'', lp_invocation_id p),
        (''request_digest'', lp_request_digest p)]) (\<lambda>_. Inr p))"

definition live_permit_id :: "hash \<Rightarrow> live_permit \<Rightarrow> string" where
  "live_permit_id h p = stable_id h ''geldp'' (live_permit_py p)"

definition live_permit_digest :: "hash \<Rightarrow> live_permit \<Rightarrow> string" where
  "live_permit_digest h p = sha256_digest h (live_permit_py p)"

definition lease_of_intent :: "capacity_lease \<Rightarrow> dispatch_intent \<Rightarrow> bool" where
  "lease_of_intent l i \<longleftrightarrow>
     cl_runner_id l = di_runner_id i \<and> cl_runner_capability_digest l = di_runner_capability_digest i \<and>
     cl_authorization_id l = di_authorization_id i \<and> cl_authorization_digest l = di_authorization_digest i \<and>
     cl_invocation_id l = di_invocation_id i \<and> cl_physical_attempt l = di_physical_attempt i \<and>
     cl_session_id l = di_session_id i \<and> cl_logical_attempt l = di_logical_attempt i"

definition load_active_bound_lease ::
  "hash \<Rightarrow> dispatch_state \<Rightarrow> dispatch_permit \<Rightarrow> head_store \<Rightarrow> runner_capabilities \<Rightarrow>
   (capacity_state \<times> capacity_head \<times> capacity_lease) exc" where
  "load_active_bound_lease h s p heads runner =
     (if ds_status s \<noteq> ''submission_unknown''
      then Inl (DispatchIntentError ''live dispatch requires submission_unknown durable state'')
      else ebind (verify_dispatch_permit h s p) (\<lambda>ok.
      if \<not> ok then Inl (DispatchIntentError ''durable dispatch permit does not reproduce'')
      else ebind (rethrow is_durable_capacity_error (DispatchIntentError ''canonical durable capacity head is unavailable'')
          (head_load h heads runner)) (\<lambda>(capacity, d). let i = ds_intent s in
      if di_runner_id i \<noteq> rc_runner_id runner \<or> di_runner_capability_digest i \<noteq> runner_digest h runner
      then Inl (DispatchIntentError ''dispatch intent runner capabilities changed'')
      else (case filter (\<lambda>l. lease_id h l = di_lease_id i \<and> lease_digest h l = di_lease_digest i) (active_leases h capacity) of
          [l] \<Rightarrow>
            (if \<not> lease_of_intent l i
             then Inl (DispatchIntentError ''active durable capacity lease no longer reproduces dispatch intent'')
             else Inr (capacity, d, l))
        | _ \<Rightarrow> Inl (DispatchIntentError ''dispatch lease is no longer active in canonical durable capacity'')))))"

definition live_permit_of ::
  "hash \<Rightarrow> dispatch_state \<Rightarrow> dispatch_permit \<Rightarrow> runner_capabilities \<Rightarrow> capacity_state \<Rightarrow> capacity_head \<Rightarrow> capacity_lease \<Rightarrow> live_permit" where
  "live_permit_of h s p runner capacity d l = (let i = ds_intent s in
     \<lparr>lp_intent_id = intent_id h i, lp_intent_digest = intent_digest h i, lp_dispatch_state_digest = dispatch_digest h s,
      lp_dispatch_permit_digest = permit_digest h p, lp_runner_id = rc_runner_id runner,
      lp_runner_capability_digest = runner_digest h runner, lp_capacity_head_digest = head_digest h d,
      lp_capacity_state_digest = state_digest h capacity, lp_capacity_snapshot_digest = dh_snapshot_digest d,
      lp_capacity_generation = cs_generation capacity, lp_lease_id = lease_id h l, lp_lease_digest = lease_digest h l,
      lp_authorization_id = di_authorization_id i, lp_authorization_digest = di_authorization_digest i,
      lp_invocation_id = di_invocation_id i, lp_request_digest = di_request_digest i,
      lp_physical_attempt = di_physical_attempt i, lp_schema_version = ''ge.live-dispatch-permit.v1''\<rparr>)"

definition authorize_live_dispatch ::
  "hash \<Rightarrow> dispatch_state \<Rightarrow> dispatch_permit \<Rightarrow> head_store \<Rightarrow> runner_capabilities \<Rightarrow> live_permit exc" where
  "authorize_live_dispatch h s p heads runner =
     ebind (load_active_bound_lease h s p heads runner) (\<lambda>(capacity, d, l).
     live_permit_init (live_permit_of h s p runner capacity d l))"

definition verify_live_dispatch_permit ::
  "hash \<Rightarrow> dispatch_state \<Rightarrow> dispatch_permit \<Rightarrow> live_permit \<Rightarrow> head_store \<Rightarrow> runner_capabilities \<Rightarrow> bool exc" where
  "verify_live_dispatch_permit h s p lp heads runner =
     handle is_value_error False
       (ebind (authorize_live_dispatch h s p heads runner) (\<lambda>expected. Inr (lp = expected)))"

section \<open>When a live permit is granted\<close>

lemma singleton_case: "(case xs of [l] \<Rightarrow> f l | _ \<Rightarrow> Inl e) = Inr y \<longleftrightarrow> (\<exists>l. xs = [l] \<and> f l = Inr y)"
  by (cases xs rule: remdups_adj.cases) auto

lemma verify_permit_eq: "verify_dispatch_permit h s p = Inr (ds_status s = ''submission_unknown'' \<and> p = permit_of h s)"
  by (auto simp: verify_dispatch_permit_def make_permit_def dispatch_permit_init_def permit_of_def Let_def)

lemma load_active_bound_lease_Inr:
  "load_active_bound_lease h s p heads runner = Inr (capacity, d, l) \<longleftrightarrow>
   ds_status s = ''submission_unknown'' \<and> p = permit_of h s \<and> head_load h heads runner = Inr (capacity, d) \<and>
   di_runner_id (ds_intent s) = rc_runner_id runner \<and> di_runner_capability_digest (ds_intent s) = runner_digest h runner \<and>
   filter (\<lambda>l. lease_id h l = di_lease_id (ds_intent s) \<and> lease_digest h l = di_lease_digest (ds_intent s)) (active_leases h capacity) = [l] \<and>
   lease_of_intent l (ds_intent s)"
  unfolding load_active_bound_lease_def Let_def verify_permit_eq
  by (auto simp: ebind_eq_Inr rethrow_eq_Inr singleton_case)

text \<open>Every refusal is a \<open>ValueError\<close> while the head loads.\<close>

lemma load_active_refused:
  assumes "head_load h heads runner = Inr (capacity, d)" and "load_active_bound_lease h s p heads runner = Inl e"
  shows "is_value_error e"
  using assms(2) unfolding load_active_bound_lease_def verify_permit_eq assms(1) ebind_Inr rethrow_Inr prod.case Let_def
  by (auto split: if_splits list.splits)

lemma live_permit_init_refused: "live_permit_init q = Inl e \<Longrightarrow> is_value_error e"
proof -
  have "eall (\<lambda>(name, v). if v = [] then Inl (ValueError (name @ '' must be non-empty'')) else Inr ()) nvs = Inl e \<Longrightarrow> is_value_error e"
    for nvs :: "(string \<times> string) list" by (induction nvs) (auto simp: ebind_eq_Inl split: if_splits)
  then show "live_permit_init q = Inl e \<Longrightarrow> is_value_error e"
    unfolding live_permit_init_def check_present_def by (fastforce simp: ebind_eq_Inl split: if_splits)
qed

lemma verify_live_True:
  "verify_live_dispatch_permit h s p lp heads runner = Inr True \<longleftrightarrow> authorize_live_dispatch h s p heads runner = Inr lp"
  by (cases "authorize_live_dispatch h s p heads runner") (auto simp: verify_live_dispatch_permit_def handle_def)

lemma verify_live_refused:
  assumes "head_load h heads runner = Inr (capacity, d)" and "authorize_live_dispatch h s p heads runner \<noteq> Inr lp"
  shows "verify_live_dispatch_permit h s p lp heads runner = Inr False"
proof (cases "authorize_live_dispatch h s p heads runner")
  case (Inl e)
  have "is_value_error e"
    using Inl load_active_refused [OF assms(1)] live_permit_init_refused
    by (auto simp: authorize_live_dispatch_def ebind_eq_Inl)
  then show ?thesis using Inl by (simp add: verify_live_dispatch_permit_def handle_def)
next
  case (Inr q)
  then show ?thesis using assms(2) by (auto simp: verify_live_dispatch_permit_def)
qed

lemma authorize_live_Inr:
  "authorize_live_dispatch h s p heads runner = Inr lp \<longleftrightarrow> (\<exists>capacity d l.
     load_active_bound_lease h s p heads runner = Inr (capacity, d, l) \<and>
     live_permit_init (live_permit_of h s p runner capacity d l) = Inr lp)"
  by (auto simp: authorize_live_dispatch_def ebind_eq_Inr)

lemma live_permit_init_same: "live_permit_init q = Inr q' \<Longrightarrow> q' = q"
  by (auto simp: live_permit_init_def ebind_eq_Inr split: if_splits)

section \<open>Granted for an active lease, withdrawn with it\<close>

lemma active_filter:
  assumes "committed h runner s" and "l \<in> set (active_leases h s)"
  shows "filter (\<lambda>x. lease_id h x = lease_id h l \<and> lease_digest h x = lease_digest h l) (active_leases h s) = [l]"
  using find_active_lease_Inr [OF assms] find_lease_Inr active_lease_unique [OF assms] by simp

lemma release_withdraws:
  assumes "head_load h heads runner = Inr (s, d)"
    and "release_capacity_for_outcome h s spec registry plan session runner l b = Inr (s', g, t)"
    and "l \<in> set (active_leases h s)"
  shows "l \<notin> set (active_leases h s')" and "active_leases h s' = filter (\<lambda>x. x \<noteq> l) (active_leases h s)"
proof -
  have c: "committed h runner s" by (rule head_load_committed [OF assms(1)])
  have "propose_outcome_release h s spec registry plan session runner l b = Inr t"
    using assms(2) by (auto simp: release_capacity_for_outcome_def ebind_eq_Inr)
  then have ok: "verify_physical_outcome h spec registry plan session runner b = Inr True" "owns h b l"
    by (simp_all add: propose_outcome_release_Inr [OF c assms(3)])
  show "active_leases h s' = filter (\<lambda>x. x \<noteq> l) (active_leases h s)"
    using release_for_outcome_ok [OF c assms(3) ok] assms(2) by (simp add: Let_def)
  then show "l \<notin> set (active_leases h s')" by simp
qed

lemma deserialize_digest_nonempty:
  assumes "deserialize_capacity_snapshot h t runner = Inr (s, dig)"
  shows "dig \<noteq> []"
proof -
  obtain kvs where kvs: "json_loads t = Some (PDict kvs)"
    using assms by (auto simp: deserialize_capacity_snapshot_def split: option.splits pyval.splits)
  obtain v where v: "kw kvs ''snapshot_digest'' PNone = PStr v"
    using assms unfolding deserialize_capacity_snapshot_def kvs option.case pyval.case raise_unless_eq ebind_eq_Inr
    by (cases "kw kvs ''snapshot_digest'' PNone") simp_all
  have "sha256_digest h (PDict (filter (\<lambda>kv. fst kv \<noteq> ''snapshot_digest'') kvs)) = v" "dig = v"
    using assms unfolding deserialize_capacity_snapshot_def kvs option.case pyval.case raise_unless_eq ebind_eq_Inr v
    by blast+
  then show ?thesis by auto
qed

lemma snapshot_digest_nonempty: "decode_head_row h row runner = Inr (s, d) \<Longrightarrow> dh_snapshot_digest d \<noteq> []"
  using deserialize_digest_nonempty by (auto simp: decode_head_row_def head_of_def ebind_eq_Inr split: if_splits)

text \<open>Once submission has begun, a live permit is granted as long as the lease is active.\<close>

lemma live_permit_granted:
  assumes "head_load h heads runner = Inr (s, d)" and "validate_intent_against_capacity h (ds_intent st) s runner = Inr l"
    and "valid_intent (ds_intent st)" and "ds_status st = ''submission_unknown''"
  shows "authorize_live_dispatch h st (permit_of h st) heads runner = Inr (live_permit_of h st (permit_of h st) runner s d l)"
proof -
  have c: "committed h runner s" by (rule head_load_committed [OF assms(1)])
  have v: "di_runner_id (ds_intent st) = rc_runner_id runner" "di_runner_capability_digest (ds_intent st) = runner_digest h runner"
      "filter (\<lambda>x. lease_id h x = di_lease_id (ds_intent st) \<and> lease_digest h x = di_lease_digest (ds_intent st)) (active_leases h s) = [l]"
      "cl_authorization_id l = di_authorization_id (ds_intent st)" "cl_authorization_digest l = di_authorization_digest (ds_intent st)"
      "cl_invocation_id l = di_invocation_id (ds_intent st)" "cl_physical_attempt l = di_physical_attempt (ds_intent st)"
      "cl_session_id l = di_session_id (ds_intent st)" "cl_logical_attempt l = di_logical_attempt (ds_intent st)"
    using assms(2) by (auto simp: validate_intent_against_capacity_def ebind_eq_Inr find_lease_Inr split: if_splits)
  have "l \<in> set (filter (\<lambda>x. lease_id h x = di_lease_id (ds_intent st) \<and> lease_digest h x = di_lease_digest (ds_intent st)) (active_leases h s))"
    using v(3) by simp
  then have l: "l \<in> set (active_leases h s)" "lease_id h l = di_lease_id (ds_intent st)" "lease_digest h l = di_lease_digest (ds_intent st)"
    by auto
  have mem: "l \<in> set (leases s)" using l(1) by (simp add: set_active_leases)
  have runner: "cl_runner_id l = rc_runner_id runner" "cl_runner_capability_digest l = runner_digest h runner"
    using committed_runner(1,2,5) [OF c] mem by (simp_all add: capacity_inv_def list_all_iff)
  have "cs_transitions s \<noteq> []" using mem by (auto simp: leases_def List.map_filter_def)
  then have gen: "1 \<le> cs_generation s"
    using committed_runner(4) [OF c] by (cases "cs_transitions s") (simp_all add: capacity_state_init_eq)
  have "load_active_bound_lease h st (permit_of h st) heads runner = Inr (s, d, l)"
    unfolding load_active_bound_lease_Inr using assms(1,4) v runner by (simp add: lease_of_intent_def)
  moreover have "dh_snapshot_digest d \<noteq> []"
    using assms(1) by (auto simp: head_load_def dest: snapshot_digest_nonempty split: option.splits)
  ultimately show ?thesis
    using gen v(1) assms(3) l(2,3)
    by (simp add: authorize_live_dispatch_def ebind_eq_Inr live_permit_init_def live_permit_of_def Let_def valid_intent_def dispatch_intent_init_eq
        intent_id_def stable_id_def intent_digest_def dispatch_digest_def permit_digest_def runner_digest_def head_digest_def state_digest_def)
qed

text \<open>Once the lease is released and the release is the durable head, the intent is not authorised any more.\<close>

lemma released_not_authorized:
  assumes "head_load h heads runner = Inr (s, d)" and "l \<in> set (active_leases h s)" and "lease_id h l = di_lease_id (ds_intent st)"
    and "release_capacity_for_outcome h s spec registry plan session runner l b = Inr (s', g, t)"
    and "head_commit h heads runner (state_digest h s) s' = Inr (heads', d')"
  shows "authorize_live_dispatch h st p heads' runner \<noteq> Inr q" and "verify_live_dispatch_permit h st p q heads' runner = Inr False"
proof -
  have load: "head_load h heads' runner = Inr (s', d')" by (rule heads_after_commit [OF assms(5)])
  show "authorize_live_dispatch h st p heads' runner \<noteq> Inr q"
  proof
    assume "authorize_live_dispatch h st p heads' runner = Inr q"
    then obtain l' where f: "filter (\<lambda>x. lease_id h x = di_lease_id (ds_intent st) \<and> lease_digest h x = di_lease_digest (ds_intent st))
        (active_leases h s') = [l']"
      using load by (auto simp: authorize_live_Inr load_active_bound_lease_Inr)
    have "l' \<in> set (filter (\<lambda>x. lease_id h x = di_lease_id (ds_intent st) \<and> lease_digest h x = di_lease_digest (ds_intent st)) (active_leases h s'))"
      unfolding f by simp
    then have l': "l' \<in> set (active_leases h s)" "l' \<noteq> l" "lease_id h l' = lease_id h l"
      using release_withdraws(2) [OF assms(1,4,2)] assms(3) by auto
    have "distinct (map (lease_id h) (leases s))"
      using committed_runner(5) [OF head_load_committed [OF assms(1)]] by (simp add: capacity_inv_def)
    then show False using l' assms(2) by (auto simp: distinct_map inj_on_def set_active_leases)
  qed
  then show "verify_live_dispatch_permit h st p q heads' runner = Inr False" by (rule verify_live_refused [OF load])
qed

section \<open>An example\<close>

definition ex_unknown :: "hash \<Rightarrow> dispatch_state" where
  "ex_unknown h = unknown_state h (ex_prepared h)"

lemma ex_unknown: "valid_dispatch (ex_unknown h)" "ds_status (ex_unknown h) = ''submission_unknown''" "ds_intent (ex_unknown h) = ex_intent h"
  using unknown_state_valid [OF initial_state_valid [OF prepare_Inr(2) [OF ex_prepare]]]
  by (simp_all add: ex_unknown_def ex_prepared_def) (simp_all add: unknown_state_def)

lemma ex_live: "authorize_live_dispatch h (ex_unknown h) (permit_of h (ex_unknown h)) (ex_reserved_heads h) ex_runner
   = Inr (live_permit_of h (ex_unknown h) (permit_of h (ex_unknown h)) ex_runner (ex_reserved h) (stored_head h (ex_reserved h)) (ex_lease h))"
proof -
  have "validate_intent_against_capacity h (ds_intent (ex_unknown h)) (ex_reserved h) ex_runner = Inr (ex_lease h)"
    unfolding ex_unknown(3) by (rule prepare_Inr(3) [OF ex_prepare])
  moreover have "valid_intent (ds_intent (ex_unknown h))" using ex_unknown(1) by (simp add: valid_dispatch_def)
  ultimately show ?thesis by (rule live_permit_granted [OF ex_reserved_heads _ _ ex_unknown(2)])
qed

lemma ex_release_capacity: "release_capacity_for_outcome h (ex_reserved h) ex_spec ex_registry (ex_plan h) (ex_running h) ex_runner (ex_lease h) (ex_outcome h)
   = Inr (ex_released h, release_grant_for h (ex_released h) (release_step h (ex_reserved h) (outcome_release h (ex_reserved h) (ex_lease h) (ex_outcome h)))
       (outcome_release h (ex_reserved h) (ex_lease h) (ex_outcome h)), release_step h (ex_reserved h) (outcome_release h (ex_reserved h) (ex_lease h) (ex_outcome h)))"
  using release_for_outcome_ok [OF ex_reserved(2) _ ex_outcome_verified ex_owned] ex_reserved(3)
  by (simp add: Let_def ex_released_def)

lemma ex_release_commit: "\<exists>heads. head_commit h (ex_reserved_heads h) ex_runner (state_digest h (ex_reserved h)) (ex_released h)
   = Inr (heads, stored_head h (ex_released h))"
proof -
  have "verify_intrinsic_outcome h (ex_outcome h)" using ex_outcome_verified by (simp add: verify_physical_outcome_True)
  then have "valid_state (ex_released h)"
    by (rule release_step_valid [OF ex_released(1) ex_reserved_valid outcome_release_valid])
  from head_commit_step [OF ex_reserved_heads ex_released(1) this] show ?thesis by blast
qed

section \<open>Properties\<close>

text \<open>Releasing the lease withdraws the transport authority: once the lease an intent is bound to has been
  released for an outcome and the release is the durable capacity head, no live permit of that intent
  verifies any more, neither the one that verified before nor any other.\<close>

theorem release_withdraws_live_permit:
  assumes "verify_live_dispatch_permit h st p lp heads runner = Inr True" and "head_load h heads runner = Inr (s, d)"
    and "l \<in> set (active_leases h s)" and "lease_id h l = di_lease_id (ds_intent st)"
    and "release_capacity_for_outcome h s spec registry plan session runner l b = Inr (s', g, t)"
    and "head_commit h heads runner (state_digest h s) s' = Inr (heads', d')"
  shows "verify_live_dispatch_permit h st p q heads' runner = Inr False"
  by (rule released_not_authorized [OF assms(2-6)])

theorem release_withdraws_live_permit_witness:
  "\<exists>heads. verify_live_dispatch_permit (\<lambda>t. t) (ex_unknown (\<lambda>t. t)) (permit_of (\<lambda>t. t) (ex_unknown (\<lambda>t. t)))
     (live_permit_of (\<lambda>t. t) (ex_unknown (\<lambda>t. t)) (permit_of (\<lambda>t. t) (ex_unknown (\<lambda>t. t))) ex_runner (ex_reserved (\<lambda>t. t))
        (stored_head (\<lambda>t. t) (ex_reserved (\<lambda>t. t))) (ex_lease (\<lambda>t. t))) heads ex_runner = Inr False"
proof -
  obtain heads where commit: "head_commit (\<lambda>t. t) (ex_reserved_heads (\<lambda>t. t)) ex_runner (state_digest (\<lambda>t. t) (ex_reserved (\<lambda>t. t)))
      (ex_released (\<lambda>t. t)) = Inr (heads, stored_head (\<lambda>t. t) (ex_released (\<lambda>t. t)))"
    using ex_release_commit by blast
  have l: "ex_lease (\<lambda>t. t) \<in> set (active_leases (\<lambda>t. t) (ex_reserved (\<lambda>t. t)))" by (simp add: ex_reserved(3))
  have "lease_id (\<lambda>t. t) (ex_lease (\<lambda>t. t)) = di_lease_id (ds_intent (ex_unknown (\<lambda>t. t)))"
    by (simp add: ex_unknown(3) ex_intent_def intent_for_def Let_def)
  from release_withdraws_live_permit [OF verify_live_True [THEN iffD2, OF ex_live] ex_reserved_heads l this ex_release_capacity commit]
  show ?thesis by blast
qed

end
