(* ===== verification/Observed.thy ===== *)
theory Observed
  imports Dispatch_Guard
begin

text \<open>
  Durable observed outcomes (\<open>observed.py\<close>): the outbox of \<open>dispatch.py\<close> with a second table that
  keeps the admitted outcome of every observed intent, the transaction that moves an intent to
  \<open>observed\<close> and stores its outcome together, and the release of the capacity lease after a restart.
  The database is a record of the two tables. The lemmas show that the two tables move together,
  that recording again is answered from what is stored, and that a lease is released once.
\<close>

section \<open>Records\<close>

record durable_outcome =
  oo_intent_id :: string
  oo_dispatch_state_digest :: string
  oo_runner_id :: string
  oo_lease_id :: string
  oo_lease_digest :: string
  oo_authorization_id :: string
  oo_authorization_digest :: string
  oo_invocation_id :: string
  oo_request_digest :: string
  oo_physical_attempt :: int
  oo_outcome_digest :: string
  oo_observation_digest :: string
  oo_receipt_digest :: string
  oo_transport_status :: string
  oo_outcome :: physical_outcome
  oo_schema_version :: string

text \<open>\<open>sha256:<64-hex>\<close> as a named field, and the loop over such fields.\<close>

definition check_digest_field :: "string \<Rightarrow> string \<Rightarrow> unit exc" where
  "check_digest_field name v =
     (if \<not> digest_shape v then Inl (ValueError (name @ '' must be sha256:<64-hex>''))
      else if \<not> int16_ok (drop 7 v) then Inl (ValueError (name @ '' must contain 64 hexadecimal characters''))
      else Inr ())"

lemma check_digest_field_Inr [exc_simps]: "check_digest_field name v = Inr u \<longleftrightarrow> digest_ok v"
  by (auto simp: check_digest_field_def digest_ok_def)

definition durable_outcome_init :: "hash \<Rightarrow> durable_outcome \<Rightarrow> durable_outcome exc" where
  "durable_outcome_init h x =
     (if oo_schema_version x \<noteq> ''ge.durable-observed-outcome.v1''
      then Inl (ValueError ''unsupported durable observed outcome schema'')
      else if oo_physical_attempt x < 1 then Inl (ValueError ''physical_attempt must be >= 1'')
      else ebind (eall (\<lambda>(name, v). check_nonempty name v) [
        (''intent_id'', oo_intent_id x), (''runner_id'', oo_runner_id x), (''lease_id'', oo_lease_id x),
        (''authorization_id'', oo_authorization_id x), (''invocation_id'', oo_invocation_id x),
        (''transport_status'', oo_transport_status x)]) (\<lambda>_.
      ebind (eall (\<lambda>(name, v). check_digest_field name v) [
        (''dispatch_state_digest'', oo_dispatch_state_digest x), (''lease_digest'', oo_lease_digest x),
        (''authorization_digest'', oo_authorization_digest x), (''request_digest'', oo_request_digest x),
        (''outcome_digest'', oo_outcome_digest x), (''observation_digest'', oo_observation_digest x),
        (''receipt_digest'', oo_receipt_digest x)]) (\<lambda>_.
      let b = oo_outcome x; a = pt_authorization b; r = pa_request a; rc = pt_receipt b in
      if oo_runner_id x \<noteq> aq_runner_id r \<or> oo_authorization_id x \<noteq> authorization_id h a
        \<or> oo_authorization_digest x \<noteq> authorization_digest h a \<or> oo_invocation_id x \<noteq> aq_invocation_id r
        \<or> oo_request_digest x \<noteq> request_digest h r \<or> oo_physical_attempt x \<noteq> pa_physical_attempt a
        \<or> oo_outcome_digest x \<noteq> outcome_digest h b \<or> oo_observation_digest x \<noteq> observation_digest h (pt_observation b)
        \<or> oo_receipt_digest x \<noteq> receipt_digest h rc \<or> oo_transport_status x \<noteq> pr_transport_status rc
      then Inl (ValueError ''durable observed outcome metadata does not match outcome'')
      else Inr x)))"

definition durable_outcome_digest :: "hash \<Rightarrow> durable_outcome \<Rightarrow> string" where
  "durable_outcome_digest h x = sha256_digest h (PDict [
    (''schema_version'', PStr (oo_schema_version x)),
    (''intent_id'', PStr (oo_intent_id x)),
    (''dispatch_state_digest'', PStr (oo_dispatch_state_digest x)),
    (''runner_id'', PStr (oo_runner_id x)),
    (''lease_id'', PStr (oo_lease_id x)),
    (''lease_digest'', PStr (oo_lease_digest x)),
    (''authorization_id'', PStr (oo_authorization_id x)),
    (''authorization_digest'', PStr (oo_authorization_digest x)),
    (''invocation_id'', PStr (oo_invocation_id x)),
    (''request_digest'', PStr (oo_request_digest x)),
    (''physical_attempt'', PInt (oo_physical_attempt x)),
    (''outcome_digest'', PStr (oo_outcome_digest x)),
    (''observation_digest'', PStr (oo_observation_digest x)),
    (''receipt_digest'', PStr (oo_receipt_digest x)),
    (''transport_status'', PStr (oo_transport_status x))])"

record release_recovery =
  ov_intent_id :: string
  ov_outcome_digest :: string
  ov_release_digest :: string
  ov_committed_state_digest :: string
  ov_committed_generation :: int
  ov_durable_head_digest :: string
  ov_idempotent :: bool
  ov_schema_version :: string

definition release_recovery_py :: "release_recovery \<Rightarrow> pyval" where
  "release_recovery_py x = PDict [
    (''intent_id'', PStr (ov_intent_id x)),
    (''outcome_digest'', PStr (ov_outcome_digest x)),
    (''release_digest'', PStr (ov_release_digest x)),
    (''committed_state_digest'', PStr (ov_committed_state_digest x)),
    (''committed_generation'', PInt (ov_committed_generation x)),
    (''durable_head_digest'', PStr (ov_durable_head_digest x)),
    (''idempotent'', PBool (ov_idempotent x)),
    (''schema_version'', PStr (ov_schema_version x))]"

definition release_recovery_digest :: "hash \<Rightarrow> release_recovery \<Rightarrow> string" where
  "release_recovery_digest h x = sha256_digest h (release_recovery_py x)"

definition release_recovery_init :: "release_recovery \<Rightarrow> release_recovery exc" where
  "release_recovery_init x =
     (if ov_schema_version x \<noteq> ''ge.observed-outcome-release-recovery.v1''
      then Inl (ValueError ''unsupported observed outcome release recovery schema'')
      else if blank (ov_intent_id x) then Inl (ValueError ''intent_id must be non-empty'')
      else if ov_committed_generation x < 1 then Inl (ValueError ''committed_generation must be >= 1'')
      else ebind (eall (\<lambda>(name, v). check_digest_field name v) [
        (''outcome_digest'', ov_outcome_digest x), (''release_digest'', ov_release_digest x),
        (''committed_state_digest'', ov_committed_state_digest x), (''durable_head_digest'', ov_durable_head_digest x)])
      (\<lambda>_. Inr x))"

section \<open>The record of an observed state\<close>

definition verify_outcome_against_dispatch :: "hash \<Rightarrow> dispatch_state \<Rightarrow> physical_outcome \<Rightarrow> bool" where
  "verify_outcome_against_dispatch h s b =
     (if ds_status s \<noteq> ''observed'' then False
      else let i = ds_intent s; a = pt_authorization b; r = pa_request a; rc = pt_receipt b in
        di_authorization_id i = authorization_id h a \<and> di_authorization_digest i = authorization_digest h a \<and>
        di_invocation_id i = aq_invocation_id r \<and> di_request_digest i = request_digest h r \<and>
        di_runner_id i = aq_runner_id r \<and> di_runner_capability_digest i = aq_runner_capability_digest r \<and>
        di_session_id i = aq_session_id r \<and> di_logical_attempt i = aq_attempt r \<and>
        di_physical_attempt i = pa_physical_attempt a \<and>
        ds_provider_invocation_id s = pr_provider_invocation_id rc \<and>
        ds_observation_digest s = Some (observation_digest h (pt_observation b)) \<and>
        ds_receipt_digest s = Some (receipt_digest h rc) \<and> ds_outcome_digest s = Some (outcome_digest h b) \<and>
        ds_transport_status s = Some (pr_transport_status rc))"

text \<open>The fields of the record that is constructed.\<close>

definition record_fields :: "hash \<Rightarrow> dispatch_state \<Rightarrow> physical_outcome \<Rightarrow> durable_outcome" where
  "record_fields h s b = (let i = ds_intent s in
     \<lparr>oo_intent_id = intent_id h i, oo_dispatch_state_digest = dispatch_digest h s, oo_runner_id = di_runner_id i,
      oo_lease_id = di_lease_id i, oo_lease_digest = di_lease_digest i, oo_authorization_id = di_authorization_id i,
      oo_authorization_digest = di_authorization_digest i, oo_invocation_id = di_invocation_id i,
      oo_request_digest = di_request_digest i, oo_physical_attempt = pa_physical_attempt (pt_authorization b),
      oo_outcome_digest = outcome_digest h b, oo_observation_digest = observation_digest h (pt_observation b),
      oo_receipt_digest = receipt_digest h (pt_receipt b), oo_transport_status = pr_transport_status (pt_receipt b),
      oo_outcome = b, oo_schema_version = ''ge.durable-observed-outcome.v1''\<rparr>)"

definition durable_record :: "hash \<Rightarrow> dispatch_state \<Rightarrow> physical_outcome \<Rightarrow> durable_outcome exc" where
  "durable_record h s b =
     (if \<not> verify_outcome_against_dispatch h s b
      then Inl (DispatchIntentError ''observed physical outcome does not match durable dispatch state'')
      else durable_outcome_init h (record_fields h s b))"

section \<open>The tables\<close>

record outcome_row =
  oc_intent_id :: string
  oc_runner_id :: string
  oc_lease_id :: string
  oc_lease_digest :: string
  oc_authorization_id :: string
  oc_authorization_digest :: string
  oc_invocation_id :: string
  oc_request_digest :: string
  oc_physical_attempt :: int
  oc_dispatch_state_digest :: string
  oc_outcome_digest :: string
  oc_observation_digest :: string
  oc_receipt_digest :: string
  oc_transport_status :: string
  oc_outcome_json :: string

record observed_db =
  od_intents :: dispatch_table
  od_outcomes :: "outcome_row list"

definition outcome_row_of :: "durable_outcome \<Rightarrow> string \<Rightarrow> outcome_row" where
  "outcome_row_of x json =
     \<lparr>oc_intent_id = oo_intent_id x, oc_runner_id = oo_runner_id x, oc_lease_id = oo_lease_id x,
      oc_lease_digest = oo_lease_digest x, oc_authorization_id = oo_authorization_id x, oc_authorization_digest = oo_authorization_digest x,
      oc_invocation_id = oo_invocation_id x, oc_request_digest = oo_request_digest x, oc_physical_attempt = oo_physical_attempt x,
      oc_dispatch_state_digest = oo_dispatch_state_digest x, oc_outcome_digest = oo_outcome_digest x, oc_observation_digest = oo_observation_digest x,
      oc_receipt_digest = oo_receipt_digest x, oc_transport_status = oo_transport_status x, oc_outcome_json = json\<rparr>"

text \<open>The columns of a row, compared with the record.\<close>

definition row_agrees :: "outcome_row \<Rightarrow> durable_outcome \<Rightarrow> bool" where
  "row_agrees row x \<longleftrightarrow>
     oc_intent_id row = oo_intent_id x \<and> oc_runner_id row = oo_runner_id x \<and>
     oc_lease_id row = oo_lease_id x \<and> oc_lease_digest row = oo_lease_digest x \<and>
     oc_authorization_id row = oo_authorization_id x \<and> oc_authorization_digest row = oo_authorization_digest x \<and>
     oc_invocation_id row = oo_invocation_id x \<and> oc_request_digest row = oo_request_digest x \<and>
     oc_physical_attempt row = oo_physical_attempt x \<and> oc_dispatch_state_digest row = oo_dispatch_state_digest x \<and>
     oc_outcome_digest row = oo_outcome_digest x \<and> oc_observation_digest row = oo_observation_digest x \<and>
     oc_receipt_digest row = oo_receipt_digest x \<and> oc_transport_status row = oo_transport_status x"

definition decode_outcome_row :: "hash \<Rightarrow> outcome_row \<Rightarrow> dispatch_state \<Rightarrow> durable_outcome exc" where
  "decode_outcome_row h row s =
     ebind (rethrow is_codec_error (DispatchIntentError ''durable observed outcome payload is invalid'')
       (deserialize_physical_outcome h (oc_outcome_json row))) (\<lambda>b.
     ebind (durable_record h s b) (\<lambda>x.
     if \<not> row_agrees row x then Inl (DispatchIntentError ''durable observed outcome metadata mismatch'') else Inr x))"

definition load_observed_outcome :: "hash \<Rightarrow> observed_db \<Rightarrow> string \<Rightarrow> durable_outcome exc" where
  "load_observed_outcome h db iid =
     ebind (dispatch_load h (od_intents db) iid) (\<lambda>s.
     if ds_status s \<noteq> ''observed'' then
       (if select_one oc_intent_id iid (od_outcomes db) \<noteq> None
        then Inl (DispatchIntentError ''non-observed dispatch state has durable outcome bytes'')
        else Inl (DispatchIntentError ''dispatch intent has no observed physical outcome''))
     else (case select_one oc_intent_id iid (od_outcomes db) of
         None \<Rightarrow> Inl (DispatchIntentError ''observed dispatch state is missing durable physical outcome bytes'')
       | Some row \<Rightarrow> decode_outcome_row h row s))"

text \<open>The part of \<open>record_observed\<close> that answers from an intent that is observed already.\<close>

definition replay_observed ::
  "hash \<Rightarrow> observed_db \<Rightarrow> dispatch_state \<Rightarrow> outcome_row option \<Rightarrow> string \<Rightarrow> physical_outcome \<Rightarrow> string \<Rightarrow> (observed_db \<times> dispatch_state) exc" where
  "replay_observed h db current existing_row expected b json =
     (if \<not> (expected = dispatch_digest h current \<or> Some expected = ds_previous_state_digest current)
      then Inl (DispatchIntentError ''stale durable dispatch intent state'')
      else case existing_row of
        None \<Rightarrow> Inl (DispatchIntentError ''observed dispatch state is missing durable physical outcome bytes'')
      | Some row \<Rightarrow> ebind (decode_outcome_row h row current) (\<lambda>existing.
          if oo_outcome existing \<noteq> b \<or> oc_outcome_json row \<noteq> json
          then Inl (DispatchIntentError ''dispatch intent already has a different durable physical outcome'')
          else Inr (db, current)))"

text \<open>The two writes, and the check of what they wrote.\<close>

definition write_observed ::
  "hash \<Rightarrow> observed_db \<Rightarrow> dispatch_state \<Rightarrow> dispatch_state \<Rightarrow> physical_outcome \<Rightarrow> string \<Rightarrow> (observed_db \<times> dispatch_state) exc" where
  "write_observed h db current new b json =
     ebind (durable_record h new b) (\<lambda>x.
     let (intents, rowcount) = update_where (cas_match h current) (cas_set h new) (od_intents db) in
     if rowcount \<noteq> 1 then Inl (DispatchIntentError ''durable dispatch compare-and-swap failed'')
     else ebind (insert_unique [oc_intent_id, oc_authorization_id, oc_invocation_id] (outcome_row_of x json) (od_outcomes db)) (\<lambda>outcomes.
     let iid = intent_id h (ds_intent current) in
     case (select_one dr_intent_id iid intents, select_one oc_intent_id iid outcomes) of
       (Some state_row, Some row) \<Rightarrow>
         ebind (decode_dispatch_row h state_row) (\<lambda>committed.
         if committed \<noteq> new then Inl (DispatchIntentError ''observed dispatch state does not match candidate'')
         else ebind (decode_outcome_row h row committed) (\<lambda>stored.
         if oo_outcome stored \<noteq> b then Inl (DispatchIntentError ''durable physical outcome does not match candidate'')
         else Inr (\<lparr>od_intents = intents, od_outcomes = outcomes\<rparr>, committed)))
     | _ \<Rightarrow> Inl (DispatchIntentError ''observed outcome transaction is incomplete'')))"

definition is_integrity_error :: "py_error \<Rightarrow> bool" where
  "is_integrity_error e \<longleftrightarrow> e = IntegrityError"

definition record_observed ::
  "hash \<Rightarrow> observed_db \<Rightarrow> string \<Rightarrow> string \<Rightarrow> execution_spec \<Rightarrow> runner_registry \<Rightarrow> dispatch_plan \<Rightarrow>
   execution_session \<Rightarrow> runner_capabilities \<Rightarrow> physical_outcome \<Rightarrow> (observed_db \<times> dispatch_state) exc" where
  "record_observed h db iid expected spec registry plan session runner b =
     ebind (verify_physical_outcome h spec registry plan session runner b) (\<lambda>ok.
     if \<not> ok then Inl (DispatchIntentError ''physical outcome does not verify'')
     else ebind (serialize_physical_outcome h b) (\<lambda>json.
     rethrow is_integrity_error (DispatchIntentError ''durable observed outcome uniqueness constraint rejected commit'')
       (ebind (dispatch_load h (od_intents db) iid) (\<lambda>current.
        let existing_row = select_one oc_intent_id iid (od_outcomes db) in
        if ds_status current = ''observed'' then replay_observed h db current existing_row expected b json
        else if dispatch_digest h current \<noteq> expected then Inl (DispatchIntentError ''stale durable dispatch intent state'')
        else if ds_status current \<noteq> ''submission_unknown''
        then Inl (DispatchIntentError ''provider observation requires submission_unknown state'')
        else if existing_row \<noteq> None
        then Inl (DispatchIntentError ''non-observed dispatch state already has durable outcome bytes'')
        else if \<not> outcome_of_intent h (ds_intent current) b
        then Inl (DispatchIntentError ''physical outcome does not belong to durable dispatch intent'')
        else ebind (dispatch_state_init (observed_state h current b)) (\<lambda>new. write_observed h db current new b json)))))"

definition recover_observed_for_runner :: "hash \<Rightarrow> observed_db \<Rightarrow> string \<Rightarrow> durable_outcome list exc" where
  "recover_observed_for_runner h db runner_id =
     ebind (load_for_runner h (od_intents db) runner_id) (\<lambda>states.
     emap (\<lambda>s. load_observed_outcome h db (intent_id h (ds_intent s))) (filter (\<lambda>s. ds_status s = ''observed'') states))"

section \<open>Releasing capacity after a restart\<close>

text \<open>\<open>matches[0] if matches else None\<close>, unless there are several.\<close>

definition at_most_one :: "string \<Rightarrow> 'a list \<Rightarrow> 'a option exc" where
  "at_most_one message xs = (if 1 < length xs then Inl (DurableCapacityError message)
     else Inr (case xs of [] \<Rightarrow> None | x # _ \<Rightarrow> Some x))"

definition matching_active_lease :: "hash \<Rightarrow> capacity_state \<Rightarrow> durable_outcome \<Rightarrow> capacity_lease option exc" where
  "matching_active_lease h s x = at_most_one ''observed outcome matches multiple active capacity leases''
     (filter (\<lambda>l. lease_id h l = oo_lease_id x \<and> lease_digest h l = oo_lease_digest x
        \<and> cl_authorization_id l = oo_authorization_id x \<and> cl_authorization_digest l = oo_authorization_digest x
        \<and> cl_invocation_id l = oo_invocation_id x \<and> cl_physical_attempt l = oo_physical_attempt x) (active_leases h s))"

definition matching_release :: "capacity_state \<Rightarrow> durable_outcome \<Rightarrow> capacity_release option exc" where
  "matching_release s x = at_most_one ''observed outcome has duplicate canonical capacity releases''
     (filter (\<lambda>r. cr_lease_id r = oo_lease_id x \<and> cr_lease_digest r = oo_lease_digest x
        \<and> cr_authorization_id r = oo_authorization_id x \<and> cr_authorization_digest r = oo_authorization_digest x
        \<and> cr_invocation_id r = oo_invocation_id x \<and> cr_physical_attempt r = oo_physical_attempt x
        \<and> cr_release_kind r = ''terminal_outcome'' \<and> cr_outcome_digest r = Some (oo_outcome_digest x)
        \<and> cr_receipt_digest r = Some (oo_receipt_digest x) \<and> cr_transport_status r = Some (oo_transport_status x)) (releases s))"

definition release_digest :: "hash \<Rightarrow> capacity_release \<Rightarrow> string" where
  "release_digest h r = sha256_digest h (capacity_release_py r)"

definition recovery_of :: "hash \<Rightarrow> durable_outcome \<Rightarrow> capacity_release \<Rightarrow> capacity_state \<Rightarrow> capacity_head \<Rightarrow> bool \<Rightarrow> release_recovery" where
  "recovery_of h x r s d idempotent =
     \<lparr>ov_intent_id = oo_intent_id x, ov_outcome_digest = oo_outcome_digest x, ov_release_digest = release_digest h r,
      ov_committed_state_digest = state_digest h s, ov_committed_generation = cs_generation s,
      ov_durable_head_digest = head_digest h d, ov_idempotent = idempotent,
      ov_schema_version = ''ge.observed-outcome-release-recovery.v1''\<rparr>"

definition idempotent_release_recovery ::
  "hash \<Rightarrow> capacity_state \<Rightarrow> capacity_head \<Rightarrow> durable_outcome \<Rightarrow> release_recovery option exc" where
  "idempotent_release_recovery h s d x =
     ebind (matching_release s x) (\<lambda>m. case m of
       None \<Rightarrow> Inr None
     | Some r \<Rightarrow> ebind (release_recovery_init (recovery_of h x r s d True)) (\<lambda>v. Inr (Some v)))"

text \<open>
  The head store is read before the transaction (\<open>seen\<close>), met by it (\<open>heads\<close>), and read again when the
  commit was refused (\<open>later\<close>).
\<close>

definition release_or_recover ::
  "hash \<Rightarrow> head_store \<Rightarrow> head_store \<Rightarrow> execution_spec \<Rightarrow> runner_registry \<Rightarrow> dispatch_plan \<Rightarrow> execution_session \<Rightarrow> runner_capabilities \<Rightarrow>
   durable_outcome \<Rightarrow> capacity_state \<Rightarrow> capacity_head \<Rightarrow> capacity_lease option \<Rightarrow> (head_store \<times> release_recovery) exc" where
  "release_or_recover h heads later spec registry plan session runner x s d active = (case active of
       None \<Rightarrow> ebind (idempotent_release_recovery h s d x) (\<lambda>recovered. case recovered of
           None \<Rightarrow> Inl (DurableCapacityError ''durable observed outcome is neither active nor canonically released'')
         | Some v \<Rightarrow> Inr (heads, v))
     | Some l \<Rightarrow>
         ebind (release_capacity_for_outcome h s spec registry plan session runner l (oo_outcome x)) (\<lambda>(s', g, _).
         case head_commit h heads runner (state_digest h s) s' of
           Inl e \<Rightarrow> (if is_durable_capacity_error e then
               ebind (head_load h later runner) (\<lambda>(ls, ld).
               ebind (idempotent_release_recovery h ls ld x) (\<lambda>recovered. case recovered of
                 None \<Rightarrow> Inl e | Some v \<Rightarrow> Inr (heads, v)))
             else Inl e)
         | Inr (heads', d') \<Rightarrow>
             ebind (release_recovery_init (recovery_of h x (cq_release g) s' d' False)) (\<lambda>v. Inr (heads', v))))"

text \<open>The outbox is read twice, for the state of the intent (\<open>first\<close>) and for its outcome (\<open>db\<close>).\<close>

definition release_observed_capacity ::
  "hash \<Rightarrow> observed_db \<Rightarrow> observed_db \<Rightarrow> head_store \<Rightarrow> head_store \<Rightarrow> head_store \<Rightarrow> string \<Rightarrow> execution_spec \<Rightarrow> runner_registry \<Rightarrow>
   dispatch_plan \<Rightarrow> execution_session \<Rightarrow> runner_capabilities \<Rightarrow> (head_store \<times> release_recovery) exc" where
  "release_observed_capacity h first db seen heads later iid spec registry plan session runner =
     ebind (dispatch_load h (od_intents first) iid) (\<lambda>st.
     if ds_status st \<noteq> ''observed'' then Inl (DispatchIntentError ''capacity release recovery requires observed dispatch state'')
     else ebind (load_observed_outcome h db iid) (\<lambda>x.
     ebind (verify_physical_outcome h spec registry plan session runner (oo_outcome x)) (\<lambda>ok.
     if \<not> ok then Inl (DispatchIntentError ''durable physical outcome no longer verifies against execution context'')
     else ebind (head_load h seen runner) (\<lambda>(s, d).
     ebind (verify_capacity_state h s runner) (\<lambda>replays.
     if \<not> replays then Inl (DurableCapacityError ''canonical capacity state does not replay'')
     else ebind (matching_active_lease h s x) (release_or_recover h heads later spec registry plan session runner x s d))))))"

section \<open>What the records hold\<close>

lemma durable_outcome_init_same: "durable_outcome_init h x = Inr y \<Longrightarrow> y = x"
  by (auto simp: durable_outcome_init_def ebind_eq_Inr Let_def split: if_splits)

lemma durable_record_Inr:
  "durable_record h s b = Inr x \<Longrightarrow> x = record_fields h s b \<and> verify_outcome_against_dispatch h s b"
  by (auto simp: durable_record_def dest: durable_outcome_init_same split: if_splits)

lemma record_fields_outcome [simp]: "oo_outcome (record_fields h s b) = b"
  by (simp add: record_fields_def Let_def)

lemma decode_outcome_row_Inr:
  assumes "decode_outcome_row h row s = Inr x"
  shows "x = record_fields h s (oo_outcome x)" and "verify_outcome_against_dispatch h s (oo_outcome x)"
    and "deserialize_physical_outcome h (oc_outcome_json row) = Inr (oo_outcome x)"
proof -
  obtain b where b: "deserialize_physical_outcome h (oc_outcome_json row) = Inr b" "durable_record h s b = Inr x"
    using assms by (auto simp: decode_outcome_row_def ebind_eq_Inr rethrow_eq_Inr split: if_splits)
  note r = durable_record_Inr [OF b(2)]
  then have "oo_outcome x = b" by auto
  with r b(1) show "x = record_fields h s (oo_outcome x)" "verify_outcome_against_dispatch h s (oo_outcome x)"
    "deserialize_physical_outcome h (oc_outcome_json row) = Inr (oo_outcome x)" by auto
qed

lemma load_observed_Inr:
  assumes "load_observed_outcome h db iid = Inr x"
  obtains st row where "dispatch_load h (od_intents db) iid = Inr st" and "ds_status st = ''observed''"
    and "select_one oc_intent_id iid (od_outcomes db) = Some row" and "decode_outcome_row h row st = Inr x"
  using assms by (auto simp: load_observed_outcome_def ebind_eq_Inr split: if_splits option.splits)

section \<open>Recording moves both tables\<close>

lemma write_observed_Inr:
  assumes "write_observed h db current new b json = Inr (db', s)" and "intent_id h (ds_intent current) = iid"
    and "select_one oc_intent_id iid (od_outcomes db) = None" and "ds_intent new = ds_intent current" and "ds_status new = ''observed''"
  shows "s = new" and "dispatch_load h (od_intents db') iid = Inr new"
    and "\<exists>row x. select_one oc_intent_id iid (od_outcomes db') = Some row \<and> oc_outcome_json row = json \<and>
      decode_outcome_row h row new = Inr x \<and> oo_outcome x = b"
    and "od_intents db' = fst (update_where (cas_match h current) (cas_set h new) (od_intents db))"
    and "\<exists>row. oc_intent_id row = iid \<and> od_outcomes db' = od_outcomes db @ [row]"
proof -
  let ?intents = "fst (update_where (cas_match h current) (cas_set h new) (od_intents db))"
  obtain x outcomes where x: "durable_record h new b = Inr x" "outcomes = od_outcomes db @ [outcome_row_of x json]"
    and t: "(case (select_one dr_intent_id iid ?intents, select_one oc_intent_id iid outcomes) of
       (Some state_row, Some row) \<Rightarrow>
         ebind (decode_dispatch_row h state_row) (\<lambda>committed.
         if committed \<noteq> new then Inl (DispatchIntentError ''observed dispatch state does not match candidate'')
         else ebind (decode_outcome_row h row committed) (\<lambda>stored.
         if oo_outcome stored \<noteq> b then Inl (DispatchIntentError ''durable physical outcome does not match candidate'')
         else Inr (\<lparr>od_intents = ?intents, od_outcomes = outcomes\<rparr>, committed)))
     | _ \<Rightarrow> Inl (DispatchIntentError ''observed outcome transaction is incomplete'')) = Inr (db', s)"
    using assms(1) unfolding write_observed_def assms(2) case_prod_unfold Let_def raise_unless_eq
      ebind_eq_Inr [of "durable_record h new b"] ebind_eq_Inr [of "insert_unique k r rs" for k r rs] insert_unique_Inr by blast
  obtain state_row row where rows: "select_one dr_intent_id iid ?intents = Some state_row" "select_one oc_intent_id iid outcomes = Some row"
    using t by (cases "select_one dr_intent_id iid ?intents"; cases "select_one oc_intent_id iid outcomes") simp_all
  obtain stored where st: "decode_dispatch_row h state_row = Inr new" "decode_outcome_row h row new = Inr stored" "oo_outcome stored = b"
      "db' = \<lparr>od_intents = ?intents, od_outcomes = outcomes\<rparr>" "s = new"
    using t unfolding rows prod.case option.case ebind_eq_Inr raise_unless_eq by auto
  have w: "durable_record h new b = Inr x" "od_outcomes db' = od_outcomes db @ [outcome_row_of x json]" "od_intents db' = ?intents"
      "select_one dr_intent_id iid (od_intents db') = Some state_row" "select_one oc_intent_id iid (od_outcomes db') = Some row"
      "decode_dispatch_row h state_row = Inr new" "decode_outcome_row h row new = Inr stored" "oo_outcome stored = b" "s = new"
    using x rows st by simp_all
  show "s = new" "dispatch_load h (od_intents db') iid = Inr new"
    "od_intents db' = fst (update_where (cas_match h current) (cas_set h new) (od_intents db))"
    using w by (simp_all add: dispatch_load_def)
  have "oo_intent_id x = iid"
    using durable_record_Inr [OF w(1)] assms(2,4) by (simp add: record_fields_def Let_def)
  then show "\<exists>row. oc_intent_id row = iid \<and> od_outcomes db' = od_outcomes db @ [row]"
    using w(2) by (simp add: outcome_row_of_def)
  from \<open>oo_intent_id x = iid\<close> have "row = outcome_row_of x json"
    using w(2,5) assms(3) by (simp add: select_one_append outcome_row_of_def)
  then have "oc_outcome_json row = json" by (simp add: outcome_row_of_def)
  then show "\<exists>row x. select_one oc_intent_id iid (od_outcomes db') = Some row \<and> oc_outcome_json row = json \<and>
      decode_outcome_row h row new = Inr x \<and> oo_outcome x = b"
    using w(5,7,8) by blast
qed

lemma replay_Inr:
  "replay_observed h db current er expected b json = Inr (db', s) \<longleftrightarrow>
   (expected = dispatch_digest h current \<or> Some expected = ds_previous_state_digest current) \<and>
   (\<exists>row x. er = Some row \<and> decode_outcome_row h row current = Inr x \<and> oo_outcome x = b \<and> oc_outcome_json row = json) \<and>
   db' = db \<and> s = current"
proof (cases er)
  case (Some row)
  show ?thesis
    unfolding replay_observed_def raise_unless_eq Some option.case ebind_eq_Inr by blast
qed (simp add: replay_observed_def)

text \<open>The two ways \<open>record_observed\<close> succeeds.\<close>

lemma record_observed_cases:
  assumes "record_observed h db iid expected spec registry plan session runner b = Inr (db', s)"
  obtains (replay) current row x where 
        "verify_physical_outcome h spec registry plan session runner b = Inr True"
      and "dispatch_load h (od_intents db) iid = Inr current"
      and "ds_status current = ''observed''"
      and "expected = dispatch_digest h current \<or> Some expected = ds_previous_state_digest current"
      and "select_one oc_intent_id iid (od_outcomes db) = Some row"
      and "decode_outcome_row h row current = Inr x"
      and "oo_outcome x = b"
      and "serialize_physical_outcome h b = Inr (oc_outcome_json row)"
      and "db' = db"
      and "s = current"
    | (fresh) current json where 
        "verify_physical_outcome h spec registry plan session runner b = Inr True"
      and "dispatch_load h (od_intents db) iid = Inr current"
      and "ds_status current = ''submission_unknown''"
      and "dispatch_digest h current = expected"
      and "select_one oc_intent_id iid (od_outcomes db) = None"
      and "outcome_of_intent h (ds_intent current) b"
      and "serialize_physical_outcome h b = Inr json"
      and "dispatch_state_init (observed_state h current b) = Inr (observed_state h current b)"
      and "write_observed h db current (observed_state h current b) b json = Inr (db', s)"
proof -
  obtain json current where r: "verify_physical_outcome h spec registry plan session runner b = Inr True"
      "serialize_physical_outcome h b = Inr json" "dispatch_load h (od_intents db) iid = Inr current"
    and tail: "(let existing_row = select_one oc_intent_id iid (od_outcomes db) in
        if ds_status current = ''observed'' then replay_observed h db current existing_row expected b json
        else if dispatch_digest h current \<noteq> expected then Inl (DispatchIntentError ''stale durable dispatch intent state'')
        else if ds_status current \<noteq> ''submission_unknown''
        then Inl (DispatchIntentError ''provider observation requires submission_unknown state'')
        else if existing_row \<noteq> None
        then Inl (DispatchIntentError ''non-observed dispatch state already has durable outcome bytes'')
        else if \<not> outcome_of_intent h (ds_intent current) b
        then Inl (DispatchIntentError ''physical outcome does not belong to durable dispatch intent'')
        else ebind (dispatch_state_init (observed_state h current b)) (\<lambda>new. write_observed h db current new b json)) = Inr (db', s)"
    using assms unfolding record_observed_def ebind_guard ebind_eq_Inr rethrow_eq_Inr by blast
  show thesis
  proof (cases "ds_status current = ''observed''")
    case True
    then obtain row x where "expected = dispatch_digest h current \<or> Some expected = ds_previous_state_digest current"
        "select_one oc_intent_id iid (od_outcomes db) = Some row" "decode_outcome_row h row current = Inr x"
        "oo_outcome x = b" "oc_outcome_json row = json" "db' = db" "s = current"
      using tail unfolding Let_def if_P [OF True] replay_Inr by blast
    with r True show thesis using replay by blast
  next
    case False
    then obtain new where t: "dispatch_digest h current = expected" "ds_status current = ''submission_unknown''"
        "select_one oc_intent_id iid (od_outcomes db) = None" "outcome_of_intent h (ds_intent current) b"
        "dispatch_state_init (observed_state h current b) = Inr new" "write_observed h db current new b json = Inr (db', s)"
      using tail unfolding Let_def if_not_P [OF False] raise_unless_eq ebind_eq_Inr [of "dispatch_state_init x" for x] by auto
    with dispatch_state_init_same [OF t(5)] r show thesis using fresh by blast
  qed
qed

lemma replay_observed_Inr:
  assumes "verify_physical_outcome h spec registry plan session runner b = Inr True"
    and "dispatch_load h (od_intents db) iid = Inr current" and "ds_status current = ''observed''"
    and "expected = dispatch_digest h current \<or> Some expected = ds_previous_state_digest current"
    and "select_one oc_intent_id iid (od_outcomes db) = Some row" and "decode_outcome_row h row current = Inr x"
    and "oo_outcome x = b" and "serialize_physical_outcome h b = Inr (oc_outcome_json row)"
  shows "record_observed h db iid expected spec registry plan session runner b = Inr (db, current)"
  using assms by (auto simp: record_observed_def replay_observed_def)

lemma recorded_state:
  assumes "record_observed h db iid expected spec registry plan session runner b = Inr (db', s)"
  obtains row x where "verify_physical_outcome h spec registry plan session runner b = Inr True"
    and "dispatch_load h (od_intents db') iid = Inr s" and "ds_status s = ''observed''"
    and "expected = dispatch_digest h s \<or> Some expected = ds_previous_state_digest s"
    and "select_one oc_intent_id iid (od_outcomes db') = Some row" and "decode_outcome_row h row s = Inr x"
    and "oo_outcome x = b" and "serialize_physical_outcome h b = Inr (oc_outcome_json row)"
  using assms
proof (cases rule: record_observed_cases)
  case (replay current row x)
  then show thesis using that by simp
next
  case (fresh current json)
  let ?new = "observed_state h current b"
  have new: "ds_intent ?new = ds_intent current" "ds_status ?new = ''observed''" "ds_previous_state_digest ?new = Some (dispatch_digest h current)"
    by (simp_all add: observed_state_def Let_def)
  have iid: "intent_id h (ds_intent current) = iid" using dispatch_load_valid [OF fresh(2)] by simp
  note w = write_observed_Inr [OF fresh(9) iid fresh(5) new(1,2)]
  obtain row x where "select_one oc_intent_id iid (od_outcomes db') = Some row" "oc_outcome_json row = json"
      "decode_outcome_row h row ?new = Inr x" "oo_outcome x = b" using w(3) by blast
  then show thesis using that w(1,2) new(2,3) fresh(1,4,7) by simp
qed

section \<open>Releases after a restart\<close>

lemma at_most_one_Inr: "at_most_one m xs = Inr y \<longleftrightarrow> (xs = [] \<and> y = None) \<or> (\<exists>x. xs = [x] \<and> y = Some x)"
  by (cases xs rule: remdups_adj.cases) (auto simp: at_most_one_def)

lemma matching_active_Some:
  assumes "matching_active_lease h s x = Inr (Some l)"
  shows "l \<in> set (active_leases h s)" and "lease_id h l = oo_lease_id x" and "lease_digest h l = oo_lease_digest x"
    and "cl_authorization_id l = oo_authorization_id x" and "cl_authorization_digest l = oo_authorization_digest x"
    and "cl_invocation_id l = oo_invocation_id x" and "cl_physical_attempt l = oo_physical_attempt x"
proof -
  have "l \<in> set (filter (\<lambda>l. lease_id h l = oo_lease_id x \<and> lease_digest h l = oo_lease_digest x
        \<and> cl_authorization_id l = oo_authorization_id x \<and> cl_authorization_digest l = oo_authorization_digest x
        \<and> cl_invocation_id l = oo_invocation_id x \<and> cl_physical_attempt l = oo_physical_attempt x) (active_leases h s))"
    using assms by (simp add: matching_active_lease_def at_most_one_Inr)
  then show "l \<in> set (active_leases h s)" "lease_id h l = oo_lease_id x" "lease_digest h l = oo_lease_digest x"
    "cl_authorization_id l = oo_authorization_id x" "cl_authorization_digest l = oo_authorization_digest x"
    "cl_invocation_id l = oo_invocation_id x" "cl_physical_attempt l = oo_physical_attempt x" by auto
qed

lemma matching_active_None:
  "oo_lease_id x \<notin> lease_id h ` set (active_leases h s) \<Longrightarrow> matching_active_lease h s x = Inr None"
  by (force simp: matching_active_lease_def at_most_one_Inr filter_empty_conv)

text \<open>An active lease has no release yet.\<close>

lemma active_not_released:
  "l \<in> set (active_leases h s) \<Longrightarrow> lease_id h l = oo_lease_id x \<Longrightarrow> matching_release s x = Inr None"
  by (force simp: matching_release_def at_most_one_Inr filter_empty_conv set_active_leases)

text \<open>After the lease of a record has been released for its outcome, the release is found.\<close>

lemma released_is_found:
  assumes "committed h runner s" and "matching_active_lease h s x = Inr (Some l)"
    and "x = record_fields h st (oo_outcome x)"
    and "release_capacity_for_outcome h s spec registry plan session runner l (oo_outcome x) = Inr (s', g, t)"
  shows "matching_active_lease h s' x = Inr None" and "matching_release s' x = Inr (Some (cq_release g))"
    and "apply_transition h s t = Inr s'" and "cs_generation s' = cs_generation s + 1"
proof -
  note l = matching_active_Some [OF assms(2)]
  let ?b = "oo_outcome x"
  have "propose_outcome_release h s spec registry plan session runner l ?b = Inr t"
    using assms(4) by (auto simp: release_capacity_for_outcome_def ebind_eq_Inr)
  then have ok: "verify_physical_outcome h spec registry plan session runner ?b = Inr True" "owns h ?b l"
    by (simp_all add: propose_outcome_release_Inr [OF assms(1) l(1)])
  let ?r = "outcome_release h s l ?b"
  have rel: "t = release_step h s ?r" "s' = advance h s t" "g = release_grant_for h s' t ?r" "apply_transition h s t = Inr s'"
      "active_leases h s' = filter (\<lambda>y. y \<noteq> l) (active_leases h s)"
    using release_for_outcome_ok [OF assms(1) l(1) ok] assms(4) by (simp_all add: Let_def)
  show "apply_transition h s t = Inr s'" "cs_generation s' = cs_generation s + 1" using rel(2,4) by simp_all
  have ids: "distinct (map (lease_id h) (leases s))" using committed_runner(5) [OF assms(1)] by (simp add: capacity_inv_def)
  then have inj: "inj_on (lease_id h) (set (leases s))" by (simp add: distinct_map)
  have "lease_id h y \<noteq> oo_lease_id x" if "y \<in> set (active_leases h s')" for y
  proof
    assume "lease_id h y = oo_lease_id x"
    moreover have "y \<in> set (leases s)" "y \<noteq> l" "l \<in> set (leases s)"
      using that l(1) unfolding rel(5) set_filter set_active_leases by auto
    ultimately show False using inj_onD [OF inj, of y l] l(2) by simp
  qed
  then have "oo_lease_id x \<notin> lease_id h ` set (active_leases h s')" by force
  then show "matching_active_lease h s' x = Inr None" by (rule matching_active_None)
  have old: "matching_release s x = Inr None" by (rule active_not_released [OF l(1,2)])
  have rs: "releases s' = releases s @ [?r]" unfolding rel(2) rel(1) by (simp add: releases_advance)
  have fields: "oo_outcome_digest x = outcome_digest h ?b" "oo_receipt_digest x = receipt_digest h (pt_receipt ?b)"
      "oo_transport_status x = pr_transport_status (pt_receipt ?b)"
    using arg_cong [OF assms(3), of oo_outcome_digest] arg_cong [OF assms(3), of oo_receipt_digest]
      arg_cong [OF assms(3), of oo_transport_status] by (simp_all add: record_fields_def Let_def)
  have "cr_authorization_id ?r = cl_authorization_id l" "cr_authorization_digest ?r = cl_authorization_digest l"
    by (simp_all add: outcome_release_def release_of_def)
  then have match: "cr_lease_id ?r = oo_lease_id x" "cr_lease_digest ?r = oo_lease_digest x" "cr_authorization_id ?r = oo_authorization_id x"
      "cr_authorization_digest ?r = oo_authorization_digest x" "cr_invocation_id ?r = oo_invocation_id x"
      "cr_physical_attempt ?r = oo_physical_attempt x" "cr_release_kind ?r = ''terminal_outcome''"
      "cr_outcome_digest ?r = Some (oo_outcome_digest x)" "cr_receipt_digest ?r = Some (oo_receipt_digest x)"
      "cr_transport_status ?r = Some (oo_transport_status x)"
    using l fields by (simp_all add: outcome_release_def)
  have "cq_release g = ?r" using rel(3) by (simp add: release_grant_for_def)
  then show "matching_release s' x = Inr (Some (cq_release g))"
    using old unfolding matching_release_def at_most_one_Inr rs filter_append by (simp add: match)
qed

text \<open>The head commit of a release is refused once the release is the head.\<close>

lemma committed_twice_refused:
  assumes "head_load h heads runner = Inr (s', d')" and "cs_generation s' = cs_generation s + 1"
  shows "\<exists>e. head_commit h heads runner (state_digest h s) s' = Inl e \<and> is_durable_capacity_error e"
proof -
  have "verify_capacity_state h s' runner = Inr True"
    using head_load_committed [OF assms(1)] by (simp add: verify_capacity_state_True)
  moreover obtain row where "heads (rc_runner_id runner) = Some row" "decode_head_row h row runner = Inr (s', d')"
    using assms(1) by (auto simp: head_load_def split: option.splits)
  ultimately show ?thesis by (simp add: head_commit_def)
qed

lemma release_recovery_init_Inr: "release_recovery_init v = Inr v' \<longleftrightarrow> v' = v \<and> ov_schema_version v = ''ge.observed-outcome-release-recovery.v1''
   \<and> \<not> blank (ov_intent_id v) \<and> 1 \<le> ov_committed_generation v \<and> digest_ok (ov_outcome_digest v) \<and> digest_ok (ov_release_digest v)
   \<and> digest_ok (ov_committed_state_digest v) \<and> digest_ok (ov_durable_head_digest v)"
  by (auto simp: release_recovery_init_def exc_simps)

text \<open>The prefix that every run of the release shares.\<close>

lemma release_observed_Inr:
  assumes "release_observed_capacity h first db seen heads later iid spec registry plan session runner = Inr (heads', v)"
  obtains st x s d active where "dispatch_load h (od_intents first) iid = Inr st" and "ds_status st = ''observed''"
    and "load_observed_outcome h db iid = Inr x"
    and "verify_physical_outcome h spec registry plan session runner (oo_outcome x) = Inr True"
    and "head_load h seen runner = Inr (s, d)" and "matching_active_lease h s x = Inr active"
  using assms unfolding release_observed_capacity_def ebind_guard ebind_eq_Inr raise_unless_eq split_paired_Ex prod.case by blast

lemma release_observed_tail:
  assumes "dispatch_load h (od_intents first) iid = Inr st" and "ds_status st = ''observed''" and "load_observed_outcome h db iid = Inr x"
    and "verify_physical_outcome h spec registry plan session runner (oo_outcome x) = Inr True"
    and "head_load h seen runner = Inr (s, d)" and "matching_active_lease h s x = Inr active"
  shows "release_observed_capacity h first db seen heads later iid spec registry plan session runner
    = release_or_recover h heads later spec registry plan session runner x s d active"
proof -
  have "verify_capacity_state h s runner = Inr True"
    using head_load_committed [OF assms(5)] by (simp add: verify_capacity_state_True)
  then show ?thesis
    using assms by (simp add: release_observed_capacity_def)
qed

section \<open>Recording succeeds\<close>

lemma outcome_row_agrees [simp]: "row_agrees (outcome_row_of x json) x" "oc_outcome_json (outcome_row_of x json) = json"
  by (simp_all add: row_agrees_def outcome_row_of_def)

lemma decode_written_outcome:
  assumes "durable_record h new b = Inr x" and "valid_outcome h b" and "serialize_physical_outcome h b = Inr json"
  shows "decode_outcome_row h (outcome_row_of x json) new = Inr x"
proof -
  have "deserialize_physical_outcome h json = Inr b" using assms(2,3) by (simp add: deserialize_outcome_iff)
  then show ?thesis using assms(1) by (simp add: decode_outcome_row_def)
qed

lemma observed_state_init:
  assumes "verify_intrinsic_outcome h b"
  shows "dispatch_state_init (observed_state h current b) = Inr (observed_state h current b)"
  using intrinsic_result(2) [OF assms]
  by (auto simp: dispatch_state_init_def observed_state_def observed_fields_def empty_opt_def Let_def dispatch_digest_def list_ex_iff)

lemma write_observed_ok:
  assumes load: "dispatch_load h (od_intents db) iid = Inr current" and unique: "distinct (map dr_intent_id (od_intents db))"
    and new: "valid_dispatch new" "ds_intent new = ds_intent current"
    and x: "durable_record h new b = Inr x" and b: "valid_outcome h b" "serialize_physical_outcome h b = Inr json"
    and fresh: "select_one oc_intent_id iid (od_outcomes db) = None"
      "select_one oc_authorization_id (oo_authorization_id x) (od_outcomes db) = None"
      "select_one oc_invocation_id (oo_invocation_id x) (od_outcomes db) = None"
  shows "\<exists>db'. write_observed h db current new b json = Inr (db', new)"
proof -
  let ?p = "cas_match h current" let ?f = "cas_set h new"
  let ?intents = "fst (update_where ?p ?f (od_intents db))" let ?row = "outcome_row_of x json"
  have iid: "intent_id h (ds_intent current) = iid" using dispatch_load_valid [OF load] by simp
  obtain row where row: "select_one dr_intent_id iid (od_intents db) = Some row" "decode_dispatch_row h row = Inr current"
    using load by (auto simp: dispatch_load_def split: option.splits)
  then have m: "?p row" "row \<in> set (od_intents db)" using select_one_Some [OF row(1)] by (auto simp: decode_dispatch_row_Inr)
  have "snd (update_where ?p ?f (od_intents db)) = 1"
  proof (rule update_one [where key = dr_intent_id and p = ?p, OF unique m(2,1)])
    show "dr_intent_id q = dr_intent_id row" if "?p q" for q using that m(1) by (simp add: cas_match_def)
  qed
  moreover have key: "oc_intent_id ?row = iid"
    using durable_record_Inr [OF x] iid new(2) by (simp add: outcome_row_of_def record_fields_def Let_def)
  moreover have "insert_unique [oc_intent_id, oc_authorization_id, oc_invocation_id] ?row (od_outcomes db) = Inr (od_outcomes db @ [?row])"
    using fresh key by (simp add: insert_unique_Inr) (simp add: outcome_row_of_def)
  moreover have "select_one dr_intent_id iid ?intents = Some (?f row)"
    using row(1) m(1) select_one_update [of dr_intent_id ?f iid ?p] by simp
  moreover have "decode_dispatch_row h (?f row) = Inr new" by (rule decode_written(2) [OF new(1) m(1) new(2)])
  moreover have "select_one oc_intent_id iid (od_outcomes db @ [?row]) = Some ?row"
    using fresh(1) key by (simp add: select_one_append)
  moreover have "oo_outcome x = b" using durable_record_Inr [OF x] by auto
  ultimately show ?thesis
    using x iid decode_written_outcome [OF x b]
    by (simp add: write_observed_def case_prod_unfold Let_def)
qed

lemma record_observed_ok:
  assumes load: "dispatch_load h (od_intents db) iid = Inr current" and "ds_status current = ''submission_unknown''"
    and unique: "distinct (map dr_intent_id (od_intents db))"
    and b: "verify_physical_outcome h spec registry plan session runner b = Inr True" "valid_outcome h b"
    and "outcome_of_intent h (ds_intent current) b"
    and x: "durable_record h (observed_state h current b) b = Inr x"
    and fresh: "select_one oc_intent_id iid (od_outcomes db) = None"
      "select_one oc_authorization_id (oo_authorization_id x) (od_outcomes db) = None"
      "select_one oc_invocation_id (oo_invocation_id x) (od_outcomes db) = None"
  shows "\<exists>db'. record_observed h db iid (dispatch_digest h current) spec registry plan session runner b = Inr (db', observed_state h current b)"
proof -
  let ?new = "observed_state h current b"
  have intrinsic: "verify_intrinsic_outcome h b" using b(2) by (simp add: valid_outcome_def)
  note init = observed_state_init [OF intrinsic, of current]
  have current: "valid_dispatch current" using dispatch_load_valid [OF load] by simp
  have new: "valid_dispatch ?new" "ds_intent ?new = ds_intent current"
    using observed_state_valid [OF current init] by (simp_all add: observed_state_def Let_def)
  obtain json where json: "serialize_physical_outcome h b = Inr json" using serialize_outcome_ok [OF intrinsic] by blast
  obtain db' where "write_observed h db current ?new b json = Inr (db', ?new)"
    using write_observed_ok [OF load unique new x b(2) json fresh] by blast
  then show ?thesis
    using assms json init by (simp add: record_observed_def)
qed

section \<open>An example\<close>

lemma ex_request_valid: "valid_request (ex_request h)"
proof -
  have "aq_spec (ex_request h) = ex_spec" "aq_schema_version (ex_request h) = ''ge.adapter-dispatch.v1''"
      "adapter_request_init (ex_request h) = Inr (ex_request h)"
    by (simp_all add: ex_request_def adapter_request_init_eq startswith_def)
  moreover have "valid_spec ex_spec" using ex_valid(1) by (simp add: valid_spec_def) (simp add: ex_spec_def)
  ultimately show ?thesis by (simp add: valid_request_def)
qed

lemma ex_outcome_valid: "valid_outcome h (ex_outcome h)"
  unfolding ex_outcome_def
proof (rule outcome_for_wire)
  show "valid_authorization (ex_authorization h)"
    using ex_authorization(2) [of h] ex_request_valid by (simp add: valid_authorization_def) (simp add: ex_authorization_def)
  show "valid_observation (ex_failure h (ex_authorization h))"
    using observe_failure_verified(2) [OF ex_failure] by (simp add: valid_observation_def) (simp add: ex_failure_def)
  show "verify_observation h (ex_authorization h) (ex_failure h (ex_authorization h))"
    by (rule observe_failure_verified(1) [OF ex_failure])
qed

definition ex_observed :: "hash \<Rightarrow> dispatch_state" where
  "ex_observed h = observed_state h (ex_unknown h) (ex_outcome h)"

definition ex_db :: "hash \<Rightarrow> observed_db" where
  "ex_db h = \<lparr>od_intents = [dispatch_row_of h (ex_unknown h)], od_outcomes = []\<rparr>"

lemma ex_intent_fields:
  "di_authorization_id (ex_intent h) = authorization_id h (ex_authorization h)"
  "di_authorization_digest (ex_intent h) = authorization_digest h (ex_authorization h)"
  "di_invocation_id (ex_intent h) = ''gei-1''" "di_request_digest (ex_intent h) = request_digest h (ex_request h)"
  "di_runner_id (ex_intent h) = ''r1''" "di_runner_capability_digest (ex_intent h) = runner_digest h ex_runner"
  "di_physical_attempt (ex_intent h) = 1" "di_session_id (ex_intent h) = session_id h (ex_running h)" "di_logical_attempt (ex_intent h) = 1"
  "di_lease_id (ex_intent h) = lease_id h (ex_lease h)" "di_lease_digest (ex_intent h) = lease_digest h (ex_lease h)"
  by (simp_all add: ex_intent_def intent_for_def Let_def ex_lease_def) (simp_all add: ex_authorization_def ex_request_def ex_runner_def)

lemma ex_owned_intent: "outcome_of_intent h (ex_intent h) (ex_outcome h)"
  by (simp add: outcome_of_intent_def Let_def ex_intent_fields) (simp add: ex_authorization_def ex_request_def)

lemma ex_durable_record:
  assumes "hex_digest h"
  shows "durable_record h (ex_observed h) (ex_outcome h) = Inr (record_fields h (ex_observed h) (ex_outcome h))"
proof -
  note digest = hex_digest.digest_ok_sha256 [OF assms]
  have req: "pa_request (ex_authorization h) = ex_request h" "aq_runner_id (ex_request h) = ''r1''" "aq_invocation_id (ex_request h) = ''gei-1''"
      "aq_runner_capability_digest (ex_request h) = runner_digest h ex_runner" "aq_session_id (ex_request h) = session_id h (ex_running h)"
      "aq_attempt (ex_request h) = 1" "pa_physical_attempt (ex_authorization h) = 1"
    by (simp_all add: ex_authorization_def ex_request_def)
  have literals: "\<not> blank ''r1''" "\<not> blank ''gei-1''" "\<not> blank ''timed_out''" by (simp_all add: blank_iff is_space_def)
  have i: "ds_intent (ex_observed h) = ex_intent h" by (simp add: ex_observed_def observed_state_def Let_def ex_unknown(3))
  have "verify_outcome_against_dispatch h (ex_observed h) (ex_outcome h)"
    unfolding verify_outcome_against_dispatch_def Let_def i ex_intent_fields by (simp add: req) (simp add: ex_observed_def observed_state_def Let_def)
  moreover have "durable_outcome_init h (record_fields h (ex_observed h) (ex_outcome h)) = Inr (record_fields h (ex_observed h) (ex_outcome h))"
    unfolding durable_outcome_init_def record_fields_def Let_def i ex_intent_fields
    by (simp add: req literals check_nonempty_Inr check_digest_field_Inr digest intent_id_def authorization_id_def lease_id_def
        dispatch_digest_def lease_digest_def authorization_digest_def request_digest_def outcome_digest_def observation_digest_def
        receipt_digest_def ebind_eq_Inr)
  ultimately show ?thesis by (simp add: durable_record_def)
qed

lemma ex_record:
  assumes "hex_digest h"
  shows "\<exists>db. record_observed h (ex_db h) (intent_id h (ex_intent h)) (dispatch_digest h (ex_unknown h)) ex_spec ex_registry (ex_plan h) (ex_running h)
    ex_runner (ex_outcome h) = Inr (db, ex_observed h)"
proof -
  have load: "dispatch_load h (od_intents (ex_db h)) (intent_id h (ex_intent h)) = Inr (ex_unknown h)"
    using decode_written(1) [OF ex_unknown(1)]
    by (simp add: ex_db_def dispatch_load_def select_one_def) (simp add: dispatch_row_of_def Let_def ex_unknown(3))
  have unique: "distinct (map dr_intent_id (od_intents (ex_db h)))" by (simp add: ex_db_def)
  have own: "outcome_of_intent h (ds_intent (ex_unknown h)) (ex_outcome h)" unfolding ex_unknown(3) by (rule ex_owned_intent)
  have none: "select_one k v (od_outcomes (ex_db h)) = None" for k :: "outcome_row \<Rightarrow> string" and v by (simp add: ex_db_def select_one_def)
  show ?thesis
    unfolding ex_observed_def
    by (rule record_observed_ok [OF load ex_unknown(2) unique ex_outcome_verified ex_outcome_valid own
          ex_durable_record [OF assms, unfolded ex_observed_def] none none none])
qed

text \<open>The release for the recorded outcome, and what the next run finds.\<close>

lemma release_or_recover_Some:
  assumes "release_or_recover h heads heads spec registry plan session runner x s d (Some l) = Inr (heads', v)"
    and "head_load h heads runner = Inr (s, d)" and "matching_active_lease h s x = Inr (Some l)"
  obtains s' g t d' where "release_capacity_for_outcome h s spec registry plan session runner l (oo_outcome x) = Inr (s', g, t)"
    and "head_commit h heads runner (state_digest h s) s' = Inr (heads', d')"
    and "release_recovery_init (recovery_of h x (cq_release g) s' d' False) = Inr v"
proof -
  obtain s' g t where rel: "release_capacity_for_outcome h s spec registry plan session runner l (oo_outcome x) = Inr (s', g, t)"
    and tail: "(case head_commit h heads runner (state_digest h s) s' of
           Inl e \<Rightarrow> (if is_durable_capacity_error e then
               ebind (head_load h heads runner) (\<lambda>(ls, ld).
               ebind (idempotent_release_recovery h ls ld x) (\<lambda>recovered. case recovered of
                 None \<Rightarrow> Inl e | Some v \<Rightarrow> Inr (heads, v)))
             else Inl e)
         | Inr (heads', d') \<Rightarrow>
             ebind (release_recovery_init (recovery_of h x (cq_release g) s' d' False)) (\<lambda>v. Inr (heads', v))) = Inr (heads', v)"
    using assms(1) unfolding release_or_recover_def option.case ebind_eq_Inr split_paired_Ex prod.case by blast
  have none: "idempotent_release_recovery h s d x = Inr None"
    using active_not_released [OF matching_active_Some(1,2) [OF assms(3)]] by (simp add: idempotent_release_recovery_def)
  show thesis
  proof (cases "head_commit h heads runner (state_digest h s) s'")
    case (Inl e)
    then show thesis using tail assms(2) none by (simp split: if_splits)
  next
    case (Inr p)
    obtain hs d' where p: "p = (hs, d')" by (cases p)
    then have "release_recovery_init (recovery_of h x (cq_release g) s' d' False) = Inr v" "hs = heads'"
      using tail Inr by (auto simp: ebind_eq_Inr)
    then show thesis using that rel Inr p by blast
  qed
qed

lemma recovered_again:
  assumes "release_recovery_init (recovery_of h x r s' d' False) = Inr v" and "matching_release s' x = Inr (Some r)"
  shows "idempotent_release_recovery h s' d' x = Inr (Some (recovery_of h x r s' d' True))" and "v = recovery_of h x r s' d' False"
proof -
  have "release_recovery_init (recovery_of h x r s' d' True) = Inr (recovery_of h x r s' d' True)"
    using assms(1) by (auto simp: release_recovery_init_Inr recovery_of_def)
  then show "idempotent_release_recovery h s' d' x = Inr (Some (recovery_of h x r s' d' True))"
    by (simp add: idempotent_release_recovery_def assms(2))
  show "v = recovery_of h x r s' d' False" using assms(1) unfolding release_recovery_init_Inr by blast
qed

lemma ex_release_observed:
  assumes "hex_digest h"
  shows "\<exists>db heads v. release_observed_capacity h db db (ex_reserved_heads h) (ex_reserved_heads h) (ex_reserved_heads h)
    (intent_id h (ex_intent h)) ex_spec ex_registry (ex_plan h) (ex_running h) ex_runner = Inr (heads, v)"
proof -
  obtain db where rec: "record_observed h (ex_db h) (intent_id h (ex_intent h)) (dispatch_digest h (ex_unknown h)) ex_spec ex_registry
      (ex_plan h) (ex_running h) ex_runner (ex_outcome h) = Inr (db, ex_observed h)"
    using ex_record [OF assms] by blast
  then obtain row x where r: "dispatch_load h (od_intents db) (intent_id h (ex_intent h)) = Inr (ex_observed h)"
      "ds_status (ex_observed h) = ''observed''" "select_one oc_intent_id (intent_id h (ex_intent h)) (od_outcomes db) = Some row"
      "decode_outcome_row h row (ex_observed h) = Inr x" "oo_outcome x = ex_outcome h"
    by (rule recorded_state) blast
  have x: "x = record_fields h (ex_observed h) (ex_outcome h)" using decode_outcome_row_Inr(1) [OF r(4)] r(5) by simp
  have i: "ds_intent (ex_observed h) = ex_intent h" by (simp add: ex_observed_def observed_state_def Let_def ex_unknown(3))
  have "cl_authorization_id (ex_lease h) = authorization_id h (ex_authorization h)"
      "cl_authorization_digest (ex_lease h) = authorization_digest h (ex_authorization h)"
      "cl_invocation_id (ex_lease h) = ''gei-1''" "cl_physical_attempt (ex_lease h) = 1"
      "pa_physical_attempt (ex_authorization h) = 1"
    by (simp_all add: ex_lease_def) (simp_all add: ex_authorization_def ex_request_def)
  then have act: "matching_active_lease h (ex_reserved h) x = Inr (Some (ex_lease h))"
    by (simp add: x matching_active_lease_def ex_reserved(3) record_fields_def Let_def i ex_intent_fields at_most_one_Inr)
  obtain heads where commit: "head_commit h (ex_reserved_heads h) ex_runner (state_digest h (ex_reserved h)) (ex_released h)
      = Inr (heads, stored_head h (ex_released h))" using ex_release_commit by blast
  have "1 \<le> cs_generation (ex_released h)"
    by (simp add: ex_released_def ex_reserved_def ex_genesis_def)
  then have "\<exists>v. release_recovery_init (recovery_of h x r (ex_released h) d False) = Inr v" for r d
    using hex_digest.digest_ok_sha256 [OF assms]
    by (simp add: release_recovery_init_Inr recovery_of_def x record_fields_def Let_def i intent_id_def outcome_digest_def release_digest_def
        state_digest_def head_digest_def)
  then have "\<exists>v. release_or_recover h (ex_reserved_heads h) (ex_reserved_heads h) ex_spec ex_registry (ex_plan h) (ex_running h) ex_runner x
      (ex_reserved h) (stored_head h (ex_reserved h)) (Some (ex_lease h)) = Inr (heads, v)"
    using commit by (simp add: release_or_recover_def r(5) ex_release_capacity ebind_eq_Inr)
  moreover have "load_observed_outcome h db (intent_id h (ex_intent h)) = Inr x" using r by (simp add: load_observed_outcome_def)
  ultimately show ?thesis
    using release_observed_tail [OF r(1,2) _ _ ex_reserved_heads act] r(5) ex_outcome_verified by metis
qed

section \<open>Properties\<close>

text \<open>C6: An observed outcome is recorded once and for all: after \<open>record_observed\<close> has succeeded, the outbox
  holds the intent as observed, the stored outcome is the one that was recorded, the same call is
  answered again without changing the database, and no call records another outcome.\<close>

theorem observed_recorded_once:
  assumes "record_observed h db iid expected spec registry plan session runner b = Inr (db', s)"
  shows "dispatch_load h (od_intents db') iid = Inr s \<and> ds_status s = ''observed'' \<and>
    (\<exists>x. load_observed_outcome h db' iid = Inr x \<and> oo_outcome x = b) \<and>
    record_observed h db' iid expected spec registry plan session runner b = Inr (db', s) \<and>
    (record_observed h db' iid expected' spec' registry' plan' session' runner' b' = Inr (db'', s'') \<longrightarrow>
       b' = b \<and> db'' = db' \<and> s'' = s)"
  using assms
proof (cases rule: recorded_state)
  case (1 row x)
  have "load_observed_outcome h db' iid = Inr x" using 1 by (simp add: load_observed_outcome_def)
  moreover note replay_observed_Inr [OF 1]
  moreover have "b' = b \<and> db'' = db' \<and> s'' = s"
    if "record_observed h db' iid expected' spec' registry' plan' session' runner' b' = Inr (db'', s'')"
    using that
  proof (cases rule: record_observed_cases)
    case (replay current row' x')
    then show ?thesis using 1 by simp
  next
    case (fresh current json)
    then show ?thesis using 1 by simp
  qed
  ultimately show ?thesis using 1 by blast
qed

theorem observed_recorded_once_witness:
  "\<exists>db x. load_observed_outcome zero_hash db (intent_id zero_hash (ex_intent zero_hash)) = Inr x \<and> oo_outcome x = ex_outcome zero_hash"
proof -
  obtain db where "record_observed zero_hash (ex_db zero_hash) (intent_id zero_hash (ex_intent zero_hash)) (dispatch_digest zero_hash (ex_unknown zero_hash))
      ex_spec ex_registry (ex_plan zero_hash) (ex_running zero_hash) ex_runner (ex_outcome zero_hash) = Inr (db, ex_observed zero_hash)"
    using ex_record [OF zero_hash] by blast
  from observed_recorded_once [OF this] show ?thesis by blast
qed

text \<open>C7: Releasing after a restart is idempotent and safe to race: once a run has succeeded on the capacity heads
  it read, both a later run and a run that had read the old heads succeed on the new heads without
  changing them, and both report the same release of the same outcome as idempotent. The outbox may change
  between the two moments at which a run reads it.\<close>

theorem release_recovery_idempotent:
  assumes "release_observed_capacity h first db heads heads heads iid spec registry plan session runner = Inr (heads', v)"
    and "seen = heads \<or> seen = heads'"
  shows "\<exists>v'. release_observed_capacity h first db seen heads' heads' iid spec registry plan session runner = Inr (heads', v') \<and>
    ov_idempotent v' \<and> ov_release_digest v' = ov_release_digest v \<and> ov_outcome_digest v' = ov_outcome_digest v"
  using assms(1)
proof (cases rule: release_observed_Inr)
  case (1 st x s d active)
  note run = release_observed_tail [OF 1(1-4)]
  have tail: "release_or_recover h heads heads spec registry plan session runner x s d active = Inr (heads', v)"
    using assms(1) run [OF 1(5,6)] by simp
  show ?thesis
  proof (cases active)
    case None
    then have r: "idempotent_release_recovery h s d x = Inr (Some v)" "heads' = heads"
      using tail by (auto simp: release_or_recover_def ebind_eq_Inr split: option.splits)
    have "ov_idempotent v" using r(1)
      by (auto simp: idempotent_release_recovery_def ebind_eq_Inr release_recovery_init_Inr recovery_of_def split: option.splits)
    moreover have "seen = heads" using assms(2) r(2) by blast
    ultimately show ?thesis using run [OF 1(5,6)] None r by (simp add: release_or_recover_def)
  next
    case (Some l)
    note act = 1(6) [unfolded Some]
    obtain s' g t d' where rel: "release_capacity_for_outcome h s spec registry plan session runner l (oo_outcome x) = Inr (s', g, t)"
      and commit: "head_commit h heads runner (state_digest h s) s' = Inr (heads', d')"
      and init: "release_recovery_init (recovery_of h x (cq_release g) s' d' False) = Inr v"
      using release_or_recover_Some [OF tail [unfolded Some] 1(5) act] by blast
    obtain row st' where "decode_outcome_row h row st' = Inr x" using 1(3) by (auto elim: load_observed_Inr)
    then have x: "x = record_fields h st' (oo_outcome x)" by (rule decode_outcome_row_Inr(1))
    note found = released_is_found [OF head_load_committed [OF 1(5)] act x rel]
    note again = recovered_again [OF init found(2)]
    have load: "head_load h heads' runner = Inr (s', d')" by (rule heads_after_commit [OF commit])
    let ?v = "recovery_of h x (cq_release g) s' d' True"
    have "release_observed_capacity h first db seen heads' heads' iid spec registry plan session runner = Inr (heads', ?v)"
    proof (cases "seen = heads'")
      case True
      then show ?thesis using release_observed_tail [OF 1(1-4) load found(1)] again(1) by (simp add: release_or_recover_def)
    next
      case False
      then have seen: "seen = heads" using assms(2) by blast
      obtain e where "head_commit h heads' runner (state_digest h s) s' = Inl e" "is_durable_capacity_error e"
        using committed_twice_refused [OF load found(4)] by blast
      then show ?thesis using run [OF 1(5,6)] Some rel load again(1) by (simp add: release_or_recover_def seen)
    qed
    then show ?thesis using again(2) by (intro exI [of _ ?v]) (simp add: recovery_of_def)
  qed
qed

theorem release_recovery_idempotent_witness:
  "\<exists>db heads v. release_observed_capacity zero_hash db db (ex_reserved_heads zero_hash) heads heads (intent_id zero_hash (ex_intent zero_hash))
     ex_spec ex_registry (ex_plan zero_hash) (ex_running zero_hash) ex_runner = Inr (heads, v) \<and> ov_idempotent v"
proof -
  obtain db heads v where "release_observed_capacity zero_hash db db (ex_reserved_heads zero_hash) (ex_reserved_heads zero_hash) (ex_reserved_heads zero_hash)
      (intent_id zero_hash (ex_intent zero_hash)) ex_spec ex_registry (ex_plan zero_hash) (ex_running zero_hash) ex_runner = Inr (heads, v)"
    using ex_release_observed [OF zero_hash] by blast
  from release_recovery_idempotent [OF this, of "ex_reserved_heads zero_hash"] show ?thesis by blast
qed

end
