(* ===== verification/Outbox_State.thy ===== *)
theory Outbox_State
  imports Observed
begin

text \<open>
  The invariant of the outbox database: the key columns are unique, every row decodes, and every
  observed intent has its outcome. It holds of the empty database and every operation of the
  store keeps it; under it the store answers every query.
\<close>

section \<open>The invariant\<close>

text \<open>The columns that the schema declares unique.\<close>

definition outbox_keys :: "dispatch_table \<Rightarrow> bool" where
  "outbox_keys tbl \<longleftrightarrow> distinct (map dr_intent_id tbl) \<and> distinct (map dr_lease_id tbl)"

definition row_decodes :: "hash \<Rightarrow> dispatch_row \<Rightarrow> bool" where
  "row_decodes h r \<longleftrightarrow> (case decode_dispatch_row h r of Inl _ \<Rightarrow> False | Inr _ \<Rightarrow> True)"

definition outcome_kept :: "hash \<Rightarrow> observed_db \<Rightarrow> dispatch_row \<Rightarrow> bool" where
  "outcome_kept h db r \<longleftrightarrow> (case decode_dispatch_row h r of Inl _ \<Rightarrow> False | Inr st \<Rightarrow>
     ds_status st = ''observed'' \<longrightarrow>
       (case load_observed_outcome h db (dr_intent_id r) of Inl _ \<Rightarrow> False | Inr _ \<Rightarrow> True))"

definition db_ok :: "hash \<Rightarrow> observed_db \<Rightarrow> bool" where
  "db_ok h db \<longleftrightarrow> outbox_keys (od_intents db) \<and> list_all (row_decodes h) (od_intents db)
     \<and> list_all (outcome_kept h db) (od_intents db)"

text \<open>The operations on the database, with whatever was read before.\<close>

inductive db_step :: "hash \<Rightarrow> observed_db \<Rightarrow> observed_db \<Rightarrow> bool" for h where
  prepare: "dispatch_initialize h (od_intents db) i = Inr (tbl, s) \<Longrightarrow> valid_intent i \<Longrightarrow> db_step h db (db\<lparr>od_intents := tbl\<rparr>)"
| submit: "begin_submission h seen heads (od_intents db) iid expected runner = Inr (tbl, s, p) \<Longrightarrow>
    db_step h db (db\<lparr>od_intents := tbl\<rparr>)"
| observe: "record_observed h db iid expected spec registry plan session runner b = Inr (db', s) \<Longrightarrow> db_step h db db'"

section \<open>Loading under the invariant\<close>

lemma row_decodes_iff: "row_decodes h r \<longleftrightarrow> (\<exists>s. decode_dispatch_row h r = Inr s)"
  by (auto simp: row_decodes_def split: sum.splits)

lemma load_row:
  assumes "outbox_keys tbl" and "r \<in> set tbl"
  shows "dispatch_load h tbl (dr_intent_id r) = decode_dispatch_row h r"
  using select_one_unique [of dr_intent_id tbl r] assms by (simp add: dispatch_load_def outbox_keys_def)

lemma load_rows: "outbox_keys tbl \<Longrightarrow> dispatch_load h tbl k = Inr s \<longleftrightarrow> (\<exists>r\<in>set tbl. dr_intent_id r = k \<and> decode_dispatch_row h r = Inr s)"
proof
  assume "dispatch_load h tbl k = Inr s"
  then show "\<exists>r\<in>set tbl. dr_intent_id r = k \<and> decode_dispatch_row h r = Inr s"
    by (auto simp: dispatch_load_def dest!: select_one_Some split: option.splits)
qed (use load_row in fastforce)

text \<open>The invariant, in terms of what is loaded.\<close>

lemma db_ok_iff: "db_ok h db \<longleftrightarrow> outbox_keys (od_intents db) \<and> list_all (row_decodes h) (od_intents db) \<and>
   (\<forall>k st. dispatch_load h (od_intents db) k = Inr st \<longrightarrow> ds_status st = ''observed'' \<longrightarrow>
      (\<exists>x. load_observed_outcome h db k = Inr x))"
proof -
  have kept: "outcome_kept h db r \<longleftrightarrow> (\<exists>st. decode_dispatch_row h r = Inr st \<and>
      (ds_status st = ''observed'' \<longrightarrow> (\<exists>x. load_observed_outcome h db (dr_intent_id r) = Inr x)))" for r
    by (auto simp: outcome_kept_def split: sum.splits)
  have "list_all (outcome_kept h db) (od_intents db) \<longleftrightarrow> (\<forall>k st. dispatch_load h (od_intents db) k = Inr st \<longrightarrow>
      ds_status st = ''observed'' \<longrightarrow> (\<exists>x. load_observed_outcome h db k = Inr x))"
    if keys: "outbox_keys (od_intents db)" and dec: "list_all (row_decodes h) (od_intents db)"
  proof (intro iffI allI impI)
    fix k st
    assume "list_all (outcome_kept h db) (od_intents db)" and st: "dispatch_load h (od_intents db) k = Inr st" "ds_status st = ''observed''"
    moreover obtain r where "r \<in> set (od_intents db)" "dr_intent_id r = k" "decode_dispatch_row h r = Inr st"
      using st(1) load_rows [OF keys] by blast
    ultimately show "\<exists>x. load_observed_outcome h db k = Inr x" by (auto simp: list_all_iff kept)
  next
    assume all: "\<forall>k st. dispatch_load h (od_intents db) k = Inr st \<longrightarrow> ds_status st = ''observed'' \<longrightarrow>
      (\<exists>x. load_observed_outcome h db k = Inr x)"
    have "outcome_kept h db r" if r: "r \<in> set (od_intents db)" for r
    proof -
      obtain st where st: "decode_dispatch_row h r = Inr st" using dec r by (auto simp: list_all_iff row_decodes_iff)
      then have "dispatch_load h (od_intents db) (dr_intent_id r) = Inr st" using load_row [OF keys r] by simp
      with all st show ?thesis unfolding kept by blast
    qed
    then show "list_all (outcome_kept h db) (od_intents db)" by (simp add: list_all_iff)
  qed
  then show ?thesis unfolding db_ok_def by blast
qed

text \<open>A runner's states are listed, each under its own lease.\<close>

lemma emap_set: "emap f xs = Inr ys \<Longrightarrow> set ys = {y. \<exists>x\<in>set xs. f x = Inr y}"
  by (induction xs arbitrary: ys) (fastforce simp: ebind_eq_Inr)+

lemma emap_decode_leases: "emap (decode_dispatch_row h) rows = Inr ss \<Longrightarrow> map (\<lambda>s. di_lease_id (ds_intent s)) ss = map dr_lease_id rows"
  by (induction rows arbitrary: ss) (auto simp: ebind_eq_Inr decode_dispatch_row_Inr cas_match_def)

lemma load_for_runner_total:
  assumes "list_all (row_decodes h) tbl"
  shows "\<exists>states. load_for_runner h tbl rid = Inr states"
proof -
  have "\<exists>ss. emap (decode_dispatch_row h) (sort_key dr_intent_id tbl) = Inr ss"
    using assms by (simp add: emap_Inr_iff list_all_iff row_decodes_iff)
  then show ?thesis by (auto simp: load_for_runner_def)
qed

lemma load_for_runner_states:
  assumes "load_for_runner h tbl rid = Inr states" and "outbox_keys tbl"
  shows "set states = {s. di_runner_id (ds_intent s) = rid \<and> dispatch_load h tbl (intent_id h (ds_intent s)) = Inr s}"
    and "distinct (map (\<lambda>s. di_lease_id (ds_intent s)) states)"
proof -
  obtain ss where ss: "emap (decode_dispatch_row h) (sort_key dr_intent_id tbl) = Inr ss"
      "states = filter (\<lambda>s. di_runner_id (ds_intent s) = rid) ss"
    using assms(1) by (auto simp: load_for_runner_def ebind_eq_Inr)
  have "intent_id h (ds_intent s) = dr_intent_id r" if "decode_dispatch_row h r = Inr s" for r s
    using that by (simp add: decode_dispatch_row_Inr cas_match_def)
  then show "set states = {s. di_runner_id (ds_intent s) = rid \<and> dispatch_load h tbl (intent_id h (ds_intent s)) = Inr s}"
    unfolding ss(2) set_filter emap_set [OF ss(1)] by (auto simp: load_rows [OF assms(2)])
  have "mset (map dr_lease_id (sort_key dr_intent_id tbl)) = mset (map dr_lease_id tbl)" by simp
  then have "distinct (map dr_lease_id (sort_key dr_intent_id tbl))"
    using assms(2) mset_eq_imp_distinct_iff unfolding outbox_keys_def by blast
  then have "distinct (map (\<lambda>s. di_lease_id (ds_intent s)) ss)" using emap_decode_leases [OF ss(1)] by simp
  then show "distinct (map (\<lambda>s. di_lease_id (ds_intent s)) states)" unfolding ss(2) by (rule distinct_map_filter_sub)
qed

section \<open>Every operation keeps the invariant\<close>

lemma load_observed_cong:
  assumes "dispatch_load h (od_intents db') k = dispatch_load h (od_intents db) k"
    and "select_one oc_intent_id k (od_outcomes db') = select_one oc_intent_id k (od_outcomes db)"
  shows "load_observed_outcome h db' k = load_observed_outcome h db k"
  unfolding load_observed_outcome_def assms ..

text \<open>The update of a compare-and-swap keeps the keys, writes a row that decodes, and touches one intent.\<close>

lemma cas_update:
  assumes "valid_dispatch new" and "ds_intent new = ds_intent current"
  shows "outbox_keys (fst (update_where (cas_match h current) (cas_set h new) tbl)) = outbox_keys tbl"
    and "list_all (row_decodes h) tbl \<Longrightarrow> list_all (row_decodes h) (fst (update_where (cas_match h current) (cas_set h new) tbl))"
    and "k \<noteq> intent_id h (ds_intent current) \<Longrightarrow> dispatch_load h (fst (update_where (cas_match h current) (cas_set h new) tbl)) k = dispatch_load h tbl k"
proof -
  show "outbox_keys (fst (update_where (cas_match h current) (cas_set h new) tbl)) = outbox_keys tbl" by (simp add: outbox_keys_def map_key_update)
  show "list_all (row_decodes h) (fst (update_where (cas_match h current) (cas_set h new) tbl))" if "list_all (row_decodes h) tbl"
    using that decode_written(2) [OF assms(1) _ assms(2)] unfolding update_where_def fst_conv list_all_iff row_decodes_iff
    by fastforce
  show "dispatch_load h (fst (update_where (cas_match h current) (cas_set h new) tbl)) k = dispatch_load h tbl k" if k: "k \<noteq> intent_id h (ds_intent current)"
  proof -
    have "\<not> cas_match h current row" if "select_one dr_intent_id k tbl = Some row" for row
      using select_one_Some [OF that] k by (simp add: cas_match_def)
    then show ?thesis
      unfolding dispatch_load_def select_one_update [of dr_intent_id, OF cas_set_keys(1)] by (auto split: option.split)
  qed
qed

lemma prepare_keeps:
  assumes "db_ok h db" and "dispatch_initialize h (od_intents db) i = Inr (tbl, s)" and "valid_intent i"
  shows "db_ok h (db\<lparr>od_intents := tbl\<rparr>)"
proof (cases "tbl = od_intents db")
  case False
  have s: "s = initial_dispatch_state i" "valid_dispatch s" "ds_status s = ''prepared''"
    using initialize_Inr [OF assms(2)] initial_state_valid [OF assms(3)] by (auto simp: initial_dispatch_state_def)
  have fresh: "select_one dr_intent_id (intent_id h (ds_intent s)) (od_intents db) = None"
      "select_one dr_lease_id (di_lease_id (ds_intent s)) (od_intents db) = None"
    and tbl: "tbl = od_intents db @ [dispatch_row_of h s]"
    using initialize_Inr [OF assms(2)] False s(1) by auto
  have row: "dr_intent_id (dispatch_row_of h s) = intent_id h (ds_intent s)" "dr_lease_id (dispatch_row_of h s) = di_lease_id (ds_intent s)"
    by (simp_all add: dispatch_row_of_def Let_def)
  have old: "outbox_keys (od_intents db)" "list_all (row_decodes h) (od_intents db)" using assms(1) by (simp_all add: db_ok_def)
  have keys: "outbox_keys tbl"
    using old(1) fresh row unfolding tbl outbox_keys_def select_one_None by (auto simp: image_iff)
  have dec: "list_all (row_decodes h) tbl"
    using old(2) decode_written(1) [OF s(2)] by (auto simp: tbl list_all_iff row_decodes_iff)
  have "\<exists>x. load_observed_outcome h (db\<lparr>od_intents := tbl\<rparr>) k = Inr x"
    if st: "dispatch_load h tbl k = Inr st" "ds_status st = ''observed''" for k st
  proof -
    have "k \<noteq> intent_id h (ds_intent s)"
      using st s(3) dispatch_load_append [OF fresh(1) s(2), of k] by (auto simp: tbl)
    then have load: "dispatch_load h tbl k = dispatch_load h (od_intents db) k"
      using dispatch_load_append [OF fresh(1) s(2), of k] by (simp add: tbl)
    then have "load_observed_outcome h (db\<lparr>od_intents := tbl\<rparr>) k = load_observed_outcome h db k"
      by (intro load_observed_cong) simp_all
    then show ?thesis using assms(1) st load unfolding db_ok_iff by auto
  qed
  then show ?thesis using keys dec by (simp add: db_ok_iff)
qed (use assms(1) in simp)

lemma submit_keeps:
  assumes "db_ok h db" and "begin_submission h seen heads (od_intents db) iid expected runner = Inr (tbl, s, p)"
  shows "db_ok h (db\<lparr>od_intents := tbl\<rparr>)"
proof -
  obtain current where c: "dispatch_load h seen iid = Inr current"
      "dispatch_commit h (od_intents db) current (unknown_state h current) = Inr (tbl, s)"
    using assms(2) unfolding begin_submission_Inr by blast
  let ?new = "unknown_state h current"
  have v: "valid_dispatch ?new" "ds_intent ?new = ds_intent current" "ds_status ?new \<noteq> ''observed''"
    using dispatch_load_valid [OF c(1)] by (simp_all add: unknown_state_valid) (simp_all add: unknown_state_def)
  have tbl: "tbl = fst (update_where (cas_match h current) (cas_set h ?new) (od_intents db))"
    using dispatch_commit_Inr(6) [OF c(2)] .
  note u = cas_update [OF v(1,2), where h = h and tbl = "od_intents db", folded tbl]
  have new: "dispatch_load h tbl (intent_id h (ds_intent current)) = Inr ?new" by (rule dispatch_commit_load [OF c(2) v(1)])
  have "\<exists>x. load_observed_outcome h (db\<lparr>od_intents := tbl\<rparr>) k = Inr x"
    if st: "dispatch_load h tbl k = Inr st" "ds_status st = ''observed''" for k st
  proof -
    have "k \<noteq> intent_id h (ds_intent current)" using st new v(3) by auto
    then have load: "dispatch_load h tbl k = dispatch_load h (od_intents db) k" by (rule u(3))
    then have "load_observed_outcome h (db\<lparr>od_intents := tbl\<rparr>) k = load_observed_outcome h db k"
      by (intro load_observed_cong) simp_all
    then show ?thesis using assms(1) st load unfolding db_ok_iff by auto
  qed
  then show ?thesis using u(1,2) assms(1) by (simp add: db_ok_iff)
qed

lemma observe_keeps:
  assumes "db_ok h db" and "record_observed h db iid expected spec registry plan session runner b = Inr (db', s)"
  shows "db_ok h db'"
  using assms(2)
proof (cases rule: record_observed_cases)
  case (replay current row x)
  then show ?thesis using assms(1) by simp
next
  case (fresh current json)
  let ?new = "observed_state h current b"
  have new: "ds_intent ?new = ds_intent current" "ds_status ?new = ''observed''" by (simp_all add: observed_state_def Let_def)
  have cur: "valid_dispatch current" "intent_id h (ds_intent current) = iid" using dispatch_load_valid [OF fresh(2)] by auto
  have v: "valid_dispatch ?new" by (rule observed_state_valid [OF cur(1) fresh(8)])
  note w = write_observed_Inr [OF fresh(9) cur(2) fresh(5) new(1,2)]
  note u = cas_update [OF v new(1), where h = h and tbl = "od_intents db", folded w(4), unfolded cur(2)]
  obtain row where row: "oc_intent_id row = iid" "od_outcomes db' = od_outcomes db @ [row]" using w(5) by blast
  have "\<exists>x. load_observed_outcome h db' k = Inr x"
    if st: "dispatch_load h (od_intents db') k = Inr st" "ds_status st = ''observed''" for k st
  proof (cases "k = iid")
    case True
    obtain row x where "select_one oc_intent_id iid (od_outcomes db') = Some row" "decode_outcome_row h row ?new = Inr x"
      using w(3) by blast
    then show ?thesis using w(2) new(2) True by (simp add: load_observed_outcome_def)
  next
    case False
    have "select_one oc_intent_id k (od_outcomes db') = select_one oc_intent_id k (od_outcomes db)"
      using False row(1) by (simp add: row(2) select_one_append split: option.split)
    then have "load_observed_outcome h db' k = load_observed_outcome h db k" by (intro load_observed_cong u(3) False)
    then show ?thesis using assms(1) st u(3) [OF False] unfolding db_ok_iff by auto
  qed
  then show ?thesis using u(1,2) assms(1) by (simp add: db_ok_iff)
qed

lemma db_step_keeps: "db_step h db db' \<Longrightarrow> db_ok h db \<Longrightarrow> db_ok h db'"
  by (induction rule: db_step.induct) (auto intro: prepare_keeps submit_keeps observe_keeps)

lemma db_steps_keep: "(db_step h)\<^sup>*\<^sup>* db db' \<Longrightarrow> db_ok h db \<Longrightarrow> db_ok h db'"
  by (induction rule: rtranclp_induct) (auto intro: db_step_keeps)

lemma empty_db_ok: "db_ok h \<lparr>od_intents = [], od_outcomes = []\<rparr>"
  by (simp add: db_ok_def outbox_keys_def)

section \<open>Recovery answers\<close>

lemma recover_observed_total:
  assumes "db_ok h db"
  shows "\<exists>states xs. load_for_runner h (od_intents db) rid = Inr states \<and> recover_observed_for_runner h db rid = Inr xs
    \<and> length xs = length (filter (\<lambda>s. ds_status s = ''observed'') states)"
proof -
  have ok: "outbox_keys (od_intents db)" "list_all (row_decodes h) (od_intents db)" using assms by (simp_all add: db_ok_def)
  obtain states where states: "load_for_runner h (od_intents db) rid = Inr states" using load_for_runner_total [OF ok(2)] by blast
  have "\<exists>x. load_observed_outcome h db (intent_id h (ds_intent s)) = Inr x" if "s \<in> set states" "ds_status s = ''observed''" for s
    using that load_for_runner_states(1) [OF states ok(1)] assms unfolding db_ok_iff by blast
  then obtain xs where xs: "emap (\<lambda>s. load_observed_outcome h db (intent_id h (ds_intent s))) (filter (\<lambda>s. ds_status s = ''observed'') states) = Inr xs"
    using emap_Inr_iff [of "\<lambda>s. load_observed_outcome h db (intent_id h (ds_intent s))" "filter (\<lambda>s. ds_status s = ''observed'') states"]
    by auto
  then show ?thesis using states emap_length [OF xs] by (simp add: recover_observed_for_runner_def)
qed

section \<open>Properties\<close>

text \<open>C11: Whatever sequence of operations runs on a fresh outbox, whatever their callers had read, the key columns
  stay unique, every stored row decodes, and every observed intent keeps its outcome; so recovery can
  always list the runner's intents and load one outcome for each observed one.\<close>

theorem outbox_invariant:
  assumes "(db_step h)\<^sup>*\<^sup>* \<lparr>od_intents = [], od_outcomes = []\<rparr> db"
  shows "db_ok h db \<and> (\<exists>states xs. load_for_runner h (od_intents db) rid = Inr states \<and>
    recover_observed_for_runner h db rid = Inr xs \<and> length xs = length (filter (\<lambda>s. ds_status s = ''observed'') states))"
  using db_steps_keep [OF assms empty_db_ok] recover_observed_total by blast

theorem outbox_invariant_witness:
  "db_ok (\<lambda>t. t) \<lparr>od_intents = [dispatch_row_of (\<lambda>t. t) (ex_prepared (\<lambda>t. t))], od_outcomes = []\<rparr>"
proof -
  let ?h = "\<lambda>t. t"
  have "db_step ?h \<lparr>od_intents = [], od_outcomes = []\<rparr> (\<lparr>od_intents = [], od_outcomes = []\<rparr>\<lparr>od_intents := [dispatch_row_of ?h (ex_prepared ?h)]\<rparr>)"
    by (rule db_step.prepare [where i = "ex_intent ?h" and s = "ex_prepared ?h"])
      (simp_all add: ex_initialize prepare_Inr(2) [OF ex_prepare])
  then have "(db_step ?h)\<^sup>*\<^sup>* \<lparr>od_intents = [], od_outcomes = []\<rparr> \<lparr>od_intents = [dispatch_row_of ?h (ex_prepared ?h)], od_outcomes = []\<rparr>"
    by simp
  from outbox_invariant [OF this] show ?thesis by blast
qed

end
