(* ===== verification/Session_Recovery.thy ===== *)
theory Session_Recovery
  imports Outbox_State
begin

text \<open>
  What a restarted process knows of a logical session (\<open>session_recovery.py\<close>): a projection computed
  from the plan, the committed capacity head and the outbox, which says how far the session came, the
  next recovery action, and whether a further physical attempt may be asked for.
  The capacity head (\<open>heads\<close>) and the outbox are read one after the other; \<open>seen\<close> is the outbox when
  its states are listed, \<open>later\<close> when the outcome of one of them is loaded.
\<close>

section \<open>The projection\<close>

record session_projection =
  sp_runner_id :: string
  sp_session_id :: string
  sp_logical_attempt :: int
  sp_status :: string
  sp_projected_state :: string
  sp_projected_session :: execution_session
  sp_projected_session_digest :: string
  sp_capacity_state_digest :: string
  sp_capacity_generation :: int
  sp_capacity_head_digest :: string
  sp_physical_transition_count :: int
  sp_latest_physical_attempt :: "int option"
  sp_active_lease_id :: "string option"
  sp_dispatch_intent_id :: "string option"
  sp_dispatch_status :: "string option"
  sp_durable_outcome_digest :: "string option"
  sp_last_release_digest :: "string option"
  sp_retry_eligible :: bool
  sp_recovery_action :: string
  sp_finding :: "string option"
  sp_schema_version :: string

definition session_projection_py :: "session_projection \<Rightarrow> pyval" where
  "session_projection_py x = PDict [
    (''runner_id'', PStr (sp_runner_id x)),
    (''session_id'', PStr (sp_session_id x)),
    (''logical_attempt'', PInt (sp_logical_attempt x)),
    (''status'', PStr (sp_status x)),
    (''projected_state'', PStr (sp_projected_state x)),
    (''projected_session'', execution_session_py (sp_projected_session x)),
    (''projected_session_digest'', PStr (sp_projected_session_digest x)),
    (''capacity_state_digest'', PStr (sp_capacity_state_digest x)),
    (''capacity_generation'', PInt (sp_capacity_generation x)),
    (''capacity_head_digest'', PStr (sp_capacity_head_digest x)),
    (''physical_transition_count'', PInt (sp_physical_transition_count x)),
    (''latest_physical_attempt'', py_opt PInt (sp_latest_physical_attempt x)),
    (''active_lease_id'', py_opt PStr (sp_active_lease_id x)),
    (''dispatch_intent_id'', py_opt PStr (sp_dispatch_intent_id x)),
    (''dispatch_status'', py_opt PStr (sp_dispatch_status x)),
    (''durable_outcome_digest'', py_opt PStr (sp_durable_outcome_digest x)),
    (''last_release_digest'', py_opt PStr (sp_last_release_digest x)),
    (''retry_eligible'', PBool (sp_retry_eligible x)),
    (''recovery_action'', PStr (sp_recovery_action x)),
    (''finding'', py_opt PStr (sp_finding x)),
    (''schema_version'', PStr (sp_schema_version x))]"

interpretation session_projection: encoding session_projection_py
proof unfold_locales
  show "wf_py (session_projection_py x)" for x
    by (simp add: session_projection_py_def)
  show "normalize (session_projection_py x) = normalize (session_projection_py y) \<longleftrightarrow> x = y" for x y
    by (cases x; cases y) (simp add: session_projection_py_def normalize_dict_inject)
qed

definition projection_statuses :: "string list" where
  "projection_statuses = [''coherent'', ''recovery_required'', ''legacy_untracked'', ''inconsistent'']"

definition recovery_actions :: "string list" where
  "recovery_actions = [''none'', ''start_session'', ''prepare_dispatch_intent'', ''begin_submission'',
     ''reconcile_provider'', ''release_observed_capacity'']"

definition session_digest :: "hash \<Rightarrow> execution_session \<Rightarrow> string" where
  "session_digest h s = sha256_digest h (execution_session_py s)"

definition session_projection_init :: "hash \<Rightarrow> session_projection \<Rightarrow> session_projection exc" where
  "session_projection_init h x =
     (if sp_schema_version x \<noteq> ''ge.session-recovery-projection.v1''
      then Inl (ValueError ''unsupported Session recovery projection schema'')
      else if sp_logical_attempt x < 1 then Inl (ValueError ''logical_attempt must be >= 1'')
      else if sp_capacity_generation x < 0 \<or> sp_physical_transition_count x < 0
      then Inl (ValueError ''capacity generation and transition count must be >= 0'')
      else if (case sp_latest_physical_attempt x of None \<Rightarrow> False | Some n \<Rightarrow> n < 1)
      then Inl (ValueError ''latest_physical_attempt must be >= 1'')
      else if sp_status x \<notin> set projection_statuses then Inl (ValueError ''unsupported Session recovery status'')
      else if sp_projected_state x \<notin> {''bound'', ''running'', ''revoked'', ''result_submitted''}
      then Inl (ValueError ''unsupported projected Session state'')
      else if sp_recovery_action x \<notin> set recovery_actions then Inl (ValueError ''unsupported Session recovery action'')
      else if session_id h (sp_projected_session x) \<noteq> sp_session_id x then Inl (ValueError ''projected Session identity mismatch'')
      else if xs_attempt (sp_projected_session x) \<noteq> sp_logical_attempt x then Inl (ValueError ''projected Session attempt mismatch'')
      else if xs_state (sp_projected_session x) \<noteq> sp_projected_state x then Inl (ValueError ''projected Session state mismatch'')
      else if session_digest h (sp_projected_session x) \<noteq> sp_projected_session_digest x
      then Inl (ValueError ''projected Session digest mismatch'')
      else ebind (eall (\<lambda>(name, v). if \<not> digest_shape v then Inl (ValueError (name @ '' must be sha256:<64-hex>'')) else Inr ()) [
        (''projected_session_digest'', sp_projected_session_digest x), (''capacity_state_digest'', sp_capacity_state_digest x),
        (''capacity_head_digest'', sp_capacity_head_digest x)]) (\<lambda>_. Inr x))"

definition projection_digest :: "hash \<Rightarrow> session_projection \<Rightarrow> string" where
  "projection_digest h x = sha256_digest h (session_projection_py x)"

section \<open>The history of one session\<close>

definition transition_identity :: "capacity_transition \<Rightarrow> (string \<times> int \<times> int) option" where
  "transition_identity t =
     (if ct_kind t = ''reserve'' then map_option (\<lambda>l. (cl_session_id l, cl_logical_attempt l, cl_physical_attempt l)) (ct_lease t)
      else map_option (\<lambda>r. (cr_session_id r, cr_logical_attempt r, cr_physical_attempt r)) (ct_release t))"

definition of_session :: "string \<Rightarrow> int \<Rightarrow> capacity_transition \<Rightarrow> bool" where
  "of_session sid attempt t \<longleftrightarrow>
     (case transition_identity t of None \<Rightarrow> False | Some (s, a, _) \<Rightarrow> s = sid \<and> a = attempt)"

definition session_transitions :: "capacity_state \<Rightarrow> string \<Rightarrow> int \<Rightarrow> capacity_transition list" where
  "session_transitions s sid attempt = filter (of_session sid attempt) (cs_transitions s)"

definition session_active_leases :: "hash \<Rightarrow> capacity_state \<Rightarrow> string \<Rightarrow> int \<Rightarrow> capacity_lease list" where
  "session_active_leases h s sid attempt =
     filter (\<lambda>l. cl_session_id l = sid \<and> cl_logical_attempt l = attempt) (active_leases h s)"

definition latest_physical_attempt :: "capacity_transition list \<Rightarrow> int option" where
  "latest_physical_attempt ts = (case List.map_filter (map_option (snd \<circ> snd) \<circ> transition_identity) ts of
     [] \<Rightarrow> None | n # ns \<Rightarrow> Some (foldl max n ns))"

definition session_dispatch_states :: "hash \<Rightarrow> observed_db \<Rightarrow> string \<Rightarrow> string \<Rightarrow> int \<Rightarrow> dispatch_state list exc" where
  "session_dispatch_states h db runner_id sid attempt =
     ebind (load_for_runner h (od_intents db) runner_id) (\<lambda>states.
     Inr (filter (\<lambda>s. di_session_id (ds_intent s) = sid \<and> di_logical_attempt (ds_intent s) = attempt) states))"

text \<open>The intent of a lease or of a release, by its six bindings.\<close>

definition intent_of_lease :: "hash \<Rightarrow> capacity_lease \<Rightarrow> dispatch_intent \<Rightarrow> bool" where
  "intent_of_lease h l i \<longleftrightarrow> di_lease_id i = lease_id h l \<and> di_lease_digest i = lease_digest h l
     \<and> di_authorization_id i = cl_authorization_id l \<and> di_authorization_digest i = cl_authorization_digest l
     \<and> di_invocation_id i = cl_invocation_id l \<and> di_physical_attempt i = cl_physical_attempt l"

definition intent_of_release :: "capacity_release \<Rightarrow> dispatch_intent \<Rightarrow> bool" where
  "intent_of_release r i \<longleftrightarrow> di_lease_id i = cr_lease_id r \<and> di_lease_digest i = cr_lease_digest r
     \<and> di_authorization_id i = cr_authorization_id r \<and> di_authorization_digest i = cr_authorization_digest r
     \<and> di_invocation_id i = cr_invocation_id r \<and> di_physical_attempt i = cr_physical_attempt r"

definition one_intent :: "string \<Rightarrow> (dispatch_intent \<Rightarrow> bool) \<Rightarrow> dispatch_state list \<Rightarrow> dispatch_state option exc" where
  "one_intent message p states = (let matches = filter (\<lambda>s. p (ds_intent s)) states in
     if 1 < length matches then Inl (SessionRecoveryError message)
     else Inr (case matches of [] \<Rightarrow> None | s # _ \<Rightarrow> Some s))"

definition dispatch_for_lease :: "hash \<Rightarrow> dispatch_state list \<Rightarrow> capacity_lease \<Rightarrow> dispatch_state option exc" where
  "dispatch_for_lease h states l =
     one_intent ''one capacity lease maps to multiple durable dispatch intents'' (intent_of_lease h l) states"

definition dispatch_for_release :: "dispatch_state list \<Rightarrow> capacity_release \<Rightarrow> dispatch_state option exc" where
  "dispatch_for_release states r =
     one_intent ''one capacity release maps to multiple durable dispatch intents'' (intent_of_release r) states"

definition outcome_of_release :: "capacity_release \<Rightarrow> durable_outcome \<Rightarrow> bool" where
  "outcome_of_release r x \<longleftrightarrow> oo_lease_id x = cr_lease_id r \<and> oo_lease_digest x = cr_lease_digest r
     \<and> oo_authorization_id x = cr_authorization_id r \<and> oo_authorization_digest x = cr_authorization_digest r
     \<and> oo_invocation_id x = cr_invocation_id r \<and> oo_physical_attempt x = cr_physical_attempt r
     \<and> Some (oo_outcome_digest x) = cr_outcome_digest r \<and> Some (oo_receipt_digest x) = cr_receipt_digest r
     \<and> Some (oo_transport_status x) = cr_transport_status r"

definition load_release_outcome :: "hash \<Rightarrow> observed_db \<Rightarrow> dispatch_state \<Rightarrow> capacity_release \<Rightarrow> durable_outcome exc" where
  "load_release_outcome h db st r =
     (if ds_status st \<noteq> ''observed''
      then Inl (SessionRecoveryError ''terminal capacity release is not backed by observed durable dispatch state'')
      else ebind (load_observed_outcome h db (intent_id h (ds_intent st))) (\<lambda>x.
      if \<not> outcome_of_release r x
      then Inl (SessionRecoveryError ''durable observed outcome does not match terminal capacity release'') else Inr x))"

section \<open>Projecting a session\<close>

text \<open>
  What the calls of \<open>_projection\<close> share: the runner, the capacity state with its head digest, and the
  session's own history. Keyword arguments are the update \<open>upd\<close> of the defaults.
\<close>

record recovery_context =
  rx_runner :: runner_capabilities
  rx_capacity :: capacity_state
  rx_head_digest :: string
  rx_transitions :: "capacity_transition list"

definition projection_defaults :: "hash \<Rightarrow> recovery_context \<Rightarrow> execution_session \<Rightarrow> string \<Rightarrow> session_projection" where
  "projection_defaults h cx session status =
     \<lparr>sp_runner_id = rc_runner_id (rx_runner cx), sp_session_id = session_id h session, sp_logical_attempt = xs_attempt session,
      sp_status = status, sp_projected_state = xs_state session, sp_projected_session = session,
      sp_projected_session_digest = session_digest h session, sp_capacity_state_digest = state_digest h (rx_capacity cx),
      sp_capacity_generation = cs_generation (rx_capacity cx), sp_capacity_head_digest = rx_head_digest cx,
      sp_physical_transition_count = int (length (rx_transitions cx)),
      sp_latest_physical_attempt = latest_physical_attempt (rx_transitions cx), sp_active_lease_id = None,
      sp_dispatch_intent_id = None, sp_dispatch_status = None, sp_durable_outcome_digest = None, sp_last_release_digest = None,
      sp_retry_eligible = False, sp_recovery_action = ''none'', sp_finding = None,
      sp_schema_version = ''ge.session-recovery-projection.v1''\<rparr>"

definition projection :: "hash \<Rightarrow> recovery_context \<Rightarrow> execution_session \<Rightarrow> string \<Rightarrow>
   (session_projection \<Rightarrow> session_projection) \<Rightarrow> session_projection exc" where
  "projection h cx session status upd = session_projection_init h (upd (projection_defaults h cx session status))"

definition with_dispatch :: "hash \<Rightarrow> dispatch_state \<Rightarrow> session_projection \<Rightarrow> session_projection" where
  "with_dispatch h st p = p\<lparr>sp_dispatch_intent_id := Some (intent_id h (ds_intent st)), sp_dispatch_status := Some (ds_status st)\<rparr>"

text \<open>The session still holds a lease: the status of its intent names the next action.\<close>

definition project_active :: "hash \<Rightarrow> recovery_context \<Rightarrow> observed_db \<Rightarrow> execution_session \<Rightarrow> dispatch_state list \<Rightarrow> capacity_lease \<Rightarrow>
   session_projection exc" where
  "project_active h cx later running states l =
     ebind (dispatch_for_lease h states l) (\<lambda>found. case found of
       None \<Rightarrow> projection h cx running ''recovery_required'' (\<lambda>p. p\<lparr>sp_active_lease_id := Some (lease_id h l),
         sp_recovery_action := ''prepare_dispatch_intent'', sp_finding := Some ''ACTIVE_LEASE_WITHOUT_DURABLE_DISPATCH_INTENT''\<rparr>)
     | Some st \<Rightarrow>
       if ds_status st = ''prepared'' then
         projection h cx running ''recovery_required'' (\<lambda>p. with_dispatch h st (p\<lparr>sp_active_lease_id := Some (lease_id h l),
           sp_recovery_action := ''begin_submission'', sp_finding := Some ''DURABLE_DISPATCH_PREPARED''\<rparr>))
       else if ds_status st = ''submission_unknown'' then
         projection h cx running ''recovery_required'' (\<lambda>p. with_dispatch h st (p\<lparr>sp_active_lease_id := Some (lease_id h l),
           sp_recovery_action := ''reconcile_provider'', sp_finding := Some ''DURABLE_DISPATCH_SUBMISSION_UNKNOWN''\<rparr>))
       else if ds_status st = ''observed'' then
         ebind (rethrow (\<lambda>_. True) (SessionRecoveryError ''observed dispatch outcome is not durably recoverable'')
           (load_observed_outcome h later (intent_id h (ds_intent st)))) (\<lambda>x.
         if oo_lease_id x \<noteq> lease_id h l \<or> oo_lease_digest x \<noteq> lease_digest h l
         then Inl (SessionRecoveryError ''durable observed outcome no longer matches active lease'')
         else projection h cx running ''recovery_required'' (\<lambda>p. with_dispatch h st (p\<lparr>sp_active_lease_id := Some (lease_id h l),
           sp_durable_outcome_digest := Some (oo_outcome_digest x), sp_recovery_action := ''release_observed_capacity'',
           sp_finding := Some ''OBSERVED_OUTCOME_CAPACITY_RELEASE_PENDING''\<rparr>)))
       else Inl (SessionRecoveryError ''unsupported durable dispatch state''))"

text \<open>The last release was a revocation.\<close>

definition project_revoked :: "hash \<Rightarrow> recovery_context \<Rightarrow> execution_session \<Rightarrow> capacity_release \<Rightarrow> session_projection exc" where
  "project_revoked h cx running r =
     ebind (revoke_session running) (\<lambda>revoked.
     if cr_revoked_session_digest r \<noteq> Some (session_digest h revoked) then
       projection h cx running ''inconsistent'' (\<lambda>p. p\<lparr>sp_last_release_digest := Some (release_digest h r),
         sp_finding := Some ''REVOCATION_RELEASE_SESSION_DIGEST_MISMATCH''\<rparr>)
     else projection h cx revoked ''coherent'' (\<lambda>p. p\<lparr>sp_last_release_digest := Some (release_digest h r)\<rparr>))"

text \<open>The last release answered an outcome, which is checked again in the execution context.\<close>

definition project_outcome :: "hash \<Rightarrow> recovery_context \<Rightarrow> execution_spec \<Rightarrow> runner_registry \<Rightarrow> dispatch_plan \<Rightarrow> execution_session \<Rightarrow>
   capacity_release \<Rightarrow> dispatch_state \<Rightarrow> durable_outcome \<Rightarrow> session_projection exc" where
  "project_outcome h cx spec registry plan running r st x =
     (let upd = (\<lambda>p. with_dispatch h st (p\<lparr>sp_durable_outcome_digest := Some (oo_outcome_digest x),
                    sp_last_release_digest := Some (release_digest h r)\<rparr>));
          result = pt_result (oo_outcome x) in
     ebind (verify_physical_outcome h spec registry plan running (rx_runner cx) (oo_outcome x)) (\<lambda>ok.
     if \<not> ok then projection h cx running ''inconsistent'' (\<lambda>p. (upd p)\<lparr>sp_finding := Some ''DURABLE_OUTCOME_EXECUTION_CONTEXT_MISMATCH''\<rparr>)
     else if cr_transport_status r = Some ''completed'' then
       (case result of
          None \<Rightarrow> Inl (SessionRecoveryError ''completed terminal release has no durable logical result'')
        | Some res \<Rightarrow> ebind (submit_result h running res) (\<lambda>submitted. projection h cx submitted ''coherent'' upd))
     else if result \<noteq> None then Inl (SessionRecoveryError ''failed transport release unexpectedly carries logical result'')
     else projection h cx running ''coherent'' (\<lambda>p. (upd p)\<lparr>sp_retry_eligible := True\<rparr>)))"

definition project_terminal :: "hash \<Rightarrow> recovery_context \<Rightarrow> observed_db \<Rightarrow> execution_spec \<Rightarrow> runner_registry \<Rightarrow> dispatch_plan \<Rightarrow>
   execution_session \<Rightarrow> dispatch_state list \<Rightarrow> capacity_release \<Rightarrow> session_projection exc" where
  "project_terminal h cx later spec registry plan running states r =
     (let untracked = projection h cx running ''legacy_untracked'' (\<lambda>p. p\<lparr>sp_last_release_digest := Some (release_digest h r),
          sp_finding := Some ''TERMINAL_RELEASE_LACKS_RESTART_COMPLETE_DURABLE_OUTCOME''\<rparr>) in
     ebind (dispatch_for_release states r) (\<lambda>found. case found of
       None \<Rightarrow> untracked
     | Some st \<Rightarrow>
       if ds_status st \<noteq> ''observed'' then untracked
       else ebind (rethrow (\<lambda>_. True) (SessionRecoveryError ''terminal release durable outcome failed verification'')
           (load_release_outcome h later st r)) (project_outcome h cx spec registry plan running r st)))"

definition project_released :: "hash \<Rightarrow> recovery_context \<Rightarrow> observed_db \<Rightarrow> execution_spec \<Rightarrow> runner_registry \<Rightarrow> dispatch_plan \<Rightarrow>
   execution_session \<Rightarrow> dispatch_state list \<Rightarrow> session_projection exc" where
  "project_released h cx later spec registry plan running states =
     (case List.map_filter (\<lambda>t. if ct_kind t = ''release'' then ct_release t else None) (rx_transitions cx) of
        [] \<Rightarrow> projection h cx running ''inconsistent''
          (\<lambda>p. p\<lparr>sp_finding := Some ''PHYSICAL_HISTORY_HAS_NO_ACTIVE_LEASE_OR_RELEASE''\<rparr>)
      | rs \<Rightarrow> let r = last rs in
          if cr_release_kind r = ''session_revoked'' then project_revoked h cx running r
          else if cr_release_kind r \<noteq> ''terminal_outcome'' then Inl (SessionRecoveryError ''unsupported capacity release kind'')
          else project_terminal h cx later spec registry plan running states r)"

text \<open>The case distinction, once the capacity head and the outbox have been read.\<close>

definition project_history :: "hash \<Rightarrow> recovery_context \<Rightarrow> observed_db \<Rightarrow> execution_spec \<Rightarrow> runner_registry \<Rightarrow> dispatch_plan \<Rightarrow>
   execution_session \<Rightarrow> execution_session \<Rightarrow> capacity_lease list \<Rightarrow> dispatch_state list \<Rightarrow> session_projection exc" where
  "project_history h cx later spec registry plan bound running active states =
     (if rx_transitions cx = [] then
        (if states \<noteq> [] then projection h cx bound ''inconsistent'' (\<lambda>p. p\<lparr>sp_finding := Some ''DISPATCH_WITHOUT_CAPACITY_HISTORY''\<rparr>)
         else projection h cx bound ''recovery_required'' (\<lambda>p. p\<lparr>sp_recovery_action := ''start_session'',
           sp_finding := Some ''NO_DURABLE_PHYSICAL_HISTORY''\<rparr>))
      else case active of
          l # _ \<Rightarrow> project_active h cx later running states l
        | [] \<Rightarrow> project_released h cx later spec registry plan running states)"

text \<open>The session as the plan binds it to the runner, bound and running.\<close>

definition recovery_session :: "hash \<Rightarrow> execution_spec \<Rightarrow> runner_registry \<Rightarrow> dispatch_plan \<Rightarrow> runner_capabilities \<Rightarrow> int \<Rightarrow>
   (execution_session \<times> execution_session) exc" where
  "recovery_session h spec registry plan runner attempt =
     (if attempt < 1 then Inl (SessionRecoveryError ''logical Session attempt must be >= 1'')
      else ebind (verify_plan h spec registry plan) (\<lambda>ok.
      if \<not> ok then Inl (SessionRecoveryError ''dispatch plan does not reproduce'')
      else ebind (bind_session h spec registry plan attempt) (\<lambda>bound.
      if xs_runner_id bound \<noteq> rc_runner_id runner \<or> xs_runner_capability_digest bound \<noteq> runner_digest h runner
      then Inl (SessionRecoveryError ''logical Session is not bound to supplied runner'')
      else ebind (start_session bound) (\<lambda>running. Inr (bound, running)))))"

definition recovery_capacity :: "hash \<Rightarrow> head_store \<Rightarrow> runner_capabilities \<Rightarrow> (capacity_state \<times> capacity_head) exc" where
  "recovery_capacity h heads runner =
     ebind (rethrow is_durable_capacity_error (SessionRecoveryError ''canonical durable capacity head is unavailable'')
       (head_load h heads runner)) (\<lambda>(s, d).
     ebind (verify_capacity_state h s runner) (\<lambda>ok.
     if \<not> ok then Inl (SessionRecoveryError ''canonical durable capacity state does not replay'') else Inr (s, d)))"

definition project_session_after_restart ::
  "hash \<Rightarrow> head_store \<Rightarrow> observed_db \<Rightarrow> observed_db \<Rightarrow> execution_spec \<Rightarrow> runner_registry \<Rightarrow> dispatch_plan \<Rightarrow> runner_capabilities \<Rightarrow>
   int \<Rightarrow> session_projection exc" where
  "project_session_after_restart h heads seen later spec registry plan runner attempt =
     ebind (recovery_session h spec registry plan runner attempt) (\<lambda>(bound, running).
     ebind (recovery_capacity h heads runner) (\<lambda>(s, d).
     let sid = session_id h bound;
         cx = \<lparr>rx_runner = runner, rx_capacity = s, rx_head_digest = head_digest h d,
               rx_transitions = session_transitions s sid attempt\<rparr>;
         active = session_active_leases h s sid attempt in
     if 1 < length active then Inl (SessionRecoveryError ''logical Session has multiple active capacity leases'')
     else ebind (session_dispatch_states h seen (rc_runner_id runner) sid attempt)
       (project_history h cx later spec registry plan bound running active)))"

section \<open>What a projection says\<close>

lemma session_projection_init_same: "session_projection_init h x = Inr y \<Longrightarrow> y = x"
  by (auto simp: session_projection_init_def ebind_eq_Inr split: if_splits)

lemma projection_Inr: "projection h cx session status upd = Inr p \<Longrightarrow> p = upd (projection_defaults h cx session status)"
  by (auto simp: projection_def dest: session_projection_init_same)

lemma recovery_session_Inr: "recovery_session h spec registry plan runner attempt = Inr (bound, running) \<longleftrightarrow>
   1 \<le> attempt \<and> verify_plan h spec registry plan = Inr True \<and> bind_session h spec registry plan attempt = Inr bound \<and>
   xs_runner_id bound = rc_runner_id runner \<and> xs_runner_capability_digest bound = runner_digest h runner \<and>
   start_session bound = Inr running"
  unfolding recovery_session_def raise_unless_eq ebind_guard ebind_eq_Inr [where m = "bind_session _ _ _ _ _"]
    ebind_eq_Inr [where m = "start_session _"] by auto

lemma recovery_session_fields:
  assumes "recovery_session h spec registry plan runner attempt = Inr (bound, running)"
  shows "running = bound\<lparr>xs_state := ''running''\<rparr>" "xs_state bound = ''bound''" "xs_attempt bound = attempt"
    "session_id h running = session_id h bound" "xs_runner_id running = rc_runner_id runner"
    "execution_session_init running = Inr running"
  using assms bind_session_eq [of h spec registry plan attempt bound] unfolding recovery_session_Inr start_session_eq by auto

lemma recovery_capacity_Inr: "recovery_capacity h heads runner = Inr (s, d) \<longleftrightarrow> head_load h heads runner = Inr (s, d)"
  unfolding recovery_capacity_def ebind_eq_Inr [where m = "rethrow _ _ _"] rethrow_eq_Inr split_paired_Ex prod.case ebind_guard
    verify_capacity_state_True
  using head_load_committed by auto

text \<open>A committed state never holds two leases of one logical attempt.\<close>

lemma session_active_unique:
  assumes "committed h runner s"
  shows "length (session_active_leases h s sid attempt) \<le> 1"
proof (rule ccontr)
  let ?ls = "session_active_leases h s sid attempt"
  assume "\<not> ?thesis"
  then obtain a b ls where ls: "?ls = a # b # ls" by (cases ?ls; cases "tl ?ls") auto
  have "distinct (map session_key ?ls)"
    using committed_runner(5) [OF assms] distinct_map_filter_sub by (auto simp: capacity_inv_def session_active_leases_def)
  moreover have "a \<in> set ?ls" "b \<in> set ?ls" by (simp_all add: ls)
  then have "session_key a = session_key b" by (simp add: session_active_leases_def session_key_def)
  ultimately show False by (simp add: ls)
qed

definition context_of :: "hash \<Rightarrow> runner_capabilities \<Rightarrow> capacity_state \<Rightarrow> capacity_head \<Rightarrow> string \<Rightarrow> int \<Rightarrow> recovery_context" where
  "context_of h runner s d sid attempt = \<lparr>rx_runner = runner, rx_capacity = s, rx_head_digest = head_digest h d,
     rx_transitions = session_transitions s sid attempt\<rparr>"

text \<open>The one refusal that no stored data can cause is left out.\<close>

lemma project_Inr: "project_session_after_restart h heads seen later spec registry plan runner attempt = Inr p \<longleftrightarrow>
   (\<exists>bound running s d states. recovery_session h spec registry plan runner attempt = Inr (bound, running) \<and>
      head_load h heads runner = Inr (s, d) \<and>
      session_dispatch_states h seen (rc_runner_id runner) (session_id h bound) attempt = Inr states \<and>
      project_history h (context_of h runner s d (session_id h bound) attempt) later spec registry plan bound running
        (session_active_leases h s (session_id h bound) attempt) states = Inr p)"
proof -
  have "\<not> 1 < length (session_active_leases h s sid attempt)" if "head_load h heads runner = Inr (s, d)" for s d sid
    using session_active_unique [OF head_load_committed [OF that], of sid attempt] by simp
  then show ?thesis
    unfolding project_session_after_restart_def Let_def ebind_eq_Inr [where m = "recovery_session _ _ _ _ _ _"]
      ebind_eq_Inr [where m = "recovery_capacity _ _ _"] ebind_eq_Inr [where m = "session_dispatch_states _ _ _ _ _"]
      split_paired_Ex prod.case raise_unless_eq recovery_capacity_Inr context_of_def [symmetric]
    by (auto simp: context_of_def)
qed

lemma projection_defaults_fields [simp]:
  "sp_status (projection_defaults h cx session status) = status"
  "sp_projected_session (projection_defaults h cx session status) = session"
  "sp_session_id (projection_defaults h cx session status) = session_id h session"
  "sp_logical_attempt (projection_defaults h cx session status) = xs_attempt session"
  "sp_retry_eligible (projection_defaults h cx session status) = False"
  "sp_recovery_action (projection_defaults h cx session status) = ''none''"
  "sp_active_lease_id (projection_defaults h cx session status) = None"
  "sp_dispatch_intent_id (projection_defaults h cx session status) = None"
  "sp_durable_outcome_digest (projection_defaults h cx session status) = None"
  by (simp_all add: projection_defaults_def)

lemma with_dispatch_fields [simp]:
  "sp_status (with_dispatch h st p) = sp_status p" "sp_projected_session (with_dispatch h st p) = sp_projected_session p"
  "sp_session_id (with_dispatch h st p) = sp_session_id p" "sp_logical_attempt (with_dispatch h st p) = sp_logical_attempt p"
  "sp_retry_eligible (with_dispatch h st p) = sp_retry_eligible p" "sp_recovery_action (with_dispatch h st p) = sp_recovery_action p"
  "sp_active_lease_id (with_dispatch h st p) = sp_active_lease_id p"
  "sp_durable_outcome_digest (with_dispatch h st p) = sp_durable_outcome_digest p"
  "sp_dispatch_intent_id (with_dispatch h st p) = Some (intent_id h (ds_intent st))"
  by (simp_all add: with_dispatch_def)

text \<open>The next action for an active lease, by the status of its intent.\<close>

fun active_action :: "string option \<Rightarrow> string" where
  "active_action None = ''prepare_dispatch_intent''"
| "active_action (Some status) = (if status = ''prepared'' then ''begin_submission''
     else if status = ''submission_unknown'' then ''reconcile_provider'' else ''release_observed_capacity'')"

lemma project_active_shape:
  assumes "project_active h cx later running states l = Inr p"
  obtains found where "dispatch_for_lease h states l = Inr found"
    and "sp_status p = ''recovery_required''" and "sp_projected_session p = running" and "\<not> sp_retry_eligible p"
    and "sp_active_lease_id p = Some (lease_id h l)"
    and "sp_recovery_action p = active_action (map_option ds_status found)"
    and "sp_dispatch_intent_id p = map_option (\<lambda>st. intent_id h (ds_intent st)) found"
    and "sp_session_id p = session_id h running" and "sp_logical_attempt p = xs_attempt running"
proof -
  obtain found where f: "dispatch_for_lease h states l = Inr found"
    using assms by (auto simp: project_active_def ebind_eq_Inr)
  show thesis
    using assms f that [of found] unfolding project_active_def f ebind_Inr
    by (auto simp: ebind_eq_Inr rethrow_eq_Inr dest!: projection_Inr split: option.splits if_splits)
qed

lemma project_revoked_shape:
  assumes "project_revoked h cx running r = Inr p"
  shows "sp_status p \<in> {''coherent'', ''inconsistent''} \<and> \<not> sp_retry_eligible p \<and> sp_recovery_action p = ''none''"
  using assms by (auto simp: project_revoked_def ebind_eq_Inr dest!: projection_Inr split: if_splits)

lemma project_outcome_shape:
  assumes "project_outcome h cx spec registry plan running r st x = Inr p"
  shows "sp_recovery_action p = ''none''" and "sp_status p \<in> {''coherent'', ''inconsistent''}"
    and "sp_status p = ''coherent'' \<longleftrightarrow> verify_physical_outcome h spec registry plan running (rx_runner cx) (oo_outcome x) = Inr True"
    and "sp_retry_eligible p \<longleftrightarrow> verify_physical_outcome h spec registry plan running (rx_runner cx) (oo_outcome x) = Inr True
      \<and> cr_transport_status r \<noteq> Some ''completed''"
    and "sp_retry_eligible p \<Longrightarrow> pt_result (oo_outcome x) = None \<and> sp_projected_session p = running"
  using assms
  by (auto simp: project_outcome_def Let_def ebind_eq_Inr dest!: projection_Inr split: if_splits option.splits)

lemma project_terminal_shape:
  assumes "project_terminal h cx later spec registry plan running states r = Inr p"
  obtains "sp_status p = ''legacy_untracked'' \<and> \<not> sp_retry_eligible p \<and> sp_recovery_action p = ''none''"
    and "\<And>st. dispatch_for_release states r = Inr (Some st) \<Longrightarrow> ds_status st \<noteq> ''observed''"
  | st x where "dispatch_for_release states r = Inr (Some st)" and "ds_status st = ''observed''"
      and "load_release_outcome h later st r = Inr x" and "project_outcome h cx spec registry plan running r st x = Inr p"
proof -
  obtain found where f: "dispatch_for_release states r = Inr found"
    using assms by (auto simp: project_terminal_def ebind_eq_Inr Let_def)
  show thesis
  proof (cases "\<exists>st. found = Some st \<and> ds_status st = ''observed''")
    case True
    then obtain st where st: "found = Some st" "ds_status st = ''observed''" by blast
    then show thesis using assms f that(2) [of st] by (auto simp: project_terminal_def ebind_eq_Inr rethrow_eq_Inr Let_def)
  next
    case False
    then have u: "projection h cx running ''legacy_untracked'' (\<lambda>p. p\<lparr>sp_last_release_digest := Some (release_digest h r),
          sp_finding := Some ''TERMINAL_RELEASE_LACKS_RESTART_COMPLETE_DURABLE_OUTCOME''\<rparr>) = Inr p"
      using assms f by (auto simp: project_terminal_def Let_def split: option.splits if_splits)
    show thesis using that(1) projection_Inr [OF u] False f by simp
  qed
qed

definition session_releases :: "recovery_context \<Rightarrow> capacity_release list" where
  "session_releases cx = List.map_filter (\<lambda>t. if ct_kind t = ''release'' then ct_release t else None) (rx_transitions cx)"

lemma session_releases_filter: "session_releases (context_of h runner s d sid attempt)
    = filter (\<lambda>r. cr_session_id r = sid \<and> cr_logical_attempt r = attempt) (releases s)"
proof -
  have "List.map_filter (\<lambda>t. if ct_kind t = ''release'' then ct_release t else None) (filter (of_session sid attempt) ts)
    = filter (\<lambda>r. cr_session_id r = sid \<and> cr_logical_attempt r = attempt)
        (List.map_filter (\<lambda>t. if ct_kind t = ''release'' then ct_release t else None) ts)" for ts
    by (induction ts) (auto simp: List.map_filter_def of_session_def transition_identity_def split: option.splits)
  then show ?thesis by (simp add: session_releases_def context_of_def session_transitions_def releases_def)
qed

lemma project_released_shape:
  assumes "project_released h cx later spec registry plan running states = Inr p"
  obtains "sp_status p = ''inconsistent'' \<and> \<not> sp_retry_eligible p \<and> sp_recovery_action p = ''none''" and "session_releases cx = []"
  | "session_releases cx \<noteq> []" and "cr_release_kind (last (session_releases cx)) = ''session_revoked''"
      and "project_revoked h cx running (last (session_releases cx)) = Inr p"
  | "session_releases cx \<noteq> []" and "cr_release_kind (last (session_releases cx)) = ''terminal_outcome''"
      and "project_terminal h cx later spec registry plan running states (last (session_releases cx)) = Inr p"
proof (cases "session_releases cx")
  case Nil
  then have "projection h cx running ''inconsistent''
      (\<lambda>p. p\<lparr>sp_finding := Some ''PHYSICAL_HISTORY_HAS_NO_ACTIVE_LEASE_OR_RELEASE''\<rparr>) = Inr p"
    using assms by (simp add: project_released_def session_releases_def)
  from projection_Inr [OF this] Nil show thesis using that(1) by simp
next
  case (Cons r rs)
  then show thesis
    using assms that(2,3) unfolding project_released_def session_releases_def [symmetric] Let_def
    by (auto split: if_splits)
qed

text \<open>The ways a projection can come about.\<close>

lemma project_cases:
  assumes "project_session_after_restart h heads seen later spec registry plan runner attempt = Inr p"
  obtains (fresh) bound running s d where "recovery_session h spec registry plan runner attempt = Inr (bound, running)"
      and "head_load h heads runner = Inr (s, d)" and "session_transitions s (session_id h bound) attempt = []"
      and "sp_projected_session p = bound" and "\<not> sp_retry_eligible p"
      and "sp_status p = ''inconsistent'' \<and> sp_recovery_action p = ''none''
        \<or> sp_status p = ''recovery_required'' \<and> sp_recovery_action p = ''start_session''"
  | (active) bound running s d states l where "recovery_session h spec registry plan runner attempt = Inr (bound, running)"
      and "head_load h heads runner = Inr (s, d)"
      and "session_dispatch_states h seen (rc_runner_id runner) (session_id h bound) attempt = Inr states"
      and "session_active_leases h s (session_id h bound) attempt = [l]"
      and "project_active h (context_of h runner s d (session_id h bound) attempt) later running states l = Inr p"
  | (released) bound running s d states where "recovery_session h spec registry plan runner attempt = Inr (bound, running)"
      and "head_load h heads runner = Inr (s, d)"
      and "session_dispatch_states h seen (rc_runner_id runner) (session_id h bound) attempt = Inr states"
      and "session_active_leases h s (session_id h bound) attempt = []"
      and "project_released h (context_of h runner s d (session_id h bound) attempt) later spec registry plan running states = Inr p"
proof -
  obtain bound running s d states where r: "recovery_session h spec registry plan runner attempt = Inr (bound, running)"
      "head_load h heads runner = Inr (s, d)"
      "session_dispatch_states h seen (rc_runner_id runner) (session_id h bound) attempt = Inr states"
    and p: "project_history h (context_of h runner s d (session_id h bound) attempt) later spec registry
        plan bound running (session_active_leases h s (session_id h bound) attempt) states = Inr p"
    using assms unfolding project_Inr by blast
  show thesis
  proof (cases "session_transitions s (session_id h bound) attempt = []")
    case True
    then show thesis using p fresh [OF r(1,2)]
      by (auto simp: project_history_def context_of_def dest!: projection_Inr split: if_splits)
  next
    case False
    then have ne: "rx_transitions (context_of h runner s d (session_id h bound) attempt) \<noteq> []" by (simp add: context_of_def)
    show thesis
    proof (cases "session_active_leases h s (session_id h bound) attempt")
      case (Cons l ls)
      then have "ls = []" using session_active_unique [OF head_load_committed [OF r(2)], of "session_id h bound" attempt] by simp
      then show thesis using active [OF r] Cons p ne by (simp add: project_history_def)
    next
      case Nil
      then show thesis using released [OF r] p ne by (simp add: project_history_def)
    qed
  qed
qed

text \<open>An action is named exactly when recovery is required, and only a coherent session may be retried.\<close>

lemma project_coherence:
  assumes "project_session_after_restart h heads seen later spec registry plan runner attempt = Inr p"
  shows "sp_status p = ''recovery_required'' \<longleftrightarrow> sp_recovery_action p \<noteq> ''none''"
    and "sp_status p \<in> set projection_statuses" and "sp_recovery_action p \<in> set recovery_actions"
proof -
  have "(sp_status p = ''recovery_required'' \<longleftrightarrow> sp_recovery_action p \<noteq> ''none'') \<and> sp_status p \<in> set projection_statuses
    \<and> sp_recovery_action p \<in> set recovery_actions"
    using assms
  proof (cases rule: project_cases)
    case (fresh bound running s d)
    then show ?thesis by (auto simp: projection_statuses_def recovery_actions_def)
  next
    case (active bound running s d states l)
    from active(5) obtain found where "dispatch_for_lease h states l = Inr found" "sp_status p = ''recovery_required''"
        "sp_recovery_action p = active_action (map_option ds_status found)"
      by (rule project_active_shape) blast
    then show ?thesis by (cases found) (auto simp: projection_statuses_def recovery_actions_def)
  next
    case (released bound running s d states)
    from released(5) have "sp_recovery_action p = ''none'' \<and> sp_status p \<in> {''coherent'', ''inconsistent'', ''legacy_untracked''}"
    proof (cases rule: project_released_shape)
      case 2
      from project_revoked_shape [OF this(3)] show ?thesis by auto
    next
      case 3
      from this(3) show ?thesis
      proof (cases rule: project_terminal_shape)
        case (2 st x)
        from project_outcome_shape(1,2) [OF this(4)] show ?thesis by auto
      qed auto
    qed auto
    then show ?thesis by (auto simp: projection_statuses_def recovery_actions_def)
  qed
  then show "sp_status p = ''recovery_required'' \<longleftrightarrow> sp_recovery_action p \<noteq> ''none''" "sp_status p \<in> set projection_statuses"
    "sp_recovery_action p \<in> set recovery_actions" by blast+
qed

text \<open>The evidence behind a retry: no lease is held, and the last release of the session answers an outcome
  that the outbox holds, that verifies for the running session and carries no result.\<close>

lemma project_retry:
  assumes "project_session_after_restart h heads seen later spec registry plan runner attempt = Inr p" and "sp_retry_eligible p"
  obtains bound running s d r iid x where "recovery_session h spec registry plan runner attempt = Inr (bound, running)"
    and "head_load h heads runner = Inr (s, d)"
    and "session_active_leases h s (session_id h bound) attempt = []"
    and "r \<in> set (releases s)" and "cr_session_id r = session_id h bound" and "cr_logical_attempt r = attempt"
    and "cr_release_kind r = ''terminal_outcome''" and "cr_transport_status r \<noteq> Some ''completed''"
    and "load_observed_outcome h later iid = Inr x" and "outcome_of_release r x"
    and "verify_physical_outcome h spec registry plan running runner (oo_outcome x) = Inr True"
    and "pt_result (oo_outcome x) = None" and "sp_projected_session p = running" and "sp_status p = ''coherent''"
  using assms(1)
proof (cases rule: project_cases)
  case (fresh bound running s d)
  then show thesis using assms(2) by simp
next
  case (active bound running s d states l)
  from active(5) show thesis by (rule project_active_shape) (use assms(2) in simp)
next
  case (released bound running s d states)
  let ?cx = "context_of h runner s d (session_id h bound) attempt"
  let ?r = "last (session_releases ?cx)"
  from released(5) show thesis
  proof (cases rule: project_released_shape)
    case 3
    from this(3) show thesis
    proof (cases rule: project_terminal_shape)
      case (2 st x)
      have "?r \<in> set (session_releases ?cx)" using 3(1) by simp
      then have r: "?r \<in> set (releases s)" "cr_session_id ?r = session_id h bound" "cr_logical_attempt ?r = attempt"
        unfolding session_releases_filter by simp_all
      have x: "load_observed_outcome h later (intent_id h (ds_intent st)) = Inr x" "outcome_of_release ?r x"
        using 2(3) by (auto simp: load_release_outcome_def ebind_eq_Inr split: if_splits)
      note o = project_outcome_shape [OF 2(4)]
      have v: "verify_physical_outcome h spec registry plan running runner (oo_outcome x) = Inr True" "cr_transport_status ?r \<noteq> Some ''completed''"
        using o(4) assms(2) by (auto simp: context_of_def)
      show thesis
        by (rule that [OF released(1,2,4) r 3(2) v(2) x v(1)]) (use o(3,5) assms(2) v(1) in \<open>simp_all add: context_of_def\<close>)
    qed (use assms(2) in simp)
  next
    case 2
    from project_revoked_shape [OF this(3)] assms(2) show thesis by simp
  qed (use assms(2) in simp)
qed

text \<open>The projected session is the bound session, advanced by calls of the session lifecycle.\<close>

lemma project_lifecycle:
  assumes "project_session_after_restart h heads seen later spec registry plan runner attempt = Inr p"
  obtains bound calls where "bind_session h spec registry plan attempt = Inr bound"
    and "efold (session_call_step h) bound calls = Inr (sp_projected_session p)"
    and "sp_session_id p = session_id h bound" and "sp_logical_attempt p = attempt"
proof -
  note result = that
  have session: thesis
    if bound: "recovery_session h spec registry plan runner attempt = Inr (bound, running)"
      and calls: "efold (session_call_step h) running calls = Inr (sp_projected_session p)"
      and fields: "sp_session_id p = session_id h (sp_projected_session p)" "sp_logical_attempt p = xs_attempt (sp_projected_session p)"
    for bound running calls
  proof -
    have start: "start_session bound = Inr running" "bind_session h spec registry plan attempt = Inr bound"
      using bound by (simp_all add: recovery_session_Inr)
    then have run: "efold (session_call_step h) bound (Start # calls) = Inr (sp_projected_session p)" using calls by simp
    have "session_identity r' = session_identity r" if "efold (session_call_step h) r cs = Inr r'" for r r' cs
      using that by (induction cs arbitrary: r) (auto simp: ebind_eq_Inr dest: session_step_identity)
    then have id: "session_identity (sp_projected_session p) = session_identity bound" using run by blast
    then have "session_id h (sp_projected_session p) = session_id h bound" by (rule session_id_identity)
    moreover have "xs_attempt (sp_projected_session p) = attempt"
      using arg_cong [OF id, of xs_attempt] recovery_session_fields(3) [OF bound] by (simp add: session_identity_def)
    ultimately show thesis using result [OF start(2) run] fields by simp
  qed
  show thesis
    using assms
  proof (cases rule: project_cases)
    case (fresh bound running s d)
    obtain states where "project_history h (context_of h runner s d (session_id h bound) attempt) later spec registry
        plan bound running (session_active_leases h s (session_id h bound) attempt) states = Inr p"
      using assms fresh(1,2) unfolding project_Inr by auto
    then have "sp_session_id p = session_id h bound" "sp_logical_attempt p = xs_attempt bound"
      using fresh(3) by (auto simp: project_history_def context_of_def dest!: projection_Inr split: if_splits)
    then show thesis
      using that [of bound "[]"] fresh(1,4) recovery_session_fields(3) [OF fresh(1)] by (simp add: recovery_session_Inr)
  next
    case (active bound running s d states l)
    from active(5) obtain found where "dispatch_for_lease h states l = Inr found" "sp_projected_session p = running"
        "sp_session_id p = session_id h running" "sp_logical_attempt p = xs_attempt running"
      by (rule project_active_shape)
    then show thesis using session [OF active(1), of "[]"] by simp
  next
    case (released bound running s d states)
    let ?cx = "context_of h runner s d (session_id h bound) attempt"
    have "\<exists>calls. efold (session_call_step h) running calls = Inr (sp_projected_session p) \<and>
      sp_session_id p = session_id h (sp_projected_session p) \<and> sp_logical_attempt p = xs_attempt (sp_projected_session p)"
      using released(5)
    proof (cases rule: project_released_shape)
      case 2
      then obtain revoked where "revoke_session running = Inr revoked" "sp_projected_session p \<in> {running, revoked}"
          "sp_session_id p = session_id h (sp_projected_session p) \<and> sp_logical_attempt p = xs_attempt (sp_projected_session p)"
        by (auto simp: project_revoked_def ebind_eq_Inr dest!: projection_Inr split: if_splits)
      then show ?thesis by (cases "sp_projected_session p = running") (auto intro: exI [of _ "[]"] exI [of _ "[Revoke]"])
    next
      case 3
      from this(3) show ?thesis
      proof (cases rule: project_terminal_shape)
        case (2 st x)
        then consider "sp_projected_session p = running" | res where "submit_result h running res = Inr (sp_projected_session p)"
          by (auto simp: project_outcome_def Let_def ebind_eq_Inr dest!: projection_Inr split: if_splits option.splits)
        moreover have "sp_session_id p = session_id h (sp_projected_session p) \<and> sp_logical_attempt p = xs_attempt (sp_projected_session p)"
          using 2(4) by (auto simp: project_outcome_def Let_def ebind_eq_Inr dest!: projection_Inr split: if_splits option.splits)
        moreover have "efold (session_call_step h) running [Submit res] = Inr s'" if "submit_result h running res = Inr s'" for res s'
          using that by simp
        ultimately show ?thesis by (metis efold.simps(1))
      next
        case 1
        then show ?thesis using 3(3)
          by (auto simp: project_terminal_def Let_def ebind_eq_Inr rethrow_eq_Inr dest!: projection_Inr dest: 1(2)
              split: option.splits if_splits intro!: exI [of _ "[]"])
      qed
    next
      case 1
      then show ?thesis using released(5)
        by (auto simp: project_released_def session_releases_def dest!: projection_Inr intro!: exI [of _ "[]"])
    qed
    then show thesis using session [OF released(1)] by blast
  qed
qed

section \<open>Projections that are made\<close>

text \<open>The constructor checks fields that no keyword argument changes, and the action.\<close>

definition projection_core :: "session_projection \<Rightarrow> session_projection" where
  "projection_core p = p\<lparr>sp_active_lease_id := None, sp_dispatch_intent_id := None, sp_dispatch_status := None,
     sp_durable_outcome_digest := None, sp_last_release_digest := None, sp_retry_eligible := False,
     sp_recovery_action := ''none'', sp_finding := None\<rparr>"

lemma session_projection_init_core:
  assumes "session_projection_init h (projection_core p) = Inr q" and "sp_recovery_action p \<in> set recovery_actions"
  shows "session_projection_init h p = Inr p"
  using assms unfolding session_projection_init_def raise_unless_eq ebind_eq_Inr projection_core_def by simp

lemma latest_attempt_ge:
  assumes "latest_physical_attempt ts = Some n" and "\<And>t a b k. t \<in> set ts \<Longrightarrow> transition_identity t = Some (a, b, k) \<Longrightarrow> 1 \<le> k"
  shows "1 \<le> n"
proof -
  let ?ns = "List.map_filter (map_option (snd \<circ> snd) \<circ> transition_identity) ts"
  have ge: "\<forall>k\<in>set ?ns. 1 \<le> k" using assms(2) by (fastforce simp: List.map_filter_def)
  have "k \<le> foldl max k ks" for k :: int and ks
    by (induction ks arbitrary: k) (auto intro: order_trans [OF max.cobounded1])
  then show ?thesis
    using assms(1) ge by (auto simp: latest_physical_attempt_def split: list.splits intro: order_trans)
qed

lemma set_map_filter: "set (List.map_filter f xs) = {y. \<exists>x\<in>set xs. f x = Some y}"
  by (induction xs) (auto simp: List.map_filter_def)

lemma set_leases: "l \<in> set (leases s) \<longleftrightarrow> (\<exists>t\<in>set (cs_transitions s). ct_kind t = ''reserve'' \<and> ct_lease t = Some l)"
  by (auto simp: leases_def set_map_filter split: if_splits)

lemma set_releases: "r \<in> set (releases s) \<longleftrightarrow> (\<exists>t\<in>set (cs_transitions s). ct_kind t = ''release'' \<and> ct_release t = Some r)"
  by (auto simp: releases_def set_map_filter split: if_splits)

text \<open>Every release in a committed history answers a lease of that history.\<close>

lemma release_has_lease:
  assumes "committed h runner s"
  shows "\<forall>r\<in>set (releases s). \<exists>l\<in>set (leases s). release_identity r = lease_identity l"
proof -
  obtain genesis where g: "initialize_capacity_state h runner = Inr genesis" and "reachable (apply_transition h) genesis s"
    using assms by (auto simp: committed_def)
  from this(2) show ?thesis
  proof (induction rule: reachable_invariant)
    case start
    then show ?case using genesis_invariant [OF g] by (simp add: releases_def List.map_filter_def)
  next
    case (advance s t s')
    then have ok: "transition_ok h s t" and s': "s' = advance h s t" by (simp_all add: apply_transition_Inr)
    have sub: "set (leases s) \<subseteq> set (leases s')" unfolding s' leases_advance set_append by (rule Un_upper1)
    show ?case
    proof (cases "ct_kind t = ''release''")
      case True
      then obtain r where r: "ct_release t = Some r" "release_ok h s r" using ok by (auto simp: transition_ok_def)
      obtain l where "l \<in> set (active_leases h s)" "release_identity r = lease_identity l" using released_lease [OF r(2)] by blast
      then have new: "\<exists>l\<in>set (leases s'). release_identity r = lease_identity l" using sub by (auto simp: set_active_leases)
      have "releases s' = releases s @ [r]" using True r(1) by (simp add: s' releases_advance)
      then show ?thesis using new advance.IH sub by auto
    next
      case False
      then have "releases s' = releases s" by (simp add: s' releases_advance)
      then show ?thesis using advance.IH sub by auto
    qed
  qed
qed

lemma valid_attempts:
  assumes "valid_state s" and "committed h runner s" and "t \<in> set (cs_transitions s)" and "transition_identity t = Some (a, b, k)"
    and "ct_kind t \<in> {''reserve'', ''release''}"
  shows "1 \<le> k"
proof -
  have lease: "1 \<le> cl_physical_attempt l" if l: "l \<in> set (leases s)" for l
  proof -
    obtain t where "t \<in> set (cs_transitions s)" "ct_lease t = Some l" using l unfolding set_leases by blast
    then have "valid_lease l" using assms(1) by (auto simp: valid_state_def valid_transition_def list_all_iff)
    then show ?thesis by (simp add: valid_lease_def capacity_lease_init_eq)
  qed
  show ?thesis
  proof (cases "ct_kind t = ''reserve''")
    case True
    then obtain l where l: "ct_lease t = Some l" "k = cl_physical_attempt l" using assms(4) by (auto simp: transition_identity_def)
    then have "l \<in> set (leases s)" using True assms(3) unfolding set_leases by blast
    then show ?thesis using lease l(2) by simp
  next
    case False
    then obtain r where r: "ct_release t = Some r" "k = cr_physical_attempt r" using assms(4) by (auto simp: transition_identity_def)
    then have "r \<in> set (releases s)" using False assms(3,5) unfolding set_releases by blast
    then obtain l where "l \<in> set (leases s)" "release_identity r = lease_identity l" using release_has_lease [OF assms(2)] by blast
    then show ?thesis using lease [of l] r(2) by (simp add: release_identity_def lease_identity_def)
  qed
qed

text \<open>A projection of a loaded head is made whenever the session is in one of the four states.\<close>

lemma projection_total:
  assumes "hex_digest h" and "head_load h heads runner = Inr (s, d)" and "execution_session_init session = Inr session"
    and "xs_state session \<in> {''bound'', ''running'', ''revoked'', ''result_submitted''}" and "status \<in> set projection_statuses"
    and "q = projection_defaults h (context_of h runner s d sid attempt) session status"
    and "projection_core (upd q) = q" and "sp_recovery_action (upd q) \<in> set recovery_actions"
  shows "projection h (context_of h runner s d sid attempt) session status upd = Inr (upd q)"
proof -
  note shape = hex_digest.digest_ok_sha256 [OF assms(1), unfolded digest_ok_def]
  have v: "valid_state s" "committed h runner s" using head_load_valid [OF assms(2)] by auto
  then have "0 \<le> cs_generation s" by (auto simp: valid_state_def capacity_state_init_eq)
  moreover have kinds: "ct_kind t \<in> {''reserve'', ''release''}" if "t \<in> set (cs_transitions s)" for t
    using that v(1) by (auto simp: valid_state_def valid_transition_def list_all_iff capacity_transition_init_eq)
  moreover have "1 \<le> n" if "latest_physical_attempt (session_transitions s sid attempt) = Some n" for n
    using that by (rule latest_attempt_ge) (use valid_attempts [OF v] kinds in \<open>auto simp: session_transitions_def\<close>)
  moreover have "1 \<le> xs_attempt session" using assms(3) by (simp add: execution_session_init_eq)
  moreover have "''none'' \<in> set recovery_actions" by (simp add: recovery_actions_def)
  ultimately have "session_projection_init h q = Inr q"
    using assms(4,5) shape
    by (auto simp: session_projection_init_def assms(6) projection_defaults_def context_of_def session_digest_def state_digest_def
        head_digest_def split: option.splits)
  then show ?thesis
    using session_projection_init_core [of h "upd q"] assms(7,8) unfolding projection_def assms(6) [symmetric] by simp
qed

lemma forget_fields [simp]:
  "projection_core (p\<lparr>sp_active_lease_id := a\<rparr>) = projection_core p"
  "projection_core (p\<lparr>sp_durable_outcome_digest := b\<rparr>) = projection_core p"
  "projection_core (p\<lparr>sp_last_release_digest := c\<rparr>) = projection_core p"
  "projection_core (p\<lparr>sp_retry_eligible := e\<rparr>) = projection_core p"
  "projection_core (p\<lparr>sp_recovery_action := f\<rparr>) = projection_core p"
  "projection_core (p\<lparr>sp_finding := g\<rparr>) = projection_core p"
  "projection_core (with_dispatch h st p) = projection_core p"
  "projection_core (projection_defaults h cx session status) = projection_defaults h cx session status"
  by (simp_all add: projection_core_def with_dispatch_def) (simp add: projection_defaults_def)

text \<open>Under unique lease columns, a lease or release finds the one intent that carries its bindings.\<close>

lemma one_intent_Some:
  assumes "distinct (map (\<lambda>s. di_lease_id (ds_intent s)) states)" and "st \<in> set states" and "p (ds_intent st)"
    and "\<And>i. p i \<Longrightarrow> di_lease_id i = k"
  shows "one_intent m p states = Inr (Some st)"
proof -
  have inj: "inj_on (\<lambda>s. di_lease_id (ds_intent s)) (set states)" and dist: "distinct states"
    using assms(1) by (simp_all add: distinct_map)
  have "s = st" if "s \<in> set states" "p (ds_intent s)" for s
    using inj_onD [OF inj _ that(1) assms(2)] assms(4) [OF that(2)] assms(4) [OF assms(3)] by simp
  then have "filter (\<lambda>s. p (ds_intent s)) states = filter (\<lambda>s. s = st) states"
    using assms(3) by (intro filter_cong refl) auto
  also have "\<dots> = [st]"
    using dist assms(2) by (induction states) (auto simp: filter_empty_conv)
  finally show ?thesis by (simp add: one_intent_def)
qed

lemma one_intent_unique:
  assumes "one_intent m p states = Inr found" and "st \<in> set states" and "p (ds_intent st)"
  shows "found = Some st"
proof -
  let ?m = "filter (\<lambda>s. p (ds_intent s)) states"
  have "st \<in> set ?m" using assms(2,3) by simp
  moreover have "length ?m \<le> 1" using assms(1) by (auto simp: one_intent_def Let_def split: if_splits)
  ultimately have "?m = [st]" by (cases ?m; cases "tl ?m") auto
  then show ?thesis using assms(1) by (simp add: one_intent_def)
qed

lemma one_intent_SomeD: "one_intent m p states = Inr (Some st) \<Longrightarrow> st \<in> set states \<and> p (ds_intent st)"
  by (auto simp: one_intent_def Let_def split: if_splits list.splits dest: filter_eq_ConsD)

text \<open>A failed attempt that was released on its recorded outcome projects as coherent and retry eligible.\<close>

lemma retry_projected:
  assumes "hex_digest h" and "recovery_session h spec registry plan runner attempt = Inr (bound, running)"
    and "head_load h heads runner = Inr (s, d)" and "session_active_leases h s (session_id h bound) attempt = []"
    and "r \<in> set (releases s)" and "session_releases (context_of h runner s d (session_id h bound) attempt) = rs @ [r]"
    and "cr_release_kind r = ''terminal_outcome''"
    and "session_dispatch_states h seen (rc_runner_id runner) (session_id h bound) attempt = Inr states"
    and "dispatch_for_release states r = Inr (Some st)" and "ds_status st = ''observed''" and "load_release_outcome h later st r = Inr x"
    and "verify_physical_outcome h spec registry plan running runner (oo_outcome x) = Inr True"
    and "cr_transport_status r \<noteq> Some ''completed''" and "pt_result (oo_outcome x) = None"
  shows "\<exists>p. project_session_after_restart h heads seen later spec registry plan runner attempt = Inr p \<and> sp_retry_eligible p"
proof -
  let ?cx = "context_of h runner s d (session_id h bound) attempt"
  let ?q = "projection_defaults h ?cx running ''coherent''"
  let ?kw = "\<lambda>p. (with_dispatch h st (p\<lparr>sp_durable_outcome_digest := Some (oo_outcome_digest x),
                    sp_last_release_digest := Some (release_digest h r)\<rparr>))\<lparr>sp_retry_eligible := True\<rparr>"
  have running: "execution_session_init running = Inr running" "xs_state running = ''running''"
    using recovery_session_fields [OF assms(2)] by simp_all
  have "projection h ?cx running ''coherent'' ?kw = Inr (?kw ?q)"
    by (rule projection_total [OF assms(1,3) running(1)]) (simp_all add: running(2) projection_statuses_def recovery_actions_def)
  then have "project_outcome h ?cx spec registry plan running r st x = Inr (?kw ?q)"
    using assms(12-14) by (simp add: project_outcome_def Let_def context_of_def)
  then have "project_terminal h ?cx later spec registry plan running states r = Inr (?kw ?q)"
    using assms(9-11) by (simp add: project_terminal_def Let_def)
  moreover have ne: "session_releases ?cx \<noteq> []" "last (session_releases ?cx) = r" using assms(6) by simp_all
  ultimately have "project_released h ?cx later spec registry plan running states = Inr (?kw ?q)"
    using assms(7) unfolding project_released_def session_releases_def [symmetric] by (auto simp: Let_def split: list.split)
  moreover have "rx_transitions ?cx \<noteq> []" using ne(1) by (auto simp: session_releases_def List.map_filter_def)
  ultimately have "project_history h ?cx later spec registry plan bound running (session_active_leases h s (session_id h bound) attempt) states
      = Inr (?kw ?q)" using assms(4) by (simp add: project_history_def)
  then have "project_session_after_restart h heads seen later spec registry plan runner attempt = Inr (?kw ?q)"
    using assms(2,3,8) unfolding project_Inr by blast
  then show ?thesis by simp
qed

section \<open>An example\<close>

lemma ex_recovery_session: "recovery_session h ex_spec ex_registry (ex_plan h) ex_runner 1 = Inr (ex_session h, ex_running h)"
proof -
  have "verify_plan h ex_spec ex_registry (ex_plan h) = Inr True"
    using ex_session(1) [of h] by (simp add: bind_session_def ebind_guard)
  then show ?thesis
    using ex_session by (simp add: recovery_session_Inr) (simp add: ex_session_def ex_runner_def)
qed

lemma ex_db_ok: "db_ok h (ex_db h)"
proof -
  have "decode_dispatch_row h (dispatch_row_of h (ex_unknown h)) = Inr (ex_unknown h)" by (rule decode_written(1) [OF ex_unknown(1)])
  then show ?thesis using ex_unknown(2) by (simp add: db_ok_def ex_db_def outbox_keys_def row_decodes_def outcome_kept_def)
qed

lemma ex_project_retry:
  assumes "hex_digest h"
  shows "\<exists>heads db p. project_session_after_restart h heads db db ex_spec ex_registry (ex_plan h) ex_runner 1 = Inr p \<and> sp_retry_eligible p"
proof -
  obtain db where rec: "record_observed h (ex_db h) (intent_id h (ex_intent h)) (dispatch_digest h (ex_unknown h)) ex_spec ex_registry
      (ex_plan h) (ex_running h) ex_runner (ex_outcome h) = Inr (db, ex_observed h)"
    using ex_record [OF assms] by blast
  then obtain row x where o: "dispatch_load h (od_intents db) (intent_id h (ex_intent h)) = Inr (ex_observed h)"
      "ds_status (ex_observed h) = ''observed''" "select_one oc_intent_id (intent_id h (ex_intent h)) (od_outcomes db) = Some row"
      "decode_outcome_row h row (ex_observed h) = Inr x" "oo_outcome x = ex_outcome h"
    by (rule recorded_state) blast
  have x: "x = record_fields h (ex_observed h) (ex_outcome h)" using decode_outcome_row_Inr(1) [OF o(4)] o(5) by simp
  have i: "ds_intent (ex_observed h) = ex_intent h" by (simp add: ex_observed_def observed_state_def Let_def ex_unknown(3))
  have db: "db_ok h db" by (rule observe_keeps [OF ex_db_ok rec])
  obtain heads where "head_commit h (ex_reserved_heads h) ex_runner (state_digest h (ex_reserved h)) (ex_released h)
      = Inr (heads, stored_head h (ex_released h))" using ex_release_commit by blast
  from heads_after_commit [OF this] have load: "head_load h heads ex_runner = Inr (ex_released h, stored_head h (ex_released h))" .
  let ?sid = "session_id h (ex_session h)" let ?r = "outcome_release h (ex_reserved h) (ex_lease h) (ex_outcome h)"
  have sid: "session_id h (ex_running h) = ?sid" by (simp add: ex_running_def)
  obtain all where all: "load_for_runner h (od_intents db) (rc_runner_id ex_runner) = Inr all"
    using load_for_runner_total [of h "od_intents db" "rc_runner_id ex_runner"] db by (auto simp: db_ok_def)
  let ?states = "filter (\<lambda>s. di_session_id (ds_intent s) = ?sid \<and> di_logical_attempt (ds_intent s) = 1) all"
  have states: "session_dispatch_states h db (rc_runner_id ex_runner) ?sid 1 = Inr ?states" by (simp add: session_dispatch_states_def all)
  have keys: "outbox_keys (od_intents db)" using db by (simp add: db_ok_def)
  have mem: "ex_observed h \<in> set ?states"
    using load_for_runner_states(1) [OF all keys] o(1) by (simp add: i ex_intent_fields sid) (simp add: ex_runner_def)
  have dist: "distinct (map (\<lambda>s. di_lease_id (ds_intent s)) ?states)"
    by (rule distinct_map_filter_sub [OF load_for_runner_states(2) [OF all keys]])
  have lease: "cl_authorization_id (ex_lease h) = authorization_id h (ex_authorization h)"
      "cl_authorization_digest (ex_lease h) = authorization_digest h (ex_authorization h)"
      "cl_invocation_id (ex_lease h) = ''gei-1''" "cl_physical_attempt (ex_lease h) = 1" "cl_session_id (ex_lease h) = ?sid"
      "cl_logical_attempt (ex_lease h) = 1" "pa_physical_attempt (ex_authorization h) = 1"
    by (simp_all add: ex_lease_def) (simp_all add: ex_authorization_def ex_request_def ex_running_def)
  have r: "intent_of_release ?r (ex_intent h)" "outcome_of_release ?r x" "cr_session_id ?r = ?sid" "cr_logical_attempt ?r = 1"
      "cr_release_kind ?r = ''terminal_outcome''" "cr_transport_status ?r \<noteq> Some ''completed''"
    by (simp_all add: intent_of_release_def outcome_of_release_def outcome_release_def release_of_def ex_intent_fields lease x
        record_fields_def Let_def i)
  have found: "dispatch_for_release ?states ?r = Inr (Some (ex_observed h))"
    unfolding dispatch_for_release_def
    by (rule one_intent_Some [OF dist mem, where k = "cr_lease_id ?r"]) (use r(1) in \<open>simp_all add: i intent_of_release_def\<close>)
  have loaded: "load_release_outcome h db (ex_observed h) ?r = Inr x"
    using o r(2) by (simp add: load_release_outcome_def load_observed_outcome_def i)
  have "session_releases (context_of h ex_runner (ex_released h) (stored_head h (ex_released h)) ?sid 1) = [] @ [?r]"
    unfolding session_releases_filter ex_released_leases(2) by (simp add: r(3,4))
  moreover have "session_active_leases h (ex_released h) ?sid 1 = []" by (simp add: session_active_leases_def ex_released(2))
  moreover have "pt_result (oo_outcome x) = None" by (simp add: o(5))
  moreover have "?r \<in> set (releases (ex_released h))" by (simp add: ex_released_leases(2))
  ultimately show ?thesis
    using retry_projected [OF assms ex_recovery_session load _ _ _ r(5) states found o(2) loaded _ r(6)] o(5) ex_outcome_verified by metis
qed

section \<open>Properties\<close>

text \<open>A restart never invents session progress: whatever the capacity head and the outbox hold, the
  projected session is the freshly bound session advanced by calls of the session lifecycle, it keeps
  the identity and the attempt that were asked for, and an action is named exactly when recovery is required.\<close>

theorem projection_follows_lifecycle:
  assumes "project_session_after_restart h heads seen later spec registry plan runner attempt = Inr p"
  shows "(\<exists>bound calls. bind_session h spec registry plan attempt = Inr bound \<and>
      efold (session_call_step h) bound calls = Inr (sp_projected_session p) \<and>
      sp_session_id p = session_id h bound \<and> sp_logical_attempt p = attempt) \<and>
    (sp_status p = ''recovery_required'' \<longleftrightarrow> sp_recovery_action p \<noteq> ''none'')"
  using assms
proof (rule project_lifecycle)
  fix bound calls
  assume "bind_session h spec registry plan attempt = Inr bound" "efold (session_call_step h) bound calls = Inr (sp_projected_session p)"
    "sp_session_id p = session_id h bound" "sp_logical_attempt p = attempt"
  then show ?thesis using project_coherence(1) [OF assms] by blast
qed

theorem projection_follows_lifecycle_witness:
  "\<exists>heads db p bound calls. project_session_after_restart zero_hash heads db db ex_spec ex_registry (ex_plan zero_hash) ex_runner 1 = Inr p \<and>
     bind_session zero_hash ex_spec ex_registry (ex_plan zero_hash) 1 = Inr bound \<and>
     efold (session_call_step zero_hash) bound calls = Inr (sp_projected_session p)"
proof -
  obtain heads db p where p: "project_session_after_restart zero_hash heads db db ex_spec ex_registry (ex_plan zero_hash) ex_runner 1 = Inr p"
    using ex_project_retry [OF zero_hash] by blast
  from projection_follows_lifecycle [OF p] p show ?thesis by blast
qed

text \<open>C10: A retry is eligible only on durable evidence: no lease of the session is held, and a release of
  its own in the committed history answers an outcome with a failed transport that the outbox holds,
  that matches the release field by field, that verifies for the running session, and that carries no result.\<close>

theorem retry_needs_evidence:
  assumes "project_session_after_restart h heads seen later spec registry plan runner attempt = Inr p" and "sp_retry_eligible p"
  shows "sp_status p = ''coherent'' \<and> xs_state (sp_projected_session p) = ''running'' \<and>
    (\<exists>s d r iid x. head_load h heads runner = Inr (s, d) \<and> session_active_leases h s (sp_session_id p) attempt = [] \<and>
      r \<in> set (releases s) \<and> cr_session_id r = sp_session_id p \<and> cr_logical_attempt r = attempt \<and>
      cr_release_kind r = ''terminal_outcome'' \<and> cr_transport_status r \<noteq> Some ''completed'' \<and>
      load_observed_outcome h later iid = Inr x \<and> outcome_of_release r x \<and>
      verify_physical_outcome h spec registry plan (sp_projected_session p) runner (oo_outcome x) = Inr True \<and>
      pt_result (oo_outcome x) = None)"
proof -
  obtain bound running s d r iid x where r: "recovery_session h spec registry plan runner attempt = Inr (bound, running)"
      "head_load h heads runner = Inr (s, d)" "session_active_leases h s (session_id h bound) attempt = []"
      "r \<in> set (releases s)" "cr_session_id r = session_id h bound" "cr_logical_attempt r = attempt"
      "cr_release_kind r = ''terminal_outcome''" "cr_transport_status r \<noteq> Some ''completed''"
      "load_observed_outcome h later iid = Inr x" "outcome_of_release r x"
      "verify_physical_outcome h spec registry plan running runner (oo_outcome x) = Inr True"
      "pt_result (oo_outcome x) = None" "sp_projected_session p = running" "sp_status p = ''coherent''"
    using assms by (rule project_retry)
  obtain b where "bind_session h spec registry plan attempt = Inr b" "sp_session_id p = session_id h b"
    using assms(1) by (rule project_lifecycle)
  moreover have "bind_session h spec registry plan attempt = Inr bound" using r(1) by (simp add: recovery_session_Inr)
  ultimately have sid: "sp_session_id p = session_id h bound" by simp
  have "xs_state running = ''running''" using recovery_session_fields(1) [OF r(1)] by simp
  then show ?thesis unfolding r(13) sid using r(2-12,14) by blast
qed

theorem retry_needs_evidence_witness:
  "\<exists>db iid x. load_observed_outcome zero_hash db iid = Inr x \<and> pt_result (oo_outcome x) = None"
proof -
  obtain heads db p where p: "project_session_after_restart zero_hash heads db db ex_spec ex_registry (ex_plan zero_hash) ex_runner 1 = Inr p"
      "sp_retry_eligible p"
    using ex_project_retry [OF zero_hash] by blast
  from retry_needs_evidence [OF p] show ?thesis by blast
qed

end
