(* ===== verification/Recovery_Driver.thy ===== *)
theory Recovery_Driver
  imports Session_Recovery
begin

text \<open>
  The recovery driver (\<open>recovery_driver.py\<close>): one bounded step of mechanical recovery. It projects the session
  afresh, refuses a stale or non-recoverable projection, and applies the one action the projection names.
  The stores are a pair of the capacity heads and the outbox; an error after a committed write
  leaves the write in place. Within one step nobody else writes.
  The lemmas show that a step never grants transport authority, that it moves the recovery on, and that
  repeated steps come to rest.
\<close>

section \<open>The result of a step\<close>

record driver_result =
  dv_projection_digest :: string
  dv_action :: string
  dv_status :: string
  dv_resulting_session :: execution_session
  dv_resulting_session_digest :: string
  dv_dispatch_state_digest :: "string option"
  dv_dispatch_permit_digest :: "string option"
  dv_capacity_recovery_digest :: "string option"
  dv_next_projection_digest :: "string option"
  dv_transport_authority :: bool
  dv_automatic_retry_authorized :: bool
  dv_schema_version :: string

definition driver_result_py :: "driver_result \<Rightarrow> pyval" where
  "driver_result_py x = PDict [
    (''projection_digest'', PStr (dv_projection_digest x)),
    (''action'', PStr (dv_action x)),
    (''status'', PStr (dv_status x)),
    (''resulting_session'', execution_session_py (dv_resulting_session x)),
    (''resulting_session_digest'', PStr (dv_resulting_session_digest x)),
    (''dispatch_state_digest'', py_opt PStr (dv_dispatch_state_digest x)),
    (''dispatch_permit_digest'', py_opt PStr (dv_dispatch_permit_digest x)),
    (''capacity_recovery_digest'', py_opt PStr (dv_capacity_recovery_digest x)),
    (''next_projection_digest'', py_opt PStr (dv_next_projection_digest x)),
    (''transport_authority'', PBool (dv_transport_authority x)),
    (''automatic_retry_authorized'', PBool (dv_automatic_retry_authorized x)),
    (''schema_version'', PStr (dv_schema_version x))]"

definition driver_result_digest :: "hash \<Rightarrow> driver_result \<Rightarrow> string" where
  "driver_result_digest h x = sha256_digest h (driver_result_py x)"

definition driver_result_init :: "hash \<Rightarrow> driver_result \<Rightarrow> driver_result exc" where
  "driver_result_init h x =
     (if dv_schema_version x \<noteq> ''ge.recovery-driver-result.v1''
      then Inl (ValueError ''unsupported recovery driver result schema'')
      else if dv_status x \<notin> {''applied'', ''no_action'', ''external_input_required''}
      then Inl (ValueError ''unsupported recovery driver status'')
      else if dv_transport_authority x then Inl (ValueError ''recovery driver cannot grant transport authority'')
      else if dv_automatic_retry_authorized x then Inl (ValueError ''recovery driver cannot authorize automatic retry'')
      else if dv_resulting_session_digest x \<noteq> session_digest h (dv_resulting_session x)
      then Inl (ValueError ''resulting Session digest mismatch'')
      else ebind (eall (\<lambda>(name, v). case v of None \<Rightarrow> Inr () | Some d \<Rightarrow> check_digest_field name d) [
        (''projection_digest'', Some (dv_projection_digest x)), (''resulting_session_digest'', Some (dv_resulting_session_digest x)),
        (''dispatch_state_digest'', dv_dispatch_state_digest x), (''dispatch_permit_digest'', dv_dispatch_permit_digest x),
        (''capacity_recovery_digest'', dv_capacity_recovery_digest x), (''next_projection_digest'', dv_next_projection_digest x)])
      (\<lambda>_. Inr x))"

section \<open>Rebuilding what an active lease was issued for\<close>

type_synonym stores = "head_store \<times> observed_db"

definition fresh_projection :: "hash \<Rightarrow> stores \<Rightarrow> execution_spec \<Rightarrow> runner_registry \<Rightarrow> dispatch_plan \<Rightarrow> runner_capabilities \<Rightarrow>
   session_projection \<Rightarrow> session_projection exc" where
  "fresh_projection h st spec registry plan runner supplied =
     ebind (project_session_after_restart h (fst st) (snd st) (snd st) spec registry plan runner (sp_logical_attempt supplied)) (\<lambda>fresh.
     if fresh \<noteq> supplied then Inl (RecoveryDriverError ''recovery projection is stale'') else Inr fresh)"

definition active_lease_for_projection :: "hash \<Rightarrow> head_store \<Rightarrow> runner_capabilities \<Rightarrow> session_projection \<Rightarrow>
   (capacity_state \<times> capacity_lease) exc" where
  "active_lease_for_projection h heads runner p = (case sp_active_lease_id p of
       None \<Rightarrow> Inl (RecoveryDriverError ''recovery action requires an active capacity lease'')
     | Some lid \<Rightarrow>
         ebind (rethrow is_durable_capacity_error (RecoveryDriverError ''canonical durable capacity head is unavailable'')
           (head_load h heads runner)) (\<lambda>(s, _).
         case filter (\<lambda>l. lease_id h l = lid \<and> cl_session_id l = sp_session_id p \<and> cl_logical_attempt l = sp_logical_attempt p)
             (active_leases h s) of
           [l] \<Rightarrow> Inr (s, l)
         | _ \<Rightarrow> Inl (RecoveryDriverError ''projection does not identify one exact active capacity lease'')))"

definition predecessor_outcome :: "hash \<Rightarrow> capacity_lease \<Rightarrow> physical_outcome \<Rightarrow> bool" where
  "predecessor_outcome h l b = (let a = pt_authorization b in
     aq_session_id (pa_request a) = cl_session_id l \<and> aq_attempt (pa_request a) = cl_logical_attempt l \<and>
     pa_physical_attempt a = cl_physical_attempt l - 1 \<and>
     Some (aq_invocation_id (pa_request a)) = cl_previous_invocation_id l \<and>
     Some (receipt_digest h (pt_receipt b)) = cl_previous_receipt_digest l)"

definition prior_outcome_for_retry :: "hash \<Rightarrow> observed_db \<Rightarrow> runner_capabilities \<Rightarrow> capacity_lease \<Rightarrow> physical_outcome exc" where
  "prior_outcome_for_retry h db runner l =
     (if cl_physical_attempt l \<le> 1 then Inl (RecoveryDriverError ''first physical attempt has no prior outcome'')
      else if cl_previous_invocation_id l = None \<or> cl_previous_receipt_digest l = None
      then Inl (RecoveryDriverError ''retry lease is missing predecessor bindings'')
      else ebind (recover_observed_for_runner h db (rc_runner_id runner)) (\<lambda>records.
      case filter (predecessor_outcome h l) (map oo_outcome records) of
        [b] \<Rightarrow> Inr b
      | _ \<Rightarrow> Inl (RecoveryDriverError ''retry lease does not identify one exact durable predecessor outcome'')))"

text \<open>The comparison of the reproduced authorization with the lease.\<close>

definition authorization_of_lease :: "hash \<Rightarrow> capacity_lease \<Rightarrow> physical_authorization \<Rightarrow> bool" where
  "authorization_of_lease h l a = (let r = pa_request a in
     authorization_id h a = cl_authorization_id l \<and> authorization_digest h a = cl_authorization_digest l \<and>
     pa_physical_attempt a = cl_physical_attempt l \<and> aq_invocation_id r = cl_invocation_id l \<and>
     aq_session_id r = cl_session_id l \<and> aq_attempt r = cl_logical_attempt l \<and> aq_runner_id r = cl_runner_id l \<and>
     aq_runner_capability_digest r = cl_runner_capability_digest l \<and>
     pa_previous_invocation_id a = cl_previous_invocation_id l \<and> pa_previous_receipt_digest a = cl_previous_receipt_digest l)"

text \<open>\<open>fresh\<close> is the identifier \<open>uuid4\<close> would draw; the invocation identifier is given, so it is not used.\<close>

definition rebuild_authorization :: "hash \<Rightarrow> string \<Rightarrow> observed_db \<Rightarrow> execution_spec \<Rightarrow> runner_registry \<Rightarrow> dispatch_plan \<Rightarrow>
   execution_session \<Rightarrow> runner_capabilities \<Rightarrow> capacity_lease \<Rightarrow> physical_authorization exc" where
  "rebuild_authorization h fresh db spec registry plan session runner l =
     ebind (rethrow is_value_error (RecoveryDriverError ''physical authorization could not be reproduced'')
       (if cl_physical_attempt l = 1
        then authorize_physical_attempt h spec registry plan session runner fresh (Some (cl_invocation_id l))
        else ebind (prior_outcome_for_retry h db runner l) (\<lambda>prior.
          authorize_retry h spec registry plan session runner prior fresh (Some (cl_invocation_id l))))) (\<lambda>a.
     if \<not> authorization_of_lease h l a
     then Inl (RecoveryDriverError ''reproduced physical authorization does not match active lease'') else Inr a)"

section \<open>The step\<close>

definition result_of :: "hash \<Rightarrow> session_projection \<Rightarrow> string \<Rightarrow> execution_session \<Rightarrow> string option \<Rightarrow> dispatch_permit option \<Rightarrow>
   release_recovery option \<Rightarrow> session_projection option \<Rightarrow> driver_result exc" where
  "result_of h p status session sdigest permit recovery next = driver_result_init h
     \<lparr>dv_projection_digest = projection_digest h p, dv_action = sp_recovery_action p, dv_status = status,
      dv_resulting_session = session, dv_resulting_session_digest = session_digest h session,
      dv_dispatch_state_digest = sdigest, dv_dispatch_permit_digest = map_option (permit_digest h) permit,
      dv_capacity_recovery_digest = map_option (release_recovery_digest h) recovery,
      dv_next_projection_digest = map_option (projection_digest h) next, dv_transport_authority = False,
      dv_automatic_retry_authorized = False, dv_schema_version = ''ge.recovery-driver-result.v1''\<rparr>"

text \<open>The part after a committed write: the stores are kept whatever happens in it.\<close>

definition with_next :: "hash \<Rightarrow> stores \<Rightarrow> execution_spec \<Rightarrow> runner_registry \<Rightarrow> dispatch_plan \<Rightarrow> runner_capabilities \<Rightarrow> session_projection \<Rightarrow>
   string option \<Rightarrow> dispatch_permit option \<Rightarrow> release_recovery option \<Rightarrow> stores \<times> driver_result exc" where
  "with_next h st spec registry plan runner p sdigest permit recovery =
     (st, ebind (project_session_after_restart h (fst st) (snd st) (snd st) spec registry plan runner (sp_logical_attempt p)) (\<lambda>next.
       result_of h p ''applied'' (sp_projected_session next) sdigest permit recovery (Some next)))"

definition driver_prepare :: "hash \<Rightarrow> string \<Rightarrow> stores \<Rightarrow> execution_spec \<Rightarrow> runner_registry \<Rightarrow> dispatch_plan \<Rightarrow> runner_capabilities \<Rightarrow>
   session_projection \<Rightarrow> (dispatch_table \<times> dispatch_state) exc" where
  "driver_prepare h fresh st spec registry plan runner p =
     (if xs_state (sp_projected_session p) \<noteq> ''running''
      then Inl (RecoveryDriverError ''dispatch preparation requires a running Session'')
      else ebind (active_lease_for_projection h (fst st) runner p) (\<lambda>(s, l).
      ebind (rebuild_authorization h fresh (snd st) spec registry plan (sp_projected_session p) runner l) (\<lambda>a.
      rethrow is_dispatch_intent_error (RecoveryDriverError ''durable dispatch intent recovery failed'')
        (ebind (prepare_dispatch_intent h s runner l a) (dispatch_initialize h (od_intents (snd st)))))))"

definition driver_begin :: "hash \<Rightarrow> stores \<Rightarrow> runner_capabilities \<Rightarrow> session_projection \<Rightarrow>
   (dispatch_table \<times> dispatch_state \<times> dispatch_permit) exc" where
  "driver_begin h st runner p = (case sp_dispatch_intent_id p of
       None \<Rightarrow> Inl (RecoveryDriverError ''begin_submission recovery has no durable dispatch intent'')
     | Some iid \<Rightarrow>
         rethrow is_dispatch_intent_error (RecoveryDriverError ''durable begin_submission recovery failed'')
           (ebind (dispatch_load h (od_intents (snd st)) iid) (\<lambda>current.
            begin_submission h (od_intents (snd st)) (fst st) (od_intents (snd st)) iid (dispatch_digest h current) runner)))"

definition driver_release :: "hash \<Rightarrow> stores \<Rightarrow> execution_spec \<Rightarrow> runner_registry \<Rightarrow> dispatch_plan \<Rightarrow> runner_capabilities \<Rightarrow>
   session_projection \<Rightarrow> (head_store \<times> release_recovery) exc" where
  "driver_release h st spec registry plan runner p = (case sp_dispatch_intent_id p of
       None \<Rightarrow> Inl (RecoveryDriverError ''capacity release recovery has no durable dispatch intent'')
     | Some iid \<Rightarrow>
         rethrow (\<lambda>e. is_dispatch_intent_error e \<or> is_durable_capacity_error e)
           (RecoveryDriverError ''observed capacity release recovery failed'')
           (release_observed_capacity h (snd st) (snd st) (fst st) (fst st) (fst st) iid spec registry plan (sp_projected_session p) runner))"

definition apply_action :: "hash \<Rightarrow> string \<Rightarrow> stores \<Rightarrow> execution_spec \<Rightarrow> runner_registry \<Rightarrow> dispatch_plan \<Rightarrow> runner_capabilities \<Rightarrow>
   session_projection \<Rightarrow> stores \<times> driver_result exc" where
  "apply_action h fresh st spec registry plan runner p =
     (if sp_recovery_action p = ''start_session'' then
        (if xs_state (sp_projected_session p) \<noteq> ''bound''
         then (st, Inl (RecoveryDriverError ''start_session recovery requires a bound Session''))
         else (st, ebind (start_session (sp_projected_session p)) (\<lambda>session. result_of h p ''applied'' session None None None None)))
      else if sp_recovery_action p = ''prepare_dispatch_intent'' then
        (case driver_prepare h fresh st spec registry plan runner p of
           Inl e \<Rightarrow> (st, Inl e)
         | Inr (tbl, s) \<Rightarrow> with_next h (fst st, (snd st)\<lparr>od_intents := tbl\<rparr>) spec registry plan runner p
             (Some (dispatch_digest h s)) None None)
      else if sp_recovery_action p = ''begin_submission'' then
        (case driver_begin h st runner p of
           Inl e \<Rightarrow> (st, Inl e)
         | Inr (tbl, s, permit) \<Rightarrow>
             if dq_transport_authority permit
             then ((fst st, (snd st)\<lparr>od_intents := tbl\<rparr>), Inl (RecoveryDriverError ''dispatch permit unexpectedly grants transport authority''))
             else with_next h (fst st, (snd st)\<lparr>od_intents := tbl\<rparr>) spec registry plan runner p
               (Some (dispatch_digest h s)) (Some permit) None)
      else if sp_recovery_action p = ''reconcile_provider''
      then (st, result_of h p ''external_input_required'' (sp_projected_session p) None None None None)
      else if sp_recovery_action p = ''release_observed_capacity'' then
        (case driver_release h st spec registry plan runner p of
           Inl e \<Rightarrow> (st, Inl e)
         | Inr (heads, v) \<Rightarrow> with_next h (heads, snd st) spec registry plan runner p None None (Some v))
      else (st, Inl (RecoveryDriverError ''recovery projection names an unsupported action'')))"

definition apply_recovery_step :: "hash \<Rightarrow> string \<Rightarrow> stores \<Rightarrow> execution_spec \<Rightarrow> runner_registry \<Rightarrow> dispatch_plan \<Rightarrow> runner_capabilities \<Rightarrow>
   session_projection \<Rightarrow> stores \<times> driver_result exc" where
  "apply_recovery_step h fresh st spec registry plan runner supplied =
     (case fresh_projection h st spec registry plan runner supplied of
        Inl e \<Rightarrow> (st, Inl e)
      | Inr p \<Rightarrow>
          if sp_status p \<in> {''legacy_untracked'', ''inconsistent''}
          then (st, Inl (RecoveryDriverError ''recovery driver refuses non-recoverable projection''))
          else if sp_status p = ''coherent'' then
            (if sp_recovery_action p \<noteq> ''none''
             then (st, Inl (RecoveryDriverError ''coherent projection cannot require a recovery action''))
             else (st, result_of h p ''no_action'' (sp_projected_session p) None None None None))
          else apply_action h fresh st spec registry plan runner p)"

section \<open>What a step finds\<close>

text \<open>A projection that names an action for an active lease, and what stands behind it.\<close>

lemma active_has_history: "session_active_leases h s sid attempt = l # ls \<Longrightarrow> session_transitions s sid attempt \<noteq> []"
proof -
  assume "session_active_leases h s sid attempt = l # ls"
  then have "l \<in> set (session_active_leases h s sid attempt)" by simp
  then have "l \<in> set (leases s)" "cl_session_id l = sid" "cl_logical_attempt l = attempt"
    by (auto simp: session_active_leases_def set_active_leases)
  then obtain t where "t \<in> set (cs_transitions s)" "of_session sid attempt t"
    by (auto simp: set_leases of_session_def transition_identity_def)
  then show ?thesis by (auto simp: session_transitions_def filter_empty_conv)
qed

lemma active_projection:
  assumes "project_session_after_restart h heads db db spec registry plan runner attempt = Inr p"
    and "sp_recovery_action p \<notin> {''none'', ''start_session''}"
  obtains bound running s d states l found where "recovery_session h spec registry plan runner attempt = Inr (bound, running)"
    and "head_load h heads runner = Inr (s, d)"
    and "session_dispatch_states h db (rc_runner_id runner) (session_id h bound) attempt = Inr states"
    and "session_active_leases h s (session_id h bound) attempt = [l]" and "dispatch_for_lease h states l = Inr found"
    and "sp_recovery_action p = active_action (map_option ds_status found)" and "sp_active_lease_id p = Some (lease_id h l)"
    and "sp_dispatch_intent_id p = map_option (\<lambda>st. intent_id h (ds_intent st)) found"
    and "sp_projected_session p = running" and "sp_session_id p = session_id h bound" and "sp_logical_attempt p = attempt"
  using assms(1)
proof (cases rule: project_cases)
  case (fresh bound running s d)
  then show thesis using assms(2) by auto
next
  case (active bound running s d states l)
  from active(5) obtain found where "dispatch_for_lease h states l = Inr found"
      "sp_recovery_action p = active_action (map_option ds_status found)" "sp_active_lease_id p = Some (lease_id h l)"
      "sp_dispatch_intent_id p = map_option (\<lambda>st. intent_id h (ds_intent st)) found" "sp_projected_session p = running"
      "sp_session_id p = session_id h running" "sp_logical_attempt p = xs_attempt running"
    by (rule project_active_shape) blast
  with active(1-4) recovery_session_fields [OF active(1)] that show thesis by simp
next
  case (released bound running s d states)
  from released(5) have "sp_recovery_action p = ''none''"
  proof (cases rule: project_released_shape)
    case 2
    then show ?thesis using project_revoked_shape by blast
  next
    case 3
    from this(3) show ?thesis by (cases rule: project_terminal_shape) (auto dest: project_outcome_shape(1))
  qed simp
  then show thesis using assms(2) by simp
qed

lemma active_action_cases:
  "active_action f = ''prepare_dispatch_intent'' \<longleftrightarrow> f = None"
  "active_action f = ''begin_submission'' \<longleftrightarrow> f = Some ''prepared''"
  "active_action f = ''reconcile_provider'' \<longleftrightarrow> f = Some ''submission_unknown''"
  by (cases f; simp)+

text \<open>An intent of the lease that the outbox holds decides the next projection.\<close>

lemma projected_by_intent:
  assumes "project_session_after_restart h heads db db spec registry plan runner attempt = Inr p"
    and "recovery_session h spec registry plan runner attempt = Inr (bound, running)"
    and "head_load h heads runner = Inr (s, d)" and "session_active_leases h s (session_id h bound) attempt = [l]"
    and "outbox_keys (od_intents db)" and "dispatch_load h (od_intents db) (intent_id h (ds_intent st)) = Inr st"
    and "di_runner_id (ds_intent st) = rc_runner_id runner" and "di_session_id (ds_intent st) = session_id h bound"
    and "di_logical_attempt (ds_intent st) = attempt" and "intent_of_lease h l (ds_intent st)"
  shows "sp_recovery_action p = active_action (Some (ds_status st))"
proof -
  have "\<exists>states found. session_dispatch_states h db (rc_runner_id runner) (session_id h bound) attempt = Inr states \<and>
      dispatch_for_lease h states l = Inr found \<and> sp_recovery_action p = active_action (map_option ds_status found)"
    using assms(1)
  proof (cases rule: project_cases)
    case (fresh bound' running' s' d')
    then show ?thesis using assms(2-4) active_has_history by auto
  next
    case (active bound' running' s' d' states l')
    then have "bound' = bound" "s' = s" "l' = l" using assms(2-4) by auto
    with active(3) show ?thesis using active(5) by (elim project_active_shape) auto
  next
    case (released bound' running' s' d' states)
    then show ?thesis using assms(2-4) by auto
  qed
  then obtain states found where f: "session_dispatch_states h db (rc_runner_id runner) (session_id h bound) attempt = Inr states"
      "dispatch_for_lease h states l = Inr found" "sp_recovery_action p = active_action (map_option ds_status found)" by blast
  obtain all where all: "load_for_runner h (od_intents db) (rc_runner_id runner) = Inr all"
      "states = filter (\<lambda>s. di_session_id (ds_intent s) = session_id h bound \<and> di_logical_attempt (ds_intent s) = attempt) all"
    using f(1) by (auto simp: session_dispatch_states_def ebind_eq_Inr)
  have "st \<in> set states"
    using load_for_runner_states(1) [OF all(1) assms(5)] assms(6-9) by (simp add: all(2))
  then have "found = Some st"
    using one_intent_unique assms(10) f(2) unfolding dispatch_for_lease_def by blast
  then show ?thesis using f(3) by simp
qed

section \<open>Each write moves the recovery on\<close>

lemma filter_filter_conj: "filter p xs = [x] \<Longrightarrow> q x \<Longrightarrow> filter (\<lambda>y. q y \<and> p y) xs = [x]"
proof -
  assume "filter p xs = [x]" "q x"
  moreover have "filter (\<lambda>y. q y \<and> p y) xs = filter q (filter p xs)" by (simp add: conj_commute)
  ultimately show ?thesis by simp
qed

lemma projected_lease:
  assumes "active_lease_for_projection h heads runner p = Inr (s', l')" and "head_load h heads runner = Inr (s, d)"
    and "session_active_leases h s (sp_session_id p) (sp_logical_attempt p) = [l]" and "sp_active_lease_id p = Some (lease_id h l)"
  shows "s' = s \<and> l' = l"
proof -
  have "filter (\<lambda>y. lease_id h y = lease_id h l \<and> cl_session_id y = sp_session_id p \<and> cl_logical_attempt y = sp_logical_attempt p)
      (active_leases h s) = [l]"
    by (rule filter_filter_conj) (use assms(3) in \<open>simp_all add: session_active_leases_def\<close>)
  then show ?thesis using assms(1,2,4) by (simp add: active_lease_for_projection_def)
qed

lemma prepare_binds:
  assumes "prepare_dispatch_intent h s runner l a = Inr i"
  shows "intent_of_lease h l i" and "di_runner_id i = rc_runner_id runner" and "di_session_id i = cl_session_id l"
    and "di_logical_attempt i = cl_logical_attempt l"
proof -
  note i = prepare_Inr [OF assms]
  have "cl_authorization_id l = di_authorization_id i \<and> cl_authorization_digest l = di_authorization_digest i
      \<and> cl_invocation_id l = di_invocation_id i \<and> cl_physical_attempt l = di_physical_attempt i"
    using i(3) unfolding validate_intent_against_capacity_def ebind_guard raise_unless_eq ebind_eq_Inr by auto
  then show "intent_of_lease h l i" by (simp add: intent_of_lease_def) (simp add: i(1) intent_for_def Let_def)
  show "di_runner_id i = rc_runner_id runner" "di_session_id i = cl_session_id l" "di_logical_attempt i = cl_logical_attempt l"
    by (simp_all add: i(1) intent_for_def Let_def)
qed

lemma prepare_advances:
  assumes "project_session_after_restart h heads db db spec registry plan runner attempt = Inr p"
    and "sp_recovery_action p = ''prepare_dispatch_intent''" and "db_ok h db"
    and "driver_prepare h fresh (heads, db) spec registry plan runner p = Inr (tbl, s)"
  shows "db_ok h (db\<lparr>od_intents := tbl\<rparr>)"
    and "project_session_after_restart h heads (db\<lparr>od_intents := tbl\<rparr>) (db\<lparr>od_intents := tbl\<rparr>) spec registry plan runner attempt = Inr next
      \<Longrightarrow> sp_recovery_action next = ''begin_submission''"
proof -
  obtain bound running c d states l found where a: "recovery_session h spec registry plan runner attempt = Inr (bound, running)"
      "head_load h heads runner = Inr (c, d)" "session_active_leases h c (session_id h bound) attempt = [l]"
      "sp_active_lease_id p = Some (lease_id h l)" "sp_session_id p = session_id h bound" "sp_logical_attempt p = attempt"
    using assms(1) by (rule active_projection) (use assms(2) in simp_all)
  obtain c' l' au i where dp: "active_lease_for_projection h heads runner p = Inr (c', l')"
      "prepare_dispatch_intent h c' runner l' au = Inr i" "dispatch_initialize h (od_intents db) i = Inr (tbl, s)"
    using assms(4) by (auto simp: driver_prepare_def ebind_eq_Inr rethrow_eq_Inr split: if_splits)
  have "c' = c" "l' = l" using projected_lease [OF dp(1) a(2)] a(3-6) by auto
  note prep = dp(2) [unfolded this] and i = prepare_Inr(2) [OF dp(2)]
  show ok: "db_ok h (db\<lparr>od_intents := tbl\<rparr>)" by (rule prepare_keeps [OF assms(3) dp(3) i])
  have s: "s = initial_dispatch_state i" using initialize_Inr [OF dp(3)] by blast
  have lease: "cl_session_id l = session_id h bound" "cl_logical_attempt l = attempt"
  proof -
    have "l \<in> set (session_active_leases h c (session_id h bound) attempt)" using a(3) by simp
    then show "cl_session_id l = session_id h bound" "cl_logical_attempt l = attempt" by (auto simp: session_active_leases_def)
  qed
  have load: "dispatch_load h (od_intents (db\<lparr>od_intents := tbl\<rparr>)) (intent_id h (ds_intent s)) = Inr s"
    using initialize_load [OF dp(3) i] by (simp add: s)
  have keys: "outbox_keys (od_intents (db\<lparr>od_intents := tbl\<rparr>))" using ok by (simp add: db_ok_def)
  note b = prepare_binds [OF prep]
  assume "project_session_after_restart h heads (db\<lparr>od_intents := tbl\<rparr>) (db\<lparr>od_intents := tbl\<rparr>) spec registry plan runner attempt = Inr next"
  from projected_by_intent [OF this a(1-3) keys load] b lease
  have "sp_recovery_action next = active_action (Some (ds_status s))" by (simp add: s)
  then show "sp_recovery_action next = ''begin_submission''" by (simp add: s initial_dispatch_state_def)
qed

text \<open>The intent behind a projection.\<close>

lemma projected_intent:
  assumes "dispatch_for_lease h states l = Inr (Some st)" and "outbox_keys (od_intents db)"
    and "session_dispatch_states h db rid sid attempt = Inr states"
  shows "intent_of_lease h l (ds_intent st)" and "dispatch_load h (od_intents db) (intent_id h (ds_intent st)) = Inr st"
    and "di_runner_id (ds_intent st) = rid" and "di_session_id (ds_intent st) = sid" and "di_logical_attempt (ds_intent st) = attempt"
    and "st \<in> set states"
proof -
  have st: "st \<in> set states" "intent_of_lease h l (ds_intent st)"
    using one_intent_SomeD assms(1) unfolding dispatch_for_lease_def by blast+
  obtain all where all: "load_for_runner h (od_intents db) rid = Inr all"
      "states = filter (\<lambda>s. di_session_id (ds_intent s) = sid \<and> di_logical_attempt (ds_intent s) = attempt) all"
    using assms(3) by (auto simp: session_dispatch_states_def ebind_eq_Inr)
  show "intent_of_lease h l (ds_intent st)" "dispatch_load h (od_intents db) (intent_id h (ds_intent st)) = Inr st"
    "di_runner_id (ds_intent st) = rid" "di_session_id (ds_intent st) = sid" "di_logical_attempt (ds_intent st) = attempt" "st \<in> set states"
    using st load_for_runner_states(1) [OF all(1) assms(2)] by (simp_all add: all(2))
qed

lemma begin_advances:
  assumes "project_session_after_restart h heads db db spec registry plan runner attempt = Inr p"
    and "sp_recovery_action p = ''begin_submission''" and "db_ok h db" and "driver_begin h (heads, db) runner p = Inr (tbl, s, permit)"
  shows "db_ok h (db\<lparr>od_intents := tbl\<rparr>)" and "\<not> dq_transport_authority permit"
    and "project_session_after_restart h heads (db\<lparr>od_intents := tbl\<rparr>) (db\<lparr>od_intents := tbl\<rparr>) spec registry plan runner attempt = Inr next
      \<Longrightarrow> sp_recovery_action next = ''reconcile_provider''"
proof -
  obtain bound running c d states l found where a: "recovery_session h spec registry plan runner attempt = Inr (bound, running)"
      "head_load h heads runner = Inr (c, d)" "session_active_leases h c (session_id h bound) attempt = [l]"
      "session_dispatch_states h db (rc_runner_id runner) (session_id h bound) attempt = Inr states"
      "dispatch_for_lease h states l = Inr found" "sp_recovery_action p = active_action (map_option ds_status found)"
      "sp_dispatch_intent_id p = map_option (\<lambda>st. intent_id h (ds_intent st)) found"
    using assms(1) by (rule active_projection) (use assms(2) in simp_all)
  obtain st where st: "found = Some st" "ds_status st = ''prepared''"
    using a(6) assms(2) active_action_cases(2) [of "map_option ds_status found"] by auto
  have keys: "outbox_keys (od_intents db)" using assms(3) by (simp add: db_ok_def)
  note i = projected_intent [OF a(5) [unfolded st(1)] keys a(4)]
  let ?iid = "intent_id h (ds_intent st)"
  have sub: "begin_submission h (od_intents db) heads (od_intents db) ?iid (dispatch_digest h st) runner = Inr (tbl, s, permit)"
    using assms(4) i(2) by (simp add: driver_begin_def a(7) st(1) rethrow_eq_Inr)
  show ok: "db_ok h (db\<lparr>od_intents := tbl\<rparr>)" by (rule submit_keeps [OF assms(3) sub])
  have c: "dispatch_commit h (od_intents db) st (unknown_state h st) = Inr (tbl, s)" "s = unknown_state h st" "permit = permit_of h s"
    using sub i(2) unfolding begin_submission_Inr by auto
  show "\<not> dq_transport_authority permit" by (simp add: c(3) permit_of_def Let_def)
  have v: "valid_dispatch (unknown_state h st)" using dispatch_load_valid [OF i(2)] unknown_state_valid by blast
  have new: "ds_intent s = ds_intent st" "ds_status s = ''submission_unknown''" by (simp_all add: c(2) unknown_state_def)
  have load: "dispatch_load h (od_intents (db\<lparr>od_intents := tbl\<rparr>)) (intent_id h (ds_intent s)) = Inr s"
    using dispatch_commit_load [OF c(1) v] new(1) c(2) by simp
  have keys': "outbox_keys (od_intents (db\<lparr>od_intents := tbl\<rparr>))" using ok by (simp add: db_ok_def)
  assume "project_session_after_restart h heads (db\<lparr>od_intents := tbl\<rparr>) (db\<lparr>od_intents := tbl\<rparr>) spec registry plan runner attempt = Inr next"
  from projected_by_intent [OF this a(1-3) keys' load] i(1,3-5) new
  show "sp_recovery_action next = ''reconcile_provider''" by simp
qed

text \<open>Releasing the lease of a recorded outcome closes the physical attempt.\<close>

lemma release_for_outcome_appends:
  assumes "committed h runner s" and "l \<in> set (active_leases h s)"
    and "release_capacity_for_outcome h s spec registry plan session runner l b = Inr (s', g, t)"
  shows "releases s' = releases s @ [outcome_release h s l b]" and "cq_release g = outcome_release h s l b"
    and "active_leases h s' = filter (\<lambda>y. y \<noteq> l) (active_leases h s)"
proof -
  have "propose_outcome_release h s spec registry plan session runner l b = Inr t"
    using assms(3) by (auto simp: release_capacity_for_outcome_def ebind_eq_Inr)
  then have ok: "verify_physical_outcome h spec registry plan session runner b = Inr True" "owns h b l"
    by (simp_all add: propose_outcome_release_Inr [OF assms(1,2)])
  have "s' = advance h s (release_step h s (outcome_release h s l b))"
      "g = release_grant_for h s' (release_step h s (outcome_release h s l b)) (outcome_release h s l b)"
      "active_leases h s' = filter (\<lambda>y. y \<noteq> l) (active_leases h s)"
    using release_for_outcome_ok [OF assms(1,2) ok] assms(3) by (simp_all add: Let_def)
  then show "releases s' = releases s @ [outcome_release h s l b]" "cq_release g = outcome_release h s l b"
    "active_leases h s' = filter (\<lambda>y. y \<noteq> l) (active_leases h s)"
    by (simp_all add: releases_advance release_grant_for_def)
qed

lemma outcome_release_fields:
  "intent_of_release (outcome_release h s l b) i \<longleftrightarrow> intent_of_lease h l i"
  "cr_session_id (outcome_release h s l b) = cl_session_id l" "cr_logical_attempt (outcome_release h s l b) = cl_logical_attempt l"
  "cr_release_kind (outcome_release h s l b) = ''terminal_outcome''"
  by (simp_all add: intent_of_release_def intent_of_lease_def outcome_release_def release_of_def)

lemma recorded_lease:
  assumes "load_observed_outcome h db (intent_id h (ds_intent st)) = Inr x" and "dispatch_load h (od_intents db) (intent_id h (ds_intent st)) = Inr st"
    and "intent_of_lease h l (ds_intent st)" and "committed h runner s" and "l \<in> set (active_leases h s)"
  shows "matching_active_lease h s x = Inr (Some l)" and "x = record_fields h st (oo_outcome x)"
proof -
  obtain row where "decode_outcome_row h row st = Inr x" using load_observed_Inr [OF assms(1)] assms(2) by auto
  then have x: "x = record_fields h st (oo_outcome x)" and v: "verify_outcome_against_dispatch h st (oo_outcome x)"
    using decode_outcome_row_Inr by blast+
  show "x = record_fields h st (oo_outcome x)" by (rule x)
  have "oo_physical_attempt x = di_physical_attempt (ds_intent st)"
    by (subst x) (use v in \<open>simp add: record_fields_def verify_outcome_against_dispatch_def Let_def split: if_splits\<close>)
  moreover have "oo_lease_id x = di_lease_id (ds_intent st)" "oo_lease_digest x = di_lease_digest (ds_intent st)"
      "oo_authorization_id x = di_authorization_id (ds_intent st)" "oo_authorization_digest x = di_authorization_digest (ds_intent st)"
      "oo_invocation_id x = di_invocation_id (ds_intent st)"
    by (subst x, simp add: record_fields_def Let_def)+
  ultimately have x_l: "lease_id h l = oo_lease_id x" "lease_digest h l = oo_lease_digest x"
      "cl_authorization_id l = oo_authorization_id x" "cl_authorization_digest l = oo_authorization_digest x"
      "cl_invocation_id l = oo_invocation_id x" "cl_physical_attempt l = oo_physical_attempt x"
    using assms(3) by (simp_all add: intent_of_lease_def)
  have "filter (\<lambda>y. lease_id h y = lease_id h l \<and> lease_digest h y = lease_digest h l) (active_leases h s) = [l]"
    by (rule active_lease_unique [OF assms(4,5)])
  then have "filter (\<lambda>y. (cl_authorization_id y = cl_authorization_id l \<and> cl_authorization_digest y = cl_authorization_digest l
      \<and> cl_invocation_id y = cl_invocation_id l \<and> cl_physical_attempt y = cl_physical_attempt l)
      \<and> (lease_id h y = lease_id h l \<and> lease_digest h y = lease_digest h l)) (active_leases h s) = [l]"
    by (rule filter_filter_conj) simp
  then show "matching_active_lease h s x = Inr (Some l)"
    by (simp add: matching_active_lease_def at_most_one_Inr x_l [symmetric] conj_ac)
qed

lemma release_advances:
  assumes "project_session_after_restart h heads db db spec registry plan runner attempt = Inr p"
    and "sp_recovery_action p = ''release_observed_capacity''" and "db_ok h db"
    and "driver_release h (heads, db) spec registry plan runner p = Inr (heads', v)"
    and "project_session_after_restart h heads' db db spec registry plan runner attempt = Inr next"
  shows "sp_status next = ''coherent'' \<and> sp_recovery_action next = ''none''"
proof -
  obtain bound running c d states l found where a: "recovery_session h spec registry plan runner attempt = Inr (bound, running)"
      "head_load h heads runner = Inr (c, d)" "session_active_leases h c (session_id h bound) attempt = [l]"
      "session_dispatch_states h db (rc_runner_id runner) (session_id h bound) attempt = Inr states"
      "dispatch_for_lease h states l = Inr found" "sp_recovery_action p = active_action (map_option ds_status found)"
      "sp_dispatch_intent_id p = map_option (\<lambda>st. intent_id h (ds_intent st)) found" "sp_projected_session p = running"
    using assms(1) by (rule active_projection) (use assms(2) in simp_all)
  obtain st where st: "found = Some st" using a(6) assms(2) by (cases found) auto
  have keys: "outbox_keys (od_intents db)" using assms(3) by (simp add: db_ok_def)
  note i = projected_intent [OF a(5) [unfolded st] keys a(4)]
  let ?iid = "intent_id h (ds_intent st)"
  have rel: "release_observed_capacity h db db heads heads heads ?iid spec registry plan running runner = Inr (heads', v)"
    using assms(4) by (simp add: driver_release_def a(7,8) st rethrow_eq_Inr)
  then obtain x active where x: "ds_status st = ''observed''" "load_observed_outcome h db ?iid = Inr x"
      "verify_physical_outcome h spec registry plan running runner (oo_outcome x) = Inr True" "matching_active_lease h c x = Inr active"
    using i(2) a(2) by (elim release_observed_Inr) auto
  have l: "l \<in> set (active_leases h c)" "cl_session_id l = session_id h bound" "cl_logical_attempt l = attempt"
  proof -
    have "l \<in> set (session_active_leases h c (session_id h bound) attempt)" using a(3) by simp
    then show "l \<in> set (active_leases h c)" "cl_session_id l = session_id h bound" "cl_logical_attempt l = attempt"
      by (auto simp: session_active_leases_def)
  qed
  have committed: "committed h runner c" by (rule head_load_committed [OF a(2)])
  note rec = recorded_lease [OF x(2) i(2,1) committed l(1)]
  have "release_or_recover h heads heads spec registry plan running runner x c d (Some l) = Inr (heads', v)"
    using release_observed_tail [OF i(2) x(1,2,3) a(2) rec(1)] rel by simp
  then obtain c' g t d' where r: "release_capacity_for_outcome h c spec registry plan running runner l (oo_outcome x) = Inr (c', g, t)"
      "head_commit h heads runner (state_digest h c) c' = Inr (heads', d')"
      "release_recovery_init (recovery_of h x (cq_release g) c' d' False) = Inr v"
    by (rule release_or_recover_Some [OF _ a(2) rec(1)])
  note app = release_for_outcome_appends [OF committed l(1) r(1)]
  let ?r = "outcome_release h c l (oo_outcome x)"
  have load: "head_load h heads' runner = Inr (c', d')" by (rule heads_after_commit [OF r(2)])
  let ?cx = "context_of h runner c' d' (session_id h bound) attempt"
  have rs: "session_releases ?cx \<noteq> []" "last (session_releases ?cx) = ?r"
    unfolding session_releases_filter app(1) by (simp_all add: outcome_release_fields l)
  then have hist: "session_transitions c' (session_id h bound) attempt \<noteq> []"
    by (auto simp: session_releases_def context_of_def List.map_filter_def)
  have "session_active_leases h c' (session_id h bound) attempt = filter (\<lambda>y. y \<noteq> l) (session_active_leases h c (session_id h bound) attempt)"
    unfolding session_active_leases_def app(3) by (simp add: conj_commute)
  then have none: "session_active_leases h c' (session_id h bound) attempt = []" using a(3) by simp
  have "matching_release c' x = Inr (Some ?r)"
    using released_is_found(2) [OF committed rec r(1)] by (simp add: app(2))
  then have "?r \<in> set (filter (\<lambda>r. cr_lease_id r = oo_lease_id x \<and> cr_lease_digest r = oo_lease_digest x
        \<and> cr_authorization_id r = oo_authorization_id x \<and> cr_authorization_digest r = oo_authorization_digest x
        \<and> cr_invocation_id r = oo_invocation_id x \<and> cr_physical_attempt r = oo_physical_attempt x
        \<and> cr_release_kind r = ''terminal_outcome'' \<and> cr_outcome_digest r = Some (oo_outcome_digest x)
        \<and> cr_receipt_digest r = Some (oo_receipt_digest x) \<and> cr_transport_status r = Some (oo_transport_status x)) (releases c'))"
    by (simp add: matching_release_def at_most_one_Inr)
  then have out: "outcome_of_release ?r x" by (auto simp: outcome_of_release_def)
  have found: "dispatch_for_release states ?r = Inr f \<Longrightarrow> f = Some st" for f
    unfolding dispatch_for_release_def using one_intent_unique [OF _ i(6), of _ "intent_of_release ?r"] i(1)
    by (simp add: outcome_release_fields(1))
  show ?thesis
    using assms(5)
  proof (cases rule: project_cases)
    case (fresh bound' running' s' d')
    then show ?thesis using a(1) load hist by auto
  next
    case (active bound' running' s' d' states' l')
    then show ?thesis using a(1) load none by auto
  next
    case (released bound' running' s' e' states')
    then have eq: "bound' = bound" "running' = running" "s' = c'" "e' = d'" "states' = states" using a(1,4) load by auto
    from released(5) [unfolded eq] show ?thesis
    proof (cases rule: project_released_shape)
      case 3
      from 3(3) [unfolded rs(2)] show ?thesis
      proof (cases rule: project_terminal_shape)
        case (2 st' x')
        then have "st' = st" using found by blast
        then have "x' = x" using 2(3) x(2) by (auto simp: load_release_outcome_def ebind_eq_Inr split: if_splits)
        then show ?thesis using project_outcome_shape(1,3) [OF 2(4)] x(3) by (simp add: context_of_def)
      next
        case 1
        obtain f where "dispatch_for_release states ?r = Inr f"
          using 3(3) [unfolded rs(2)] by (auto simp: project_terminal_def ebind_eq_Inr Let_def)
        then show ?thesis using 1(2) found x(1) by blast
      qed
    next
      case 2
      then show ?thesis unfolding rs(2) by (simp add: outcome_release_fields)
    next
      case 1
      then show ?thesis using rs(1) by simp
    qed
  qed
qed

section \<open>Steps\<close>

lemma driver_result_init_same: "driver_result_init h x = Inr y \<Longrightarrow> y = x"
  unfolding driver_result_init_def raise_unless_eq ebind_eq_Inr by simp

lemma result_of_fields:
  assumes "result_of h p status session sdigest permit recovery next = Inr r"
  shows "dv_projection_digest r = projection_digest h p" "dv_action r = sp_recovery_action p" "dv_status r = status"
    "dv_resulting_session r = session" "dv_next_projection_digest r = map_option (projection_digest h) next"
    "\<not> dv_transport_authority r" "\<not> dv_automatic_retry_authorized r"
  using driver_result_init_same [OF assms [unfolded result_of_def]] by simp_all

lemma with_next_Inr: "with_next h st spec registry plan runner p sdigest permit recovery = (st', Inr r) \<Longrightarrow>
   st' = st \<and> (\<exists>next. project_session_after_restart h (fst st) (snd st) (snd st) spec registry plan runner (sp_logical_attempt p) = Inr next
     \<and> result_of h p ''applied'' (sp_projected_session next) sdigest permit recovery (Some next) = Inr r)"
  by (auto simp: with_next_def ebind_eq_Inr)

lemma fresh_projection_Inr: "fresh_projection h st spec registry plan runner supplied = Inr p \<longleftrightarrow> p = supplied \<and>
   project_session_after_restart h (fst st) (snd st) (snd st) spec registry plan runner (sp_logical_attempt p) = Inr p"
  by (auto simp: fresh_projection_def ebind_eq_Inr)

text \<open>The stores of a successful step: unchanged without a next projection, and otherwise one write that moved on.\<close>

definition follow_up :: "string \<Rightarrow> string" where
  "follow_up action = (if action = ''prepare_dispatch_intent'' then ''begin_submission''
     else if action = ''begin_submission'' then ''reconcile_provider'' else ''none'')"

lemma apply_action_Inr:
  assumes "apply_action h fresh st spec registry plan runner p = (st', Inr r)" and "db_ok h (snd st)"
    and "project_session_after_restart h (fst st) (snd st) (snd st) spec registry plan runner (sp_logical_attempt p) = Inr p"
  obtains (idle) "st' = st" and "dv_next_projection_digest r = None" and "sp_recovery_action p \<in> {''start_session'', ''reconcile_provider''}"
  | (write_ok) nxt where "db_ok h (snd st')" and "dv_next_projection_digest r = Some (projection_digest h nxt)"
      and "project_session_after_restart h (fst st') (snd st') (snd st') spec registry plan runner (sp_logical_attempt p) = Inr nxt"
      and "sp_recovery_action p \<in> {''prepare_dispatch_intent'', ''begin_submission'', ''release_observed_capacity''}"
      and "sp_recovery_action nxt = follow_up (sp_recovery_action p)" and "dv_resulting_session r = sp_projected_session nxt"
proof -
  obtain heads db where st: "st = (heads, db)" by (cases st)
  have ok: "db_ok h db" and proj: "project_session_after_restart h heads db db spec registry plan runner (sp_logical_attempt p) = Inr p"
    using assms(2,3) by (simp_all add: st)
  consider "sp_recovery_action p = ''start_session''" | "sp_recovery_action p = ''prepare_dispatch_intent''"
    | "sp_recovery_action p = ''begin_submission''" | "sp_recovery_action p = ''reconcile_provider''"
    | "sp_recovery_action p = ''release_observed_capacity''"
    using assms(1) by (auto simp: apply_action_def split: if_splits)
  then show thesis
  proof cases
    case 1
    then show thesis using assms(1) idle
      by (auto simp: apply_action_def ebind_eq_Inr result_of_fields(5) split: if_splits)
  next
    case 2
    then obtain tbl s where dp: "driver_prepare h fresh st spec registry plan runner p = Inr (tbl, s)"
      and w: "with_next h (fst st, (snd st)\<lparr>od_intents := tbl\<rparr>) spec registry plan runner p (Some (dispatch_digest h s)) None None = (st', Inr r)"
      using assms(1) by (auto simp: apply_action_def split: sum.splits prod.splits)
    note n = with_next_Inr [OF w]
    note adv = prepare_advances [OF proj 2 ok dp [unfolded st]]
    show thesis
      using write_ok n adv 2 result_of_fields(4,5) by (auto simp: st follow_up_def)
  next
    case 3
    then obtain tbl s permit where db: "driver_begin h st runner p = Inr (tbl, s, permit)"
      and tail: "(if dq_transport_authority permit
             then ((fst st, (snd st)\<lparr>od_intents := tbl\<rparr>), Inl (RecoveryDriverError ''dispatch permit unexpectedly grants transport authority''))
             else with_next h (fst st, (snd st)\<lparr>od_intents := tbl\<rparr>) spec registry plan runner p
               (Some (dispatch_digest h s)) (Some permit) None) = (st', Inr r)"
      using assms(1) by (auto simp: apply_action_def split: sum.splits prod.splits)
    note adv = begin_advances [OF proj 3 ok db [unfolded st]]
    have "with_next h (fst st, (snd st)\<lparr>od_intents := tbl\<rparr>) spec registry plan runner p
               (Some (dispatch_digest h s)) (Some permit) None = (st', Inr r)" using tail adv(2) by simp
    note n = with_next_Inr [OF this]
    show thesis
      using write_ok n adv(1,3) 3 result_of_fields(4,5) by (auto simp: st follow_up_def)
  next
    case 4
    then show thesis using assms(1) idle by (auto simp: apply_action_def result_of_fields(5))
  next
    case 5
    then obtain heads' v where dr: "driver_release h st spec registry plan runner p = Inr (heads', v)"
      and w: "with_next h (heads', snd st) spec registry plan runner p None None (Some v) = (st', Inr r)"
      using assms(1) by (auto simp: apply_action_def split: sum.splits prod.splits)
    note n = with_next_Inr [OF w]
    note adv = release_advances [OF proj 5 ok dr [unfolded st]]
    show thesis
      using write_ok n adv ok 5 result_of_fields(4,5) by (auto simp: st follow_up_def)
  qed
qed

section \<open>Steps that succeed\<close>

lemma active_projected:
  assumes "hex_digest h" and "recovery_session h spec registry plan runner attempt = Inr (bound, running)"
    and "head_load h heads runner = Inr (s, d)" and "session_active_leases h s (session_id h bound) attempt = [l]"
    and "session_dispatch_states h seen (rc_runner_id runner) (session_id h bound) attempt = Inr states"
    and "dispatch_for_lease h states l = Inr (Some st)" and "ds_status st \<in> {''prepared'', ''submission_unknown''}"
  shows "\<exists>p. project_session_after_restart h heads seen later spec registry plan runner attempt = Inr p"
proof -
  let ?cx = "context_of h runner s d (session_id h bound) attempt"
  have running: "execution_session_init running = Inr running" "xs_state running = ''running''"
    using recovery_session_fields [OF assms(2)] by simp_all
  have total: "projection h ?cx running ''recovery_required'' (\<lambda>p. with_dispatch h st (p\<lparr>sp_active_lease_id := Some (lease_id h l),
       sp_recovery_action := action, sp_finding := Some finding\<rparr>)) =
     Inr (with_dispatch h st ((projection_defaults h ?cx running ''recovery_required'')\<lparr>sp_active_lease_id := Some (lease_id h l),
       sp_recovery_action := action, sp_finding := Some finding\<rparr>))" if "action \<in> set recovery_actions" for action finding
    by (rule projection_total [OF assms(1,3) running(1)]) (simp_all add: running(2) projection_statuses_def that)
  have "\<exists>p. project_active h ?cx later running states l = Inr p"
    using assms(7) total by (auto simp: project_active_def assms(6) recovery_actions_def)
  moreover have "rx_transitions ?cx \<noteq> []" using active_has_history [OF assms(4)] by (simp add: context_of_def)
  ultimately have "\<exists>p. project_history h ?cx later spec registry plan bound running (session_active_leases h s (session_id h bound) attempt) states = Inr p"
    by (simp add: project_history_def assms(4))
  then show ?thesis using assms(2,3,5) unfolding project_Inr by blast
qed

lemma result_of_total:
  assumes "hex_digest h" and "status \<in> {''applied'', ''no_action'', ''external_input_required''}"
    and "pred_option digest_ok sdigest"
  shows "\<exists>r. result_of h p status session sdigest permit recovery nxt = Inr r"
proof -
  note digest = hex_digest.digest_ok_sha256 [OF assms(1)]
  show ?thesis
    using assms(2,3)
    by (cases sdigest; cases permit; cases recovery; cases nxt)
      (auto simp: result_of_def driver_result_init_def check_digest_field_Inr digest projection_digest_def session_digest_def permit_digest_def
        release_recovery_digest_def ebind_eq_Inr)
qed

lemma load_intent_listed:
  assumes "db_ok h db" and "dispatch_load h (od_intents db) (intent_id h (ds_intent st)) = Inr st"
    and "di_runner_id (ds_intent st) = rid" and "di_session_id (ds_intent st) = sid" and "di_logical_attempt (ds_intent st) = attempt"
    and "intent_of_lease h l (ds_intent st)"
  shows "\<exists>states. session_dispatch_states h db rid sid attempt = Inr states \<and> dispatch_for_lease h states l = Inr (Some st)"
proof -
  have ok: "outbox_keys (od_intents db)" "list_all (row_decodes h) (od_intents db)" using assms(1) by (simp_all add: db_ok_def)
  obtain all where all: "load_for_runner h (od_intents db) rid = Inr all" using load_for_runner_total [OF ok(2)] by blast
  let ?states = "filter (\<lambda>s. di_session_id (ds_intent s) = sid \<and> di_logical_attempt (ds_intent s) = attempt) all"
  have mem: "st \<in> set ?states" using load_for_runner_states(1) [OF all ok(1)] assms(2-5) by simp
  have dist: "distinct (map (\<lambda>s. di_lease_id (ds_intent s)) ?states)"
    by (rule distinct_map_filter_sub [OF load_for_runner_states(2) [OF all ok(1)]])
  have "dispatch_for_lease h ?states l = Inr (Some st)"
    unfolding dispatch_for_lease_def
    by (rule one_intent_Some [OF dist mem, where k = "lease_id h l"]) (use assms(6) in \<open>simp_all add: intent_of_lease_def\<close>)
  then show ?thesis by (simp add: session_dispatch_states_def all)
qed

text \<open>A compare-and-swap that meets the state it read succeeds.\<close>

lemma commit_succeeds:
  assumes "outbox_keys tbl" and "dispatch_load h tbl (intent_id h (ds_intent st)) = Inr st"
    and "ds_intent new = ds_intent st" and "ds_revision new = ds_revision st + 1" and "ds_previous_state_digest new = Some (dispatch_digest h st)"
  shows "\<exists>tbl'. dispatch_commit h tbl st new = Inr (tbl', new)"
proof -
  obtain row where row: "select_one dr_intent_id (intent_id h (ds_intent st)) tbl = Some row" "decode_dispatch_row h row = Inr st"
    using assms(2) by (auto simp: dispatch_load_def split: option.splits)
  have "cas_match h st row" using row(2) by (simp add: decode_dispatch_row_Inr)
  then have "snd (update_where (cas_match h st) (cas_set h new) tbl) = 1"
    using assms(1) select_one_Some [OF row(1)] by (intro update_one [of dr_intent_id]) (auto simp: outbox_keys_def cas_match_def)
  then show ?thesis
    using assms(3-5) row by (simp add: dispatch_commit_def case_prod_unfold Let_def)
qed

section \<open>Runs of the driver\<close>

text \<open>\<open>n\<close> steps that write, one after the other, for one logical attempt.\<close>

inductive driver_writes :: "hash \<Rightarrow> execution_spec \<Rightarrow> runner_registry \<Rightarrow> dispatch_plan \<Rightarrow> runner_capabilities \<Rightarrow> int \<Rightarrow> nat \<Rightarrow> stores \<Rightarrow> stores \<Rightarrow> bool"
  for h spec registry plan runner attempt where
  rest: "driver_writes h spec registry plan runner attempt 0 st st"
| move: "apply_recovery_step h fresh st spec registry plan runner p = (st', Inr r) \<Longrightarrow> sp_logical_attempt p = attempt \<Longrightarrow>
    dv_next_projection_digest r \<noteq> None \<Longrightarrow> driver_writes h spec registry plan runner attempt n st' st'' \<Longrightarrow>
    driver_writes h spec registry plan runner attempt (Suc n) st st''"

fun action_rank :: "string \<Rightarrow> nat" where
  "action_rank action = (if action = ''prepare_dispatch_intent'' then 2
     else if action \<in> {''begin_submission'', ''release_observed_capacity''} then 1 else 0)"

lemma recovery_step_Inr:
  assumes "apply_recovery_step h fresh st spec registry plan runner p = (st', Inr r)"
  shows "project_session_after_restart h (fst st) (snd st) (snd st) spec registry plan runner (sp_logical_attempt p) = Inr p"
    and "sp_status p = ''coherent'' \<and> st' = st \<and> result_of h p ''no_action'' (sp_projected_session p) None None None None = Inr r
      \<or> apply_action h fresh st spec registry plan runner p = (st', Inr r)"
proof -
  have f: "fresh_projection h st spec registry plan runner p = Inr p"
    using assms by (auto simp: apply_recovery_step_def fresh_projection_Inr split: sum.splits)
  then show "project_session_after_restart h (fst st) (snd st) (snd st) spec registry plan runner (sp_logical_attempt p) = Inr p"
    unfolding fresh_projection_Inr by blast
  show "sp_status p = ''coherent'' \<and> st' = st \<and> result_of h p ''no_action'' (sp_projected_session p) None None None None = Inr r
      \<or> apply_action h fresh st spec registry plan runner p = (st', Inr r)"
    using assms by (auto simp: apply_recovery_step_def f split: if_splits)
qed

lemma driver_moves:
  assumes "apply_recovery_step h fresh st spec registry plan runner p = (st', Inr r)" and "db_ok h (snd st)"
  shows "st' = st \<and> dv_next_projection_digest r = None \<or>
    db_ok h (snd st') \<and> (\<exists>nxt. dv_next_projection_digest r = Some (projection_digest h nxt) \<and>
      project_session_after_restart h (fst st') (snd st') (snd st') spec registry plan runner (sp_logical_attempt p) = Inr nxt \<and>
      (sp_recovery_action p, sp_recovery_action nxt) \<in> {(''prepare_dispatch_intent'', ''begin_submission''),
         (''begin_submission'', ''reconcile_provider''), (''release_observed_capacity'', ''none'')})"
  using recovery_step_Inr(2) [OF assms(1)]
proof
  assume "sp_status p = ''coherent'' \<and> st' = st \<and> result_of h p ''no_action'' (sp_projected_session p) None None None None = Inr r"
  then have "dv_next_projection_digest r = None" "st' = st" using result_of_fields(5) [of h p _ _ None None None None] by auto
  then show ?thesis by blast
next
  assume "apply_action h fresh st spec registry plan runner p = (st', Inr r)"
  from apply_action_Inr [OF this assms(2) recovery_step_Inr(1) [OF assms(1)]] show ?thesis
    by cases (auto simp: follow_up_def)
qed

lemma driver_writes_bound:
  assumes "driver_writes h spec registry plan runner attempt n st st''" and "db_ok h (snd st)"
  shows "n = 0 \<or> (\<exists>p. project_session_after_restart h (fst st) (snd st) (snd st) spec registry plan runner attempt = Inr p \<and>
    n \<le> action_rank (sp_recovery_action p))"
  using assms
proof (induction rule: driver_writes.induct)
  case (move fresh st p st' r n st'')
  note proj = recovery_step_Inr(1) [OF move(1), unfolded move(2)]
  obtain nxt where nxt: "db_ok h (snd st')"
      "project_session_after_restart h (fst st') (snd st') (snd st') spec registry plan runner attempt = Inr nxt"
      "(sp_recovery_action p, sp_recovery_action nxt) \<in> {(''prepare_dispatch_intent'', ''begin_submission''),
         (''begin_submission'', ''reconcile_provider''), (''release_observed_capacity'', ''none'')}"
    using driver_moves [OF move(1,6)] move(2,3) by auto
  then have "n \<le> action_rank (sp_recovery_action nxt)" using move.IH by auto
  moreover have "action_rank (sp_recovery_action nxt) < action_rank (sp_recovery_action p)" using nxt(3) by auto
  ultimately show ?case using proj by auto
qed simp

text \<open>A prepared intent of the session's active lease is submitted by the next step.\<close>

lemma begin_step:
  assumes "hex_digest h" and "db_ok h db" and "recovery_session h spec registry plan runner attempt = Inr (bound, running)"
    and "head_load h heads runner = Inr (s, d)" and "prepare_dispatch_intent h s runner l a = Inr i"
    and "l \<in> set (active_leases h s)" and "cl_session_id l = session_id h bound" and "cl_logical_attempt l = attempt"
    and "dispatch_load h (od_intents db) (intent_id h i) = Inr (initial_dispatch_state i)"
  obtains p tbl r nxt where "project_session_after_restart h heads db db spec registry plan runner attempt = Inr p"
    and "sp_recovery_action p = ''begin_submission''"
    and "apply_recovery_step h fresh (heads, db) spec registry plan runner p = ((heads, db\<lparr>od_intents := tbl\<rparr>), Inr r)"
    and "project_session_after_restart h heads (db\<lparr>od_intents := tbl\<rparr>) (db\<lparr>od_intents := tbl\<rparr>) spec registry plan runner attempt = Inr nxt"
    and "sp_recovery_action nxt = ''reconcile_provider''" and "dv_next_projection_digest r = Some (projection_digest h nxt)"
    and "dispatch_load h tbl (intent_id h i) = Inr (unknown_state h (initial_dispatch_state i))"
    and "sp_logical_attempt p = attempt"
proof -
  let ?st = "initial_dispatch_state i" let ?u = "unknown_state h ?st"
  have st: "ds_intent ?st = i" "ds_status ?st = ''prepared''" "ds_revision ?st = 0" by (simp_all add: initial_dispatch_state_def)
  have u: "ds_intent ?u = i" "ds_status ?u = ''submission_unknown''" "ds_revision ?u = 1" "ds_previous_state_digest ?u = Some (dispatch_digest h ?st)"
    by (simp_all add: unknown_state_def)
  note i = prepare_Inr [OF assms(5)] and b = prepare_binds [OF assms(5)]
  have act: "session_active_leases h s (session_id h bound) attempt = [l]"
  proof -
    have "l \<in> set (session_active_leases h s (session_id h bound) attempt)" using assms(6-8) by (simp add: session_active_leases_def)
    then show ?thesis using session_active_unique [OF head_load_committed [OF assms(4)], of "session_id h bound" attempt]
      by (cases "session_active_leases h s (session_id h bound) attempt") auto
  qed
  have load: "dispatch_load h (od_intents db) (intent_id h (ds_intent ?st)) = Inr ?st" using assms(9) by simp
  obtain states where states: "session_dispatch_states h db (rc_runner_id runner) (session_id h bound) attempt = Inr states"
      "dispatch_for_lease h states l = Inr (Some ?st)"
    using load_intent_listed [OF assms(2) load, of "rc_runner_id runner" "session_id h bound" attempt l] b assms(7,8) by auto
  obtain p where p: "project_session_after_restart h heads db db spec registry plan runner attempt = Inr p"
    using active_projected [OF assms(1,3,4) act states] st(2) by blast
  have keys: "outbox_keys (od_intents db)" using assms(2) by (simp add: db_ok_def)
  have action: "sp_recovery_action p = ''begin_submission''"
    using projected_by_intent [OF p assms(3,4) act keys load] b assms(7,8) st(2) by simp
  have iid: "sp_dispatch_intent_id p = Some (intent_id h i)" "sp_logical_attempt p = attempt"
  proof -
    obtain bound' running' s' d' states' l' found where "recovery_session h spec registry plan runner attempt = Inr (bound', running')"
      "session_dispatch_states h db (rc_runner_id runner) (session_id h bound') attempt = Inr states'"
      "head_load h heads runner = Inr (s', d')" "session_active_leases h s' (session_id h bound') attempt = [l']"
      "dispatch_for_lease h states' l' = Inr found"
      "sp_dispatch_intent_id p = map_option (\<lambda>st. intent_id h (ds_intent st)) found" "sp_logical_attempt p = attempt"
      using p by (rule active_projection) (use action in simp_all)
    then show "sp_dispatch_intent_id p = Some (intent_id h i)" "sp_logical_attempt p = attempt"
      using assms(3,4) act states by auto
  qed
  obtain tbl where commit: "dispatch_commit h (od_intents db) ?st ?u = Inr (tbl, ?u)"
    using commit_succeeds [OF keys load, of ?u] u st by auto
  have "begin_submission h (od_intents db) heads (od_intents db) (intent_id h i) (dispatch_digest h ?st) runner = Inr (tbl, ?u, permit_of h ?u)"
    using begin_submissionI [OF assms(9) st(2) assms(4) _ commit] i(3) by simp
  then have db: "driver_begin h (heads, db) runner p = Inr (tbl, ?u, permit_of h ?u)"
    using assms(9) by (simp add: driver_begin_def iid(1))
  note adv = begin_advances [OF p action assms(2) db]
  let ?db = "db\<lparr>od_intents := tbl\<rparr>"
  have new: "dispatch_load h (od_intents ?db) (intent_id h (ds_intent ?u)) = Inr ?u"
    using dispatch_commit_load [OF commit unknown_state_valid [OF initial_state_valid [OF i(2)]]] by (simp add: u(1))
  obtain states' where states': "session_dispatch_states h ?db (rc_runner_id runner) (session_id h bound) attempt = Inr states'"
      "dispatch_for_lease h states' l = Inr (Some ?u)"
    using load_intent_listed [OF adv(1) new, of "rc_runner_id runner" "session_id h bound" attempt l] b assms(7,8) u(1) by auto
  obtain nxt where nxt: "project_session_after_restart h heads ?db ?db spec registry plan runner attempt = Inr nxt"
    using active_projected [OF assms(1,3,4) act states'] u(2) by blast
  have "digest_ok (dispatch_digest h ?u)" using hex_digest.digest_ok_sha256 [OF assms(1)] by (simp add: dispatch_digest_def)
  then have "\<exists>r. result_of h p ''applied'' (sp_projected_session nxt) (Some (dispatch_digest h ?u)) (Some (permit_of h ?u)) None (Some nxt) = Inr r"
    by (intro result_of_total [OF assms(1)]) simp_all
  then obtain r where r: "result_of h p ''applied'' (sp_projected_session nxt) (Some (dispatch_digest h ?u)) (Some (permit_of h ?u)) None (Some nxt) = Inr r" ..
  have "with_next h (heads, ?db) spec registry plan runner p (Some (dispatch_digest h ?u)) (Some (permit_of h ?u)) None = ((heads, ?db), Inr r)"
    using nxt r by (simp add: with_next_def iid(2))
  then have "apply_action h fresh (heads, db) spec registry plan runner p = ((heads, ?db), Inr r)"
    using db adv(2) by (simp add: apply_action_def action)
  moreover have "sp_status p = ''recovery_required''" using project_coherence(1) [OF p] action by simp
  moreover have "fresh_projection h (heads, db) spec registry plan runner p = Inr p" using p iid(2) by (simp add: fresh_projection_Inr)
  ultimately have "apply_recovery_step h fresh (heads, db) spec registry plan runner p = ((heads, ?db), Inr r)"
    by (simp add: apply_recovery_step_def)
  then show thesis using that [OF p action _ nxt adv(3) [OF nxt]] r result_of_fields(5) [OF r] new iid(2) u(1) by simp
qed

section \<open>An example\<close>

lemma ex_prepared_db: "db_ok h \<lparr>od_intents = [dispatch_row_of h (ex_prepared h)], od_outcomes = []\<rparr>"
  "dispatch_load h [dispatch_row_of h (ex_prepared h)] (intent_id h (ex_intent h)) = Inr (initial_dispatch_state (ex_intent h))"
proof -
  have "db_ok h (\<lparr>od_intents = [], od_outcomes = []\<rparr>\<lparr>od_intents := [dispatch_row_of h (ex_prepared h)]\<rparr>)"
    by (rule prepare_keeps [OF empty_db_ok, where i = "ex_intent h" and s = "ex_prepared h"])
      (simp_all add: ex_initialize prepare_Inr(2) [OF ex_prepare])
  then show "db_ok h \<lparr>od_intents = [dispatch_row_of h (ex_prepared h)], od_outcomes = []\<rparr>" by simp
  show "dispatch_load h [dispatch_row_of h (ex_prepared h)] (intent_id h (ex_intent h)) = Inr (initial_dispatch_state (ex_intent h))"
    using initialize_load [OF ex_initialize prepare_Inr(2) [OF ex_prepare]] by (simp add: ex_prepared_def)
qed

lemma ex_lease_session: "ex_lease h \<in> set (active_leases h (ex_reserved h))" "cl_session_id (ex_lease h) = session_id h (ex_session h)"
    "cl_logical_attempt (ex_lease h) = 1"
  by (simp_all add: ex_reserved(3)) (simp_all add: ex_lease_def ex_authorization_def ex_request_def ex_running_def)

lemma ex_begin_step:
  assumes "hex_digest h"
  obtains p st r where "apply_recovery_step h fresh (ex_reserved_heads h, \<lparr>od_intents = [dispatch_row_of h (ex_prepared h)], od_outcomes = []\<rparr>)
      ex_spec ex_registry (ex_plan h) ex_runner p = (st, Inr r)" and "sp_logical_attempt p = 1" and "dv_next_projection_digest r \<noteq> None"
      and "sp_recovery_action p = ''begin_submission''"
  using ex_prepared_db
  by (rule_tac begin_step [OF assms _ ex_recovery_session ex_reserved_heads ex_prepare ex_lease_session, where fresh = fresh
        and db = "\<lparr>od_intents = [dispatch_row_of h (ex_prepared h)], od_outcomes = []\<rparr>"]) (simp_all add: that)

lemma recovery_step_authority:
  assumes "apply_recovery_step h fresh st spec registry plan runner p = (st', Inr r)"
  shows "\<not> dv_transport_authority r \<and> \<not> dv_automatic_retry_authorized r"
proof -
  have init: "\<not> dv_transport_authority r \<and> \<not> dv_automatic_retry_authorized r" if "result_of h p s x dg pm rc nx = Inr r" for s x dg pm rc nx
    using result_of_fields(6,7) [OF that] by blast
  show ?thesis
    using recovery_step_Inr(2) [OF assms] init
    by (auto simp: apply_action_def with_next_def ebind_eq_Inr split: if_splits sum.splits prod.splits)
qed

section \<open>Properties\<close>

text \<open>C8: A recovery step writes at most once and only forwards: it succeeds only for the projection that the
  stores still give, it keeps the outbox invariant, it grants neither transport authority nor a retry, and
  either it leaves both stores alone or the stores then project one action further: from preparing an intent to
  beginning its submission, from there to reconciling with the provider, from a pending release to none.\<close>

theorem driver_step_progress:
  assumes "apply_recovery_step h fresh st spec registry plan runner p = (st', Inr r)" and "db_ok h (snd st)"
  shows "project_session_after_restart h (fst st) (snd st) (snd st) spec registry plan runner (sp_logical_attempt p) = Inr p \<and>
    db_ok h (snd st') \<and> \<not> dv_transport_authority r \<and> \<not> dv_automatic_retry_authorized r \<and>
    (st' = st \<and> dv_next_projection_digest r = None \<or>
     (\<exists>nxt. dv_next_projection_digest r = Some (projection_digest h nxt) \<and>
      project_session_after_restart h (fst st') (snd st') (snd st') spec registry plan runner (sp_logical_attempt p) = Inr nxt \<and>
      (sp_recovery_action p, sp_recovery_action nxt) \<in> {(''prepare_dispatch_intent'', ''begin_submission''),
         (''begin_submission'', ''reconcile_provider''), (''release_observed_capacity'', ''none'')}))"
proof -
  have "\<not> dv_transport_authority r \<and> \<not> dv_automatic_retry_authorized r"
    using recovery_step_authority [OF assms(1)] .
  then show ?thesis using driver_moves [OF assms] recovery_step_Inr(1) [OF assms(1)] assms(2) by blast
qed

theorem driver_step_progress_witness:
  "\<exists>heads db p nxt. project_session_after_restart zero_hash heads db db ex_spec ex_registry (ex_plan zero_hash) ex_runner 1 = Inr nxt \<and>
     sp_recovery_action nxt = ''reconcile_provider''"
proof -
  obtain p st r where s: "apply_recovery_step zero_hash [] (ex_reserved_heads zero_hash, \<lparr>od_intents = [dispatch_row_of zero_hash (ex_prepared zero_hash)], od_outcomes = []\<rparr>)
      ex_spec ex_registry (ex_plan zero_hash) ex_runner p = (st, Inr r)" "sp_logical_attempt p = 1" "dv_next_projection_digest r \<noteq> None"
      "sp_recovery_action p = ''begin_submission''"
    by (rule ex_begin_step [OF zero_hash])
  obtain heads db where st: "st = (heads, db)" by (cases st)
  from driver_step_progress [OF s(1)] ex_prepared_db(1) s(2-4)
  have "\<exists>nxt. project_session_after_restart zero_hash heads db db ex_spec ex_registry (ex_plan zero_hash) ex_runner 1 = Inr nxt \<and>
     sp_recovery_action nxt = ''reconcile_provider''" by (auto simp: st)
  then show ?thesis by blast
qed

text \<open>C9: The driver comes to rest: for one logical attempt, at most two of its steps in a row write to the stores,
  whatever the stores hold at the start, as long as the outbox invariant holds and nobody else writes.\<close>

theorem driver_comes_to_rest:
  assumes "driver_writes h spec registry plan runner attempt n st st'" and "db_ok h (snd st)"
  shows "n \<le> 2"
  using driver_writes_bound [OF assms] by (auto split: if_splits)

theorem driver_comes_to_rest_witness:
  "\<exists>st. driver_writes zero_hash ex_spec ex_registry (ex_plan zero_hash) ex_runner 1 (Suc 0)
     (ex_reserved_heads zero_hash, \<lparr>od_intents = [dispatch_row_of zero_hash (ex_prepared zero_hash)], od_outcomes = []\<rparr>) st \<and> Suc 0 \<le> 2"
proof -
  obtain p st r where s: "apply_recovery_step zero_hash [] (ex_reserved_heads zero_hash, \<lparr>od_intents = [dispatch_row_of zero_hash (ex_prepared zero_hash)], od_outcomes = []\<rparr>)
      ex_spec ex_registry (ex_plan zero_hash) ex_runner p = (st, Inr r)" "sp_logical_attempt p = 1" "dv_next_projection_digest r \<noteq> None"
    by (rule ex_begin_step [OF zero_hash])
  have w: "driver_writes zero_hash ex_spec ex_registry (ex_plan zero_hash) ex_runner 1 (Suc 0)
     (ex_reserved_heads zero_hash, \<lparr>od_intents = [dispatch_row_of zero_hash (ex_prepared zero_hash)], od_outcomes = []\<rparr>) st"
    by (rule driver_writes.move [OF s driver_writes.rest])
  from driver_comes_to_rest [OF w] ex_prepared_db(1) have "Suc 0 \<le> 2" by simp
  with w show ?thesis by blast
qed

text \<open>The driver refuses without writing: a projection other than the fresh one is stale, a fresh projection
  that is inconsistent or legacy is refused, and a coherent one is answered with no action.\<close>

theorem driver_refuses:
  assumes "project_session_after_restart h (fst st) (snd st) (snd st) spec registry plan runner (sp_logical_attempt supplied) = Inr p"
  shows "apply_recovery_step h fresh st spec registry plan runner supplied =
    (if supplied \<noteq> p then (st, Inl (RecoveryDriverError ''recovery projection is stale''))
     else if sp_status p \<in> {''legacy_untracked'', ''inconsistent''}
     then (st, Inl (RecoveryDriverError ''recovery driver refuses non-recoverable projection''))
     else if sp_status p = ''coherent'' then (st, result_of h p ''no_action'' (sp_projected_session p) None None None None)
     else apply_action h fresh st spec registry plan runner p)"
  using assms project_coherence(1) [OF assms] by (auto simp: apply_recovery_step_def fresh_projection_def)

theorem driver_refuses_witness:
  "\<exists>heads db. \<forall>p. sp_logical_attempt p = 1 \<and> sp_status p = ''inconsistent'' \<longrightarrow>
     (\<exists>e. apply_recovery_step zero_hash [] (heads, db) ex_spec ex_registry (ex_plan zero_hash) ex_runner p = ((heads, db), Inl e))"
proof -
  obtain heads db q where q: "project_session_after_restart zero_hash heads db db ex_spec ex_registry (ex_plan zero_hash) ex_runner 1 = Inr q"
    using ex_project_retry [OF zero_hash] by blast
  have "\<exists>e. apply_recovery_step zero_hash [] (heads, db) ex_spec ex_registry (ex_plan zero_hash) ex_runner p = ((heads, db), Inl e)"
    if p: "sp_logical_attempt p = 1" "sp_status p = ''inconsistent''" for p
    using driver_refuses [of zero_hash "(heads, db)" ex_spec ex_registry "ex_plan zero_hash" ex_runner p q "[]"] q p by auto
  then show ?thesis by blast
qed

text \<open>C13: The driver submits what is prepared: when the session's active lease has a prepared intent in the outbox,
  the stores project its submission, the step succeeds, moves exactly that intent to \<open>submission_unknown\<close>
  and hands over to the provider's reconciliation.\<close>

theorem driver_submits_prepared:
  assumes "hex_digest h" and "db_ok h db" and "recovery_session h spec registry plan runner attempt = Inr (bound, running)"
    and "head_load h heads runner = Inr (s, d)" and "prepare_dispatch_intent h s runner l a = Inr i"
    and "l \<in> set (active_leases h s)" and "cl_session_id l = session_id h bound" and "cl_logical_attempt l = attempt"
    and "dispatch_load h (od_intents db) (intent_id h i) = Inr (initial_dispatch_state i)"
  shows "\<exists>p tbl r nxt. project_session_after_restart h heads db db spec registry plan runner attempt = Inr p \<and>
    apply_recovery_step h fresh (heads, db) spec registry plan runner p = ((heads, db\<lparr>od_intents := tbl\<rparr>), Inr r) \<and>
    dispatch_load h tbl (intent_id h i) = Inr (unknown_state h (initial_dispatch_state i)) \<and>
    project_session_after_restart h heads (db\<lparr>od_intents := tbl\<rparr>) (db\<lparr>od_intents := tbl\<rparr>) spec registry plan runner attempt = Inr nxt \<and>
    sp_recovery_action nxt = ''reconcile_provider''"
  by (rule begin_step [OF assms, where fresh = fresh]) blast

theorem driver_submits_prepared_witness:
  "\<exists>tbl. dispatch_load zero_hash tbl (intent_id zero_hash (ex_intent zero_hash)) = Inr (unknown_state zero_hash (initial_dispatch_state (ex_intent zero_hash)))"
proof -
  have "dispatch_load zero_hash (od_intents \<lparr>od_intents = [dispatch_row_of zero_hash (ex_prepared zero_hash)], od_outcomes = []\<rparr>) (intent_id zero_hash (ex_intent zero_hash))
      = Inr (initial_dispatch_state (ex_intent zero_hash))" using ex_prepared_db(2) by simp
  from driver_submits_prepared [OF zero_hash ex_prepared_db(1) ex_recovery_session ex_reserved_heads ex_prepare ex_lease_session this]
  show ?thesis by blast
qed

end
