(* ===== verification/Field_Checks.thy ===== *)
theory Field_Checks
  imports Models Hex_Digest
begin

text \<open>
  The field checks that the control-plane modules repeat at their top (\<open>_nonempty\<close>,
  \<open>_optional_nonempty\<close>, \<open>_unique_nonempty\<close>, \<open>_digest\<close>, \<open>_require_exact_fields\<close>); the copies differ
  in the exception class only, which is the argument \<open>E\<close>. A check is given any Python value, as the
  constructors are called with whatever a JSON text held, and returns the typed content.
  The lemmas invert each check.
\<close>

section \<open>The text of a list of strings\<close>

text \<open>
  \<open>repr\<close> of a string: single quotes unless it contains one and no double quote; control characters
  are escaped. Other bytes stand for themselves.
\<close>

definition py_repr_char :: "char \<Rightarrow> char \<Rightarrow> string" where
  "py_repr_char q c =
     (if c = q \<or> c = CHR 0x5C then [CHR 0x5C, c]
      else if c = CHR 0x0A then [CHR 0x5C, CHR ''n'']
      else if c = CHR 0x0D then [CHR 0x5C, CHR ''r'']
      else if c = CHR 0x09 then [CHR 0x5C, CHR ''t'']
      else if (of_char c :: nat) < 32 \<or> (of_char c :: nat) = 127
      then [CHR 0x5C, CHR ''x'', hex_char (of_char c div 16), hex_char (of_char c mod 16)]
      else [c])"

definition py_repr_str :: "string \<Rightarrow> string" where
  "py_repr_str s = (let q = (if CHR 0x27 \<in> set s \<and> CHR 0x22 \<notin> set s then CHR 0x22 else CHR 0x27) in
     q # concat (map (py_repr_char q) s) @ [q])"

fun join_comma_space :: "string list \<Rightarrow> string" where
  "join_comma_space [] = []"
| "join_comma_space [s] = s"
| "join_comma_space (s # t # ts) = s @ '', '' @ join_comma_space (t # ts)"

definition py_repr_list :: "string list \<Rightarrow> string" where
  "py_repr_list xs = ''['' @ join_comma_space (map py_repr_str xs) @ '']''"

definition py_repr_tuple :: "string list \<Rightarrow> string" where
  "py_repr_tuple xs = ''('' @ join_comma_space (map py_repr_str xs) @ (if length xs = 1 then '',)'' else '')'')"

section \<open>Checks of single fields\<close>

definition schema_field :: "py_error \<Rightarrow> string \<Rightarrow> pyval \<Rightarrow> string exc" where
  "schema_field e expected v = (if v \<noteq> PStr expected then Inl e else Inr expected)"

definition nonempty_field :: "(string \<Rightarrow> py_error) \<Rightarrow> string \<Rightarrow> pyval \<Rightarrow> string exc" where
  "nonempty_field E name v = (case v of
     PStr s \<Rightarrow> if blank s then Inl (E (name @ '' must be a non-empty string'')) else Inr s
   | _ \<Rightarrow> Inl (E (name @ '' must be a non-empty string'')))"

definition optional_field :: "(string \<Rightarrow> py_error) \<Rightarrow> string \<Rightarrow> pyval \<Rightarrow> string option exc" where
  "optional_field E name v = py_unless_none (nonempty_field E name) v"

definition digest_field :: "(string \<Rightarrow> py_error) \<Rightarrow> string \<Rightarrow> pyval \<Rightarrow> string exc" where
  "digest_field E name v = (case v of
     PStr s \<Rightarrow> if \<not> digest_shape s then Inl (E (name @ '' must be sha256:<64-hex>''))
       else if \<not> int16_ok (drop 7 s) then Inl (E (name @ '' must contain 64 hexadecimal characters''))
       else Inr s
   | _ \<Rightarrow> Inl (E (name @ '' must be sha256:<64-hex>'')))"

text \<open>\<open>if value is not None: _digest(name, value)\<close>.\<close>

definition optional_digest :: "(string \<Rightarrow> py_error) \<Rightarrow> string \<Rightarrow> pyval \<Rightarrow> string option exc" where
  "optional_digest E name v = py_unless_none (digest_field E name) v"

definition tuple_items :: "pyval \<Rightarrow> pyval list" where
  "tuple_items v = (case v of PList xs \<Rightarrow> xs | PTuple xs \<Rightarrow> xs | _ \<Rightarrow> [])"

definition unique_field :: "(string \<Rightarrow> py_error) \<Rightarrow> string \<Rightarrow> pyval \<Rightarrow> string list exc" where
  "unique_field E name v =
     ebind (emap (\<lambda>u. case u of
         PStr s \<Rightarrow> if blank s then Inl (E (name @ '' must contain only non-empty strings'')) else Inr s
       | _ \<Rightarrow> Inl (E (name @ '' must contain only non-empty strings''))) (tuple_items v)) (\<lambda>xs.
     if length xs \<noteq> length (remdups xs) then Inl (E (name @ '' must not contain duplicates'')) else Inr xs)"

text \<open>\<open>value not in CHOICES\<close>, where \<open>CHOICES\<close> is a set: an unhashable value is a \<open>TypeError\<close>.\<close>

definition choice_field :: "py_error \<Rightarrow> string list \<Rightarrow> pyval \<Rightarrow> string exc" where
  "choice_field e choices v = (case v of
     PStr s \<Rightarrow> if s \<in> set choices then Inr s else Inl e
   | PList _ \<Rightarrow> Inl (TypeError ''unhashable type'')
   | PDict _ \<Rightarrow> Inl (TypeError ''unhashable type'')
   | _ \<Rightarrow> Inl e)"

text \<open>\<open>not isinstance(value, int) or isinstance(value, bool)\<close>, then the lower bound.\<close>

definition int_field :: "py_error \<Rightarrow> int \<Rightarrow> py_error \<Rightarrow> pyval \<Rightarrow> int exc" where
  "int_field e lower e' v = (case v of PInt i \<Rightarrow> if i < lower then Inl e' else Inr i | _ \<Rightarrow> Inl e)"

definition list_field :: "py_error \<Rightarrow> pyval \<Rightarrow> pyval list exc" where
  "list_field e v = (case v of PList xs \<Rightarrow> Inr xs | _ \<Rightarrow> Inl e)"

definition exact_fields :: "(string \<Rightarrow> py_error) \<Rightarrow> string \<Rightarrow> string list \<Rightarrow> pyval \<Rightarrow> (string \<times> pyval) list exc" where
  "exact_fields E label expected d = (case d of
     PDict kvs \<Rightarrow>
       let actual = map fst kvs;
         missing = sort (filter (\<lambda>k. k \<notin> set actual) expected);
         unknown = sort (filter (\<lambda>k. k \<notin> set expected) actual)
       in if set actual \<noteq> set expected
          then Inl (E (label @ '' fields mismatch: missing='' @ py_repr_list missing @ '' unknown='' @ py_repr_list unknown))
          else Inr kvs
   | _ \<Rightarrow> Inl (E (label @ '' must be an object'')))"

text \<open>The items of a dictionary; keyword values of a constructor are taken from them.\<close>

definition py_items :: "pyval \<Rightarrow> (string \<times> pyval) list" where
  "py_items d = (case d of PDict kvs \<Rightarrow> kvs | _ \<Rightarrow> [])"

section \<open>What a passed check says\<close>

lemma schema_field_Inr [exc_simps]: "schema_field e x v = Inr s \<longleftrightarrow> v = PStr x \<and> s = x"
  by (auto simp: schema_field_def)

lemma nonempty_field_Inr [exc_simps]: "nonempty_field E n v = Inr s \<longleftrightarrow> v = PStr s \<and> \<not> blank s"
  by (auto simp: nonempty_field_def split: pyval.splits)

lemma py_unless_none_Inr:
  "py_unless_none f v = Inr x \<longleftrightarrow> v = PNone \<and> x = None \<or> v \<noteq> PNone \<and> (\<exists>y. f v = Inr y \<and> x = Some y)"
  by (auto simp: py_unless_none_def exc_simps)

lemma py_opt_PStr_cases [simp]:
  "PNone = py_opt PStr x \<longleftrightarrow> x = None" "PStr a = py_opt PStr x \<longleftrightarrow> x = Some a"
  "py_opt PStr x = PNone \<longleftrightarrow> x = None" "py_opt PStr x = PStr a \<longleftrightarrow> x = Some a"
  by (cases x; auto)+

lemma optional_field_Inr [exc_simps]:
  "optional_field E n v = Inr x \<longleftrightarrow> v = py_opt PStr x \<and> pred_option (\<lambda>s. \<not> blank s) x"
  by (cases x) (auto simp: optional_field_def py_unless_none_Inr nonempty_field_Inr)

lemma digest_field_Inr [exc_simps]: "digest_field E n v = Inr s \<longleftrightarrow> v = PStr s \<and> digest_ok s"
  by (auto simp: digest_field_def digest_ok_def split: pyval.splits)

lemma optional_digest_Inr [exc_simps]:
  "optional_digest E n v = Inr x \<longleftrightarrow> v = py_opt PStr x \<and> pred_option digest_ok x"
  by (cases x) (auto simp: optional_digest_def py_unless_none_Inr digest_field_Inr)

lemma tuple_items_simps [simp]: "tuple_items (PList xs) = xs" "tuple_items (PTuple xs) = xs" "tuple_items (py_strs ss) = map PStr ss"
  by (simp_all add: tuple_items_def py_strs_def)

lemma py_items_simps [simp]: "py_items (PDict kvs) = kvs"
  by (simp add: py_items_def)

lemma emap_strings: "emap (\<lambda>u. case u of PStr s \<Rightarrow> if p s then Inl e else Inr s | _ \<Rightarrow> Inl e) vs = Inr xs \<longleftrightarrow>
   vs = map PStr xs \<and> (\<forall>s\<in>set xs. \<not> p s)"
  by (induction vs arbitrary: xs) (auto simp: exc_simps split: pyval.splits)

lemma unique_field_Inr [exc_simps]:
  "unique_field E n v = Inr xs \<longleftrightarrow> tuple_items v = map PStr xs \<and> (\<forall>s\<in>set xs. \<not> blank s) \<and> distinct xs"
  using length_remdups_eq by (auto simp: unique_field_def ebind_eq_Inr emap_strings)

lemma choice_field_Inr [exc_simps]: "choice_field e cs v = Inr s \<longleftrightarrow> v = PStr s \<and> s \<in> set cs"
  by (auto simp: choice_field_def split: pyval.splits)

lemma int_field_Inr [exc_simps]: "int_field e l e' v = Inr i \<longleftrightarrow> v = PInt i \<and> l \<le> i"
  by (auto simp: int_field_def split: pyval.splits)

lemma list_field_Inr [exc_simps]: "list_field e v = Inr xs \<longleftrightarrow> v = PList xs"
  by (auto simp: list_field_def split: pyval.splits)

lemma emap_reads_itself:
  "(\<And>x y. f (g x) = Inr y \<Longrightarrow> y = x) \<Longrightarrow> emap f (map g xs) = Inr ys \<Longrightarrow> ys = xs"
  by (induction xs arbitrary: ys) (auto simp: ebind_eq_Inr)

lemma exact_fields_Inr [exc_simps]:
  "exact_fields E l expected d = Inr kvs \<longleftrightarrow> d = PDict kvs \<and> fst ` set kvs = set expected"
  by (auto simp: exact_fields_def Let_def split: pyval.splits)

text \<open>A normalised dictionary with the expected keys passes, and its fields are the normalised ones.\<close>

lemma exact_fields_normalize:
  "set (map fst kvs) = set expected \<Longrightarrow> exact_fields E l expected (normalize (PDict kvs)) = Inr (normal_items kvs)"
  by (simp add: exact_fields_Inr normalize_PDict set_normal_items)

context hex_digest
begin

lemma digest_ok_sha256 [simp]: "digest_ok (sha256_digest h v)"
  by (simp add: digest_ok_def digest_shape_def sha256_digest_length sha256_digest_prefix sha256_digest_int16)

end

end
