(* ===== verification/Retry_Authority.thy ===== *)
theory Retry_Authority
  imports Field_Checks
begin

text \<open>
  The retry authority (\<open>retry_authority.py\<close>): which failures may be retried without a human, how
  often, and after what delay. A policy sets the limits, an observation describes one failure and counts
  the attempts so far, and the decision is a disposition with the authority it grants.
  The lemmas invert the three constructors; the properties show that a decision is always made and is well
  formed, that retries are granted exactly within the budget, and the bounds of the delay.
\<close>

section \<open>Policies\<close>

record retry_policy =
  rp_policy_id :: string
  rp_revision :: string
  rp_authority_ref :: string
  rp_authority_digest :: string
  rp_network_retry_limit :: int
  rp_throttle_retry_limit :: int
  rp_throttle_initial_backoff_seconds :: int
  rp_throttle_max_backoff_seconds :: int
  rp_unknown_reproduction_limit :: int
  rp_schema_version :: string

definition retry_policy_py :: "retry_policy \<Rightarrow> pyval" where
  "retry_policy_py x = PDict [
    (''policy_id'', PStr (rp_policy_id x)),
    (''revision'', PStr (rp_revision x)),
    (''authority_ref'', PStr (rp_authority_ref x)),
    (''authority_digest'', PStr (rp_authority_digest x)),
    (''network_retry_limit'', PInt (rp_network_retry_limit x)),
    (''throttle_retry_limit'', PInt (rp_throttle_retry_limit x)),
    (''throttle_initial_backoff_seconds'', PInt (rp_throttle_initial_backoff_seconds x)),
    (''throttle_max_backoff_seconds'', PInt (rp_throttle_max_backoff_seconds x)),
    (''unknown_reproduction_limit'', PInt (rp_unknown_reproduction_limit x)),
    (''schema_version'', PStr (rp_schema_version x))]"

definition retry_policy_digest :: "hash \<Rightarrow> retry_policy \<Rightarrow> string" where
  "retry_policy_digest h p = sha256_digest h (retry_policy_py p)"

definition retry_nonnegative :: "string \<Rightarrow> int \<Rightarrow> unit exc" where
  "retry_nonnegative name v =
     (if v < 0 then Inl (RetryAuthorityError (name @ '' must be a non-negative integer'')) else Inr ())"

definition retry_policy_init :: "retry_policy \<Rightarrow> retry_policy exc" where
  "retry_policy_init p =
     (if rp_schema_version p \<noteq> ''ge.retry-policy.v1'' then Inl (RetryAuthorityError ''unsupported retry policy schema'')
      else ebind (nonempty_field RetryAuthorityError ''policy_id'' (PStr (rp_policy_id p))) (\<lambda>_.
      ebind (nonempty_field RetryAuthorityError ''revision'' (PStr (rp_revision p))) (\<lambda>_.
      ebind (nonempty_field RetryAuthorityError ''authority_ref'' (PStr (rp_authority_ref p))) (\<lambda>_.
      ebind (digest_field RetryAuthorityError ''authority_digest'' (PStr (rp_authority_digest p))) (\<lambda>_.
      ebind (eall (\<lambda>(name, v). retry_nonnegative name v) [
        (''network_retry_limit'', rp_network_retry_limit p),
        (''throttle_retry_limit'', rp_throttle_retry_limit p),
        (''throttle_initial_backoff_seconds'', rp_throttle_initial_backoff_seconds p),
        (''throttle_max_backoff_seconds'', rp_throttle_max_backoff_seconds p),
        (''unknown_reproduction_limit'', rp_unknown_reproduction_limit p)]) (\<lambda>_.
      if rp_throttle_initial_backoff_seconds p < 1
      then Inl (RetryAuthorityError ''throttle_initial_backoff_seconds must be >= 1'')
      else if rp_throttle_max_backoff_seconds p < rp_throttle_initial_backoff_seconds p
      then Inl (RetryAuthorityError ''throttle_max_backoff_seconds must be >= initial backoff'')
      else if rp_unknown_reproduction_limit p \<noteq> 1
      then Inl (RetryAuthorityError ''unknown_reproduction_limit is frozen to exactly 1'')
      else Inr p))))))"

section \<open>Failure observations\<close>

definition failure_classes :: "string list" where
  "failure_classes = [''network_timeout'', ''provider_throttled'', ''deterministic_assertion'', ''unknown_failure'',
     ''cost_boundary'', ''security_boundary'', ''authority_boundary'']"

definition human_boundary_classes :: "string list" where
  "human_boundary_classes = [''security_boundary'', ''authority_boundary'']"

record failure_observation =
  fo_failure_class :: string
  fo_failure_code :: string
  fo_evidence_digest :: string
  fo_automatic_retry_count :: int
  fo_independent_reproduction_count :: int
  fo_boundary_detail :: "string option"
  fo_schema_version :: string

definition failure_observation_py :: "failure_observation \<Rightarrow> pyval" where
  "failure_observation_py x = PDict [
    (''failure_class'', PStr (fo_failure_class x)),
    (''failure_code'', PStr (fo_failure_code x)),
    (''evidence_digest'', PStr (fo_evidence_digest x)),
    (''automatic_retry_count'', PInt (fo_automatic_retry_count x)),
    (''independent_reproduction_count'', PInt (fo_independent_reproduction_count x)),
    (''boundary_detail'', py_opt PStr (fo_boundary_detail x)),
    (''schema_version'', PStr (fo_schema_version x))]"

definition failure_observation_digest :: "hash \<Rightarrow> failure_observation \<Rightarrow> string" where
  "failure_observation_digest h x = sha256_digest h (failure_observation_py x)"

definition failure_observation_init :: "failure_observation \<Rightarrow> failure_observation exc" where
  "failure_observation_init x =
     (if fo_schema_version x \<noteq> ''ge.failure-observation.v1''
      then Inl (RetryAuthorityError ''unsupported failure observation schema'')
      else if fo_failure_class x \<notin> set failure_classes then Inl (RetryAuthorityError ''unsupported failure class'')
      else ebind (nonempty_field RetryAuthorityError ''failure_code'' (PStr (fo_failure_code x))) (\<lambda>_.
      ebind (digest_field RetryAuthorityError ''evidence_digest'' (PStr (fo_evidence_digest x))) (\<lambda>_.
      ebind (retry_nonnegative ''automatic_retry_count'' (fo_automatic_retry_count x)) (\<lambda>_.
      ebind (retry_nonnegative ''independent_reproduction_count'' (fo_independent_reproduction_count x)) (\<lambda>_.
      ebind (optional_field RetryAuthorityError ''boundary_detail'' (py_opt PStr (fo_boundary_detail x))) (\<lambda>_.
      if fo_failure_class x \<in> set human_boundary_classes then
        (if fo_boundary_detail x = None
         then Inl (RetryAuthorityError ''human boundary failure requires boundary_detail'') else Inr x)
      else if fo_failure_class x = ''cost_boundary'' then
        (if fo_boundary_detail x = None
         then Inl (RetryAuthorityError ''cost boundary requires boundary_detail'') else Inr x)
      else if fo_boundary_detail x \<noteq> None
      then Inl (RetryAuthorityError ''boundary_detail is valid only for boundary failures'')
      else Inr x))))))"

section \<open>Decisions\<close>

definition retry_dispositions :: "string list" where
  "retry_dispositions = [''retry'', ''independent_reproduction'', ''diagnose'', ''human_gate'', ''stop'']"

record retry_decision =
  rd_policy_digest :: string
  rd_observation_digest :: string
  rd_disposition :: string
  rd_next_action_ref :: string
  rd_delay_seconds :: int
  rd_automatic_retry_authorized :: bool
  rd_independent_reproduction_authorized :: bool
  rd_human_required :: bool
  rd_authority_ref :: "string option"
  rd_authority_digest :: "string option"
  rd_authority_boundary :: "string option"
  rd_transport_authority :: bool
  rd_schema_version :: string

definition retry_decision_py :: "retry_decision \<Rightarrow> pyval" where
  "retry_decision_py x = PDict [
    (''policy_digest'', PStr (rd_policy_digest x)),
    (''observation_digest'', PStr (rd_observation_digest x)),
    (''disposition'', PStr (rd_disposition x)),
    (''next_action_ref'', PStr (rd_next_action_ref x)),
    (''delay_seconds'', PInt (rd_delay_seconds x)),
    (''automatic_retry_authorized'', PBool (rd_automatic_retry_authorized x)),
    (''independent_reproduction_authorized'', PBool (rd_independent_reproduction_authorized x)),
    (''human_required'', PBool (rd_human_required x)),
    (''authority_ref'', py_opt PStr (rd_authority_ref x)),
    (''authority_digest'', py_opt PStr (rd_authority_digest x)),
    (''authority_boundary'', py_opt PStr (rd_authority_boundary x)),
    (''transport_authority'', PBool (rd_transport_authority x)),
    (''schema_version'', PStr (rd_schema_version x))]"

definition retry_decision_digest :: "hash \<Rightarrow> retry_decision \<Rightarrow> string" where
  "retry_decision_digest h d = sha256_digest h (retry_decision_py d)"

definition retry_decision_id :: "hash \<Rightarrow> retry_decision \<Rightarrow> string" where
  "retry_decision_id h d = stable_id h ''gerd'' (retry_decision_py d)"

text \<open>The consistency of a disposition with the flags and the authority it carries.\<close>

definition retry_disposition_check :: "retry_decision \<Rightarrow> retry_decision exc" where
  "retry_disposition_check d =
     (if rd_disposition d = ''retry'' then
        (if \<not> rd_automatic_retry_authorized d
         then Inl (RetryAuthorityError ''retry disposition requires automatic_retry_authorized'')
         else if rd_independent_reproduction_authorized d \<or> rd_human_required d
         then Inl (RetryAuthorityError ''retry disposition flags are inconsistent'')
         else if rd_authority_ref d = None \<or> rd_authority_digest d = None \<or> rd_authority_boundary d \<noteq> None
         then Inl (RetryAuthorityError ''retry disposition requires bounded authority artifact only'')
         else Inr d)
      else if rd_disposition d = ''independent_reproduction'' then
        (if \<not> rd_independent_reproduction_authorized d
         then Inl (RetryAuthorityError ''independent reproduction requires explicit authorization'')
         else if rd_automatic_retry_authorized d \<or> rd_human_required d
         then Inl (RetryAuthorityError ''independent reproduction flags are inconsistent'')
         else if rd_delay_seconds d \<noteq> 0 \<or> rd_authority_ref d = None \<or> rd_authority_digest d = None \<or> rd_authority_boundary d \<noteq> None
         then Inl (RetryAuthorityError ''independent reproduction requires bounded authority artifact'')
         else Inr d)
      else if rd_disposition d \<in> {''diagnose'', ''stop''} then
        (if rd_automatic_retry_authorized d \<or> rd_independent_reproduction_authorized d \<or> rd_human_required d
         then Inl (RetryAuthorityError (rd_disposition d @ '' disposition cannot grant authority''))
         else if rd_delay_seconds d \<noteq> 0 \<or> rd_authority_ref d \<noteq> None \<or> rd_authority_digest d \<noteq> None \<or> rd_authority_boundary d \<noteq> None
         then Inl (RetryAuthorityError (rd_disposition d @ '' disposition cannot carry authority or delay''))
         else Inr d)
      else if rd_disposition d = ''human_gate'' then
        (if \<not> rd_human_required d \<or> rd_authority_boundary d = None
         then Inl (RetryAuthorityError ''human_gate disposition requires human authority boundary'')
         else if rd_automatic_retry_authorized d \<or> rd_independent_reproduction_authorized d \<or> rd_delay_seconds d \<noteq> 0
           \<or> rd_authority_ref d \<noteq> None \<or> rd_authority_digest d \<noteq> None
         then Inl (RetryAuthorityError ''human_gate disposition flags are inconsistent'')
         else Inr d)
      else Inr d)"

definition retry_decision_init :: "retry_decision \<Rightarrow> retry_decision exc" where
  "retry_decision_init d =
     (if rd_schema_version d \<noteq> ''ge.retry-decision.v1'' then Inl (RetryAuthorityError ''unsupported retry decision schema'')
      else ebind (digest_field RetryAuthorityError ''policy_digest'' (PStr (rd_policy_digest d))) (\<lambda>_.
      ebind (digest_field RetryAuthorityError ''observation_digest'' (PStr (rd_observation_digest d))) (\<lambda>_.
      if rd_disposition d \<notin> set retry_dispositions then Inl (RetryAuthorityError ''unsupported retry disposition'')
      else ebind (nonempty_field RetryAuthorityError ''next_action_ref'' (PStr (rd_next_action_ref d))) (\<lambda>_.
      ebind (retry_nonnegative ''delay_seconds'' (rd_delay_seconds d)) (\<lambda>_.
      ebind (optional_field RetryAuthorityError ''authority_ref'' (py_opt PStr (rd_authority_ref d))) (\<lambda>_.
      ebind (optional_digest RetryAuthorityError ''authority_digest'' (py_opt PStr (rd_authority_digest d))) (\<lambda>_.
      ebind (optional_field RetryAuthorityError ''authority_boundary'' (py_opt PStr (rd_authority_boundary d))) (\<lambda>_.
      if rd_transport_authority d
      then Inl (RetryAuthorityError ''retry decision cannot grant transport authority'')
      else retry_disposition_check d))))))))"

section \<open>Deciding\<close>

definition retry_decision_for :: "hash \<Rightarrow> retry_policy \<Rightarrow> failure_observation \<Rightarrow> string \<Rightarrow> string \<Rightarrow> int \<Rightarrow> bool \<Rightarrow> bool \<Rightarrow> bool \<Rightarrow>
   string option \<Rightarrow> retry_decision exc" where
  "retry_decision_for h p x disposition action delay retry reproduce human boundary =
     (let mechanical = retry \<or> reproduce in retry_decision_init
       \<lparr>rd_policy_digest = retry_policy_digest h p, rd_observation_digest = failure_observation_digest h x,
        rd_disposition = disposition, rd_next_action_ref = action, rd_delay_seconds = delay,
        rd_automatic_retry_authorized = retry, rd_independent_reproduction_authorized = reproduce,
        rd_human_required = human,
        rd_authority_ref = (if mechanical then Some (rp_authority_ref p) else None),
        rd_authority_digest = (if mechanical then Some (rp_authority_digest p) else None),
        rd_authority_boundary = boundary, rd_transport_authority = False,
        rd_schema_version = ''ge.retry-decision.v1''\<rparr>)"

definition throttle_delay :: "retry_policy \<Rightarrow> int \<Rightarrow> int" where
  "throttle_delay p n =
     min (rp_throttle_initial_backoff_seconds p * 2 ^ nat n) (rp_throttle_max_backoff_seconds p)"

definition decide_retry :: "hash \<Rightarrow> retry_policy \<Rightarrow> failure_observation \<Rightarrow> retry_decision exc" where
  "decide_retry h p x =
     (if fo_failure_class x = ''network_timeout'' then
        (if fo_automatic_retry_count x < rp_network_retry_limit p
         then retry_decision_for h p x ''retry'' ''retry://network-timeout'' 0 True False False None
         else retry_decision_for h p x ''diagnose'' ''diagnose://network-retry-budget-exhausted'' 0 False False False None)
      else if fo_failure_class x = ''provider_throttled'' then
        (if fo_automatic_retry_count x < rp_throttle_retry_limit p
         then retry_decision_for h p x ''retry'' ''retry://provider-throttled''
           (throttle_delay p (fo_automatic_retry_count x)) True False False None
         else retry_decision_for h p x ''diagnose'' ''diagnose://throttle-retry-budget-exhausted'' 0 False False False None)
      else if fo_failure_class x = ''deterministic_assertion''
      then retry_decision_for h p x ''diagnose'' ''diagnose://deterministic-assertion'' 0 False False False None
      else if fo_failure_class x = ''unknown_failure'' then
        (if fo_independent_reproduction_count x < rp_unknown_reproduction_limit p
         then retry_decision_for h p x ''independent_reproduction'' ''reproduce://unknown-failure'' 0 False True False None
         else retry_decision_for h p x ''diagnose'' ''diagnose://unknown-failure'' 0 False False False None)
      else if fo_failure_class x = ''cost_boundary''
      then retry_decision_for h p x ''stop'' ''stop://cost-boundary'' 0 False False False None
      else if fo_failure_class x \<in> set human_boundary_classes
      then retry_decision_for h p x ''human_gate'' ''authority://human-decision'' 0 False False True (fo_boundary_detail x)
      else Inl (RetryAuthorityError ''failure class has no fail-closed disposition''))"

section \<open>The constructors\<close>

lemma retry_nonnegative_Inr [exc_simps]: "retry_nonnegative n v = Inr u \<longleftrightarrow> 0 \<le> v"
  by (auto simp: retry_nonnegative_def)

definition retry_policy_ok :: "retry_policy \<Rightarrow> bool" where
  "retry_policy_ok p \<longleftrightarrow> rp_schema_version p = ''ge.retry-policy.v1'' \<and> \<not> blank (rp_policy_id p) \<and> \<not> blank (rp_revision p) \<and>
     \<not> blank (rp_authority_ref p) \<and> digest_ok (rp_authority_digest p) \<and>
     0 \<le> rp_network_retry_limit p \<and> 0 \<le> rp_throttle_retry_limit p \<and> 1 \<le> rp_throttle_initial_backoff_seconds p \<and>
     rp_throttle_initial_backoff_seconds p \<le> rp_throttle_max_backoff_seconds p \<and> rp_unknown_reproduction_limit p = 1"

lemma retry_policy_init_eq [exc_simps]: "retry_policy_init p = Inr p' \<longleftrightarrow> p' = p \<and> retry_policy_ok p"
  by (auto simp: retry_policy_init_def retry_policy_ok_def exc_simps)

definition failure_observation_ok :: "failure_observation \<Rightarrow> bool" where
  "failure_observation_ok x \<longleftrightarrow> fo_schema_version x = ''ge.failure-observation.v1'' \<and> fo_failure_class x \<in> set failure_classes \<and>
     \<not> blank (fo_failure_code x) \<and> digest_ok (fo_evidence_digest x) \<and> 0 \<le> fo_automatic_retry_count x \<and>
     0 \<le> fo_independent_reproduction_count x \<and> pred_option (\<lambda>s. \<not> blank s) (fo_boundary_detail x) \<and>
     (fo_boundary_detail x \<noteq> None \<longleftrightarrow>
       fo_failure_class x \<in> {''cost_boundary'', ''security_boundary'', ''authority_boundary''})"

lemma failure_observation_init_eq [exc_simps]: "failure_observation_init x = Inr x' \<longleftrightarrow> x' = x \<and> failure_observation_ok x"
  by (auto simp: failure_observation_init_def failure_observation_ok_def human_boundary_classes_def exc_simps)

lemma retry_decision_init_same: "retry_decision_init d = Inr d' \<Longrightarrow> d' = d"
  by (auto simp: retry_decision_init_def retry_disposition_check_def exc_simps split: if_splits)

section \<open>Decisions are total and well formed\<close>

text \<open>What the policy grants for an observation: the budgets of the two retryable classes, one reproduction of an unknown failure.\<close>

definition retry_limit :: "retry_policy \<Rightarrow> string \<Rightarrow> int" where
  "retry_limit p c = (if c = ''network_timeout'' then rp_network_retry_limit p
     else if c = ''provider_throttled'' then rp_throttle_retry_limit p else 0)"

definition retry_granted :: "retry_policy \<Rightarrow> failure_observation \<Rightarrow> bool" where
  "retry_granted p x \<longleftrightarrow> fo_automatic_retry_count x < retry_limit p (fo_failure_class x)"

definition reproduction_granted :: "failure_observation \<Rightarrow> bool" where
  "reproduction_granted x \<longleftrightarrow> fo_failure_class x = ''unknown_failure'' \<and> fo_independent_reproduction_count x = 0"

definition retry_disposition :: "retry_policy \<Rightarrow> failure_observation \<Rightarrow> string" where
  "retry_disposition p x =
     (if retry_granted p x then ''retry'' else if reproduction_granted x then ''independent_reproduction''
      else if fo_failure_class x = ''cost_boundary'' then ''stop''
      else if fo_failure_class x \<in> set human_boundary_classes then ''human_gate'' else ''diagnose'')"

lemma throttle_delay_bounds:
  assumes "retry_policy_ok p"
  shows "rp_throttle_initial_backoff_seconds p \<le> throttle_delay p n"
    and "throttle_delay p n \<le> rp_throttle_max_backoff_seconds p"
    and "0 \<le> throttle_delay p n"
proof -
  have "rp_throttle_initial_backoff_seconds p * 1 \<le> rp_throttle_initial_backoff_seconds p * 2 ^ nat n"
    using assms by (intro mult_left_mono) (auto simp: retry_policy_ok_def)
  with assms show init: "rp_throttle_initial_backoff_seconds p \<le> throttle_delay p n"
    by (simp add: throttle_delay_def retry_policy_ok_def)
  show "throttle_delay p n \<le> rp_throttle_max_backoff_seconds p"
    by (simp add: throttle_delay_def)
  show "0 \<le> throttle_delay p n"
    using assms init by (simp add: retry_policy_ok_def)
qed

lemma throttle_delay_mono:
  assumes "retry_policy_ok p" and "m \<le> n"
  shows "throttle_delay p m \<le> throttle_delay p n"
proof -
  have "rp_throttle_initial_backoff_seconds p * 2 ^ nat m \<le> rp_throttle_initial_backoff_seconds p * 2 ^ nat n"
    using assms by (intro mult_left_mono power_increasing) (auto simp: retry_policy_ok_def)
  then show ?thesis by (simp add: throttle_delay_def min_le_iff_disj)
qed

text \<open>The fields of the decision that is made.\<close>

definition expected_decision :: "hash \<Rightarrow> retry_policy \<Rightarrow> failure_observation \<Rightarrow> retry_decision \<Rightarrow> bool" where
  "expected_decision h p x d \<longleftrightarrow> (let mechanical = retry_granted p x \<or> reproduction_granted x in
     rd_policy_digest d = retry_policy_digest h p \<and> rd_observation_digest d = failure_observation_digest h x \<and>
     rd_disposition d = retry_disposition p x \<and> rd_automatic_retry_authorized d = retry_granted p x \<and>
     rd_independent_reproduction_authorized d = reproduction_granted x \<and>
     rd_human_required d = (fo_failure_class x \<in> set human_boundary_classes) \<and>
     rd_authority_ref d = (if mechanical then Some (rp_authority_ref p) else None) \<and>
     rd_authority_digest d = (if mechanical then Some (rp_authority_digest p) else None) \<and>
     rd_authority_boundary d = (if fo_failure_class x \<in> set human_boundary_classes then fo_boundary_detail x else None) \<and>
     rd_delay_seconds d = (if retry_granted p x \<and> fo_failure_class x = ''provider_throttled''
       then throttle_delay p (fo_automatic_retry_count x) else 0) \<and> \<not> rd_transport_authority d)"

lemma retry_decision_for_ok:
  assumes "hex_digest h" and "retry_policy_ok p" and "disposition \<in> set retry_dispositions" and "\<not> blank action" and "0 \<le> delay"
    and "pred_option (\<lambda>s. \<not> blank s) boundary"
    and "disposition = ''retry'' \<Longrightarrow> retry \<and> \<not> reproduce \<and> \<not> human \<and> boundary = None"
    and "disposition = ''independent_reproduction'' \<Longrightarrow> reproduce \<and> \<not> retry \<and> \<not> human \<and> boundary = None \<and> delay = 0"
    and "disposition = ''diagnose'' \<or> disposition = ''stop'' \<Longrightarrow> \<not> reproduce \<and> \<not> retry \<and> \<not> human \<and> boundary = None \<and> delay = 0"
    and "disposition = ''human_gate'' \<Longrightarrow> \<not> reproduce \<and> \<not> retry \<and> human \<and> boundary \<noteq> None \<and> delay = 0"
  shows "\<exists>d. retry_decision_for h p x disposition action delay retry reproduce human boundary = Inr d \<and> retry_decision_init d = Inr d \<and>
     rd_policy_digest d = retry_policy_digest h p \<and> rd_observation_digest d = failure_observation_digest h x \<and>
     rd_disposition d = disposition \<and> rd_automatic_retry_authorized d = retry \<and>
     rd_independent_reproduction_authorized d = reproduce \<and> rd_human_required d = human \<and>
     rd_authority_ref d = (if retry \<or> reproduce then Some (rp_authority_ref p) else None) \<and>
     rd_authority_digest d = (if retry \<or> reproduce then Some (rp_authority_digest p) else None) \<and>
     rd_authority_boundary d = boundary \<and> rd_delay_seconds d = delay \<and> \<not> rd_transport_authority d"
proof -
  let ?d = "\<lparr>rd_policy_digest = retry_policy_digest h p, rd_observation_digest = failure_observation_digest h x,
        rd_disposition = disposition, rd_next_action_ref = action, rd_delay_seconds = delay,
        rd_automatic_retry_authorized = retry, rd_independent_reproduction_authorized = reproduce,
        rd_human_required = human,
        rd_authority_ref = (if retry \<or> reproduce then Some (rp_authority_ref p) else None),
        rd_authority_digest = (if retry \<or> reproduce then Some (rp_authority_digest p) else None),
        rd_authority_boundary = boundary, rd_transport_authority = False,
        rd_schema_version = ''ge.retry-decision.v1''\<rparr>"
  note [simp] = hex_digest.digest_ok_sha256 [OF assms(1)]
  consider "disposition = ''retry''" | "disposition = ''independent_reproduction''" | "disposition = ''diagnose''"
    | "disposition = ''stop''" | "disposition = ''human_gate''"
    using assms(3) unfolding retry_dispositions_def by (simp only: list.set insert_iff empty_iff) blast
  then have "retry_disposition_check ?d = Inr ?d"
  proof cases
    case 1 with assms(7) show ?thesis by (simp add: retry_disposition_check_def)
  next
    case 2 with assms(8) show ?thesis by (simp add: retry_disposition_check_def)
  next
    case 3 with assms(9) show ?thesis by (simp add: retry_disposition_check_def)
  next
    case 4 with assms(9) show ?thesis by (simp add: retry_disposition_check_def)
  next
    case 5 with assms(10) show ?thesis by (simp add: retry_disposition_check_def)
  qed
  then have "retry_decision_init ?d = Inr ?d"
    using assms(2-6) by (simp add: retry_decision_init_def exc_simps retry_policy_ok_def retry_policy_digest_def
        failure_observation_digest_def)
  then show ?thesis by (intro exI [of _ ?d]) (simp add: retry_decision_for_def)
qed


lemma failure_class_cases:
  assumes "failure_observation_ok x"
  obtains (network) "fo_failure_class x = ''network_timeout''" | (throttled) "fo_failure_class x = ''provider_throttled''"
    | (assertion) "fo_failure_class x = ''deterministic_assertion''" | (unknown) "fo_failure_class x = ''unknown_failure''"
    | (cost) "fo_failure_class x = ''cost_boundary''"
    | (human) "fo_failure_class x \<in> set human_boundary_classes" and "fo_boundary_detail x \<noteq> None"
proof -
  have "fo_failure_class x \<in> set failure_classes"
    and "fo_failure_class x \<in> set human_boundary_classes \<Longrightarrow> fo_boundary_detail x \<noteq> None"
    using assms by (auto simp: failure_observation_ok_def human_boundary_classes_def)
  with that show thesis
    unfolding failure_classes_def human_boundary_classes_def by (simp only: list.set insert_iff empty_iff) blast
qed

text \<open>Every branch of the decision is the table's entry, with some next action.\<close>

lemma decide_retry_table:
  assumes p: "retry_policy_ok p" and x: "failure_observation_ok x"
  shows "\<exists>action. \<not> blank action \<and> decide_retry h p x = retry_decision_for h p x (retry_disposition p x) action
     (if retry_granted p x \<and> fo_failure_class x = ''provider_throttled'' then throttle_delay p (fo_automatic_retry_count x) else 0)
     (retry_granted p x) (reproduction_granted x) (fo_failure_class x \<in> set human_boundary_classes)
     (if fo_failure_class x \<in> set human_boundary_classes then fo_boundary_detail x else None)"
proof -
  have counts: "\<not> fo_automatic_retry_count x < 0" "fo_independent_reproduction_count x < rp_unknown_reproduction_limit p \<longleftrightarrow>
      fo_independent_reproduction_count x = 0"
    using p x by (auto simp: failure_observation_ok_def retry_policy_ok_def)
  note spec = decide_retry_def retry_disposition_def retry_granted_def retry_limit_def reproduction_granted_def human_boundary_classes_def counts
  from x show ?thesis
  proof (cases rule: failure_class_cases)
    case network
    then show ?thesis
      by (intro exI [of _ "if retry_granted p x then ''retry://network-timeout'' else ''diagnose://network-retry-budget-exhausted''"])
        (simp add: spec blank_iff is_space_def)
  next
    case throttled
    then show ?thesis
      by (intro exI [of _ "if retry_granted p x then ''retry://provider-throttled'' else ''diagnose://throttle-retry-budget-exhausted''"])
        (simp add: spec blank_iff is_space_def)
  next
    case assertion
    then show ?thesis
      by (intro exI [of _ "''diagnose://deterministic-assertion''"]) (simp add: spec blank_iff is_space_def)
  next
    case unknown
    then show ?thesis
      by (intro exI [of _ "if reproduction_granted x then ''reproduce://unknown-failure'' else ''diagnose://unknown-failure''"])
        (simp add: spec blank_iff is_space_def)
  next
    case cost
    then show ?thesis
      by (intro exI [of _ "''stop://cost-boundary''"]) (simp add: spec blank_iff is_space_def)
  next
    case human
    then have "fo_failure_class x = ''security_boundary'' \<or> fo_failure_class x = ''authority_boundary''"
      by (simp add: human_boundary_classes_def)
    then show ?thesis
      by (intro exI [of _ "''authority://human-decision''"], elim disjE) (simp_all add: spec blank_iff is_space_def)
  qed
qed

lemma retry_granted_class: "failure_observation_ok x \<Longrightarrow> retry_granted p x \<Longrightarrow>
   fo_failure_class x = ''network_timeout'' \<or> fo_failure_class x = ''provider_throttled''"
  by (auto simp: retry_granted_def retry_limit_def failure_observation_ok_def split: if_splits)

lemma decide_retry_decision:
  assumes h: "hex_digest h" and p: "retry_policy_ok p" and x: "failure_observation_ok x"
  shows "\<exists>d. decide_retry h p x = Inr d \<and> retry_decision_init d = Inr d \<and> expected_decision h p x d"
proof -
  let ?human = "fo_failure_class x \<in> set human_boundary_classes"
  have detail: "pred_option (\<lambda>s. \<not> blank s) (fo_boundary_detail x)" and boundary: "?human \<Longrightarrow> fo_boundary_detail x \<noteq> None"
    using x by (auto simp: failure_observation_ok_def human_boundary_classes_def)
  have apart: "\<not> (retry_granted p x \<and> ?human)" "\<not> (reproduction_granted x \<and> ?human)" "\<not> (retry_granted p x \<and> reproduction_granted x)"
    using retry_granted_class [OF x] by (auto simp: reproduction_granted_def human_boundary_classes_def)
  have stop: "fo_failure_class x = ''cost_boundary'' \<Longrightarrow> \<not> ?human"
    by (simp add: human_boundary_classes_def)
  obtain action where action: "\<not> blank action" and eq: "decide_retry h p x = retry_decision_for h p x (retry_disposition p x) action
     (if retry_granted p x \<and> fo_failure_class x = ''provider_throttled'' then throttle_delay p (fo_automatic_retry_count x) else 0)
     (retry_granted p x) (reproduction_granted x) ?human (if ?human then fo_boundary_detail x else None)"
    using decide_retry_table [OF p x] by blast
  let ?D = "retry_disposition p x" and ?R = "retry_granted p x" and ?P = "reproduction_granted x"
    and ?B = "if ?human then fo_boundary_detail x else None"
    and ?delay = "if retry_granted p x \<and> fo_failure_class x = ''provider_throttled'' then throttle_delay p (fo_automatic_retry_count x) else 0"
  have "?D \<in> set retry_dispositions" "0 \<le> ?delay" "pred_option (\<lambda>s. \<not> blank s) ?B"
    using throttle_delay_bounds(3) [OF p] detail by (simp_all add: retry_disposition_def retry_dispositions_def)
  moreover have "?D = ''retry'' \<Longrightarrow> ?R \<and> \<not> ?P \<and> \<not> ?human \<and> ?B = None"
    "?D = ''independent_reproduction'' \<Longrightarrow> ?P \<and> \<not> ?R \<and> \<not> ?human \<and> ?B = None \<and> ?delay = 0"
    "?D = ''diagnose'' \<or> ?D = ''stop'' \<Longrightarrow> \<not> ?P \<and> \<not> ?R \<and> \<not> ?human \<and> ?B = None \<and> ?delay = 0"
    "?D = ''human_gate'' \<Longrightarrow> \<not> ?P \<and> \<not> ?R \<and> ?human \<and> ?B \<noteq> None \<and> ?delay = 0"
    using apart stop boundary by (simp_all add: retry_disposition_def split: if_splits)
  ultimately have "\<exists>d. decide_retry h p x = Inr d \<and> retry_decision_init d = Inr d \<and>
     rd_policy_digest d = retry_policy_digest h p \<and> rd_observation_digest d = failure_observation_digest h x \<and>
     rd_disposition d = ?D \<and> rd_automatic_retry_authorized d = ?R \<and> rd_independent_reproduction_authorized d = ?P \<and>
     rd_human_required d = ?human \<and> rd_authority_ref d = (if ?R \<or> ?P then Some (rp_authority_ref p) else None) \<and>
     rd_authority_digest d = (if ?R \<or> ?P then Some (rp_authority_digest p) else None) \<and>
     rd_authority_boundary d = ?B \<and> rd_delay_seconds d = ?delay \<and> \<not> rd_transport_authority d"
    unfolding eq using action by (intro retry_decision_for_ok [OF h p])
  then show ?thesis by (simp only: expected_decision_def Let_def)
qed

section \<open>The properties\<close>

definition ex_retry_policy :: retry_policy where
  "ex_retry_policy = \<lparr>rp_policy_id = ''p'', rp_revision = ''r'', rp_authority_ref = ''authority://p'',
     rp_authority_digest = sha256_digest zero_hash PNone, rp_network_retry_limit = 2, rp_throttle_retry_limit = 3,
     rp_throttle_initial_backoff_seconds = 5, rp_throttle_max_backoff_seconds = 15, rp_unknown_reproduction_limit = 1,
     rp_schema_version = ''ge.retry-policy.v1''\<rparr>"

definition ex_throttled :: failure_observation where
  "ex_throttled = \<lparr>fo_failure_class = ''provider_throttled'', fo_failure_code = ''429'',
     fo_evidence_digest = sha256_digest zero_hash PNone, fo_automatic_retry_count = 2, fo_independent_reproduction_count = 0,
     fo_boundary_detail = None, fo_schema_version = ''ge.failure-observation.v1''\<rparr>"

lemma ex_retry_ok: "retry_policy_init ex_retry_policy = Inr ex_retry_policy" "failure_observation_init ex_throttled = Inr ex_throttled"
  using hex_digest.digest_ok_sha256 [OF zero_hash]
  by (simp_all add: exc_simps retry_policy_ok_def failure_observation_ok_def ex_retry_policy_def ex_throttled_def
      failure_classes_def blank_iff is_space_def)

text \<open>C21: For every policy and observation their constructors accept, \<open>decide_retry\<close> returns a decision its constructor
  accepts: an automatic retry exactly while the count is below the limit of the failure's class, one reproduction of an
  unknown failure, a human gate (with the boundary) exactly for security and authority boundaries, a stop for a cost
  boundary, and a diagnosis otherwise; the policy's authority is attached to retries and reproductions only, and
  transport authority never.\<close>

theorem retry_is_decided:
  assumes "hex_digest h" and "retry_policy_init p = Inr p" and "failure_observation_init x = Inr x"
  shows "\<exists>d. decide_retry h p x = Inr d \<and> retry_decision_init d = Inr d \<and> expected_decision h p x d"
  using assms by (intro decide_retry_decision) (simp_all add: retry_policy_init_eq failure_observation_init_eq)

theorem retry_is_decided_witness: "\<exists>d. decide_retry zero_hash ex_retry_policy ex_throttled = Inr d \<and> rd_disposition d = ''retry''"
proof -
  have "retry_disposition ex_retry_policy ex_throttled = ''retry''"
    by (simp add: retry_disposition_def retry_granted_def retry_limit_def ex_retry_policy_def ex_throttled_def)
  then show ?thesis
    using retry_is_decided [OF zero_hash ex_retry_ok] by (auto simp: expected_decision_def Let_def)
qed

text \<open>C22: The delay before an automatic retry stays between the policy's first backoff and its maximum when the provider
  throttles, and is zero otherwise; it never shrinks from one attempt to the next. The attempt counts at which an automatic
  retry is granted are exactly those below the policy's limit for network timeouts, respectively for throttling, and there
  are none for any other failure class; so a failure that repeats is retried finitely often, and automatic retry is
  authorised exactly by the disposition to retry.\<close>

theorem retry_is_bounded:
  assumes "hex_digest h" and "retry_policy_init p = Inr p" and "failure_observation_init x = Inr x"
    and "decide_retry h p x = Inr d"
  shows "(if rd_disposition d = ''retry'' \<and> fo_failure_class x = ''provider_throttled''
       then rp_throttle_initial_backoff_seconds p \<le> rd_delay_seconds d \<and> rd_delay_seconds d \<le> rp_throttle_max_backoff_seconds p
       else rd_delay_seconds d = 0) \<and>
     (\<forall>e. fo_automatic_retry_count x \<le> n \<and> decide_retry h p (x\<lparr>fo_automatic_retry_count := n\<rparr>) = Inr e \<and>
       rd_disposition e = ''retry'' \<longrightarrow> rd_delay_seconds d \<le> rd_delay_seconds e) \<and>
     {n::nat. \<exists>e. decide_retry h p (x\<lparr>fo_automatic_retry_count := int n\<rparr>) = Inr e \<and> rd_automatic_retry_authorized e} =
       {..<nat (if fo_failure_class x = ''network_timeout'' then rp_network_retry_limit p
          else if fo_failure_class x = ''provider_throttled'' then rp_throttle_retry_limit p else 0)} \<and>
     (\<forall>n e. 0 \<le> n \<and> decide_retry h p (x\<lparr>fo_automatic_retry_count := n\<rparr>) = Inr e \<longrightarrow>
       (rd_automatic_retry_authorized e \<longleftrightarrow> rd_disposition e = ''retry''))"
proof -
  have p: "retry_policy_ok p" and x: "failure_observation_ok x"
    using assms by (simp_all add: retry_policy_init_eq failure_observation_init_eq)
  have later: "failure_observation_ok (x\<lparr>fo_automatic_retry_count := n\<rparr>)" if "0 \<le> n" for n
    using x that by (simp add: failure_observation_ok_def)
  have decided: "decide_retry h p y = Inr e \<Longrightarrow> expected_decision h p y e" if "failure_observation_ok y" for y e
    using decide_retry_decision [OF assms(1) p that] by auto
  have d: "expected_decision h p x d" using decided [OF x assms(4)] .
  have retry: "rd_disposition e = ''retry'' \<longleftrightarrow> retry_granted p y" if "expected_decision h p y e" for y e
    using that by (auto simp: expected_decision_def Let_def retry_disposition_def)
  have delay: "rd_delay_seconds e = (if retry_granted p y \<and> fo_failure_class y = ''provider_throttled''
      then throttle_delay p (fo_automatic_retry_count y) else 0)" if "expected_decision h p y e" for y e
    using that by (simp add: expected_decision_def Let_def)
  have one: "if rd_disposition d = ''retry'' \<and> fo_failure_class x = ''provider_throttled''
       then rp_throttle_initial_backoff_seconds p \<le> rd_delay_seconds d \<and> rd_delay_seconds d \<le> rp_throttle_max_backoff_seconds p
       else rd_delay_seconds d = 0"
    using throttle_delay_bounds [OF p] by (simp add: retry [OF d] delay [OF d])
  have two: "rd_delay_seconds d \<le> rd_delay_seconds e"
    if "fo_automatic_retry_count x \<le> n" "decide_retry h p (x\<lparr>fo_automatic_retry_count := n\<rparr>) = Inr e" "rd_disposition e = ''retry''" for e
  proof -
    have "0 \<le> n" using that(1) x by (simp add: failure_observation_ok_def)
    then have e: "expected_decision h p (x\<lparr>fo_automatic_retry_count := n\<rparr>) e" using decided later that(2) by blast
    with that(3) have "retry_granted p (x\<lparr>fo_automatic_retry_count := n\<rparr>)" using retry by blast
    then show ?thesis
      using throttle_delay_mono [OF p that(1)] throttle_delay_bounds(3) [OF p] by (simp add: delay [OF d] delay [OF e])
  qed
  have granted: "(\<exists>e. decide_retry h p (x\<lparr>fo_automatic_retry_count := int n\<rparr>) = Inr e \<and> rd_automatic_retry_authorized e) \<longleftrightarrow>
      int n < retry_limit p (fo_failure_class x)" for n
    using decide_retry_decision [OF assms(1) p later [of "int n"]]
    by (auto simp: expected_decision_def Let_def retry_granted_def)
  have three: "{n::nat. \<exists>e. decide_retry h p (x\<lparr>fo_automatic_retry_count := int n\<rparr>) = Inr e \<and> rd_automatic_retry_authorized e} =
       {..<nat (if fo_failure_class x = ''network_timeout'' then rp_network_retry_limit p
          else if fo_failure_class x = ''provider_throttled'' then rp_throttle_retry_limit p else 0)}"
    unfolding granted retry_limit_def by auto
  have four: "rd_automatic_retry_authorized e \<longleftrightarrow> rd_disposition e = ''retry''"
    if "0 \<le> n" "decide_retry h p (x\<lparr>fo_automatic_retry_count := n\<rparr>) = Inr e" for n e
    using decided [OF later [OF that(1)] that(2)] retry [of "x\<lparr>fo_automatic_retry_count := n\<rparr>" e]
    by (simp add: expected_decision_def Let_def)
  show ?thesis using one two three four by blast
qed

theorem retry_is_bounded_witness:
  "\<exists>d. decide_retry zero_hash ex_retry_policy ex_throttled = Inr d \<and> rd_delay_seconds d = 15 \<and>
    {n::nat. \<exists>e. decide_retry zero_hash ex_retry_policy (ex_throttled\<lparr>fo_automatic_retry_count := int n\<rparr>) = Inr e \<and>
      rd_automatic_retry_authorized e} = {..<3}"
proof -
  obtain d where d: "decide_retry zero_hash ex_retry_policy ex_throttled = Inr d" "expected_decision zero_hash ex_retry_policy ex_throttled d"
    using decide_retry_decision [OF zero_hash, of ex_retry_policy ex_throttled] ex_retry_ok
    by (auto simp: retry_policy_init_eq failure_observation_init_eq)
  have "rd_delay_seconds d = 15"
    using d(2) by (simp add: expected_decision_def Let_def retry_granted_def retry_limit_def throttle_delay_def
        ex_retry_policy_def ex_throttled_def)
  moreover have "fo_failure_class ex_throttled = ''provider_throttled''" "rp_throttle_retry_limit ex_retry_policy = 3"
    by (simp_all add: ex_retry_policy_def ex_throttled_def)
  ultimately show ?thesis
    using retry_is_bounded [OF zero_hash ex_retry_ok d(1)] d(1) by simp
qed

end
