(* ===== verification/Transition_Policy.thy ===== *)
theory Transition_Policy
  imports Field_Checks
begin

text \<open>
  Transition policies (\<open>transition_policy.py\<close>): a finite table of rules, one per state and event, that
  says where a work item goes, what else happens, and which authority is needed. A constructor is given
  the keyword values as they come (\<open>X_init\<close>, on the items of a dictionary), because the reader passes it
  whatever the JSON text held; \<open>X_new\<close> calls it on the values of a record.
  The lemmas show what a valid rule and policy satisfy, that matching is a partial function that fails
  closed, and that stored policies are read back exactly.
\<close>

section \<open>Rules\<close>

definition transition_states :: "string list" where
  "transition_states = [''ready'', ''running'', ''verifying'', ''complete'', ''waiting_external'', ''rework'', ''di_required'',
     ''human_gate'', ''failed'', ''passive'']"

definition transition_events :: "string list" where
  "transition_events = [''execution_started'', ''execution_completed'', ''verification_passed'', ''verification_failed'',
     ''external_blocker'', ''diagnosis_required'', ''authority_required'', ''wake_satisfied'', ''fatal_failure'']"

definition transition_effects :: "string list" where
  "transition_effects = [''none'', ''promote_secondary'', ''park_active'', ''wake_passive'', ''request_di'', ''stop_human_gate'']"

definition authority_modes :: "string list" where
  "authority_modes = [''none'', ''preauthorized_required'', ''human_required'']"

record transition_rule =
  tr_rule_id :: string
  tr_from_state :: string
  tr_event :: string
  tr_to_state :: string
  tr_next_action_ref :: string
  tr_effect :: string
  tr_required_evidence :: "string list"
  tr_authority_mode :: string
  tr_authority_boundary :: "string option"
  tr_schema_version :: string

definition transition_rule_py :: "transition_rule \<Rightarrow> pyval" where
  "transition_rule_py x = PDict [
    (''rule_id'', PStr (tr_rule_id x)),
    (''from_state'', PStr (tr_from_state x)),
    (''event'', PStr (tr_event x)),
    (''to_state'', PStr (tr_to_state x)),
    (''next_action_ref'', PStr (tr_next_action_ref x)),
    (''effect'', PStr (tr_effect x)),
    (''required_evidence'', py_strs (tr_required_evidence x)),
    (''authority_mode'', PStr (tr_authority_mode x)),
    (''authority_boundary'', py_opt PStr (tr_authority_boundary x)),
    (''schema_version'', PStr (tr_schema_version x))]"

interpretation transition_rule: encoding transition_rule_py
proof unfold_locales
  show "wf_py (transition_rule_py x)" for x
    by (simp add: transition_rule_py_def)
  show "normalize (transition_rule_py x) = normalize (transition_rule_py y) \<longleftrightarrow> x = y" for x y
    by (cases x; cases y) (simp add: transition_rule_py_def normalize_dict_inject)
qed

lemmas transition_rule_list [simp] = transition_rule.list_wf transition_rule.list_inject

definition transition_rule_digest :: "hash \<Rightarrow> transition_rule \<Rightarrow> string" where
  "transition_rule_digest h r = sha256_digest h (transition_rule_py r)"

definition match_key :: "transition_rule \<Rightarrow> string \<times> string" where
  "match_key r = (tr_from_state r, tr_event r)"

text \<open>The conditions that relate the fields of a rule.\<close>

definition transition_rule_check :: "transition_rule \<Rightarrow> transition_rule exc" where
  "transition_rule_check r =
     (if tr_authority_mode r = ''none'' \<and> tr_authority_boundary r \<noteq> None
      then Inl (TransitionPolicyError ''authority_boundary requires an authority mode'')
      else if tr_authority_mode r \<in> {''preauthorized_required'', ''human_required''} \<and> tr_authority_boundary r = None
      then Inl (TransitionPolicyError ''authority mode requires authority_boundary'')
      else if tr_authority_mode r = ''human_required'' \<and> tr_to_state r \<noteq> ''human_gate''
      then Inl (TransitionPolicyError ''human_required rule must transition to human_gate'')
      else if tr_authority_mode r = ''human_required'' \<and> tr_effect r \<noteq> ''stop_human_gate''
      then Inl (TransitionPolicyError ''human_required rule must use stop_human_gate effect'')
      else if tr_from_state r = ''human_gate'' \<and> tr_authority_mode r \<noteq> ''preauthorized_required''
      then Inl (TransitionPolicyError ''transitions from human_gate require preauthorized authority'')
      else if tr_effect r = ''promote_secondary'' \<and> (tr_event r \<noteq> ''verification_passed'' \<or> tr_to_state r \<noteq> ''complete'')
      then Inl (TransitionPolicyError ''promote_secondary requires verification_passed -> complete'')
      else if tr_effect r = ''park_active'' \<and> (tr_event r \<noteq> ''external_blocker'' \<or> tr_to_state r \<noteq> ''passive'')
      then Inl (TransitionPolicyError ''park_active requires external_blocker -> passive'')
      else if tr_effect r = ''wake_passive'' \<and> (tr_from_state r \<noteq> ''passive'' \<or> tr_event r \<noteq> ''wake_satisfied'')
      then Inl (TransitionPolicyError ''wake_passive requires passive + wake_satisfied'')
      else if tr_effect r = ''wake_passive'' \<and> tr_to_state r \<noteq> ''ready''
      then Inl (TransitionPolicyError ''wake_passive must transition to ready'')
      else if tr_effect r = ''request_di'' \<and> tr_to_state r \<noteq> ''di_required''
      then Inl (TransitionPolicyError ''request_di must transition to di_required'')
      else if tr_effect r = ''stop_human_gate'' \<and> tr_authority_mode r \<noteq> ''human_required''
      then Inl (TransitionPolicyError ''stop_human_gate requires human_required authority mode'')
      else Inr r)"

text \<open>\<open>from_state not in VALID_STATES or to_state not in VALID_STATES\<close> evaluates the second test only if the first is false.\<close>

definition transition_rule_init :: "(string \<times> pyval) list \<Rightarrow> transition_rule exc" where
  "transition_rule_init kvs =
     ebind (schema_field (TransitionPolicyError ''unsupported transition rule schema'') ''ge.transition-rule.v1''
       (kw kvs ''schema_version'' PNone)) (\<lambda>v_schema.
     ebind (nonempty_field TransitionPolicyError ''rule_id'' (kw kvs ''rule_id'' PNone)) (\<lambda>v_id.
     ebind (nonempty_field TransitionPolicyError ''next_action_ref'' (kw kvs ''next_action_ref'' PNone)) (\<lambda>v_action.
     ebind (choice_field (TransitionPolicyError ''unsupported transition state'') transition_states (kw kvs ''from_state'' PNone)) (\<lambda>v_from.
     ebind (choice_field (TransitionPolicyError ''unsupported transition state'') transition_states (kw kvs ''to_state'' PNone)) (\<lambda>v_to.
     ebind (choice_field (TransitionPolicyError ''unsupported transition event'') transition_events (kw kvs ''event'' PNone)) (\<lambda>v_event.
     ebind (choice_field (TransitionPolicyError ''unsupported transition effect'') transition_effects (kw kvs ''effect'' PNone)) (\<lambda>v_effect.
     ebind (choice_field (TransitionPolicyError ''unsupported authority mode'') authority_modes (kw kvs ''authority_mode'' PNone)) (\<lambda>v_mode.
     ebind (unique_field TransitionPolicyError ''required_evidence'' (kw kvs ''required_evidence'' PNone)) (\<lambda>v_evidence.
     ebind (optional_field TransitionPolicyError ''authority_boundary'' (kw kvs ''authority_boundary'' PNone)) (\<lambda>v_boundary.
     transition_rule_check
       \<lparr>tr_rule_id = v_id, tr_from_state = v_from, tr_event = v_event, tr_to_state = v_to, tr_next_action_ref = v_action,
        tr_effect = v_effect, tr_required_evidence = v_evidence, tr_authority_mode = v_mode,
        tr_authority_boundary = v_boundary, tr_schema_version = v_schema\<rparr>))))))))))"

definition transition_rule_new :: "transition_rule \<Rightarrow> transition_rule exc" where
  "transition_rule_new r = transition_rule_init (py_items (transition_rule_py r))"

section \<open>Policies\<close>

record transition_policy =
  tp_policy_id :: string
  tp_revision :: string
  tp_rules :: "transition_rule list"
  tp_default_disposition :: string
  tp_schema_version :: string

definition transition_policy_py :: "transition_policy \<Rightarrow> pyval" where
  "transition_policy_py x = PDict [
    (''policy_id'', PStr (tp_policy_id x)),
    (''revision'', PStr (tp_revision x)),
    (''rules'', PTuple (map transition_rule_py (tp_rules x))),
    (''default_disposition'', PStr (tp_default_disposition x)),
    (''schema_version'', PStr (tp_schema_version x))]"

interpretation transition_policy: encoding transition_policy_py
proof unfold_locales
  show "wf_py (transition_policy_py x)" for x
    by (simp add: transition_policy_py_def)
  show "normalize (transition_policy_py x) = normalize (transition_policy_py y) \<longleftrightarrow> x = y" for x y
    by (cases x; cases y) (simp add: transition_policy_py_def normalize_dict_inject)
qed

definition transition_policy_digest :: "hash \<Rightarrow> transition_policy \<Rightarrow> string" where
  "transition_policy_digest h p = sha256_digest h (transition_policy_py p)"

text \<open>The rules are given as the objects they already are.\<close>

definition transition_policy_init :: "(string \<times> pyval) list \<Rightarrow> transition_rule list \<Rightarrow> transition_policy exc" where
  "transition_policy_init kvs rules =
     ebind (schema_field (TransitionPolicyError ''unsupported transition policy schema'') ''ge.transition-policy.v1''
       (kw kvs ''schema_version'' PNone)) (\<lambda>v_schema.
     ebind (nonempty_field TransitionPolicyError ''policy_id'' (kw kvs ''policy_id'' PNone)) (\<lambda>v_id.
     ebind (nonempty_field TransitionPolicyError ''revision'' (kw kvs ''revision'' PNone)) (\<lambda>v_revision.
     ebind (schema_field (TransitionPolicyError ''transition policy must fail closed with stop'') ''stop''
       (kw kvs ''default_disposition'' PNone)) (\<lambda>v_default.
     if rules = [] then Inl (TransitionPolicyError ''transition policy requires at least one rule'')
     else if length (map tr_rule_id rules) \<noteq> length (remdups (map tr_rule_id rules))
     then Inl (TransitionPolicyError ''transition rule_id values must be unique'')
     else if map tr_rule_id rules \<noteq> sort (map tr_rule_id rules)
     then Inl (TransitionPolicyError ''transition rules must be sorted by rule_id for canonical policy'')
     else if length (map match_key rules) \<noteq> length (remdups (map match_key rules))
     then Inl (TransitionPolicyError ''transition policy cannot contain ambiguous state/event matches'')
     else Inr \<lparr>tp_policy_id = v_id, tp_revision = v_revision, tp_rules = rules, tp_default_disposition = v_default,
       tp_schema_version = v_schema\<rparr>))))"

definition transition_policy_new :: "transition_policy \<Rightarrow> transition_policy exc" where
  "transition_policy_new p = transition_policy_init (py_items (transition_policy_py p)) (tp_rules p)"

section \<open>Reading and writing\<close>

definition serialize_transition_policy :: "transition_policy \<Rightarrow> string" where
  "serialize_transition_policy p = canonical_json (transition_policy_py p)"

definition transition_policy_to_dict :: "transition_policy \<Rightarrow> pyval option" where
  "transition_policy_to_dict p = json_loads (canonical_json (transition_policy_py p))"

definition rule_from_dict :: "pyval \<Rightarrow> transition_rule exc" where
  "rule_from_dict d =
     ebind (exact_fields TransitionPolicyError ''transition rule'' [''rule_id'', ''from_state'', ''event'', ''to_state'',
       ''next_action_ref'', ''effect'', ''required_evidence'', ''authority_mode'', ''authority_boundary'', ''schema_version''] d) (\<lambda>kvs.
     ebind (list_field (TransitionPolicyError ''required_evidence must be a list'') (kw kvs ''required_evidence'' PNone)) (\<lambda>_.
     rethrow is_type_or_key_error (TransitionPolicyError ''invalid transition rule'') (transition_rule_init kvs)))"

definition transition_policy_from_dict :: "pyval \<Rightarrow> transition_policy exc" where
  "transition_policy_from_dict d =
     ebind (exact_fields TransitionPolicyError ''transition policy''
       [''policy_id'', ''revision'', ''rules'', ''default_disposition'', ''schema_version''] d) (\<lambda>kvs.
     ebind (list_field (TransitionPolicyError ''rules must be a list'') (kw kvs ''rules'' PNone)) (\<lambda>items.
     rethrow is_type_or_key_error (TransitionPolicyError ''invalid transition policy'')
       (ebind (emap rule_from_dict items) (transition_policy_init kvs))))"

definition deserialize_transition_policy :: "string \<Rightarrow> transition_policy exc" where
  "deserialize_transition_policy payload = (case json_loads payload of
       None \<Rightarrow> Inl (TransitionPolicyError ''transition policy is not valid JSON'')
     | Some d \<Rightarrow> transition_policy_from_dict d)"

section \<open>Matching\<close>

definition match_transition_rule :: "transition_policy \<Rightarrow> string \<Rightarrow> string \<Rightarrow> transition_rule exc" where
  "match_transition_rule p current event =
     (if current \<notin> set transition_states then Inl (TransitionPolicyError ''unsupported current state'')
      else if event \<notin> set transition_events then Inl (TransitionPolicyError ''unsupported transition event'')
      else case filter (\<lambda>r. tr_from_state r = current \<and> tr_event r = event) (tp_rules p) of
        [r] \<Rightarrow> Inr r
      | _ \<Rightarrow> Inl (TransitionPolicyError ''no unique admissible transition; default disposition is stop''))"

section \<open>Valid rules and policies\<close>

definition transition_rule_ok :: "transition_rule \<Rightarrow> bool" where
  "transition_rule_ok r \<longleftrightarrow> tr_schema_version r = ''ge.transition-rule.v1'' \<and> \<not> blank (tr_rule_id r) \<and> \<not> blank (tr_next_action_ref r) \<and>
     tr_from_state r \<in> set transition_states \<and> tr_to_state r \<in> set transition_states \<and> tr_event r \<in> set transition_events \<and>
     tr_effect r \<in> set transition_effects \<and> tr_authority_mode r \<in> set authority_modes \<and>
     (\<forall>s\<in>set (tr_required_evidence r). \<not> blank s) \<and> distinct (tr_required_evidence r) \<and>
     pred_option (\<lambda>s. \<not> blank s) (tr_authority_boundary r) \<and> transition_rule_check r = Inr r"

lemma transition_rule_check_same: "transition_rule_check r = Inr r' \<Longrightarrow> r' = r"
  unfolding transition_rule_check_def raise_unless_eq by simp

text \<open>The keyword values are those of a record.\<close>

definition transition_rule_kwargs :: "(string \<times> pyval) list \<Rightarrow> transition_rule \<Rightarrow> bool" where
  "transition_rule_kwargs kvs x \<longleftrightarrow>
     kw kvs ''rule_id'' PNone = PStr (tr_rule_id x) \<and>
     kw kvs ''from_state'' PNone = PStr (tr_from_state x) \<and>
     kw kvs ''event'' PNone = PStr (tr_event x) \<and>
     kw kvs ''to_state'' PNone = PStr (tr_to_state x) \<and>
     kw kvs ''next_action_ref'' PNone = PStr (tr_next_action_ref x) \<and>
     kw kvs ''effect'' PNone = PStr (tr_effect x) \<and>
     tuple_items (kw kvs ''required_evidence'' PNone) = map PStr (tr_required_evidence x) \<and>
     kw kvs ''authority_mode'' PNone = PStr (tr_authority_mode x) \<and>
     kw kvs ''authority_boundary'' PNone = py_opt PStr (tr_authority_boundary x) \<and>
     kw kvs ''schema_version'' PNone = PStr (tr_schema_version x)"

lemma transition_rule_init_Inr [exc_simps]:
  "transition_rule_init kvs = Inr r \<longleftrightarrow> transition_rule_ok r \<and> transition_rule_kwargs kvs r"
proof
  assume "transition_rule_init kvs = Inr r"
  then show "transition_rule_ok r \<and> transition_rule_kwargs kvs r"
    unfolding transition_rule_init_def transition_rule_kwargs_def
    by (simp only: exc_simps) (elim exE conjE, frule transition_rule_check_same, simp add: transition_rule_ok_def)
next
  assume "transition_rule_ok r \<and> transition_rule_kwargs kvs r"
  then show "transition_rule_init kvs = Inr r"
    by (cases r) (simp add: transition_rule_init_def exc_simps transition_rule_ok_def transition_rule_kwargs_def)
qed

lemma transition_rule_kwargs_items [simp]:
  "transition_rule_kwargs (py_items (transition_rule_py r)) r" "transition_rule_kwargs (py_items (normalize (transition_rule_py r))) r"
  by (simp_all add: transition_rule_kwargs_def transition_rule_py_def normalize_PDict) (simp add: kw_def)

lemma transition_rule_kwargs_unique: "transition_rule_kwargs kvs r \<Longrightarrow> transition_rule_kwargs kvs r' \<Longrightarrow> r = r'"
  by (cases r; cases r') (simp add: transition_rule_kwargs_def)

lemma transition_rule_new_eq [exc_simps]: "transition_rule_new r = Inr r' \<longleftrightarrow> r' = r \<and> transition_rule_ok r"
  unfolding transition_rule_new_def transition_rule_init_Inr
  using transition_rule_kwargs_unique [OF transition_rule_kwargs_items(1)] transition_rule_kwargs_items(1) by blast

interpretation transition_rule_reader: sound_codec transition_rule_py rule_from_dict transition_rule_ok
proof unfold_locales
  show "rule_from_dict (normalize (transition_rule_py r)) = Inr r" if "transition_rule_ok r" for r
    using that transition_rule_kwargs_items(2) [of r]
    by (simp add: rule_from_dict_def exc_simps transition_rule_py_def normalize_PDict set_normal_items)
  show "transition_rule_ok r" if "rule_from_dict d = Inr r" for d r
    using that by (auto simp: rule_from_dict_def exc_simps)
qed

definition transition_policy_ok :: "transition_policy \<Rightarrow> bool" where
  "transition_policy_ok p \<longleftrightarrow> tp_schema_version p = ''ge.transition-policy.v1'' \<and> \<not> blank (tp_policy_id p) \<and> \<not> blank (tp_revision p) \<and>
     tp_default_disposition p = ''stop'' \<and> tp_rules p \<noteq> [] \<and> sorted_wrt (<) (map tr_rule_id (tp_rules p)) \<and>
     distinct (map match_key (tp_rules p))"

definition valid_policy :: "transition_policy \<Rightarrow> bool" where
  "valid_policy p \<longleftrightarrow> transition_policy_ok p \<and> list_all transition_rule_ok (tp_rules p)"

definition transition_policy_kwargs :: "(string \<times> pyval) list \<Rightarrow> transition_policy \<Rightarrow> bool" where
  "transition_policy_kwargs kvs x \<longleftrightarrow>
     kw kvs ''policy_id'' PNone = PStr (tp_policy_id x) \<and>
     kw kvs ''revision'' PNone = PStr (tp_revision x) \<and>
     kw kvs ''default_disposition'' PNone = PStr (tp_default_disposition x) \<and>
     kw kvs ''schema_version'' PNone = PStr (tp_schema_version x)"

lemma eq_sort_iff: "xs = sort xs \<longleftrightarrow> sorted xs"
  by (metis sorted_sort sorted_sort_id)

lemma transition_policy_init_Inr [exc_simps]:
  "transition_policy_init kvs rules = Inr p \<longleftrightarrow> transition_policy_ok p \<and> transition_policy_kwargs kvs p \<and> tp_rules p = rules"
proof -
  have "map tr_rule_id rules = sort (map tr_rule_id rules) \<and> distinct (map tr_rule_id rules) \<longleftrightarrow> sorted_wrt (<) (map tr_rule_id rules)"
    unfolding eq_sort_iff by (simp only: strict_sorted_iff)
  then show ?thesis
    unfolding transition_policy_init_def transition_policy_ok_def transition_policy_kwargs_def
    using length_remdups_eq [of "map tr_rule_id rules"] length_remdups_eq [of "map match_key rules"]
    by (cases p) (auto simp only: exc_simps transition_policy.simps sum.inject)
qed

text \<open>The values of a record without its rules; the reader takes these from the rules it has read.\<close>

lemma transition_policy_kwargs_items [simp]:
  "transition_policy_kwargs (py_items (transition_policy_py p)) p" "transition_policy_kwargs (py_items (normalize (transition_policy_py p))) p"
  by (simp_all add: transition_policy_kwargs_def transition_policy_py_def normalize_PDict) (simp add: kw_def)

lemma transition_policy_new_eq [exc_simps]: "transition_policy_new p = Inr p' \<longleftrightarrow> p' = p \<and> transition_policy_ok p"
proof -
  have "p' = p" if "transition_policy_kwargs (py_items (transition_policy_py p)) p'" "tp_rules p' = tp_rules p"
    using that transition_policy_kwargs_items(1) [of p] by (cases p; cases p') (simp add: transition_policy_kwargs_def)
  then show ?thesis
    unfolding transition_policy_new_def transition_policy_init_Inr using transition_policy_kwargs_items(1) by blast
qed

interpretation transition_policy_reader: sound_codec transition_policy_py transition_policy_from_dict valid_policy
proof unfold_locales
  show "transition_policy_from_dict (normalize (transition_policy_py p)) = Inr p" if "valid_policy p" for p
  proof -
    have "emap rule_from_dict (map (normalize \<circ> transition_rule_py) (tp_rules p)) = Inr (tp_rules p)"
      unfolding map_map [symmetric] using that
      by (simp add: emap_eq_Inr_map valid_policy_def list_all_iff transition_rule_reader.dec_enc flip: comp_def)
    then show ?thesis
      using that transition_policy_kwargs_items(2) [of p]
      by (simp add: transition_policy_from_dict_def exc_simps transition_policy_py_def normalize_PDict set_normal_items valid_policy_def)
  qed
  show "valid_policy p" if "transition_policy_from_dict d = Inr p" for d p
    using that by (auto simp: transition_policy_from_dict_def exc_simps valid_policy_def dest!: transition_rule_reader.emap_ok)
qed

section \<open>Matching is a function that fails closed\<close>

lemma filter_unique:
  assumes "distinct (map f xs)" and "x \<in> set xs"
  shows "filter (\<lambda>y. f y = f x) xs = [x]"
  using assms by (induction xs) (auto simp: filter_empty_conv image_iff)

lemma match_key_filter: "(\<lambda>r. tr_from_state r = s \<and> tr_event r = e) = (\<lambda>r. match_key r = (s, e))"
  by (simp add: match_key_def)

lemma match_transition_rule_Inr:
  assumes "valid_policy p"
  shows "match_transition_rule p s e = Inr r \<longleftrightarrow> r \<in> set (tp_rules p) \<and> tr_from_state r = s \<and> tr_event r = e"
proof -
  have keys: "distinct (map match_key (tp_rules p))" and rules: "\<forall>r\<in>set (tp_rules p). transition_rule_ok r"
    using assms by (auto simp: valid_policy_def transition_policy_ok_def list_all_iff)
  show ?thesis
  proof
    assume "match_transition_rule p s e = Inr r"
    then have "filter (\<lambda>r. tr_from_state r = s \<and> tr_event r = e) (tp_rules p) = [r]"
      by (auto simp: match_transition_rule_def split: if_splits list.splits)
    then have "r \<in> set (filter (\<lambda>r. tr_from_state r = s \<and> tr_event r = e) (tp_rules p))" by simp
    then show "r \<in> set (tp_rules p) \<and> tr_from_state r = s \<and> tr_event r = e" by simp
  next
    assume r: "r \<in> set (tp_rules p) \<and> tr_from_state r = s \<and> tr_event r = e"
    then have "match_key r = (s, e)" by (simp add: match_key_def)
    with r have "filter (\<lambda>r. tr_from_state r = s \<and> tr_event r = e) (tp_rules p) = [r]"
      using filter_unique [OF keys, of r] by (simp add: match_key_filter)
    moreover have "s \<in> set transition_states" "e \<in> set transition_events"
      using r rules unfolding transition_rule_ok_def by blast+
    ultimately show "match_transition_rule p s e = Inr r"
      by (simp add: match_transition_rule_def)
  qed
qed

text \<open>What the constructor demands of a rule.\<close>

lemma rule_conditions:
  assumes "transition_rule_ok r"
  shows "\<not> (tr_authority_mode r = ''none'' \<and> tr_authority_boundary r \<noteq> None)"
    and "\<not> (tr_authority_mode r \<in> {''preauthorized_required'', ''human_required''} \<and> tr_authority_boundary r = None)"
    and "\<not> (tr_authority_mode r = ''human_required'' \<and> tr_to_state r \<noteq> ''human_gate'')"
    and "\<not> (tr_authority_mode r = ''human_required'' \<and> tr_effect r \<noteq> ''stop_human_gate'')"
    and "\<not> (tr_from_state r = ''human_gate'' \<and> tr_authority_mode r \<noteq> ''preauthorized_required'')"
    and "\<not> (tr_effect r = ''promote_secondary'' \<and> (tr_event r \<noteq> ''verification_passed'' \<or> tr_to_state r \<noteq> ''complete''))"
    and "\<not> (tr_effect r = ''park_active'' \<and> (tr_event r \<noteq> ''external_blocker'' \<or> tr_to_state r \<noteq> ''passive''))"
    and "\<not> (tr_effect r = ''wake_passive'' \<and> (tr_from_state r \<noteq> ''passive'' \<or> tr_event r \<noteq> ''wake_satisfied''))"
    and "\<not> (tr_effect r = ''wake_passive'' \<and> tr_to_state r \<noteq> ''ready'')"
    and "\<not> (tr_effect r = ''request_di'' \<and> tr_to_state r \<noteq> ''di_required'')"
    and "\<not> (tr_effect r = ''stop_human_gate'' \<and> tr_authority_mode r \<noteq> ''human_required'')"
  using assms unfolding transition_rule_ok_def transition_rule_check_def raise_unless_eq by - (elim conjE, assumption)+

lemma rule_authority:
  assumes "transition_rule_ok r"
  shows "tr_authority_boundary r = None \<longleftrightarrow> tr_authority_mode r = ''none''"
    and "tr_authority_mode r = ''human_required'' \<longleftrightarrow> tr_effect r = ''stop_human_gate''"
    and "tr_effect r = ''stop_human_gate'' \<Longrightarrow> tr_to_state r = ''human_gate''"
    and "tr_from_state r = ''human_gate'' \<Longrightarrow> tr_authority_mode r = ''preauthorized_required''"
proof -
  note c = rule_conditions [OF assms]
  have "tr_authority_mode r \<in> {''none'', ''preauthorized_required'', ''human_required''}"
    using assms by (simp add: transition_rule_ok_def authority_modes_def)
  then show "tr_authority_boundary r = None \<longleftrightarrow> tr_authority_mode r = ''none''" using c(1,2) by auto
  show human: "tr_authority_mode r = ''human_required'' \<longleftrightarrow> tr_effect r = ''stop_human_gate''" using c(4,11) by blast
  show "tr_effect r = ''stop_human_gate'' \<Longrightarrow> tr_to_state r = ''human_gate''" using c(3) human by blast
  show "tr_from_state r = ''human_gate'' \<Longrightarrow> tr_authority_mode r = ''preauthorized_required''" using c(5) by blast
qed

section \<open>Properties\<close>

definition ex_rule :: transition_rule where
  "ex_rule = \<lparr>tr_rule_id = ''r'', tr_from_state = ''human_gate'', tr_event = ''execution_started'', tr_to_state = ''running'',
     tr_next_action_ref = ''run'', tr_effect = ''none'', tr_required_evidence = [''e''], tr_authority_mode = ''preauthorized_required'',
     tr_authority_boundary = Some ''b'', tr_schema_version = ''ge.transition-rule.v1''\<rparr>"

definition ex_policy :: transition_policy where
  "ex_policy = \<lparr>tp_policy_id = ''p'', tp_revision = ''1'', tp_rules = [ex_rule], tp_default_disposition = ''stop'',
     tp_schema_version = ''ge.transition-policy.v1''\<rparr>"

lemma ex_policy_valid: "valid_policy ex_policy"
  by (simp add: valid_policy_def transition_policy_ok_def ex_policy_def ex_rule_def transition_rule_ok_def transition_states_def
      transition_events_def transition_effects_def authority_modes_def transition_rule_check_def blank_iff is_space_def)

text \<open>A stored transition policy is read back as itself exactly when it is valid (its own checks and those of every
  rule), and whatever text the reader accepts, the policy it returns is valid: no text smuggles in a rule that its
  constructor would refuse.\<close>

theorem policy_text_exact:
  "(deserialize_transition_policy (serialize_transition_policy p) = Inr p \<longleftrightarrow> valid_policy p) \<and>
   (deserialize_transition_policy t = Inr q \<longrightarrow> valid_policy q)"
proof -
  have valid: "valid_policy q" if "deserialize_transition_policy t = Inr q" for t q
    using that transition_policy_reader.dec_ok by (auto simp: deserialize_transition_policy_def split: option.splits)
  moreover have "deserialize_transition_policy (serialize_transition_policy p) = Inr p" if "valid_policy p"
    using transition_policy_reader.loads_dumps [OF that]
    by (auto simp: deserialize_transition_policy_def serialize_transition_policy_def)
  ultimately show ?thesis by blast
qed

theorem policy_text_exact_witness:
  "deserialize_transition_policy (serialize_transition_policy ex_policy) = Inr ex_policy \<and> transition_rule_ok ex_rule"
proof -
  have "tp_rules ex_policy = [ex_rule]" by (simp add: ex_policy_def)
  then have "transition_rule_ok ex_rule"
    using ex_policy_valid unfolding valid_policy_def by simp
  then show ?thesis
    using policy_text_exact [of ex_policy "serialize_transition_policy ex_policy" ex_policy] ex_policy_valid by blast
qed

text \<open>C23: For a valid policy matching is a partial function that fails closed: a rule is returned exactly when it is the
  rule of the policy for that state and event, and any other pair raises. What matching returns respects authority: a
  work item leaves the human gate only by a rule with a preauthorized boundary, and a rule that requires a human always
  leads into the human gate with the effect that stops there.\<close>

theorem matching_fails_closed:
  assumes "valid_policy p"
  shows "(match_transition_rule p s e = Inr r \<longleftrightarrow> r \<in> set (tp_rules p) \<and> tr_from_state r = s \<and> tr_event r = e) \<and>
     ((\<forall>q\<in>set (tp_rules p). (tr_from_state q, tr_event q) \<noteq> (s, e)) \<longleftrightarrow> (\<exists>x. match_transition_rule p s e = Inl (TransitionPolicyError x))) \<and>
     (match_transition_rule p ''human_gate'' e = Inr r \<longrightarrow>
       tr_authority_mode r = ''preauthorized_required'' \<and> tr_authority_boundary r \<noteq> None) \<and>
     (match_transition_rule p s e = Inr r \<and> tr_authority_mode r = ''human_required'' \<longrightarrow>
       tr_to_state r = ''human_gate'' \<and> tr_effect r = ''stop_human_gate'')"
proof -
  note exact = match_transition_rule_Inr [OF assms]
  have ok: "transition_rule_ok r" if "match_transition_rule p s e = Inr r" for s e r
    using that assms unfolding exact by (auto simp: valid_policy_def list_all_iff)
  have "(\<exists>x. match_transition_rule p s e = Inl (TransitionPolicyError x)) \<longleftrightarrow> (\<nexists>q. match_transition_rule p s e = Inr q)"
    by (auto simp: match_transition_rule_def split: list.splits)
  moreover have "match_transition_rule p ''human_gate'' e = Inr r \<Longrightarrow> tr_from_state r = ''human_gate''"
    by (simp add: exact)
  ultimately show ?thesis
    using rule_authority [OF ok] exact by auto
qed

theorem matching_fails_closed_witness:
  "match_transition_rule ex_policy ''human_gate'' ''execution_started'' = Inr ex_rule \<and>
   (\<exists>x. match_transition_rule ex_policy ''human_gate'' ''wake_satisfied'' = Inl (TransitionPolicyError x))"
proof -
  have rules: "tp_rules ex_policy = [ex_rule]" "tr_from_state ex_rule = ''human_gate''" "tr_event ex_rule = ''execution_started''"
    by (simp_all add: ex_policy_def ex_rule_def)
  show ?thesis
    using matching_fails_closed [OF ex_policy_valid, of "''human_gate''" "''execution_started''" ex_rule, THEN conjunct1]
      matching_fails_closed [OF ex_policy_valid, of "''human_gate''" "''wake_satisfied''" ex_rule, THEN conjunct2, THEN conjunct1]
    unfolding rules by (simp add: rules)
qed

end
