(* ===== verification/Portfolio_State.thy ===== *)
theory Portfolio_State
  imports Field_Checks
begin

text \<open>
  The portfolio of work (\<open>portfolio_state.py\<close>): one active entry, one secondary entry that is ready to
  take over, and the parked passive entries, each blocked and with the condition that wakes it. As in
  \<open>Transition_Policy\<close> a constructor (\<open>X_init\<close>) is given the keyword values as they come and the nested
  objects, and \<open>X_new\<close> calls it on the values of a record.
  The lemmas say what valid objects satisfy, and that stored portfolios are read back exactly.
\<close>

section \<open>Blockers and wake conditions\<close>

definition portfolio_roles :: "string list" where
  "portfolio_roles = [''active'', ''secondary'', ''passive'']"

definition portfolio_states :: "string list" where
  "portfolio_states = [''ready'', ''running'', ''verifying'', ''complete'', ''waiting_external'', ''rework'', ''di_required'',
     ''human_gate'', ''failed'', ''passive'']"

definition active_states :: "string list" where
  "active_states = filter (\<lambda>s. s \<noteq> ''passive'') portfolio_states"

definition blocker_kinds :: "string list" where
  "blocker_kinds = [''external_dependency'', ''time'', ''infrastructure'', ''evidence'', ''authorization'', ''authority'', ''unknown'']"

definition wake_kinds :: "string list" where
  "wake_kinds = [''at_or_after'', ''event_received'', ''evidence_predicate_satisfied'']"

record portfolio_blocker =
  bk_kind :: string
  bk_detail :: string
  bk_evidence_refs :: "string list"
  bk_schema_version :: string

definition portfolio_blocker_py :: "portfolio_blocker \<Rightarrow> pyval" where
  "portfolio_blocker_py x = PDict [
    (''kind'', PStr (bk_kind x)),
    (''detail'', PStr (bk_detail x)),
    (''evidence_refs'', py_strs (bk_evidence_refs x)),
    (''schema_version'', PStr (bk_schema_version x))]"

interpretation portfolio_blocker: encoding portfolio_blocker_py
proof unfold_locales
  show "wf_py (portfolio_blocker_py x)" for x
    by (simp add: portfolio_blocker_py_def)
  show "normalize (portfolio_blocker_py x) = normalize (portfolio_blocker_py y) \<longleftrightarrow> x = y" for x y
    by (cases x; cases y) (simp add: portfolio_blocker_py_def normalize_dict_inject)
qed

lemmas portfolio_blocker_list [simp] = portfolio_blocker.list_wf portfolio_blocker.list_inject portfolio_blocker.enc_wf portfolio_blocker.enc_inject

definition portfolio_blocker_digest :: "hash \<Rightarrow> portfolio_blocker \<Rightarrow> string" where
  "portfolio_blocker_digest h x = sha256_digest h (portfolio_blocker_py x)"

definition portfolio_blocker_init :: "(string \<times> pyval) list \<Rightarrow> portfolio_blocker exc" where
  "portfolio_blocker_init kvs =
     ebind (schema_field (PortfolioStateError ''unsupported portfolio blocker schema'') ''ge.portfolio-blocker.v1''
       (kw kvs ''schema_version'' PNone)) (\<lambda>v_schema.
     ebind (choice_field (PortfolioStateError ''unsupported blocker kind'') blocker_kinds (kw kvs ''kind'' PNone)) (\<lambda>v_kind.
     ebind (nonempty_field PortfolioStateError ''blocker.detail'' (kw kvs ''detail'' PNone)) (\<lambda>v_detail.
     ebind (unique_field PortfolioStateError ''blocker.evidence_refs'' (kw kvs ''evidence_refs'' PNone)) (\<lambda>v_refs.
     Inr \<lparr>bk_kind = v_kind, bk_detail = v_detail, bk_evidence_refs = v_refs, bk_schema_version = v_schema\<rparr>))))"

definition portfolio_blocker_new :: "portfolio_blocker \<Rightarrow> portfolio_blocker exc" where
  "portfolio_blocker_new x = portfolio_blocker_init (py_items (portfolio_blocker_py x))"

record wake_condition =
  wk_kind :: string
  wk_value :: string
  wk_schema_version :: string

definition wake_condition_py :: "wake_condition \<Rightarrow> pyval" where
  "wake_condition_py x = PDict [
    (''kind'', PStr (wk_kind x)),
    (''value'', PStr (wk_value x)),
    (''schema_version'', PStr (wk_schema_version x))]"

interpretation wake_condition: encoding wake_condition_py
proof unfold_locales
  show "wf_py (wake_condition_py x)" for x
    by (simp add: wake_condition_py_def)
  show "normalize (wake_condition_py x) = normalize (wake_condition_py y) \<longleftrightarrow> x = y" for x y
    by (cases x; cases y) (simp add: wake_condition_py_def normalize_dict_inject)
qed

lemmas wake_condition_list [simp] = wake_condition.list_wf wake_condition.list_inject wake_condition.enc_wf wake_condition.enc_inject

lemma wake_condition_opt [simp]:
  "wf_py (py_opt wake_condition_py x)" "normalize (py_opt wake_condition_py x) = normalize (py_opt wake_condition_py y) \<longleftrightarrow> x = y"
  by (rule wake_condition.opt_wf) (rule wake_condition.opt_inject, simp add: wake_condition_py_def)

definition wake_condition_digest :: "hash \<Rightarrow> wake_condition \<Rightarrow> string" where
  "wake_condition_digest h x = sha256_digest h (wake_condition_py x)"

definition wake_condition_init :: "(string \<times> pyval) list \<Rightarrow> wake_condition exc" where
  "wake_condition_init kvs =
     ebind (schema_field (PortfolioStateError ''unsupported wake condition schema'') ''ge.wake-condition.v1''
       (kw kvs ''schema_version'' PNone)) (\<lambda>v_schema.
     ebind (choice_field (PortfolioStateError ''unsupported wake condition kind'') wake_kinds (kw kvs ''kind'' PNone)) (\<lambda>v_kind.
     ebind (nonempty_field PortfolioStateError ''wake_condition.value'' (kw kvs ''value'' PNone)) (\<lambda>v_value.
     Inr \<lparr>wk_kind = v_kind, wk_value = v_value, wk_schema_version = v_schema\<rparr>)))"

definition wake_condition_new :: "wake_condition \<Rightarrow> wake_condition exc" where
  "wake_condition_new x = wake_condition_init (py_items (wake_condition_py x))"

section \<open>Entries\<close>

record portfolio_entry =
  pe_work_id :: string
  pe_role :: string
  pe_state :: string
  pe_objective :: string
  pe_active_gate :: string
  pe_next_action_ref :: string
  pe_source_revision :: string
  pe_evidence_required :: "string list"
  pe_authority_boundary :: "string option"
  pe_authority_ref :: "string option"
  pe_blockers :: "portfolio_blocker list"
  pe_wake_condition :: "wake_condition option"
  pe_checkpoint_ref :: "string option"
  pe_schema_version :: string

definition portfolio_entry_py :: "portfolio_entry \<Rightarrow> pyval" where
  "portfolio_entry_py x = PDict [
    (''work_id'', PStr (pe_work_id x)),
    (''role'', PStr (pe_role x)),
    (''state'', PStr (pe_state x)),
    (''objective'', PStr (pe_objective x)),
    (''active_gate'', PStr (pe_active_gate x)),
    (''next_action_ref'', PStr (pe_next_action_ref x)),
    (''source_revision'', PStr (pe_source_revision x)),
    (''evidence_required'', py_strs (pe_evidence_required x)),
    (''authority_boundary'', py_opt PStr (pe_authority_boundary x)),
    (''authority_ref'', py_opt PStr (pe_authority_ref x)),
    (''blockers'', PTuple (map portfolio_blocker_py (pe_blockers x))),
    (''wake_condition'', py_opt wake_condition_py (pe_wake_condition x)),
    (''checkpoint_ref'', py_opt PStr (pe_checkpoint_ref x)),
    (''schema_version'', PStr (pe_schema_version x))]"

interpretation portfolio_entry: encoding portfolio_entry_py
proof unfold_locales
  show "wf_py (portfolio_entry_py x)" for x
    by (simp add: portfolio_entry_py_def)
  show "normalize (portfolio_entry_py x) = normalize (portfolio_entry_py y) \<longleftrightarrow> x = y" for x y
    by (cases x; cases y) (simp add: portfolio_entry_py_def normalize_dict_inject)
qed

lemmas portfolio_entry_list [simp] = portfolio_entry.list_wf portfolio_entry.list_inject portfolio_entry.enc_wf portfolio_entry.enc_inject

definition portfolio_entry_digest :: "hash \<Rightarrow> portfolio_entry \<Rightarrow> string" where
  "portfolio_entry_digest h x = sha256_digest h (portfolio_entry_py x)"

definition blocker_key :: "portfolio_blocker \<Rightarrow> string \<times> string \<times> string list" where
  "blocker_key b = (bk_kind b, bk_detail b, bk_evidence_refs b)"

text \<open>The conditions of the three roles.\<close>

definition portfolio_entry_check :: "portfolio_entry \<Rightarrow> portfolio_entry exc" where
  "portfolio_entry_check e =
     (if pe_role e = ''active'' then
        (if pe_state e \<notin> set active_states then Inl (PortfolioStateError ''active entry cannot use passive state'')
         else if pe_wake_condition e \<noteq> None \<and> pe_state e \<noteq> ''waiting_external''
         then Inl (PortfolioStateError ''active wake condition is valid only while waiting_external'')
         else if pe_state e = ''waiting_external'' \<and> pe_blockers e = []
         then Inl (PortfolioStateError ''waiting_external active entry requires a blocker'')
         else if pe_state e = ''human_gate'' \<and> (pe_authority_boundary e = None \<or> pe_authority_boundary e = Some [])
         then Inl (PortfolioStateError ''human_gate active entry requires authority_boundary'')
         else if pe_state e = ''human_gate'' \<and> \<not> list_ex (\<lambda>b. bk_kind b \<in> {''authorization'', ''authority''}) (pe_blockers e)
         then Inl (PortfolioStateError ''human_gate active entry requires authorization/authority blocker'')
         else Inr e)
      else if pe_role e = ''secondary'' then
        (if pe_state e \<noteq> ''ready'' then Inl (PortfolioStateError ''secondary entry must remain ready'')
         else if pe_blockers e \<noteq> [] then Inl (PortfolioStateError ''secondary entry cannot carry blockers'')
         else if pe_wake_condition e \<noteq> None then Inl (PortfolioStateError ''secondary entry cannot carry wake condition'')
         else Inr e)
      else if pe_role e = ''passive'' then
        (if pe_state e \<noteq> ''passive'' then Inl (PortfolioStateError ''passive entry must use passive state'')
         else if pe_blockers e = [] then Inl (PortfolioStateError ''passive entry requires at least one blocker'')
         else if pe_wake_condition e = None then Inl (PortfolioStateError ''passive entry requires an explicit wake condition'')
         else Inr e)
      else Inr e)"

definition portfolio_entry_init :: "(string \<times> pyval) list \<Rightarrow> portfolio_blocker list \<Rightarrow> wake_condition option \<Rightarrow> portfolio_entry exc" where
  "portfolio_entry_init kvs blockers wake =
     ebind (schema_field (PortfolioStateError ''unsupported portfolio entry schema'') ''ge.portfolio-entry.v1''
       (kw kvs ''schema_version'' PNone)) (\<lambda>v_schema.
     ebind (choice_field (PortfolioStateError ''unsupported portfolio role'') portfolio_roles (kw kvs ''role'' PNone)) (\<lambda>v_role.
     ebind (choice_field (PortfolioStateError ''unsupported portfolio lifecycle state'') portfolio_states (kw kvs ''state'' PNone)) (\<lambda>v_state.
     ebind (nonempty_field PortfolioStateError ''work_id'' (kw kvs ''work_id'' PNone)) (\<lambda>v_work_id.
     ebind (nonempty_field PortfolioStateError ''objective'' (kw kvs ''objective'' PNone)) (\<lambda>v_objective.
     ebind (nonempty_field PortfolioStateError ''active_gate'' (kw kvs ''active_gate'' PNone)) (\<lambda>v_gate.
     ebind (nonempty_field PortfolioStateError ''next_action_ref'' (kw kvs ''next_action_ref'' PNone)) (\<lambda>v_action.
     ebind (nonempty_field PortfolioStateError ''source_revision'' (kw kvs ''source_revision'' PNone)) (\<lambda>v_revision.
     ebind (unique_field PortfolioStateError ''evidence_required'' (kw kvs ''evidence_required'' PNone)) (\<lambda>v_evidence.
     ebind (optional_field PortfolioStateError ''authority_boundary'' (kw kvs ''authority_boundary'' PNone)) (\<lambda>v_boundary.
     ebind (optional_field PortfolioStateError ''authority_ref'' (kw kvs ''authority_ref'' PNone)) (\<lambda>v_authority.
     ebind (optional_field PortfolioStateError ''checkpoint_ref'' (kw kvs ''checkpoint_ref'' PNone)) (\<lambda>v_checkpoint.
     if length (map blocker_key blockers) \<noteq> length (remdups (map blocker_key blockers))
     then Inl (PortfolioStateError ''blockers must not contain duplicates'')
     else portfolio_entry_check
       \<lparr>pe_work_id = v_work_id, pe_role = v_role, pe_state = v_state, pe_objective = v_objective, pe_active_gate = v_gate,
        pe_next_action_ref = v_action, pe_source_revision = v_revision, pe_evidence_required = v_evidence,
        pe_authority_boundary = v_boundary, pe_authority_ref = v_authority, pe_blockers = blockers,
        pe_wake_condition = wake, pe_checkpoint_ref = v_checkpoint, pe_schema_version = v_schema\<rparr>))))))))))))"

definition portfolio_entry_new :: "portfolio_entry \<Rightarrow> portfolio_entry exc" where
  "portfolio_entry_new x = portfolio_entry_init (py_items (portfolio_entry_py x)) (pe_blockers x) (pe_wake_condition x)"

section \<open>Portfolios\<close>

record portfolio_state =
  pf_portfolio_id :: string
  pf_generation :: int
  pf_active :: portfolio_entry
  pf_secondary :: portfolio_entry
  pf_passive :: "portfolio_entry list"
  pf_previous_state_digest :: "string option"
  pf_schema_version :: string

definition portfolio_state_py :: "portfolio_state \<Rightarrow> pyval" where
  "portfolio_state_py x = PDict [
    (''portfolio_id'', PStr (pf_portfolio_id x)),
    (''generation'', PInt (pf_generation x)),
    (''active'', portfolio_entry_py (pf_active x)),
    (''secondary'', portfolio_entry_py (pf_secondary x)),
    (''passive'', PTuple (map portfolio_entry_py (pf_passive x))),
    (''previous_state_digest'', py_opt PStr (pf_previous_state_digest x)),
    (''schema_version'', PStr (pf_schema_version x))]"

interpretation portfolio_state: encoding portfolio_state_py
proof unfold_locales
  show "wf_py (portfolio_state_py x)" for x
    by (simp add: portfolio_state_py_def)
  show "normalize (portfolio_state_py x) = normalize (portfolio_state_py y) \<longleftrightarrow> x = y" for x y
    by (cases x; cases y) (simp add: portfolio_state_py_def normalize_dict_inject)
qed

lemmas portfolio_state_list [simp] = portfolio_state.list_wf portfolio_state.list_inject portfolio_state.enc_wf portfolio_state.enc_inject

definition portfolio_state_digest :: "hash \<Rightarrow> portfolio_state \<Rightarrow> string" where
  "portfolio_state_digest h x = sha256_digest h (portfolio_state_py x)"

text \<open>The digest of the predecessor: absent exactly in generation zero.\<close>

definition previous_digest_field :: "int \<Rightarrow> pyval \<Rightarrow> string option exc" where
  "previous_digest_field generation v =
     (if generation = 0
      then (if v \<noteq> PNone then Inl (PortfolioStateError ''generation zero cannot have previous_state_digest'') else Inr None)
      else if v = PNone then Inl (PortfolioStateError ''generation > 0 requires previous_state_digest'')
      else ebind (digest_field PortfolioStateError ''previous_state_digest'' v) (\<lambda>d. Inr (Some d)))"

definition portfolio_state_init :: "(string \<times> pyval) list \<Rightarrow> portfolio_entry \<Rightarrow> portfolio_entry \<Rightarrow> portfolio_entry list \<Rightarrow> portfolio_state exc" where
  "portfolio_state_init kvs active secondary passive =
     ebind (schema_field (PortfolioStateError ''unsupported portfolio state schema'') ''ge.portfolio-state.v1''
       (kw kvs ''schema_version'' PNone)) (\<lambda>v_schema.
     ebind (nonempty_field PortfolioStateError ''portfolio_id'' (kw kvs ''portfolio_id'' PNone)) (\<lambda>v_id.
     ebind (int_field (PortfolioStateError ''generation must be an integer'') 0 (PortfolioStateError ''generation cannot be negative'')
       (kw kvs ''generation'' PNone)) (\<lambda>v_generation.
     let passive_ids = map pe_work_id passive; work_ids = pe_work_id active # pe_work_id secondary # passive_ids in
     if pe_role active \<noteq> ''active'' then Inl (PortfolioStateError ''active slot requires role=active'')
     else if pe_role secondary \<noteq> ''secondary'' then Inl (PortfolioStateError ''secondary slot requires role=secondary'')
     else if list_ex (\<lambda>e. pe_role e \<noteq> ''passive'') passive then Inl (PortfolioStateError ''passive slots require role=passive'')
     else if passive_ids \<noteq> sort passive_ids
     then Inl (PortfolioStateError ''passive entries must be sorted by work_id for canonical state'')
     else if length work_ids \<noteq> length (remdups work_ids)
     then Inl (PortfolioStateError ''portfolio work_id values must be unique'')
     else ebind (previous_digest_field v_generation (kw kvs ''previous_state_digest'' PNone)) (\<lambda>v_previous.
     Inr \<lparr>pf_portfolio_id = v_id, pf_generation = v_generation, pf_active = active, pf_secondary = secondary,
       pf_passive = passive, pf_previous_state_digest = v_previous, pf_schema_version = v_schema\<rparr>))))"

definition portfolio_state_new :: "portfolio_state \<Rightarrow> portfolio_state exc" where
  "portfolio_state_new x = portfolio_state_init (py_items (portfolio_state_py x)) (pf_active x) (pf_secondary x) (pf_passive x)"

section \<open>Reading and writing\<close>

definition portfolio_state_to_dict :: "portfolio_state \<Rightarrow> pyval option" where
  "portfolio_state_to_dict s = json_loads (canonical_json (portfolio_state_py s))"

definition serialize_portfolio_state :: "portfolio_state \<Rightarrow> string" where
  "serialize_portfolio_state s = canonical_json (portfolio_state_py s)"

definition blocker_from_dict :: "pyval \<Rightarrow> portfolio_blocker exc" where
  "blocker_from_dict d =
     ebind (exact_fields PortfolioStateError ''portfolio blocker'' [''kind'', ''detail'', ''evidence_refs'', ''schema_version''] d) (\<lambda>kvs.
     ebind (list_field (PortfolioStateError ''blocker.evidence_refs must be a list'') (kw kvs ''evidence_refs'' PNone)) (\<lambda>_.
     rethrow is_type_or_key_error (PortfolioStateError ''invalid portfolio blocker'') (portfolio_blocker_init kvs)))"

definition wake_from_dict :: "pyval \<Rightarrow> wake_condition exc" where
  "wake_from_dict d =
     ebind (exact_fields PortfolioStateError ''wake condition'' [''kind'', ''value'', ''schema_version''] d) (\<lambda>kvs.
     rethrow is_type_or_key_error (PortfolioStateError ''invalid wake condition'') (wake_condition_init kvs))"

definition entry_from_dict :: "pyval \<Rightarrow> portfolio_entry exc" where
  "entry_from_dict d =
     ebind (exact_fields PortfolioStateError ''portfolio entry''
       [''work_id'', ''role'', ''state'', ''objective'', ''active_gate'', ''next_action_ref'',
        ''source_revision'', ''evidence_required'', ''authority_boundary'', ''authority_ref'', ''blockers'',
        ''wake_condition'', ''checkpoint_ref'', ''schema_version''] d) (\<lambda>kvs.
     ebind (list_field (PortfolioStateError ''evidence_required must be a list'') (kw kvs ''evidence_required'' PNone)) (\<lambda>_.
     ebind (list_field (PortfolioStateError ''blockers must be a list'') (kw kvs ''blockers'' PNone)) (\<lambda>blockers.
     let wake = kw kvs ''wake_condition'' PNone in
     if wake \<noteq> PNone \<and> \<not> py_is_dict wake then Inl (PortfolioStateError ''wake_condition must be an object or null'')
     else rethrow is_type_or_key_error (PortfolioStateError ''invalid portfolio entry'')
       (ebind (emap blocker_from_dict blockers) (\<lambda>v_blockers.
        ebind (py_unless_none wake_from_dict wake) (portfolio_entry_init kvs v_blockers))))))"

definition portfolio_state_from_dict :: "pyval \<Rightarrow> portfolio_state exc" where
  "portfolio_state_from_dict d =
     ebind (exact_fields PortfolioStateError ''portfolio state''
       [''portfolio_id'', ''generation'', ''active'', ''secondary'', ''passive'', ''previous_state_digest'', ''schema_version''] d) (\<lambda>kvs.
     ebind (list_field (PortfolioStateError ''passive must be a list'') (kw kvs ''passive'' PNone)) (\<lambda>passive.
     rethrow is_type_or_key_error (PortfolioStateError ''invalid portfolio state'')
       (ebind (entry_from_dict (kw kvs ''active'' PNone)) (\<lambda>v_active.
        ebind (entry_from_dict (kw kvs ''secondary'' PNone)) (\<lambda>v_secondary.
        ebind (emap entry_from_dict passive) (portfolio_state_init kvs v_active v_secondary))))))"

definition deserialize_portfolio_state :: "string \<Rightarrow> portfolio_state exc" where
  "deserialize_portfolio_state payload = (case json_loads payload of
       None \<Rightarrow> Inl (PortfolioStateError ''portfolio state is not valid JSON'')
     | Some d \<Rightarrow> portfolio_state_from_dict d)"

section \<open>Valid objects\<close>

definition portfolio_blocker_ok :: "portfolio_blocker \<Rightarrow> bool" where
  "portfolio_blocker_ok b \<longleftrightarrow> bk_schema_version b = ''ge.portfolio-blocker.v1'' \<and> bk_kind b \<in> set blocker_kinds \<and>
     \<not> blank (bk_detail b) \<and> (\<forall>s\<in>set (bk_evidence_refs b). \<not> blank s) \<and> distinct (bk_evidence_refs b)"

definition wake_condition_ok :: "wake_condition \<Rightarrow> bool" where
  "wake_condition_ok w \<longleftrightarrow> wk_schema_version w = ''ge.wake-condition.v1'' \<and> wk_kind w \<in> set wake_kinds \<and> \<not> blank (wk_value w)"

definition portfolio_blocker_kwargs :: "(string \<times> pyval) list \<Rightarrow> portfolio_blocker \<Rightarrow> bool" where
  "portfolio_blocker_kwargs kvs x \<longleftrightarrow>
     kw kvs ''kind'' PNone = PStr (bk_kind x) \<and>
     kw kvs ''detail'' PNone = PStr (bk_detail x) \<and>
     tuple_items (kw kvs ''evidence_refs'' PNone) = map PStr (bk_evidence_refs x) \<and>
     kw kvs ''schema_version'' PNone = PStr (bk_schema_version x)"

definition wake_condition_kwargs :: "(string \<times> pyval) list \<Rightarrow> wake_condition \<Rightarrow> bool" where
  "wake_condition_kwargs kvs x \<longleftrightarrow>
     kw kvs ''kind'' PNone = PStr (wk_kind x) \<and>
     kw kvs ''value'' PNone = PStr (wk_value x) \<and>
     kw kvs ''schema_version'' PNone = PStr (wk_schema_version x)"

definition portfolio_entry_kwargs :: "(string \<times> pyval) list \<Rightarrow> portfolio_entry \<Rightarrow> bool" where
  "portfolio_entry_kwargs kvs x \<longleftrightarrow>
     kw kvs ''work_id'' PNone = PStr (pe_work_id x) \<and>
     kw kvs ''role'' PNone = PStr (pe_role x) \<and>
     kw kvs ''state'' PNone = PStr (pe_state x) \<and>
     kw kvs ''objective'' PNone = PStr (pe_objective x) \<and>
     kw kvs ''active_gate'' PNone = PStr (pe_active_gate x) \<and>
     kw kvs ''next_action_ref'' PNone = PStr (pe_next_action_ref x) \<and>
     kw kvs ''source_revision'' PNone = PStr (pe_source_revision x) \<and>
     tuple_items (kw kvs ''evidence_required'' PNone) = map PStr (pe_evidence_required x) \<and>
     kw kvs ''authority_boundary'' PNone = py_opt PStr (pe_authority_boundary x) \<and>
     kw kvs ''authority_ref'' PNone = py_opt PStr (pe_authority_ref x) \<and>
     kw kvs ''checkpoint_ref'' PNone = py_opt PStr (pe_checkpoint_ref x) \<and>
     kw kvs ''schema_version'' PNone = PStr (pe_schema_version x)"

definition portfolio_state_kwargs :: "(string \<times> pyval) list \<Rightarrow> portfolio_state \<Rightarrow> bool" where
  "portfolio_state_kwargs kvs x \<longleftrightarrow>
     kw kvs ''portfolio_id'' PNone = PStr (pf_portfolio_id x) \<and>
     kw kvs ''generation'' PNone = PInt (pf_generation x) \<and>
     kw kvs ''previous_state_digest'' PNone = py_opt PStr (pf_previous_state_digest x) \<and>
     kw kvs ''schema_version'' PNone = PStr (pf_schema_version x)"

definition portfolio_entry_ok :: "portfolio_entry \<Rightarrow> bool" where
  "portfolio_entry_ok e \<longleftrightarrow> pe_schema_version e = ''ge.portfolio-entry.v1'' \<and> pe_role e \<in> set portfolio_roles \<and>
     pe_state e \<in> set portfolio_states \<and> \<not> blank (pe_work_id e) \<and> \<not> blank (pe_objective e) \<and> \<not> blank (pe_active_gate e) \<and>
     \<not> blank (pe_next_action_ref e) \<and> \<not> blank (pe_source_revision e) \<and> (\<forall>s\<in>set (pe_evidence_required e). \<not> blank s) \<and>
     distinct (pe_evidence_required e) \<and> pred_option (\<lambda>s. \<not> blank s) (pe_authority_boundary e) \<and>
     pred_option (\<lambda>s. \<not> blank s) (pe_authority_ref e) \<and> pred_option (\<lambda>s. \<not> blank s) (pe_checkpoint_ref e) \<and>
     distinct (map blocker_key (pe_blockers e)) \<and> portfolio_entry_check e = Inr e"

definition portfolio_state_ok :: "portfolio_state \<Rightarrow> bool" where
  "portfolio_state_ok s \<longleftrightarrow> pf_schema_version s = ''ge.portfolio-state.v1'' \<and> \<not> blank (pf_portfolio_id s) \<and> 0 \<le> pf_generation s \<and>
     pe_role (pf_active s) = ''active'' \<and> pe_role (pf_secondary s) = ''secondary'' \<and>
     (\<forall>e\<in>set (pf_passive s). pe_role e = ''passive'') \<and> sorted (map pe_work_id (pf_passive s)) \<and>
     distinct (pe_work_id (pf_active s) # pe_work_id (pf_secondary s) # map pe_work_id (pf_passive s)) \<and>
     (pf_previous_state_digest s = None \<longleftrightarrow> pf_generation s = 0) \<and> pred_option digest_ok (pf_previous_state_digest s)"

definition valid_entry :: "portfolio_entry \<Rightarrow> bool" where
  "valid_entry e \<longleftrightarrow> portfolio_entry_ok e \<and> list_all portfolio_blocker_ok (pe_blockers e) \<and>
     pred_option wake_condition_ok (pe_wake_condition e)"

definition valid_portfolio :: "portfolio_state \<Rightarrow> bool" where
  "valid_portfolio s \<longleftrightarrow> portfolio_state_ok s \<and> valid_entry (pf_active s) \<and> valid_entry (pf_secondary s) \<and>
     list_all valid_entry (pf_passive s)"

lemma portfolio_entry_check_same: "portfolio_entry_check e = Inr e' \<Longrightarrow> e' = e"
  by (simp add: portfolio_entry_check_def split: if_splits)

section \<open>The constructors\<close>

lemma portfolio_blocker_init_Inr [exc_simps]:
  "portfolio_blocker_init kvs = Inr b \<longleftrightarrow> portfolio_blocker_ok b \<and> portfolio_blocker_kwargs kvs b"
  unfolding portfolio_blocker_init_def portfolio_blocker_ok_def portfolio_blocker_kwargs_def
  by (cases b) (auto simp only: exc_simps portfolio_blocker.simps sum.inject)

lemma wake_condition_init_Inr [exc_simps]:
  "wake_condition_init kvs = Inr w \<longleftrightarrow> wake_condition_ok w \<and> wake_condition_kwargs kvs w"
  unfolding wake_condition_init_def wake_condition_ok_def wake_condition_kwargs_def
  by (cases w) (auto simp only: exc_simps wake_condition.simps sum.inject)

lemma portfolio_entry_init_Inr [exc_simps]:
  "portfolio_entry_init kvs bs w = Inr e \<longleftrightarrow>
   portfolio_entry_ok e \<and> portfolio_entry_kwargs kvs e \<and> pe_blockers e = bs \<and> pe_wake_condition e = w"
proof
  assume "portfolio_entry_init kvs bs w = Inr e"
  then show "portfolio_entry_ok e \<and> portfolio_entry_kwargs kvs e \<and> pe_blockers e = bs \<and> pe_wake_condition e = w"
    unfolding portfolio_entry_init_def portfolio_entry_kwargs_def
    by (simp only: exc_simps length_remdups_eq) (elim exE conjE, frule portfolio_entry_check_same, simp add: portfolio_entry_ok_def)
next
  assume "portfolio_entry_ok e \<and> portfolio_entry_kwargs kvs e \<and> pe_blockers e = bs \<and> pe_wake_condition e = w"
  then show "portfolio_entry_init kvs bs w = Inr e"
    by (cases e) (simp add: portfolio_entry_init_def exc_simps portfolio_entry_ok_def portfolio_entry_kwargs_def distinct_remdups_id)
qed

lemma previous_digest_field_Inr [exc_simps]:
  "previous_digest_field g v = Inr d \<longleftrightarrow> v = py_opt PStr d \<and> (d = None \<longleftrightarrow> g = 0) \<and> pred_option digest_ok d"
  by (cases d) (auto simp: previous_digest_field_def exc_simps)

lemma sort_eq_iff: "xs \<noteq> sort xs \<longleftrightarrow> \<not> sorted xs"
  by (metis sorted_sort sorted_sort_id)

lemma portfolio_state_init_Inr [exc_simps]:
  "portfolio_state_init kvs a s ps = Inr x \<longleftrightarrow>
   portfolio_state_ok x \<and> portfolio_state_kwargs kvs x \<and> pf_active x = a \<and> pf_secondary x = s \<and> pf_passive x = ps"
  unfolding portfolio_state_init_def portfolio_state_ok_def portfolio_state_kwargs_def Let_def
  by (cases x) (auto simp only: exc_simps portfolio_state.simps sum.inject length_remdups_eq sort_eq_iff list_ex_iff)

text \<open>A record holds its own keyword values, before and after a trip through JSON.\<close>

lemma portfolio_kwargs_items [simp]:
  "portfolio_blocker_kwargs (py_items (portfolio_blocker_py b)) b" "portfolio_blocker_kwargs (py_items (normalize (portfolio_blocker_py b))) b"
  "wake_condition_kwargs (py_items (wake_condition_py w)) w" "wake_condition_kwargs (py_items (normalize (wake_condition_py w))) w"
  "portfolio_entry_kwargs (py_items (portfolio_entry_py e)) e" "portfolio_entry_kwargs (py_items (normalize (portfolio_entry_py e))) e"
  "portfolio_state_kwargs (py_items (portfolio_state_py s)) s" "portfolio_state_kwargs (py_items (normalize (portfolio_state_py s))) s"
  by (simp_all add: portfolio_blocker_kwargs_def portfolio_blocker_py_def wake_condition_kwargs_def wake_condition_py_def
      portfolio_entry_kwargs_def portfolio_entry_py_def portfolio_state_kwargs_def portfolio_state_py_def normalize_PDict)
    (simp_all add: kw_def)

lemma portfolio_blocker_new_eq [exc_simps]: "portfolio_blocker_new b = Inr b' \<longleftrightarrow> b' = b \<and> portfolio_blocker_ok b"
proof -
  have "portfolio_blocker_kwargs (py_items (portfolio_blocker_py b)) b' \<Longrightarrow> b' = b"
    using portfolio_kwargs_items(1) [of b] by (cases b; cases b') (simp add: portfolio_blocker_kwargs_def)
  then show ?thesis unfolding portfolio_blocker_new_def portfolio_blocker_init_Inr by (metis portfolio_kwargs_items(1))
qed

lemma wake_condition_new_eq [exc_simps]: "wake_condition_new w = Inr w' \<longleftrightarrow> w' = w \<and> wake_condition_ok w"
proof -
  have "wake_condition_kwargs (py_items (wake_condition_py w)) w' \<Longrightarrow> w' = w"
    using portfolio_kwargs_items(3) [of w] by (cases w; cases w') (simp add: wake_condition_kwargs_def)
  then show ?thesis unfolding wake_condition_new_def wake_condition_init_Inr by (metis portfolio_kwargs_items(3))
qed

lemma portfolio_entry_new_eq [exc_simps]: "portfolio_entry_new e = Inr e' \<longleftrightarrow> e' = e \<and> portfolio_entry_ok e"
proof -
  have "portfolio_entry_kwargs (py_items (portfolio_entry_py e)) e' \<Longrightarrow> pe_blockers e' = pe_blockers e \<Longrightarrow>
      pe_wake_condition e' = pe_wake_condition e \<Longrightarrow> e' = e"
    using portfolio_kwargs_items(5) [of e] by (cases e; cases e') (simp add: portfolio_entry_kwargs_def)
  then show ?thesis unfolding portfolio_entry_new_def portfolio_entry_init_Inr by (metis portfolio_kwargs_items(5))
qed

lemma portfolio_state_new_eq [exc_simps]: "portfolio_state_new s = Inr s' \<longleftrightarrow> s' = s \<and> portfolio_state_ok s"
proof -
  have "portfolio_state_kwargs (py_items (portfolio_state_py s)) s' \<Longrightarrow> pf_active s' = pf_active s \<Longrightarrow>
      pf_secondary s' = pf_secondary s \<Longrightarrow> pf_passive s' = pf_passive s \<Longrightarrow> s' = s"
    using portfolio_kwargs_items(7) [of s] by (cases s; cases s') (simp add: portfolio_state_kwargs_def)
  then show ?thesis unfolding portfolio_state_new_def portfolio_state_init_Inr by (metis portfolio_kwargs_items(7))
qed

section \<open>The readers\<close>

interpretation portfolio_blocker_reader: sound_codec portfolio_blocker_py blocker_from_dict portfolio_blocker_ok
proof unfold_locales
  show "blocker_from_dict (normalize (portfolio_blocker_py b)) = Inr b" if "portfolio_blocker_ok b" for b
    using that portfolio_kwargs_items(2) [of b]
    by (simp add: blocker_from_dict_def exc_simps portfolio_blocker_py_def normalize_PDict set_normal_items)
  show "portfolio_blocker_ok b" if "blocker_from_dict d = Inr b" for d b
    using that by (auto simp: blocker_from_dict_def exc_simps)
qed

interpretation wake_condition_reader: sound_codec wake_condition_py wake_from_dict wake_condition_ok
proof unfold_locales
  show "wake_from_dict (normalize (wake_condition_py w)) = Inr w" if "wake_condition_ok w" for w
    using that portfolio_kwargs_items(4) [of w]
    by (simp add: wake_from_dict_def exc_simps wake_condition_py_def normalize_PDict set_normal_items)
  show "wake_condition_ok w" if "wake_from_dict d = Inr w" for d w
    using that by (auto simp: wake_from_dict_def exc_simps)
qed

interpretation portfolio_entry_reader: sound_codec portfolio_entry_py entry_from_dict valid_entry
proof unfold_locales
  show "entry_from_dict (normalize (portfolio_entry_py e)) = Inr e" if "valid_entry e" for e
  proof -
    let ?kvs = "py_items (normalize (portfolio_entry_py e))"
    have ok: "portfolio_entry_ok e" "list_all portfolio_blocker_ok (pe_blockers e)" "pred_option wake_condition_ok (pe_wake_condition e)"
      using that by (auto simp: valid_entry_def)
    have blockers: "emap blocker_from_dict (map (normalize \<circ> portfolio_blocker_py) (pe_blockers e)) = Inr (pe_blockers e)"
      using ok(2) by (intro emap_eq_Inr_map) (simp add: list_all_iff portfolio_blocker_reader.dec_enc)
    have wake: "py_unless_none wake_from_dict (normalize (py_opt wake_condition_py (pe_wake_condition e))) = Inr (pe_wake_condition e)"
      unfolding normalize_opt using ok(3)
      by (intro py_unless_none_opt) (simp add: wake_condition_reader.dec_enc, simp add: wake_condition_py_def)
    have "normalize (py_opt wake_condition_py (pe_wake_condition e)) = PNone \<or>
        py_is_dict (normalize (py_opt wake_condition_py (pe_wake_condition e)))"
      by (cases "pe_wake_condition e") (simp_all add: wake_condition_py_def)
    moreover have "portfolio_entry_init ?kvs (pe_blockers e) (pe_wake_condition e) = Inr e"
      using ok(1) by (simp add: portfolio_entry_init_Inr)
    ultimately show ?thesis
      using blockers wake
      by (simp add: entry_from_dict_def portfolio_entry_py_def normalize_PDict exc_simps set_normal_items Let_def comp_def)
  qed
  show "valid_entry e" if "entry_from_dict d = Inr e" for d e
  proof -
    note read = that
    obtain kvs bs vs w where "emap blocker_from_dict bs = Inr vs" "py_unless_none wake_from_dict (kw kvs ''wake_condition'' PNone) = Inr w"
      and init: "portfolio_entry_init kvs vs w = Inr e"
      using read unfolding entry_from_dict_def Let_def ebind_eq_Inr raise_unless_eq rethrow_eq_Inr by blast
    then have "list_all portfolio_blocker_ok vs" "pred_option wake_condition_ok w"
      using portfolio_blocker_reader.emap_ok wake_condition_reader.dec_ok by (auto simp: py_unless_none_Inr)
    with init show ?thesis by (auto simp: portfolio_entry_init_Inr valid_entry_def)
  qed
qed

interpretation portfolio_reader: sound_codec portfolio_state_py portfolio_state_from_dict valid_portfolio
proof unfold_locales
  show "portfolio_state_from_dict (normalize (portfolio_state_py s)) = Inr s" if "valid_portfolio s" for s
  proof -
    have "emap entry_from_dict (map (normalize \<circ> portfolio_entry_py) (pf_passive s)) = Inr (pf_passive s)"
      using that by (intro emap_eq_Inr_map) (simp add: valid_portfolio_def list_all_iff portfolio_entry_reader.dec_enc)
    moreover have "portfolio_state_init (py_items (normalize (portfolio_state_py s))) (pf_active s) (pf_secondary s) (pf_passive s) = Inr s"
      using that by (simp add: portfolio_state_init_Inr valid_portfolio_def)
    ultimately show ?thesis
      using that portfolio_entry_reader.dec_enc
      by (simp add: portfolio_state_from_dict_def portfolio_state_py_def normalize_PDict exc_simps set_normal_items comp_def valid_portfolio_def)
  qed
  show "valid_portfolio s" if "portfolio_state_from_dict d = Inr s" for d s
    using that portfolio_entry_reader.emap_ok portfolio_entry_reader.dec_ok
    by (auto simp: portfolio_state_from_dict_def exc_simps valid_portfolio_def list_field_Inr)
qed

section \<open>What the constructor demands of an entry\<close>

lemma active_conditions:
  assumes "portfolio_entry_ok e" and "pe_role e = ''active''"
  shows "pe_state e \<noteq> ''passive''" and "pe_wake_condition e \<noteq> None \<Longrightarrow> pe_state e = ''waiting_external''"
    and "pe_state e = ''waiting_external'' \<Longrightarrow> pe_blockers e \<noteq> []"
    and "pe_state e = ''human_gate'' \<Longrightarrow> pe_authority_boundary e \<noteq> None"
    and "pe_state e = ''human_gate'' \<Longrightarrow> \<exists>b\<in>set (pe_blockers e). bk_kind b \<in> {''authorization'', ''authority''}"
proof -
  have "portfolio_entry_check e = Inr e" using assms(1) by (simp add: portfolio_entry_ok_def)
  then have c: "\<not> pe_state e \<notin> set active_states" "\<not> (pe_wake_condition e \<noteq> None \<and> pe_state e \<noteq> ''waiting_external'')"
    "\<not> (pe_state e = ''waiting_external'' \<and> pe_blockers e = [])"
    "\<not> (pe_state e = ''human_gate'' \<and> (pe_authority_boundary e = None \<or> pe_authority_boundary e = Some []))"
    "\<not> (pe_state e = ''human_gate'' \<and> \<not> list_ex (\<lambda>b. bk_kind b \<in> {''authorization'', ''authority''}) (pe_blockers e))"
    unfolding portfolio_entry_check_def if_P [OF assms(2)] raise_unless_eq by - (elim conjE, assumption)+
  from c(1) show "pe_state e \<noteq> ''passive''" by (auto simp: active_states_def)
  from c(2) show "pe_wake_condition e \<noteq> None \<Longrightarrow> pe_state e = ''waiting_external''" by blast
  from c(3) show "pe_state e = ''waiting_external'' \<Longrightarrow> pe_blockers e \<noteq> []" by blast
  from c(4) show "pe_state e = ''human_gate'' \<Longrightarrow> pe_authority_boundary e \<noteq> None" by simp
  from c(5) show "pe_state e = ''human_gate'' \<Longrightarrow> \<exists>b\<in>set (pe_blockers e). bk_kind b \<in> {''authorization'', ''authority''}"
    by (simp add: list_ex_iff)
qed

lemma secondary_conditions:
  assumes "portfolio_entry_ok e" and "pe_role e = ''secondary''"
  shows "pe_state e = ''ready''" and "pe_blockers e = []" and "pe_wake_condition e = None"
proof -
  have "portfolio_entry_check e = Inr e" using assms(1) by (simp add: portfolio_entry_ok_def)
  then show "pe_state e = ''ready''" "pe_blockers e = []" "pe_wake_condition e = None"
    using assms(2) by (simp_all add: portfolio_entry_check_def split: if_splits)
qed

lemma passive_conditions:
  assumes "portfolio_entry_ok e" and "pe_role e = ''passive''"
  shows "pe_state e = ''passive''" and "pe_blockers e \<noteq> []" and "pe_wake_condition e \<noteq> None"
proof -
  have "portfolio_entry_check e = Inr e" using assms(1) by (simp add: portfolio_entry_ok_def)
  then show "pe_state e = ''passive''" "pe_blockers e \<noteq> []" "pe_wake_condition e \<noteq> None"
    using assms(2) by (simp_all add: portfolio_entry_check_def split: if_splits)
qed

section \<open>An encoding is read as nothing else\<close>

lemma blocker_reads_itself:
  assumes "blocker_from_dict (normalize (portfolio_blocker_py b)) = Inr b'"
  shows "b' = b"
proof -
  have "portfolio_blocker_kwargs (py_items (normalize (portfolio_blocker_py b))) b'"
    using assms unfolding blocker_from_dict_def ebind_eq_Inr rethrow_eq_Inr exact_fields_Inr list_field_Inr portfolio_blocker_init_Inr
    by (elim exE conjE) simp
  then show ?thesis
    using portfolio_kwargs_items(2) [of b] by (cases b; cases b') (simp add: portfolio_blocker_kwargs_def)
qed

lemma wake_reads_itself:
  assumes "wake_from_dict (normalize (wake_condition_py w)) = Inr w'"
  shows "w' = w"
proof -
  have "wake_condition_kwargs (py_items (normalize (wake_condition_py w))) w'"
    using assms unfolding wake_from_dict_def ebind_eq_Inr rethrow_eq_Inr exact_fields_Inr wake_condition_init_Inr
    by (elim exE conjE) simp
  then show ?thesis
    using portfolio_kwargs_items(4) [of w] by (cases w; cases w') (simp add: wake_condition_kwargs_def)
qed

lemma entry_reads_itself:
  assumes "entry_from_dict (normalize (portfolio_entry_py e)) = Inr e'"
  shows "e' = e"
proof -
  let ?kvs = "py_items (normalize (portfolio_entry_py e))"
  have fields: "kw ?kvs ''blockers'' PNone = PList (map (normalize \<circ> portfolio_blocker_py) (pe_blockers e))"
    "kw ?kvs ''wake_condition'' PNone = py_opt (\<lambda>w. normalize (wake_condition_py w)) (pe_wake_condition e)"
    by (simp_all add: portfolio_entry_py_def normalize_PDict normalize_opt)
  obtain bs w where bs: "emap blocker_from_dict (map (normalize \<circ> portfolio_blocker_py) (pe_blockers e)) = Inr bs"
    and w: "py_unless_none wake_from_dict (py_opt (\<lambda>w. normalize (wake_condition_py w)) (pe_wake_condition e)) = Inr w"
    and init: "portfolio_entry_init ?kvs bs w = Inr e'"
    using assms fields unfolding entry_from_dict_def Let_def ebind_eq_Inr raise_unless_eq rethrow_eq_Inr exact_fields_Inr list_field_Inr
    by (metis py_items_simps pyval.inject(4))
  have "bs = pe_blockers e"
    by (rule emap_reads_itself [OF _ bs]) (simp add: blocker_reads_itself)
  moreover have not_none: "normalize (wake_condition_py a) \<noteq> PNone" for a by (simp add: wake_condition_py_def)
  have "w = pe_wake_condition e"
    using w wake_reads_itself not_none by (cases "pe_wake_condition e") (auto simp: py_unless_none_Inr)
  ultimately have "portfolio_entry_kwargs ?kvs e'" "pe_blockers e' = pe_blockers e" "pe_wake_condition e' = pe_wake_condition e"
    using init by (simp_all add: portfolio_entry_init_Inr)
  then show ?thesis
    using portfolio_kwargs_items(6) [of e] by (cases e; cases e') (simp add: portfolio_entry_kwargs_def)
qed

lemma portfolio_reader_iff: "portfolio_state_from_dict (normalize (portfolio_state_py s)) = Inr s' \<longleftrightarrow> valid_portfolio s \<and> s' = s"
proof
  let ?kvs = "py_items (normalize (portfolio_state_py s))"
  assume read: "portfolio_state_from_dict (normalize (portfolio_state_py s)) = Inr s'"
  have fields: "kw ?kvs ''active'' PNone = normalize (portfolio_entry_py (pf_active s))"
    "kw ?kvs ''secondary'' PNone = normalize (portfolio_entry_py (pf_secondary s))"
    "kw ?kvs ''passive'' PNone = PList (map (normalize \<circ> portfolio_entry_py) (pf_passive s))"
    by (simp_all add: portfolio_state_py_def normalize_PDict)
  obtain a b ps where a: "entry_from_dict (normalize (portfolio_entry_py (pf_active s))) = Inr a"
    and b: "entry_from_dict (normalize (portfolio_entry_py (pf_secondary s))) = Inr b"
    and ps: "emap entry_from_dict (map (normalize \<circ> portfolio_entry_py) (pf_passive s)) = Inr ps"
    and init: "portfolio_state_init ?kvs a b ps = Inr s'"
    using read fields unfolding portfolio_state_from_dict_def ebind_eq_Inr rethrow_eq_Inr exact_fields_Inr list_field_Inr
    by (metis py_items_simps pyval.inject(4))
  have "a = pf_active s" "b = pf_secondary s" using a b by (simp_all add: entry_reads_itself)
  moreover have "ps = pf_passive s"
    by (rule emap_reads_itself [OF _ ps]) (simp add: entry_reads_itself)
  ultimately have "portfolio_state_kwargs ?kvs s'" "pf_active s' = pf_active s" "pf_secondary s' = pf_secondary s" "pf_passive s' = pf_passive s"
    using init by (simp_all add: portfolio_state_init_Inr)
  then have "s' = s"
    using portfolio_kwargs_items(8) [of s] by (cases s; cases s') (simp add: portfolio_state_kwargs_def)
  with portfolio_reader.dec_ok [OF read] show "valid_portfolio s \<and> s' = s" by simp
qed (simp add: portfolio_reader.dec_enc)

end
