(* ===== verification/Execution_Checkpoint.thy ===== *)
theory Execution_Checkpoint
  imports Field_Checks
begin

text \<open>
  Execution checkpoints (\<open>execution_checkpoint.py\<close>): the record that goes with every change of a portfolio.
  It names the portfolio state it belongs to, what was done on which evidence, and what may happen
  next, or that a human authority has to decide first. Constructors take the keyword values as they come
  (\<open>X_init\<close>), \<open>X_new\<close> those of a record; \<open>authority_stop\<close> and \<open>authority_boundary\<close>, which the code does not
  check, are typed as annotated.
\<close>

section \<open>Evidence\<close>

definition checkpoint_roles :: "string list" where
  "checkpoint_roles = [''active'', ''secondary'', ''passive'']"

definition checkpoint_states :: "string list" where
  "checkpoint_states = [''ready'', ''running'', ''verifying'', ''complete'', ''waiting_external'', ''rework'', ''di_required'',
     ''human_gate'', ''failed'', ''passive'']"

definition terminal_without_next :: "string list" where
  "terminal_without_next = [''complete'', ''failed'']"

record checkpoint_evidence =
  cv_kind :: string
  cv_locator :: string
  cv_digest :: string
  cv_schema_version :: string

definition checkpoint_evidence_py :: "checkpoint_evidence \<Rightarrow> pyval" where
  "checkpoint_evidence_py x = PDict [
    (''kind'', PStr (cv_kind x)),
    (''locator'', PStr (cv_locator x)),
    (''digest'', PStr (cv_digest x)),
    (''schema_version'', PStr (cv_schema_version x))]"

interpretation checkpoint_evidence: encoding checkpoint_evidence_py
proof unfold_locales
  show "wf_py (checkpoint_evidence_py x)" for x
    by (simp add: checkpoint_evidence_py_def)
  show "normalize (checkpoint_evidence_py x) = normalize (checkpoint_evidence_py y) \<longleftrightarrow> x = y" for x y
    by (cases x; cases y) (simp add: checkpoint_evidence_py_def normalize_dict_inject)
qed

lemmas checkpoint_evidence_list [simp] = checkpoint_evidence.list_wf checkpoint_evidence.list_inject checkpoint_evidence.enc_wf checkpoint_evidence.enc_inject

definition checkpoint_evidence_digest :: "hash \<Rightarrow> checkpoint_evidence \<Rightarrow> string" where
  "checkpoint_evidence_digest h x = sha256_digest h (checkpoint_evidence_py x)"

definition evidence_identity :: "checkpoint_evidence \<Rightarrow> string \<times> string \<times> string" where
  "evidence_identity x = (cv_kind x, cv_locator x, cv_digest x)"

definition checkpoint_evidence_init :: "(string \<times> pyval) list \<Rightarrow> checkpoint_evidence exc" where
  "checkpoint_evidence_init kvs =
     ebind (schema_field (ExecutionCheckpointError ''unsupported checkpoint evidence schema'') ''ge.checkpoint-evidence.v1''
       (kw kvs ''schema_version'' PNone)) (\<lambda>v_schema.
     ebind (nonempty_field ExecutionCheckpointError ''evidence.kind'' (kw kvs ''kind'' PNone)) (\<lambda>v_kind.
     ebind (nonempty_field ExecutionCheckpointError ''evidence.locator'' (kw kvs ''locator'' PNone)) (\<lambda>v_locator.
     ebind (digest_field ExecutionCheckpointError ''evidence.digest'' (kw kvs ''digest'' PNone)) (\<lambda>v_digest.
     Inr \<lparr>cv_kind = v_kind, cv_locator = v_locator, cv_digest = v_digest, cv_schema_version = v_schema\<rparr>))))"

definition checkpoint_evidence_new :: "checkpoint_evidence \<Rightarrow> checkpoint_evidence exc" where
  "checkpoint_evidence_new x = checkpoint_evidence_init (py_items (checkpoint_evidence_py x))"

section \<open>Checkpoints\<close>

record execution_checkpoint =
  ec_portfolio_id :: string
  ec_portfolio_generation :: int
  ec_portfolio_state_digest :: string
  ec_work_id :: string
  ec_role :: string
  ec_state_before :: string
  ec_state_after :: string
  ec_action_ref :: string
  ec_source_revision :: string
  ec_observed_at :: string
  ec_summary :: string
  ec_evidence :: "checkpoint_evidence list"
  ec_canonical_refs :: "string list"
  ec_uncertainties :: "string list"
  ec_next_transition_refs :: "string list"
  ec_authority_stop :: bool
  ec_authority_boundary :: "string option"
  ec_schema_version :: string

definition execution_checkpoint_py :: "execution_checkpoint \<Rightarrow> pyval" where
  "execution_checkpoint_py x = PDict [
    (''portfolio_id'', PStr (ec_portfolio_id x)),
    (''portfolio_generation'', PInt (ec_portfolio_generation x)),
    (''portfolio_state_digest'', PStr (ec_portfolio_state_digest x)),
    (''work_id'', PStr (ec_work_id x)),
    (''role'', PStr (ec_role x)),
    (''state_before'', PStr (ec_state_before x)),
    (''state_after'', PStr (ec_state_after x)),
    (''action_ref'', PStr (ec_action_ref x)),
    (''source_revision'', PStr (ec_source_revision x)),
    (''observed_at'', PStr (ec_observed_at x)),
    (''summary'', PStr (ec_summary x)),
    (''evidence'', PTuple (map checkpoint_evidence_py (ec_evidence x))),
    (''canonical_refs'', py_strs (ec_canonical_refs x)),
    (''uncertainties'', py_strs (ec_uncertainties x)),
    (''next_transition_refs'', py_strs (ec_next_transition_refs x)),
    (''authority_stop'', PBool (ec_authority_stop x)),
    (''authority_boundary'', py_opt PStr (ec_authority_boundary x)),
    (''schema_version'', PStr (ec_schema_version x))]"

interpretation execution_checkpoint: encoding execution_checkpoint_py
proof unfold_locales
  show "wf_py (execution_checkpoint_py x)" for x
    by (simp add: execution_checkpoint_py_def)
  show "normalize (execution_checkpoint_py x) = normalize (execution_checkpoint_py y) \<longleftrightarrow> x = y" for x y
    by (cases x; cases y) (simp add: execution_checkpoint_py_def normalize_dict_inject)
qed

definition execution_checkpoint_digest :: "hash \<Rightarrow> execution_checkpoint \<Rightarrow> string" where
  "execution_checkpoint_digest h x = sha256_digest h (execution_checkpoint_py x)"

definition checkpoint_id :: "hash \<Rightarrow> execution_checkpoint \<Rightarrow> string" where
  "checkpoint_id h x = stable_id h ''gec'' (execution_checkpoint_py x)"

text \<open>The conditions on the authority stop, the next transitions and the role.\<close>

definition checkpoint_check :: "execution_checkpoint \<Rightarrow> execution_checkpoint exc" where
  "checkpoint_check x =
     (if ec_authority_stop x \<and> (ec_authority_boundary x = None \<or> ec_authority_boundary x = Some [])
      then Inl (ExecutionCheckpointError ''authority_stop requires authority_boundary'')
      else if ec_authority_stop x \<and> ec_state_after x \<noteq> ''human_gate''
      then Inl (ExecutionCheckpointError ''authority_stop requires state_after=human_gate'')
      else if ec_authority_stop x \<and> ec_next_transition_refs x \<noteq> []
      then Inl (ExecutionCheckpointError ''authority_stop cannot declare automatic next transitions'')
      else if \<not> ec_authority_stop x \<and> ec_authority_boundary x \<noteq> None
      then Inl (ExecutionCheckpointError ''authority_boundary is valid only for authority_stop'')
      else if \<not> ec_authority_stop x \<and> ec_next_transition_refs x = [] \<and> ec_state_after x \<notin> set terminal_without_next
      then Inl (ExecutionCheckpointError ''nonterminal checkpoint requires next_transition_refs'')
      else if ec_role x = ''passive'' \<and> ec_state_after x \<noteq> ''passive''
      then Inl (ExecutionCheckpointError ''passive checkpoint cannot claim non-passive state'')
      else Inr x)"

definition checkpoint_init :: "(string \<times> pyval) list \<Rightarrow> checkpoint_evidence list \<Rightarrow> execution_checkpoint exc" where
  "checkpoint_init kvs evidence =
     ebind (typed_bool (kw kvs ''authority_stop'' PNone)) (\<lambda>v_authority_stop.
     ebind (py_unless_none typed_str (kw kvs ''authority_boundary'' PNone)) (\<lambda>v_authority_boundary.
     ebind (schema_field (ExecutionCheckpointError ''unsupported execution checkpoint schema'') ''ge.execution-checkpoint.v1''
       (kw kvs ''schema_version'' PNone)) (\<lambda>v_schema_version.
     ebind (nonempty_field ExecutionCheckpointError ''portfolio_id'' (kw kvs ''portfolio_id'' PNone)) (\<lambda>v_portfolio_id.
     ebind (nonempty_field ExecutionCheckpointError ''work_id'' (kw kvs ''work_id'' PNone)) (\<lambda>v_work_id.
     ebind (nonempty_field ExecutionCheckpointError ''action_ref'' (kw kvs ''action_ref'' PNone)) (\<lambda>v_action_ref.
     ebind (nonempty_field ExecutionCheckpointError ''source_revision'' (kw kvs ''source_revision'' PNone)) (\<lambda>v_source_revision.
     ebind (nonempty_field ExecutionCheckpointError ''observed_at'' (kw kvs ''observed_at'' PNone)) (\<lambda>v_observed_at.
     ebind (nonempty_field ExecutionCheckpointError ''summary'' (kw kvs ''summary'' PNone)) (\<lambda>v_summary.
     ebind (int_field (ExecutionCheckpointError ''portfolio_generation must be an integer'') 0
       (ExecutionCheckpointError ''portfolio_generation cannot be negative'') (kw kvs ''portfolio_generation'' PNone)) (\<lambda>v_portfolio_generation.
     ebind (digest_field ExecutionCheckpointError ''portfolio_state_digest'' (kw kvs ''portfolio_state_digest'' PNone)) (\<lambda>v_portfolio_state_digest.
     ebind (choice_field (ExecutionCheckpointError ''unsupported checkpoint role'') checkpoint_roles (kw kvs ''role'' PNone)) (\<lambda>v_role.
     ebind (choice_field (ExecutionCheckpointError ''unsupported checkpoint state'') checkpoint_states (kw kvs ''state_before'' PNone)) (\<lambda>v_state_before.
     ebind (choice_field (ExecutionCheckpointError ''unsupported checkpoint state'') checkpoint_states (kw kvs ''state_after'' PNone)) (\<lambda>v_state_after.
     if evidence = [] then Inl (ExecutionCheckpointError ''checkpoint requires admitted evidence'')
     else if length (map evidence_identity evidence) \<noteq> length (remdups (map evidence_identity evidence))
     then Inl (ExecutionCheckpointError ''checkpoint evidence must not contain duplicates'')
     else ebind (unique_field ExecutionCheckpointError ''canonical_refs'' (kw kvs ''canonical_refs'' PNone)) (\<lambda>v_canonical_refs.
     if v_canonical_refs = [] then Inl (ExecutionCheckpointError ''checkpoint requires at least one canonical_ref'')
     else ebind (unique_field ExecutionCheckpointError ''uncertainties'' (kw kvs ''uncertainties'' PNone)) (\<lambda>v_uncertainties.
     ebind (unique_field ExecutionCheckpointError ''next_transition_refs'' (kw kvs ''next_transition_refs'' PNone)) (\<lambda>v_next_transition_refs.
     checkpoint_check
       \<lparr>ec_portfolio_id = v_portfolio_id, ec_portfolio_generation = v_portfolio_generation,
        ec_portfolio_state_digest = v_portfolio_state_digest, ec_work_id = v_work_id, ec_role = v_role,
        ec_state_before = v_state_before, ec_state_after = v_state_after, ec_action_ref = v_action_ref, ec_source_revision = v_source_revision, ec_observed_at = v_observed_at,
        ec_summary = v_summary, ec_evidence = evidence, ec_canonical_refs = v_canonical_refs, ec_uncertainties = v_uncertainties,
        ec_next_transition_refs = v_next_transition_refs, ec_authority_stop = v_authority_stop, ec_authority_boundary = v_authority_boundary, ec_schema_version = v_schema_version\<rparr>)))))))))))))))))"

definition checkpoint_new :: "execution_checkpoint \<Rightarrow> execution_checkpoint exc" where
  "checkpoint_new x = checkpoint_init (py_items (execution_checkpoint_py x)) (ec_evidence x)"

section \<open>Reading and writing\<close>

definition checkpoint_to_dict :: "execution_checkpoint \<Rightarrow> pyval option" where
  "checkpoint_to_dict x = json_loads (canonical_json (execution_checkpoint_py x))"

definition serialize_checkpoint :: "execution_checkpoint \<Rightarrow> string" where
  "serialize_checkpoint x = canonical_json (execution_checkpoint_py x)"

definition evidence_from_dict :: "pyval \<Rightarrow> checkpoint_evidence exc" where
  "evidence_from_dict d =
     ebind (exact_fields ExecutionCheckpointError ''checkpoint evidence'' [''kind'', ''locator'', ''digest'', ''schema_version''] d) (\<lambda>kvs.
     rethrow is_type_or_key_error (ExecutionCheckpointError ''invalid checkpoint evidence'') (checkpoint_evidence_init kvs))"

definition checkpoint_from_dict :: "pyval \<Rightarrow> execution_checkpoint exc" where
  "checkpoint_from_dict d =
     ebind (exact_fields ExecutionCheckpointError ''execution checkpoint''
       [''portfolio_id'', ''portfolio_generation'', ''portfolio_state_digest'', ''work_id'', ''role'', ''state_before'', ''state_after'',
        ''action_ref'', ''source_revision'', ''observed_at'', ''summary'', ''evidence'', ''canonical_refs'',
        ''uncertainties'', ''next_transition_refs'', ''authority_stop'', ''authority_boundary'', ''schema_version''] d) (\<lambda>kvs.
     ebind (list_field (ExecutionCheckpointError ''evidence must be a list'') (kw kvs ''evidence'' PNone)) (\<lambda>evidence.
     ebind (list_field (ExecutionCheckpointError ''canonical_refs must be a list'') (kw kvs ''canonical_refs'' PNone)) (\<lambda>_.
     ebind (list_field (ExecutionCheckpointError ''uncertainties must be a list'') (kw kvs ''uncertainties'' PNone)) (\<lambda>_.
     ebind (list_field (ExecutionCheckpointError ''next_transition_refs must be a list'') (kw kvs ''next_transition_refs'' PNone)) (\<lambda>_.
     rethrow is_type_or_key_error (ExecutionCheckpointError ''invalid execution checkpoint'')
       (ebind (emap evidence_from_dict evidence) (checkpoint_init kvs)))))))"

definition deserialize_checkpoint :: "string \<Rightarrow> execution_checkpoint exc" where
  "deserialize_checkpoint payload = (case json_loads payload of
       None \<Rightarrow> Inl (ExecutionCheckpointError ''execution checkpoint is not valid JSON'')
     | Some d \<Rightarrow> checkpoint_from_dict d)"

section \<open>Valid checkpoints\<close>

definition checkpoint_evidence_ok :: "checkpoint_evidence \<Rightarrow> bool" where
  "checkpoint_evidence_ok x \<longleftrightarrow> cv_schema_version x = ''ge.checkpoint-evidence.v1'' \<and> \<not> blank (cv_kind x) \<and>
     \<not> blank (cv_locator x) \<and> digest_ok (cv_digest x)"

definition checkpoint_evidence_kwargs :: "(string \<times> pyval) list \<Rightarrow> checkpoint_evidence \<Rightarrow> bool" where
  "checkpoint_evidence_kwargs kvs x \<longleftrightarrow>
     kw kvs ''kind'' PNone = PStr (cv_kind x) \<and>
     kw kvs ''locator'' PNone = PStr (cv_locator x) \<and>
     kw kvs ''digest'' PNone = PStr (cv_digest x) \<and>
     kw kvs ''schema_version'' PNone = PStr (cv_schema_version x)"

definition execution_checkpoint_kwargs :: "(string \<times> pyval) list \<Rightarrow> execution_checkpoint \<Rightarrow> bool" where
  "execution_checkpoint_kwargs kvs x \<longleftrightarrow>
     kw kvs ''portfolio_id'' PNone = PStr (ec_portfolio_id x) \<and>
     kw kvs ''portfolio_generation'' PNone = PInt (ec_portfolio_generation x) \<and>
     kw kvs ''portfolio_state_digest'' PNone = PStr (ec_portfolio_state_digest x) \<and>
     kw kvs ''work_id'' PNone = PStr (ec_work_id x) \<and>
     kw kvs ''role'' PNone = PStr (ec_role x) \<and>
     kw kvs ''state_before'' PNone = PStr (ec_state_before x) \<and>
     kw kvs ''state_after'' PNone = PStr (ec_state_after x) \<and>
     kw kvs ''action_ref'' PNone = PStr (ec_action_ref x) \<and>
     kw kvs ''source_revision'' PNone = PStr (ec_source_revision x) \<and>
     kw kvs ''observed_at'' PNone = PStr (ec_observed_at x) \<and>
     kw kvs ''summary'' PNone = PStr (ec_summary x) \<and>
     tuple_items (kw kvs ''canonical_refs'' PNone) = map PStr (ec_canonical_refs x) \<and>
     tuple_items (kw kvs ''uncertainties'' PNone) = map PStr (ec_uncertainties x) \<and>
     tuple_items (kw kvs ''next_transition_refs'' PNone) = map PStr (ec_next_transition_refs x) \<and>
     kw kvs ''authority_stop'' PNone = PBool (ec_authority_stop x) \<and>
     kw kvs ''authority_boundary'' PNone = py_opt PStr (ec_authority_boundary x) \<and>
     kw kvs ''schema_version'' PNone = PStr (ec_schema_version x)"

definition checkpoint_ok :: "execution_checkpoint \<Rightarrow> bool" where
  "checkpoint_ok x \<longleftrightarrow> ec_schema_version x = ''ge.execution-checkpoint.v1'' \<and> \<not> blank (ec_portfolio_id x) \<and> \<not> blank (ec_work_id x) \<and>
     \<not> blank (ec_action_ref x) \<and> \<not> blank (ec_source_revision x) \<and> \<not> blank (ec_observed_at x) \<and> \<not> blank (ec_summary x) \<and>
     0 \<le> ec_portfolio_generation x \<and> digest_ok (ec_portfolio_state_digest x) \<and> ec_role x \<in> set checkpoint_roles \<and>
     ec_state_before x \<in> set checkpoint_states \<and> ec_state_after x \<in> set checkpoint_states \<and> ec_evidence x \<noteq> [] \<and>
     distinct (map evidence_identity (ec_evidence x)) \<and>
     (\<forall>s\<in>set (ec_canonical_refs x). \<not> blank s) \<and> distinct (ec_canonical_refs x) \<and> ec_canonical_refs x \<noteq> [] \<and>
     (\<forall>s\<in>set (ec_uncertainties x). \<not> blank s) \<and> distinct (ec_uncertainties x) \<and>
     (\<forall>s\<in>set (ec_next_transition_refs x). \<not> blank s) \<and> distinct (ec_next_transition_refs x) \<and> checkpoint_check x = Inr x"

definition valid_checkpoint :: "execution_checkpoint \<Rightarrow> bool" where
  "valid_checkpoint x \<longleftrightarrow> checkpoint_ok x \<and> list_all checkpoint_evidence_ok (ec_evidence x)"

lemma checkpoint_check_same: "checkpoint_check x = Inr y \<Longrightarrow> y = x"
  unfolding checkpoint_check_def raise_unless_eq by simp

lemma checkpoint_evidence_init_Inr [exc_simps]:
  "checkpoint_evidence_init kvs = Inr x \<longleftrightarrow> checkpoint_evidence_ok x \<and> checkpoint_evidence_kwargs kvs x"
  unfolding checkpoint_evidence_init_def checkpoint_evidence_ok_def checkpoint_evidence_kwargs_def
  by (cases x) (auto simp only: exc_simps checkpoint_evidence.simps sum.inject)

lemma typed_bool_Inr [exc_simps]: "typed_bool v = Inr b \<longleftrightarrow> v = PBool b"
  by (auto simp: typed_bool_def split: pyval.splits)

lemma typed_str_option_Inr [exc_simps]: "py_unless_none typed_str v = Inr x \<longleftrightarrow> v = py_opt PStr x"
  by (cases x) (auto simp: py_unless_none_Inr typed_str_def split: pyval.splits)

lemma checkpoint_init_Inr [exc_simps]:
  "checkpoint_init kvs es = Inr x \<longleftrightarrow> checkpoint_ok x \<and> execution_checkpoint_kwargs kvs x \<and> ec_evidence x = es"
proof
  assume "checkpoint_init kvs es = Inr x"
  then show "checkpoint_ok x \<and> execution_checkpoint_kwargs kvs x \<and> ec_evidence x = es"
    unfolding checkpoint_init_def execution_checkpoint_kwargs_def
    by (simp only: exc_simps length_remdups_eq) (elim exE conjE, frule checkpoint_check_same, simp add: checkpoint_ok_def)
next
  assume "checkpoint_ok x \<and> execution_checkpoint_kwargs kvs x \<and> ec_evidence x = es"
  then show "checkpoint_init kvs es = Inr x"
    by (cases x) (simp add: checkpoint_init_def exc_simps checkpoint_ok_def execution_checkpoint_kwargs_def distinct_remdups_id)
qed

lemma checkpoint_kwargs_items [simp]:
  "checkpoint_evidence_kwargs (py_items (checkpoint_evidence_py e)) e" "checkpoint_evidence_kwargs (py_items (normalize (checkpoint_evidence_py e))) e"
  "execution_checkpoint_kwargs (py_items (execution_checkpoint_py x)) x" "execution_checkpoint_kwargs (py_items (normalize (execution_checkpoint_py x))) x"
  by (simp_all add: checkpoint_evidence_kwargs_def checkpoint_evidence_py_def execution_checkpoint_kwargs_def execution_checkpoint_py_def normalize_PDict)
    (simp_all add: kw_def)

lemma checkpoint_evidence_new_eq [exc_simps]: "checkpoint_evidence_new e = Inr e' \<longleftrightarrow> e' = e \<and> checkpoint_evidence_ok e"
proof -
  have "checkpoint_evidence_kwargs (py_items (checkpoint_evidence_py e)) e' \<Longrightarrow> e' = e"
    using checkpoint_kwargs_items(1) [of e] by (cases e; cases e') (simp add: checkpoint_evidence_kwargs_def)
  then show ?thesis unfolding checkpoint_evidence_new_def checkpoint_evidence_init_Inr by (metis checkpoint_kwargs_items(1))
qed

lemma checkpoint_new_eq [exc_simps]: "checkpoint_new x = Inr x' \<longleftrightarrow> x' = x \<and> checkpoint_ok x"
proof -
  have "execution_checkpoint_kwargs (py_items (execution_checkpoint_py x)) x' \<Longrightarrow> ec_evidence x' = ec_evidence x \<Longrightarrow> x' = x"
    using checkpoint_kwargs_items(3) [of x] by (cases x; cases x') (simp add: execution_checkpoint_kwargs_def)
  then show ?thesis unfolding checkpoint_new_def checkpoint_init_Inr by (metis checkpoint_kwargs_items(3))
qed

section \<open>The readers\<close>

interpretation checkpoint_evidence_reader: sound_codec checkpoint_evidence_py evidence_from_dict checkpoint_evidence_ok
proof unfold_locales
  show "evidence_from_dict (normalize (checkpoint_evidence_py e)) = Inr e" if "checkpoint_evidence_ok e" for e
    using that checkpoint_kwargs_items(2) [of e]
    by (simp add: evidence_from_dict_def exc_simps checkpoint_evidence_py_def normalize_PDict set_normal_items)
  show "checkpoint_evidence_ok e" if "evidence_from_dict d = Inr e" for d e
    using that by (auto simp: evidence_from_dict_def exc_simps)
qed

interpretation checkpoint_reader: sound_codec execution_checkpoint_py checkpoint_from_dict valid_checkpoint
proof unfold_locales
  show "checkpoint_from_dict (normalize (execution_checkpoint_py x)) = Inr x" if "valid_checkpoint x" for x
  proof -
    have "emap evidence_from_dict (map (normalize \<circ> checkpoint_evidence_py) (ec_evidence x)) = Inr (ec_evidence x)"
      using that by (intro emap_eq_Inr_map) (simp add: valid_checkpoint_def list_all_iff checkpoint_evidence_reader.dec_enc)
    moreover have "checkpoint_init (py_items (normalize (execution_checkpoint_py x))) (ec_evidence x) = Inr x"
      using that by (simp add: checkpoint_init_Inr valid_checkpoint_def)
    ultimately show ?thesis
      by (simp add: checkpoint_from_dict_def execution_checkpoint_py_def normalize_PDict exc_simps set_normal_items comp_def)
  qed
  show "valid_checkpoint x" if "checkpoint_from_dict d = Inr x" for d x
    using that checkpoint_evidence_reader.emap_ok
    by (auto simp: checkpoint_from_dict_def exc_simps valid_checkpoint_def list_field_Inr)
qed

text \<open>As for portfolios, an encoding is read as nothing else.\<close>

lemma evidence_reads_itself:
  assumes "evidence_from_dict (normalize (checkpoint_evidence_py e)) = Inr e'"
  shows "e' = e"
proof -
  have "checkpoint_evidence_kwargs (py_items (normalize (checkpoint_evidence_py e))) e'"
    using assms unfolding evidence_from_dict_def ebind_eq_Inr rethrow_eq_Inr exact_fields_Inr checkpoint_evidence_init_Inr
    by (elim exE conjE) simp
  then show ?thesis
    using checkpoint_kwargs_items(2) [of e] by (cases e; cases e') (simp add: checkpoint_evidence_kwargs_def)
qed

lemma checkpoint_reader_iff: "checkpoint_from_dict (normalize (execution_checkpoint_py x)) = Inr y \<longleftrightarrow> valid_checkpoint x \<and> y = x"
proof
  let ?kvs = "py_items (normalize (execution_checkpoint_py x))"
  assume read: "checkpoint_from_dict (normalize (execution_checkpoint_py x)) = Inr y"
  have fields: "kw ?kvs ''evidence'' PNone = PList (map (normalize \<circ> checkpoint_evidence_py) (ec_evidence x))"
    by (simp add: execution_checkpoint_py_def normalize_PDict)
  obtain es where es: "emap evidence_from_dict (map (normalize \<circ> checkpoint_evidence_py) (ec_evidence x)) = Inr es"
    and init: "checkpoint_init ?kvs es = Inr y"
    using read fields unfolding checkpoint_from_dict_def ebind_eq_Inr rethrow_eq_Inr exact_fields_Inr list_field_Inr
    by (metis py_items_simps pyval.inject(4))
  have "es = ec_evidence x"
    by (rule emap_reads_itself [OF _ es]) (simp add: evidence_reads_itself)
  then have "execution_checkpoint_kwargs ?kvs y" "ec_evidence y = ec_evidence x"
    using init by (simp_all add: checkpoint_init_Inr)
  then have "y = x"
    using checkpoint_kwargs_items(4) [of x] by (cases x; cases y) (simp add: execution_checkpoint_kwargs_def)
  with checkpoint_reader.dec_ok [OF read] show "valid_checkpoint x \<and> y = x" by simp
qed (simp add: checkpoint_reader.dec_enc)

lemma deserialize_checkpoint_iff: "deserialize_checkpoint (serialize_checkpoint x) = Inr y \<longleftrightarrow> valid_checkpoint x \<and> y = x"
  by (simp add: deserialize_checkpoint_def serialize_checkpoint_def json_loads_canonical execution_checkpoint.enc_wf checkpoint_reader_iff)

lemma deserialize_checkpoint_valid: "deserialize_checkpoint t = Inr x \<Longrightarrow> valid_checkpoint x"
  using checkpoint_reader.dec_ok by (auto simp: deserialize_checkpoint_def split: option.splits)

end
