(* ===== verification/Portfolio_Store.thy ===== *)
theory Portfolio_Store
  imports Portfolio_State Execution_Checkpoint Sql_Table Cas_Store
begin

text \<open>
  The durable portfolio (\<open>portfolio_persistence.py\<close>): one head row per portfolio with a snapshot of its state,
  and the table of all checkpoints. A commit names the digest of the state it was computed from, advances
  exactly one generation, and writes the checkpoint of the new state in the same transaction.
  A database is a record of the two tables; an operation that raises leaves it unchanged. What a successful
  transaction returns (\<open>_head\<close>) is computed after the commit, so it is a result of its own.
\<close>

section \<open>Heads and reports\<close>

record portfolio_head =
  ph_portfolio_id :: string
  ph_generation :: int
  ph_state_digest :: string
  ph_snapshot_digest :: string
  ph_latest_checkpoint_digest :: "string option"
  ph_schema_version :: string

definition portfolio_head_py :: "portfolio_head \<Rightarrow> pyval" where
  "portfolio_head_py x = PDict [
    (''portfolio_id'', PStr (ph_portfolio_id x)),
    (''generation'', PInt (ph_generation x)),
    (''state_digest'', PStr (ph_state_digest x)),
    (''snapshot_digest'', PStr (ph_snapshot_digest x)),
    (''latest_checkpoint_digest'', py_opt PStr (ph_latest_checkpoint_digest x)),
    (''schema_version'', PStr (ph_schema_version x))]"

definition portfolio_head_digest :: "hash \<Rightarrow> portfolio_head \<Rightarrow> string" where
  "portfolio_head_digest h x = sha256_digest h (portfolio_head_py x)"

definition portfolio_head_init :: "portfolio_head \<Rightarrow> portfolio_head exc" where
  "portfolio_head_init x =
     (if ph_schema_version x \<noteq> ''ge.durable-portfolio-head.v1''
      then Inl (PortfolioPersistenceError ''unsupported durable portfolio head schema'')
      else
      ebind (nonempty_field PortfolioPersistenceError ''portfolio_id'' (PStr (ph_portfolio_id x))) (\<lambda>_.
      ebind (int_field (PortfolioPersistenceError ''generation must be an integer'') 0
        (PortfolioPersistenceError ''generation cannot be negative'') (PInt (ph_generation x))) (\<lambda>_.
      ebind (digest_field PortfolioPersistenceError ''state_digest'' (PStr (ph_state_digest x))) (\<lambda>_.
      ebind (digest_field PortfolioPersistenceError ''snapshot_digest'' (PStr (ph_snapshot_digest x))) (\<lambda>_.
      ebind (optional_digest PortfolioPersistenceError ''latest_checkpoint_digest'' (py_opt PStr (ph_latest_checkpoint_digest x))) (\<lambda>_.
      if ph_generation x = 0 \<and> ph_latest_checkpoint_digest x \<noteq> None
      then Inl (PortfolioPersistenceError ''generation zero cannot have latest checkpoint'')
      else if ph_generation x > 0 \<and> ph_latest_checkpoint_digest x = None
      then Inl (PortfolioPersistenceError ''nonzero durable portfolio head requires checkpoint'')
      else Inr x))))))"

record portfolio_report =
  pq_portfolio_id :: string
  pq_generation :: int
  pq_state_digest :: string
  pq_snapshot_digest :: string
  pq_latest_checkpoint_digest :: "string option"
  pq_checkpoint_present :: bool
  pq_fabricated_state :: bool
  pq_fabricated_checkpoint :: bool
  pq_schema_version :: string

definition portfolio_report_py :: "portfolio_report \<Rightarrow> pyval" where
  "portfolio_report_py x = PDict [
    (''portfolio_id'', PStr (pq_portfolio_id x)),
    (''generation'', PInt (pq_generation x)),
    (''state_digest'', PStr (pq_state_digest x)),
    (''snapshot_digest'', PStr (pq_snapshot_digest x)),
    (''latest_checkpoint_digest'', py_opt PStr (pq_latest_checkpoint_digest x)),
    (''checkpoint_present'', PBool (pq_checkpoint_present x)),
    (''fabricated_state'', PBool (pq_fabricated_state x)),
    (''fabricated_checkpoint'', PBool (pq_fabricated_checkpoint x)),
    (''schema_version'', PStr (pq_schema_version x))]"

definition portfolio_report_digest :: "hash \<Rightarrow> portfolio_report \<Rightarrow> string" where
  "portfolio_report_digest h x = sha256_digest h (portfolio_report_py x)"

definition portfolio_report_init :: "portfolio_report \<Rightarrow> portfolio_report exc" where
  "portfolio_report_init x =
     (if pq_schema_version x \<noteq> ''ge.portfolio-recovery.v1''
      then Inl (PortfolioPersistenceError ''unsupported portfolio recovery schema'')
      else
      ebind (nonempty_field PortfolioPersistenceError ''portfolio_id'' (PStr (pq_portfolio_id x))) (\<lambda>_.
      ebind (int_field (PortfolioPersistenceError ''generation must be an integer'') 0
        (PortfolioPersistenceError ''generation cannot be negative'') (PInt (pq_generation x))) (\<lambda>_.
      ebind (digest_field PortfolioPersistenceError ''state_digest'' (PStr (pq_state_digest x))) (\<lambda>_.
      ebind (digest_field PortfolioPersistenceError ''snapshot_digest'' (PStr (pq_snapshot_digest x))) (\<lambda>_.
      ebind (optional_digest PortfolioPersistenceError ''latest_checkpoint_digest'' (py_opt PStr (pq_latest_checkpoint_digest x))) (\<lambda>_.
      if pq_fabricated_state x \<or> pq_fabricated_checkpoint x
      then Inl (PortfolioPersistenceError ''portfolio recovery cannot fabricate state or checkpoint'')
      else if pq_generation x = 0 \<and> pq_checkpoint_present x
      then Inl (PortfolioPersistenceError ''generation zero cannot report a checkpoint'')
      else if pq_generation x > 0 \<and> \<not> pq_checkpoint_present x
      then Inl (PortfolioPersistenceError ''nonzero generation requires a checkpoint'')
      else Inr x))))))"

section \<open>Snapshots\<close>

text \<open>The state in a snapshot is its dictionary after a trip through JSON, which always parses (see below).\<close>

definition portfolio_payload :: "hash \<Rightarrow> portfolio_state \<Rightarrow> (string \<times> pyval) list" where
  "portfolio_payload h s = [
     (''schema_version'', PStr ''ge.portfolio-snapshot.v1''),
     (''state'', case portfolio_state_to_dict s of Some d \<Rightarrow> d | None \<Rightarrow> PNone),
     (''state_digest'', PStr (portfolio_state_digest h s))]"

definition portfolio_snapshot :: "hash \<Rightarrow> portfolio_state \<Rightarrow> pyval" where
  "portfolio_snapshot h s = PDict (portfolio_payload h s @
     [(''snapshot_digest'', PStr (sha256_digest h (PDict (portfolio_payload h s))))])"

definition serialize_portfolio_snapshot :: "hash \<Rightarrow> portfolio_state \<Rightarrow> string" where
  "serialize_portfolio_snapshot h s = canonical_json (portfolio_snapshot h s)"

definition deserialize_portfolio_snapshot :: "hash \<Rightarrow> string \<Rightarrow> (portfolio_state \<times> string) exc" where
  "deserialize_portfolio_snapshot h payload = (case json_loads payload of
       None \<Rightarrow> Inl (PortfolioPersistenceError ''portfolio snapshot is not valid JSON'')
     | Some d \<Rightarrow>
         ebind (exact_fields PortfolioPersistenceError ''portfolio snapshot''
           [''schema_version'', ''state'', ''state_digest'', ''snapshot_digest''] d) (\<lambda>kvs.
         ebind (schema_field (PortfolioPersistenceError ''unsupported portfolio snapshot schema'') ''ge.portfolio-snapshot.v1''
           (kw kvs ''schema_version'' PNone)) (\<lambda>_.
         ebind (digest_field PortfolioPersistenceError ''snapshot_digest'' (kw kvs ''snapshot_digest'' PNone)) (\<lambda>snapshot_digest.
         if sha256_digest h (PDict (filter (\<lambda>kv. fst kv \<noteq> ''snapshot_digest'') kvs)) \<noteq> snapshot_digest
         then Inl (PortfolioPersistenceError ''portfolio snapshot digest mismatch'')
         else if \<not> py_is_dict (kw kvs ''state'' PNone)
         then Inl (PortfolioPersistenceError ''portfolio snapshot state must be an object'')
         else ebind (rethrow is_value_error (PortfolioPersistenceError ''invalid portfolio state in snapshot'')
           (portfolio_state_from_dict (kw kvs ''state'' PNone))) (\<lambda>s.
         ebind (digest_field PortfolioPersistenceError ''state_digest'' (kw kvs ''state_digest'' PNone)) (\<lambda>d.
         if portfolio_state_digest h s \<noteq> d
         then Inl (PortfolioPersistenceError ''portfolio snapshot state digest mismatch'')
         else Inr (s, snapshot_digest)))))))"

section \<open>The tables\<close>

record portfolio_row =
  pw_state_digest :: string
  pw_generation :: int
  pw_snapshot_digest :: string
  pw_snapshot_json :: string
  pw_latest_checkpoint_digest :: "string option"

record checkpoint_row =
  pk_portfolio_id :: string
  pk_generation :: int
  pk_checkpoint_id :: string
  pk_checkpoint_digest :: string
  pk_checkpoint_json :: string

record portfolio_db =
  pd_heads :: "string \<rightharpoonup> portfolio_row"
  pd_checkpoints :: "checkpoint_row list"

definition make_portfolio_head :: "hash \<Rightarrow> portfolio_state \<Rightarrow> string \<Rightarrow> string option \<Rightarrow> portfolio_head exc" where
  "make_portfolio_head h s snapshot_digest latest = portfolio_head_init
     \<lparr>ph_portfolio_id = pf_portfolio_id s, ph_generation = pf_generation s, ph_state_digest = portfolio_state_digest h s,
      ph_snapshot_digest = snapshot_digest, ph_latest_checkpoint_digest = latest,
      ph_schema_version = ''ge.durable-portfolio-head.v1''\<rparr>"

definition decode_portfolio_row :: "hash \<Rightarrow> portfolio_row \<Rightarrow> string \<Rightarrow> (portfolio_state \<times> portfolio_head) exc" where
  "decode_portfolio_row h row pid =
     ebind (deserialize_portfolio_snapshot h (pw_snapshot_json row)) (\<lambda>(s, snapshot_digest).
     if pf_portfolio_id s \<noteq> pid then Inl (PortfolioPersistenceError ''durable portfolio head identity mismatch'')
     else if portfolio_state_digest h s \<noteq> pw_state_digest row \<or> pf_generation s \<noteq> pw_generation row
       \<or> snapshot_digest \<noteq> pw_snapshot_digest row
     then Inl (PortfolioPersistenceError ''durable portfolio head metadata mismatch'')
     else ebind (make_portfolio_head h s snapshot_digest (pw_latest_checkpoint_digest row)) (\<lambda>durable. Inr (s, durable)))"

definition row_of_portfolio :: "hash \<Rightarrow> portfolio_state \<Rightarrow> string \<Rightarrow> string option \<Rightarrow> portfolio_row" where
  "row_of_portfolio h s snapshot_digest latest =
     \<lparr>pw_state_digest = portfolio_state_digest h s, pw_generation = pf_generation s, pw_snapshot_digest = snapshot_digest,
      pw_snapshot_json = serialize_portfolio_snapshot h s, pw_latest_checkpoint_digest = latest\<rparr>"

definition portfolio_initialize :: "hash \<Rightarrow> portfolio_db \<Rightarrow> portfolio_state \<Rightarrow> (portfolio_db \<times> portfolio_head exc) exc" where
  "portfolio_initialize h db s =
     (if pf_generation s \<noteq> 0 \<or> pf_previous_state_digest s \<noteq> None
      then Inl (PortfolioPersistenceError ''durable portfolio initialization requires generation zero'')
      else ebind (deserialize_portfolio_snapshot h (serialize_portfolio_snapshot h s)) (\<lambda>(_, snapshot_digest).
      case pd_heads db (pf_portfolio_id s) of
        Some row \<Rightarrow> ebind (decode_portfolio_row h row (pf_portfolio_id s)) (\<lambda>(existing, durable).
          if existing \<noteq> s
          then Inl (PortfolioPersistenceError ''durable portfolio head already exists with different state'')
          else Inr (db, Inr durable))
      | None \<Rightarrow> Inr (db\<lparr>pd_heads := (pd_heads db)(pf_portfolio_id s \<mapsto> row_of_portfolio h s snapshot_digest None)\<rparr>,
          make_portfolio_head h s snapshot_digest None)))"

definition portfolio_load :: "hash \<Rightarrow> portfolio_db \<Rightarrow> string \<Rightarrow> (portfolio_state \<times> portfolio_head) exc" where
  "portfolio_load h db pid =
     ebind (nonempty_field PortfolioPersistenceError ''portfolio_id'' (PStr pid)) (\<lambda>_.
     case pd_heads db pid of
       None \<Rightarrow> Inl (PortfolioPersistenceError ''durable portfolio head does not exist'')
     | Some row \<Rightarrow> decode_portfolio_row h row pid)"

definition checkpoint_at :: "portfolio_db \<Rightarrow> string \<Rightarrow> int \<Rightarrow> checkpoint_row option" where
  "checkpoint_at db pid generation =
     select_one (\<lambda>r. (pk_portfolio_id r, pk_generation r)) (pid, generation) (pd_checkpoints db)"

text \<open>The checks that both readers of a checkpoint row make first.\<close>

definition decode_checkpoint_row :: "hash \<Rightarrow> checkpoint_row \<Rightarrow> execution_checkpoint exc" where
  "decode_checkpoint_row h r =
     ebind (rethrow is_value_error (PortfolioPersistenceError ''invalid durable portfolio checkpoint'')
       (deserialize_checkpoint (pk_checkpoint_json r))) (\<lambda>x.
     if checkpoint_id h x \<noteq> pk_checkpoint_id r then Inl (PortfolioPersistenceError ''durable checkpoint id mismatch'')
     else if execution_checkpoint_digest h x \<noteq> pk_checkpoint_digest r
     then Inl (PortfolioPersistenceError ''durable checkpoint digest mismatch'')
     else Inr x)"

definition load_checkpoint :: "hash \<Rightarrow> portfolio_db \<Rightarrow> string \<Rightarrow> int \<Rightarrow> execution_checkpoint exc" where
  "load_checkpoint h db pid generation =
     ebind (nonempty_field PortfolioPersistenceError ''portfolio_id'' (PStr pid)) (\<lambda>_.
     if generation < 1 then Inl (PortfolioPersistenceError ''checkpoint generation must be an integer >= 1'')
     else case checkpoint_at db pid generation of
       None \<Rightarrow> Inl (PortfolioPersistenceError ''durable portfolio checkpoint does not exist'')
     | Some r \<Rightarrow> ebind (decode_checkpoint_row h r) (\<lambda>x.
         if ec_portfolio_id x \<noteq> pid \<or> ec_portfolio_generation x \<noteq> generation
         then Inl (PortfolioPersistenceError ''durable checkpoint metadata mismatch'') else Inr x))"

definition load_recovery_snapshot :: "hash \<Rightarrow> portfolio_db \<Rightarrow> string \<Rightarrow>
   (portfolio_state \<times> portfolio_head \<times> execution_checkpoint option) exc" where
  "load_recovery_snapshot h db pid =
     ebind (nonempty_field PortfolioPersistenceError ''portfolio_id'' (PStr pid)) (\<lambda>_.
     case pd_heads db pid of
       None \<Rightarrow> Inl (PortfolioPersistenceError ''durable portfolio head does not exist'')
     | Some row \<Rightarrow>
         let joined = checkpoint_at db pid (pw_generation row) in
         ebind (decode_portfolio_row h row pid) (\<lambda>(s, durable).
         if pf_generation s = 0 then
           (if ph_latest_checkpoint_digest durable \<noteq> None \<or> joined \<noteq> None
            then Inl (PortfolioPersistenceError ''generation zero cannot bind a checkpoint'') else Inr (s, durable, None))
         else case joined of
           None \<Rightarrow> Inl (PortfolioPersistenceError ''durable portfolio head is missing its current checkpoint'')
         | Some r \<Rightarrow> ebind (decode_checkpoint_row h r) (\<lambda>x.
             if Some (execution_checkpoint_digest h x) \<noteq> ph_latest_checkpoint_digest durable
             then Inl (PortfolioPersistenceError ''latest checkpoint digest mismatch'')
             else if ec_portfolio_id x \<noteq> pid \<or> ec_portfolio_generation x \<noteq> pf_generation s
               \<or> ec_portfolio_state_digest x \<noteq> portfolio_state_digest h s
             then Inl (PortfolioPersistenceError ''durable checkpoint does not bind current head'')
             else Inr (s, durable, Some x))))"

definition latest_checkpoint :: "hash \<Rightarrow> portfolio_db \<Rightarrow> string \<Rightarrow> execution_checkpoint option exc" where
  "latest_checkpoint h db pid = ebind (load_recovery_snapshot h db pid) (\<lambda>(_, _, x). Inr x)"

text \<open>The primary key and the two unique columns of the checkpoint table.\<close>

definition checkpoint_keys :: "(checkpoint_row \<Rightarrow> pyval) list" where
  "checkpoint_keys = [\<lambda>r. PTuple [PStr (pk_portfolio_id r), PInt (pk_generation r)], \<lambda>r. PStr (pk_checkpoint_id r),
     \<lambda>r. PStr (pk_checkpoint_digest r)]"

definition checkpoint_row_of :: "hash \<Rightarrow> string \<Rightarrow> portfolio_state \<Rightarrow> execution_checkpoint \<Rightarrow> checkpoint_row" where
  "checkpoint_row_of h pid s x =
     \<lparr>pk_portfolio_id = pid, pk_generation = pf_generation s, pk_checkpoint_id = checkpoint_id h x,
      pk_checkpoint_digest = execution_checkpoint_digest h x, pk_checkpoint_json = serialize_checkpoint x\<rparr>"

text \<open>The checkpoint is inserted, then the head is updated where it still is the one that was read.\<close>

definition write_portfolio :: "hash \<Rightarrow> portfolio_db \<Rightarrow> string \<Rightarrow> string \<Rightarrow> portfolio_row \<Rightarrow> portfolio_state \<Rightarrow> portfolio_state \<Rightarrow> string \<Rightarrow>
   execution_checkpoint \<Rightarrow> (portfolio_db \<times> portfolio_head exc) exc" where
  "write_portfolio h db pid expected row current new snapshot_digest x =
     ebind (rethrow (\<lambda>e. e = IntegrityError) (PortfolioPersistenceError ''durable portfolio checkpoint already exists'')
       (insert_unique checkpoint_keys (checkpoint_row_of h pid new x) (pd_checkpoints db))) (\<lambda>rows.
     if \<not> (pw_state_digest row = expected \<and> pw_generation row = pf_generation current)
     then Inl (PortfolioPersistenceError ''durable portfolio compare-and-swap failed'')
     else Inr (\<lparr>pd_heads = (pd_heads db)(pid \<mapsto> row_of_portfolio h new snapshot_digest (Some (execution_checkpoint_digest h x))),
         pd_checkpoints = rows\<rparr>,
       make_portfolio_head h new snapshot_digest (Some (execution_checkpoint_digest h x))))"

definition portfolio_commit :: "hash \<Rightarrow> portfolio_db \<Rightarrow> string \<Rightarrow> string \<Rightarrow> portfolio_state \<Rightarrow> execution_checkpoint \<Rightarrow>
   (portfolio_db \<times> portfolio_head exc) exc" where
  "portfolio_commit h db pid expected new x =
     ebind (nonempty_field PortfolioPersistenceError ''portfolio_id'' (PStr pid)) (\<lambda>_.
     ebind (digest_field PortfolioPersistenceError ''expected_state_digest'' (PStr expected)) (\<lambda>_.
     if pf_portfolio_id new \<noteq> pid then Inl (PortfolioPersistenceError ''portfolio commit identity mismatch'')
     else case pd_heads db pid of
       None \<Rightarrow> Inl (PortfolioPersistenceError ''durable portfolio head does not exist'')
     | Some row \<Rightarrow> ebind (decode_portfolio_row h row pid) (\<lambda>(current, _).
         if portfolio_state_digest h current \<noteq> expected then Inl (PortfolioPersistenceError ''stale durable portfolio head'')
         else if pf_generation new \<noteq> pf_generation current + 1
         then Inl (PortfolioPersistenceError ''durable portfolio commit must advance exactly one generation'')
         else if pf_previous_state_digest new \<noteq> Some (portfolio_state_digest h current)
         then Inl (PortfolioPersistenceError ''durable portfolio commit predecessor mismatch'')
         else if ec_portfolio_id x \<noteq> pid
         then Inl (PortfolioPersistenceError ''checkpoint portfolio identity does not bind new state'')
         else if ec_portfolio_generation x \<noteq> pf_generation new
         then Inl (PortfolioPersistenceError ''checkpoint generation does not bind new state'')
         else if ec_portfolio_state_digest x \<noteq> portfolio_state_digest h new
         then Inl (PortfolioPersistenceError ''checkpoint state digest does not bind new state'')
         else ebind (deserialize_portfolio_snapshot h (serialize_portfolio_snapshot h new)) (\<lambda>(_, snapshot_digest).
         ebind (rethrow is_value_error (PortfolioPersistenceError ''checkpoint does not round-trip canonically'')
           (deserialize_checkpoint (serialize_checkpoint x))) (\<lambda>decoded.
         if decoded \<noteq> x then Inl (PortfolioPersistenceError ''checkpoint does not round-trip canonically'')
         else write_portfolio h db pid expected row current new snapshot_digest x)))))"

section \<open>Restart recovery\<close>

definition verify_portfolio_recovery :: "hash \<Rightarrow> portfolio_state \<Rightarrow> portfolio_head \<Rightarrow> execution_checkpoint option \<Rightarrow> portfolio_report \<Rightarrow> bool" where
  "verify_portfolio_recovery h s durable checkpoint report =
     (if pf_portfolio_id s \<noteq> ph_portfolio_id durable \<or> portfolio_state_digest h s \<noteq> ph_state_digest durable \<or> pf_generation s \<noteq> ph_generation durable
      then False
      else if pq_portfolio_id report \<noteq> pf_portfolio_id s \<or> pq_generation report \<noteq> pf_generation s
        \<or> pq_state_digest report \<noteq> portfolio_state_digest h s \<or> pq_snapshot_digest report \<noteq> ph_snapshot_digest durable
        \<or> pq_latest_checkpoint_digest report \<noteq> ph_latest_checkpoint_digest durable
      then False
      else if pf_generation s = 0 then checkpoint = None \<and> \<not> pq_checkpoint_present report
      else case checkpoint of None \<Rightarrow> False
      | Some x \<Rightarrow> pq_checkpoint_present report \<and> ec_portfolio_id x = pf_portfolio_id s
          \<and> ec_portfolio_generation x = pf_generation s \<and> ec_portfolio_state_digest x = portfolio_state_digest h s
          \<and> Some (execution_checkpoint_digest h x) = ph_latest_checkpoint_digest durable)"

definition recover_portfolio :: "hash \<Rightarrow> portfolio_db \<Rightarrow> string \<Rightarrow>
   (portfolio_state \<times> execution_checkpoint option \<times> portfolio_report) exc" where
  "recover_portfolio h db pid =
     ebind (load_recovery_snapshot h db pid) (\<lambda>(s, durable, checkpoint).
     ebind (portfolio_report_init
       \<lparr>pq_portfolio_id = pf_portfolio_id s, pq_generation = pf_generation s, pq_state_digest = portfolio_state_digest h s,
        pq_snapshot_digest = ph_snapshot_digest durable, pq_latest_checkpoint_digest = ph_latest_checkpoint_digest durable,
        pq_checkpoint_present = (checkpoint \<noteq> None), pq_fabricated_state = False, pq_fabricated_checkpoint = False,
        pq_schema_version = ''ge.portfolio-recovery.v1''\<rparr>) (\<lambda>report.
     if \<not> verify_portfolio_recovery h s durable checkpoint report
     then Inl (PortfolioPersistenceError ''portfolio restart recovery does not reproduce'')
     else Inr (s, checkpoint, report)))"

section \<open>Snapshots are read back exactly\<close>

definition portfolio_snapshot_digest :: "hash \<Rightarrow> portfolio_state \<Rightarrow> string" where
  "portfolio_snapshot_digest h s = sha256_digest h (PDict (portfolio_payload h s))"

lemma portfolio_state_to_dict_eq: "portfolio_state_to_dict s = Some (normalize (portfolio_state_py s))"
  by (simp add: portfolio_state_to_dict_def json_loads_canonical portfolio_state.enc_wf)

lemma portfolio_snapshot_wf: "wf_py (portfolio_snapshot h s)"
  by (simp add: portfolio_snapshot_def portfolio_payload_def portfolio_state_to_dict_eq wf_py_normalize)

lemma loads_portfolio_snapshot: "json_loads (serialize_portfolio_snapshot h s) =
   Some (PDict (normal_items (portfolio_payload h s @ [(''snapshot_digest'', PStr (portfolio_snapshot_digest h s))])))"
  unfolding serialize_portfolio_snapshot_def json_loads_canonical [OF portfolio_snapshot_wf]
  by (simp add: portfolio_snapshot_def normalize_PDict portfolio_snapshot_digest_def)

lemma portfolio_snapshot_fields:
  "kw (normal_items (portfolio_payload h s @ [(''snapshot_digest'', PStr d)])) ''state'' PNone = normalize (portfolio_state_py s)"
  "kw (normal_items (portfolio_payload h s @ [(''snapshot_digest'', PStr d)])) ''state_digest'' PNone = PStr (portfolio_state_digest h s)"
  "kw (normal_items (portfolio_payload h s @ [(''snapshot_digest'', PStr d)])) ''snapshot_digest'' PNone = PStr d"
  "kw (normal_items (portfolio_payload h s @ [(''snapshot_digest'', PStr d)])) ''schema_version'' PNone = PStr ''ge.portfolio-snapshot.v1''"
  by (simp_all add: portfolio_payload_def portfolio_state_to_dict_eq normalize_idem)

lemma digest_ok_portfolio:
  assumes "hex_digest h"
  shows "digest_ok (portfolio_snapshot_digest h s)" "digest_ok (portfolio_state_digest h s)" "digest_ok (execution_checkpoint_digest h x)"
  using hex_digest.digest_ok_sha256 [OF assms]
  by (simp_all add: portfolio_snapshot_digest_def portfolio_state_digest_def execution_checkpoint_digest_def)

lemma deserialize_portfolio_Inr:
  "deserialize_portfolio_snapshot h (serialize_portfolio_snapshot h s) = Inr (s', d) \<longleftrightarrow>
     valid_portfolio s \<and> s' = s \<and> d = portfolio_snapshot_digest h s \<and> digest_ok d \<and> digest_ok (portfolio_state_digest h s)"
proof -
  define N where "N = normal_items (portfolio_payload h s @ [(''snapshot_digest'', PStr (portfolio_snapshot_digest h s))])"
  have keys: "fst ` set N = set [''schema_version'', ''state'', ''state_digest'', ''snapshot_digest'']"
    unfolding N_def set_normal_items by (auto simp: portfolio_payload_def)
  have "filter (\<lambda>kv. fst kv \<noteq> ''snapshot_digest'') (portfolio_payload h s @ [(''snapshot_digest'', PStr (portfolio_snapshot_digest h s))])
      = portfolio_payload h s"
    by (simp add: portfolio_payload_def)
  then have digest: "sha256_digest h (PDict (filter (\<lambda>kv. fst kv \<noteq> ''snapshot_digest'') N)) = portfolio_snapshot_digest h s"
    unfolding N_def digest_without_key by (simp add: portfolio_snapshot_digest_def)
  have dict: "py_is_dict (normalize (portfolio_state_py s))" by (simp add: portfolio_state_py_def)
  note fields = portfolio_snapshot_fields [of h s "portfolio_snapshot_digest h s", folded N_def]
  have exact: "exact_fields E l [''schema_version'', ''state'', ''state_digest'', ''snapshot_digest''] (PDict N) = Inr N" for E l
    using keys by (simp add: exact_fields_Inr)
  then show ?thesis
    unfolding deserialize_portfolio_snapshot_def loads_portfolio_snapshot N_def [symmetric] option.case exact ebind_Inr
    by (auto simp: fields digest dict exc_simps portfolio_reader_iff)
qed

lemma deserialize_portfolio_iff:
  assumes "hex_digest h"
  shows "deserialize_portfolio_snapshot h (serialize_portfolio_snapshot h s) = Inr (s', d) \<longleftrightarrow>
     valid_portfolio s \<and> s' = s \<and> d = portfolio_snapshot_digest h s"
  using digest_ok_portfolio [OF assms] by (auto simp: deserialize_portfolio_Inr)

lemma deserialize_portfolio_valid:
  assumes "deserialize_portfolio_snapshot h t = Inr (s, d)"
  shows "valid_portfolio s"
  using assms portfolio_reader.dec_ok
  by (auto simp: deserialize_portfolio_snapshot_def ebind_eq_Inr rethrow_eq_Inr split: option.splits if_splits)

section \<open>Rows that were written\<close>

definition head_for :: "hash \<Rightarrow> portfolio_state \<Rightarrow> string option \<Rightarrow> portfolio_head" where
  "head_for h s latest =
     \<lparr>ph_portfolio_id = pf_portfolio_id s, ph_generation = pf_generation s, ph_state_digest = portfolio_state_digest h s,
      ph_snapshot_digest = portfolio_snapshot_digest h s, ph_latest_checkpoint_digest = latest,
      ph_schema_version = ''ge.durable-portfolio-head.v1''\<rparr>"

definition stored_portfolio :: "hash \<Rightarrow> portfolio_state \<Rightarrow> string option \<Rightarrow> portfolio_row" where
  "stored_portfolio h s latest = row_of_portfolio h s (portfolio_snapshot_digest h s) latest"

lemma make_head_Inr:
  assumes "hex_digest h" and "valid_portfolio s"
  shows "make_portfolio_head h s (portfolio_snapshot_digest h s) latest = Inr x \<longleftrightarrow>
     x = head_for h s latest \<and> pred_option digest_ok latest \<and> (latest = None \<longleftrightarrow> pf_generation s = 0)"
proof -
  have "\<not> blank (pf_portfolio_id s)" "0 \<le> pf_generation s"
    using assms(2) by (simp_all add: valid_portfolio_def portfolio_state_ok_def)
  then show ?thesis
    using digest_ok_portfolio [OF assms(1)]
    by (cases latest) (auto simp: make_portfolio_head_def head_for_def portfolio_head_init_def exc_simps)
qed

lemma decode_stored_portfolio:
  assumes "hex_digest h"
  shows "decode_portfolio_row h (stored_portfolio h s latest) pid = Inr (s', x) \<longleftrightarrow>
     valid_portfolio s \<and> pf_portfolio_id s = pid \<and> pred_option digest_ok latest \<and> (latest = None \<longleftrightarrow> pf_generation s = 0) \<and>
     s' = s \<and> x = head_for h s latest"
proof -
  have "decode_portfolio_row h (stored_portfolio h s latest) pid = Inr (s', x) \<longleftrightarrow>
     valid_portfolio s \<and> pf_portfolio_id s = pid \<and> s' = s \<and>
     make_portfolio_head h s (portfolio_snapshot_digest h s) latest = Inr x"
    by (auto simp: decode_portfolio_row_def stored_portfolio_def row_of_portfolio_def ebind_eq_Inr deserialize_portfolio_iff [OF assms])
  then show ?thesis using make_head_Inr [OF assms] by auto
qed

lemma decode_checkpoint_row_of:
  "decode_checkpoint_row h (checkpoint_row_of h pid s x) = Inr y \<longleftrightarrow> valid_checkpoint x \<and> y = x"
  by (auto simp: decode_checkpoint_row_def checkpoint_row_of_def ebind_eq_Inr rethrow_eq_Inr deserialize_checkpoint_iff)

section \<open>The store is an append-only history\<close>

text \<open>
  The abstract specification: each portfolio has a history of states, each after the first with the
  checkpoint that binds it; a state names its predecessor's digest and the next generation.
\<close>

definition checkpoint_binds :: "hash \<Rightarrow> string \<Rightarrow> portfolio_state \<Rightarrow> execution_checkpoint \<Rightarrow> bool" where
  "checkpoint_binds h pid s x \<longleftrightarrow> valid_checkpoint x \<and> ec_portfolio_id x = pid \<and> ec_portfolio_generation x = pf_generation s \<and>
     ec_portfolio_state_digest x = portfolio_state_digest h s"

inductive portfolio_history :: "hash \<Rightarrow> string \<Rightarrow> (portfolio_state \<times> execution_checkpoint option) list \<Rightarrow> bool" for h pid where
  genesis: "valid_portfolio s \<Longrightarrow> pf_portfolio_id s = pid \<Longrightarrow> pf_generation s = 0 \<Longrightarrow> portfolio_history h pid [(s, None)]"
| extended: "portfolio_history h pid xs \<Longrightarrow> valid_portfolio t \<Longrightarrow> pf_portfolio_id t = pid \<Longrightarrow>
     pf_generation t = pf_generation (fst (last xs)) + 1 \<Longrightarrow>
     pf_previous_state_digest t = Some (portfolio_state_digest h (fst (last xs))) \<Longrightarrow> checkpoint_binds h pid t x \<Longrightarrow>
     portfolio_history h pid (xs @ [(t, Some x)])"

lemma portfolio_history_last:
  assumes "portfolio_history h pid xs"
  shows "xs \<noteq> []" and "pf_generation (fst (last xs)) = int (length xs) - 1" and "valid_portfolio (fst (last xs))"
    and "pf_portfolio_id (fst (last xs)) = pid" and "snd (last xs) = None \<longleftrightarrow> length xs = 1"
    and "snd (last xs) = Some x \<Longrightarrow> checkpoint_binds h pid (fst (last xs)) x"
proof -
  have "xs \<noteq> [] \<and> pf_generation (fst (last xs)) = int (length xs) - 1 \<and> valid_portfolio (fst (last xs)) \<and>
      pf_portfolio_id (fst (last xs)) = pid \<and> (snd (last xs) = None \<longleftrightarrow> length xs = 1) \<and>
      (\<forall>x. snd (last xs) = Some x \<longrightarrow> checkpoint_binds h pid (fst (last xs)) x)"
    using assms by induction auto
  then show "xs \<noteq> []" "pf_generation (fst (last xs)) = int (length xs) - 1" "valid_portfolio (fst (last xs))"
    "pf_portfolio_id (fst (last xs)) = pid" "snd (last xs) = None \<longleftrightarrow> length xs = 1"
    "snd (last xs) = Some x \<Longrightarrow> checkpoint_binds h pid (fst (last xs)) x"
    by blast+
qed

lemma portfolio_history_nth:
  assumes "portfolio_history h pid xs" and "0 < i" and "i < length xs"
  shows "\<exists>x. snd (xs ! i) = Some x \<and> checkpoint_binds h pid (fst (xs ! i)) x \<and> pf_generation (fst (xs ! i)) = int i"
  using assms
proof (induction arbitrary: i)
  case (extended xs t x)
  show ?case
  proof (cases "i < length xs")
    case True with extended show ?thesis by (simp add: nth_append)
  next
    case False
    with extended have "i = length xs" by simp
    with extended show ?thesis using portfolio_history_last(2) by (simp add: nth_append)
  qed
qed simp

type_synonym portfolio_histories = "string \<Rightarrow> (portfolio_state \<times> execution_checkpoint option) list"

definition recorded_row :: "hash \<Rightarrow> portfolio_state \<times> execution_checkpoint option \<Rightarrow> portfolio_row" where
  "recorded_row h e = stored_portfolio h (fst e) (map_option (execution_checkpoint_digest h) (snd e))"

definition recorded_checkpoint :: "hash \<Rightarrow> string \<Rightarrow> portfolio_state \<times> execution_checkpoint option \<Rightarrow> checkpoint_row option" where
  "recorded_checkpoint h pid e = map_option (checkpoint_row_of h pid (fst e)) (snd e)"

definition represents :: "hash \<Rightarrow> portfolio_db \<Rightarrow> portfolio_histories \<Rightarrow> bool" where
  "represents h db H \<longleftrightarrow>
     (\<forall>pid. if H pid = [] then pd_heads db pid = None
       else portfolio_history h pid (H pid) \<and> pd_heads db pid = Some (recorded_row h (last (H pid)))) \<and>
     (\<forall>pid g. checkpoint_at db pid g =
       (if 1 \<le> g \<and> g < int (length (H pid)) then recorded_checkpoint h pid (H pid ! nat g) else None))"

definition empty_portfolio_db :: portfolio_db where
  "empty_portfolio_db = \<lparr>pd_heads = Map.empty, pd_checkpoints = []\<rparr>"

lemma represents_empty: "represents h empty_portfolio_db (\<lambda>_. [])"
  by (auto simp: represents_def empty_portfolio_db_def checkpoint_at_def select_one_def)

lemma represents_head:
  assumes "represents h db H"
  shows "pd_heads db pid = Some row \<longleftrightarrow> portfolio_history h pid (H pid) \<and> row = recorded_row h (last (H pid))"
    and "pd_heads db pid = None \<longleftrightarrow> H pid = []"
  using assms portfolio_history_last(1) unfolding represents_def by (metis option.inject option.distinct(1))+

lemma represents_history:
  assumes "represents h db H" and "H pid \<noteq> []"
  shows "portfolio_history h pid (H pid)"
  using represents_head [OF assms(1), of pid] assms(2) by (cases "pd_heads db pid") auto

lemma decode_recorded:
  assumes "hex_digest h" and "portfolio_history h pid xs"
  shows "decode_portfolio_row h (recorded_row h (last xs)) pid = Inr (s, d) \<longleftrightarrow>
     s = fst (last xs) \<and> d = head_for h s (map_option (execution_checkpoint_digest h) (snd (last xs)))"
proof -
  have "pred_option digest_ok (map_option (execution_checkpoint_digest h) (snd (last xs)))"
    using digest_ok_portfolio(3) [OF assms(1)] by (simp add: option.pred_map option.pred_True comp_def)
  then show ?thesis
    using portfolio_history_last(2-5) [OF assms(2)]
    by (auto simp: recorded_row_def decode_stored_portfolio [OF assms(1)])
qed

section \<open>What the operations do to the history\<close>

definition checkpoint_fresh :: "hash \<Rightarrow> portfolio_db \<Rightarrow> execution_checkpoint \<Rightarrow> bool" where
  "checkpoint_fresh h db x \<longleftrightarrow> (\<forall>r\<in>set (pd_checkpoints db).
     pk_checkpoint_id r \<noteq> checkpoint_id h x \<and> pk_checkpoint_digest r \<noteq> execution_checkpoint_digest h x)"

lemma checkpoint_insert_Inr:
  "insert_unique checkpoint_keys (checkpoint_row_of h pid s x) (pd_checkpoints db) = Inr rows \<longleftrightarrow>
   rows = pd_checkpoints db @ [checkpoint_row_of h pid s x] \<and> checkpoint_at db pid (pf_generation s) = None \<and> checkpoint_fresh h db x"
  by (auto simp: insert_unique_Inr checkpoint_keys_def select_one_None checkpoint_at_def checkpoint_fresh_def checkpoint_row_of_def)

text \<open>When a commit succeeds on a database with a known history, and what it leaves.\<close>

lemma portfolio_commit_Inr:
  assumes h: "hex_digest h" and rep: "represents h db H"
  shows "portfolio_commit h db pid expected new x = Inr (db', r) \<longleftrightarrow>
     (H pid \<noteq> [] \<and> expected = portfolio_state_digest h (fst (last (H pid))) \<and> portfolio_history h pid (H pid @ [(new, Some x)]) \<and>
      checkpoint_fresh h db x \<and>
      db' = \<lparr>pd_heads = (pd_heads db)(pid \<mapsto> recorded_row h (new, Some x)),
        pd_checkpoints = pd_checkpoints db @ [checkpoint_row_of h pid new x]\<rparr> \<and>
      r = Inr (head_for h new (Some (execution_checkpoint_digest h x))))"
  (is "?commit \<longleftrightarrow> ?ok")
proof -
  have ext: "portfolio_history h pid (xs @ [(new, Some x)]) \<longleftrightarrow> portfolio_history h pid xs \<and> valid_portfolio new \<and>
      pf_portfolio_id new = pid \<and> pf_generation new = pf_generation (fst (last xs)) + 1 \<and>
      pf_previous_state_digest new = Some (portfolio_state_digest h (fst (last xs))) \<and> checkpoint_binds h pid new x" for xs
    by (auto elim: portfolio_history.cases intro: portfolio_history.extended)
  show ?thesis
  proof (cases "pd_heads db pid")
    case None
    then have "H pid = []" using represents_head(2) [OF rep] by simp
    moreover have "\<not> ?commit" using None by (simp add: portfolio_commit_def ebind_eq_Inr raise_unless_eq)
    ultimately show ?thesis by simp
  next
    case (Some row)
    then have hist: "portfolio_history h pid (H pid)" and row: "row = recorded_row h (last (H pid))"
      using represents_head(1) [OF rep] by auto
    let ?cur = "fst (last (H pid))"
    note last = portfolio_history_last [OF hist]
    have id: "\<not> blank pid" using last(3,4) by (auto simp: valid_portfolio_def portfolio_state_ok_def)
    have free: "checkpoint_at db pid (pf_generation new) = None" if "pf_generation new = pf_generation ?cur + 1"
      using rep that last(2) by (simp add: represents_def)
    have cols: "pw_state_digest row = portfolio_state_digest h ?cur" "pw_generation row = pf_generation ?cur"
      by (simp_all add: row recorded_row_def stored_portfolio_def row_of_portfolio_def)
    have made: "make_portfolio_head h new (portfolio_snapshot_digest h new) (Some (execution_checkpoint_digest h x)) =
        Inr (head_for h new (Some (execution_checkpoint_digest h x)))"
      if "valid_portfolio new" "pf_generation new = pf_generation ?cur + 1"
      using that last(2) make_head_Inr [OF h that(1)] digest_ok_portfolio(3) [OF h] last(1) by (simp add: Suc_le_eq)
    have "?commit \<longleftrightarrow> digest_ok expected \<and> pf_portfolio_id new = pid \<and> portfolio_state_digest h ?cur = expected \<and>
        pf_generation new = pf_generation ?cur + 1 \<and> pf_previous_state_digest new = Some (portfolio_state_digest h ?cur) \<and>
        ec_portfolio_id x = pid \<and> ec_portfolio_generation x = pf_generation new \<and>
        ec_portfolio_state_digest x = portfolio_state_digest h new \<and> valid_portfolio new \<and> valid_checkpoint x \<and>
        write_portfolio h db pid expected row ?cur new (portfolio_snapshot_digest h new) x = Inr (db', r)"
      using id decode_recorded [OF h hist] unfolding portfolio_commit_def Some option.case row
      by (auto simp: exc_simps deserialize_portfolio_iff [OF h] deserialize_checkpoint_iff)
    also have "\<dots> \<longleftrightarrow> ?ok"
      using hist last(1) cols free made digest_ok_portfolio(2) [OF h]
      by (auto simp: ext checkpoint_binds_def write_portfolio_def ebind_eq_Inr rethrow_eq_Inr checkpoint_insert_Inr recorded_row_def stored_portfolio_def)
    finally show ?thesis .
  qed
qed

lemma represents_extended:
  assumes rep: "represents h db H" and hist: "portfolio_history h pid (H pid @ [(new, Some x)])" and "H pid \<noteq> []"
  shows "represents h \<lparr>pd_heads = (pd_heads db)(pid \<mapsto> recorded_row h (new, Some x)),
     pd_checkpoints = pd_checkpoints db @ [checkpoint_row_of h pid new x]\<rparr> (H(pid := H pid @ [(new, Some x)]))"
    (is "represents h ?db ?H")
proof -
  have gen: "pf_generation new = int (length (H pid))"
    using portfolio_history_last(2) [OF hist] by simp
  have at: "checkpoint_at ?db pid' g = (case checkpoint_at db pid' g of Some r \<Rightarrow> Some r
      | None \<Rightarrow> if (pid, pf_generation new) = (pid', g) then Some (checkpoint_row_of h pid new x) else None)" for pid' g
    by (auto simp: checkpoint_at_def select_one_append checkpoint_row_of_def split: option.splits)
  have old: "checkpoint_at db pid' g =
      (if 1 \<le> g \<and> g < int (length (H pid')) then recorded_checkpoint h pid' (H pid' ! nat g) else None)" for pid' g
    using rep by (simp add: represents_def)
  have "checkpoint_at ?db pid' g = (if 1 \<le> g \<and> g < int (length (?H pid')) then recorded_checkpoint h pid' (?H pid' ! nat g) else None)" for pid' g
  proof (cases "pid' = pid")
    case True
    show ?thesis
    proof (cases "1 \<le> g \<and> g < int (length (H pid))")
      case inside: True
      then have "nat g < length (H pid)" by linarith
      moreover have "recorded_checkpoint h pid (H pid ! nat g) \<noteq> None"
        using inside calculation portfolio_history_nth [of h pid "H pid" "nat g"] rep assms(3)
        by (auto simp: recorded_checkpoint_def represents_def)
      ultimately show ?thesis
        using inside True by (auto simp: at old nth_append)
    next
      case outside: False
      have "length (H pid) > 0" using assms(3) by simp
      then have "1 \<le> g \<and> g < int (length (?H pid)) \<longleftrightarrow> g = int (length (H pid))" using outside by (simp; linarith)
      then show ?thesis
        using outside True gen by (auto simp: at old recorded_checkpoint_def)
    qed
  next
    case False then show ?thesis by (auto simp: at old split: option.splits)
  qed
  moreover have "if ?H pid' = [] then pd_heads ?db pid' = None
      else portfolio_history h pid' (?H pid') \<and> pd_heads ?db pid' = Some (recorded_row h (last (?H pid')))" for pid'
    using rep hist by (simp add: represents_def)
  ultimately show ?thesis unfolding represents_def by blast
qed

lemma represents_initialized:
  assumes rep: "represents h db H" and "H pid = []" and hist: "portfolio_history h pid [(s, None)]"
  shows "represents h (db\<lparr>pd_heads := (pd_heads db)(pid \<mapsto> recorded_row h (s, None))\<rparr>) (H(pid := [(s, None)]))"
proof -
  have at: "checkpoint_at (db\<lparr>pd_heads := m\<rparr>) pid' g = checkpoint_at db pid' g" for m pid' g
    by (simp add: checkpoint_at_def)
  show ?thesis
    using rep hist assms(2) unfolding represents_def at by auto
qed

lemma portfolio_initialize_Inr:
  assumes h: "hex_digest h" and rep: "represents h db H"
  shows "portfolio_initialize h db s = Inr (db', r) \<longleftrightarrow> portfolio_history h (pf_portfolio_id s) [(s, None)] \<and>
     pf_previous_state_digest s = None \<and> r = Inr (head_for h s None) \<and>
     (H (pf_portfolio_id s) = [] \<and> db' = db\<lparr>pd_heads := (pd_heads db)(pf_portfolio_id s \<mapsto> recorded_row h (s, None))\<rparr> \<or>
      H (pf_portfolio_id s) = [(s, None)] \<and> db' = db)"
proof -
  let ?pid = "pf_portfolio_id s"
  have genesis: "portfolio_history h ?pid [(s, None)] \<longleftrightarrow> valid_portfolio s \<and> pf_generation s = 0"
    by (auto elim: portfolio_history.cases intro: portfolio_history.genesis)
  have made: "make_portfolio_head h s (portfolio_snapshot_digest h s) None = Inr (head_for h s None)"
    if "valid_portfolio s" "pf_generation s = 0"
    using that make_head_Inr [OF h that(1)] by simp
  show ?thesis
  proof (cases "pd_heads db ?pid")
    case None
    then have "H ?pid = []" using represents_head(2) [OF rep] by simp
    with None show ?thesis
      using made by (auto simp: portfolio_initialize_def raise_unless_eq ebind_eq_Inr deserialize_portfolio_iff [OF h] genesis
          recorded_row_def stored_portfolio_def)
  next
    case (Some row)
    then have hist: "portfolio_history h ?pid (H ?pid)" and row: "row = recorded_row h (last (H ?pid))"
      using represents_head(1) [OF rep] by auto
    have "fst (last (H ?pid)) = s \<and> pf_generation s = 0 \<longleftrightarrow> H ?pid = [(s, None)] \<and> pf_generation s = 0"
    proof
      assume s: "fst (last (H ?pid)) = s \<and> pf_generation s = 0"
      then have "length (H ?pid) = 1" using portfolio_history_last(2) [OF hist] by simp
      then obtain e where "H ?pid = [e]" by (cases "H ?pid") auto
      then show "H ?pid = [(s, None)] \<and> pf_generation s = 0"
        using s portfolio_history_last(5) [OF hist] by (cases e) simp
    qed simp
    then show ?thesis
      using Some portfolio_history_last(1) [OF hist] unfolding portfolio_initialize_def Some option.case row
      by (auto simp: raise_unless_eq ebind_eq_Inr deserialize_portfolio_iff [OF h] decode_recorded [OF h hist] genesis)
  qed
qed

section \<open>The heads are a compare-and-swap store\<close>

definition next_portfolio :: "hash \<Rightarrow> portfolio_state \<Rightarrow> portfolio_state \<Rightarrow> bool" where
  "next_portfolio h s t \<longleftrightarrow> pf_generation t = pf_generation s + 1 \<and> pf_previous_state_digest t = Some (portfolio_state_digest h s)"

lemma portfolio_commit_raw:
  assumes "portfolio_commit h db pid expected new x = Inr (db', r)"
  shows "\<exists>row current d. pd_heads db pid = Some row \<and> decode_portfolio_row h row pid = Inr (current, d) \<and> \<not> blank pid \<and>
     portfolio_state_digest h current = expected \<and> next_portfolio h current new \<and> pf_portfolio_id new = pid \<and>
     deserialize_portfolio_snapshot h (serialize_portfolio_snapshot h new) = Inr (new, portfolio_snapshot_digest h new) \<and>
     pd_heads db' = (pd_heads db)(pid \<mapsto> row_of_portfolio h new (portfolio_snapshot_digest h new) (Some (execution_checkpoint_digest h x))) \<and>
     r = make_portfolio_head h new (portfolio_snapshot_digest h new) (Some (execution_checkpoint_digest h x))"
proof (cases "pd_heads db pid")
  case (Some row)
  show ?thesis
    using assms unfolding portfolio_commit_def Some option.case
    by (auto simp: exc_simps deserialize_portfolio_Inr write_portfolio_def next_portfolio_def)
qed (use assms in \<open>simp add: portfolio_commit_def ebind_eq_Inr raise_unless_eq\<close>)

interpretation portfolio_heads: cas_store "portfolio_load h"
    "\<lambda>db pid expected v. ebind (portfolio_commit h db pid expected (fst v) x) (\<lambda>(db', r). if r = Inr (snd v) then Inr db' else Inl AssertionError)"
    "\<lambda>v. portfolio_state_digest h (fst v)" "\<lambda>pid. pid" "\<lambda>u v. next_portfolio h (fst u) (fst v)" for h x
proof unfold_locales
  fix db pid expected v db'
  assume "ebind (portfolio_commit h db pid expected (fst v) x) (\<lambda>(db', r). if r = Inr (snd v) then Inr db' else Inl AssertionError) = Inr db'"
  then have c: "portfolio_commit h db pid expected (fst v) x = Inr (db', Inr (snd v))"
    by (auto simp: ebind_eq_Inr split: if_splits)
  note raw = portfolio_commit_raw [OF c]
  show "\<exists>u. portfolio_load h db pid = Inr u \<and> portfolio_state_digest h (fst u) = expected \<and> next_portfolio h (fst u) (fst v)"
    using raw by (auto simp: portfolio_load_def nonempty_field_Inr ebind_eq_Inr)
  show "portfolio_load h db' pid = Inr v"
    using raw by (cases v) (auto simp: portfolio_load_def nonempty_field_Inr ebind_eq_Inr decode_portfolio_row_def row_of_portfolio_def)
  show "portfolio_load h db' pid' = portfolio_load h db pid'" if "pid' \<noteq> pid" for pid'
    using raw that by (auto simp: portfolio_load_def)
qed

section \<open>What the readers report\<close>

lemma load_recovery_Inr:
  assumes h: "hex_digest h" and rep: "represents h db H"
  shows "load_recovery_snapshot h db pid = Inr (s, d, c) \<longleftrightarrow>
     H pid \<noteq> [] \<and> (s, c) = last (H pid) \<and> d = head_for h s (map_option (execution_checkpoint_digest h) c)"
proof (cases "pd_heads db pid")
  case None
  then show ?thesis
    using represents_head(2) [OF rep, of pid] unfolding load_recovery_snapshot_def None by (simp add: ebind_eq_Inr)
next
  case (Some row)
  then have hist: "portfolio_history h pid (H pid)" and row: "row = recorded_row h (last (H pid))"
    using represents_head(1) [OF rep] by auto
  note last = portfolio_history_last [OF hist]
  let ?cur = "fst (last (H pid))" and ?c = "snd (last (H pid))"
  have id: "\<not> blank pid" using last(3,4) by (auto simp: valid_portfolio_def portfolio_state_ok_def)
  have gen: "pw_generation row = pf_generation ?cur"
    by (simp add: row recorded_row_def stored_portfolio_def row_of_portfolio_def)
  have zero: "pf_generation ?cur = 0 \<longleftrightarrow> ?c = None"
    using last(2,5) by auto
  have joined: "checkpoint_at db pid (pf_generation ?cur) = recorded_checkpoint h pid (last (H pid))"
  proof (cases "?c")
    case None
    then have "pf_generation ?cur = 0" using zero by simp
    with None show ?thesis using rep by (simp add: represents_def recorded_checkpoint_def)
  next
    case (Some x)
    then have "length (H pid) > 1" using last(1,5) by (cases "H pid") auto
    then have "1 \<le> pf_generation ?cur" "pf_generation ?cur < int (length (H pid))" "nat (pf_generation ?cur) = length (H pid) - 1"
      unfolding last(2) by linarith+
    then have "checkpoint_at db pid (pf_generation ?cur) = recorded_checkpoint h pid (H pid ! (length (H pid) - 1))"
      using rep by (simp add: represents_def)
    then show ?thesis by (simp add: last_conv_nth [OF last(1)])
  qed
  have zero_at: "checkpoint_at db pid 0 = None" using rep by (simp add: represents_def)
  have dec: "decode_portfolio_row h row pid = Inr (?cur, head_for h ?cur (map_option (execution_checkpoint_digest h) ?c))"
    using decode_recorded [OF h hist] row by simp
  have id': "nonempty_field PortfolioPersistenceError ''portfolio_id'' (PStr pid) = Inr pid"
    using id by (simp add: nonempty_field_Inr)
  have "load_recovery_snapshot h db pid = Inr (?cur, head_for h ?cur (map_option (execution_checkpoint_digest h) ?c), ?c)"
  proof (cases ?c)
    case None
    then show ?thesis
      using zero zero_at by (simp add: load_recovery_snapshot_def id' Some gen dec Let_def head_for_def)
  next
    case c: (Some x)
    then have binds: "checkpoint_binds h pid ?cur x" using last(6) by blast
    have "decode_checkpoint_row h (checkpoint_row_of h pid ?cur x) = Inr x"
      using binds by (simp add: decode_checkpoint_row_of checkpoint_binds_def)
    then show ?thesis
      using zero c binds by (simp add: load_recovery_snapshot_def id' Some gen dec Let_def joined recorded_checkpoint_def
          checkpoint_binds_def head_for_def)
  qed
  then have "load_recovery_snapshot h db pid = Inr (s, d, c) \<longleftrightarrow> s = ?cur \<and> c = ?c \<and>
      d = head_for h s (map_option (execution_checkpoint_digest h) c)"
    by auto
  then show ?thesis using last(1) by (auto simp: prod_eq_iff)
qed

lemma load_checkpoint_Inr:
  assumes h: "hex_digest h" and rep: "represents h db H"
  shows "load_checkpoint h db pid g = Inr x \<longleftrightarrow> \<not> blank pid \<and> 1 \<le> g \<and> g < int (length (H pid)) \<and> snd (H pid ! nat g) = Some x"
proof -
  have at: "checkpoint_at db pid g = (if 1 \<le> g \<and> g < int (length (H pid)) then recorded_checkpoint h pid (H pid ! nat g) else None)"
    using rep by (simp add: represents_def)
  show ?thesis
  proof (cases "1 \<le> g \<and> g < int (length (H pid))")
    case True
    then have "0 < nat g" "nat g < length (H pid)" by linarith+
    moreover have "portfolio_history h pid (H pid)" by (rule represents_history [OF rep]) (use True in auto)
    ultimately obtain y where "snd (H pid ! nat g) = Some y" "checkpoint_binds h pid (fst (H pid ! nat g)) y" "pf_generation (fst (H pid ! nat g)) = g"
      using portfolio_history_nth [of h pid "H pid" "nat g"] by auto
    then show ?thesis
      using True at by (auto simp: load_checkpoint_def exc_simps recorded_checkpoint_def decode_checkpoint_row_of checkpoint_binds_def)
  next
    case False
    then show ?thesis using at by (auto simp: load_checkpoint_def exc_simps)
  qed
qed

definition report_for :: "hash \<Rightarrow> portfolio_state \<Rightarrow> execution_checkpoint option \<Rightarrow> portfolio_report" where
  "report_for h s c =
     \<lparr>pq_portfolio_id = pf_portfolio_id s, pq_generation = pf_generation s, pq_state_digest = portfolio_state_digest h s,
      pq_snapshot_digest = portfolio_snapshot_digest h s, pq_latest_checkpoint_digest = map_option (execution_checkpoint_digest h) c,
      pq_checkpoint_present = (c \<noteq> None), pq_fabricated_state = False, pq_fabricated_checkpoint = False,
      pq_schema_version = ''ge.portfolio-recovery.v1''\<rparr>"

lemma recover_portfolio_Inr:
  assumes h: "hex_digest h" and rep: "represents h db H"
  shows "recover_portfolio h db pid = Inr (s, c, report) \<longleftrightarrow> H pid \<noteq> [] \<and> (s, c) = last (H pid) \<and> report = report_for h s c"
proof -
  have made: "portfolio_report_init (report_for h s c) = Inr (report_for h s c) \<and>
      verify_portfolio_recovery h s (head_for h s (map_option (execution_checkpoint_digest h) c)) c (report_for h s c)"
    if "H pid \<noteq> []" "(s, c) = last (H pid)"
  proof -
    have hist: "portfolio_history h pid (H pid)" using represents_history [OF rep that(1)] .
    note last = portfolio_history_last [OF hist, unfolded that(2) [symmetric] fst_conv snd_conv]
    have "pf_generation s = 0 \<longleftrightarrow> c = None" using last(2,5) by auto
    moreover have "\<not> blank (pf_portfolio_id s)" "0 \<le> pf_generation s"
      using last(3) by (simp_all add: valid_portfolio_def portfolio_state_ok_def)
    moreover have "checkpoint_binds h pid s x" if "c = Some x" for x using last(6) that by blast
    ultimately show ?thesis
      using last(4) digest_ok_portfolio [OF h]
      by (cases c) (auto simp: portfolio_report_init_def report_for_def exc_simps verify_portfolio_recovery_def head_for_def checkpoint_binds_def)
  qed
  have "recover_portfolio h db pid = Inr (s, c, report) \<longleftrightarrow> H pid \<noteq> [] \<and> (s, c) = last (H pid) \<and>
      portfolio_report_init (report_for h s c) = Inr report \<and>
      verify_portfolio_recovery h s (head_for h s (map_option (execution_checkpoint_digest h) c)) c report"
    by (auto simp: recover_portfolio_def ebind_eq_Inr load_recovery_Inr [OF h rep] report_for_def head_for_def)
  then show ?thesis using made by auto
qed

section \<open>Runs of the store\<close>

inductive portfolio_step :: "hash \<Rightarrow> portfolio_db \<Rightarrow> portfolio_db \<Rightarrow> bool" for h where
  initialized: "portfolio_initialize h db s = Inr (db', r) \<Longrightarrow> portfolio_step h db db'"
| committed: "portfolio_commit h db pid expected new x = Inr (db', r) \<Longrightarrow> portfolio_step h db db'"

definition recorded_entry :: "portfolio_histories \<Rightarrow> portfolio_histories \<Rightarrow> bool" where
  "recorded_entry H H' \<longleftrightarrow> H' = H \<or> (\<exists>pid e. H' = H(pid := H pid @ [e]))"

lemma portfolio_step_represents:
  assumes "hex_digest h" and rep: "represents h db H" and "portfolio_step h db db'"
  shows "\<exists>H'. represents h db' H' \<and> recorded_entry H H'"
  using assms(3)
proof cases
  case (initialized s r)
  then show ?thesis
    using represents_initialized [OF rep] rep unfolding portfolio_initialize_Inr [OF assms(1) rep] recorded_entry_def
    by (metis append_Nil)
next
  case (committed pid expected new x r)
  then show ?thesis
    using represents_extended [OF rep] unfolding portfolio_commit_Inr [OF assms(1) rep] recorded_entry_def by blast
qed

lemma portfolio_steps_represent:
  assumes "hex_digest h" and rep: "represents h db H" and "(portfolio_step h)\<^sup>*\<^sup>* db db'"
  shows "\<exists>H'. represents h db' H' \<and> (\<forall>pid. \<exists>more. H' pid = H pid @ more)"
  using assms(3)
proof (induction rule: rtranclp_induct)
  case base then show ?case using rep by (intro exI [of _ H]) simp
next
  case (step db1 db2)
  then obtain H1 where H1: "represents h db1 H1" "\<And>pid. \<exists>more. H1 pid = H pid @ more" by blast
  obtain H2 where "represents h db2 H2" "recorded_entry H1 H2"
    using portfolio_step_represents [OF assms(1) H1(1) step(2)] by blast
  moreover have "\<exists>more. H2 pid = H pid @ more" for pid
    using H1(2) [of pid] \<open>recorded_entry H1 H2\<close> by (auto simp: recorded_entry_def)
  ultimately show ?case by blast
qed

section \<open>An example\<close>

definition ex_entry :: "string \<Rightarrow> string \<Rightarrow> string \<Rightarrow> portfolio_entry" where
  "ex_entry work role state = \<lparr>pe_work_id = work, pe_role = role, pe_state = state, pe_objective = ''o'', pe_active_gate = ''g'',
     pe_next_action_ref = ''n'', pe_source_revision = ''r'', pe_evidence_required = [], pe_authority_boundary = None,
     pe_authority_ref = None, pe_blockers = [], pe_wake_condition = None, pe_checkpoint_ref = None,
     pe_schema_version = ''ge.portfolio-entry.v1''\<rparr>"

definition ex_portfolio :: portfolio_state where
  "ex_portfolio = \<lparr>pf_portfolio_id = ''p'', pf_generation = 0, pf_active = ex_entry ''a'' ''active'' ''ready'',
     pf_secondary = ex_entry ''b'' ''secondary'' ''ready'', pf_passive = [], pf_previous_state_digest = None,
     pf_schema_version = ''ge.portfolio-state.v1''\<rparr>"

definition ex_portfolio2 :: portfolio_state where
  "ex_portfolio2 = ex_portfolio\<lparr>pf_generation := 1, pf_active := ex_entry ''a'' ''active'' ''running'',
     pf_previous_state_digest := Some (portfolio_state_digest zero_hash ex_portfolio)\<rparr>"

definition ex_checkpoint :: execution_checkpoint where
  "ex_checkpoint = \<lparr>ec_portfolio_id = ''p'', ec_portfolio_generation = 1,
     ec_portfolio_state_digest = portfolio_state_digest zero_hash ex_portfolio2, ec_work_id = ''a'', ec_role = ''active'',
     ec_state_before = ''ready'', ec_state_after = ''running'', ec_action_ref = ''n'', ec_source_revision = ''r'',
     ec_observed_at = ''t'', ec_summary = ''s'',
     ec_evidence = [\<lparr>cv_kind = ''k'', cv_locator = ''l'', cv_digest = sha256_digest zero_hash PNone,
       cv_schema_version = ''ge.checkpoint-evidence.v1''\<rparr>],
     ec_canonical_refs = [''c''], ec_uncertainties = [], ec_next_transition_refs = [''n''], ec_authority_stop = False,
     ec_authority_boundary = None, ec_schema_version = ''ge.execution-checkpoint.v1''\<rparr>"

lemma ex_entries_valid: "valid_entry (ex_entry ''a'' ''active'' ''ready'')" "valid_entry (ex_entry ''a'' ''active'' ''running'')"
  "valid_entry (ex_entry ''b'' ''secondary'' ''ready'')"
  by (simp_all add: valid_entry_def portfolio_entry_ok_def ex_entry_def portfolio_roles_def portfolio_states_def
      portfolio_entry_check_def active_states_def blank_iff is_space_def)

lemma ex_portfolio_valid: "valid_portfolio ex_portfolio" "valid_portfolio ex_portfolio2"
proof -
  have slots: "pe_role (ex_entry w r s) = r" "pe_work_id (ex_entry w r s) = w" for w r s
    by (simp_all add: ex_entry_def)
  show "valid_portfolio ex_portfolio" "valid_portfolio ex_portfolio2"
    using ex_entries_valid digest_ok_portfolio(2) [OF zero_hash]
    by (simp_all add: valid_portfolio_def portfolio_state_ok_def ex_portfolio_def ex_portfolio2_def slots blank_iff is_space_def)
qed

lemma ex_checkpoint_binds: "checkpoint_binds zero_hash ''p'' ex_portfolio2 ex_checkpoint"
proof -
  have "digest_ok (ec_portfolio_state_digest ex_checkpoint)" "\<forall>e\<in>set (ec_evidence ex_checkpoint). digest_ok (cv_digest e)"
    using digest_ok_portfolio(2) [OF zero_hash] hex_digest.digest_ok_sha256 [OF zero_hash] by (simp_all add: ex_checkpoint_def)
  then show ?thesis
    by (simp add: checkpoint_binds_def valid_checkpoint_def checkpoint_ok_def checkpoint_evidence_ok_def checkpoint_check_def
        checkpoint_roles_def checkpoint_states_def ex_checkpoint_def ex_portfolio2_def blank_iff is_space_def)
qed

definition ex_portfolio_db :: portfolio_db where
  "ex_portfolio_db = \<lparr>pd_heads = [''p'' \<mapsto> recorded_row zero_hash (ex_portfolio, None)], pd_checkpoints = []\<rparr>"

definition ex_portfolio_db2 :: portfolio_db where
  "ex_portfolio_db2 = \<lparr>pd_heads = [''p'' \<mapsto> recorded_row zero_hash (ex_portfolio2, Some ex_checkpoint)],
     pd_checkpoints = [checkpoint_row_of zero_hash ''p'' ex_portfolio2 ex_checkpoint]\<rparr>"

lemma ex_portfolio_initialize: "portfolio_initialize zero_hash empty_portfolio_db ex_portfolio = Inr (ex_portfolio_db, Inr (head_for zero_hash ex_portfolio None))"
proof -
  have "portfolio_history zero_hash ''p'' [(ex_portfolio, None)]"
    by (rule portfolio_history.genesis [OF ex_portfolio_valid(1)]) (simp_all add: ex_portfolio_def)
  moreover have "pf_portfolio_id ex_portfolio = ''p''" "pf_previous_state_digest ex_portfolio = None"
    by (simp_all add: ex_portfolio_def)
  ultimately show ?thesis
    unfolding portfolio_initialize_Inr [OF zero_hash represents_empty] by (simp add: ex_portfolio_db_def empty_portfolio_db_def)
qed

lemma ex_represents: "represents zero_hash ex_portfolio_db ((\<lambda>_. [])(''p'' := [(ex_portfolio, None)]))"
proof -
  have "portfolio_history zero_hash ''p'' [(ex_portfolio, None)]"
    by (rule portfolio_history.genesis [OF ex_portfolio_valid(1)]) (simp_all add: ex_portfolio_def)
  from represents_initialized [OF represents_empty _ this] show ?thesis
    by (simp add: ex_portfolio_db_def empty_portfolio_db_def)
qed

lemma ex_history: "portfolio_history zero_hash ''p'' [(ex_portfolio, None), (ex_portfolio2, Some ex_checkpoint)]"
proof -
  have "portfolio_history zero_hash ''p'' ([(ex_portfolio, None)] @ [(ex_portfolio2, Some ex_checkpoint)])"
  proof (rule portfolio_history.extended)
    show "portfolio_history zero_hash ''p'' [(ex_portfolio, None)]"
      by (rule portfolio_history.genesis [OF ex_portfolio_valid(1)]) (simp_all add: ex_portfolio_def)
  qed (simp_all add: ex_portfolio_valid ex_checkpoint_binds, simp_all add: ex_portfolio2_def ex_portfolio_def)
  then show ?thesis by simp
qed

lemma ex_portfolio_commit: "portfolio_commit zero_hash ex_portfolio_db ''p'' (portfolio_state_digest zero_hash ex_portfolio) ex_portfolio2 ex_checkpoint =
   Inr (ex_portfolio_db2, Inr (head_for zero_hash ex_portfolio2 (Some (execution_checkpoint_digest zero_hash ex_checkpoint))))"
  using ex_history unfolding portfolio_commit_Inr [OF zero_hash ex_represents]
  by (simp add: checkpoint_fresh_def ex_portfolio_db_def ex_portfolio_db2_def)

lemma ex_portfolio_steps: "(portfolio_step zero_hash)\<^sup>*\<^sup>* empty_portfolio_db ex_portfolio_db" "portfolio_step zero_hash ex_portfolio_db ex_portfolio_db2"
  using portfolio_step.initialized [OF ex_portfolio_initialize] portfolio_step.committed [OF ex_portfolio_commit] by auto

section \<open>Properties\<close>

text \<open>C24: The durable portfolio store refines an append-only history: whatever sequence of initialisations and commits
  led to the database, it represents a history for each portfolio (from generation zero, one generation at a time, each
  state naming the digest of its predecessor and, after the first, bound by its own valid checkpoint); every further
  successful operation leaves all histories as they are or appends one entry to one of them.\<close>

theorem portfolio_store_refines:
  assumes "hex_digest h" and "(portfolio_step h)\<^sup>*\<^sup>* empty_portfolio_db db"
  shows "\<exists>H. represents h db H \<and> (\<forall>db'. portfolio_step h db db' \<longrightarrow> (\<exists>H'. represents h db' H' \<and> recorded_entry H H'))"
  using portfolio_steps_represent [OF assms(1) represents_empty assms(2)] portfolio_step_represents [OF assms(1)] by blast

theorem portfolio_store_refines_witness:
  "\<exists>H. represents zero_hash ex_portfolio_db H \<and> (\<exists>H'. represents zero_hash ex_portfolio_db2 H' \<and> recorded_entry H H')"
  using portfolio_store_refines [OF zero_hash ex_portfolio_steps(1)] ex_portfolio_steps(2) by blast

text \<open>C40: Restart recovery reports exactly what was recorded: it succeeds for the portfolios with a history, with the last
  state, the checkpoint that came with it and the report computed from the two; a checkpoint is loaded exactly for the
  generations of the history after the first; and whatever operations follow, a recorded checkpoint stays as it is.\<close>

theorem portfolio_recovery_exact:
  assumes "hex_digest h" and "represents h db H"
  shows "(recover_portfolio h db pid = Inr (s, c, report) \<longleftrightarrow> H pid \<noteq> [] \<and> (s, c) = last (H pid) \<and> report = report_for h s c) \<and>
     (load_checkpoint h db pid g = Inr x \<longleftrightarrow> \<not> blank pid \<and> 1 \<le> g \<and> g < int (length (H pid)) \<and> snd (H pid ! nat g) = Some x) \<and>
     (load_checkpoint h db pid g = Inr x \<and> (portfolio_step h)\<^sup>*\<^sup>* db db' \<longrightarrow> load_checkpoint h db' pid g = Inr x)"
proof -
  note exact = load_checkpoint_Inr [OF assms(1)]
  have "load_checkpoint h db' pid g = Inr x" if old: "load_checkpoint h db pid g = Inr x" and steps: "(portfolio_step h)\<^sup>*\<^sup>* db db'"
  proof -
    obtain H' more where H': "represents h db' H'" and more: "H' pid = H pid @ more"
      using portfolio_steps_represent [OF assms steps] by metis
    have "nat g < length (H pid)" using old unfolding exact [OF assms(2)] by linarith
    then show ?thesis using old unfolding exact [OF assms(2)] exact [OF H'] more by (simp add: nth_append)
  qed
  then show ?thesis using recover_portfolio_Inr [OF assms] exact [OF assms(2)] by blast
qed

theorem portfolio_recovery_exact_witness:
  "recover_portfolio zero_hash ex_portfolio_db2 ''p'' = Inr (ex_portfolio2, Some ex_checkpoint, report_for zero_hash ex_portfolio2 (Some ex_checkpoint))"
proof -
  have "represents zero_hash ex_portfolio_db2 ((\<lambda>_. [])(''p'' := [(ex_portfolio, None), (ex_portfolio2, Some ex_checkpoint)]))"
    using represents_extended [OF ex_represents, of "''p''" ex_portfolio2 ex_checkpoint] ex_history
    by (simp add: ex_portfolio_db_def ex_portfolio_db2_def)
  from portfolio_recovery_exact [OF zero_hash this, of "''p''" ex_portfolio2 "Some ex_checkpoint"] show ?thesis by simp
qed

text \<open>Of two commits to a portfolio at most one takes effect: once a state has been committed, it is what is loaded, no
  other portfolio has changed, and every commit of a state that is not of a later generation (a competitor computed
  from the same head, or the same commit repeated) is refused.\<close>

theorem portfolio_commit_single_winner:
  assumes "hex_digest h" and "represents h db H" and commit: "portfolio_commit h db pid expected new x = Inr (db', r)"
  shows "(\<exists>d. r = Inr d \<and> portfolio_load h db' pid = Inr (new, d)) \<and>
     (\<forall>other. other \<noteq> pid \<longrightarrow> portfolio_load h db' other = portfolio_load h db other) \<and>
     (pf_generation new2 \<le> pf_generation new \<longrightarrow> (\<exists>e. portfolio_commit h db' pid expected2 new2 x2 = Inl e))"
proof -
  let ?d = "head_for h new (Some (execution_checkpoint_digest h x))"
  have hist: "portfolio_history h pid (H pid @ [(new, Some x)])" and r: "r = Inr ?d" and "H pid \<noteq> []"
    and db': "represents h db' (H(pid := H pid @ [(new, Some x)]))"
    using commit represents_extended [OF assms(2)] unfolding portfolio_commit_Inr [OF assms(1,2)] by blast+
  have "ebind (portfolio_commit h db pid expected (fst (new, ?d)) x)
      (\<lambda>(db', r). if r = Inr (snd (new, ?d)) then Inr db' else Inl AssertionError) = Inr db'"
    using commit r by simp
  note store = portfolio_heads.commit_load [OF this] portfolio_heads.commit_other [OF this]
  have "\<exists>e. portfolio_commit h db' pid expected2 new2 x2 = Inl e" if "pf_generation new2 \<le> pf_generation new"
  proof (cases "portfolio_commit h db' pid expected2 new2 x2")
    case (Inr b)
    then obtain db2 r2 where "portfolio_commit h db' pid expected2 new2 x2 = Inr (db2, r2)" by (cases b) auto
    then have "portfolio_history h pid ((H pid @ [(new, Some x)]) @ [(new2, Some x2)])"
      unfolding portfolio_commit_Inr [OF assms(1) db'] by simp
    then show ?thesis using that portfolio_history_last(2) [OF hist] portfolio_history_last(2) by fastforce
  qed simp
  then show ?thesis using store r by blast
qed

theorem portfolio_commit_single_winner_witness:
  "(\<exists>d. portfolio_load zero_hash ex_portfolio_db2 ''p'' = Inr (ex_portfolio2, d)) \<and>
   (\<exists>e. portfolio_commit zero_hash ex_portfolio_db2 ''p'' (portfolio_state_digest zero_hash ex_portfolio) ex_portfolio2 ex_checkpoint = Inl e)"
  using portfolio_commit_single_winner [OF zero_hash ex_represents ex_portfolio_commit, of ex_portfolio2] by blast

end
