(* ===== verification/Asp_Transition.thy ===== *)
theory Asp_Transition
  imports Transition_Policy Portfolio_Store
begin

text \<open>
  Transitions of a portfolio (\<open>asp_transition.py\<close>): an event on the active entry is matched against the policy;
  the rule's evidence and authority are checked; the slots are rebuilt (the active entry moves on, stops at a
  human gate, completes or is parked, and in the last two cases the secondary entry is promoted and a passive
  entry that was admitted to wake takes its place); the new portfolio comes with its checkpoint.
  The lemmas show that whatever is returned can be committed, that no work item is lost, and that authority
  is respected.
\<close>

section \<open>Evidence\<close>

definition rotating_effects :: "string list" where
  "rotating_effects = [''promote_secondary'', ''park_active'']"

definition mandatory_effect_evidence :: "string \<Rightarrow> string list" where
  "mandatory_effect_evidence effect =
     (if effect = ''promote_secondary'' then [''verifier_pass'']
      else if effect = ''park_active'' then [''external_blocker'', ''no_internal_work'']
      else if effect = ''wake_passive'' then [''wake_condition_satisfied'']
      else [])"

definition evidence_kinds :: "checkpoint_evidence list \<Rightarrow> string list exc" where
  "evidence_kinds evidence =
     (if evidence = [] then Inl (AspTransitionError ''transition requires admitted evidence'')
      else if length (map evidence_identity evidence) \<noteq> length (remdups (map evidence_identity evidence))
      then Inl (AspTransitionError ''transition evidence must not contain duplicates'')
      else Inr (map cv_kind evidence))"

text \<open>\<open>sorted(required - kinds)\<close> of two sets.\<close>

definition missing_kinds :: "string list \<Rightarrow> string list \<Rightarrow> string list" where
  "missing_kinds required kinds = sort (remdups (filter (\<lambda>k. k \<notin> set kinds) required))"

definition verify_evidence :: "transition_rule \<Rightarrow> checkpoint_evidence list \<Rightarrow> unit exc" where
  "verify_evidence r evidence =
     ebind (evidence_kinds evidence) (\<lambda>kinds.
     let missing = missing_kinds (tr_required_evidence r) kinds;
       missing_mandatory = missing_kinds (mandatory_effect_evidence (tr_effect r)) kinds in
     if missing \<noteq> []
     then Inl (AspTransitionError (''transition is missing policy-required evidence: '' @ py_repr_list missing))
     else if missing_mandatory \<noteq> []
     then Inl (AspTransitionError (''transition is missing effect-required evidence: '' @ py_repr_list missing_mandatory))
     else Inr ())"

section \<open>Grants, admissions and results\<close>

record transition_grant =
  tg_policy_digest :: string
  tg_rule_digest :: string
  tg_authority_boundary :: string
  tg_authority_ref :: string
  tg_authority_digest :: string
  tg_schema_version :: string

definition transition_grant_py :: "transition_grant \<Rightarrow> pyval" where
  "transition_grant_py x = PDict [
    (''policy_digest'', PStr (tg_policy_digest x)),
    (''rule_digest'', PStr (tg_rule_digest x)),
    (''authority_boundary'', PStr (tg_authority_boundary x)),
    (''authority_ref'', PStr (tg_authority_ref x)),
    (''authority_digest'', PStr (tg_authority_digest x)),
    (''schema_version'', PStr (tg_schema_version x))]"

interpretation transition_grant: encoding transition_grant_py
proof unfold_locales
  show "wf_py (transition_grant_py x)" for x
    by (simp add: transition_grant_py_def)
  show "normalize (transition_grant_py x) = normalize (transition_grant_py y) \<longleftrightarrow> x = y" for x y
    by (cases x; cases y) (simp add: transition_grant_py_def normalize_dict_inject)
qed

lemma transition_grant_opt [simp]:
  "wf_py (py_opt transition_grant_py x)" "normalize (py_opt transition_grant_py x) = normalize (py_opt transition_grant_py y) \<longleftrightarrow> x = y"
  by (rule transition_grant.opt_wf) (rule transition_grant.opt_inject, simp add: transition_grant_py_def)

definition transition_grant_digest :: "hash \<Rightarrow> transition_grant \<Rightarrow> string" where
  "transition_grant_digest h x = sha256_digest h (transition_grant_py x)"

definition transition_grant_init :: "transition_grant \<Rightarrow> transition_grant exc" where
  "transition_grant_init x =
     (if tg_schema_version x \<noteq> ''ge.transition-authority-grant.v1''
      then Inl (AspTransitionError ''unsupported transition authority schema'')
      else
      ebind (digest_field AspTransitionError ''policy_digest'' (PStr (tg_policy_digest x))) (\<lambda>_.
      ebind (digest_field AspTransitionError ''rule_digest'' (PStr (tg_rule_digest x))) (\<lambda>_.
      ebind (nonempty_field AspTransitionError ''authority_boundary'' (PStr (tg_authority_boundary x))) (\<lambda>_.
      ebind (nonempty_field AspTransitionError ''authority_ref'' (PStr (tg_authority_ref x))) (\<lambda>_.
      ebind (digest_field AspTransitionError ''authority_digest'' (PStr (tg_authority_digest x))) (\<lambda>_.
      Inr x))))))"

record wake_admission =
  wa_portfolio_id :: string
  wa_portfolio_generation :: int
  wa_portfolio_state_digest :: string
  wa_work_id :: string
  wa_wake_condition_digest :: string
  wa_policy_digest :: string
  wa_rule_digest :: string
  wa_evidence :: "checkpoint_evidence list"
  wa_next_action_ref :: string
  wa_authority_grant :: "transition_grant option"
  wa_schema_version :: string

definition wake_admission_py :: "wake_admission \<Rightarrow> pyval" where
  "wake_admission_py x = PDict [
    (''portfolio_id'', PStr (wa_portfolio_id x)),
    (''portfolio_generation'', PInt (wa_portfolio_generation x)),
    (''portfolio_state_digest'', PStr (wa_portfolio_state_digest x)),
    (''work_id'', PStr (wa_work_id x)),
    (''wake_condition_digest'', PStr (wa_wake_condition_digest x)),
    (''policy_digest'', PStr (wa_policy_digest x)),
    (''rule_digest'', PStr (wa_rule_digest x)),
    (''evidence'', PTuple (map checkpoint_evidence_py (wa_evidence x))),
    (''next_action_ref'', PStr (wa_next_action_ref x)),
    (''authority_grant'', py_opt transition_grant_py (wa_authority_grant x)),
    (''schema_version'', PStr (wa_schema_version x))]"

interpretation wake_admission: encoding wake_admission_py
proof unfold_locales
  show "wf_py (wake_admission_py x)" for x
    by (simp add: wake_admission_py_def)
  show "normalize (wake_admission_py x) = normalize (wake_admission_py y) \<longleftrightarrow> x = y" for x y
    by (cases x; cases y) (simp add: wake_admission_py_def normalize_dict_inject)
qed

lemma wake_admission_opt [simp]:
  "wf_py (py_opt wake_admission_py x)" "normalize (py_opt wake_admission_py x) = normalize (py_opt wake_admission_py y) \<longleftrightarrow> x = y"
  by (rule wake_admission.opt_wf) (rule wake_admission.opt_inject, simp add: wake_admission_py_def)

definition wake_admission_digest :: "hash \<Rightarrow> wake_admission \<Rightarrow> string" where
  "wake_admission_digest h x = sha256_digest h (wake_admission_py x)"

definition wake_admission_id :: "hash \<Rightarrow> wake_admission \<Rightarrow> string" where
  "wake_admission_id h x = stable_id h ''gew'' (wake_admission_py x)"

definition wake_evidence_digests :: "hash \<Rightarrow> wake_admission \<Rightarrow> string list" where
  "wake_evidence_digests h x = sort (map (checkpoint_evidence_digest h) (wa_evidence x))"

definition wake_grant_digest :: "hash \<Rightarrow> wake_admission \<Rightarrow> string option" where
  "wake_grant_digest h x = map_option (transition_grant_digest h) (wa_authority_grant x)"

definition wake_admission_init :: "wake_admission \<Rightarrow> wake_admission exc" where
  "wake_admission_init x =
     (if wa_schema_version x \<noteq> ''ge.passive-wake-admission.v1''
      then Inl (AspTransitionError ''unsupported passive wake admission schema'')
      else
      ebind (nonempty_field AspTransitionError ''portfolio_id'' (PStr (wa_portfolio_id x))) (\<lambda>_.
      ebind (nonempty_field AspTransitionError ''work_id'' (PStr (wa_work_id x))) (\<lambda>_.
      ebind (nonempty_field AspTransitionError ''next_action_ref'' (PStr (wa_next_action_ref x))) (\<lambda>_.
      ebind (int_field (AspTransitionError ''portfolio_generation must be an integer'') 0
        (AspTransitionError ''portfolio_generation cannot be negative'') (PInt (wa_portfolio_generation x))) (\<lambda>_.
      ebind (digest_field AspTransitionError ''portfolio_state_digest'' (PStr (wa_portfolio_state_digest x))) (\<lambda>_.
      ebind (digest_field AspTransitionError ''wake_condition_digest'' (PStr (wa_wake_condition_digest x))) (\<lambda>_.
      ebind (digest_field AspTransitionError ''policy_digest'' (PStr (wa_policy_digest x))) (\<lambda>_.
      ebind (digest_field AspTransitionError ''rule_digest'' (PStr (wa_rule_digest x))) (\<lambda>_.
      if wa_evidence x = [] then Inl (AspTransitionError ''wake admission requires admitted evidence'')
      else if map evidence_identity (wa_evidence x) \<noteq> sort (map evidence_identity (wa_evidence x))
      then Inl (AspTransitionError ''wake admission evidence must be canonical-sorted'')
      else if length (map evidence_identity (wa_evidence x)) \<noteq> length (remdups (map evidence_identity (wa_evidence x)))
      then Inl (AspTransitionError ''wake admission evidence must be unique'')
      else Inr x)))))))))"

record transition_result =
  xt_previous_state_digest :: string
  xt_policy_digest :: string
  xt_rule_digest :: string
  xt_effect :: string
  xt_new_state :: portfolio_state
  xt_checkpoint :: execution_checkpoint
  xt_replacement_secondary_work_id :: "string option"
  xt_authority_grant_digest :: "string option"
  xt_wake_admission_digest :: "string option"
  xt_schema_version :: string

definition transition_result_py :: "transition_result \<Rightarrow> pyval" where
  "transition_result_py x = PDict [
    (''previous_state_digest'', PStr (xt_previous_state_digest x)),
    (''policy_digest'', PStr (xt_policy_digest x)),
    (''rule_digest'', PStr (xt_rule_digest x)),
    (''effect'', PStr (xt_effect x)),
    (''new_state'', portfolio_state_py (xt_new_state x)),
    (''checkpoint'', execution_checkpoint_py (xt_checkpoint x)),
    (''replacement_secondary_work_id'', py_opt PStr (xt_replacement_secondary_work_id x)),
    (''authority_grant_digest'', py_opt PStr (xt_authority_grant_digest x)),
    (''wake_admission_digest'', py_opt PStr (xt_wake_admission_digest x)),
    (''schema_version'', PStr (xt_schema_version x))]"

definition transition_result_digest :: "hash \<Rightarrow> transition_result \<Rightarrow> string" where
  "transition_result_digest h x = sha256_digest h (transition_result_py x)"

definition transition_result_init :: "hash \<Rightarrow> transition_result \<Rightarrow> transition_result exc" where
  "transition_result_init h x =
     (if xt_schema_version x \<noteq> ''ge.portfolio-transition-result.v1''
      then Inl (AspTransitionError ''unsupported portfolio transition result schema'')
      else
      ebind (digest_field AspTransitionError ''previous_state_digest'' (PStr (xt_previous_state_digest x))) (\<lambda>_.
      ebind (digest_field AspTransitionError ''policy_digest'' (PStr (xt_policy_digest x))) (\<lambda>_.
      ebind (digest_field AspTransitionError ''rule_digest'' (PStr (xt_rule_digest x))) (\<lambda>_.
      ebind (optional_field AspTransitionError ''replacement_secondary_work_id'' (py_opt PStr (xt_replacement_secondary_work_id x))) (\<lambda>_.
      ebind (optional_digest AspTransitionError ''authority_grant_digest'' (py_opt PStr (xt_authority_grant_digest x))) (\<lambda>_.
      ebind (optional_digest AspTransitionError ''wake_admission_digest'' (py_opt PStr (xt_wake_admission_digest x))) (\<lambda>_.
      if xt_effect x \<notin> {''none'', ''promote_secondary'', ''park_active'', ''request_di'', ''stop_human_gate''}
      then Inl (AspTransitionError ''unsupported transition result effect'')
      else if xt_effect x \<in> set rotating_effects \<and>
        (xt_replacement_secondary_work_id x = None \<or> xt_wake_admission_digest x = None)
      then Inl (AspTransitionError ''rotating result requires replacement Secondary and wake admission'')
      else if xt_effect x \<notin> set rotating_effects \<and>
        (xt_replacement_secondary_work_id x \<noteq> None \<or> xt_wake_admission_digest x \<noteq> None)
      then Inl (AspTransitionError ''non-rotating result cannot carry replacement Secondary or wake admission'')
      else if pf_previous_state_digest (xt_new_state x) \<noteq> Some (xt_previous_state_digest x)
      then Inl (AspTransitionError ''transition result state predecessor does not match previous state'')
      else if ec_portfolio_id (xt_checkpoint x) \<noteq> pf_portfolio_id (xt_new_state x)
        \<or> ec_portfolio_generation (xt_checkpoint x) \<noteq> pf_generation (xt_new_state x)
        \<or> ec_portfolio_state_digest (xt_checkpoint x) \<noteq> portfolio_state_digest h (xt_new_state x)
      then Inl (AspTransitionError ''transition result checkpoint does not bind new state'')
      else Inr x)))))))"

section \<open>Authority\<close>

definition verify_authority :: "hash \<Rightarrow> transition_policy \<Rightarrow> transition_rule \<Rightarrow> transition_grant option \<Rightarrow> string option exc" where
  "verify_authority h p r grant =
     (if tr_authority_mode r = ''none'' then
        (if grant \<noteq> None then Inl (AspTransitionError ''ordinary transition cannot consume an authority grant'') else Inr None)
      else if tr_authority_mode r = ''human_required'' then
        (if grant \<noteq> None then Inl (AspTransitionError ''human-required transition stops before authority is granted'') else Inr None)
      else if tr_authority_mode r \<noteq> ''preauthorized_required''
      then Inl (AspTransitionError ''unsupported transition authority mode'')
      else case grant of
        None \<Rightarrow> Inl (AspTransitionError ''preauthorized transition requires bounded authority grant'')
      | Some g \<Rightarrow>
          if tg_policy_digest g \<noteq> transition_policy_digest h p \<or> tg_rule_digest g \<noteq> transition_rule_digest h r
            \<or> Some (tg_authority_boundary g) \<noteq> tr_authority_boundary r
          then Inl (AspTransitionError ''transition authority grant does not bind policy/rule boundary'')
          else Inr (Some (transition_grant_digest h g)))"

section \<open>Waking a passive entry\<close>

definition find_passive :: "portfolio_state \<Rightarrow> string \<Rightarrow> portfolio_entry exc" where
  "find_passive s work_id = (case filter (\<lambda>e. pe_work_id e = work_id) (pf_passive s) of
     [e] \<Rightarrow> Inr e
   | _ \<Rightarrow> Inl (AspTransitionError ''passive work item is not uniquely present''))"

text \<open>\<open>except TransitionPolicyError as exc: raise AspTransitionError(str(exc))\<close>.\<close>

definition matched_rule :: "transition_policy \<Rightarrow> string \<Rightarrow> string \<Rightarrow> transition_rule exc" where
  "matched_rule p current event = (case match_transition_rule p current event of
     Inl (TransitionPolicyError message) \<Rightarrow> Inl (AspTransitionError message)
   | m \<Rightarrow> m)"

definition admit_passive_wake :: "hash \<Rightarrow> portfolio_state \<Rightarrow> transition_policy \<Rightarrow> string \<Rightarrow> checkpoint_evidence list \<Rightarrow>
   transition_grant option \<Rightarrow> wake_admission exc" where
  "admit_passive_wake h s p work_id evidence grant =
     ebind (find_passive s work_id) (\<lambda>item.
     case pe_wake_condition item of
       None \<Rightarrow> Inl (AspTransitionError ''passive work item has no explicit wake condition'')
     | Some wake \<Rightarrow>
         ebind (matched_rule p ''passive'' ''wake_satisfied'') (\<lambda>r.
         if tr_effect r \<noteq> ''wake_passive''
         then Inl (AspTransitionError ''passive wake requires a wake_passive transition rule'')
         else ebind (verify_evidence r evidence) (\<lambda>_.
         ebind (verify_authority h p r grant) (\<lambda>_.
         wake_admission_init
           \<lparr>wa_portfolio_id = pf_portfolio_id s, wa_portfolio_generation = pf_generation s,
            wa_portfolio_state_digest = portfolio_state_digest h s, wa_work_id = pe_work_id item,
            wa_wake_condition_digest = wake_condition_digest h wake, wa_policy_digest = transition_policy_digest h p,
            wa_rule_digest = transition_rule_digest h r, wa_evidence = sort_key evidence_identity evidence,
            wa_next_action_ref = tr_next_action_ref r, wa_authority_grant = grant,
            wa_schema_version = ''ge.passive-wake-admission.v1''\<rparr>))))"

definition woken_entry :: "portfolio_entry \<Rightarrow> transition_rule \<Rightarrow> portfolio_entry" where
  "woken_entry e r = e\<lparr>pe_role := ''secondary'', pe_state := ''ready'', pe_next_action_ref := tr_next_action_ref r,
     pe_blockers := [], pe_wake_condition := None, pe_authority_boundary := None, pe_authority_ref := None\<rparr>"

definition secondary_from_wake :: "hash \<Rightarrow> portfolio_state \<Rightarrow> transition_policy \<Rightarrow> wake_admission \<Rightarrow>
   (portfolio_entry \<times> portfolio_entry list) exc" where
  "secondary_from_wake h s p a =
     (if wa_portfolio_id a \<noteq> pf_portfolio_id s \<or> wa_portfolio_generation a \<noteq> pf_generation s
        \<or> wa_portfolio_state_digest a \<noteq> portfolio_state_digest h s \<or> wa_policy_digest a \<noteq> transition_policy_digest h p
      then Inl (AspTransitionError ''wake admission is stale or belongs to another portfolio'')
      else ebind (find_passive s (wa_work_id a)) (\<lambda>item.
      case pe_wake_condition item of
        None \<Rightarrow> Inl (AspTransitionError ''wake admission target has no wake condition'')
      | Some wake \<Rightarrow>
          if wake_condition_digest h wake \<noteq> wa_wake_condition_digest a
          then Inl (AspTransitionError ''wake admission does not bind current wake condition'')
          else ebind (matched_rule p ''passive'' ''wake_satisfied'') (\<lambda>r.
          if tr_effect r \<noteq> ''wake_passive'' \<or> transition_rule_digest h r \<noteq> wa_rule_digest a
            \<or> tr_next_action_ref r \<noteq> wa_next_action_ref a
          then Inl (AspTransitionError ''wake admission does not bind current wake rule'')
          else ebind (verify_evidence r (wa_evidence a)) (\<lambda>_.
          ebind (verify_authority h p r (wa_authority_grant a)) (\<lambda>_.
          ebind (portfolio_entry_new (woken_entry item r)) (\<lambda>replacement.
          Inr (replacement, sort_key pe_work_id (filter (\<lambda>e. pe_work_id e \<noteq> pe_work_id item) (pf_passive s)))))))))"

definition replacement_secondary :: "hash \<Rightarrow> portfolio_state \<Rightarrow> transition_policy \<Rightarrow> portfolio_entry option \<Rightarrow> wake_admission option \<Rightarrow>
   (portfolio_entry \<times> portfolio_entry list \<times> string) exc" where
  "replacement_secondary h s p replacement admission =
     (if replacement \<noteq> None
      then Inl (AspTransitionError ''external replacement selection is not authorized by core ASP engine'')
      else case admission of
        None \<Rightarrow> Inl (AspTransitionError ''rotating transition requires a valid passive wake admission'')
      | Some a \<Rightarrow> ebind (secondary_from_wake h s p a) (\<lambda>(item, remaining).
          Inr (item, remaining, wake_admission_digest h a)))"

section \<open>The slots after a transition\<close>

definition promoted_active :: "portfolio_entry \<Rightarrow> portfolio_entry exc" where
  "promoted_active e = portfolio_entry_new (e\<lparr>pe_role := ''active'', pe_state := ''ready'', pe_blockers := [],
     pe_wake_condition := None, pe_authority_boundary := None, pe_authority_ref := None\<rparr>)"

definition parked_active :: "portfolio_entry \<Rightarrow> transition_rule \<Rightarrow> portfolio_entry exc" where
  "parked_active e r =
     (if pe_state e \<noteq> ''waiting_external''
      then Inl (AspTransitionError ''park_active requires current Active state=waiting_external'')
      else if pe_blockers e = [] \<or> pe_wake_condition e = None
      then Inl (AspTransitionError ''park_active requires blocker and explicit wake condition'')
      else portfolio_entry_new (e\<lparr>pe_role := ''passive'', pe_state := ''passive'', pe_next_action_ref := tr_next_action_ref r,
        pe_authority_boundary := None, pe_authority_ref := None\<rparr>))"

definition authority_stopped_active :: "portfolio_entry \<Rightarrow> transition_rule \<Rightarrow> checkpoint_evidence list \<Rightarrow> portfolio_entry exc" where
  "authority_stopped_active e r evidence = (case tr_authority_boundary r of
     None \<Rightarrow> Inl (AspTransitionError ''human-gate rule has no authority boundary'')
   | Some boundary \<Rightarrow>
       ebind (portfolio_blocker_new \<lparr>bk_kind = ''authority'', bk_detail = boundary,
         bk_evidence_refs = sort (remdups (map cv_locator evidence)), bk_schema_version = ''ge.portfolio-blocker.v1''\<rparr>) (\<lambda>blocker.
       portfolio_entry_new (e\<lparr>pe_state := ''human_gate'', pe_next_action_ref := tr_next_action_ref r,
         pe_authority_boundary := Some boundary, pe_authority_ref := None, pe_blockers := [blocker], pe_wake_condition := None\<rparr>)))"

text \<open>The plain move of the active entry; any \<open>ValueError\<close> in it, its own included, is wrapped.\<close>

definition moved_active :: "portfolio_entry \<Rightarrow> transition_rule \<Rightarrow> transition_grant option \<Rightarrow> portfolio_entry exc" where
  "moved_active e r grant =
     rethrow is_value_error (AspTransitionError ''transition target is incompatible with current Active metadata'')
     (if pe_state e = ''human_gate'' then
        (case grant of
           None \<Rightarrow> Inl (AspTransitionError ''leaving human_gate requires bounded authority grant'')
         | Some g \<Rightarrow> portfolio_entry_new (e\<lparr>pe_state := tr_to_state r, pe_next_action_ref := tr_next_action_ref r,
             pe_authority_boundary := None, pe_authority_ref := Some (tg_authority_ref g), pe_blockers := [],
             pe_wake_condition := None\<rparr>))
      else if pe_state e = ''waiting_external'' \<and> tr_to_state r \<noteq> ''waiting_external''
      then portfolio_entry_new (e\<lparr>pe_state := tr_to_state r, pe_next_action_ref := tr_next_action_ref r, pe_blockers := [],
        pe_wake_condition := None\<rparr>)
      else portfolio_entry_new (e\<lparr>pe_state := tr_to_state r, pe_next_action_ref := tr_next_action_ref r\<rparr>))"

text \<open>The keyword arguments of a transition.\<close>

record transition_args =
  ta_action_ref :: string
  ta_observed_at :: string
  ta_summary :: string
  ta_canonical_refs :: "string list"
  ta_uncertainties :: "string list"
  ta_replacement_secondary :: "portfolio_entry option"
  ta_wake_admission :: "wake_admission option"
  ta_authority_grant :: "transition_grant option"

text \<open>New active and secondary entries, passive entries, the replacement's work id and the digest of its admission.\<close>

definition transition_slots :: "hash \<Rightarrow> portfolio_state \<Rightarrow> transition_policy \<Rightarrow> transition_rule \<Rightarrow> checkpoint_evidence list \<Rightarrow>
   transition_args \<Rightarrow> (portfolio_entry \<times> portfolio_entry \<times> portfolio_entry list \<times> string option \<times> string option) exc" where
  "transition_slots h s p r evidence args =
     (if tr_effect r \<in> set rotating_effects then
        ebind (replacement_secondary h s p (ta_replacement_secondary args) (ta_wake_admission args)) (\<lambda>(replacement, remaining, wake_digest).
        ebind (promoted_active (pf_secondary s)) (\<lambda>active.
        if tr_effect r = ''promote_secondary''
        then Inr (active, replacement, remaining, Some (pe_work_id replacement), Some wake_digest)
        else ebind (parked_active (pf_active s) r) (\<lambda>parked.
          Inr (active, replacement, sort_key pe_work_id (remaining @ [parked]), Some (pe_work_id replacement), Some wake_digest))))
      else if ta_replacement_secondary args \<noteq> None \<or> ta_wake_admission args \<noteq> None
      then Inl (AspTransitionError ''non-rotating transition cannot consume a replacement secondary'')
      else ebind (if tr_effect r = ''stop_human_gate'' then authority_stopped_active (pf_active s) r evidence
          else moved_active (pf_active s) r (ta_authority_grant args)) (\<lambda>active.
        Inr (active, pf_secondary s, pf_passive s, None, None)))"

text \<open>\<open>tuple(dict.fromkeys(xs))\<close> keeps the first of equal elements.\<close>

definition first_occurrences :: "'a list \<Rightarrow> 'a list" where
  "first_occurrences xs = rev (remdups (rev xs))"

section \<open>The transition\<close>

definition transition_checkpoint :: "hash \<Rightarrow> portfolio_state \<Rightarrow> transition_policy \<Rightarrow> transition_rule \<Rightarrow> checkpoint_evidence list \<Rightarrow>
   transition_args \<Rightarrow> portfolio_state \<Rightarrow> execution_checkpoint" where
  "transition_checkpoint h s p r evidence args new =
     (let authority_stop = (tr_authority_mode r = ''human_required'') in
     \<lparr>ec_portfolio_id = pf_portfolio_id new, ec_portfolio_generation = pf_generation new,
      ec_portfolio_state_digest = portfolio_state_digest h new, ec_work_id = pe_work_id (pf_active s), ec_role = ''active'',
      ec_state_before = pe_state (pf_active s), ec_state_after = tr_to_state r, ec_action_ref = ta_action_ref args,
      ec_source_revision = pe_source_revision (pf_active s), ec_observed_at = ta_observed_at args, ec_summary = ta_summary args,
      ec_evidence = evidence,
      ec_canonical_refs = first_occurrences (ta_canonical_refs args @
        [''policy:'' @ transition_policy_digest h p, ''rule:'' @ transition_rule_digest h r] @
        (case ta_authority_grant args of None \<Rightarrow> [] | Some g \<Rightarrow> [tg_authority_ref g])),
      ec_uncertainties = ta_uncertainties args,
      ec_next_transition_refs = (if authority_stop \<or> tr_to_state r \<in> {''complete'', ''failed''} then [] else [tr_next_action_ref r]),
      ec_authority_stop = authority_stop,
      ec_authority_boundary = (if authority_stop then tr_authority_boundary r else None),
      ec_schema_version = ''ge.execution-checkpoint.v1''\<rparr>)"

definition transitioned_state :: "hash \<Rightarrow> portfolio_state \<Rightarrow> portfolio_entry \<Rightarrow> portfolio_entry \<Rightarrow> portfolio_entry list \<Rightarrow> portfolio_state" where
  "transitioned_state h s active secondary passive =
     \<lparr>pf_portfolio_id = pf_portfolio_id s, pf_generation = pf_generation s + 1, pf_active = active, pf_secondary = secondary,
      pf_passive = sort_key pe_work_id passive, pf_previous_state_digest = Some (portfolio_state_digest h s),
      pf_schema_version = ''ge.portfolio-state.v1''\<rparr>"

definition transition_outcome :: "hash \<Rightarrow> portfolio_state \<Rightarrow> transition_policy \<Rightarrow> transition_rule \<Rightarrow> portfolio_state \<Rightarrow>
   execution_checkpoint \<Rightarrow> string option \<Rightarrow> string option \<Rightarrow> string option \<Rightarrow> transition_result" where
  "transition_outcome h s p r new checkpoint replacement_id grant_digest wake_digest =
     \<lparr>xt_previous_state_digest = portfolio_state_digest h s, xt_policy_digest = transition_policy_digest h p,
      xt_rule_digest = transition_rule_digest h r, xt_effect = tr_effect r, xt_new_state = new, xt_checkpoint = checkpoint,
      xt_replacement_secondary_work_id = replacement_id, xt_authority_grant_digest = grant_digest,
      xt_wake_admission_digest = wake_digest, xt_schema_version = ''ge.portfolio-transition-result.v1''\<rparr>"

definition apply_active_transition :: "hash \<Rightarrow> portfolio_state \<Rightarrow> transition_policy \<Rightarrow> string \<Rightarrow> checkpoint_evidence list \<Rightarrow>
   transition_args \<Rightarrow> transition_result exc" where
  "apply_active_transition h s p event evidence args =
     ebind (nonempty_field AspTransitionError ''action_ref'' (PStr (ta_action_ref args))) (\<lambda>_.
     ebind (nonempty_field AspTransitionError ''observed_at'' (PStr (ta_observed_at args))) (\<lambda>_.
     ebind (nonempty_field AspTransitionError ''summary'' (PStr (ta_summary args))) (\<lambda>_.
     if ta_canonical_refs args = [] then Inl (AspTransitionError ''transition requires canonical_refs'')
     else ebind (matched_rule p (pe_state (pf_active s)) event) (\<lambda>r.
     if tr_effect r = ''wake_passive''
     then Inl (AspTransitionError ''wake_passive is admitted separately and cannot target Active'')
     else ebind (verify_evidence r evidence) (\<lambda>_.
     ebind (verify_authority h p r (ta_authority_grant args)) (\<lambda>grant_digest.
     ebind (transition_slots h s p r evidence args) (\<lambda>(active, secondary, passive, replacement_id, wake_digest).
     ebind (portfolio_state_new (transitioned_state h s active secondary passive)) (\<lambda>new.
     ebind (checkpoint_new (transition_checkpoint h s p r evidence args new)) (\<lambda>checkpoint.
     transition_result_init h (transition_outcome h s p r new checkpoint replacement_id grant_digest wake_digest))))))))))"

section \<open>What a successful check says\<close>

lemma matched_rule_Inr:
  assumes "valid_policy p"
  shows "matched_rule p s e = Inr r \<longleftrightarrow> r \<in> set (tp_rules p) \<and> tr_from_state r = s \<and> tr_event r = e"
  unfolding match_transition_rule_Inr [OF assms, symmetric]
  by (auto simp: matched_rule_def split: sum.splits py_error.splits)

lemma matched_rule_ok:
  assumes "valid_policy p" and "matched_rule p s e = Inr r"
  shows "transition_rule_ok r" and "tr_from_state r = s" and "tr_event r = e"
  using assms unfolding matched_rule_Inr [OF assms(1)] by (auto simp: valid_policy_def list_all_iff)

lemma missing_kinds_empty [simp]: "missing_kinds required kinds = [] \<longleftrightarrow> set required \<subseteq> set kinds"
proof -
  have "missing_kinds required kinds = [] \<longleftrightarrow> set (missing_kinds required kinds) = {}" by (simp only: set_empty)
  then show ?thesis by (auto simp: missing_kinds_def)
qed

lemma verify_evidence_Inr [exc_simps]:
  "verify_evidence r evidence = Inr u \<longleftrightarrow> evidence \<noteq> [] \<and> distinct (map evidence_identity evidence) \<and>
     set (tr_required_evidence r) \<union> set (mandatory_effect_evidence (tr_effect r)) \<subseteq> cv_kind ` set evidence"
  using length_remdups_eq [of "map evidence_identity evidence"]
  by (auto simp: verify_evidence_def evidence_kinds_def exc_simps Let_def)

definition grant_binds :: "hash \<Rightarrow> transition_policy \<Rightarrow> transition_rule \<Rightarrow> transition_grant \<Rightarrow> bool" where
  "grant_binds h p r g \<longleftrightarrow> tg_policy_digest g = transition_policy_digest h p \<and> tg_rule_digest g = transition_rule_digest h r \<and>
     tr_authority_boundary r = Some (tg_authority_boundary g)"

lemma verify_authority_Inr:
  assumes "transition_rule_ok r"
  shows "verify_authority h p r grant = Inr d \<longleftrightarrow>
     (if tr_authority_mode r = ''preauthorized_required''
      then \<exists>g. grant = Some g \<and> grant_binds h p r g \<and> d = Some (transition_grant_digest h g)
      else grant = None \<and> d = None)"
proof -
  have "tr_authority_mode r \<in> {''none'', ''preauthorized_required'', ''human_required''}"
    using assms by (simp add: transition_rule_ok_def authority_modes_def)
  then show ?thesis
    by (elim insertE emptyE) (auto simp: verify_authority_def grant_binds_def split: option.splits)
qed

lemma find_passive_Inr:
  "find_passive s w = Inr e \<Longrightarrow> e \<in> set (pf_passive s) \<and> pe_work_id e = w"
proof -
  assume "find_passive s w = Inr e"
  then have "filter (\<lambda>e. pe_work_id e = w) (pf_passive s) = [e]" by (auto simp: find_passive_def split: list.splits)
  then have "e \<in> set (filter (\<lambda>e. pe_work_id e = w) (pf_passive s))" by simp
  then show ?thesis by simp
qed

section \<open>What the rebuilt entries are\<close>

lemma promoted_active_Inr [exc_simps]:
  "promoted_active e = Inr x \<longleftrightarrow> x = e\<lparr>pe_role := ''active'', pe_state := ''ready'', pe_blockers := [],
     pe_wake_condition := None, pe_authority_boundary := None, pe_authority_ref := None\<rparr> \<and> portfolio_entry_ok x"
  by (auto simp: promoted_active_def exc_simps)

lemma parked_active_Inr [exc_simps]:
  "parked_active e r = Inr x \<longleftrightarrow> pe_state e = ''waiting_external'' \<and> pe_blockers e \<noteq> [] \<and> pe_wake_condition e \<noteq> None \<and>
     x = e\<lparr>pe_role := ''passive'', pe_state := ''passive'', pe_next_action_ref := tr_next_action_ref r,
       pe_authority_boundary := None, pe_authority_ref := None\<rparr> \<and> portfolio_entry_ok x"
  by (auto simp: parked_active_def exc_simps)

definition stop_blocker :: "string \<Rightarrow> checkpoint_evidence list \<Rightarrow> portfolio_blocker" where
  "stop_blocker boundary evidence = \<lparr>bk_kind = ''authority'', bk_detail = boundary,
     bk_evidence_refs = sort (remdups (map cv_locator evidence)), bk_schema_version = ''ge.portfolio-blocker.v1''\<rparr>"

lemma authority_stopped_Inr [exc_simps]:
  "authority_stopped_active e r evidence = Inr x \<longleftrightarrow> (\<exists>b. tr_authority_boundary r = Some b \<and> portfolio_blocker_ok (stop_blocker b evidence) \<and>
     x = e\<lparr>pe_state := ''human_gate'', pe_next_action_ref := tr_next_action_ref r, pe_authority_boundary := Some b,
       pe_authority_ref := None, pe_blockers := [stop_blocker b evidence], pe_wake_condition := None\<rparr> \<and> portfolio_entry_ok x)"
  by (auto simp: authority_stopped_active_def exc_simps stop_blocker_def [symmetric] split: option.splits)

lemma moved_active_Inr:
  assumes "moved_active e r grant = Inr x"
  shows "portfolio_entry_ok x" and "pe_work_id x = pe_work_id e" and "pe_role x = pe_role e" and "pe_state x = tr_to_state r"
    and "pe_blockers x = [] \<or> pe_blockers x = pe_blockers e" and "pe_wake_condition x = None \<or> pe_wake_condition x = pe_wake_condition e"
    and "pe_state e = ''human_gate'' \<Longrightarrow> \<exists>g. grant = Some g \<and> pe_authority_ref x = Some (tg_authority_ref g)"
  using assms by (auto simp: moved_active_def exc_simps split: if_splits option.splits)

lemma valid_entry_reuse:
  assumes "valid_entry e" and "portfolio_entry_ok x" and "pe_blockers x = [] \<or> pe_blockers x = pe_blockers e"
    and "pe_wake_condition x = None \<or> pe_wake_condition x = pe_wake_condition e"
  shows "valid_entry x"
  using assms by (auto simp: valid_entry_def)

lemma woken_entry_fields [simp]:
  "pe_work_id (woken_entry e r) = pe_work_id e" "pe_role (woken_entry e r) = ''secondary''" "pe_blockers (woken_entry e r) = []"
  "pe_wake_condition (woken_entry e r) = None" "pe_state (woken_entry e r) = ''ready''"
  by (simp_all add: woken_entry_def)

text \<open>The replacement is a passive entry that the admission names, and all other passive entries remain.\<close>

lemma secondary_from_wake_Inr:
  assumes "secondary_from_wake h s p a = Inr (x, rest)"
  shows "\<exists>item r. item \<in> set (pf_passive s) \<and> pe_work_id item = wa_work_id a \<and> matched_rule p ''passive'' ''wake_satisfied'' = Inr r \<and>
     verify_evidence r (wa_evidence a) = Inr () \<and> (\<exists>d. verify_authority h p r (wa_authority_grant a) = Inr d) \<and>
     wa_portfolio_state_digest a = portfolio_state_digest h s \<and> tr_effect r = ''wake_passive'' \<and>
     x = woken_entry item r \<and> portfolio_entry_ok x \<and>
     rest = sort_key pe_work_id (filter (\<lambda>e. pe_work_id e \<noteq> wa_work_id a) (pf_passive s))"
  using assms find_passive_Inr [of s "wa_work_id a"]
  by (fastforce simp: secondary_from_wake_def exc_simps split: option.splits)

lemma replacement_secondary_Inr [exc_simps]:
  "replacement_secondary h s p repl adm = Inr (x, rest, d) \<longleftrightarrow>
     repl = None \<and> (\<exists>a. adm = Some a \<and> secondary_from_wake h s p a = Inr (x, rest) \<and> d = wake_admission_digest h a)"
  by (auto simp: replacement_secondary_def exc_simps split: option.splits)

section \<open>What the new slots are\<close>

text \<open>A rotation: the secondary entry is promoted, an admitted passive entry takes its place, and the active entry has completed or is parked.\<close>

definition slot_rotation :: "hash \<Rightarrow> portfolio_state \<Rightarrow> transition_policy \<Rightarrow> transition_rule \<Rightarrow> transition_args \<Rightarrow> portfolio_entry \<Rightarrow>
   portfolio_entry \<Rightarrow> portfolio_entry list \<Rightarrow> wake_admission \<Rightarrow> portfolio_entry \<Rightarrow> portfolio_entry list \<Rightarrow> bool" where
  "slot_rotation h s p r args active secondary passive a item rest \<longleftrightarrow> ta_wake_admission args = Some a \<and>
     secondary_from_wake h s p a = Inr (secondary, rest) \<and> item \<in> set (pf_passive s) \<and> pe_work_id item = wa_work_id a \<and>
     (\<exists>wr. secondary = woken_entry item wr) \<and> portfolio_entry_ok secondary \<and>
     rest = sort_key pe_work_id (filter (\<lambda>e. pe_work_id e \<noteq> pe_work_id item) (pf_passive s)) \<and>
     promoted_active (pf_secondary s) = Inr active \<and>
     (if tr_effect r = ''promote_secondary'' then passive = rest
      else \<exists>parked. parked_active (pf_active s) r = Inr parked \<and> passive = sort_key pe_work_id (rest @ [parked]))"

lemma slots_rotated:
  assumes "transition_slots h s p r evidence args = Inr (active, secondary, passive, rid, wd)" and "tr_effect r \<in> set rotating_effects"
  shows "\<exists>a item rest. slot_rotation h s p r args active secondary passive a item rest \<and> rid = Some (pe_work_id item) \<and>
     wd = Some (wake_admission_digest h a)"
proof -
  obtain a rest where a: "ta_wake_admission args = Some a" "secondary_from_wake h s p a = Inr (secondary, rest)"
    and more: "promoted_active (pf_secondary s) = Inr active" "rid = Some (pe_work_id secondary)" "wd = Some (wake_admission_digest h a)"
      "if tr_effect r = ''promote_secondary'' then passive = rest
       else \<exists>parked. parked_active (pf_active s) r = Inr parked \<and> passive = sort_key pe_work_id (rest @ [parked])"
    using assms unfolding transition_slots_def if_P [OF assms(2)] by (auto simp: ebind_eq_Inr replacement_secondary_Inr split: if_splits)
  from secondary_from_wake_Inr [OF a(2)] obtain item wr where item: "item \<in> set (pf_passive s)" "pe_work_id item = wa_work_id a"
    "secondary = woken_entry item wr" "portfolio_entry_ok secondary"
    "rest = sort_key pe_work_id (filter (\<lambda>e. pe_work_id e \<noteq> pe_work_id item) (pf_passive s))"
    by auto
  have "slot_rotation h s p r args active secondary passive a item rest"
    unfolding slot_rotation_def using a more(1,4) item(1,2,4,5) exI [of "\<lambda>wr. secondary = woken_entry item wr", OF item(3)] by (intro conjI)
  moreover have "rid = Some (pe_work_id item)" using more(2) item(3) by simp
  ultimately show ?thesis using more(3) by blast
qed

lemma slot_rotationD:
  assumes "slot_rotation h s p r args active secondary passive a item rest"
  shows "ta_wake_admission args = Some a" and "item \<in> set (pf_passive s)" and "pe_work_id item = wa_work_id a"
    and "\<exists>wr. secondary = woken_entry item wr" and "portfolio_entry_ok secondary"
    and "rest = sort_key pe_work_id (filter (\<lambda>e. pe_work_id e \<noteq> pe_work_id item) (pf_passive s))"
    and "promoted_active (pf_secondary s) = Inr active"
    and "if tr_effect r = ''promote_secondary'' then passive = rest
      else \<exists>parked. parked_active (pf_active s) r = Inr parked \<and> passive = sort_key pe_work_id (rest @ [parked])"
  using assms unfolding slot_rotation_def by - (elim conjE, assumption)+

lemma slots_kept:
  assumes "transition_slots h s p r evidence args = Inr (active, secondary, passive, rid, wd)" and "tr_effect r \<notin> set rotating_effects"
  shows "secondary = pf_secondary s" and "passive = pf_passive s" and "rid = None" and "wd = None"
    and "ta_wake_admission args = None"
    and "(if tr_effect r = ''stop_human_gate'' then authority_stopped_active (pf_active s) r evidence
       else moved_active (pf_active s) r (ta_authority_grant args)) = Inr active"
  using assms(1) unfolding transition_slots_def if_not_P [OF assms(2)] by (auto simp: ebind_eq_Inr split: if_splits)

lemma slots_kept_active:
  assumes "transition_slots h s p r evidence args = Inr (active, secondary, passive, rid, wd)" and "tr_effect r \<notin> set rotating_effects"
  shows "pe_work_id active = pe_work_id (pf_active s)"
proof (cases "tr_effect r = ''stop_human_gate''")
  case True
  then have "authority_stopped_active (pf_active s) r evidence = Inr active" using slots_kept(6) [OF assms] by simp
  then show ?thesis by (auto simp: authority_stopped_Inr)
next
  case False
  then have "moved_active (pf_active s) r (ta_authority_grant args) = Inr active" using slots_kept(6) [OF assms] by simp
  then show ?thesis by (rule moved_active_Inr(2))
qed

lemma kept_active_valid:
  assumes "valid_entry e"
    and "(if tr_effect r = ''stop_human_gate'' then authority_stopped_active e r evidence else moved_active e r grant) = Inr x"
  shows "valid_entry x"
proof (cases "tr_effect r = ''stop_human_gate''")
  case True
  with assms(2) show ?thesis by (auto simp: authority_stopped_Inr valid_entry_def)
next
  case False
  then have "moved_active e r grant = Inr x" using assms(2) by simp
  from moved_active_Inr [OF this] show ?thesis by (intro valid_entry_reuse [OF assms(1)])
qed

lemma slots_valid:
  assumes "valid_portfolio s" and "transition_slots h s p r evidence args = Inr (active, secondary, passive, rid, wd)"
  shows "valid_entry active \<and> valid_entry secondary \<and> list_all valid_entry passive"
proof (cases "tr_effect r \<in> set rotating_effects")
  case True
  have old: "valid_entry (pf_active s)" "valid_entry (pf_secondary s)" "\<forall>e\<in>set (pf_passive s). valid_entry e"
    using assms(1) by (auto simp: valid_portfolio_def list_all_iff)
  from slots_rotated [OF assms(2) True] obtain a item rest where "slot_rotation h s p r args active secondary passive a item rest" by blast
  note rot = slot_rotationD [OF this]
  have "valid_entry active" using rot(7) by (auto simp: promoted_active_Inr valid_entry_def)
  moreover have "valid_entry secondary" using rot(4,5) by (auto simp: valid_entry_def)
  moreover have "\<forall>e\<in>set rest. valid_entry e" using old(3) rot(6) by simp
  moreover have "valid_entry parked" if "parked_active (pf_active s) r = Inr parked" for parked
    using that by (intro valid_entry_reuse [OF old(1)]) (auto simp: parked_active_Inr)
  ultimately show ?thesis using rot(8) by (auto simp: list_all_iff split: if_splits)
next
  case False
  from slots_kept [OF assms(2) False] assms(1) show ?thesis
    by (auto simp: valid_portfolio_def intro: kept_active_valid)
qed

section \<open>What a successful transition returns\<close>

definition transition_result_ok :: "hash \<Rightarrow> transition_result \<Rightarrow> bool" where
  "transition_result_ok h x \<longleftrightarrow> xt_schema_version x = ''ge.portfolio-transition-result.v1'' \<and> digest_ok (xt_previous_state_digest x) \<and>
     digest_ok (xt_policy_digest x) \<and> digest_ok (xt_rule_digest x) \<and>
     pred_option (\<lambda>s. \<not> blank s) (xt_replacement_secondary_work_id x) \<and> pred_option digest_ok (xt_authority_grant_digest x) \<and>
     pred_option digest_ok (xt_wake_admission_digest x) \<and>
     xt_effect x \<in> {''none'', ''promote_secondary'', ''park_active'', ''request_di'', ''stop_human_gate''} \<and>
     (if xt_effect x \<in> set rotating_effects then xt_replacement_secondary_work_id x \<noteq> None \<and> xt_wake_admission_digest x \<noteq> None
      else xt_replacement_secondary_work_id x = None \<and> xt_wake_admission_digest x = None) \<and>
     pf_previous_state_digest (xt_new_state x) = Some (xt_previous_state_digest x) \<and>
     ec_portfolio_id (xt_checkpoint x) = pf_portfolio_id (xt_new_state x) \<and>
     ec_portfolio_generation (xt_checkpoint x) = pf_generation (xt_new_state x) \<and>
     ec_portfolio_state_digest (xt_checkpoint x) = portfolio_state_digest h (xt_new_state x)"

lemma py_opt_PStr_eq [simp]: "py_opt PStr x = py_opt PStr y \<longleftrightarrow> x = y"
  by (cases x; cases y) simp_all

lemma transition_result_init_Inr [exc_simps]: "transition_result_init h x = Inr y \<longleftrightarrow> y = x \<and> transition_result_ok h x"
proof -
  have "transition_result_init h x = Inr y \<longleftrightarrow> Inr x = (Inr y :: transition_result exc) \<and> transition_result_ok h x"
    unfolding transition_result_init_def transition_result_ok_def
    by (simp only: exc_simps pyval.inject py_opt_PStr_eq) (simp only: ex_simps simp_thms ex_disj_distrib, auto)
  then show ?thesis by auto
qed

lemma apply_active_Inr:
  "apply_active_transition h s p event evidence args = Inr x \<longleftrightarrow>
     \<not> blank (ta_action_ref args) \<and> \<not> blank (ta_observed_at args) \<and> \<not> blank (ta_summary args) \<and> ta_canonical_refs args \<noteq> [] \<and>
     (\<exists>r. matched_rule p (pe_state (pf_active s)) event = Inr r \<and> tr_effect r \<noteq> ''wake_passive'' \<and> verify_evidence r evidence = Inr () \<and>
     (\<exists>d. verify_authority h p r (ta_authority_grant args) = Inr d \<and>
     (\<exists>active secondary passive rid wd. transition_slots h s p r evidence args = Inr (active, secondary, passive, rid, wd) \<and>
     (let new = transitioned_state h s active secondary passive; checkpoint = transition_checkpoint h s p r evidence args new in
     portfolio_state_ok new \<and> checkpoint_ok checkpoint \<and> x = transition_outcome h s p r new checkpoint rid d wd \<and> transition_result_ok h x))))"
  unfolding apply_active_transition_def Let_def
  by (simp only: ebind_eq_Inr raise_unless_eq nonempty_field_Inr pyval.inject portfolio_state_new_eq checkpoint_new_eq
      transition_result_init_Inr split_paired_Ex prod.case) (auto 0 3)

definition portfolio_work_ids :: "portfolio_state \<Rightarrow> string list" where
  "portfolio_work_ids s = pe_work_id (pf_active s) # pe_work_id (pf_secondary s) # map pe_work_id (pf_passive s)"

lemma distinct_work_ids: "portfolio_state_ok s \<Longrightarrow> distinct (portfolio_work_ids s)"
  by (simp add: portfolio_state_ok_def portfolio_work_ids_def)

lemma transitioned_state_fields [simp]:
  "pf_portfolio_id (transitioned_state h s a b c) = pf_portfolio_id s" "pf_generation (transitioned_state h s a b c) = pf_generation s + 1"
  "pf_active (transitioned_state h s a b c) = a" "pf_secondary (transitioned_state h s a b c) = b"
  "pf_passive (transitioned_state h s a b c) = sort_key pe_work_id c"
  "pf_previous_state_digest (transitioned_state h s a b c) = Some (portfolio_state_digest h s)"
  by (simp_all add: transitioned_state_def)

lemma transition_outcome_fields [simp]:
  "xt_previous_state_digest (transition_outcome h s p r new c rid d wd) = portfolio_state_digest h s"
  "xt_policy_digest (transition_outcome h s p r new c rid d wd) = transition_policy_digest h p"
  "xt_rule_digest (transition_outcome h s p r new c rid d wd) = transition_rule_digest h r"
  "xt_effect (transition_outcome h s p r new c rid d wd) = tr_effect r" "xt_new_state (transition_outcome h s p r new c rid d wd) = new"
  "xt_checkpoint (transition_outcome h s p r new c rid d wd) = c"
  "xt_replacement_secondary_work_id (transition_outcome h s p r new c rid d wd) = rid"
  "xt_authority_grant_digest (transition_outcome h s p r new c rid d wd) = d"
  "xt_wake_admission_digest (transition_outcome h s p r new c rid d wd) = wd"
  by (simp_all add: transition_outcome_def)

text \<open>All that a returned transition tells.\<close>

lemma apply_transitionD:
  assumes "apply_active_transition h s p event evidence args = Inr x"
  obtains r d active secondary parked rid wd where "matched_rule p (pe_state (pf_active s)) event = Inr r"
    and "verify_evidence r evidence = Inr ()" and "verify_authority h p r (ta_authority_grant args) = Inr d"
    and "transition_slots h s p r evidence args = Inr (active, secondary, parked, rid, wd)"
    and "xt_new_state x = transitioned_state h s active secondary parked" and "portfolio_state_ok (xt_new_state x)"
    and "xt_checkpoint x = transition_checkpoint h s p r evidence args (xt_new_state x)" and "checkpoint_ok (xt_checkpoint x)"
    and "xt_previous_state_digest x = portfolio_state_digest h s" and "xt_rule_digest x = transition_rule_digest h r"
    and "xt_effect x = tr_effect r" and "xt_authority_grant_digest x = d" and "xt_replacement_secondary_work_id x = rid"
  using assms unfolding apply_active_Inr Let_def by (elim exE conjE) (rule that, assumption+, simp_all)

lemma returned_state_valid:
  assumes "valid_portfolio s" and "apply_active_transition h s p event evidence args = Inr x"
  shows "valid_portfolio (xt_new_state x)"
  using assms(2)
proof (rule apply_transitionD)
  fix r active secondary parked rid wd
  assume "transition_slots h s p r evidence args = Inr (active, secondary, parked, rid, wd)"
    and "xt_new_state x = transitioned_state h s active secondary parked" and "portfolio_state_ok (xt_new_state x)"
  with slots_valid [OF assms(1)] show ?thesis by (simp add: valid_portfolio_def list_all_iff)
qed

lemma transition_checkpoint_fields [simp]:
  "ec_portfolio_id (transition_checkpoint h s p r evidence args new) = pf_portfolio_id new"
  "ec_portfolio_generation (transition_checkpoint h s p r evidence args new) = pf_generation new"
  "ec_portfolio_state_digest (transition_checkpoint h s p r evidence args new) = portfolio_state_digest h new"
  "ec_evidence (transition_checkpoint h s p r evidence args new) = evidence"
  "ec_authority_stop (transition_checkpoint h s p r evidence args new) \<longleftrightarrow> tr_authority_mode r = ''human_required''"
  by (simp_all add: transition_checkpoint_def Let_def)

lemma returned_checkpoint_binds:
  assumes "apply_active_transition h s p event evidence args = Inr x" and "list_all checkpoint_evidence_ok evidence"
  shows "checkpoint_binds h (pf_portfolio_id s) (xt_new_state x) (xt_checkpoint x)"
  using assms(1) by (rule apply_transitionD) (use assms(2) in \<open>simp add: checkpoint_binds_def valid_checkpoint_def\<close>)

lemma transition_history:
  assumes "portfolio_history h pid xs" and "list_all checkpoint_evidence_ok evidence"
    and "apply_active_transition h (fst (last xs)) p event evidence args = Inr x"
  shows "portfolio_history h pid (xs @ [(xt_new_state x, Some (xt_checkpoint x))])"
    and "valid_portfolio (xt_new_state x)" and "checkpoint_binds h pid (xt_new_state x) (xt_checkpoint x)"
    and "pf_generation (xt_new_state x) = pf_generation (fst (last xs)) + 1"
    and "xt_previous_state_digest x = portfolio_state_digest h (fst (last xs))"
proof -
  note last = portfolio_history_last [OF assms(1)]
  show valid: "valid_portfolio (xt_new_state x)" by (rule returned_state_valid [OF last(3) assms(3)])
  show binds: "checkpoint_binds h pid (xt_new_state x) (xt_checkpoint x)"
    using returned_checkpoint_binds [OF assms(3,2)] last(4) by simp
  have new: "pf_portfolio_id (xt_new_state x) = pid" "pf_generation (xt_new_state x) = pf_generation (fst (last xs)) + 1"
    "pf_previous_state_digest (xt_new_state x) = Some (portfolio_state_digest h (fst (last xs)))"
    by - (rule apply_transitionD [OF assms(3)], simp add: last(4))+
  show "pf_generation (xt_new_state x) = pf_generation (fst (last xs)) + 1" by (rule new(2))
  show "xt_previous_state_digest x = portfolio_state_digest h (fst (last xs))" by (rule apply_transitionD [OF assms(3)])
  show "portfolio_history h pid (xs @ [(xt_new_state x, Some (xt_checkpoint x))])"
    by (rule portfolio_history.extended [OF assms(1) valid new binds])
qed

section \<open>Work is conserved\<close>

lemma sort_key_sorted: "sorted (map f xs) \<Longrightarrow> sort_key f xs = xs"
  by (rule sort_key_id_if_sorted)

lemma rotation_work_ids:
  assumes "slot_rotation h s p r args active secondary passive a item rest" and "distinct (portfolio_work_ids s)"
  shows "set (portfolio_work_ids (transitioned_state h s active secondary passive)) =
     set (portfolio_work_ids s) - (if tr_effect r = ''promote_secondary'' then {pe_work_id (pf_active s)} else {})"
    and "pe_work_id active = pe_work_id (pf_secondary s)" and "pe_work_id secondary = pe_work_id item"
proof -
  note rot = slot_rotationD [OF assms(1)]
  show active: "pe_work_id active = pe_work_id (pf_secondary s)" using rot(7) by (auto simp: promoted_active_Inr)
  show secondary: "pe_work_id secondary = pe_work_id item" using rot(4) by auto
  have rest: "pe_work_id ` set rest = pe_work_id ` set (pf_passive s) - {pe_work_id item}" unfolding rot(6) by auto
  have item: "pe_work_id item \<in> pe_work_id ` set (pf_passive s)" using rot(2) by simp
  have parked: "pe_work_id ` set passive = (if tr_effect r = ''promote_secondary'' then pe_work_id ` set rest
      else insert (pe_work_id (pf_active s)) (pe_work_id ` set rest))"
    using rot(8) by (auto simp: parked_active_Inr split: if_splits)
  show "set (portfolio_work_ids (transitioned_state h s active secondary passive)) =
     set (portfolio_work_ids s) - (if tr_effect r = ''promote_secondary'' then {pe_work_id (pf_active s)} else {})"
    using assms(2) item unfolding portfolio_work_ids_def by (auto simp: active secondary rest parked)
qed

section \<open>A demanded human stop\<close>

lemma set_first_occurrences [simp]: "set (first_occurrences xs) = set xs" "distinct (first_occurrences xs)"
  by (simp_all add: first_occurrences_def)

lemma first_occurrences_Nil [simp]: "first_occurrences xs = [] \<longleftrightarrow> xs = []"
proof -
  have "first_occurrences xs = [] \<longleftrightarrow> set (first_occurrences xs) = {}" by (simp only: set_empty)
  then show ?thesis by simp
qed

text \<open>The texts given with a transition that its checkpoint accepts.\<close>

definition transition_texts_ok :: "transition_args \<Rightarrow> bool" where
  "transition_texts_ok args \<longleftrightarrow> \<not> blank (ta_action_ref args) \<and> \<not> blank (ta_observed_at args) \<and> \<not> blank (ta_summary args) \<and>
     ta_canonical_refs args \<noteq> [] \<and> (\<forall>s\<in>set (ta_canonical_refs args). \<not> blank s) \<and>
     (\<forall>s\<in>set (ta_uncertainties args). \<not> blank s) \<and> distinct (ta_uncertainties args)"

lemma apply_transitionI:
  assumes "transition_texts_ok args" and "matched_rule p (pe_state (pf_active s)) event = Inr r" and "verify_evidence r evidence = Inr ()"
    and "verify_authority h p r (ta_authority_grant args) = Inr d"
    and "transition_slots h s p r evidence args = Inr (active, secondary, parked, rid, wd)"
    and "portfolio_state_ok (transitioned_state h s active secondary parked)"
    and "checkpoint_ok (transition_checkpoint h s p r evidence args (transitioned_state h s active secondary parked))"
    and "tr_effect r \<noteq> ''wake_passive''"
    and "transition_result_ok h (transition_outcome h s p r (transitioned_state h s active secondary parked)
      (transition_checkpoint h s p r evidence args (transitioned_state h s active secondary parked)) rid d wd)"
  shows "\<exists>x. apply_active_transition h s p event evidence args = Inr x \<and> xt_effect x = tr_effect r"
proof -
  have "\<not> blank (ta_action_ref args) \<and> \<not> blank (ta_observed_at args) \<and> \<not> blank (ta_summary args) \<and> ta_canonical_refs args \<noteq> []"
    using assms(1) by (simp add: transition_texts_ok_def)
  then have "apply_active_transition h s p event evidence args = Inr (transition_outcome h s p r (transitioned_state h s active secondary parked)
      (transition_checkpoint h s p r evidence args (transitioned_state h s active secondary parked)) rid d wd)"
    unfolding apply_active_Inr Let_def using assms(2-) by blast
  then show ?thesis by auto
qed

definition stopped_entry :: "portfolio_entry \<Rightarrow> transition_rule \<Rightarrow> string \<Rightarrow> checkpoint_evidence list \<Rightarrow> portfolio_entry" where
  "stopped_entry e r b evidence = e\<lparr>pe_state := ''human_gate'', pe_next_action_ref := tr_next_action_ref r, pe_authority_boundary := Some b,
     pe_authority_ref := None, pe_blockers := [stop_blocker b evidence], pe_wake_condition := None\<rparr>"

lemma stopped_entry_ok:
  assumes "portfolio_entry_ok e" and "pe_role e = ''active''" and "\<not> blank b" and "\<not> blank (tr_next_action_ref r)"
  shows "portfolio_entry_ok (stopped_entry e r b evidence)"
proof -
  have "b \<noteq> []" using assms(3) by (auto simp: blank_iff)
  then show ?thesis
    using assms by (simp add: portfolio_entry_ok_def stopped_entry_def portfolio_states_def portfolio_entry_check_def active_states_def stop_blocker_def)
qed

lemma stop_blocker_ok:
  assumes "\<not> blank b" and "list_all checkpoint_evidence_ok evidence"
  shows "portfolio_blocker_ok (stop_blocker b evidence)"
  using assms by (simp add: portfolio_blocker_ok_def stop_blocker_def blocker_kinds_def list_all_iff checkpoint_evidence_ok_def)

lemma blank_append [simp]: "blank (xs @ ys) \<longleftrightarrow> blank xs \<and> blank ys"
  by (auto simp: blank_iff)

lemma stop_checkpoint_ok:
  assumes "hex_digest h" and "valid_portfolio s" and "transition_rule_ok r" and "tr_from_state r = pe_state (pf_active s)"
    and "tr_authority_mode r = ''human_required''" and "transition_texts_ok args" and "ta_authority_grant args = None"
    and "evidence \<noteq> []" and "distinct (map evidence_identity evidence)" and "pf_portfolio_id new = pf_portfolio_id s"
    and "pf_generation new = pf_generation s + 1"
  shows "checkpoint_ok (transition_checkpoint h s p r evidence args new)"
proof -
  note [simp] = hex_digest.digest_ok_sha256 [OF assms(1)]
  have "tr_authority_boundary r \<noteq> None" "tr_to_state r = ''human_gate''"
    using rule_authority [OF assms(3)] assms(5) by simp_all
  moreover have "pred_option (\<lambda>s. \<not> blank s) (tr_authority_boundary r)" using assms(3) by (simp add: transition_rule_ok_def)
  ultimately obtain b where b: "tr_authority_boundary r = Some b" "b \<noteq> []" by (force simp: blank_iff)
  have entry: "portfolio_entry_ok (pf_active s)" "\<not> blank (pf_portfolio_id s)" "0 \<le> pf_generation s"
    using assms(2) by (simp_all add: valid_portfolio_def valid_entry_def portfolio_state_ok_def)
  have "pe_state (pf_active s) \<in> set checkpoint_states"
    using entry(1) by (simp add: portfolio_entry_ok_def portfolio_states_def checkpoint_states_def)
  then show ?thesis
    using entry assms(4-) b \<open>tr_to_state r = ''human_gate''\<close>
    by (auto simp: checkpoint_ok_def transition_checkpoint_def Let_def checkpoint_roles_def checkpoint_states_def transition_texts_ok_def
        portfolio_entry_ok_def portfolio_state_digest_def checkpoint_check_def blank_iff is_space_def)
qed

lemma stop_succeeds:
  assumes h: "hex_digest h" and s: "valid_portfolio s" and p: "valid_policy p" and match: "matched_rule p (pe_state (pf_active s)) event = Inr r"
    and human: "tr_authority_mode r = ''human_required''" and args: "transition_texts_ok args"
    and none: "ta_authority_grant args = None" "ta_replacement_secondary args = None" "ta_wake_admission args = None"
    and evidence: "list_all checkpoint_evidence_ok evidence" "evidence \<noteq> []" "distinct (map evidence_identity evidence)"
      "set (tr_required_evidence r) \<subseteq> cv_kind ` set evidence"
  shows "\<exists>x. apply_active_transition h s p event evidence args = Inr x"
proof -
  note [simp] = hex_digest.digest_ok_sha256 [OF h]
  note rule = matched_rule_ok [OF p match]
  have stop: "tr_effect r = ''stop_human_gate''" and "tr_authority_boundary r \<noteq> None"
    using rule_authority [OF rule(1)] human by simp_all
  moreover have "pred_option (\<lambda>s. \<not> blank s) (tr_authority_boundary r)" "\<not> blank (tr_next_action_ref r)"
    using rule(1) by (simp_all add: transition_rule_ok_def)
  ultimately obtain b where b: "tr_authority_boundary r = Some b" "\<not> blank b" by auto
  let ?active = "stopped_entry (pf_active s) r b evidence"
  let ?new = "transitioned_state h s ?active (pf_secondary s) (pf_passive s)"
  have slots: "transition_slots h s p r evidence args = Inr (?active, pf_secondary s, pf_passive s, None, None)"
  proof -
    have "portfolio_entry_ok (pf_active s)" "pe_role (pf_active s) = ''active''"
      using s by (simp_all add: valid_portfolio_def valid_entry_def portfolio_state_ok_def)
    then have "authority_stopped_active (pf_active s) r evidence = Inr ?active"
      unfolding authority_stopped_Inr stopped_entry_def [symmetric]
      using b stop_blocker_ok [OF b(2) evidence(1)] stopped_entry_ok \<open>\<not> blank (tr_next_action_ref r)\<close> by blast
    then show ?thesis using stop none by (simp add: transition_slots_def rotating_effects_def)
  qed
  have ok: "portfolio_state_ok ?new"
    using s by (simp add: valid_portfolio_def portfolio_state_ok_def transitioned_state_def stopped_entry_def portfolio_state_digest_def sort_key_sorted)
  have check: "checkpoint_ok (transition_checkpoint h s p r evidence args ?new)"
    by (rule stop_checkpoint_ok [OF h s rule(1,2) human args none(1) evidence(2,3)]) simp_all
  have result: "transition_result_ok h (transition_outcome h s p r ?new (transition_checkpoint h s p r evidence args ?new) None None None)"
    using stop by (simp add: transition_result_ok_def transition_outcome_def rotating_effects_def portfolio_state_digest_def
        transition_policy_digest_def transition_rule_digest_def)
  have evidenced: "verify_evidence r evidence = Inr ()"
    using evidence stop by (simp add: verify_evidence_Inr mandatory_effect_evidence_def)
  have authority: "verify_authority h p r (ta_authority_grant args) = Inr None"
    using none human by (simp add: verify_authority_Inr [OF rule(1)])
  have "tr_effect r \<noteq> ''wake_passive''" using stop by simp
  from apply_transitionI [OF args match evidenced authority slots ok check this result] show ?thesis by blast
qed

section \<open>A grant opens the gate\<close>

text \<open>The states that an active entry can move to without blockers.\<close>

definition unblocked_states :: "string list" where
  "unblocked_states = [''ready'', ''running'', ''verifying'', ''complete'', ''rework'', ''di_required'', ''failed'']"

definition released_entry :: "portfolio_entry \<Rightarrow> transition_rule \<Rightarrow> transition_grant \<Rightarrow> portfolio_entry" where
  "released_entry e r g = e\<lparr>pe_state := tr_to_state r, pe_next_action_ref := tr_next_action_ref r, pe_authority_boundary := None,
     pe_authority_ref := Some (tg_authority_ref g), pe_blockers := [], pe_wake_condition := None\<rparr>"

lemma released_entry_ok:
  assumes "portfolio_entry_ok e" and "pe_role e = ''active''" and "tr_to_state r \<in> set unblocked_states" and "\<not> blank (tr_next_action_ref r)"
    and "\<not> blank (tg_authority_ref g)"
  shows "portfolio_entry_ok (released_entry e r g)"
  using assms by (auto simp: portfolio_entry_ok_def released_entry_def unblocked_states_def portfolio_states_def portfolio_entry_check_def active_states_def)

lemma release_checkpoint_ok:
  assumes "hex_digest h" and "valid_portfolio s" and "tr_authority_mode r \<noteq> ''human_required''" and "tr_to_state r \<in> set unblocked_states"
    and "\<not> blank (tr_next_action_ref r)" and "transition_texts_ok args" and "ta_authority_grant args = Some g" and "\<not> blank (tg_authority_ref g)"
    and "evidence \<noteq> []" and "distinct (map evidence_identity evidence)" and "pf_portfolio_id new = pf_portfolio_id s"
    and "pf_generation new = pf_generation s + 1"
  shows "checkpoint_ok (transition_checkpoint h s p r evidence args new)"
proof -
  note [simp] = hex_digest.digest_ok_sha256 [OF assms(1)]
  have entry: "portfolio_entry_ok (pf_active s)" "\<not> blank (pf_portfolio_id s)" "0 \<le> pf_generation s"
    using assms(2) by (simp_all add: valid_portfolio_def valid_entry_def portfolio_state_ok_def)
  have states: "pe_state (pf_active s) \<in> set checkpoint_states" "tr_to_state r \<in> set checkpoint_states"
    using entry(1) assms(4) by (auto simp: portfolio_entry_ok_def portfolio_states_def checkpoint_states_def unblocked_states_def)
  have "checkpoint_check (transition_checkpoint h s p r evidence args new) = Inr (transition_checkpoint h s p r evidence args new)"
    using assms(3,4) by (auto simp: checkpoint_check_def transition_checkpoint_def Let_def terminal_without_next_def unblocked_states_def)
  then show ?thesis
    using entry states assms(3-)
    by (auto simp: checkpoint_ok_def transition_checkpoint_def Let_def checkpoint_roles_def transition_texts_ok_def
        portfolio_entry_ok_def portfolio_state_digest_def blank_iff is_space_def)
qed

lemma grant_releases:
  assumes h: "hex_digest h" and s: "valid_portfolio s" and p: "valid_policy p" and gate: "pe_state (pf_active s) = ''human_gate''"
    and match: "matched_rule p ''human_gate'' event = Inr r" and effect: "tr_effect r \<notin> set rotating_effects"
    and target: "tr_to_state r \<in> set unblocked_states" and args: "transition_texts_ok args" "ta_authority_grant args = Some g"
      "ta_replacement_secondary args = None" "ta_wake_admission args = None"
    and grant: "grant_binds h p r g" "\<not> blank (tg_authority_ref g)"
    and evidence: "evidence \<noteq> []" "distinct (map evidence_identity evidence)" "set (tr_required_evidence r) \<subseteq> cv_kind ` set evidence"
  shows "\<exists>x. apply_active_transition h s p event evidence args = Inr x"
proof -
  note [simp] = hex_digest.digest_ok_sha256 [OF h]
  note rule = matched_rule_ok [OF p match]
  have mode: "tr_authority_mode r = ''preauthorized_required''" using rule_authority(4) [OF rule(1,2)] .
  then have plain: "tr_effect r \<noteq> ''stop_human_gate''" using rule_authority(2) [OF rule(1)] by auto
  have "tr_effect r \<noteq> ''wake_passive''" using rule_conditions(8) [OF rule(1)] rule(2) by auto
  with plain effect have effects: "tr_effect r \<in> {''none'', ''request_di''}"
    using rule(1) by (auto simp: transition_rule_ok_def transition_effects_def rotating_effects_def)
  have action: "\<not> blank (tr_next_action_ref r)" using rule(1) by (simp add: transition_rule_ok_def)
  let ?active = "released_entry (pf_active s) r g"
  let ?new = "transitioned_state h s ?active (pf_secondary s) (pf_passive s)"
  have role: "portfolio_entry_ok (pf_active s)" "pe_role (pf_active s) = ''active''"
    using s by (simp_all add: valid_portfolio_def valid_entry_def portfolio_state_ok_def)
  have "portfolio_entry_ok ?active" by (rule released_entry_ok [OF role target action grant(2)])
  then have "moved_active (pf_active s) r (Some g) = Inr ?active"
    using gate by (simp add: moved_active_def rethrow_eq_Inr portfolio_entry_new_eq released_entry_def)
  then have slots: "transition_slots h s p r evidence args = Inr (?active, pf_secondary s, pf_passive s, None, None)"
    using effect plain args by (simp add: transition_slots_def)
  have state: "portfolio_state_ok ?new"
    using s by (simp add: valid_portfolio_def portfolio_state_ok_def transitioned_state_def released_entry_def portfolio_state_digest_def sort_key_sorted)
  have "tr_authority_mode r \<noteq> ''human_required''" using mode by simp
  then have check: "checkpoint_ok (transition_checkpoint h s p r evidence args ?new)"
    by (rule release_checkpoint_ok [OF h s _ target action args(1,2) grant(2) evidence(1,2)]) simp_all
  have result: "transition_result_ok h (transition_outcome h s p r ?new (transition_checkpoint h s p r evidence args ?new) None
      (Some (transition_grant_digest h g)) None)"
    using effects by (auto simp: transition_result_ok_def transition_outcome_def rotating_effects_def portfolio_state_digest_def
        transition_policy_digest_def transition_rule_digest_def transition_grant_digest_def)
  have evidenced: "verify_evidence r evidence = Inr ()"
    using evidence effects by (auto simp: verify_evidence_Inr mandatory_effect_evidence_def)
  have authority: "verify_authority h p r (ta_authority_grant args) = Inr (Some (transition_grant_digest h g))"
    using args(2) grant(1) mode by (simp add: verify_authority_Inr [OF rule(1)])
  from match gate have "matched_rule p (pe_state (pf_active s)) event = Inr r" by simp
  from apply_transitionI [OF args(1) this evidenced authority slots state check \<open>tr_effect r \<noteq> ''wake_passive''\<close> result]
  show ?thesis by blast
qed

section \<open>Properties\<close>

definition ex_stop_rule :: transition_rule where
  "ex_stop_rule = \<lparr>tr_rule_id = ''stop'', tr_from_state = ''ready'', tr_event = ''authority_required'', tr_to_state = ''human_gate'',
     tr_next_action_ref = ''ask'', tr_effect = ''stop_human_gate'', tr_required_evidence = [''k''], tr_authority_mode = ''human_required'',
     tr_authority_boundary = Some ''b'', tr_schema_version = ''ge.transition-rule.v1''\<rparr>"

definition ex_stop_policy :: transition_policy where
  "ex_stop_policy = \<lparr>tp_policy_id = ''p'', tp_revision = ''1'', tp_rules = [ex_stop_rule], tp_default_disposition = ''stop'',
     tp_schema_version = ''ge.transition-policy.v1''\<rparr>"

definition ex_stop_args :: transition_args where
  "ex_stop_args = \<lparr>ta_action_ref = ''a'', ta_observed_at = ''t'', ta_summary = ''s'', ta_canonical_refs = [''c''], ta_uncertainties = [],
     ta_replacement_secondary = None, ta_wake_admission = None, ta_authority_grant = None\<rparr>"

abbreviation ex_evidence :: "checkpoint_evidence list" where
  "ex_evidence \<equiv> ec_evidence ex_checkpoint"

lemma ex_stop_policy_valid: "valid_policy ex_stop_policy"
  by (simp add: valid_policy_def transition_policy_ok_def ex_stop_policy_def ex_stop_rule_def transition_rule_ok_def transition_states_def
      transition_events_def transition_effects_def authority_modes_def transition_rule_check_def blank_iff is_space_def)

lemma ex_evidence_ok: "list_all checkpoint_evidence_ok ex_evidence" "ex_evidence \<noteq> []" "distinct (map evidence_identity ex_evidence)"
  "set (tr_required_evidence ex_stop_rule) \<subseteq> cv_kind ` set ex_evidence"
  using ex_checkpoint_binds by (simp_all add: checkpoint_binds_def valid_checkpoint_def) (simp_all add: ex_checkpoint_def ex_stop_rule_def)

lemma ex_stop_match: "matched_rule ex_stop_policy (pe_state (pf_active ex_portfolio)) ''authority_required'' = Inr ex_stop_rule"
  unfolding matched_rule_Inr [OF ex_stop_policy_valid]
  by (simp add: ex_stop_policy_def ex_stop_rule_def ex_portfolio_def ex_entry_def)

lemma ex_stop_args_ok: "transition_texts_ok ex_stop_args" "ta_authority_grant ex_stop_args = None"
  "ta_replacement_secondary ex_stop_args = None" "ta_wake_admission ex_stop_args = None"
  "tr_authority_mode ex_stop_rule = ''human_required''"
  by (simp_all add: transition_texts_ok_def ex_stop_args_def ex_stop_rule_def blank_iff is_space_def)

lemma ex_stop: "\<exists>x. apply_active_transition zero_hash ex_portfolio ex_stop_policy ''authority_required'' ex_evidence ex_stop_args = Inr x"
  by (rule stop_succeeds [OF zero_hash ex_portfolio_valid(1) ex_stop_policy_valid ex_stop_match])
    (rule ex_stop_args_ok ex_evidence_ok)+

section \<open>Two more transitions that succeed\<close>

text \<open>Leaving the human gate with a grant, and a promotion that wakes a parked item.\<close>

definition ex_item :: "string \<Rightarrow> checkpoint_evidence" where
  "ex_item kind = \<lparr>cv_kind = kind, cv_locator = ''l'', cv_digest = sha256_digest zero_hash PNone, cv_schema_version = ''ge.checkpoint-evidence.v1''\<rparr>"

definition ex_gate_portfolio :: portfolio_state where
  "ex_gate_portfolio = ex_portfolio\<lparr>pf_active := (ex_entry ''a'' ''active'' ''human_gate'')\<lparr>pe_authority_boundary := Some ''b'',
     pe_blockers := [stop_blocker ''b'' []]\<rparr>\<rparr>"

definition ex_grant :: transition_grant where
  "ex_grant = \<lparr>tg_policy_digest = transition_policy_digest zero_hash ex_policy, tg_rule_digest = transition_rule_digest zero_hash ex_rule,
     tg_authority_boundary = ''b'', tg_authority_ref = ''ref'', tg_authority_digest = sha256_digest zero_hash PNone,
     tg_schema_version = ''ge.transition-authority-grant.v1''\<rparr>"

lemma ex_gate: "\<exists>x. apply_active_transition zero_hash ex_gate_portfolio ex_policy ''execution_started'' [ex_item ''e'']
   (ex_stop_args\<lparr>ta_authority_grant := Some ex_grant\<rparr>) = Inr x"
proof -
  let ?e = "(ex_entry ''a'' ''active'' ''human_gate'')\<lparr>pe_authority_boundary := Some ''b'', pe_blockers := [stop_blocker ''b'' []]\<rparr>"
  have "valid_entry ?e"
    by (simp add: valid_entry_def portfolio_entry_ok_def ex_entry_def portfolio_roles_def portfolio_states_def portfolio_entry_check_def
        active_states_def stop_blocker_def portfolio_blocker_ok_def blocker_kinds_def blank_iff is_space_def)
  then have valid: "valid_portfolio ex_gate_portfolio"
    using ex_portfolio_valid(1)
    by (simp add: valid_portfolio_def portfolio_state_ok_def ex_gate_portfolio_def ex_portfolio_def) (simp add: ex_entry_def)
  have match: "matched_rule ex_policy ''human_gate'' ''execution_started'' = Inr ex_rule"
    unfolding matched_rule_Inr [OF ex_policy_valid] by (simp add: ex_policy_def ex_rule_def)
  have texts: "transition_texts_ok (ex_stop_args\<lparr>ta_authority_grant := Some ex_grant\<rparr>)"
    using ex_stop_args_ok(1) by (simp add: transition_texts_ok_def)
  show ?thesis
    by (rule grant_releases [OF zero_hash valid ex_policy_valid _ match _ _ texts, of ex_grant])
      (simp_all add: ex_gate_portfolio_def ex_entry_def ex_rule_def rotating_effects_def unblocked_states_def ex_stop_args_def
        grant_binds_def ex_grant_def blank_iff is_space_def ex_item_def)
qed
definition ex_parked_entry :: portfolio_entry where
  "ex_parked_entry = (ex_entry ''c'' ''passive'' ''passive'')\<lparr>pe_blockers := [stop_blocker ''b'' []],
     pe_wake_condition := Some \<lparr>wk_kind = ''at_or_after'', wk_value = ''t'', wk_schema_version = ''ge.wake-condition.v1''\<rparr>\<rparr>"

definition ex_full_portfolio :: portfolio_state where
  "ex_full_portfolio = ex_portfolio\<lparr>pf_active := ex_entry ''a'' ''active'' ''verifying'', pf_passive := [ex_parked_entry]\<rparr>"

definition ex_promote_rule :: transition_rule where
  "ex_promote_rule = \<lparr>tr_rule_id = ''a'', tr_from_state = ''verifying'', tr_event = ''verification_passed'', tr_to_state = ''complete'',
     tr_next_action_ref = ''n'', tr_effect = ''promote_secondary'', tr_required_evidence = [], tr_authority_mode = ''none'',
     tr_authority_boundary = None, tr_schema_version = ''ge.transition-rule.v1''\<rparr>"

definition ex_wake_rule :: transition_rule where
  "ex_wake_rule = \<lparr>tr_rule_id = ''b'', tr_from_state = ''passive'', tr_event = ''wake_satisfied'', tr_to_state = ''ready'',
     tr_next_action_ref = ''n'', tr_effect = ''wake_passive'', tr_required_evidence = [], tr_authority_mode = ''none'',
     tr_authority_boundary = None, tr_schema_version = ''ge.transition-rule.v1''\<rparr>"

definition ex_rotation_policy :: transition_policy where
  "ex_rotation_policy = \<lparr>tp_policy_id = ''p'', tp_revision = ''1'', tp_rules = [ex_promote_rule, ex_wake_rule],
     tp_default_disposition = ''stop'', tp_schema_version = ''ge.transition-policy.v1''\<rparr>"

definition ex_admission :: wake_admission where
  "ex_admission = \<lparr>wa_portfolio_id = ''p'', wa_portfolio_generation = 0,
     wa_portfolio_state_digest = portfolio_state_digest zero_hash ex_full_portfolio, wa_work_id = ''c'',
     wa_wake_condition_digest = wake_condition_digest zero_hash \<lparr>wk_kind = ''at_or_after'', wk_value = ''t'', wk_schema_version = ''ge.wake-condition.v1''\<rparr>,
     wa_policy_digest = transition_policy_digest zero_hash ex_rotation_policy, wa_rule_digest = transition_rule_digest zero_hash ex_wake_rule,
     wa_evidence = [ex_item ''wake_condition_satisfied''], wa_next_action_ref = ''n'', wa_authority_grant = None,
     wa_schema_version = ''ge.passive-wake-admission.v1''\<rparr>"

lemma ex_rotation_valid: "valid_policy ex_rotation_policy" "valid_portfolio ex_full_portfolio"
proof -
  show "valid_policy ex_rotation_policy"
    by (simp add: valid_policy_def transition_policy_ok_def ex_rotation_policy_def ex_promote_rule_def ex_wake_rule_def transition_rule_ok_def
        transition_states_def transition_events_def transition_effects_def authority_modes_def transition_rule_check_def match_key_def
        blank_iff is_space_def)
  have "valid_entry (ex_entry ''a'' ''active'' ''verifying'')" "valid_entry ex_parked_entry"
    by (simp_all add: valid_entry_def portfolio_entry_ok_def ex_entry_def ex_parked_entry_def portfolio_roles_def portfolio_states_def
        portfolio_entry_check_def active_states_def stop_blocker_def portfolio_blocker_ok_def blocker_kinds_def wake_condition_ok_def
        wake_kinds_def blank_iff is_space_def)
  then show "valid_portfolio ex_full_portfolio"
    using ex_portfolio_valid(1)
    by (simp add: valid_portfolio_def portfolio_state_ok_def ex_full_portfolio_def ex_portfolio_def) (simp add: ex_entry_def ex_parked_entry_def)
qed

text \<open>The admission is the one that the engine itself gives, and with it the promotion goes through.\<close>

lemma ex_wake:
  "matched_rule ex_rotation_policy ''passive'' ''wake_satisfied'' = Inr ex_wake_rule"
  "find_passive ex_full_portfolio ''c'' = Inr ex_parked_entry"
  "verify_evidence ex_wake_rule [ex_item ''wake_condition_satisfied''] = Inr ()"
  "verify_authority h ex_rotation_policy ex_wake_rule None = Inr None"
  "pf_portfolio_id ex_full_portfolio = ''p''" "pf_generation ex_full_portfolio = 0" "pe_work_id ex_parked_entry = ''c''"
  "pe_wake_condition ex_parked_entry = Some \<lparr>wk_kind = ''at_or_after'', wk_value = ''t'', wk_schema_version = ''ge.wake-condition.v1''\<rparr>"
  "tr_effect ex_wake_rule = ''wake_passive''" "tr_next_action_ref ex_wake_rule = ''n''" "pf_passive ex_full_portfolio = [ex_parked_entry]"
  unfolding matched_rule_Inr [OF ex_rotation_valid(1)]
  by (simp_all add: ex_rotation_policy_def ex_wake_rule_def ex_item_def mandatory_effect_evidence_def find_passive_def ex_full_portfolio_def
      ex_portfolio_def ex_parked_entry_def ex_entry_def verify_evidence_Inr verify_authority_def)

lemma ex_admitted:
  "admit_passive_wake zero_hash ex_full_portfolio ex_rotation_policy ''c'' [ex_item ''wake_condition_satisfied''] None = Inr ex_admission"
proof -
  note [simp] = hex_digest.digest_ok_sha256 [OF zero_hash]
  have "wake_admission_init ex_admission = Inr ex_admission"
    by (simp add: wake_admission_init_def ex_admission_def nonempty_field_def int_field_def digest_field_Inr ebind_eq_Inr blank_iff is_space_def
        portfolio_state_digest_def wake_condition_digest_def transition_policy_digest_def transition_rule_digest_def)
  then show ?thesis
    by (simp add: admit_passive_wake_def ex_wake ex_admission_def)
qed

lemma ex_promotion: "\<exists>x. apply_active_transition zero_hash ex_full_portfolio ex_rotation_policy ''verification_passed'' [ex_item ''verifier_pass'']
   (ex_stop_args\<lparr>ta_wake_admission := Some ex_admission\<rparr>) = Inr x \<and> xt_effect x = ''promote_secondary''"
proof -
  note [simp] = hex_digest.digest_ok_sha256 [OF zero_hash]
  let ?args = "ex_stop_args\<lparr>ta_wake_admission := Some ex_admission\<rparr>" and ?evidence = "[ex_item ''verifier_pass'']"
  let ?woken = "woken_entry ex_parked_entry ex_wake_rule"
  let ?active = "pf_secondary ex_full_portfolio\<lparr>pe_role := ''active'', pe_state := ''ready'', pe_blockers := [],
     pe_wake_condition := None, pe_authority_boundary := None, pe_authority_ref := None\<rparr>"
  let ?new = "transitioned_state zero_hash ex_full_portfolio ?active ?woken []"
  have match: "matched_rule ex_rotation_policy (pe_state (pf_active ex_full_portfolio)) ''verification_passed'' = Inr ex_promote_rule"
    unfolding matched_rule_Inr [OF ex_rotation_valid(1)]
    by (simp add: ex_rotation_policy_def ex_promote_rule_def ex_full_portfolio_def ex_entry_def)
  have evidence: "verify_evidence ex_promote_rule ?evidence = Inr ()"
    by (simp add: verify_evidence_Inr ex_promote_rule_def ex_item_def mandatory_effect_evidence_def)
  have authority: "verify_authority zero_hash ex_rotation_policy ex_promote_rule (ta_authority_grant ?args) = Inr None"
    by (simp add: verify_authority_def ex_promote_rule_def ex_stop_args_def)
  have entries: "portfolio_entry_ok ?active" "portfolio_entry_ok ?woken"
    by (simp_all add: ex_full_portfolio_def ex_portfolio_def ex_parked_entry_def woken_entry_def ex_wake_rule_def ex_entry_def portfolio_entry_ok_def
        portfolio_roles_def portfolio_states_def portfolio_entry_check_def active_states_def blank_iff is_space_def)
  have "secondary_from_wake zero_hash ex_full_portfolio ex_rotation_policy ex_admission = Inr (?woken, [])"
    using portfolio_entry_new_eq [of ?woken ?woken] entries(2) by (simp add: secondary_from_wake_def ex_wake ex_admission_def)
  then have slots: "transition_slots zero_hash ex_full_portfolio ex_rotation_policy ex_promote_rule ?evidence ?args =
      Inr (?active, ?woken, [], Some ''c'', Some (wake_admission_digest zero_hash ex_admission))"
    using entries(1) by (simp add: transition_slots_def replacement_secondary_def ex_promote_rule_def rotating_effects_def ex_stop_args_def
        promoted_active_def portfolio_entry_new_eq ebind_eq_Inr ex_wake(7))
  have state: "portfolio_state_ok ?new"
    by (simp add: portfolio_state_ok_def transitioned_state_def ex_wake ex_full_portfolio_def ex_portfolio_def portfolio_state_digest_def)
      (simp add: ex_entry_def blank_iff is_space_def)
  have checkpoint: "checkpoint_ok (transition_checkpoint zero_hash ex_full_portfolio ex_rotation_policy ex_promote_rule ?evidence ?args ?new)"
    by (simp add: checkpoint_ok_def transition_checkpoint_def Let_def ex_promote_rule_def ex_stop_args_def ex_full_portfolio_def ex_portfolio_def
        ex_entry_def checkpoint_roles_def checkpoint_states_def portfolio_state_digest_def checkpoint_check_def terminal_without_next_def
        blank_iff is_space_def transitioned_state_def)
  have texts: "transition_texts_ok ?args" using ex_stop_args_ok(1) by (simp add: transition_texts_ok_def)
  have "\<exists>x. apply_active_transition zero_hash ex_full_portfolio ex_rotation_policy ''verification_passed'' ?evidence ?args = Inr x \<and>
      xt_effect x = tr_effect ex_promote_rule"
    by (rule apply_transitionI [OF texts match evidence authority slots state checkpoint])
      (simp_all add: ex_promote_rule_def transition_result_ok_def transition_outcome_def rotating_effects_def blank_iff is_space_def
        portfolio_state_digest_def transition_policy_digest_def transition_rule_digest_def wake_admission_digest_def)
  then show ?thesis by (simp add: ex_promote_rule_def)
qed

text \<open>C27: A transition that is returned can be made durable: it advances the portfolio by exactly one generation to a valid
  state with a valid checkpoint that binds it, and committing it against the head it was computed from succeeds exactly
  when no other checkpoint with its id or digest has been recorded.\<close>

theorem transition_can_be_committed:
  assumes "hex_digest h" and "represents h db H" and "H pid \<noteq> []"
    and "list_all checkpoint_evidence_ok evidence"
    and "apply_active_transition h (fst (last (H pid))) p event evidence args = Inr x"
  shows "valid_portfolio (xt_new_state x) \<and> checkpoint_binds h pid (xt_new_state x) (xt_checkpoint x) \<and>
     pf_generation (xt_new_state x) = pf_generation (fst (last (H pid))) + 1 \<and>
     ((\<exists>db' d. portfolio_commit h db pid (xt_previous_state_digest x) (xt_new_state x) (xt_checkpoint x) = Inr (db', Inr d)) \<longleftrightarrow>
      checkpoint_fresh h db (xt_checkpoint x))"
  using transition_history [OF represents_history [OF assms(2,3)] assms(4,5)] assms(3)
  unfolding portfolio_commit_Inr [OF assms(1,2)] by simp

theorem transition_can_be_committed_witness:
  "\<exists>x db' d. apply_active_transition zero_hash ex_portfolio ex_stop_policy ''authority_required'' ex_evidence ex_stop_args = Inr x \<and>
     portfolio_commit zero_hash ex_portfolio_db ''p'' (xt_previous_state_digest x) (xt_new_state x) (xt_checkpoint x) = Inr (db', Inr d)"
proof -
  obtain x where x: "apply_active_transition zero_hash ex_portfolio ex_stop_policy ''authority_required'' ex_evidence ex_stop_args = Inr x"
    using ex_stop by blast
  have "checkpoint_fresh zero_hash ex_portfolio_db (xt_checkpoint x)" by (simp add: checkpoint_fresh_def ex_portfolio_db_def)
  then show ?thesis
    using transition_can_be_committed [OF zero_hash ex_represents, of "''p''" ex_evidence ex_stop_policy "''authority_required''" ex_stop_args x]
      ex_evidence_ok(1) x by auto
qed

text \<open>C25: Authority is respected: a transition uses a rule of the policy for the present state and the event, and its evidence covers what
  rule and effect demand. A rule that requires a human, and no other, stops the portfolio: the active entry waits at the
  human gate with the rule's boundary and an authority blocker, holds no authority, and the checkpoint names no automatic
  next step. The human gate is left only with a grant that binds this policy, this rule and its boundary, which the result records.\<close>

theorem transition_respects_authority:
  assumes "valid_policy p" and "apply_active_transition h s p event evidence args = Inr x"
  shows "\<exists>r\<in>set (tp_rules p). tr_from_state r = pe_state (pf_active s) \<and> tr_event r = event \<and> xt_rule_digest x = transition_rule_digest h r \<and>
     set (tr_required_evidence r) \<union> set (mandatory_effect_evidence (xt_effect x)) \<subseteq> cv_kind ` set evidence \<and>
     (ec_authority_stop (xt_checkpoint x) \<longleftrightarrow> tr_authority_mode r = ''human_required'') \<and>
     (ec_authority_stop (xt_checkpoint x) \<longrightarrow> (let e = pf_active (xt_new_state x) in
        pe_work_id e = pe_work_id (pf_active s) \<and> pe_state e = ''human_gate'' \<and> pe_authority_boundary e = tr_authority_boundary r \<and>
        tr_authority_boundary r \<noteq> None \<and> pe_authority_ref e = None \<and> map bk_kind (pe_blockers e) = [''authority''] \<and>
        ta_authority_grant args = None \<and> ec_next_transition_refs (xt_checkpoint x) = [])) \<and>
     (pe_state (pf_active s) = ''human_gate'' \<longrightarrow> (\<exists>g. ta_authority_grant args = Some g \<and> grant_binds h p r g \<and>
        xt_authority_grant_digest x = Some (transition_grant_digest h g) \<and> tg_authority_ref g \<in> set (ec_canonical_refs (xt_checkpoint x)) \<and>
        (xt_effect x \<notin> set rotating_effects \<longrightarrow> pe_authority_ref (pf_active (xt_new_state x)) = Some (tg_authority_ref g))))"
  using assms(2)
proof (rule apply_transitionD)
  fix r d active secondary parked rid wd
  assume match: "matched_rule p (pe_state (pf_active s)) event = Inr r" and evidence: "verify_evidence r evidence = Inr ()"
    and authority: "verify_authority h p r (ta_authority_grant args) = Inr d"
    and slots: "transition_slots h s p r evidence args = Inr (active, secondary, parked, rid, wd)"
    and new: "xt_new_state x = transitioned_state h s active secondary parked"
    and checkpoint: "xt_checkpoint x = transition_checkpoint h s p r evidence args (xt_new_state x)"
    and fields: "xt_rule_digest x = transition_rule_digest h r" "xt_effect x = tr_effect r" "xt_authority_grant_digest x = d"
  note rule = matched_rule_ok [OF assms(1) match] and granted = authority [unfolded verify_authority_Inr [OF matched_rule_ok(1) [OF assms(1) match]]]
  let ?e = "pf_active (xt_new_state x)"
  have "pe_work_id ?e = pe_work_id (pf_active s) \<and> pe_state ?e = ''human_gate'' \<and> pe_authority_boundary ?e = tr_authority_boundary r \<and>
      tr_authority_boundary r \<noteq> None \<and> pe_authority_ref ?e = None \<and> map bk_kind (pe_blockers ?e) = [''authority''] \<and>
      ta_authority_grant args = None \<and> ec_next_transition_refs (xt_checkpoint x) = []"
    if human: "tr_authority_mode r = ''human_required''"
  proof -
    have stop: "tr_effect r = ''stop_human_gate''" using rule_authority(2) [OF rule(1)] human by simp
    then have "authority_stopped_active (pf_active s) r evidence = Inr active"
      using slots_kept(6) [OF slots] by (simp add: rotating_effects_def)
    then have "pe_work_id active = pe_work_id (pf_active s) \<and> pe_state active = ''human_gate'' \<and>
        pe_authority_boundary active = tr_authority_boundary r \<and> tr_authority_boundary r \<noteq> None \<and> pe_authority_ref active = None \<and>
        map bk_kind (pe_blockers active) = [''authority'']"
      by (auto simp: authority_stopped_Inr stop_blocker_def)
    moreover have "ta_authority_grant args = None" using granted human by simp
    moreover have "ec_next_transition_refs (xt_checkpoint x) = []"
      unfolding checkpoint by (simp add: transition_checkpoint_def Let_def human)
    ultimately show ?thesis by (simp add: new)
  qed
  moreover have "\<exists>g. ta_authority_grant args = Some g \<and> grant_binds h p r g \<and> d = Some (transition_grant_digest h g) \<and>
      tg_authority_ref g \<in> set (ec_canonical_refs (xt_checkpoint x)) \<and>
      (tr_effect r \<notin> set rotating_effects \<longrightarrow> pe_authority_ref ?e = Some (tg_authority_ref g))"
    if gate: "pe_state (pf_active s) = ''human_gate''"
  proof -
    have mode: "tr_authority_mode r = ''preauthorized_required''" using rule_authority(4) [OF rule(1)] rule(2) gate by simp
    then obtain g where g: "ta_authority_grant args = Some g" "grant_binds h p r g" "d = Some (transition_grant_digest h g)"
      using granted by auto
    have "tg_authority_ref g \<in> set (ec_canonical_refs (xt_checkpoint x))"
      unfolding checkpoint by (simp add: transition_checkpoint_def Let_def g(1))
    moreover have "pe_authority_ref ?e = Some (tg_authority_ref g)" if keep: "tr_effect r \<notin> set rotating_effects"
    proof -
      have "tr_effect r \<noteq> ''stop_human_gate''" using rule_authority(2) [OF rule(1)] mode by auto
      then have "moved_active (pf_active s) r (ta_authority_grant args) = Inr active" using slots_kept(6) [OF slots keep] by simp
      from moved_active_Inr(7) [OF this gate] show ?thesis using g(1) by (simp add: new)
    qed
    ultimately show ?thesis using g by blast
  qed
  moreover have "r \<in> set (tp_rules p)" using match unfolding matched_rule_Inr [OF assms(1)] by simp
  moreover have "ec_authority_stop (xt_checkpoint x) \<longleftrightarrow> tr_authority_mode r = ''human_required''" unfolding checkpoint by simp
  moreover have "set (tr_required_evidence r) \<union> set (mandatory_effect_evidence (xt_effect x)) \<subseteq> cv_kind ` set evidence"
    using evidence unfolding verify_evidence_Inr fields(2) by blast
  ultimately show ?thesis
    unfolding Let_def fields(1,3) using rule(2,3) fields(2) by (intro bexI [of _ r]) simp_all
qed

theorem transition_respects_authority_witness:
  "\<exists>x. apply_active_transition zero_hash ex_gate_portfolio ex_policy ''execution_started'' [ex_item ''e''] (ex_stop_args\<lparr>ta_authority_grant := Some ex_grant\<rparr>) = Inr x \<and>
     xt_authority_grant_digest x = Some (transition_grant_digest zero_hash ex_grant)"
proof -
  obtain x where x: "apply_active_transition zero_hash ex_gate_portfolio ex_policy ''execution_started'' [ex_item ''e'']
      (ex_stop_args\<lparr>ta_authority_grant := Some ex_grant\<rparr>) = Inr x"
    using ex_gate by blast
  moreover have "pe_state (pf_active ex_gate_portfolio) = ''human_gate''" by (simp add: ex_gate_portfolio_def ex_entry_def)
  ultimately show ?thesis using transition_respects_authority [OF ex_policy_valid x] by auto
qed

text \<open>C26: No work item is lost or invented: the work ids after a transition are those before it, except that a promotion removes
  the completed active item, and they stay distinct. A rotation makes the secondary item active and wakes a parked item as the
  new secondary, the one that the result names; every other transition leaves the secondary and the parked entries untouched
  and keeps the active item.\<close>

theorem transition_conserves_work:
  assumes "valid_portfolio s" and "apply_active_transition h s p event evidence args = Inr x"
  shows "set (portfolio_work_ids (xt_new_state x)) =
       set (portfolio_work_ids s) - (if xt_effect x = ''promote_secondary'' then {pe_work_id (pf_active s)} else {}) \<and>
     distinct (portfolio_work_ids (xt_new_state x)) \<and>
     (if xt_effect x \<in> set rotating_effects
      then pe_work_id (pf_active (xt_new_state x)) = pe_work_id (pf_secondary s) \<and>
        (\<exists>e\<in>set (pf_passive s). pe_work_id (pf_secondary (xt_new_state x)) = pe_work_id e \<and>
          xt_replacement_secondary_work_id x = Some (pe_work_id e))
      else pe_work_id (pf_active (xt_new_state x)) = pe_work_id (pf_active s) \<and>
        pf_secondary (xt_new_state x) = pf_secondary s \<and> pf_passive (xt_new_state x) = pf_passive s)"
  using assms(2)
proof (rule apply_transitionD)
  fix r d active secondary parked rid wd
  assume slots: "transition_slots h s p r evidence args = Inr (active, secondary, parked, rid, wd)"
    and new: "xt_new_state x = transitioned_state h s active secondary parked" "portfolio_state_ok (xt_new_state x)"
    and fields: "xt_effect x = tr_effect r" "xt_replacement_secondary_work_id x = rid"
  have ids: "distinct (portfolio_work_ids s)" and sorted: "sorted (map pe_work_id (pf_passive s))"
    using assms(1) by (auto simp: valid_portfolio_def portfolio_state_ok_def portfolio_work_ids_def)
  note fresh = distinct_work_ids [OF new(2)]
  show ?thesis
  proof (cases "tr_effect r \<in> set rotating_effects")
    case True
    from slots_rotated [OF slots this] obtain a item rest where rot: "slot_rotation h s p r args active secondary parked a item rest"
      and rid: "rid = Some (pe_work_id item)" by blast
    from rotation_work_ids [OF rot ids] slot_rotationD(2) [OF rot] show ?thesis
      unfolding fields if_P [OF True] using fresh rid by (auto simp: new(1))
  next
    case False
    then have "tr_effect r \<noteq> ''promote_secondary''" by (auto simp: rotating_effects_def)
    then show ?thesis
      unfolding fields if_not_P [OF False] using fresh slots_kept(1,2) [OF slots False] slots_kept_active [OF slots False]
      by (simp add: new(1) sort_key_sorted [OF sorted] portfolio_work_ids_def)
  qed
qed

theorem transition_conserves_work_witness:
  "\<exists>x. apply_active_transition zero_hash ex_full_portfolio ex_rotation_policy ''verification_passed'' [ex_item ''verifier_pass'']
       (ex_stop_args\<lparr>ta_wake_admission := Some ex_admission\<rparr>) = Inr x \<and>
     set (portfolio_work_ids (xt_new_state x)) = {''b'', ''c''}"
proof -
  obtain x where x: "apply_active_transition zero_hash ex_full_portfolio ex_rotation_policy ''verification_passed'' [ex_item ''verifier_pass'']
      (ex_stop_args\<lparr>ta_wake_admission := Some ex_admission\<rparr>) = Inr x" and "xt_effect x = ''promote_secondary''"
    using ex_promotion by blast
  moreover have "set (portfolio_work_ids ex_full_portfolio) - {pe_work_id (pf_active ex_full_portfolio)} = {''b'', ''c''}"
    by (auto simp: portfolio_work_ids_def ex_full_portfolio_def ex_portfolio_def ex_parked_entry_def ex_entry_def)
  ultimately show ?thesis using transition_conserves_work [OF ex_rotation_valid(2) x] by auto
qed

text \<open>C28: A demanded human stop can always be taken: in a valid portfolio under a valid policy, an event whose rule requires a human
  is never refused, whatever the state of the active entry, provided the evidence that the rule asks for and well-formed texts
  are given and nothing else is: the portfolio then waits at the human gate.\<close>

theorem human_stop_is_never_refused:
  assumes "hex_digest h" and "valid_portfolio s" and "valid_policy p" and "r \<in> set (tp_rules p)"
    and "tr_from_state r = pe_state (pf_active s)" and "tr_event r = event" and "tr_authority_mode r = ''human_required''"
    and "transition_texts_ok args" and "ta_authority_grant args = None" and "ta_replacement_secondary args = None"
    and "ta_wake_admission args = None" and "list_all checkpoint_evidence_ok evidence" and "evidence \<noteq> []"
    and "distinct (map evidence_identity evidence)" and "set (tr_required_evidence r) \<subseteq> cv_kind ` set evidence"
  shows "\<exists>x. apply_active_transition h s p event evidence args = Inr x \<and> pe_state (pf_active (xt_new_state x)) = ''human_gate'' \<and>
     ec_authority_stop (xt_checkpoint x)"
proof -
  have match: "matched_rule p (pe_state (pf_active s)) event = Inr r" using assms(4-6) by (simp add: matched_rule_Inr [OF assms(3)])
  then obtain x where x: "apply_active_transition h s p event evidence args = Inr x"
    using stop_succeeds [OF assms(1-3) match assms(7-15)] by blast
  moreover have "ec_authority_stop (xt_checkpoint x)"
    by (rule apply_transitionD [OF x]) (use match assms(7) in simp)
  moreover have "checkpoint_ok (xt_checkpoint x)" by (rule apply_transitionD [OF x])
  moreover have "pe_state (pf_active (xt_new_state x)) = ''human_gate''"
  proof (rule apply_transitionD [OF x])
    fix r' active secondary parked rid wd
    assume "matched_rule p (pe_state (pf_active s)) event = Inr r'"
      and slots: "transition_slots h s p r' evidence args = Inr (active, secondary, parked, rid, wd)"
      and new: "xt_new_state x = transitioned_state h s active secondary parked"
    then have "tr_effect r' = ''stop_human_gate''" using match rule_authority(2) matched_rule_ok(1) [OF assms(3)] assms(7) by simp
    then show ?thesis using slots_kept(6) [OF slots] new by (auto simp: rotating_effects_def authority_stopped_Inr)
  qed
  ultimately show ?thesis by blast
qed

theorem human_stop_is_never_refused_witness:
  "\<exists>x. apply_active_transition zero_hash ex_portfolio ex_stop_policy ''authority_required'' ex_evidence ex_stop_args = Inr x \<and>
     ec_authority_stop (xt_checkpoint x)"
proof -
  have "ex_stop_rule \<in> set (tp_rules ex_stop_policy)" "tr_from_state ex_stop_rule = pe_state (pf_active ex_portfolio)"
    "tr_event ex_stop_rule = ''authority_required''"
    by (simp_all add: ex_stop_policy_def ex_stop_rule_def ex_portfolio_def ex_entry_def)
  from human_stop_is_never_refused [OF zero_hash ex_portfolio_valid(1) ex_stop_policy_valid this ex_stop_args_ok(5,1-4) ex_evidence_ok]
  show ?thesis by blast
qed

end
