(* ===== verification/Resume_Tick.thy ===== *)
theory Resume_Tick
  imports Asp_Transition
begin

text \<open>
  One tick of an unattended portfolio (\<open>resume_tick.py\<close>): the durable state is recovered, a verification gate is
  checked, and an external observation is turned into one transition that is committed against the recovered head.
  A tick reads the database several times and others may commit in between, so the model is given the database at
  each of these moments (\<open>tick_views\<close>). A tick yields the database that its commit wrote (\<open>None\<close> if it wrote
  nothing) and, separately, what it returns or raises.
  The lemmas show that an observation takes effect at most once, whatever else happens, and that what a tick reports is true.
\<close>

section \<open>The verification gate\<close>

text \<open>\<open>_commit_sha\<close>.\<close>

definition commit_sha_field :: "string \<Rightarrow> string \<Rightarrow> unit exc" where
  "commit_sha_field name v =
     (if length v \<noteq> 40 then Inl (ResumeTickError (name @ '' must be a 40-character commit SHA''))
      else if \<not> int16_ok v then Inl (ResumeTickError (name @ '' must be hexadecimal'')) else Inr ())"

record core_requirement =
  cq_required_revision :: string
  cq_required_suite_ref :: string
  cq_required_verifier_ref :: string
  cq_minimum_test_count :: int
  cq_schema_version :: string

definition core_requirement_py :: "core_requirement \<Rightarrow> pyval" where
  "core_requirement_py x = PDict [
    (''required_revision'', PStr (cq_required_revision x)),
    (''required_suite_ref'', PStr (cq_required_suite_ref x)),
    (''required_verifier_ref'', PStr (cq_required_verifier_ref x)),
    (''minimum_test_count'', PInt (cq_minimum_test_count x)),
    (''schema_version'', PStr (cq_schema_version x))]"

interpretation core_requirement: encoding core_requirement_py
proof unfold_locales
  show "wf_py (core_requirement_py x)" for x
    by (simp add: core_requirement_py_def)
  show "normalize (core_requirement_py x) = normalize (core_requirement_py y) \<longleftrightarrow> x = y" for x y
    by (cases x; cases y) (simp add: core_requirement_py_def normalize_dict_inject)
qed

definition core_requirement_digest :: "hash \<Rightarrow> core_requirement \<Rightarrow> string" where
  "core_requirement_digest h x = sha256_digest h (core_requirement_py x)"

definition core_requirement_init :: "core_requirement \<Rightarrow> core_requirement exc" where
  "core_requirement_init x =
     (if cq_schema_version x \<noteq> ''ge.core-verification-requirement.v1''
      then Inl (ResumeTickError ''unsupported core verification requirement schema'')
      else
      ebind (commit_sha_field ''required_revision'' (cq_required_revision x)) (\<lambda>_.
      ebind (nonempty_field ResumeTickError ''required_suite_ref'' (PStr (cq_required_suite_ref x))) (\<lambda>_.
      ebind (nonempty_field ResumeTickError ''required_verifier_ref'' (PStr (cq_required_verifier_ref x))) (\<lambda>_.
      if cq_minimum_test_count x < 1 then Inl (ResumeTickError ''minimum_test_count must be >= 1'') else Inr x))))"

record core_receipt =
  cr_target_revision :: string
  cr_suite_ref :: string
  cr_evidence_ref :: string
  cr_evidence_digest :: string
  cr_verifier_ref :: string
  cr_executed_at :: string
  cr_passed :: bool
  cr_test_count :: int
  cr_schema_version :: string

definition core_receipt_py :: "core_receipt \<Rightarrow> pyval" where
  "core_receipt_py x = PDict [
    (''target_revision'', PStr (cr_target_revision x)),
    (''suite_ref'', PStr (cr_suite_ref x)),
    (''evidence_ref'', PStr (cr_evidence_ref x)),
    (''evidence_digest'', PStr (cr_evidence_digest x)),
    (''verifier_ref'', PStr (cr_verifier_ref x)),
    (''executed_at'', PStr (cr_executed_at x)),
    (''passed'', PBool (cr_passed x)),
    (''test_count'', PInt (cr_test_count x)),
    (''schema_version'', PStr (cr_schema_version x))]"

interpretation core_receipt: encoding core_receipt_py
proof unfold_locales
  show "wf_py (core_receipt_py x)" for x
    by (simp add: core_receipt_py_def)
  show "normalize (core_receipt_py x) = normalize (core_receipt_py y) \<longleftrightarrow> x = y" for x y
    by (cases x; cases y) (simp add: core_receipt_py_def normalize_dict_inject)
qed

definition core_receipt_digest :: "hash \<Rightarrow> core_receipt \<Rightarrow> string" where
  "core_receipt_digest h x = sha256_digest h (core_receipt_py x)"

definition core_receipt_init :: "core_receipt \<Rightarrow> core_receipt exc" where
  "core_receipt_init x =
     (if cr_schema_version x \<noteq> ''ge.core-verification-receipt.v1''
      then Inl (ResumeTickError ''unsupported core verification receipt schema'')
      else
      ebind (commit_sha_field ''target_revision'' (cr_target_revision x)) (\<lambda>_.
      ebind (nonempty_field ResumeTickError ''suite_ref'' (PStr (cr_suite_ref x))) (\<lambda>_.
      ebind (nonempty_field ResumeTickError ''evidence_ref'' (PStr (cr_evidence_ref x))) (\<lambda>_.
      ebind (nonempty_field ResumeTickError ''verifier_ref'' (PStr (cr_verifier_ref x))) (\<lambda>_.
      ebind (nonempty_field ResumeTickError ''executed_at'' (PStr (cr_executed_at x))) (\<lambda>_.
      ebind (digest_field ResumeTickError ''evidence_digest'' (PStr (cr_evidence_digest x))) (\<lambda>_.
      if cr_test_count x < 1 then Inl (ResumeTickError ''test_count must be >= 1'')
      else if \<not> cr_passed x then Inl (ResumeTickError ''core verification receipt must record PASS'') else Inr x)))))))"

definition gate_open :: "core_receipt option \<Rightarrow> core_requirement \<Rightarrow> bool" where
  "gate_open receipt q \<longleftrightarrow> (case receipt of None \<Rightarrow> False
   | Some r \<Rightarrow> cr_passed r \<and> cr_target_revision r = cq_required_revision q \<and> cr_suite_ref r = cq_required_suite_ref q \<and>
       cr_verifier_ref r = cq_required_verifier_ref q \<and> cq_minimum_test_count q \<le> cr_test_count r)"

section \<open>Observations and results\<close>

record tick_observation =
  to_portfolio_id :: string
  to_expected_generation :: int
  to_expected_state_digest :: string
  to_policy_digest :: string
  to_event :: string
  to_evidence :: "checkpoint_evidence list"
  to_action_ref :: string
  to_observed_at :: string
  to_summary :: string
  to_canonical_refs :: "string list"
  to_uncertainties :: "string list"
  to_wake_admission :: "wake_admission option"
  to_authority_grant :: "transition_grant option"
  to_schema_version :: string

definition tick_observation_py :: "tick_observation \<Rightarrow> pyval" where
  "tick_observation_py x = PDict [
    (''portfolio_id'', PStr (to_portfolio_id x)),
    (''expected_generation'', PInt (to_expected_generation x)),
    (''expected_state_digest'', PStr (to_expected_state_digest x)),
    (''policy_digest'', PStr (to_policy_digest x)),
    (''event'', PStr (to_event x)),
    (''evidence'', PTuple (map checkpoint_evidence_py (to_evidence x))),
    (''action_ref'', PStr (to_action_ref x)),
    (''observed_at'', PStr (to_observed_at x)),
    (''summary'', PStr (to_summary x)),
    (''canonical_refs'', py_strs (to_canonical_refs x)),
    (''uncertainties'', py_strs (to_uncertainties x)),
    (''wake_admission'', py_opt wake_admission_py (to_wake_admission x)),
    (''authority_grant'', py_opt transition_grant_py (to_authority_grant x)),
    (''schema_version'', PStr (to_schema_version x))]"

interpretation tick_observation: encoding tick_observation_py
proof unfold_locales
  show "wf_py (tick_observation_py x)" for x
    by (simp add: tick_observation_py_def)
  show "normalize (tick_observation_py x) = normalize (tick_observation_py y) \<longleftrightarrow> x = y" for x y
    by (cases x; cases y) (simp add: tick_observation_py_def normalize_dict_inject)
qed

definition tick_observation_digest :: "hash \<Rightarrow> tick_observation \<Rightarrow> string" where
  "tick_observation_digest h x = sha256_digest h (tick_observation_py x)"

definition observation_id :: "hash \<Rightarrow> tick_observation \<Rightarrow> string" where
  "observation_id h x = stable_id h ''getick'' (tick_observation_py x)"

definition checkpoint_ref :: "hash \<Rightarrow> tick_observation \<Rightarrow> string" where
  "checkpoint_ref h x = ''tick-observation:'' @ tick_observation_digest h x"

definition tick_observation_init :: "tick_observation \<Rightarrow> tick_observation exc" where
  "tick_observation_init x =
     (if to_schema_version x \<noteq> ''ge.resume-tick-observation.v1''
      then Inl (ResumeTickError ''unsupported resume tick observation schema'')
      else
      ebind (nonempty_field ResumeTickError ''portfolio_id'' (PStr (to_portfolio_id x))) (\<lambda>_.
      ebind (nonempty_field ResumeTickError ''event'' (PStr (to_event x))) (\<lambda>_.
      ebind (nonempty_field ResumeTickError ''action_ref'' (PStr (to_action_ref x))) (\<lambda>_.
      ebind (nonempty_field ResumeTickError ''observed_at'' (PStr (to_observed_at x))) (\<lambda>_.
      ebind (nonempty_field ResumeTickError ''summary'' (PStr (to_summary x))) (\<lambda>_.
      if to_expected_generation x < 0 then Inl (ResumeTickError ''expected_generation cannot be negative'')
      else
      ebind (digest_field ResumeTickError ''expected_state_digest'' (PStr (to_expected_state_digest x))) (\<lambda>_.
      ebind (digest_field ResumeTickError ''policy_digest'' (PStr (to_policy_digest x))) (\<lambda>_.
      if to_evidence x = [] then Inl (ResumeTickError ''tick observation requires admitted evidence'')
      else if length (map evidence_identity (to_evidence x)) \<noteq> length (remdups (map evidence_identity (to_evidence x)))
      then Inl (ResumeTickError ''tick observation evidence must be unique'')
      else if to_canonical_refs x = [] then Inl (ResumeTickError ''tick observation requires canonical_refs'')
      else if list_ex blank (to_canonical_refs x) then Inl (ResumeTickError ''canonical_refs must contain non-empty strings'')
      else if length (to_canonical_refs x) \<noteq> length (remdups (to_canonical_refs x))
      then Inl (ResumeTickError ''canonical_refs must be unique'')
      else if list_ex blank (to_uncertainties x) then Inl (ResumeTickError ''uncertainties must contain non-empty strings'')
      else if length (to_uncertainties x) \<noteq> length (remdups (to_uncertainties x))
      then Inl (ResumeTickError ''uncertainties must be unique'')
      else Inr x))))))))"

record tick_result =
  rr_portfolio_id :: string
  rr_disposition :: string
  rr_observation_digest :: "string option"
  rr_pre_generation :: int
  rr_post_generation :: int
  rr_pre_state_digest :: string
  rr_post_state_digest :: string
  rr_checkpoint_digest :: "string option"
  rr_transition_result_digest :: "string option"
  rr_recovery_report_digest :: "string option"
  rr_requested_work_id :: "string option"
  rr_requested_action_ref :: "string option"
  rr_human_required :: bool
  rr_schema_version :: string

definition tick_result_py :: "tick_result \<Rightarrow> pyval" where
  "tick_result_py x = PDict [
    (''portfolio_id'', PStr (rr_portfolio_id x)),
    (''disposition'', PStr (rr_disposition x)),
    (''observation_digest'', py_opt PStr (rr_observation_digest x)),
    (''pre_generation'', PInt (rr_pre_generation x)),
    (''post_generation'', PInt (rr_post_generation x)),
    (''pre_state_digest'', PStr (rr_pre_state_digest x)),
    (''post_state_digest'', PStr (rr_post_state_digest x)),
    (''checkpoint_digest'', py_opt PStr (rr_checkpoint_digest x)),
    (''transition_result_digest'', py_opt PStr (rr_transition_result_digest x)),
    (''recovery_report_digest'', py_opt PStr (rr_recovery_report_digest x)),
    (''requested_work_id'', py_opt PStr (rr_requested_work_id x)),
    (''requested_action_ref'', py_opt PStr (rr_requested_action_ref x)),
    (''human_required'', PBool (rr_human_required x)),
    (''schema_version'', PStr (rr_schema_version x))]"

definition tick_result_digest :: "hash \<Rightarrow> tick_result \<Rightarrow> string" where
  "tick_result_digest h x = sha256_digest h (tick_result_py x)"

definition tick_dispositions :: "string list" where
  "tick_dispositions = [''committed'', ''already_applied'', ''external_input_required'', ''verification_gate_closed'', ''stale_observation'']"

text \<open>The conditions that relate the fields of a result.\<close>

definition tick_request_check :: "tick_result \<Rightarrow> unit exc" where
  "tick_request_check x =
     (if rr_disposition x = ''external_input_required'' then
        (if rr_observation_digest x \<noteq> None then Inl (ResumeTickError ''external_input_required cannot carry observation digest'')
         else ebind (nonempty_field ResumeTickError ''requested_work_id'' (py_opt PStr (rr_requested_work_id x))) (\<lambda>_.
           ebind (nonempty_field ResumeTickError ''requested_action_ref'' (py_opt PStr (rr_requested_action_ref x))) (\<lambda>_. Inr ())))
      else if rr_requested_work_id x \<noteq> None \<or> rr_requested_action_ref x \<noteq> None
      then Inl (ResumeTickError ''only external_input_required can request work'')
      else if rr_human_required x then Inl (ResumeTickError ''human_required is valid only for external_input_required'')
      else Inr ())"

definition tick_change_check :: "tick_result \<Rightarrow> unit exc" where
  "tick_change_check x =
     (if rr_disposition x = ''committed'' then
        (if rr_post_generation x \<noteq> rr_pre_generation x + 1
         then Inl (ResumeTickError ''committed tick must advance exactly one generation'')
         else if rr_post_state_digest x = rr_pre_state_digest x then Inl (ResumeTickError ''committed tick must change state digest'')
         else if rr_checkpoint_digest x = None \<or> rr_transition_result_digest x = None \<or> rr_recovery_report_digest x = None
         then Inl (ResumeTickError ''committed tick requires full durable evidence'')
         else Inr ())
      else if rr_post_generation x \<noteq> rr_pre_generation x then Inl (ResumeTickError ''non-committed tick cannot advance generation'')
      else if rr_post_state_digest x \<noteq> rr_pre_state_digest x then Inl (ResumeTickError ''non-committed tick cannot mutate state'')
      else Inr ())"

definition tick_result_init :: "tick_result \<Rightarrow> tick_result exc" where
  "tick_result_init x =
     (if rr_schema_version x \<noteq> ''ge.resume-tick-result.v1'' then Inl (ResumeTickError ''unsupported resume tick result schema'')
      else
      ebind (nonempty_field ResumeTickError ''portfolio_id'' (PStr (rr_portfolio_id x))) (\<lambda>_.
      if rr_disposition x \<notin> set tick_dispositions then Inl (ResumeTickError ''unsupported tick disposition'')
      else
      ebind (optional_digest ResumeTickError ''observation_digest'' (py_opt PStr (rr_observation_digest x))) (\<lambda>_.
      ebind (digest_field ResumeTickError ''pre_state_digest'' (PStr (rr_pre_state_digest x))) (\<lambda>_.
      ebind (digest_field ResumeTickError ''post_state_digest'' (PStr (rr_post_state_digest x))) (\<lambda>_.
      ebind (optional_digest ResumeTickError ''checkpoint_digest'' (py_opt PStr (rr_checkpoint_digest x))) (\<lambda>_.
      ebind (optional_digest ResumeTickError ''transition_result_digest'' (py_opt PStr (rr_transition_result_digest x))) (\<lambda>_.
      ebind (optional_digest ResumeTickError ''recovery_report_digest'' (py_opt PStr (rr_recovery_report_digest x))) (\<lambda>_.
      if rr_pre_generation x < 0 then Inl (ResumeTickError ''pre_generation must be a non-negative integer'')
      else if rr_post_generation x < 0 then Inl (ResumeTickError ''post_generation must be a non-negative integer'')
      else
      ebind (tick_request_check x) (\<lambda>_.
      if rr_disposition x \<noteq> ''external_input_required'' \<and> rr_disposition x \<noteq> ''verification_gate_closed'' \<and> rr_observation_digest x = None
      then Inl (ResumeTickError ''tick disposition requires observation digest'')
      else ebind (tick_change_check x) (\<lambda>_. Inr x))))))))))"

section \<open>The tick\<close>

text \<open>The database when the tick recovers the portfolio, when it looks for its own checkpoint, when it commits, and
  what others make of it before the tick reads it for the last time.\<close>

record tick_views =
  tv_recovered :: portfolio_db
  tv_latest :: portfolio_db
  tv_commit :: portfolio_db
  tv_others :: "portfolio_db \<Rightarrow> portfolio_db"

text \<open>A result in which nothing has changed.\<close>

definition idle_result :: "hash \<Rightarrow> string \<Rightarrow> string \<Rightarrow> string option \<Rightarrow> portfolio_state \<Rightarrow> portfolio_report \<Rightarrow> tick_result" where
  "idle_result h pid disposition observed s report =
     \<lparr>rr_portfolio_id = pid, rr_disposition = disposition, rr_observation_digest = observed, rr_pre_generation = pf_generation s,
      rr_post_generation = pf_generation s, rr_pre_state_digest = portfolio_state_digest h s, rr_post_state_digest = portfolio_state_digest h s,
      rr_checkpoint_digest = None, rr_transition_result_digest = None, rr_recovery_report_digest = Some (portfolio_report_digest h report),
      rr_requested_work_id = None, rr_requested_action_ref = None, rr_human_required = False,
      rr_schema_version = ''ge.resume-tick-result.v1''\<rparr>"

definition already_applied :: "hash \<Rightarrow> portfolio_db \<Rightarrow> string \<Rightarrow> string \<Rightarrow> string option exc" where
  "already_applied h db pid ref =
     ebind (latest_checkpoint h db pid) (\<lambda>c. case c of None \<Rightarrow> Inr None
     | Some x \<Rightarrow> if ref \<in> set (ec_canonical_refs x) then Inr (Some (execution_checkpoint_digest h x)) else Inr None)"

definition tick_args :: "hash \<Rightarrow> tick_observation \<Rightarrow> core_requirement \<Rightarrow> core_receipt \<Rightarrow> transition_args" where
  "tick_args h ob q receipt =
     \<lparr>ta_action_ref = to_action_ref ob, ta_observed_at = to_observed_at ob, ta_summary = to_summary ob,
      ta_canonical_refs = to_canonical_refs ob @ [checkpoint_ref h ob, ''core-requirement:'' @ core_requirement_digest h q,
        ''core-verification:'' @ core_receipt_digest h receipt],
      ta_uncertainties = to_uncertainties ob, ta_replacement_secondary = None, ta_wake_admission = to_wake_admission ob,
      ta_authority_grant = to_authority_grant ob\<rparr>"

text \<open>After a refused commit: the portfolio is recovered again and compared with the state the tick started from.\<close>

definition after_refusal :: "hash \<Rightarrow> portfolio_db \<Rightarrow> string \<Rightarrow> tick_observation \<Rightarrow> portfolio_state \<Rightarrow> tick_result exc" where
  "after_refusal h db pid ob s =
     ebind (recover_portfolio h db pid) (\<lambda>(s', c, report).
     if portfolio_state_digest h s' = portfolio_state_digest h s
     then Inl (ResumeTickError ''durable tick commit failed without competing state'')
     else case c of
       Some x \<Rightarrow> if checkpoint_ref h ob \<in> set (ec_canonical_refs x)
         then tick_result_init ((idle_result h pid ''already_applied'' (Some (tick_observation_digest h ob)) s' report)
           \<lparr>rr_checkpoint_digest := Some (execution_checkpoint_digest h x)\<rparr>)
         else tick_result_init (idle_result h pid ''stale_observation'' (Some (tick_observation_digest h ob)) s' report)
     | None \<Rightarrow> tick_result_init (idle_result h pid ''stale_observation'' (Some (tick_observation_digest h ob)) s' report))"

definition after_commit :: "hash \<Rightarrow> portfolio_db \<Rightarrow> string \<Rightarrow> tick_observation \<Rightarrow> portfolio_state \<Rightarrow> transition_result \<Rightarrow> tick_result exc" where
  "after_commit h db pid ob s t =
     ebind (recover_portfolio h db pid) (\<lambda>(s', c, report).
     case c of
       None \<Rightarrow> Inl (ResumeTickError ''committed tick did not recover a checkpoint'')
     | Some x \<Rightarrow>
         if execution_checkpoint_digest h x \<noteq> execution_checkpoint_digest h (xt_checkpoint t)
         then Inl (ResumeTickError ''committed tick recovered a different checkpoint'')
         else if s' \<noteq> xt_new_state t then Inl (ResumeTickError ''committed tick recovered a different portfolio state'')
         else tick_result_init
           \<lparr>rr_portfolio_id = pid, rr_disposition = ''committed'', rr_observation_digest = Some (tick_observation_digest h ob),
            rr_pre_generation = pf_generation s, rr_post_generation = pf_generation s', rr_pre_state_digest = portfolio_state_digest h s,
            rr_post_state_digest = portfolio_state_digest h s', rr_checkpoint_digest = Some (execution_checkpoint_digest h x),
            rr_transition_result_digest = Some (transition_result_digest h t),
            rr_recovery_report_digest = Some (portfolio_report_digest h report), rr_requested_work_id = None,
            rr_requested_action_ref = None, rr_human_required = False, rr_schema_version = ''ge.resume-tick-result.v1''\<rparr>)"

text \<open>\<open>except PortfolioPersistenceError\<close>; other exceptions pass.\<close>

definition refused_commit :: "hash \<Rightarrow> portfolio_db \<Rightarrow> string \<Rightarrow> tick_observation \<Rightarrow> portfolio_state \<Rightarrow> py_error \<Rightarrow> tick_result exc" where
  "refused_commit h db pid ob s e = (case e of PortfolioPersistenceError _ \<Rightarrow> after_refusal h db pid ob s | _ \<Rightarrow> Inl e)"

definition commit_tick :: "hash \<Rightarrow> tick_views \<Rightarrow> string \<Rightarrow> tick_observation \<Rightarrow> portfolio_state \<Rightarrow> transition_result \<Rightarrow>
   portfolio_db option \<times> tick_result exc" where
  "commit_tick h v pid ob s t =
     (case portfolio_commit h (tv_commit v) pid (portfolio_state_digest h s) (xt_new_state t) (xt_checkpoint t) of
       Inl e \<Rightarrow> (None, refused_commit h (tv_others v (tv_commit v)) pid ob s e)
     | Inr (db, Inl e) \<Rightarrow> (Some db, refused_commit h (tv_others v db) pid ob s e)
     | Inr (db, Inr _) \<Rightarrow> (Some db, after_commit h (tv_others v db) pid ob s t))"

text \<open>The part of a tick that has an observation and an open gate.\<close>

definition observed_tick :: "hash \<Rightarrow> tick_views \<Rightarrow> string \<Rightarrow> transition_policy \<Rightarrow> tick_observation \<Rightarrow> core_requirement \<Rightarrow> core_receipt \<Rightarrow>
   portfolio_state \<Rightarrow> portfolio_report \<Rightarrow> portfolio_db option \<times> tick_result exc" where
  "observed_tick h v pid p ob q receipt s report =
     (if to_policy_digest ob \<noteq> transition_policy_digest h p
      then (None, Inl (ResumeTickError ''tick observation transition policy mismatch''))
      else case already_applied h (tv_latest v) pid (checkpoint_ref h ob) of
        Inl e \<Rightarrow> (None, Inl e)
      | Inr (Some d) \<Rightarrow> (None, tick_result_init ((idle_result h pid ''already_applied'' (Some (tick_observation_digest h ob)) s report)
          \<lparr>rr_checkpoint_digest := Some d\<rparr>))
      | Inr None \<Rightarrow>
          if to_expected_generation ob \<noteq> pf_generation s \<or> to_expected_state_digest ob \<noteq> portfolio_state_digest h s
          then (None, tick_result_init (idle_result h pid ''stale_observation'' (Some (tick_observation_digest h ob)) s report))
          else case apply_active_transition h s p (to_event ob) (to_evidence ob) (tick_args h ob q receipt) of
            Inl e \<Rightarrow> (None, Inl e)
          | Inr t \<Rightarrow> commit_tick h v pid ob s t)"

definition resume_tick :: "hash \<Rightarrow> tick_views \<Rightarrow> string \<Rightarrow> transition_policy \<Rightarrow> tick_observation option \<Rightarrow> core_requirement \<Rightarrow>
   core_receipt option \<Rightarrow> portfolio_db option \<times> tick_result exc" where
  "resume_tick h v pid p observation q verification =
     (if blank pid then (None, Inl (ResumeTickError ''portfolio_id must be a non-empty string''))
      else if observation \<noteq> None \<and> to_portfolio_id (the observation) \<noteq> pid
      then (None, Inl (ResumeTickError ''tick observation portfolio identity mismatch''))
      else case recover_portfolio h (tv_recovered v) pid of
        Inl e \<Rightarrow> (None, Inl e)
      | Inr (s, _, report) \<Rightarrow>
          if \<not> gate_open verification q
          then (None, tick_result_init (idle_result h pid ''verification_gate_closed'' (map_option (tick_observation_digest h) observation) s report))
          else case observation of
            None \<Rightarrow> (None, tick_result_init ((idle_result h pid ''external_input_required'' None s report)
              \<lparr>rr_requested_work_id := Some (pe_work_id (pf_active s)), rr_requested_action_ref := Some (pe_next_action_ref (pf_active s)),
               rr_human_required := (pe_state (pf_active s) = ''human_gate'')\<rparr>))
          | Some ob \<Rightarrow> observed_tick h v pid p ob q (the verification) s report)"

section \<open>What a tick that writes has done\<close>

definition tick_result_ok :: "tick_result \<Rightarrow> bool" where
  "tick_result_ok x \<longleftrightarrow> rr_schema_version x = ''ge.resume-tick-result.v1'' \<and> \<not> blank (rr_portfolio_id x) \<and>
     rr_disposition x \<in> set tick_dispositions \<and> pred_option digest_ok (rr_observation_digest x) \<and> digest_ok (rr_pre_state_digest x) \<and>
     digest_ok (rr_post_state_digest x) \<and> pred_option digest_ok (rr_checkpoint_digest x) \<and>
     pred_option digest_ok (rr_transition_result_digest x) \<and> pred_option digest_ok (rr_recovery_report_digest x) \<and>
     0 \<le> rr_pre_generation x \<and> 0 \<le> rr_post_generation x \<and> tick_request_check x = Inr () \<and> tick_change_check x = Inr () \<and>
     (rr_observation_digest x = None \<longrightarrow> rr_disposition x \<in> {''external_input_required'', ''verification_gate_closed''})"

lemma tick_result_init_Inr: "tick_result_init x = Inr y \<longleftrightarrow> y = x \<and> tick_result_ok x"
proof -
  have "tick_result_init x = Inr y \<longleftrightarrow> Inr x = (Inr y :: tick_result exc) \<and> tick_result_ok x"
    unfolding tick_result_init_def tick_result_ok_def
    by (simp only: ebind_eq_Inr raise_unless_eq exc_simps pyval.inject py_opt_PStr_eq) auto
  then show ?thesis by auto
qed

lemma tick_result_same: "tick_result_init x = Inr y \<Longrightarrow> y = x"
  by (simp add: tick_result_init_Inr)

lemma idle_result_fields [simp]:
  "rr_disposition (idle_result h pid disposition d s report) = disposition"
  "rr_post_generation (idle_result h pid disposition d s report) = pf_generation s"
  by (simp_all add: idle_result_def)

lemma after_refusal_idle: "after_refusal h db pid ob s = Inr x \<Longrightarrow> rr_disposition x \<noteq> ''committed''"
  by (auto simp: after_refusal_def ebind_eq_Inr raise_unless_eq dest!: tick_result_same split: option.splits if_splits)

lemma refused_commit_idle: "refused_commit h db pid ob s e = Inr x \<Longrightarrow> rr_disposition x \<noteq> ''committed''"
  by (auto simp: refused_commit_def after_refusal_idle split: py_error.splits)

lemma after_commit_Inr:
  assumes "after_commit h db pid ob s t = Inr x"
  shows "rr_disposition x = ''committed''" and "rr_post_state_digest x = portfolio_state_digest h (xt_new_state t)"
    and "rr_checkpoint_digest x = Some (execution_checkpoint_digest h (xt_checkpoint t))"
    and "rr_post_generation x = pf_generation (xt_new_state t)" and "rr_observation_digest x = Some (tick_observation_digest h ob)"
  using assms by (auto simp: after_commit_def ebind_eq_Inr raise_unless_eq dest!: tick_result_same split: option.splits)

text \<open>The way to the commit.\<close>

definition tick_ready :: "hash \<Rightarrow> tick_views \<Rightarrow> string \<Rightarrow> transition_policy \<Rightarrow> tick_observation \<Rightarrow> core_requirement \<Rightarrow> core_receipt \<Rightarrow>
   portfolio_state \<Rightarrow> transition_result \<Rightarrow> bool" where
  "tick_ready h v pid p ob q receipt s t \<longleftrightarrow> \<not> blank pid \<and> to_portfolio_id ob = pid \<and>
     (\<exists>c report. recover_portfolio h (tv_recovered v) pid = Inr (s, c, report)) \<and> gate_open (Some receipt) q \<and>
     to_policy_digest ob = transition_policy_digest h p \<and> already_applied h (tv_latest v) pid (checkpoint_ref h ob) = Inr None \<and>
     to_expected_generation ob = pf_generation s \<and> to_expected_state_digest ob = portfolio_state_digest h s \<and>
     apply_active_transition h s p (to_event ob) (to_evidence ob) (tick_args h ob q receipt) = Inr t"

lemma observed_tick_cases:
  "(fst (observed_tick h v pid p ob q receipt s report) = None \<and>
      (\<forall>x. snd (observed_tick h v pid p ob q receipt s report) = Inr x \<longrightarrow> rr_disposition x \<noteq> ''committed'')) \<or>
   (\<exists>t. to_policy_digest ob = transition_policy_digest h p \<and> already_applied h (tv_latest v) pid (checkpoint_ref h ob) = Inr None \<and>
     to_expected_generation ob = pf_generation s \<and> to_expected_state_digest ob = portfolio_state_digest h s \<and>
     apply_active_transition h s p (to_event ob) (to_evidence ob) (tick_args h ob q receipt) = Inr t \<and>
     observed_tick h v pid p ob q receipt s report = commit_tick h v pid ob s t)"
  by (auto simp: observed_tick_def dest!: tick_result_same split: sum.splits option.splits)

lemma resume_tick_cases:
  "(fst (resume_tick h v pid p obs q ver) = None \<and>
      (\<forall>x. snd (resume_tick h v pid p obs q ver) = Inr x \<longrightarrow> rr_disposition x \<noteq> ''committed'')) \<or>
   (\<exists>ob receipt s t. obs = Some ob \<and> ver = Some receipt \<and> tick_ready h v pid p ob q receipt s t \<and>
     resume_tick h v pid p obs q ver = commit_tick h v pid ob s t)"
  (is "?idle \<or> ?ready")
proof (cases "blank pid \<or> (obs \<noteq> None \<and> to_portfolio_id (the obs) \<noteq> pid)")
  case True then show ?thesis by (auto simp: resume_tick_def)
next
  case checked: False
  show ?thesis
  proof (cases "recover_portfolio h (tv_recovered v) pid")
    case (Inl e) with checked show ?thesis by (auto simp: resume_tick_def)
  next
    case (Inr r)
    obtain s c report where r: "r = (s, c, report)" by (cases r) auto
    show ?thesis
    proof (cases "gate_open ver q \<and> obs \<noteq> None")
      case False
      then show ?thesis using checked Inr r
        by (cases obs) (auto simp: resume_tick_def dest!: tick_result_same)
    next
      case True
      then obtain ob receipt where ob: "obs = Some ob" "ver = Some receipt" by (cases ver) (auto simp: gate_open_def)
      then have tick: "resume_tick h v pid p obs q ver = observed_tick h v pid p ob q receipt s report"
        using checked Inr r True by (simp add: resume_tick_def)
      from observed_tick_cases [of h v pid p ob q receipt s report] show ?thesis
      proof
        assume "\<exists>t. to_policy_digest ob = transition_policy_digest h p \<and> already_applied h (tv_latest v) pid (checkpoint_ref h ob) = Inr None \<and>
          to_expected_generation ob = pf_generation s \<and> to_expected_state_digest ob = portfolio_state_digest h s \<and>
          apply_active_transition h s p (to_event ob) (to_evidence ob) (tick_args h ob q receipt) = Inr t \<and>
          observed_tick h v pid p ob q receipt s report = commit_tick h v pid ob s t"
        then obtain t where "tick_ready h v pid p ob q receipt s t" "observed_tick h v pid p ob q receipt s report = commit_tick h v pid ob s t"
          unfolding tick_ready_def using checked Inr r True ob by auto
        then show ?thesis using ob tick by auto
      qed (simp add: tick)
    qed
  qed
qed

lemma commit_tick_wrote:
  assumes "fst (commit_tick h v pid ob s t) = Some db"
  shows "\<exists>d. portfolio_commit h (tv_commit v) pid (portfolio_state_digest h s) (xt_new_state t) (xt_checkpoint t) = Inr (db, d)"
  using assms by (auto simp: commit_tick_def split: sum.splits prod.splits)

lemma commit_tick_idle:
  assumes "commit_tick h v pid ob s t = (None, Inr x)"
  shows "rr_disposition x \<noteq> ''committed''"
proof -
  obtain e where "refused_commit h (tv_others v (tv_commit v)) pid ob s e = Inr x"
    using assms by (auto simp: commit_tick_def split: sum.splits prod.splits)
  then show ?thesis by (rule refused_commit_idle)
qed

lemma resume_tick_wrote:
  assumes "resume_tick h v pid p obs q ver = (Some db, r)"
  obtains ob receipt s t d where "obs = Some ob" and "ver = Some receipt" and "tick_ready h v pid p ob q receipt s t"
    and "portfolio_commit h (tv_commit v) pid (portfolio_state_digest h s) (xt_new_state t) (xt_checkpoint t) = Inr (db, d)"
    and "commit_tick h v pid ob s t = (Some db, r)"
proof -
  from resume_tick_cases [of h v pid p obs q ver] assms obtain ob receipt s t where found: "obs = Some ob" "ver = Some receipt"
    "tick_ready h v pid p ob q receipt s t" "commit_tick h v pid ob s t = (Some db, r)"
    by auto
  with commit_tick_wrote [of h v pid ob s t db] that show ?thesis by auto
qed

lemma tick_ready_generation:
  assumes "tick_ready h v pid p ob q receipt s t"
  shows "pf_generation (xt_new_state t) = to_expected_generation ob + 1"
proof -
  have "apply_active_transition h s p (to_event ob) (to_evidence ob) (tick_args h ob q receipt) = Inr t"
    and "to_expected_generation ob = pf_generation s"
    using assms by (auto simp: tick_ready_def)
  then show ?thesis by (auto elim: apply_transitionD)
qed

text \<open>A commit of generation \<open>g\<close> leaves a history of length \<open>g + 1\<close>.\<close>

lemma commit_length:
  assumes "hex_digest h" and "represents h db H" and "portfolio_commit h db pid expected new x = Inr (db', r)"
  shows "represents h db' (H(pid := H pid @ [(new, Some x)]))" and "int (length (H pid)) = pf_generation new"
proof -
  have hist: "portfolio_history h pid (H pid @ [(new, Some x)])" and "H pid \<noteq> []"
    and db': "db' = \<lparr>pd_heads = (pd_heads db)(pid \<mapsto> recorded_row h (new, Some x)),
        pd_checkpoints = pd_checkpoints db @ [checkpoint_row_of h pid new x]\<rparr>"
    using assms(3) unfolding portfolio_commit_Inr [OF assms(1,2)] by blast+
  show "represents h db' (H(pid := H pid @ [(new, Some x)]))"
    unfolding db' by (rule represents_extended [OF assms(2) hist \<open>H pid \<noteq> []\<close>])
  show "int (length (H pid)) = pf_generation new" using portfolio_history_last(2) [OF hist] by simp
qed

lemma generation_used_up:
  assumes "hex_digest h" and "represents h (tv_commit v) H" and "resume_tick h v pid p (Some ob) q ver = (Some db, r)"
    and "(portfolio_step h)\<^sup>*\<^sup>* db (tv_commit v')" and "to_expected_generation ob' \<le> to_expected_generation ob"
  shows "fst (resume_tick h v' pid p' (Some ob') q' ver') = None"
proof (rule ccontr)
  assume "fst (resume_tick h v' pid p' (Some ob') q' ver') \<noteq> None"
  then obtain db' r' where again: "resume_tick h v' pid p' (Some ob') q' ver' = (Some db', r')"
    by (cases "resume_tick h v' pid p' (Some ob') q' ver'") auto
  obtain s t d receipt where first: "tick_ready h v pid p ob q receipt s t"
    "portfolio_commit h (tv_commit v) pid (portfolio_state_digest h s) (xt_new_state t) (xt_checkpoint t) = Inr (db, d)"
    using assms(3) by (auto elim: resume_tick_wrote)
  obtain s' t' d' receipt' where second: "tick_ready h v' pid p' ob' q' receipt' s' t'"
    "portfolio_commit h (tv_commit v') pid (portfolio_state_digest h s') (xt_new_state t') (xt_checkpoint t') = Inr (db', d')"
    using again by (auto elim: resume_tick_wrote)
  note rep = commit_length [OF assms(1,2) first(2)]
  obtain H' more where H': "represents h (tv_commit v') H'" and more: "H' pid = (H pid @ [(xt_new_state t, Some (xt_checkpoint t))]) @ more"
    using portfolio_steps_represent [OF assms(1) rep(1) assms(4)] by (metis fun_upd_same)
  have "pf_generation (xt_new_state t) < pf_generation (xt_new_state t')"
    using rep(2) commit_length(2) [OF assms(1) H' second(2)] by (simp add: more)
  then show False using tick_ready_generation [OF first(1)] tick_ready_generation [OF second(1)] assms(5) by simp
qed

section \<open>A tick on a quiet database\<close>

text \<open>No other process touches the database during the tick.\<close>

definition quiet :: "portfolio_db \<Rightarrow> tick_views" where
  "quiet db = \<lparr>tv_recovered = db, tv_latest = db, tv_commit = db, tv_others = (\<lambda>db. db)\<rparr>"

lemma quiet_simps [simp]: "tv_recovered (quiet db) = db" "tv_latest (quiet db) = db" "tv_commit (quiet db) = db" "tv_others (quiet db) db' = db'"
  by (simp_all add: quiet_def)

lemma latest_checkpoint_Inr:
  assumes "hex_digest h" and "represents h db H"
  shows "latest_checkpoint h db pid = Inr c \<longleftrightarrow> H pid \<noteq> [] \<and> c = snd (last (H pid))"
  unfolding latest_checkpoint_def
  by (cases "last (H pid)") (auto simp: ebind_eq_Inr load_recovery_Inr [OF assms])

lemma already_applied_Inr:
  assumes "hex_digest h" and "represents h db H" and "H pid \<noteq> []"
  shows "already_applied h db pid ref = Inr (case snd (last (H pid)) of None \<Rightarrow> None
    | Some x \<Rightarrow> if ref \<in> set (ec_canonical_refs x) then Some (execution_checkpoint_digest h x) else None)"
proof -
  have "latest_checkpoint h db pid = Inr (snd (last (H pid)))"
    using assms(3) by (simp add: latest_checkpoint_Inr [OF assms(1,2)])
  then show ?thesis by (simp add: already_applied_def split: option.splits)
qed

lemma applied_ref:
  assumes "apply_active_transition h s p event evidence (tick_args h ob q receipt) = Inr t"
  shows "checkpoint_ref h ob \<in> set (ec_canonical_refs (xt_checkpoint t))"
proof (rule apply_transitionD [OF assms])
  fix r
  assume "xt_checkpoint t = transition_checkpoint h s p r evidence (tick_args h ob q receipt) (xt_new_state t)"
  then show ?thesis by (simp add: transition_checkpoint_def Let_def tick_args_def)
qed

lemma idle_result_ok:
  assumes "hex_digest h" and "\<not> blank pid" and "0 \<le> pf_generation s"
    and "disposition \<in> {''already_applied'', ''stale_observation''}" and "pred_option digest_ok c"
  shows "tick_result_ok ((idle_result h pid disposition (Some (tick_observation_digest h ob)) s report)\<lparr>rr_checkpoint_digest := c\<rparr>)"
proof -
  note [simp] = hex_digest.digest_ok_sha256 [OF assms(1)]
  have "digest_ok (tick_observation_digest h ob)" "digest_ok (portfolio_state_digest h s)" "digest_ok (portfolio_report_digest h report)"
    by (simp_all add: tick_observation_digest_def portfolio_state_digest_def portfolio_report_digest_def)
  then show ?thesis
    using assms(2-5) by (auto simp: tick_result_ok_def idle_result_def tick_dispositions_def tick_request_check_def tick_change_check_def)
qed

lemma committed_result_ok:
  assumes "hex_digest h" and "\<not> blank pid" and "0 \<le> pf_generation s" and "pf_generation s' = pf_generation s + 1"
    and "portfolio_state_digest h s' \<noteq> portfolio_state_digest h s"
  shows "tick_result_ok \<lparr>rr_portfolio_id = pid, rr_disposition = ''committed'', rr_observation_digest = Some (tick_observation_digest h ob),
     rr_pre_generation = pf_generation s, rr_post_generation = pf_generation s', rr_pre_state_digest = portfolio_state_digest h s,
     rr_post_state_digest = portfolio_state_digest h s', rr_checkpoint_digest = Some (execution_checkpoint_digest h x),
     rr_transition_result_digest = Some (transition_result_digest h t),
     rr_recovery_report_digest = Some (portfolio_report_digest h report), rr_requested_work_id = None,
     rr_requested_action_ref = None, rr_human_required = False, rr_schema_version = ''ge.resume-tick-result.v1''\<rparr>"
proof -
  note [simp] = hex_digest.digest_ok_sha256 [OF assms(1)]
  show ?thesis
    using assms(2-5) by (simp add: tick_result_ok_def tick_dispositions_def tick_request_check_def tick_change_check_def
        tick_observation_digest_def portfolio_state_digest_def execution_checkpoint_digest_def transition_result_digest_def
        portfolio_report_digest_def)
qed

lemma quiet_ready:
  assumes "hex_digest h" and "represents h db H" and "tick_ready h (quiet db) pid p ob q receipt s t"
  shows "H pid \<noteq> []" and "s = fst (last (H pid))" and "portfolio_history h pid (H pid)"
proof -
  obtain c report where "recover_portfolio h db pid = Inr (s, c, report)"
    using assms(3) by (auto simp: tick_ready_def)
  then have *: "H pid \<noteq> [] \<and> (s, c) = last (H pid)" by (simp add: recover_portfolio_Inr [OF assms(1,2)])
  then show "H pid \<noteq> []" "s = fst (last (H pid))" by (simp_all add: prod_eq_iff)
  with represents_history [OF assms(2)] show "portfolio_history h pid (H pid)" by simp
qed

lemma ready_tick:
  assumes "tick_ready h v pid p ob q receipt s t"
  shows "resume_tick h v pid p (Some ob) q (Some receipt) = commit_tick h v pid ob s t"
  using assms by (auto simp: tick_ready_def resume_tick_def observed_tick_def)

text \<open>A tick that is ready commits when nothing interferes.\<close>

lemma quiet_tick_commits:
  assumes h: "hex_digest h" and rep: "represents h db H" and ready: "tick_ready h (quiet db) pid p ob q receipt s t"
    and "list_all checkpoint_evidence_ok (to_evidence ob)" and fresh: "checkpoint_fresh h db (xt_checkpoint t)"
    and "portfolio_state_digest h (xt_new_state t) \<noteq> portfolio_state_digest h s"
  shows "\<exists>db' x. resume_tick h (quiet db) pid p (Some ob) q (Some receipt) = (Some db', Inr x) \<and>
     represents h db' (H(pid := H pid @ [(xt_new_state t, Some (xt_checkpoint t))])) \<and> after_commit h db' pid ob s t = Inr x"
proof -
  note head = quiet_ready [OF h rep ready]
  have step: "apply_active_transition h (fst (last (H pid))) p (to_event ob) (to_evidence ob) (tick_args h ob q receipt) = Inr t"
    using ready head(2) by (simp add: tick_ready_def)
  note hist = transition_history [OF head(3) assms(4) step]
  obtain db' d where commit: "portfolio_commit h db pid (portfolio_state_digest h s) (xt_new_state t) (xt_checkpoint t) = Inr (db', Inr d)"
    using hist(1,5) fresh head(1,2) unfolding portfolio_commit_Inr [OF h rep] by simp
  have rep': "represents h db' (H(pid := H pid @ [(xt_new_state t, Some (xt_checkpoint t))]))"
    by (rule commit_length(1) [OF h rep commit])
  have recovered: "recover_portfolio h db' pid = Inr (xt_new_state t, Some (xt_checkpoint t), report_for h (xt_new_state t) (Some (xt_checkpoint t)))"
    by (simp add: recover_portfolio_Inr [OF h rep'])
  have "\<not> blank pid" using ready by (simp add: tick_ready_def)
  moreover have "0 \<le> pf_generation s" "pf_generation (xt_new_state t) = pf_generation s + 1"
    using portfolio_history_last(3) [OF head(3)] hist(4) head(2) by (simp_all add: valid_portfolio_def portfolio_state_ok_def)
  ultimately have "\<exists>x. after_commit h db' pid ob s t = Inr x"
    using committed_result_ok [OF h, of pid s "xt_new_state t"] assms(6)
    by (simp add: after_commit_def recovered tick_result_init_Inr)
  then obtain x where x: "after_commit h db' pid ob s t = Inr x" by blast
  have "commit_tick h (quiet db) pid ob s t = (Some db', after_commit h db' pid ob s t)"
    unfolding commit_tick_def quiet_simps commit by simp
  then have "resume_tick h (quiet db) pid p (Some ob) q (Some receipt) = (Some db', Inr x)"
    unfolding ready_tick [OF ready] x .
  then show ?thesis using rep' x by blast
qed

text \<open>The same observation again, on the database that its commit left.\<close>

lemma repeated_tick:
  assumes h: "hex_digest h" and rep: "represents h db (H(pid := xs @ [(s, Some x)]))" and "checkpoint_ref h ob \<in> set (ec_canonical_refs x)"
    and "\<not> blank pid" and "to_portfolio_id ob = pid" and "gate_open (Some receipt) q" and "to_policy_digest ob = transition_policy_digest h p"
  shows "\<exists>y. resume_tick h (quiet db) pid p (Some ob) q (Some receipt) = (None, Inr y) \<and> rr_disposition y = ''already_applied'' \<and>
     rr_checkpoint_digest y = Some (execution_checkpoint_digest h x)"
proof -
  have hist: "portfolio_history h pid (xs @ [(s, Some x)])" using represents_history [OF rep, of pid] by simp
  have "recover_portfolio h db pid = Inr (s, Some x, report_for h s (Some x))"
    by (simp add: recover_portfolio_Inr [OF h rep])
  moreover have "already_applied h db pid (checkpoint_ref h ob) = Inr (Some (execution_checkpoint_digest h x))"
    using assms(3) by (simp add: already_applied_Inr [OF h rep])
  moreover have "0 \<le> pf_generation s"
    using portfolio_history_last(3) [OF hist] by (simp add: valid_portfolio_def portfolio_state_ok_def)
  then have "tick_result_ok ((idle_result h pid ''already_applied'' (Some (tick_observation_digest h ob)) s (report_for h s (Some x)))
      \<lparr>rr_checkpoint_digest := Some (execution_checkpoint_digest h x)\<rparr>)"
    using digest_ok_portfolio(3) [OF h] assms(4) by (intro idle_result_ok [OF h]) simp_all
  ultimately show ?thesis
    using assms(4-7) by (simp add: resume_tick_def observed_tick_def tick_result_init_Inr)
qed

section \<open>Properties\<close>

text \<open>A digest function that tells the objects of the examples apart: it shows whether their generation is one.\<close>

definition tick_hash :: hash where
  "tick_hash t = replicate 64 (case json_loads t of
     Some (PDict kvs) \<Rightarrow> if PInt 1 \<in> {kw kvs ''generation'' PNone, kw kvs ''portfolio_generation'' PNone, kw kvs ''expected_generation'' PNone}
       then CHR ''1'' else CHR ''0''
   | _ \<Rightarrow> CHR ''0'')"

lemma tick_hash: "hex_digest tick_hash"
  by unfold_locales (auto simp: tick_hash_def is_lower_hex_def split: if_splits option.splits pyval.splits)

lemma tick_hash_simps [simp]:
  "tick_hash (canonical_json (portfolio_state_py s)) = replicate 64 (if pf_generation s = 1 then CHR ''1'' else CHR ''0'')"
  "tick_hash (canonical_json (execution_checkpoint_py x)) = replicate 64 (if ec_portfolio_generation x = 1 then CHR ''1'' else CHR ''0'')"
  "tick_hash (canonical_json (tick_observation_py ob)) = replicate 64 (if to_expected_generation ob = 1 then CHR ''1'' else CHR ''0'')"
  unfolding tick_hash_def json_loads_canonical [OF portfolio_state.enc_wf] json_loads_canonical [OF execution_checkpoint.enc_wf]
    json_loads_canonical [OF tick_observation.enc_wf]
  by (simp_all add: portfolio_state_py_def execution_checkpoint_py_def tick_observation_py_def normalize_PDict)

definition ex_tick_db :: portfolio_db where
  "ex_tick_db = \<lparr>pd_heads = [''p'' \<mapsto> recorded_row tick_hash (ex_portfolio, None)], pd_checkpoints = []\<rparr>"

definition ex_observation :: tick_observation where
  "ex_observation = \<lparr>to_portfolio_id = ''p'', to_expected_generation = 0, to_expected_state_digest = portfolio_state_digest tick_hash ex_portfolio,
     to_policy_digest = transition_policy_digest tick_hash ex_stop_policy, to_event = ''authority_required'', to_evidence = ex_evidence,
     to_action_ref = ''a'', to_observed_at = ''t'', to_summary = ''s'', to_canonical_refs = [''c''], to_uncertainties = [],
     to_wake_admission = None, to_authority_grant = None, to_schema_version = ''ge.resume-tick-observation.v1''\<rparr>"

definition ex_requirement :: core_requirement where
  "ex_requirement = \<lparr>cq_required_revision = replicate 40 (CHR ''0''), cq_required_suite_ref = ''s'', cq_required_verifier_ref = ''v'',
     cq_minimum_test_count = 1, cq_schema_version = ''ge.core-verification-requirement.v1''\<rparr>"

definition ex_receipt :: core_receipt where
  "ex_receipt = \<lparr>cr_target_revision = replicate 40 (CHR ''0''), cr_suite_ref = ''s'', cr_evidence_ref = ''e'',
     cr_evidence_digest = sha256_digest zero_hash PNone, cr_verifier_ref = ''v'', cr_executed_at = ''t'', cr_passed = True, cr_test_count = 1,
     cr_schema_version = ''ge.core-verification-receipt.v1''\<rparr>"

lemma ex_tick_represents: "represents tick_hash ex_tick_db ((\<lambda>_. [])(''p'' := [(ex_portfolio, None)]))"
proof -
  have "portfolio_history tick_hash ''p'' [(ex_portfolio, None)]"
    by (rule portfolio_history.genesis [OF ex_portfolio_valid(1)]) (simp_all add: ex_portfolio_def)
  from represents_initialized [OF represents_empty _ this] show ?thesis
    by (simp add: ex_tick_db_def empty_portfolio_db_def)
qed

lemma ex_gate_open: "gate_open (Some ex_receipt) ex_requirement"
  by (simp add: gate_open_def ex_receipt_def ex_requirement_def)

lemma ex_tick_transition:
  "\<exists>t. apply_active_transition tick_hash ex_portfolio ex_stop_policy (to_event ex_observation) (to_evidence ex_observation)
     (tick_args tick_hash ex_observation ex_requirement ex_receipt) = Inr t"
proof -
  let ?args = "tick_args tick_hash ex_observation ex_requirement ex_receipt"
  have "transition_texts_ok ?args"
    by (simp add: transition_texts_ok_def tick_args_def ex_observation_def checkpoint_ref_def blank_iff is_space_def)
  moreover have "ta_authority_grant ?args = None" "ta_replacement_secondary ?args = None" "ta_wake_admission ?args = None"
    by (simp_all add: tick_args_def ex_observation_def)
  moreover have "matched_rule ex_stop_policy (pe_state (pf_active ex_portfolio)) (to_event ex_observation) = Inr ex_stop_rule"
    using ex_stop_match by (simp add: ex_observation_def)
  moreover have "to_evidence ex_observation = ex_evidence" by (simp add: ex_observation_def)
  ultimately show ?thesis
    using stop_succeeds [OF tick_hash ex_portfolio_valid(1) ex_stop_policy_valid _ ex_stop_args_ok(5)] ex_evidence_ok by simp
qed

lemma ex_tick_ready:
  assumes "apply_active_transition tick_hash ex_portfolio ex_stop_policy (to_event ex_observation) (to_evidence ex_observation)
     (tick_args tick_hash ex_observation ex_requirement ex_receipt) = Inr t"
  shows "tick_ready tick_hash (quiet ex_tick_db) ''p'' ex_stop_policy ex_observation ex_requirement ex_receipt ex_portfolio t"
proof -
  have "recover_portfolio tick_hash ex_tick_db ''p'' = Inr (ex_portfolio, None, report_for tick_hash ex_portfolio None)"
    by (simp add: recover_portfolio_Inr [OF tick_hash ex_tick_represents])
  moreover have "already_applied tick_hash ex_tick_db ''p'' ref = Inr None" for ref
    by (simp add: already_applied_Inr [OF tick_hash ex_tick_represents])
  moreover have "to_portfolio_id ex_observation = ''p''" "to_policy_digest ex_observation = transition_policy_digest tick_hash ex_stop_policy"
    "to_expected_generation ex_observation = pf_generation ex_portfolio"
    "to_expected_state_digest ex_observation = portfolio_state_digest tick_hash ex_portfolio" "\<not> blank ''p''"
    by (simp_all add: ex_observation_def ex_portfolio_def blank_iff is_space_def)
  ultimately show ?thesis using assms ex_gate_open by (simp add: tick_ready_def)
qed

lemma ex_tick:
  "\<exists>db x. resume_tick tick_hash (quiet ex_tick_db) ''p'' ex_stop_policy (Some ex_observation) ex_requirement (Some ex_receipt) = (Some db, Inr x)"
proof -
  obtain t where t: "apply_active_transition tick_hash ex_portfolio ex_stop_policy (to_event ex_observation) (to_evidence ex_observation)
      (tick_args tick_hash ex_observation ex_requirement ex_receipt) = Inr t"
    using ex_tick_transition by blast
  have "pf_generation (xt_new_state t) = 1" "pf_generation ex_portfolio = 0"
    using tick_ready_generation [OF ex_tick_ready [OF t]] by (simp_all add: ex_observation_def ex_portfolio_def)
  then have "portfolio_state_digest tick_hash (xt_new_state t) \<noteq> portfolio_state_digest tick_hash ex_portfolio"
    by (simp add: portfolio_state_digest_def sha256_digest_def)
  moreover have "list_all checkpoint_evidence_ok (to_evidence ex_observation)" using ex_evidence_ok(1) by (simp add: ex_observation_def)
  moreover have "checkpoint_fresh tick_hash ex_tick_db (xt_checkpoint t)" by (simp add: checkpoint_fresh_def ex_tick_db_def)
  ultimately show ?thesis
    using quiet_tick_commits [OF tick_hash ex_tick_represents ex_tick_ready [OF t]] by blast
qed

text \<open>C29: An observation takes effect at most once. Whatever other processes do between the reads of a tick and between two ticks,
  after a tick has written to the portfolio no tick with an observation of the same or an earlier generation, in particular
  none with the same observation, ever writes again, whatever its policy, gate and evidence.\<close>

theorem tick_takes_effect_once:
  assumes "hex_digest h" and "represents h (tv_commit v) H" and "resume_tick h v pid p (Some ob) q ver = (Some db, r)"
    and "(portfolio_step h)\<^sup>*\<^sup>* db (tv_commit v')" and "to_expected_generation ob' \<le> to_expected_generation ob"
  shows "fst (resume_tick h v' pid p' (Some ob') q' ver') = None"
  by (rule generation_used_up [OF assms])

theorem tick_takes_effect_once_witness:
  "\<exists>db x. resume_tick tick_hash (quiet ex_tick_db) ''p'' ex_stop_policy (Some ex_observation) ex_requirement (Some ex_receipt) = (Some db, Inr x) \<and>
     fst (resume_tick tick_hash (quiet db) ''p'' ex_stop_policy (Some ex_observation) ex_requirement (Some ex_receipt)) = None"
proof -
  obtain db x where tick: "resume_tick tick_hash (quiet ex_tick_db) ''p'' ex_stop_policy (Some ex_observation) ex_requirement (Some ex_receipt) = (Some db, Inr x)"
    using ex_tick by blast
  have "fst (resume_tick tick_hash (quiet db) ''p'' ex_stop_policy (Some ex_observation) ex_requirement (Some ex_receipt)) = None"
    by (rule tick_takes_effect_once [OF tick_hash _ tick, where H = "(\<lambda>_. [])(''p'' := [(ex_portfolio, None)])"]) (simp_all add: ex_tick_represents)
  with tick show ?thesis by blast
qed

text \<open>C30: A tick reports what it did: it claims a commit exactly if it wrote to the database, and then the gate was open and it has
  appended one generation, computed by the policy's transition for its observation from a state with the digest of the head it
  replaced, whose state and checkpoint digests it reports and whose checkpoint names the observation.\<close>

theorem tick_reports_what_it_did:
  assumes "hex_digest h" and "represents h (tv_commit v) H" and "resume_tick h v pid p obs q ver = (w, Inr x)"
  shows "(rr_disposition x = ''committed'' \<longleftrightarrow> w \<noteq> None) \<and>
     (\<forall>db. w = Some db \<longrightarrow> gate_open ver q \<and> (\<exists>ob s t. obs = Some ob \<and>
        apply_active_transition h s p (to_event ob) (to_evidence ob) (tick_args h ob q (the ver)) = Inr t \<and>
        H pid \<noteq> [] \<and> portfolio_state_digest h s = portfolio_state_digest h (fst (last (H pid))) \<and>
        represents h db (H(pid := H pid @ [(xt_new_state t, Some (xt_checkpoint t))])) \<and>
        rr_post_state_digest x = portfolio_state_digest h (xt_new_state t) \<and>
        rr_checkpoint_digest x = Some (execution_checkpoint_digest h (xt_checkpoint t)) \<and>
        checkpoint_ref h ob \<in> set (ec_canonical_refs (xt_checkpoint t))))"
proof (cases w)
  case None
  have "rr_disposition x \<noteq> ''committed''"
    using resume_tick_cases [of h v pid p obs q ver] assms(3) None by (auto dest: commit_tick_idle [OF sym])
  then show ?thesis by (simp add: None)
next
  case (Some db)
  from assms(3) [unfolded Some] show ?thesis
  proof (rule resume_tick_wrote)
    fix ob receipt s t d
    assume found: "obs = Some ob" "ver = Some receipt" and ready: "tick_ready h v pid p ob q receipt s t"
      and commit: "portfolio_commit h (tv_commit v) pid (portfolio_state_digest h s) (xt_new_state t) (xt_checkpoint t) = Inr (db, d)"
      and tick: "commit_tick h v pid ob s t = (Some db, Inr x)"
    have head: "H pid \<noteq> []" "portfolio_state_digest h s = portfolio_state_digest h (fst (last (H pid)))" "\<exists>e. d = Inr e"
      using commit unfolding portfolio_commit_Inr [OF assms(1,2)] by blast+
    then have "after_commit h (tv_others v db) pid ob s t = Inr x" using tick commit by (auto simp: commit_tick_def)
    note reported = after_commit_Inr [OF this]
    have step: "apply_active_transition h s p (to_event ob) (to_evidence ob) (tick_args h ob q receipt) = Inr t"
      and gate: "gate_open (Some receipt) q"
      using ready by (auto simp: tick_ready_def)
    show ?thesis
      unfolding Some found option.sel
      using reported(1-3) gate step head(1,2) commit_length(1) [OF assms(1,2) commit] applied_ref [OF step] by blast
  qed
qed

theorem tick_reports_what_it_did_witness:
  "\<exists>db x. resume_tick tick_hash (quiet ex_tick_db) ''p'' ex_stop_policy (Some ex_observation) ex_requirement (Some ex_receipt) = (Some db, Inr x) \<and>
     rr_disposition x = ''committed''"
proof -
  obtain db x where tick: "resume_tick tick_hash (quiet ex_tick_db) ''p'' ex_stop_policy (Some ex_observation) ex_requirement (Some ex_receipt) = (Some db, Inr x)"
    using ex_tick by blast
  have "represents tick_hash (tv_commit (quiet ex_tick_db)) ((\<lambda>_. [])(''p'' := [(ex_portfolio, None)]))" by (simp add: ex_tick_represents)
  from tick_reports_what_it_did [OF tick_hash this tick] tick show ?thesis by blast
qed

text \<open>C31: A tick makes progress, and repeating it is harmless: with an open gate and an observation of the present head that the policy
  admits, on a database that nobody else touches, the tick commits the next generation (unless the texts of the two states
  collide under the digest function or the checkpoint has been recorded before); the same tick again writes nothing and reports the
  observation as already applied, with the checkpoint that the first one recorded.\<close>

theorem tick_makes_progress:
  assumes "hex_digest h" and "represents h db H" and "H pid \<noteq> []" and "s = fst (last (H pid))" and "to_portfolio_id ob = pid"
    and "gate_open (Some receipt) q" and "to_policy_digest ob = transition_policy_digest h p"
    and "\<forall>x. snd (last (H pid)) = Some x \<longrightarrow> checkpoint_ref h ob \<notin> set (ec_canonical_refs x)"
    and "to_expected_generation ob = pf_generation s" and "to_expected_state_digest ob = portfolio_state_digest h s"
    and "list_all checkpoint_evidence_ok (to_evidence ob)"
    and "apply_active_transition h s p (to_event ob) (to_evidence ob) (tick_args h ob q receipt) = Inr t"
    and "checkpoint_fresh h db (xt_checkpoint t)"
    and "collision_free h {canonical_json (portfolio_state_py (xt_new_state t)), canonical_json (portfolio_state_py s)}"
  shows "\<exists>db' x y. resume_tick h (quiet db) pid p (Some ob) q (Some receipt) = (Some db', Inr x) \<and> rr_disposition x = ''committed'' \<and>
     rr_post_generation x = pf_generation s + 1 \<and>
     resume_tick h (quiet db') pid p (Some ob) q (Some receipt) = (None, Inr y) \<and> rr_disposition y = ''already_applied'' \<and>
     rr_checkpoint_digest y = rr_checkpoint_digest x"
proof -
  have hist: "portfolio_history h pid (H pid)" by (rule represents_history [OF assms(2,3)])
  have id: "\<not> blank pid" using portfolio_history_last(3,4) [OF hist] by (auto simp: valid_portfolio_def portfolio_state_ok_def)
  obtain c where c: "last (H pid) = (s, c)" using assms(4) by (cases "last (H pid)") simp
  have "recover_portfolio h db pid = Inr (s, c, report_for h s c)"
    using c assms(3) by (simp add: recover_portfolio_Inr [OF assms(1,2)])
  moreover have "already_applied h db pid (checkpoint_ref h ob) = Inr None"
    using assms(8) by (simp add: already_applied_Inr [OF assms(1-3)] split: option.splits)
  ultimately have ready: "tick_ready h (quiet db) pid p ob q receipt s t"
    using id assms(5-7,9,10,12) by (simp add: tick_ready_def)
  have next_gen: "pf_generation (xt_new_state t) = pf_generation s + 1"
    using tick_ready_generation [OF ready] assms(9) by simp
  then have "xt_new_state t \<noteq> s" by auto
  then have "portfolio_state_digest h (xt_new_state t) \<noteq> portfolio_state_digest h s"
    unfolding portfolio_state_digest_def portfolio_state.digest_inject [OF assms(14)] .
  from quiet_tick_commits [OF assms(1,2) ready assms(11,13) this] obtain db' x
    where tick: "resume_tick h (quiet db) pid p (Some ob) q (Some receipt) = (Some db', Inr x)"
      and rep: "represents h db' (H(pid := H pid @ [(xt_new_state t, Some (xt_checkpoint t))]))"
      and reported: "after_commit h db' pid ob s t = Inr x" by blast
  from repeated_tick [OF assms(1) rep applied_ref [OF assms(12)] id assms(5-7)] obtain y
    where "resume_tick h (quiet db') pid p (Some ob) q (Some receipt) = (None, Inr y)" "rr_disposition y = ''already_applied''"
      "rr_checkpoint_digest y = Some (execution_checkpoint_digest h (xt_checkpoint t))" by blast
  with tick after_commit_Inr [OF reported] next_gen show ?thesis by auto
qed

theorem tick_makes_progress_witness:
  "\<exists>db x y. resume_tick tick_hash (quiet ex_tick_db) ''p'' ex_stop_policy (Some ex_observation) ex_requirement (Some ex_receipt) = (Some db, Inr x) \<and>
     rr_post_generation x = 1 \<and>
     resume_tick tick_hash (quiet db) ''p'' ex_stop_policy (Some ex_observation) ex_requirement (Some ex_receipt) = (None, Inr y)"
proof -
  obtain t where t: "apply_active_transition tick_hash ex_portfolio ex_stop_policy (to_event ex_observation) (to_evidence ex_observation)
      (tick_args tick_hash ex_observation ex_requirement ex_receipt) = Inr t"
    using ex_tick_transition by blast
  have "pf_generation (xt_new_state t) = 1" "pf_generation ex_portfolio = 0"
    using tick_ready_generation [OF ex_tick_ready [OF t]] by (simp_all add: ex_observation_def ex_portfolio_def)
  then have "collision_free tick_hash {canonical_json (portfolio_state_py (xt_new_state t)), canonical_json (portfolio_state_py ex_portfolio)}"
    by (auto simp: collision_free_def)
  moreover have "list_all checkpoint_evidence_ok (to_evidence ex_observation)" using ex_evidence_ok(1) by (simp add: ex_observation_def)
  moreover have "checkpoint_fresh tick_hash ex_tick_db (xt_checkpoint t)" by (simp add: checkpoint_fresh_def ex_tick_db_def)
  moreover have "to_portfolio_id ex_observation = ''p''" "to_policy_digest ex_observation = transition_policy_digest tick_hash ex_stop_policy"
    "to_expected_generation ex_observation = pf_generation ex_portfolio"
    "to_expected_state_digest ex_observation = portfolio_state_digest tick_hash ex_portfolio" "pf_generation ex_portfolio = 0"
    by (simp_all add: ex_observation_def ex_portfolio_def)
  ultimately show ?thesis
    using tick_makes_progress [OF tick_hash ex_tick_represents, of "''p''" ex_portfolio ex_observation ex_receipt ex_requirement ex_stop_policy t]
      ex_gate_open t by simp blast
qed

end
