(* ===== verification/Human_Authority.thy ===== *)
theory Human_Authority
  imports Resume_Tick
begin

text \<open>
  Human approval (\<open>human_authority.py\<close>): an approval by the trusted actor, for the action that the human gate waits
  for, is turned into a receipt and a grant that bind the present state, the policy, the rule and its boundary; the grant
  is attached to an observation, which a tick then consumes.
  The lemmas show what an admitted approval binds, and that it can be consumed at most once.
\<close>

section \<open>Receipts\<close>

record human_receipt =
  hu_event_id :: string
  hu_portfolio_id :: string
  hu_expected_generation :: int
  hu_expected_state_digest :: string
  hu_policy_digest :: string
  hu_rule_digest :: string
  hu_authority_boundary :: string
  hu_approved_action_ref :: string
  hu_approved_at :: string
  hu_provider_actor :: string
  hu_authority_ref :: string
  hu_schema_version :: string

definition human_receipt_py :: "human_receipt \<Rightarrow> pyval" where
  "human_receipt_py x = PDict [
    (''event_id'', PStr (hu_event_id x)),
    (''portfolio_id'', PStr (hu_portfolio_id x)),
    (''expected_generation'', PInt (hu_expected_generation x)),
    (''expected_state_digest'', PStr (hu_expected_state_digest x)),
    (''policy_digest'', PStr (hu_policy_digest x)),
    (''rule_digest'', PStr (hu_rule_digest x)),
    (''authority_boundary'', PStr (hu_authority_boundary x)),
    (''approved_action_ref'', PStr (hu_approved_action_ref x)),
    (''approved_at'', PStr (hu_approved_at x)),
    (''provider_actor'', PStr (hu_provider_actor x)),
    (''authority_ref'', PStr (hu_authority_ref x)),
    (''schema_version'', PStr (hu_schema_version x))]"

definition human_receipt_digest :: "hash \<Rightarrow> human_receipt \<Rightarrow> string" where
  "human_receipt_digest h x = sha256_digest h (human_receipt_py x)"

definition human_receipt_init :: "human_receipt \<Rightarrow> human_receipt exc" where
  "human_receipt_init x =
     (if hu_schema_version x \<noteq> ''ge.human-authority-receipt.v1''
      then Inl (HumanAuthorityError ''unsupported human authority receipt schema'')
      else
      ebind (nonempty_field HumanAuthorityError ''event_id'' (PStr (hu_event_id x))) (\<lambda>_.
      ebind (nonempty_field HumanAuthorityError ''portfolio_id'' (PStr (hu_portfolio_id x))) (\<lambda>_.
      ebind (nonempty_field HumanAuthorityError ''authority_boundary'' (PStr (hu_authority_boundary x))) (\<lambda>_.
      ebind (nonempty_field HumanAuthorityError ''approved_action_ref'' (PStr (hu_approved_action_ref x))) (\<lambda>_.
      ebind (nonempty_field HumanAuthorityError ''approved_at'' (PStr (hu_approved_at x))) (\<lambda>_.
      ebind (nonempty_field HumanAuthorityError ''provider_actor'' (PStr (hu_provider_actor x))) (\<lambda>_.
      ebind (nonempty_field HumanAuthorityError ''authority_ref'' (PStr (hu_authority_ref x))) (\<lambda>_.
      if hu_expected_generation x < 0 then Inl (HumanAuthorityError ''expected_generation cannot be negative'')
      else
      ebind (digest_field HumanAuthorityError ''expected_state_digest'' (PStr (hu_expected_state_digest x))) (\<lambda>_.
      ebind (digest_field HumanAuthorityError ''policy_digest'' (PStr (hu_policy_digest x))) (\<lambda>_.
      ebind (digest_field HumanAuthorityError ''rule_digest'' (PStr (hu_rule_digest x))) (\<lambda>_.
      Inr x)))))))))))"

section \<open>Admission and consumption\<close>

text \<open>The keyword arguments of an approval.\<close>

record approval =
  ap_event_id :: string
  ap_approved_action_ref :: string
  ap_approved_at :: string
  ap_provider_actor :: string
  ap_authority_ref :: string

text \<open>\<open>except ValueError as exc: raise HumanAuthorityError(str(exc))\<close>.\<close>

definition approved_rule :: "transition_policy \<Rightarrow> string \<Rightarrow> string \<Rightarrow> transition_rule exc" where
  "approved_rule p current event = (case match_transition_rule p current event of
     Inl (TransitionPolicyError message) \<Rightarrow> Inl (HumanAuthorityError message)
   | m \<Rightarrow> m)"

definition approval_receipt :: "hash \<Rightarrow> portfolio_state \<Rightarrow> transition_policy \<Rightarrow> transition_rule \<Rightarrow> string \<Rightarrow> approval \<Rightarrow> human_receipt" where
  "approval_receipt h s p r boundary a =
     \<lparr>hu_event_id = ap_event_id a, hu_portfolio_id = pf_portfolio_id s, hu_expected_generation = pf_generation s,
      hu_expected_state_digest = portfolio_state_digest h s, hu_policy_digest = transition_policy_digest h p,
      hu_rule_digest = transition_rule_digest h r, hu_authority_boundary = boundary,
      hu_approved_action_ref = ap_approved_action_ref a, hu_approved_at = ap_approved_at a,
      hu_provider_actor = ap_provider_actor a, hu_authority_ref = ap_authority_ref a,
      hu_schema_version = ''ge.human-authority-receipt.v1''\<rparr>"

definition approval_grant :: "hash \<Rightarrow> transition_policy \<Rightarrow> transition_rule \<Rightarrow> string \<Rightarrow> approval \<Rightarrow> human_receipt \<Rightarrow> transition_grant" where
  "approval_grant h p r boundary a receipt =
     \<lparr>tg_policy_digest = transition_policy_digest h p, tg_rule_digest = transition_rule_digest h r, tg_authority_boundary = boundary,
      tg_authority_ref = ap_authority_ref a, tg_authority_digest = human_receipt_digest h receipt,
      tg_schema_version = ''ge.transition-authority-grant.v1''\<rparr>"

definition admit_human_authority :: "hash \<Rightarrow> portfolio_db \<Rightarrow> transition_policy \<Rightarrow> tick_observation \<Rightarrow> approval \<Rightarrow>
   (human_receipt \<times> tick_observation) exc" where
  "admit_human_authority h db p ob a =
     (if ap_provider_actor a \<noteq> ''Waterfound'' then Inl (HumanAuthorityError ''human authority provider actor is not trusted'')
      else if to_authority_grant ob \<noteq> None
      then Inl (HumanAuthorityError ''authority input observation must not self-carry a grant'')
      else ebind (recover_portfolio h db (to_portfolio_id ob)) (\<lambda>(s, c, _).
      if pe_state (pf_active s) \<noteq> ''human_gate''
      then Inl (HumanAuthorityError ''human authority can be consumed only from human_gate'')
      else if c = None \<or> \<not> ec_authority_stop (the c)
      then Inl (HumanAuthorityError ''human_gate has no durable authority-stop checkpoint'')
      else if to_expected_generation ob \<noteq> pf_generation s \<or> to_expected_state_digest ob \<noteq> portfolio_state_digest h s
      then Inl (HumanAuthorityError ''human authority observation is stale'')
      else if to_policy_digest ob \<noteq> transition_policy_digest h p
      then Inl (HumanAuthorityError ''human authority policy digest mismatch'')
      else if ap_approved_action_ref a \<noteq> pe_next_action_ref (pf_active s)
      then Inl (HumanAuthorityError ''approved action does not match the pending human gate'')
      else ebind (approved_rule p (pe_state (pf_active s)) (to_event ob)) (\<lambda>r.
      if tr_authority_mode r \<noteq> ''preauthorized_required''
      then Inl (HumanAuthorityError ''human authority bridge requires preauthorized_required transition'')
      else case tr_authority_boundary r of
        None \<Rightarrow> Inl (HumanAuthorityError ''authorized transition has no authority boundary'')
      | Some boundary \<Rightarrow>
          if boundary = [] then Inl (HumanAuthorityError ''authorized transition has no authority boundary'')
          else if pe_authority_boundary (pf_active s) \<noteq> Some boundary
          then Inl (HumanAuthorityError ''authorized transition boundary does not match the pending human gate'')
          else ebind (human_receipt_init (approval_receipt h s p r boundary a)) (\<lambda>receipt.
          ebind (transition_grant_init (approval_grant h p r boundary a receipt)) (\<lambda>grant.
          ebind (tick_observation_init (ob\<lparr>to_canonical_refs := first_occurrences (to_canonical_refs ob @ [ap_authority_ref a]),
            to_authority_grant := Some grant\<rparr>)) (\<lambda>bound.
          Inr (receipt, bound)))))))"

text \<open>The approval is admitted on one view of the database; the tick that consumes it has views of its own.\<close>

definition consume_human_authority :: "hash \<Rightarrow> portfolio_db \<Rightarrow> tick_views \<Rightarrow> transition_policy \<Rightarrow> tick_observation \<Rightarrow> approval \<Rightarrow>
   core_requirement \<Rightarrow> core_receipt \<Rightarrow> portfolio_db option \<times> (human_receipt \<times> tick_observation \<times> tick_result) exc" where
  "consume_human_authority h db v p ob a q ver = (case admit_human_authority h db p ob a of
     Inl e \<Rightarrow> (None, Inl e)
   | Inr (receipt, bound) \<Rightarrow>
       let (w, result) = resume_tick h v (to_portfolio_id ob) p (Some bound) q (Some ver) in
       (w, ebind result (\<lambda>x. Inr (receipt, bound, x))))"

section \<open>What an admitted approval says\<close>

lemma approved_rule_Inr:
  assumes "valid_policy p"
  shows "approved_rule p s e = Inr r \<longleftrightarrow> r \<in> set (tp_rules p) \<and> tr_from_state r = s \<and> tr_event r = e"
  unfolding match_transition_rule_Inr [OF assms, symmetric]
  by (auto simp: approved_rule_def split: sum.splits py_error.splits)

lemma human_receipt_same: "human_receipt_init x = Inr y \<Longrightarrow> y = x"
  unfolding human_receipt_init_def by (auto simp: ebind_eq_Inr raise_unless_eq)

lemma transition_grant_same: "transition_grant_init x = Inr y \<Longrightarrow> y = x"
  unfolding transition_grant_init_def by (auto simp: ebind_eq_Inr raise_unless_eq)

lemma tick_observation_same: "tick_observation_init x = Inr y \<Longrightarrow> y = x"
  unfolding tick_observation_init_def by (auto simp: ebind_eq_Inr raise_unless_eq)

lemma admit_human_authorityD:
  assumes "admit_human_authority h db p ob a = Inr (receipt, bound)"
  obtains s c report r b where "ap_provider_actor a = ''Waterfound''" and "to_authority_grant ob = None"
    and "recover_portfolio h db (to_portfolio_id ob) = Inr (s, Some c, report)" and "pe_state (pf_active s) = ''human_gate''"
    and "ec_authority_stop c" and "to_expected_generation ob = pf_generation s"
    and "to_expected_state_digest ob = portfolio_state_digest h s" and "to_policy_digest ob = transition_policy_digest h p"
    and "ap_approved_action_ref a = pe_next_action_ref (pf_active s)" and "approved_rule p ''human_gate'' (to_event ob) = Inr r"
    and "tr_authority_mode r = ''preauthorized_required''" and "tr_authority_boundary r = Some b"
    and "pe_authority_boundary (pf_active s) = Some b" and "receipt = approval_receipt h s p r b a"
    and "bound = ob\<lparr>to_canonical_refs := first_occurrences (to_canonical_refs ob @ [ap_authority_ref a]),
      to_authority_grant := Some (approval_grant h p r b a receipt)\<rparr>"
  using assms unfolding admit_human_authority_def
  by (auto simp: ebind_eq_Inr raise_unless_eq dest!: human_receipt_same transition_grant_same tick_observation_same split: option.splits)

lemma consumed_wrote:
  assumes "consume_human_authority h db v p ob a q ver = (Some db', r)"
  obtains receipt bound r' where "admit_human_authority h db p ob a = Inr (receipt, bound)"
    and "resume_tick h v (to_portfolio_id ob) p (Some bound) q (Some ver) = (Some db', r')"
    and "to_expected_generation bound = to_expected_generation ob"
proof -
  obtain receipt bound where admitted: "admit_human_authority h db p ob a = Inr (receipt, bound)"
    using assms by (cases "admit_human_authority h db p ob a") (auto simp: consume_human_authority_def)
  then have "to_expected_generation bound = to_expected_generation ob" by (rule admit_human_authorityD) simp
  then show ?thesis
    using assms admitted that by (cases "resume_tick h v (to_portfolio_id ob) p (Some bound) q (Some ver)") (auto simp: consume_human_authority_def)
qed

section \<open>What an accepted observation and receipt hold\<close>

definition observation_texts_ok :: "tick_observation \<Rightarrow> bool" where
  "observation_texts_ok x \<longleftrightarrow> \<not> blank (to_action_ref x) \<and> \<not> blank (to_observed_at x) \<and> \<not> blank (to_summary x) \<and>
     to_evidence x \<noteq> [] \<and> distinct (map evidence_identity (to_evidence x)) \<and> to_canonical_refs x \<noteq> [] \<and>
     (\<forall>s\<in>set (to_canonical_refs x). \<not> blank s) \<and> (\<forall>s\<in>set (to_uncertainties x). \<not> blank s) \<and> distinct (to_uncertainties x)"

lemma tick_observation_init_texts:
  assumes "tick_observation_init x = Inr y"
  shows "observation_texts_ok x"
proof -
  from assms have "\<not> blank (to_action_ref x)" "\<not> blank (to_observed_at x)" "\<not> blank (to_summary x)" "\<not> to_evidence x = []"
    "\<not> length (map evidence_identity (to_evidence x)) \<noteq> length (remdups (map evidence_identity (to_evidence x)))"
    "\<not> to_canonical_refs x = []" "\<not> list_ex blank (to_canonical_refs x)" "\<not> list_ex blank (to_uncertainties x)"
    "\<not> length (to_uncertainties x) \<noteq> length (remdups (to_uncertainties x))"
    unfolding tick_observation_init_def ebind_eq_Inr raise_unless_eq nonempty_field_Inr pyval.inject by blast+
  then show ?thesis
    using length_remdups_eq [of "map evidence_identity (to_evidence x)"] length_remdups_eq [of "to_uncertainties x"]
    by (simp add: observation_texts_ok_def list_ex_iff)
qed

lemma tick_args_texts: "observation_texts_ok x \<Longrightarrow> transition_texts_ok (tick_args h x q receipt)"
  by (auto simp: observation_texts_ok_def transition_texts_ok_def tick_args_def checkpoint_ref_def blank_iff is_space_def)

lemma human_receipt_init_ref: "human_receipt_init x = Inr y \<Longrightarrow> \<not> blank (hu_authority_ref x)"
  unfolding human_receipt_init_def ebind_eq_Inr raise_unless_eq nonempty_field_Inr pyval.inject by blast

lemma admitted_texts:
  assumes "admit_human_authority h db p ob a = Inr (receipt, bound)"
  shows "observation_texts_ok bound" and "\<not> blank (ap_authority_ref a)"
proof -
  obtain y z s r b where "human_receipt_init (approval_receipt h s p r b a) = Inr y" and observed: "tick_observation_init z = Inr bound"
    using assms unfolding admit_human_authority_def by (auto simp: ebind_eq_Inr raise_unless_eq split: option.splits)
  from human_receipt_init_ref [OF this(1)] show "\<not> blank (ap_authority_ref a)" by (simp add: approval_receipt_def)
  from tick_observation_init_texts [OF observed] tick_observation_same [OF observed] show "observation_texts_ok bound" by simp
qed

lemma approval_grant_binds: "tr_authority_boundary r = Some b \<Longrightarrow> grant_binds h p r (approval_grant h p r b a receipt)"
  by (simp add: grant_binds_def approval_grant_def)

text \<open>The transition that an admitted approval allows.\<close>

lemma approved_transition:
  assumes h: "hex_digest h" and rep: "represents h db H" and p: "valid_policy p"
    and admitted: "admit_human_authority h db p ob a = Inr (receipt, bound)" and "r \<in> set (tp_rules p)"
    and "tr_from_state r = ''human_gate''" and "tr_event r = to_event ob" and "tr_effect r \<notin> set rotating_effects"
    and "tr_to_state r \<in> set unblocked_states" and "set (tr_required_evidence r) \<subseteq> cv_kind ` set (to_evidence ob)"
    and "to_wake_admission ob = None" and "s = fst (last (H (to_portfolio_id ob)))"
  shows "\<exists>t. apply_active_transition h s p (to_event bound) (to_evidence bound) (tick_args h bound q ver) = Inr t"
    and "H (to_portfolio_id ob) \<noteq> []"
proof -
  have "\<exists>t. apply_active_transition h s p (to_event bound) (to_evidence bound) (tick_args h bound q ver) = Inr t \<and> H (to_portfolio_id ob) \<noteq> []"
    using admitted
  proof (rule admit_human_authorityD)
    fix s' c report r' b
    assume recovered: "recover_portfolio h db (to_portfolio_id ob) = Inr (s', Some c, report)" and gate: "pe_state (pf_active s') = ''human_gate''"
      and match: "approved_rule p ''human_gate'' (to_event ob) = Inr r'" and boundary: "tr_authority_boundary r' = Some b"
      and bound: "bound = ob\<lparr>to_canonical_refs := first_occurrences (to_canonical_refs ob @ [ap_authority_ref a]),
        to_authority_grant := Some (approval_grant h p r' b a receipt)\<rparr>"
    have head: "H (to_portfolio_id ob) \<noteq> []" "s' = s"
      using recovered assms(12) unfolding recover_portfolio_Inr [OF h rep] by (simp_all add: prod_eq_iff)
    have valid: "valid_portfolio s" using portfolio_history_last(3) [OF represents_history [OF rep head(1)]] assms(12) by simp
    have "approved_rule p ''human_gate'' (to_event ob) = Inr r" "matched_rule p ''human_gate'' (to_event bound) = Inr r"
      using assms(5-7) by (simp_all add: approved_rule_Inr [OF p] matched_rule_Inr [OF p] bound)
    with match have r: "r' = r" "matched_rule p ''human_gate'' (to_event bound) = Inr r" by simp_all
    have "\<exists>t. apply_active_transition h s p (to_event bound) (to_evidence bound) (tick_args h bound q ver) = Inr t"
      by (rule grant_releases [OF h valid p _ r(2) assms(8,9) tick_args_texts [OF admitted_texts(1) [OF admitted]]
            _ _ _ approval_grant_binds [OF boundary [unfolded r(1)]]])
        (use gate head(2) assms(10,11) admitted_texts [OF admitted] in \<open>simp_all add: tick_args_def bound r(1) approval_grant_def observation_texts_ok_def\<close>)
    with head(1) show ?thesis by blast
  qed
  then show "\<exists>t. apply_active_transition h s p (to_event bound) (to_evidence bound) (tick_args h bound q ver) = Inr t"
    and "H (to_portfolio_id ob) \<noteq> []" by blast+
qed

lemma approved_tick_ready:
  assumes "hex_digest h" and "represents h db H" and "admit_human_authority h db p ob a = Inr (receipt, bound)"
    and "gate_open (Some ver) q" and "\<forall>x. snd (last (H (to_portfolio_id ob))) = Some x \<longrightarrow> checkpoint_ref h bound \<notin> set (ec_canonical_refs x)"
    and "apply_active_transition h (fst (last (H (to_portfolio_id ob)))) p (to_event bound) (to_evidence bound) (tick_args h bound q ver) = Inr t"
  shows "tick_ready h (quiet db) (to_portfolio_id ob) p bound q ver (fst (last (H (to_portfolio_id ob)))) t"
  using assms(3)
proof (rule admit_human_authorityD)
  fix s c report r b
  assume recovered: "recover_portfolio h db (to_portfolio_id ob) = Inr (s, Some c, report)"
    and fresh: "to_expected_generation ob = pf_generation s" "to_expected_state_digest ob = portfolio_state_digest h s"
      "to_policy_digest ob = transition_policy_digest h p"
    and bound: "bound = ob\<lparr>to_canonical_refs := first_occurrences (to_canonical_refs ob @ [ap_authority_ref a]),
      to_authority_grant := Some (approval_grant h p r b a receipt)\<rparr>"
  have head: "H (to_portfolio_id ob) \<noteq> []" "s = fst (last (H (to_portfolio_id ob)))"
    using recovered unfolding recover_portfolio_Inr [OF assms(1,2)] by (simp_all add: prod_eq_iff)
  have "\<not> blank (to_portfolio_id ob)"
    using portfolio_history_last(3,4) [OF represents_history [OF assms(2) head(1)]] by (auto simp: valid_portfolio_def portfolio_state_ok_def)
  moreover have "already_applied h db (to_portfolio_id ob) (checkpoint_ref h bound) = Inr None"
    using assms(5) by (simp add: already_applied_Inr [OF assms(1,2) head(1)] split: option.splits)
  moreover have "to_portfolio_id bound = to_portfolio_id ob" "to_policy_digest bound = transition_policy_digest h p"
    "to_expected_generation bound = pf_generation s" "to_expected_state_digest bound = portfolio_state_digest h s"
    using fresh by (simp_all add: bound)
  ultimately show ?thesis
    using recovered assms(4,6) head(2) by (simp add: tick_ready_def)
qed

section \<open>Properties\<close>

text \<open>The portfolio that the tick of the examples has stopped, and the approval that releases it.\<close>

definition ex_stopped_portfolio :: portfolio_state where
  "ex_stopped_portfolio = transitioned_state tick_hash ex_portfolio (stopped_entry (pf_active ex_portfolio) ex_stop_rule ''b'' ex_evidence)
     (pf_secondary ex_portfolio) []"

definition ex_approval :: approval where
  "ex_approval = \<lparr>ap_event_id = ''e'', ap_approved_action_ref = ''ask'', ap_approved_at = ''t'', ap_provider_actor = ''Waterfound'',
     ap_authority_ref = ''ref''\<rparr>"

definition ex_gate_observation :: tick_observation where
  "ex_gate_observation = \<lparr>to_portfolio_id = ''p'', to_expected_generation = 1,
     to_expected_state_digest = portfolio_state_digest tick_hash ex_stopped_portfolio,
     to_policy_digest = transition_policy_digest tick_hash ex_policy, to_event = ''execution_started'', to_evidence = [ex_item ''e''],
     to_action_ref = ''a'', to_observed_at = ''t'', to_summary = ''s'', to_canonical_refs = [''c''], to_uncertainties = [],
     to_wake_admission = None, to_authority_grant = None, to_schema_version = ''ge.resume-tick-observation.v1''\<rparr>"

lemma ex_stopped_fields:
  "pe_state (pf_active ex_stopped_portfolio) = ''human_gate''" "pe_next_action_ref (pf_active ex_stopped_portfolio) = ''ask''"
  "pe_authority_boundary (pf_active ex_stopped_portfolio) = Some ''b''" "pf_generation ex_stopped_portfolio = 1"
  "pf_portfolio_id ex_stopped_portfolio = ''p''"
  by (simp_all add: ex_stopped_portfolio_def stopped_entry_def ex_stop_rule_def ex_portfolio_def)

lemma ex_stopped:
  "\<exists>db c. represents tick_hash db ((\<lambda>_. [])(''p'' := [(ex_portfolio, None), (ex_stopped_portfolio, Some c)])) \<and> ec_authority_stop c \<and>
     ec_portfolio_generation c = 1 \<and> pd_checkpoints db = [checkpoint_row_of tick_hash ''p'' ex_stopped_portfolio c] \<and>
     ec_canonical_refs c = ec_canonical_refs (transition_checkpoint tick_hash ex_portfolio ex_stop_policy ex_stop_rule ex_evidence
       (tick_args tick_hash ex_observation ex_requirement ex_receipt) ex_stopped_portfolio)"
proof -
  let ?H = "(\<lambda>_. [])(''p'' := [(ex_portfolio, None)])"
  obtain t where t: "apply_active_transition tick_hash ex_portfolio ex_stop_policy (to_event ex_observation) (to_evidence ex_observation)
      (tick_args tick_hash ex_observation ex_requirement ex_receipt) = Inr t"
    using ex_tick_transition by blast
  have ob: "to_event ex_observation = ''authority_required''" "to_evidence ex_observation = ex_evidence" by (simp_all add: ex_observation_def)
  have new: "xt_new_state t = ex_stopped_portfolio \<and> xt_checkpoint t = transition_checkpoint tick_hash ex_portfolio ex_stop_policy ex_stop_rule
      ex_evidence (tick_args tick_hash ex_observation ex_requirement ex_receipt) ex_stopped_portfolio"
  proof (rule apply_transitionD [OF t])
    fix r active secondary parked rid wd
    assume match: "matched_rule ex_stop_policy (pe_state (pf_active ex_portfolio)) (to_event ex_observation) = Inr r"
      and slots: "transition_slots tick_hash ex_portfolio ex_stop_policy r (to_evidence ex_observation)
        (tick_args tick_hash ex_observation ex_requirement ex_receipt) = Inr (active, secondary, parked, rid, wd)"
      and new: "xt_new_state t = transitioned_state tick_hash ex_portfolio active secondary parked"
        "xt_checkpoint t = transition_checkpoint tick_hash ex_portfolio ex_stop_policy r (to_evidence ex_observation)
          (tick_args tick_hash ex_observation ex_requirement ex_receipt) (xt_new_state t)"
    have r: "r = ex_stop_rule" using match ex_stop_match by (simp add: ob)
    then have effect: "tr_effect r \<notin> set rotating_effects" "tr_effect r = ''stop_human_gate''" "tr_authority_boundary r = Some ''b''"
      by (simp_all add: ex_stop_rule_def rotating_effects_def)
    have "authority_stopped_active (pf_active ex_portfolio) r ex_evidence = Inr active"
      using slots_kept(6) [OF slots effect(1)] effect(2) by (simp add: ob)
    then have "active = stopped_entry (pf_active ex_portfolio) ex_stop_rule ''b'' ex_evidence"
      using effect(3) by (auto simp: authority_stopped_Inr stopped_entry_def r)
    then have "xt_new_state t = ex_stopped_portfolio"
      using slots_kept(1,2) [OF slots effect(1)] new(1) by (simp add: ex_stopped_portfolio_def ex_portfolio_def)
    then show ?thesis using new(2) by (simp add: ob r)
  qed
  have "portfolio_history tick_hash ''p'' [(ex_portfolio, None)]"
    using represents_history [OF ex_tick_represents, of "''p''"] by simp
  moreover have "list_all checkpoint_evidence_ok (to_evidence ex_observation)" using ex_evidence_ok(1) by (simp add: ob)
  moreover have "apply_active_transition tick_hash (fst (last [(ex_portfolio, None :: execution_checkpoint option)])) ex_stop_policy
      (to_event ex_observation) (to_evidence ex_observation) (tick_args tick_hash ex_observation ex_requirement ex_receipt) = Inr t"
    using t by simp
  ultimately have hist: "portfolio_history tick_hash ''p'' ([(ex_portfolio, None)] @ [(xt_new_state t, Some (xt_checkpoint t))])"
    by (rule transition_history)
  have "represents tick_hash \<lparr>pd_heads = (pd_heads ex_tick_db)(''p'' \<mapsto> recorded_row tick_hash (xt_new_state t, Some (xt_checkpoint t))),
      pd_checkpoints = pd_checkpoints ex_tick_db @ [checkpoint_row_of tick_hash ''p'' (xt_new_state t) (xt_checkpoint t)]\<rparr>
      (?H(''p'' := ?H ''p'' @ [(xt_new_state t, Some (xt_checkpoint t))]))"
    by (rule represents_extended [OF ex_tick_represents]) (use hist in simp_all)
  then show ?thesis
    using new ex_stopped_fields(4) ex_stop_args_ok(5) by (intro exI conjI) (assumption | simp add: ex_tick_db_def)+
qed

lemma ex_approved:
  assumes "represents tick_hash db ((\<lambda>_. [])(''p'' := [(ex_portfolio, None), (ex_stopped_portfolio, Some c)]))" and "ec_authority_stop c"
  shows "\<exists>receipt bound. admit_human_authority tick_hash db ex_policy ex_gate_observation ex_approval = Inr (receipt, bound)"
proof -
  note [simp] = hex_digest.digest_ok_sha256 [OF tick_hash]
  let ?receipt = "approval_receipt tick_hash ex_stopped_portfolio ex_policy ex_rule ''b'' ex_approval"
  let ?grant = "approval_grant tick_hash ex_policy ex_rule ''b'' ex_approval ?receipt"
  let ?bound = "ex_gate_observation\<lparr>to_canonical_refs := first_occurrences (to_canonical_refs ex_gate_observation @ [ap_authority_ref ex_approval]),
     to_authority_grant := Some ?grant\<rparr>"
  have ob: "to_portfolio_id ex_gate_observation = ''p''" "to_expected_generation ex_gate_observation = 1"
    "to_expected_state_digest ex_gate_observation = portfolio_state_digest tick_hash ex_stopped_portfolio"
    "to_policy_digest ex_gate_observation = transition_policy_digest tick_hash ex_policy" "to_authority_grant ex_gate_observation = None"
    "to_event ex_gate_observation = ''execution_started''"
    by (simp_all add: ex_gate_observation_def)
  have approval: "ap_provider_actor ex_approval = ''Waterfound''" "ap_approved_action_ref ex_approval = ''ask''" by (simp_all add: ex_approval_def)
  have rule: "approved_rule ex_policy ''human_gate'' ''execution_started'' = Inr ex_rule" "tr_authority_mode ex_rule = ''preauthorized_required''"
    "tr_authority_boundary ex_rule = Some ''b''"
    unfolding approved_rule_Inr [OF ex_policy_valid] by (simp_all add: ex_policy_def ex_rule_def)
  have recovered: "recover_portfolio tick_hash db ''p'' =
      Inr (ex_stopped_portfolio, Some c, report_for tick_hash ex_stopped_portfolio (Some c))"
    by (simp add: recover_portfolio_Inr [OF tick_hash assms(1)])
  have receipt: "human_receipt_init ?receipt = Inr ?receipt"
    by (simp add: human_receipt_init_def approval_receipt_def ex_approval_def ex_stopped_fields nonempty_field_def digest_field_Inr ebind_eq_Inr
        portfolio_state_digest_def transition_policy_digest_def transition_rule_digest_def blank_iff is_space_def)
  have grant: "transition_grant_init ?grant = Inr ?grant"
    by (simp add: transition_grant_init_def approval_grant_def ex_approval_def nonempty_field_def digest_field_Inr ebind_eq_Inr
        human_receipt_digest_def transition_policy_digest_def transition_rule_digest_def blank_iff is_space_def)
  have bound: "tick_observation_init ?bound = Inr ?bound"
    by (simp add: tick_observation_init_def ex_gate_observation_def ex_approval_def first_occurrences_def nonempty_field_def digest_field_Inr
        ebind_eq_Inr portfolio_state_digest_def transition_policy_digest_def blank_iff is_space_def)
  have "admit_human_authority tick_hash db ex_policy ex_gate_observation ex_approval = Inr (?receipt, ?bound)"
    using assms(2) by (simp add: admit_human_authority_def ob approval recovered ex_stopped_fields rule receipt grant bound)
  then show ?thesis by blast
qed

text \<open>C32: What an admitted approval says: it comes from the trusted actor, the portfolio waits at the human gate with a durable
  authority stop, and the approval is for the very action that the gate waits for. The receipt and the grant bind the present
  generation and state, the policy, its rule for leaving the gate and the gate's own boundary, and the grant names the receipt;
  the observation is otherwise the given one, and the transition's own authority check accepts its grant.\<close>

theorem human_approval_is_bound:
  assumes "hex_digest h" and "represents h db H" and "valid_policy p" and "admit_human_authority h db p ob a = Inr (receipt, bound)"
  shows "\<exists>s c r g. ap_provider_actor a = ''Waterfound'' \<and> last (H (to_portfolio_id ob)) = (s, Some c) \<and>
     pe_state (pf_active s) = ''human_gate'' \<and> ec_authority_stop c \<and> ap_approved_action_ref a = pe_next_action_ref (pf_active s) \<and>
     r \<in> set (tp_rules p) \<and> tr_from_state r = ''human_gate'' \<and> tr_event r = to_event ob \<and>
     tr_authority_boundary r = pe_authority_boundary (pf_active s) \<and> to_expected_generation ob = pf_generation s \<and>
     hu_expected_generation receipt = pf_generation s \<and> hu_expected_state_digest receipt = portfolio_state_digest h s \<and>
     hu_policy_digest receipt = transition_policy_digest h p \<and> hu_rule_digest receipt = transition_rule_digest h r \<and>
     hu_approved_action_ref receipt = pe_next_action_ref (pf_active s) \<and>
     to_authority_grant ob = None \<and> to_authority_grant bound = Some g \<and> grant_binds h p r g \<and>
     tg_authority_digest g = human_receipt_digest h receipt \<and>
     bound\<lparr>to_canonical_refs := to_canonical_refs ob, to_authority_grant := None\<rparr> = ob \<and>
     verify_authority h p r (to_authority_grant bound) = Inr (Some (transition_grant_digest h g))"
  using assms(4)
proof (rule admit_human_authorityD)
  fix s c report r b
  assume actor: "ap_provider_actor a = ''Waterfound''" "to_authority_grant ob = None"
    and recovered: "recover_portfolio h db (to_portfolio_id ob) = Inr (s, Some c, report)" and gate: "pe_state (pf_active s) = ''human_gate''"
      "ec_authority_stop c" "to_expected_generation ob = pf_generation s" "ap_approved_action_ref a = pe_next_action_ref (pf_active s)"
    and match: "approved_rule p ''human_gate'' (to_event ob) = Inr r" and mode: "tr_authority_mode r = ''preauthorized_required''"
    and boundary: "tr_authority_boundary r = Some b" "pe_authority_boundary (pf_active s) = Some b"
    and receipt: "receipt = approval_receipt h s p r b a"
    and bound: "bound = ob\<lparr>to_canonical_refs := first_occurrences (to_canonical_refs ob @ [ap_authority_ref a]),
      to_authority_grant := Some (approval_grant h p r b a receipt)\<rparr>"
  let ?g = "approval_grant h p r b a receipt"
  have rule: "r \<in> set (tp_rules p)" "tr_from_state r = ''human_gate''" "tr_event r = to_event ob"
    using match by (simp_all add: approved_rule_Inr [OF assms(3)])
  then have ok: "transition_rule_ok r" using assms(3) by (simp add: valid_policy_def list_all_iff)
  have "last (H (to_portfolio_id ob)) = (s, Some c)" using recovered by (simp add: recover_portfolio_Inr [OF assms(1,2)])
  moreover have "bound\<lparr>to_canonical_refs := to_canonical_refs ob, to_authority_grant := None\<rparr> = ob"
    using actor(2) by (cases ob) (simp add: bound)
  moreover have "verify_authority h p r (to_authority_grant bound) = Inr (Some (transition_grant_digest h ?g))"
    using approval_grant_binds [OF boundary(1)] mode by (simp add: verify_authority_Inr [OF ok] bound)
  ultimately show ?thesis
    using actor gate rule boundary approval_grant_binds [OF boundary(1)]
    by (intro exI [of _ s] exI [of _ c] exI [of _ r] exI [of _ ?g]) (simp add: bound, simp add: receipt approval_receipt_def approval_grant_def)
qed

theorem human_approval_is_bound_witness:
  "\<exists>db receipt bound g. admit_human_authority tick_hash db ex_policy ex_gate_observation ex_approval = Inr (receipt, bound) \<and>
     to_authority_grant bound = Some g \<and> tg_authority_digest g = human_receipt_digest tick_hash receipt"
proof -
  obtain db c where db: "represents tick_hash db ((\<lambda>_. [])(''p'' := [(ex_portfolio, None), (ex_stopped_portfolio, Some c)]))" "ec_authority_stop c"
    using ex_stopped by blast
  then obtain receipt bound where "admit_human_authority tick_hash db ex_policy ex_gate_observation ex_approval = Inr (receipt, bound)"
    using ex_approved by blast
  with human_approval_is_bound [OF tick_hash db(1) ex_policy_valid this] show ?thesis by blast
qed

lemma approved_commits:
  assumes h: "hex_digest h" and rep: "represents h db H" and admitted: "admit_human_authority h db p ob a = Inr (receipt, bound)"
    and "list_all checkpoint_evidence_ok (to_evidence ob)" and gate: "gate_open (Some ver) q"
    and unused: "\<forall>x. snd (last (H (to_portfolio_id ob))) = Some x \<longrightarrow> checkpoint_ref h bound \<notin> set (ec_canonical_refs x)"
    and step: "apply_active_transition h (fst (last (H (to_portfolio_id ob)))) p (to_event bound) (to_evidence bound) (tick_args h bound q ver) = Inr t"
    and fresh: "checkpoint_fresh h db (xt_checkpoint t)"
    and differs: "portfolio_state_digest h (xt_new_state t) \<noteq> portfolio_state_digest h (fst (last (H (to_portfolio_id ob))))"
  shows "\<exists>db' x. consume_human_authority h db (quiet db) p ob a q ver = (Some db', Inr (receipt, bound, x)) \<and> rr_disposition x = ''committed'' \<and>
     recover_portfolio h db' (to_portfolio_id ob) = Inr (xt_new_state t, Some (xt_checkpoint t), report_for h (xt_new_state t) (Some (xt_checkpoint t)))"
proof -
  note ready = approved_tick_ready [OF h rep admitted gate unused step]
  have "to_evidence bound = to_evidence ob" using admitted by (rule admit_human_authorityD) simp
  then have "list_all checkpoint_evidence_ok (to_evidence bound)" using assms(4) by simp
  from quiet_tick_commits [OF h rep ready this fresh differs] obtain db' x
    where tick: "resume_tick h (quiet db) (to_portfolio_id ob) p (Some bound) q (Some ver) = (Some db', Inr x)"
      and rep': "represents h db' (H(to_portfolio_id ob := H (to_portfolio_id ob) @ [(xt_new_state t, Some (xt_checkpoint t))]))"
      and reported: "after_commit h db' (to_portfolio_id ob) bound (fst (last (H (to_portfolio_id ob)))) t = Inr x"
    by blast
  have "consume_human_authority h db (quiet db) p ob a q ver = (Some db', Inr (receipt, bound, x))"
    by (simp add: consume_human_authority_def admitted tick)
  with after_commit_Inr(1) [OF reported] recover_portfolio_Inr [OF h rep'] show ?thesis by auto
qed

text \<open>The example is consumed.\<close>

lemma ex_consumable:
  assumes rep: "represents tick_hash db ((\<lambda>_. [])(''p'' := [(ex_portfolio, None), (ex_stopped_portfolio, Some c)]))"
    and admitted: "admit_human_authority tick_hash db ex_policy ex_gate_observation ex_approval = Inr (receipt, bound)"
    and "pd_checkpoints db = [checkpoint_row_of tick_hash ''p'' ex_stopped_portfolio c]" and "ec_portfolio_generation c = 1"
    and step: "apply_active_transition tick_hash ex_stopped_portfolio ex_policy (to_event bound) (to_evidence bound)
      (tick_args tick_hash bound ex_requirement ex_receipt) = Inr t"
  shows "checkpoint_fresh tick_hash db (xt_checkpoint t)"
    and "collision_free tick_hash {canonical_json (portfolio_state_py (xt_new_state t)), canonical_json (portfolio_state_py ex_stopped_portfolio)}"
    and "portfolio_state_digest tick_hash (xt_new_state t) \<noteq> portfolio_state_digest tick_hash ex_stopped_portfolio"
proof -
  have gen: "pf_generation (xt_new_state t) = 2" "ec_portfolio_generation (xt_checkpoint t) = 2"
    by (rule apply_transitionD [OF step], simp add: ex_stopped_fields)+
  then show "portfolio_state_digest tick_hash (xt_new_state t) \<noteq> portfolio_state_digest tick_hash ex_stopped_portfolio"
    by (simp add: portfolio_state_digest_def sha256_digest_def ex_stopped_fields)
  show "collision_free tick_hash {canonical_json (portfolio_state_py (xt_new_state t)), canonical_json (portfolio_state_py ex_stopped_portfolio)}"
    using gen by (auto simp: collision_free_def ex_stopped_fields)
  show "checkpoint_fresh tick_hash db (xt_checkpoint t)"
    using assms(3,4) gen by (simp add: checkpoint_fresh_def checkpoint_row_of_def checkpoint_id_def execution_checkpoint_digest_def
        stable_id_def sha256_digest_def)
qed

lemma ex_rule_fields: "ex_rule \<in> set (tp_rules ex_policy)" "tr_from_state ex_rule = ''human_gate''"
  "tr_event ex_rule = to_event ex_gate_observation" "tr_effect ex_rule \<notin> set rotating_effects" "tr_to_state ex_rule \<in> set unblocked_states"
  "set (tr_required_evidence ex_rule) \<subseteq> cv_kind ` set (to_evidence ex_gate_observation)" "to_wake_admission ex_gate_observation = None"
  by (simp_all add: ex_policy_def ex_rule_def ex_gate_observation_def rotating_effects_def unblocked_states_def ex_item_def)

lemma ex_item_ok: "list_all checkpoint_evidence_ok (to_evidence ex_gate_observation)"
  using hex_digest.digest_ok_sha256 [OF zero_hash]
  by (simp add: ex_gate_observation_def ex_item_def checkpoint_evidence_ok_def blank_iff is_space_def)

lemma ex_unused:
  assumes "ec_canonical_refs c = ec_canonical_refs (transition_checkpoint tick_hash ex_portfolio ex_stop_policy ex_stop_rule ex_evidence
       (tick_args tick_hash ex_observation ex_requirement ex_receipt) ex_stopped_portfolio)"
    and "to_expected_generation bound = 1"
  shows "checkpoint_ref tick_hash bound \<notin> set (ec_canonical_refs c)"
proof -
  have "tick_observation_digest tick_hash bound \<noteq> tick_observation_digest tick_hash ex_observation"
    using assms(2) by (simp add: tick_observation_digest_def sha256_digest_def ex_observation_def)
  then show ?thesis
    by (simp add: assms(1) transition_checkpoint_def Let_def tick_args_def checkpoint_ref_def ex_observation_def)
qed

text \<open>C33: An approval is consumed at most once: after one has been consumed by a tick that wrote to the portfolio, no approval for an
  observation of the same or an earlier generation, in particular not the same approval presented again, ever writes anything,
  whatever other processes did in between.\<close>

theorem human_approval_is_consumed_once:
  assumes "hex_digest h" and "represents h (tv_commit v) H" and "consume_human_authority h db v p ob a q ver = (Some db1, r)"
    and "(portfolio_step h)\<^sup>*\<^sup>* db1 (tv_commit v')" and "to_portfolio_id ob' = to_portfolio_id ob"
    and "to_expected_generation ob' \<le> to_expected_generation ob"
  shows "fst (consume_human_authority h db' v' p' ob' a' q' ver') = None"
proof (rule ccontr)
  assume "fst (consume_human_authority h db' v' p' ob' a' q' ver') \<noteq> None"
  then obtain db2 r2 where again: "consume_human_authority h db' v' p' ob' a' q' ver' = (Some db2, r2)"
    by (cases "consume_human_authority h db' v' p' ob' a' q' ver'") auto
  obtain bound r1 where first: "resume_tick h v (to_portfolio_id ob) p (Some bound) q (Some ver) = (Some db1, r1)"
    "to_expected_generation bound = to_expected_generation ob"
    using assms(3) by (rule consumed_wrote)
  obtain bound' r2' where second: "resume_tick h v' (to_portfolio_id ob) p' (Some bound') q' (Some ver') = (Some db2, r2')"
    "to_expected_generation bound' = to_expected_generation ob'"
    using again assms(5) by (auto elim: consumed_wrote)
  have "fst (resume_tick h v' (to_portfolio_id ob) p' (Some bound') q' (Some ver')) = None"
    by (rule generation_used_up [OF assms(1,2) first(1) assms(4)]) (use first(2) second(2) assms(6) in simp)
  then show False using second(1) by simp
qed

text \<open>C34: An admitted approval opens the gate: when the policy's rule moves the active item on to a state that needs no blocker and the
  observation carries the evidence that the rule asks for, the transition with the approval's grant exists, takes the active
  item to that state and records the approval's authority there; on a quiet database consuming the approval commits it (unless digests
  collide or the checkpoint or the observation has been recorded before), and it is what a restart recovers.\<close>

theorem human_approval_opens_gate:
  assumes "hex_digest h" and "represents h db H" and "valid_policy p" and "admit_human_authority h db p ob a = Inr (receipt, bound)"
    and "r \<in> set (tp_rules p)" and "tr_from_state r = ''human_gate''" and "tr_event r = to_event ob" and "tr_effect r \<notin> set rotating_effects"
    and "tr_to_state r \<in> set unblocked_states" and "set (tr_required_evidence r) \<subseteq> cv_kind ` set (to_evidence ob)"
    and "to_wake_admission ob = None" and "list_all checkpoint_evidence_ok (to_evidence ob)" and "gate_open (Some ver) q"
    and "\<forall>x. snd (last (H (to_portfolio_id ob))) = Some x \<longrightarrow> checkpoint_ref h bound \<notin> set (ec_canonical_refs x)"
  shows "\<exists>t. (let s = fst (last (H (to_portfolio_id ob))); new = xt_new_state t in
     apply_active_transition h s p (to_event bound) (to_evidence bound) (tick_args h bound q ver) = Inr t \<and>
     pe_state (pf_active new) = tr_to_state r \<and> pe_authority_ref (pf_active new) = Some (ap_authority_ref a) \<and>
     (checkpoint_fresh h db (xt_checkpoint t) \<and> collision_free h {canonical_json (portfolio_state_py new), canonical_json (portfolio_state_py s)} \<longrightarrow>
      (\<exists>db' x. consume_human_authority h db (quiet db) p ob a q ver = (Some db', Inr (receipt, bound, x)) \<and> rr_disposition x = ''committed'' \<and>
        recover_portfolio h db' (to_portfolio_id ob) = Inr (new, Some (xt_checkpoint t), report_for h new (Some (xt_checkpoint t))))))"
proof -
  let ?s = "fst (last (H (to_portfolio_id ob)))"
  obtain t where step: "apply_active_transition h ?s p (to_event bound) (to_evidence bound) (tick_args h bound q ver) = Inr t"
    using approved_transition(1) [OF assms(1-11) refl] by blast
  have moved: "pe_state (pf_active (xt_new_state t)) = tr_to_state r \<and> pe_authority_ref (pf_active (xt_new_state t)) = Some (ap_authority_ref a) \<and>
      pf_generation (xt_new_state t) \<noteq> pf_generation ?s"
  proof (rule admit_human_authorityD [OF assms(4)], rule apply_transitionD [OF step])
    fix s c report r' b r2 active secondary parked rid wd
    assume recovered: "recover_portfolio h db (to_portfolio_id ob) = Inr (s, Some c, report)" and gate: "pe_state (pf_active s) = ''human_gate''"
      and bound: "bound = ob\<lparr>to_canonical_refs := first_occurrences (to_canonical_refs ob @ [ap_authority_ref a]),
        to_authority_grant := Some (approval_grant h p r' b a receipt)\<rparr>"
      and match: "matched_rule p (pe_state (pf_active ?s)) (to_event bound) = Inr r2"
      and slots: "transition_slots h ?s p r2 (to_evidence bound) (tick_args h bound q ver) = Inr (active, secondary, parked, rid, wd)"
      and new: "xt_new_state t = transitioned_state h ?s active secondary parked"
    have s: "s = ?s" using recovered by (simp add: recover_portfolio_Inr [OF assms(1,2)] prod_eq_iff)
    have "matched_rule p ''human_gate'' (to_event bound) = Inr r" using assms(5-7) by (simp add: matched_rule_Inr [OF assms(3)] bound)
    then have r: "r2 = r" using match gate s by simp
    have "transition_rule_ok r" using assms(3,5) by (simp add: valid_policy_def list_all_iff)
    then have "tr_effect r \<noteq> ''stop_human_gate''" using rule_authority(2,4) [of r] assms(6) by auto
    then have moved: "moved_active (pf_active ?s) r (ta_authority_grant (tick_args h bound q ver)) = Inr active"
      using slots_kept(6) [OF slots] assms(8) by (simp add: r)
    from moved_active_Inr(4) [OF this] moved_active_Inr(7) [OF this] gate s show ?thesis
      by (auto simp: new tick_args_def bound approval_grant_def)
  qed
  have "portfolio_state_digest h (xt_new_state t) \<noteq> portfolio_state_digest h ?s"
    if "collision_free h {canonical_json (portfolio_state_py (xt_new_state t)), canonical_json (portfolio_state_py ?s)}"
    unfolding portfolio_state_digest_def portfolio_state.digest_inject [OF that] using moved by auto
  then show ?thesis
    unfolding Let_def using step moved approved_commits [OF assms(1,2,4,12-14) step] by blast
qed

text \<open>Both are exercised by the approval of the example.\<close>

definition ex_admitted_at :: "portfolio_db \<Rightarrow> portfolio_histories \<Rightarrow> human_receipt \<Rightarrow> tick_observation \<Rightarrow> bool" where
  "ex_admitted_at db H receipt bound \<longleftrightarrow> represents tick_hash db H \<and> fst (last (H ''p'')) = ex_stopped_portfolio \<and>
     admit_human_authority tick_hash db ex_policy ex_gate_observation ex_approval = Inr (receipt, bound) \<and>
     (\<forall>x. snd (last (H ''p'')) = Some x \<longrightarrow> checkpoint_ref tick_hash bound \<notin> set (ec_canonical_refs x)) \<and>
     (\<forall>t. apply_active_transition tick_hash ex_stopped_portfolio ex_policy (to_event bound) (to_evidence bound)
        (tick_args tick_hash bound ex_requirement ex_receipt) = Inr t \<longrightarrow> checkpoint_fresh tick_hash db (xt_checkpoint t) \<and>
        collision_free tick_hash {canonical_json (portfolio_state_py (xt_new_state t)), canonical_json (portfolio_state_py ex_stopped_portfolio)} \<and>
        portfolio_state_digest tick_hash (xt_new_state t) \<noteq> portfolio_state_digest tick_hash ex_stopped_portfolio)"

lemma ex_consumed: "\<exists>db H receipt bound. ex_admitted_at db H receipt bound"
proof -
  obtain db c where db: "represents tick_hash db ((\<lambda>_. [])(''p'' := [(ex_portfolio, None), (ex_stopped_portfolio, Some c)]))"
    "ec_authority_stop c" "ec_portfolio_generation c = 1" "pd_checkpoints db = [checkpoint_row_of tick_hash ''p'' ex_stopped_portfolio c]"
    "ec_canonical_refs c = ec_canonical_refs (transition_checkpoint tick_hash ex_portfolio ex_stop_policy ex_stop_rule ex_evidence
       (tick_args tick_hash ex_observation ex_requirement ex_receipt) ex_stopped_portfolio)"
    using ex_stopped by (elim exE conjE)
  obtain receipt bound where admitted: "admit_human_authority tick_hash db ex_policy ex_gate_observation ex_approval = Inr (receipt, bound)"
    using ex_approved [OF db(1,2)] by blast
  then have "to_expected_generation bound = 1"
    by (rule admit_human_authorityD) (simp add: ex_gate_observation_def)
  then have unused: "checkpoint_ref tick_hash bound \<notin> set (ec_canonical_refs c)" by (rule ex_unused [OF db(5)])
  have "ex_admitted_at db ((\<lambda>_. [])(''p'' := [(ex_portfolio, None), (ex_stopped_portfolio, Some c)])) receipt bound"
    unfolding ex_admitted_at_def using db(1) admitted unused ex_consumable [OF db(1) admitted db(4,3)]
    by (intro conjI allI impI) simp_all
  then show ?thesis by blast
qed

theorem human_approval_opens_gate_witness:
  "\<exists>db db' receipt bound x. consume_human_authority tick_hash db (quiet db) ex_policy ex_gate_observation ex_approval ex_requirement ex_receipt =
     (Some db', Inr (receipt, bound, x)) \<and> rr_disposition x = ''committed''"
proof -
  obtain db H receipt bound where "ex_admitted_at db H receipt bound" using ex_consumed by blast
  note ex = this [unfolded ex_admitted_at_def]
  have pid: "to_portfolio_id ex_gate_observation = ''p''" by (simp add: ex_gate_observation_def)
  note opens = human_approval_opens_gate [OF tick_hash ex [THEN conjunct1] ex_policy_valid _ ex_rule_fields ex_item_ok ex_gate_open, of ex_approval receipt bound,
    unfolded pid Let_def]
  obtain t where "apply_active_transition tick_hash ex_stopped_portfolio ex_policy (to_event bound) (to_evidence bound)
      (tick_args tick_hash bound ex_requirement ex_receipt) = Inr t"
    and "checkpoint_fresh tick_hash db (xt_checkpoint t) \<and>
      collision_free tick_hash {canonical_json (portfolio_state_py (xt_new_state t)), canonical_json (portfolio_state_py ex_stopped_portfolio)} \<longrightarrow>
      (\<exists>db' x. consume_human_authority tick_hash db (quiet db) ex_policy ex_gate_observation ex_approval ex_requirement ex_receipt =
         (Some db', Inr (receipt, bound, x)) \<and> rr_disposition x = ''committed'')"
    using opens ex by metis
  with ex show ?thesis by blast
qed

theorem human_approval_is_consumed_once_witness:
  "\<exists>db db' r. consume_human_authority tick_hash db (quiet db) ex_policy ex_gate_observation ex_approval ex_requirement ex_receipt = (Some db', r) \<and>
     fst (consume_human_authority tick_hash db' (quiet db') ex_policy ex_gate_observation ex_approval ex_requirement ex_receipt) = None"
proof -
  obtain db H receipt bound where "ex_admitted_at db H receipt bound" using ex_consumed by blast
  note ex = this [unfolded ex_admitted_at_def]
  have pid: "to_portfolio_id ex_gate_observation = ''p''" by (simp add: ex_gate_observation_def)
  have admitted: "admit_human_authority tick_hash db ex_policy ex_gate_observation ex_approval = Inr (receipt, bound)"
    and rep: "represents tick_hash db H" using ex by blast+
  have head: "fst (last (H (to_portfolio_id ex_gate_observation))) = ex_stopped_portfolio"
    "\<forall>x. snd (last (H (to_portfolio_id ex_gate_observation))) = Some x \<longrightarrow> checkpoint_ref tick_hash bound \<notin> set (ec_canonical_refs x)"
    using ex unfolding pid by blast+
  obtain t where t: "apply_active_transition tick_hash (fst (last (H (to_portfolio_id ex_gate_observation)))) ex_policy (to_event bound)
      (to_evidence bound) (tick_args tick_hash bound ex_requirement ex_receipt) = Inr t"
    using approved_transition(1) [OF tick_hash rep ex_policy_valid admitted ex_rule_fields refl] by blast
  then have "checkpoint_fresh tick_hash db (xt_checkpoint t)"
    "portfolio_state_digest tick_hash (xt_new_state t) \<noteq> portfolio_state_digest tick_hash (fst (last (H (to_portfolio_id ex_gate_observation))))"
    using ex unfolding head(1) by blast+
  from approved_commits [OF tick_hash rep admitted ex_item_ok ex_gate_open head(2) t this] obtain db' x
    where consumed: "consume_human_authority tick_hash db (quiet db) ex_policy ex_gate_observation ex_approval ex_requirement ex_receipt =
      (Some db', Inr (receipt, bound, x))" by blast
  have "fst (consume_human_authority tick_hash db' (quiet db') ex_policy ex_gate_observation ex_approval ex_requirement ex_receipt) = None"
    by (rule human_approval_is_consumed_once [OF tick_hash _ consumed, where H = H]) (simp_all add: rep)
  with consumed show ?thesis by blast
qed

end
