(* ===== verification/Reconciliation.thy ===== *)
theory Reconciliation
  imports Observed Field_Checks
begin

text \<open>
  Provider reconciliation (\<open>reconciliation.py\<close>): what to do about a dispatch whose submission is unknown, given what
  the provider reports about the invocation. The lemmas say what a query, an evidence and a decision bind; the properties
  say what is decided, and that the same invocation is submitted again only on proven absence under a fresh live permit.
\<close>

section \<open>Contracts\<close>

record reconciliation_contract =
  kc_provider :: string
  kc_adapter :: string
  kc_adapter_version :: string
  kc_idempotency_key :: string
  kc_lookup_by_invocation :: bool
  kc_request_digest_bound :: bool
  kc_same_key_same_request :: string
  kc_same_key_different_request :: string
  kc_terminal_evidence_lookup :: bool
  kc_schema_version :: string

definition reconciliation_contract_py :: "reconciliation_contract \<Rightarrow> pyval" where
  "reconciliation_contract_py x = PDict [
    (''provider'', PStr (kc_provider x)),
    (''adapter'', PStr (kc_adapter x)),
    (''adapter_version'', PStr (kc_adapter_version x)),
    (''idempotency_key'', PStr (kc_idempotency_key x)),
    (''lookup_by_invocation'', PBool (kc_lookup_by_invocation x)),
    (''request_digest_bound'', PBool (kc_request_digest_bound x)),
    (''same_key_same_request'', PStr (kc_same_key_same_request x)),
    (''same_key_different_request'', PStr (kc_same_key_different_request x)),
    (''terminal_evidence_lookup'', PBool (kc_terminal_evidence_lookup x)),
    (''schema_version'', PStr (kc_schema_version x))]"

definition same_request_semantics :: "string list" where
  "same_request_semantics = [''same_operation'', ''duplicate_rejected'', ''may_duplicate'']"

definition reconciliation_contract_init :: "reconciliation_contract \<Rightarrow> reconciliation_contract exc" where
  "reconciliation_contract_init x =
     ebind (eall (\<lambda>(n, v). check_nonempty n v) [(''provider'', kc_provider x), (''adapter'', kc_adapter x), (''adapter_version'', kc_adapter_version x)]) (\<lambda>_.
     if kc_idempotency_key x \<noteq> ''invocation_id''
     then Inl (ValueError ''v0.0.7 reconciliation requires invocation_id as idempotency key'')
     else if kc_same_key_same_request x \<notin> set same_request_semantics
     then Inl (ValueError ''unsupported same-key/same-request semantics'')
     else if kc_same_key_different_request x \<noteq> ''reject''
     then Inl (ValueError ''same idempotency key with a different request must be rejected'')
     else Inr x)"

definition reconciliation_capable :: "reconciliation_contract \<Rightarrow> bool" where
  "reconciliation_capable x \<longleftrightarrow> kc_lookup_by_invocation x \<and> kc_request_digest_bound x"

definition safe_idempotent_resubmission :: "reconciliation_contract \<Rightarrow> bool" where
  "safe_idempotent_resubmission x \<longleftrightarrow> reconciliation_capable x
     \<and> kc_same_key_same_request x \<in> set [''same_operation'', ''duplicate_rejected'']
     \<and> kc_same_key_different_request x = ''reject''"

definition reconciliation_contract_id :: "hash \<Rightarrow> reconciliation_contract \<Rightarrow> string" where
  "reconciliation_contract_id h x = stable_id h ''geprc'' (reconciliation_contract_py x)"

definition reconciliation_contract_digest :: "hash \<Rightarrow> reconciliation_contract \<Rightarrow> string" where
  "reconciliation_contract_digest h x = sha256_digest h (reconciliation_contract_py x)"

section \<open>Queries, observations and evidence\<close>

record reconciliation_query =
  kq_intent_id :: string
  kq_dispatch_state_digest :: string
  kq_dispatch_permit_digest :: string
  kq_authorization_id :: string
  kq_authorization_digest :: string
  kq_invocation_id :: string
  kq_request_digest :: string
  kq_physical_attempt :: int
  kq_runner_id :: string
  kq_provider :: string
  kq_adapter :: string
  kq_adapter_version :: string
  kq_contract_digest :: string
  kq_schema_version :: string

definition reconciliation_query_py :: "reconciliation_query \<Rightarrow> pyval" where
  "reconciliation_query_py x = PDict [
    (''intent_id'', PStr (kq_intent_id x)),
    (''dispatch_state_digest'', PStr (kq_dispatch_state_digest x)),
    (''dispatch_permit_digest'', PStr (kq_dispatch_permit_digest x)),
    (''authorization_id'', PStr (kq_authorization_id x)),
    (''authorization_digest'', PStr (kq_authorization_digest x)),
    (''invocation_id'', PStr (kq_invocation_id x)),
    (''request_digest'', PStr (kq_request_digest x)),
    (''physical_attempt'', PInt (kq_physical_attempt x)),
    (''runner_id'', PStr (kq_runner_id x)),
    (''provider'', PStr (kq_provider x)),
    (''adapter'', PStr (kq_adapter x)),
    (''adapter_version'', PStr (kq_adapter_version x)),
    (''contract_digest'', PStr (kq_contract_digest x)),
    (''schema_version'', PStr (kq_schema_version x))]"

definition reconciliation_query_init :: "reconciliation_query \<Rightarrow> reconciliation_query exc" where
  "reconciliation_query_init x =
     (if kq_physical_attempt x < 1 then Inl (ValueError ''physical_attempt must be >= 1'')
      else ebind (eall (\<lambda>(n, v). check_nonempty n v)
        [(''intent_id'', kq_intent_id x), (''dispatch_state_digest'', kq_dispatch_state_digest x),
        (''dispatch_permit_digest'', kq_dispatch_permit_digest x),
        (''authorization_id'', kq_authorization_id x), (''authorization_digest'', kq_authorization_digest x),
        (''invocation_id'', kq_invocation_id x), (''request_digest'', kq_request_digest x),
        (''runner_id'', kq_runner_id x), (''provider'', kq_provider x), (''adapter'', kq_adapter x),
        (''adapter_version'', kq_adapter_version x), (''contract_digest'', kq_contract_digest x)]) (\<lambda>_. Inr x))"

definition reconciliation_query_id :: "hash \<Rightarrow> reconciliation_query \<Rightarrow> string" where
  "reconciliation_query_id h x = stable_id h ''geprq'' (reconciliation_query_py x)"

definition reconciliation_query_digest :: "hash \<Rightarrow> reconciliation_query \<Rightarrow> string" where
  "reconciliation_query_digest h x = sha256_digest h (reconciliation_query_py x)"

record reconciliation_observation =
  ko_query_digest :: string
  ko_invocation_id :: string
  ko_request_digest :: string
  ko_provider :: string
  ko_adapter :: string
  ko_adapter_version :: string
  ko_status :: string
  ko_evidence_digest :: string
  ko_provider_invocation_id :: "string option"
  ko_terminal_evidence_digest :: "string option"
  ko_schema_version :: string

definition reconciliation_observation_py :: "reconciliation_observation \<Rightarrow> pyval" where
  "reconciliation_observation_py x = PDict [
    (''query_digest'', PStr (ko_query_digest x)),
    (''invocation_id'', PStr (ko_invocation_id x)),
    (''request_digest'', PStr (ko_request_digest x)),
    (''provider'', PStr (ko_provider x)),
    (''adapter'', PStr (ko_adapter x)),
    (''adapter_version'', PStr (ko_adapter_version x)),
    (''status'', PStr (ko_status x)),
    (''evidence_digest'', PStr (ko_evidence_digest x)),
    (''provider_invocation_id'', py_opt PStr (ko_provider_invocation_id x)),
    (''terminal_evidence_digest'', py_opt PStr (ko_terminal_evidence_digest x)),
    (''schema_version'', PStr (ko_schema_version x))]"

definition reconciliation_observation_init :: "reconciliation_observation \<Rightarrow> reconciliation_observation exc" where
  "reconciliation_observation_init x =
     ebind (eall (\<lambda>(n, v). check_nonempty n v)
        [(''query_digest'', ko_query_digest x), (''invocation_id'', ko_invocation_id x),
        (''request_digest'', ko_request_digest x), (''provider'', ko_provider x), (''adapter'', ko_adapter x),
        (''adapter_version'', ko_adapter_version x), (''evidence_digest'', ko_evidence_digest x)]) (\<lambda>_.
     ebind (digest_field ValueError ''evidence_digest'' (PStr (ko_evidence_digest x))) (\<lambda>_.
     ebind (optional_digest ValueError ''terminal_evidence_digest'' (py_opt PStr (ko_terminal_evidence_digest x))) (\<lambda>_.
     if ko_status x = ''absent'' then
       (if ko_provider_invocation_id x \<noteq> None \<or> ko_terminal_evidence_digest x \<noteq> None
        then Inl (ValueError ''absent observation cannot claim provider invocation or terminal evidence'') else Inr x)
     else if ko_status x = ''accepted'' then
       (if empty_opt (ko_provider_invocation_id x) \<or> ko_terminal_evidence_digest x \<noteq> None
        then Inl (ValueError ''accepted observation requires provider invocation and no terminal evidence'') else Inr x)
     else if ko_status x = ''terminal'' then
       (if empty_opt (ko_provider_invocation_id x)
        then Inl (ValueError ''terminal observation requires provider invocation identity'') else Inr x)
     else if ko_status x = ''unknown'' then
       (if ko_terminal_evidence_digest x \<noteq> None
        then Inl (ValueError ''unknown observation cannot claim terminal evidence'') else Inr x)
     else Inl (ValueError ''unsupported reconciliation status''))))"

definition reconciliation_observation_digest :: "hash \<Rightarrow> reconciliation_observation \<Rightarrow> string" where
  "reconciliation_observation_digest h x = sha256_digest h (reconciliation_observation_py x)"

record reconciliation_evidence =
  kv_query :: reconciliation_query
  kv_observation :: reconciliation_observation
  kv_contract_digest :: string
  kv_schema_version :: string

definition reconciliation_evidence_py :: "reconciliation_evidence \<Rightarrow> pyval" where
  "reconciliation_evidence_py x = PDict [
    (''query'', reconciliation_query_py (kv_query x)),
    (''observation'', reconciliation_observation_py (kv_observation x)),
    (''contract_digest'', PStr (kv_contract_digest x)),
    (''schema_version'', PStr (kv_schema_version x))]"

definition reconciliation_evidence_digest :: "hash \<Rightarrow> reconciliation_evidence \<Rightarrow> string" where
  "reconciliation_evidence_digest h x = sha256_digest h (reconciliation_evidence_py x)"

section \<open>Decisions\<close>

record reconciliation_decision =
  kd_intent_id :: string
  kd_dispatch_state_digest :: string
  kd_invocation_id :: string
  kd_request_digest :: string
  kd_evidence_digest :: string
  kd_contract_digest :: string
  kd_status :: string
  kd_action :: string
  kd_resubmit_authorized :: bool
  kd_requires_fresh_live_permit :: bool
  kd_live_permit_digest :: "string option"
  kd_reason :: string
  kd_schema_version :: string

definition reconciliation_decision_py :: "reconciliation_decision \<Rightarrow> pyval" where
  "reconciliation_decision_py x = PDict [
    (''intent_id'', PStr (kd_intent_id x)),
    (''dispatch_state_digest'', PStr (kd_dispatch_state_digest x)),
    (''invocation_id'', PStr (kd_invocation_id x)),
    (''request_digest'', PStr (kd_request_digest x)),
    (''evidence_digest'', PStr (kd_evidence_digest x)),
    (''contract_digest'', PStr (kd_contract_digest x)),
    (''status'', PStr (kd_status x)),
    (''action'', PStr (kd_action x)),
    (''resubmit_authorized'', PBool (kd_resubmit_authorized x)),
    (''requires_fresh_live_permit'', PBool (kd_requires_fresh_live_permit x)),
    (''live_permit_digest'', py_opt PStr (kd_live_permit_digest x)),
    (''reason'', PStr (kd_reason x)),
    (''schema_version'', PStr (kd_schema_version x))]"

definition reconciliation_decision_init :: "reconciliation_decision \<Rightarrow> reconciliation_decision exc" where
  "reconciliation_decision_init x =
     ebind (eall (\<lambda>(n, v). check_nonempty n v)
        [(''intent_id'', kd_intent_id x), (''dispatch_state_digest'', kd_dispatch_state_digest x),
        (''invocation_id'', kd_invocation_id x), (''request_digest'', kd_request_digest x),
        (''evidence_digest'', kd_evidence_digest x), (''contract_digest'', kd_contract_digest x)]) (\<lambda>_.
     if kd_action x = ''resubmit_same_invocation'' \<and>
        (\<not> kd_resubmit_authorized x \<or> \<not> kd_requires_fresh_live_permit x \<or> empty_opt (kd_live_permit_digest x))
     then Inl (ValueError ''resubmit decision requires explicit authorization and fresh live permit'')
     else if kd_action x \<noteq> ''resubmit_same_invocation'' \<and> (kd_resubmit_authorized x \<or> kd_live_permit_digest x \<noteq> None)
     then Inl (ValueError ''non-resubmit decision cannot authorize transport'')
     else if strip (kd_reason x) = [] then Inl (ValueError ''reconciliation decision reason must be non-empty'')
     else Inr x)"

definition reconciliation_decision_id :: "hash \<Rightarrow> reconciliation_decision \<Rightarrow> string" where
  "reconciliation_decision_id h x = stable_id h ''geprd'' (reconciliation_decision_py x)"

definition reconciliation_decision_digest :: "hash \<Rightarrow> reconciliation_decision \<Rightarrow> string" where
  "reconciliation_decision_digest h x = sha256_digest h (reconciliation_decision_py x)"

section \<open>Operations\<close>

definition verify_authorization_binding :: "hash \<Rightarrow> dispatch_state \<Rightarrow> physical_authorization \<Rightarrow> bool" where
  "verify_authorization_binding h s a \<longleftrightarrow> (let i = ds_intent s; r = pa_request a in
     authorization_id h a = di_authorization_id i \<and> authorization_digest h a = di_authorization_digest i \<and>
     aq_invocation_id r = di_invocation_id i \<and> request_digest h r = di_request_digest i \<and>
     aq_runner_id r = di_runner_id i \<and> aq_runner_capability_digest r = di_runner_capability_digest i \<and>
     aq_session_id r = di_session_id i \<and> aq_attempt r = di_logical_attempt i \<and>
     pa_physical_attempt a = di_physical_attempt i)"

definition reconciliation_query_for :: "hash \<Rightarrow> dispatch_state \<Rightarrow> dispatch_permit \<Rightarrow> physical_authorization \<Rightarrow>
   reconciliation_contract \<Rightarrow> reconciliation_query" where
  "reconciliation_query_for h s p a c = (let r = pa_request a in
     \<lparr>kq_intent_id = intent_id h (ds_intent s), kq_dispatch_state_digest = dispatch_digest h s,
      kq_dispatch_permit_digest = permit_digest h p, kq_authorization_id = authorization_id h a,
      kq_authorization_digest = authorization_digest h a, kq_invocation_id = aq_invocation_id r,
      kq_request_digest = request_digest h r, kq_physical_attempt = pa_physical_attempt a, kq_runner_id = aq_runner_id r,
      kq_provider = aq_provider r, kq_adapter = aq_adapter r, kq_adapter_version = aq_adapter_version r,
      kq_contract_digest = reconciliation_contract_digest h c, kq_schema_version = ''ge.provider-reconciliation-query.v1''\<rparr>)"

definition create_reconciliation_query :: "hash \<Rightarrow> dispatch_state \<Rightarrow> dispatch_permit \<Rightarrow> physical_authorization \<Rightarrow>
   reconciliation_contract \<Rightarrow> reconciliation_query exc" where
  "create_reconciliation_query h s p a c =
     (if ds_status s \<noteq> ''submission_unknown''
      then Inl (ReconciliationError ''reconciliation requires submission_unknown durable state'')
      else ebind (verify_dispatch_permit h s p) (\<lambda>ok.
      if \<not> ok then Inl (ReconciliationError ''durable dispatch permit does not reproduce'')
      else if \<not> verify_authorization_binding h s a
      then Inl (ReconciliationError ''physical authorization does not reproduce dispatch intent'')
      else let r = pa_request a in
      if kc_provider c \<noteq> aq_provider r \<or> kc_adapter c \<noteq> aq_adapter r \<or> kc_adapter_version c \<noteq> aq_adapter_version r
      then Inl (ReconciliationError ''provider reconciliation contract does not match physical authorization'')
      else if \<not> reconciliation_capable c
      then Inl (ReconciliationError ''provider contract cannot reconcile by invocation identity'')
      else reconciliation_query_init (reconciliation_query_for h s p a c)))"

definition admit_reconciliation_observation :: "hash \<Rightarrow> reconciliation_query \<Rightarrow> reconciliation_contract \<Rightarrow>
   reconciliation_observation \<Rightarrow> reconciliation_evidence exc" where
  "admit_reconciliation_observation h q c ob =
     (if kq_contract_digest q \<noteq> reconciliation_contract_digest h c
      then Inl (ReconciliationError ''reconciliation query contract binding mismatch'')
      else if ko_query_digest ob \<noteq> reconciliation_query_digest h q
      then Inl (ReconciliationError ''provider reconciliation observation query binding mismatch'')
      else if ko_invocation_id ob \<noteq> kq_invocation_id q \<or> ko_request_digest ob \<noteq> kq_request_digest q
        \<or> ko_provider ob \<noteq> kq_provider q \<or> ko_adapter ob \<noteq> kq_adapter q \<or> ko_adapter_version ob \<noteq> kq_adapter_version q
      then Inl (ReconciliationError ''provider reconciliation observation identity mismatch'')
      else if ko_status ob = ''terminal'' \<and> kc_terminal_evidence_lookup c \<and> ko_terminal_evidence_digest ob = None
      then Inl (ReconciliationError ''provider contract requires retrievable terminal evidence'')
      else if ko_status ob = ''terminal'' \<and> \<not> kc_terminal_evidence_lookup c \<and> ko_terminal_evidence_digest ob \<noteq> None
      then Inl (ReconciliationError ''provider contract does not support terminal evidence lookup'')
      else Inr \<lparr>kv_query = q, kv_observation = ob, kv_contract_digest = reconciliation_contract_digest h c,
        kv_schema_version = ''ge.provider-reconciliation-evidence.v1''\<rparr>)"

definition decision_of :: "hash \<Rightarrow> dispatch_state \<Rightarrow> reconciliation_evidence \<Rightarrow> reconciliation_contract \<Rightarrow>
   string \<Rightarrow> string \<Rightarrow> bool \<Rightarrow> bool \<Rightarrow> string option \<Rightarrow> string \<Rightarrow> reconciliation_decision" where
  "decision_of h s e c status action authorized fresh permit reason =
     \<lparr>kd_intent_id = intent_id h (ds_intent s), kd_dispatch_state_digest = dispatch_digest h s,
      kd_invocation_id = di_invocation_id (ds_intent s), kd_request_digest = di_request_digest (ds_intent s),
      kd_evidence_digest = reconciliation_evidence_digest h e, kd_contract_digest = reconciliation_contract_digest h c,
      kd_status = status, kd_action = action, kd_resubmit_authorized = authorized, kd_requires_fresh_live_permit = fresh,
      kd_live_permit_digest = permit, kd_reason = reason, kd_schema_version = ''ge.provider-reconciliation-decision.v1''\<rparr>"

definition make_decision :: "hash \<Rightarrow> dispatch_state \<Rightarrow> reconciliation_evidence \<Rightarrow> reconciliation_contract \<Rightarrow>
   string \<Rightarrow> string \<Rightarrow> bool \<Rightarrow> bool \<Rightarrow> string option \<Rightarrow> string \<Rightarrow> reconciliation_decision exc" where
  "make_decision h s e c status action authorized fresh permit reason =
     reconciliation_decision_init (decision_of h s e c status action authorized fresh permit reason)"

text \<open>The keyword arguments \<open>live_permit\<close>, \<open>capacity_store\<close> and \<open>runner\<close> default to \<open>None\<close>.\<close>

definition decide_reconciliation :: "hash \<Rightarrow> dispatch_state \<Rightarrow> dispatch_permit \<Rightarrow> physical_authorization \<Rightarrow>
   reconciliation_contract \<Rightarrow> reconciliation_evidence \<Rightarrow> live_permit option \<Rightarrow> head_store option \<Rightarrow> runner_capabilities option \<Rightarrow>
   reconciliation_decision exc" where
  "decide_reconciliation h s p a c e live heads runner =
     ebind (create_reconciliation_query h s p a c) (\<lambda>q.
     ebind (admit_reconciliation_observation h q c (kv_observation e)) (\<lambda>expected.
     if e \<noteq> expected
     then Inl (ReconciliationError ''reconciliation evidence does not belong to current query and contract'')
     else let status = ko_status (kv_observation e) in
     if status = ''absent'' then
       (if \<not> safe_idempotent_resubmission c
        then make_decision h s e c ''absent'' ''hold'' False True None
          ''provider absence is insufficient without strong idempotent resubmission semantics''
        else case (live, heads, runner) of
          (Some lp, Some hs, Some rc) \<Rightarrow>
            ebind (verify_live_dispatch_permit h s p lp hs rc) (\<lambda>ok.
            if \<not> ok then Inl (ReconciliationError ''live dispatch permit is stale or invalid'')
            else make_decision h s e c ''absent'' ''resubmit_same_invocation'' True True (Some (live_permit_digest h lp))
              ''provider proved absence and same invocation is protected by strong idempotency'')
        | _ \<Rightarrow> Inl (ReconciliationError ''safe resubmission requires a fresh live dispatch permit''))
     else if status = ''accepted''
     then make_decision h s e c ''accepted'' ''poll_existing'' False False None
       ''provider already recognizes the invocation; poll the existing operation''
     else if status = ''terminal'' then
       (if kc_terminal_evidence_lookup c
        then make_decision h s e c ''terminal'' ''admit_terminal_evidence'' False False None
          ''provider returned terminal evidence for admission''
        else make_decision h s e c ''terminal'' ''hold'' False False None
          ''provider reports terminal state but contract cannot retrieve admissible terminal evidence'')
     else make_decision h s e c ''unknown'' ''hold'' False False None
       ''provider state remains unknown; preserve ambiguity and do not resubmit blindly''))"

section \<open>What a query and an evidence bind\<close>

lemma reconciliation_query_same: "reconciliation_query_init x = Inr y \<Longrightarrow> y = x"
  by (auto simp: reconciliation_query_init_def ebind_eq_Inr split: if_splits)

lemma create_reconciliation_query_Inr:
  "create_reconciliation_query h s p a c = Inr q \<longleftrightarrow>
     ds_status s = ''submission_unknown'' \<and> p = permit_of h s \<and> verify_authorization_binding h s a \<and>
     kc_provider c = aq_provider (pa_request a) \<and> kc_adapter c = aq_adapter (pa_request a) \<and>
     kc_adapter_version c = aq_adapter_version (pa_request a) \<and> reconciliation_capable c \<and>
     q = reconciliation_query_for h s p a c \<and> reconciliation_query_init q = Inr q"
  unfolding create_reconciliation_query_def Let_def verify_permit_eq ebind_Inr raise_unless_eq
  by (rule iffI, (elim conjE, frule reconciliation_query_same, simp), (elim conjE, simp))

lemma created_query:
  assumes "create_reconciliation_query h s p a c = Inr q"
  shows "\<not> blank (intent_id h (ds_intent s))" "\<not> blank (di_invocation_id (ds_intent s))" "\<not> blank (di_request_digest (ds_intent s))"
    and "aq_invocation_id (pa_request a) = di_invocation_id (ds_intent s)" "request_digest h (pa_request a) = di_request_digest (ds_intent s)"
    and "kq_invocation_id q = di_invocation_id (ds_intent s)" "kq_request_digest q = di_request_digest (ds_intent s)"
proof -
  have q: "q = reconciliation_query_for h s p a c" "reconciliation_query_init q = Inr q" "verify_authorization_binding h s a"
    using assms unfolding create_reconciliation_query_Inr by blast+
  show bound: "aq_invocation_id (pa_request a) = di_invocation_id (ds_intent s)" "request_digest h (pa_request a) = di_request_digest (ds_intent s)"
    using q(3) by (simp_all add: verify_authorization_binding_def Let_def)
  then show ids: "kq_invocation_id q = di_invocation_id (ds_intent s)" "kq_request_digest q = di_request_digest (ds_intent s)"
    by (simp_all add: q(1) reconciliation_query_for_def Let_def)
  have "\<not> blank (kq_intent_id q)" "\<not> blank (kq_invocation_id q)" "\<not> blank (kq_request_digest q)"
    using q(2) by (simp_all add: reconciliation_query_init_def ebind_eq_Inr check_nonempty_Inr split: if_splits)
  then show "\<not> blank (intent_id h (ds_intent s))" "\<not> blank (di_invocation_id (ds_intent s))" "\<not> blank (di_request_digest (ds_intent s))"
    unfolding ids by (simp_all add: q(1) reconciliation_query_for_def Let_def)
qed

lemma admit_reconciliation_Inr:
  "admit_reconciliation_observation h q c ob = Inr e \<longleftrightarrow>
     kq_contract_digest q = reconciliation_contract_digest h c \<and> ko_query_digest ob = reconciliation_query_digest h q \<and>
     ko_invocation_id ob = kq_invocation_id q \<and> ko_request_digest ob = kq_request_digest q \<and> ko_provider ob = kq_provider q \<and>
     ko_adapter ob = kq_adapter q \<and> ko_adapter_version ob = kq_adapter_version q \<and>
     (ko_status ob = ''terminal'' \<longrightarrow> (kc_terminal_evidence_lookup c \<longleftrightarrow> ko_terminal_evidence_digest ob \<noteq> None)) \<and>
     e = \<lparr>kv_query = q, kv_observation = ob, kv_contract_digest = reconciliation_contract_digest h c,
        kv_schema_version = ''ge.provider-reconciliation-evidence.v1''\<rparr>"
  by (auto simp: admit_reconciliation_observation_def)

section \<open>What is decided\<close>

lemma strip_not_empty: "s \<noteq> [] \<Longrightarrow> \<not> is_space (hd s) \<Longrightarrow> strip s \<noteq> []"
  by (cases s) (auto simp: strip_Nil_iff)

lemma reconciliation_decision_same: "reconciliation_decision_init x = Inr y \<Longrightarrow> y = x"
  unfolding reconciliation_decision_init_def by (auto simp: ebind_eq_Inr raise_unless_eq)

lemma make_decision_ok:
  assumes "create_reconciliation_query h s p a c = Inr q" and "reason \<noteq> []" and "\<not> is_space (hd reason)"
    and "action = ''resubmit_same_invocation'' \<longleftrightarrow> authorized" and "authorized \<longleftrightarrow> permit \<noteq> None"
    and "authorized \<longrightarrow> fresh \<and> \<not> empty_opt permit"
  shows "make_decision h s e c status action authorized fresh permit reason = Inr (decision_of h s e c status action authorized fresh permit reason)"
  using created_query(1-3) [OF assms(1)] strip_not_empty [OF assms(2,3)] assms(4-6)
  by (auto simp: make_decision_def reconciliation_decision_init_def decision_of_def check_nonempty_def dispatch_digest_def
      reconciliation_evidence_digest_def reconciliation_contract_digest_def)

text \<open>The table of actions.\<close>

definition reconciliation_action :: "reconciliation_contract \<Rightarrow> string \<Rightarrow> string" where
  "reconciliation_action c status =
     (if status = ''absent'' then (if safe_idempotent_resubmission c then ''resubmit_same_invocation'' else ''hold'')
      else if status = ''accepted'' then ''poll_existing''
      else if status = ''terminal'' \<and> kc_terminal_evidence_lookup c then ''admit_terminal_evidence'' else ''hold'')"

lemma decide_reconciliation_refused:
  assumes "decide_reconciliation h s p a c e live heads runner = Inr d"
  obtains q where "create_reconciliation_query h s p a c = Inr q" and "admit_reconciliation_observation h q c (kv_observation e) = Inr e"
  using assms that by (auto simp: decide_reconciliation_def ebind_eq_Inr raise_unless_eq)

lemma decide_not_resubmit:
  assumes "create_reconciliation_query h s p a c = Inr q" and "admit_reconciliation_observation h q c (kv_observation e) = Inr e"
    and "reconciliation_action c (ko_status (kv_observation e)) \<noteq> ''resubmit_same_invocation''"
  shows "\<exists>d. decide_reconciliation h s p a c e live heads runner = Inr d \<and> kd_action d = reconciliation_action c (ko_status (kv_observation e)) \<and>
     \<not> kd_resubmit_authorized d"
  using assms(3) unfolding decide_reconciliation_def assms(1,2) ebind_Inr Let_def
  by (auto simp: reconciliation_action_def make_decision_ok [OF assms(1)] is_space_def decision_of_def split: if_splits)

lemma decide_resubmit:
  assumes "create_reconciliation_query h s p a c = Inr q" and "admit_reconciliation_observation h q c (kv_observation e) = Inr e"
    and "reconciliation_action c (ko_status (kv_observation e)) = ''resubmit_same_invocation''"
  shows "decide_reconciliation h s p a c e live heads runner = Inr d \<longleftrightarrow> (\<exists>lp hs rc. live = Some lp \<and> heads = Some hs \<and> runner = Some rc \<and>
     authorize_live_dispatch h s p hs rc = Inr lp \<and>
     d = decision_of h s e c ''absent'' ''resubmit_same_invocation'' True True (Some (live_permit_digest h lp))
       ''provider proved absence and same invocation is protected by strong idempotency'')"
proof -
  have absent: "ko_status (kv_observation e) = ''absent''" "safe_idempotent_resubmission c"
    using assms(3) by (simp_all add: reconciliation_action_def split: if_splits)
  have made: "make_decision h s e c ''absent'' ''resubmit_same_invocation'' True True (Some (live_permit_digest h lp))
      ''provider proved absence and same invocation is protected by strong idempotency'' =
    Inr (decision_of h s e c ''absent'' ''resubmit_same_invocation'' True True (Some (live_permit_digest h lp))
      ''provider proved absence and same invocation is protected by strong idempotency'')" for lp
    by (rule make_decision_ok [OF assms(1)]) (simp_all add: is_space_def empty_opt_def live_permit_digest_def)
  show ?thesis
    unfolding decide_reconciliation_def assms(1,2) ebind_Inr Let_def absent
    by (auto simp: absent(2) made ebind_eq_Inr verify_live_True split: option.splits)
qed

section \<open>Properties\<close>

definition ex_contract :: reconciliation_contract where
  "ex_contract = \<lparr>kc_provider = ''reference-provider'', kc_adapter = ''reference-adapter'', kc_adapter_version = ''1'',
     kc_idempotency_key = ''invocation_id'', kc_lookup_by_invocation = True, kc_request_digest_bound = True,
     kc_same_key_same_request = ''same_operation'', kc_same_key_different_request = ''reject'', kc_terminal_evidence_lookup = True,
     kc_schema_version = ''ge.provider-reconciliation-contract.v1''\<rparr>"

definition ex_query :: "hash \<Rightarrow> reconciliation_query" where
  "ex_query h = reconciliation_query_for h (ex_unknown h) (permit_of h (ex_unknown h)) (ex_authorization h) ex_contract"

definition ex_absence :: "hash \<Rightarrow> reconciliation_evidence" where
  "ex_absence h = \<lparr>kv_query = ex_query h, kv_observation = \<lparr>ko_query_digest = reconciliation_query_digest h (ex_query h),
       ko_invocation_id = kq_invocation_id (ex_query h), ko_request_digest = kq_request_digest (ex_query h),
       ko_provider = kq_provider (ex_query h), ko_adapter = kq_adapter (ex_query h), ko_adapter_version = kq_adapter_version (ex_query h),
       ko_status = ''absent'', ko_evidence_digest = sha256_digest h PNone, ko_provider_invocation_id = None,
       ko_terminal_evidence_digest = None, ko_schema_version = ''ge.provider-reconciliation-observation.v1''\<rparr>,
     kv_contract_digest = reconciliation_contract_digest h ex_contract,
     kv_schema_version = ''ge.provider-reconciliation-evidence.v1''\<rparr>"

definition ex_live_permit :: "hash \<Rightarrow> live_permit" where
  "ex_live_permit h = live_permit_of h (ex_unknown h) (permit_of h (ex_unknown h)) ex_runner (ex_reserved h)
     (stored_head h (ex_reserved h)) (ex_lease h)"

lemma ex_request_fields:
  "pa_request (ex_authorization h) = ex_request h" "pa_physical_attempt (ex_authorization h) = 1"
  "aq_invocation_id (ex_request h) = ''gei-1''" "aq_runner_id (ex_request h) = ''r1''" "aq_provider (ex_request h) = ''reference-provider''"
  "aq_adapter (ex_request h) = ''reference-adapter''" "aq_adapter_version (ex_request h) = ''1''"
  "aq_runner_capability_digest (ex_request h) = runner_digest h ex_runner" "aq_session_id (ex_request h) = session_id h (ex_running h)"
  "aq_attempt (ex_request h) = 1"
  by (simp_all add: ex_authorization_def ex_request_def)

lemma ex_contract_safe: "safe_idempotent_resubmission ex_contract" "reconciliation_capable ex_contract"
  "reconciliation_contract_init ex_contract = Inr ex_contract"
  by (simp_all add: safe_idempotent_resubmission_def reconciliation_capable_def reconciliation_contract_init_def same_request_semantics_def
      check_nonempty_def blank_iff is_space_def ex_contract_def)

lemma ex_query: "create_reconciliation_query h (ex_unknown h) (permit_of h (ex_unknown h)) (ex_authorization h) ex_contract = Inr (ex_query h)"
proof -
  have bound: "verify_authorization_binding h (ex_unknown h) (ex_authorization h)"
    by (simp add: verify_authorization_binding_def ex_unknown(3) ex_intent_fields ex_request_fields)
  have "kc_provider ex_contract = ''reference-provider''" "kc_adapter ex_contract = ''reference-adapter''" "kc_adapter_version ex_contract = ''1''"
    by (simp_all add: ex_contract_def)
  moreover have "reconciliation_query_init (ex_query h) = Inr (ex_query h)"
    by (simp add: reconciliation_query_init_def ex_query_def reconciliation_query_for_def Let_def ex_request_fields check_nonempty_def
        intent_id_def dispatch_digest_def permit_digest_def authorization_id_def authorization_digest_def request_digest_def
        reconciliation_contract_digest_def) (simp add: blank_iff is_space_def)
  ultimately show ?thesis
    using bound unfolding create_reconciliation_query_Inr by (simp add: ex_unknown(2) ex_contract_safe(2) ex_request_fields ex_query_def)
qed

lemma ex_absence: "admit_reconciliation_observation h (ex_query h) ex_contract (kv_observation (ex_absence h)) = Inr (ex_absence h)"
  by (simp add: admit_reconciliation_Inr ex_absence_def) (simp add: ex_query_def reconciliation_query_for_def Let_def)

definition ex_decision :: "hash \<Rightarrow> reconciliation_decision" where
  "ex_decision h = decision_of h (ex_unknown h) (ex_absence h) ex_contract ''absent'' ''resubmit_same_invocation'' True True
     (Some (live_permit_digest h (ex_live_permit h))) ''provider proved absence and same invocation is protected by strong idempotency''"

lemma ex_decision: "decide_reconciliation h (ex_unknown h) (permit_of h (ex_unknown h)) (ex_authorization h) ex_contract (ex_absence h)
   (Some (ex_live_permit h)) (Some (ex_reserved_heads h)) (Some ex_runner) = Inr (ex_decision h)"
proof -
  have "reconciliation_action ex_contract (ko_status (kv_observation (ex_absence h))) = ''resubmit_same_invocation''"
    by (simp add: reconciliation_action_def ex_contract_safe ex_absence_def)
  from decide_resubmit [OF ex_query ex_absence this] show ?thesis
    using ex_live by (simp add: ex_decision_def ex_live_permit_def)
qed

text \<open>C35: What is decided: for a query that can be made and an observation that is admitted for it, the action is the one
  of the table (resubmit the same invocation on absence under a strongly idempotent contract, poll an accepted invocation,
  admit retrievable terminal evidence, otherwise hold), transport is authorised exactly when the action is to resubmit, and
  a decision is refused in one case only: when it would be to resubmit and no live permit is given that the given capacity
  heads grant now.\<close>

theorem reconciliation_is_decided:
  assumes "create_reconciliation_query h s p a c = Inr q" and "admit_reconciliation_observation h q c ob = Inr e"
  shows "((\<exists>d. decide_reconciliation h s p a c e live heads runner = Inr d) \<longleftrightarrow>
      reconciliation_action c (ko_status ob) \<noteq> ''resubmit_same_invocation'' \<or>
      (\<exists>lp hs rc. live = Some lp \<and> heads = Some hs \<and> runner = Some rc \<and> authorize_live_dispatch h s p hs rc = Inr lp)) \<and>
    (\<forall>d. decide_reconciliation h s p a c e live heads runner = Inr d \<longrightarrow>
      kd_action d = reconciliation_action c (ko_status ob) \<and>
      (kd_resubmit_authorized d \<longleftrightarrow> kd_action d = ''resubmit_same_invocation''))"
proof -
  have ob: "kv_observation e = ob" using assms(2) by (simp add: admit_reconciliation_Inr)
  show ?thesis
  proof (cases "reconciliation_action c (ko_status ob) = ''resubmit_same_invocation''")
    case True
    from decide_resubmit [OF assms(1) assms(2) [folded ob] True [folded ob]] True show ?thesis
      by (auto simp: decision_of_def)
  next
    case False
    from decide_not_resubmit [OF assms(1) assms(2) [folded ob] False [folded ob]] False show ?thesis
      by (metis Inr_inject ob)
  qed
qed

theorem reconciliation_is_decided_witness:
  "\<exists>d. decide_reconciliation zero_hash (ex_unknown zero_hash) (permit_of zero_hash (ex_unknown zero_hash)) (ex_authorization zero_hash)
     ex_contract (ex_absence zero_hash) (Some (ex_live_permit zero_hash)) (Some (ex_reserved_heads zero_hash)) (Some ex_runner) = Inr d \<and>
     kd_action d = ''resubmit_same_invocation'' \<and> kd_resubmit_authorized d"
proof -
  have "reconciliation_action ex_contract (ko_status (kv_observation (ex_absence zero_hash))) = ''resubmit_same_invocation''"
    by (simp add: reconciliation_action_def ex_contract_safe ex_absence_def)
  with reconciliation_is_decided [OF ex_query ex_absence] ex_decision show ?thesis by metis
qed

text \<open>C36: A dispatch is submitted again only when its durable state is submission_unknown, the permit and the physical
  authorization are the ones of its intent, the provider proved that it does not know this very invocation and request, the
  contract rejects or coalesces a second submission under the same key, and the capacity heads given now hold the intent's
  lease as active. The decision authorises nothing but the intent's own invocation and request.\<close>

theorem resubmission_needs_proven_absence:
  assumes "decide_reconciliation h s p a c e live heads runner = Inr d" and "kd_resubmit_authorized d"
  shows "\<exists>lp hs rc capacity head l. ds_status s = ''submission_unknown'' \<and> p = permit_of h s \<and>
    authorization_digest h a = di_authorization_digest (ds_intent s) \<and>
    ko_status (kv_observation e) = ''absent'' \<and> ko_invocation_id (kv_observation e) = di_invocation_id (ds_intent s) \<and>
    ko_request_digest (kv_observation e) = di_request_digest (ds_intent s) \<and>
    kc_same_key_same_request c \<in> {''same_operation'', ''duplicate_rejected''} \<and> kc_same_key_different_request c = ''reject'' \<and>
    kd_action d = ''resubmit_same_invocation'' \<and> kd_invocation_id d = aq_invocation_id (pa_request a) \<and>
    kd_request_digest d = request_digest h (pa_request a) \<and>
    live = Some lp \<and> heads = Some hs \<and> runner = Some rc \<and> kd_live_permit_digest d = Some (live_permit_digest h lp) \<and>
    head_load h hs rc = Inr (capacity, head) \<and> l \<in> set (active_leases h capacity) \<and>
    lease_id h l = di_lease_id (ds_intent s) \<and> cl_invocation_id l = kd_invocation_id d"
proof (rule decide_reconciliation_refused [OF assms(1)])
  fix q assume q: "create_reconciliation_query h s p a c = Inr q" "admit_reconciliation_observation h q c (kv_observation e) = Inr e"
  have action: "reconciliation_action c (ko_status (kv_observation e)) = ''resubmit_same_invocation''"
    using decide_not_resubmit [OF q, of live heads runner] assms by auto
  obtain lp hs rc where d: "live = Some lp" "heads = Some hs" "runner = Some rc" "authorize_live_dispatch h s p hs rc = Inr lp"
      "d = decision_of h s e c ''absent'' ''resubmit_same_invocation'' True True (Some (live_permit_digest h lp))
        ''provider proved absence and same invocation is protected by strong idempotency''"
    using assms(1) unfolding decide_resubmit [OF q action] by blast
  then obtain capacity head l where l: "load_active_bound_lease h s p hs rc = Inr (capacity, head, l)"
    by (auto simp: authorize_live_Inr)
  then have "l \<in> set (filter (\<lambda>l. lease_id h l = di_lease_id (ds_intent s) \<and> lease_digest h l = di_lease_digest (ds_intent s)) (active_leases h capacity))"
    by (simp add: load_active_bound_lease_Inr)
  then have "l \<in> set (active_leases h capacity)" "lease_id h l = di_lease_id (ds_intent s)" by simp_all
  moreover have "head_load h hs rc = Inr (capacity, head)" "cl_invocation_id l = di_invocation_id (ds_intent s)"
      "ds_status s = ''submission_unknown''" "p = permit_of h s"
    using l by (simp_all add: load_active_bound_lease_Inr lease_of_intent_def)
  moreover have "authorization_digest h a = di_authorization_digest (ds_intent s)"
    using q(1) by (simp add: create_reconciliation_query_Inr verify_authorization_binding_def Let_def)
  moreover have "ko_status (kv_observation e) = ''absent''" "kc_same_key_same_request c \<in> {''same_operation'', ''duplicate_rejected''}"
      "kc_same_key_different_request c = ''reject''"
    using action by (simp_all add: reconciliation_action_def safe_idempotent_resubmission_def split: if_splits)
  moreover have "ko_invocation_id (kv_observation e) = di_invocation_id (ds_intent s)" "ko_request_digest (kv_observation e) = di_request_digest (ds_intent s)"
    using q(2) created_query(6,7) [OF q(1)] by (simp_all add: admit_reconciliation_Inr)
  ultimately show ?thesis
    using d created_query(4,5) [OF q(1)] by (simp add: decision_of_def) blast
qed

theorem resubmission_needs_proven_absence_witness:
  "kd_invocation_id (ex_decision zero_hash) = aq_invocation_id (pa_request (ex_authorization zero_hash)) \<and>
   ko_status (kv_observation (ex_absence zero_hash)) = ''absent''"
  using resubmission_needs_proven_absence [OF ex_decision [of zero_hash]] by (auto simp: ex_decision_def decision_of_def)

end
