(* ===== verification/Conformance.thy ===== *)
theory Conformance
  imports Reconciliation
begin

text \<open>
  Provider conformance (\<open>conformance.py\<close>): the results of the conformance cases are attested for a contract and an
  adapter revision, and a decision to submit an invocation again becomes a permit only under a production-equivalent
  attestation that certifies safe resubmission. The lemmas say when a contract is certified and a permit is given.
\<close>

section \<open>Checks\<close>

definition lower_digest :: "string \<Rightarrow> string \<Rightarrow> unit exc" where
  "lower_digest name v =
     (if \<not> (startswith v ''sha256:'' \<and> length v = 71 \<and> list_all is_lower_hex (drop 7 v))
      then Inl (ValueError (name @ '' must be sha256:<64-lowercase-hex>'')) else Inr ())"

definition revision_check :: "string \<Rightarrow> string \<Rightarrow> unit exc" where
  "revision_check name v =
     (if \<not> ((length v = 40 \<or> length v = 64) \<and> list_all is_lower_hex v)
      then Inl (ValueError (name @ '' must be an immutable 40- or 64-hex revision'')) else Inr ())"

definition mandatory_cases :: "string list" where
  "mandatory_cases = [''same_request_semantics'', ''different_request_rejection'', ''lookup_identity_binding'', ''absence_semantics'']"

definition allowed_cases :: "string list" where
  "allowed_cases = mandatory_cases @ [''terminal_evidence_binding'']"

definition environment_scopes :: "string list" where
  "environment_scopes = [''sandbox'', ''production_equivalent'']"

definition suite_version :: string where
  "suite_version = ''ge.provider-reconciliation-conformance.v1''"

section \<open>Case results and evidence\<close>

record conformance_case =
  nc_case_id :: string
  nc_passed :: bool
  nc_evidence_digest :: string
  nc_detail :: string
  nc_schema_version :: string

definition conformance_case_py :: "conformance_case \<Rightarrow> pyval" where
  "conformance_case_py x = PDict [
    (''case_id'', PStr (nc_case_id x)),
    (''passed'', PBool (nc_passed x)),
    (''evidence_digest'', PStr (nc_evidence_digest x)),
    (''detail'', PStr (nc_detail x)),
    (''schema_version'', PStr (nc_schema_version x))]"

definition conformance_case_init :: "conformance_case \<Rightarrow> conformance_case exc" where
  "conformance_case_init x =
     (if nc_case_id x \<notin> set allowed_cases then Inl (ValueError ''unsupported provider conformance case'')
      else ebind (lower_digest ''evidence_digest'' (nc_evidence_digest x)) (\<lambda>_. Inr x))"

definition conformance_case_digest :: "hash \<Rightarrow> conformance_case \<Rightarrow> string" where
  "conformance_case_digest h x = sha256_digest h (conformance_case_py x)"

record conformance_evidence =
  ne_contract_digest :: string
  ne_adapter_revision :: string
  ne_environment_scope :: string
  ne_cases :: "conformance_case list"
  ne_suite_version :: string
  ne_schema_version :: string

definition conformance_evidence_py :: "conformance_evidence \<Rightarrow> pyval" where
  "conformance_evidence_py x = PDict [
    (''contract_digest'', PStr (ne_contract_digest x)),
    (''adapter_revision'', PStr (ne_adapter_revision x)),
    (''environment_scope'', PStr (ne_environment_scope x)),
    (''cases'', PTuple (map conformance_case_py (ne_cases x))),
    (''suite_version'', PStr (ne_suite_version x)),
    (''schema_version'', PStr (ne_schema_version x))]"

definition conformance_evidence_init :: "conformance_evidence \<Rightarrow> conformance_evidence exc" where
  "conformance_evidence_init x =
     ebind (lower_digest ''contract_digest'' (ne_contract_digest x)) (\<lambda>_.
     ebind (revision_check ''adapter_revision'' (ne_adapter_revision x)) (\<lambda>_.
     if ne_environment_scope x \<notin> set environment_scopes then Inl (ValueError ''unsupported conformance environment scope'')
     else if ne_suite_version x \<noteq> suite_version then Inl (ValueError ''unsupported provider conformance suite version'')
     else let ids = map nc_case_id (ne_cases x) in
     if length ids \<noteq> length (remdups ids) then Inl (ValueError ''provider conformance cases must be unique'')
     else if list_ex (\<lambda>k. k \<notin> set allowed_cases) ids
     then Inl (ValueError ''provider conformance evidence contains unknown case'')
     else Inr x))"

definition conformance_evidence_digest :: "hash \<Rightarrow> conformance_evidence \<Rightarrow> string" where
  "conformance_evidence_digest h x = sha256_digest h (conformance_evidence_py x)"

section \<open>Attestations\<close>

record contract_attestation =
  na_contract_digest :: string
  na_adapter_revision :: string
  na_conformance_evidence_digest :: string
  na_environment_scope :: string
  na_passed_cases :: "string list"
  na_failed_cases :: "string list"
  na_contract_conformant :: bool
  na_safe_resubmission_certified :: bool
  na_terminal_evidence_certified :: bool
  na_authority :: string
  na_suite_version :: string
  na_schema_version :: string

definition contract_attestation_py :: "contract_attestation \<Rightarrow> pyval" where
  "contract_attestation_py x = PDict [
    (''contract_digest'', PStr (na_contract_digest x)),
    (''adapter_revision'', PStr (na_adapter_revision x)),
    (''conformance_evidence_digest'', PStr (na_conformance_evidence_digest x)),
    (''environment_scope'', PStr (na_environment_scope x)),
    (''passed_cases'', py_strs (na_passed_cases x)),
    (''failed_cases'', py_strs (na_failed_cases x)),
    (''contract_conformant'', PBool (na_contract_conformant x)),
    (''safe_resubmission_certified'', PBool (na_safe_resubmission_certified x)),
    (''terminal_evidence_certified'', PBool (na_terminal_evidence_certified x)),
    (''authority'', PStr (na_authority x)),
    (''suite_version'', PStr (na_suite_version x)),
    (''schema_version'', PStr (na_schema_version x))]"

definition contract_attestation_init :: "contract_attestation \<Rightarrow> contract_attestation exc" where
  "contract_attestation_init x =
     ebind (lower_digest ''contract_digest'' (na_contract_digest x)) (\<lambda>_.
     ebind (lower_digest ''conformance_evidence_digest'' (na_conformance_evidence_digest x)) (\<lambda>_.
     ebind (revision_check ''adapter_revision'' (na_adapter_revision x)) (\<lambda>_.
     if na_environment_scope x \<notin> set environment_scopes then Inl (ValueError ''unsupported attestation environment scope'')
     else if na_authority x \<noteq> ''NONE''
     then Inl (ValueError ''provider conformance attestation cannot create project authority'')
     else if na_suite_version x \<noteq> suite_version then Inl (ValueError ''unsupported attestation suite version'')
     else let passed = set (na_passed_cases x); failed = set (na_failed_cases x) in
     if passed \<inter> failed \<noteq> {} then Inl (ValueError ''conformance case cannot be both passed and failed'')
     else if \<not> passed \<union> failed \<subseteq> set allowed_cases then Inl (ValueError ''attestation contains unknown conformance case'')
     else if length (na_passed_cases x) \<noteq> card passed \<or> length (na_failed_cases x) \<noteq> card failed
     then Inl (ValueError ''attestation conformance cases must be unique'')
     else if na_contract_conformant x \<and> na_failed_cases x \<noteq> []
     then Inl (ValueError ''conformant attestation cannot contain failed required cases'')
     else if na_safe_resubmission_certified x \<and> (\<not> na_contract_conformant x \<or> na_environment_scope x \<noteq> ''production_equivalent'')
     then Inl (ValueError ''safe resubmission certification requires production-equivalent conformance'')
     else if na_terminal_evidence_certified x \<and> na_environment_scope x \<noteq> ''production_equivalent''
     then Inl (ValueError ''terminal evidence certification requires production-equivalent conformance'')
     else Inr x)))"

definition contract_attestation_id :: "hash \<Rightarrow> contract_attestation \<Rightarrow> string" where
  "contract_attestation_id h x = stable_id h ''gepca'' (contract_attestation_py x)"

definition contract_attestation_digest :: "hash \<Rightarrow> contract_attestation \<Rightarrow> string" where
  "contract_attestation_digest h x = sha256_digest h (contract_attestation_py x)"

text \<open>A dictionary comprehension: of several cases with one identifier the last counts.\<close>

definition case_map :: "conformance_evidence \<Rightarrow> string \<Rightarrow> conformance_case option" where
  "case_map e = map_of (rev (map (\<lambda>x. (nc_case_id x, x)) (ne_cases e)))"

definition required_cases :: "reconciliation_contract \<Rightarrow> string list" where
  "required_cases c = mandatory_cases @ (if kc_terminal_evidence_lookup c then [''terminal_evidence_binding''] else [])"

definition attestation_for :: "hash \<Rightarrow> reconciliation_contract \<Rightarrow> conformance_evidence \<Rightarrow> contract_attestation" where
  "attestation_for h c e = (let
     cases = case_map e;
     considered = sort (required_cases c);
     passed = filter (\<lambda>k. nc_passed (the (cases k))) considered;
     failed = filter (\<lambda>k. \<not> nc_passed (the (cases k))) considered;
     conformant = (failed = []);
     production_equivalent = (ne_environment_scope e = ''production_equivalent'') in
     \<lparr>na_contract_digest = reconciliation_contract_digest h c, na_adapter_revision = ne_adapter_revision e,
      na_conformance_evidence_digest = conformance_evidence_digest h e, na_environment_scope = ne_environment_scope e,
      na_passed_cases = passed, na_failed_cases = failed, na_contract_conformant = conformant,
      na_safe_resubmission_certified = (conformant \<and> production_equivalent \<and> safe_idempotent_resubmission c),
      na_terminal_evidence_certified = (kc_terminal_evidence_lookup c \<and> production_equivalent \<and>
        nc_passed (the (cases ''terminal_evidence_binding''))),
      na_authority = ''NONE'', na_suite_version = suite_version, na_schema_version = ''ge.provider-contract-attestation.v1''\<rparr>)"

definition attest_provider_contract :: "hash \<Rightarrow> reconciliation_contract \<Rightarrow> conformance_evidence \<Rightarrow> contract_attestation exc" where
  "attest_provider_contract h c e =
     (if ne_contract_digest e \<noteq> reconciliation_contract_digest h c
      then Inl (ConformanceError ''conformance evidence contract digest mismatch'')
      else let missing = sort (filter (\<lambda>k. case_map e k = None) (required_cases c)) in
      if missing \<noteq> [] then Inl (ConformanceError (''missing required conformance cases: '' @ join_comma missing))
      else contract_attestation_init (attestation_for h c e))"

definition verify_provider_attestation :: "hash \<Rightarrow> reconciliation_contract \<Rightarrow> conformance_evidence \<Rightarrow> contract_attestation \<Rightarrow>
   string \<Rightarrow> bool \<Rightarrow> bool exc" where
  "verify_provider_attestation h c e at revision require_safe =
     handle is_value_error False
       (ebind (revision_check ''adapter_revision'' revision) (\<lambda>_.
        ebind (attest_provider_contract h c e) (\<lambda>expected.
        Inr (ne_adapter_revision e = revision \<and> at = expected \<and> (require_safe \<longrightarrow> na_safe_resubmission_certified at)))))"

section \<open>Resubmission permits\<close>

record resubmission_permit =
  np_decision_digest :: string
  np_reconciliation_evidence_digest :: string
  np_contract_digest :: string
  np_attestation_digest :: string
  np_conformance_evidence_digest :: string
  np_live_permit_digest :: string
  np_adapter_revision :: string
  np_invocation_id :: string
  np_request_digest :: string
  np_authority :: string
  np_new_physical_attempt_authorized :: bool
  np_schema_version :: string

definition resubmission_permit_py :: "resubmission_permit \<Rightarrow> pyval" where
  "resubmission_permit_py x = PDict [
    (''decision_digest'', PStr (np_decision_digest x)),
    (''reconciliation_evidence_digest'', PStr (np_reconciliation_evidence_digest x)),
    (''contract_digest'', PStr (np_contract_digest x)),
    (''attestation_digest'', PStr (np_attestation_digest x)),
    (''conformance_evidence_digest'', PStr (np_conformance_evidence_digest x)),
    (''live_permit_digest'', PStr (np_live_permit_digest x)),
    (''adapter_revision'', PStr (np_adapter_revision x)),
    (''invocation_id'', PStr (np_invocation_id x)),
    (''request_digest'', PStr (np_request_digest x)),
    (''authority'', PStr (np_authority x)),
    (''new_physical_attempt_authorized'', PBool (np_new_physical_attempt_authorized x)),
    (''schema_version'', PStr (np_schema_version x))]"

definition resubmission_permit_init :: "resubmission_permit \<Rightarrow> resubmission_permit exc" where
  "resubmission_permit_init x =
     ebind (eall (\<lambda>(n, v). lower_digest n v) [
        (''decision_digest'', np_decision_digest x),
        (''reconciliation_evidence_digest'', np_reconciliation_evidence_digest x),
        (''contract_digest'', np_contract_digest x),
        (''attestation_digest'', np_attestation_digest x),
        (''conformance_evidence_digest'', np_conformance_evidence_digest x),
        (''live_permit_digest'', np_live_permit_digest x),
        (''request_digest'', np_request_digest x)]) (\<lambda>_.
     ebind (revision_check ''adapter_revision'' (np_adapter_revision x)) (\<lambda>_.
     ebind (check_nonempty ''invocation_id'' (np_invocation_id x)) (\<lambda>_.
     if np_authority x \<noteq> ''IDEMPOTENT_RESUBMIT_ONLY''
     then Inl (ValueError ''attested permit authority is limited to same-invocation idempotent resubmission'')
     else if np_new_physical_attempt_authorized x
     then Inl (ValueError ''attested resubmission cannot authorize a new physical attempt'')
     else Inr x)))"

definition resubmission_permit_id :: "hash \<Rightarrow> resubmission_permit \<Rightarrow> string" where
  "resubmission_permit_id h x = stable_id h ''gearp'' (resubmission_permit_py x)"

definition resubmission_permit_digest :: "hash \<Rightarrow> resubmission_permit \<Rightarrow> string" where
  "resubmission_permit_digest h x = sha256_digest h (resubmission_permit_py x)"

definition resubmission_permit_for :: "hash \<Rightarrow> reconciliation_decision \<Rightarrow> reconciliation_contract \<Rightarrow> conformance_evidence \<Rightarrow>
   contract_attestation \<Rightarrow> string \<Rightarrow> live_permit \<Rightarrow> resubmission_permit" where
  "resubmission_permit_for h d c e at revision lp =
     \<lparr>np_decision_digest = reconciliation_decision_digest h d, np_reconciliation_evidence_digest = kd_evidence_digest d,
      np_contract_digest = reconciliation_contract_digest h c, np_attestation_digest = contract_attestation_digest h at,
      np_conformance_evidence_digest = conformance_evidence_digest h e, np_live_permit_digest = live_permit_digest h lp,
      np_adapter_revision = revision, np_invocation_id = kd_invocation_id d, np_request_digest = kd_request_digest d,
      np_authority = ''IDEMPOTENT_RESUBMIT_ONLY'', np_new_physical_attempt_authorized = False,
      np_schema_version = ''ge.attested-resubmission-permit.v1''\<rparr>"

definition authorize_attested_resubmission :: "hash \<Rightarrow> reconciliation_decision \<Rightarrow> reconciliation_contract \<Rightarrow>
   conformance_evidence \<Rightarrow> contract_attestation \<Rightarrow> string \<Rightarrow> dispatch_state \<Rightarrow> dispatch_permit \<Rightarrow> live_permit \<Rightarrow> head_store \<Rightarrow>
   runner_capabilities \<Rightarrow> resubmission_permit exc" where
  "authorize_attested_resubmission h d c e at revision s p lp heads runner =
     (if kd_action d \<noteq> ''resubmit_same_invocation'' \<or> \<not> kd_resubmit_authorized d \<or> \<not> kd_requires_fresh_live_permit d
      then Inl (ConformanceError ''reconciliation decision does not authorize same-invocation resubmission'')
      else if kd_contract_digest d \<noteq> reconciliation_contract_digest h c
      then Inl (ConformanceError ''reconciliation decision contract binding mismatch'')
      else if kd_live_permit_digest d \<noteq> Some (live_permit_digest h lp)
      then Inl (ConformanceError ''reconciliation decision live permit binding mismatch'')
      else if kd_invocation_id d \<noteq> di_invocation_id (ds_intent s) \<or> kd_request_digest d \<noteq> di_request_digest (ds_intent s)
      then Inl (ConformanceError ''reconciliation decision invocation binding mismatch'')
      else ebind (verify_provider_attestation h c e at revision True) (\<lambda>certified.
      if \<not> certified
      then Inl (ConformanceError ''provider contract lacks production-equivalent safe-resubmission attestation'')
      else ebind (verify_live_dispatch_permit h s p lp heads runner) (\<lambda>fresh.
      if \<not> fresh
      then Inl (ConformanceError ''live dispatch permit is stale or invalid at attested resubmission gate'')
      else resubmission_permit_init (resubmission_permit_for h d c e at revision lp))))"

definition verify_attested_resubmission_permit :: "hash \<Rightarrow> resubmission_permit \<Rightarrow> reconciliation_decision \<Rightarrow>
   reconciliation_contract \<Rightarrow> conformance_evidence \<Rightarrow> contract_attestation \<Rightarrow> string \<Rightarrow> dispatch_state \<Rightarrow> dispatch_permit \<Rightarrow>
   live_permit \<Rightarrow> head_store \<Rightarrow> runner_capabilities \<Rightarrow> bool exc" where
  "verify_attested_resubmission_permit h permit d c e at revision s p lp heads runner =
     handle is_value_error False
       (ebind (authorize_attested_resubmission h d c e at revision s p lp heads runner) (\<lambda>expected. Inr (permit = expected)))"

section \<open>What an attestation certifies\<close>

lemma lower_digest_Inr [exc_simps]: "lower_digest n v = Inr u \<longleftrightarrow> startswith v ''sha256:'' \<and> length v = 71 \<and> list_all is_lower_hex (drop 7 v)"
  by (simp add: lower_digest_def)

lemma revision_check_Inr [exc_simps]: "revision_check n v = Inr u \<longleftrightarrow> (length v = 40 \<or> length v = 64) \<and> list_all is_lower_hex v"
  by (simp add: revision_check_def)

lemma revision_check_refused: "revision_check n v = Inl err \<Longrightarrow> is_value_error err"
  by (auto simp: revision_check_def split: if_splits)

lemma lower_digest_sha256:
  assumes "hex_digest h"
  shows "startswith (sha256_digest h v) ''sha256:'' \<and> length (sha256_digest h v) = 71 \<and> list_all is_lower_hex (drop 7 (sha256_digest h v))"
proof -
  have "list_all is_lower_hex (drop 7 (sha256_digest h v))"
    using hex_digest.digest_hex [OF assms] by (simp add: sha256_digest_def list_all_iff)
  then show ?thesis by (simp add: hex_digest.sha256_digest_length [OF assms] hex_digest.sha256_digest_prefix [OF assms])
qed

lemma case_map_Some:
  assumes "distinct (map nc_case_id (ne_cases e))"
  shows "case_map e k = Some x \<longleftrightarrow> x \<in> set (ne_cases e) \<and> nc_case_id x = k"
proof -
  have "distinct (map fst (rev (map (\<lambda>x. (nc_case_id x, x)) (ne_cases e))))"
    using assms by (simp add: rev_map [symmetric] comp_def)
  then show ?thesis by (auto simp: case_map_def)
qed

lemma required_distinct: "distinct (required_cases c)"
  by (simp add: required_cases_def mandatory_cases_def)

lemma required_allowed: "set (required_cases c) \<subseteq> set allowed_cases"
  by (auto simp: required_cases_def allowed_cases_def)

text \<open>What the evidence has to show for a contract.\<close>

definition certified :: "hash \<Rightarrow> reconciliation_contract \<Rightarrow> conformance_evidence \<Rightarrow> string \<Rightarrow> bool" where
  "certified h c e revision \<longleftrightarrow> ne_contract_digest e = reconciliation_contract_digest h c \<and> ne_adapter_revision e = revision \<and>
     ne_environment_scope e = ''production_equivalent'' \<and> safe_idempotent_resubmission c \<and>
     (\<forall>k\<in>set (required_cases c). \<exists>x\<in>set (ne_cases e). nc_case_id x = k \<and> nc_passed x)"

lemma conformance_evidence_ok:
  assumes "conformance_evidence_init e = Inr e'"
  shows "distinct (map nc_case_id (ne_cases e))" and "ne_environment_scope e \<in> set environment_scopes"
    and "(length (ne_adapter_revision e) = 40 \<or> length (ne_adapter_revision e) = 64) \<and> list_all is_lower_hex (ne_adapter_revision e)"
  using assms length_remdups_eq [of "map nc_case_id (ne_cases e)"]
  unfolding conformance_evidence_init_def ebind_eq_Inr raise_unless_eq Let_def revision_check_Inr by blast+

lemma contract_attestation_same: "contract_attestation_init x = Inr y \<Longrightarrow> y = x"
  unfolding contract_attestation_init_def Let_def by (auto simp: ebind_eq_Inr raise_unless_eq)

lemma attestation_ok:
  assumes "hex_digest h" and "conformance_evidence_init e = Inr e'"
  shows "contract_attestation_init (attestation_for h c e) = Inr (attestation_for h c e)"
proof -
  let ?a = "attestation_for h c e"
  have cases: "na_passed_cases ?a = filter (\<lambda>k. nc_passed (the (case_map e k))) (sort (required_cases c))"
      "na_failed_cases ?a = filter (\<lambda>k. \<not> nc_passed (the (case_map e k))) (sort (required_cases c))"
    by (simp_all add: attestation_for_def Let_def)
  have "distinct (na_passed_cases ?a)" "distinct (na_failed_cases ?a)" "set (na_passed_cases ?a) \<inter> set (na_failed_cases ?a) = {}"
      "set (na_passed_cases ?a) \<union> set (na_failed_cases ?a) \<subseteq> set allowed_cases"
    using required_distinct [of c] required_allowed [of c] unfolding cases by auto
  moreover have "length (na_passed_cases ?a) = card (set (na_passed_cases ?a))" "length (na_failed_cases ?a) = card (set (na_failed_cases ?a))"
    using calculation(1,2) by (simp_all add: distinct_card)
  moreover have "na_contract_conformant ?a \<longleftrightarrow> na_failed_cases ?a = []"
      "na_safe_resubmission_certified ?a \<longrightarrow> na_contract_conformant ?a \<and> na_environment_scope ?a = ''production_equivalent''"
      "na_terminal_evidence_certified ?a \<longrightarrow> na_environment_scope ?a = ''production_equivalent''"
      "na_contract_digest ?a = sha256_digest h (reconciliation_contract_py c)"
      "na_conformance_evidence_digest ?a = sha256_digest h (conformance_evidence_py e)"
      "na_adapter_revision ?a = ne_adapter_revision e" "na_environment_scope ?a = ne_environment_scope e" "na_authority ?a = ''NONE''"
      "na_suite_version ?a = suite_version"
    by (auto simp: attestation_for_def Let_def reconciliation_contract_digest_def conformance_evidence_digest_def)
  ultimately show ?thesis
    using conformance_evidence_ok(2,3) [OF assms(2)] lower_digest_sha256 [OF assms(1)]
    unfolding contract_attestation_init_def Let_def ebind_eq_Inr raise_unless_eq lower_digest_Inr revision_check_Inr by auto
qed

lemma attest_Inr:
  assumes "hex_digest h" and "conformance_evidence_init e = Inr e'"
  shows "attest_provider_contract h c e = Inr at \<longleftrightarrow> ne_contract_digest e = reconciliation_contract_digest h c \<and>
    (\<forall>k\<in>set (required_cases c). \<exists>x\<in>set (ne_cases e). nc_case_id x = k) \<and> at = attestation_for h c e"
proof -
  have "sort (filter (\<lambda>k. case_map e k = None) (required_cases c)) = [] \<longleftrightarrow> (\<forall>k\<in>set (required_cases c). \<exists>x. case_map e k = Some x)"
    by (metis (mono_tags, lifting) filter_empty_conv not_None_eq option.distinct(1) set_empty set_sort)
  also have "\<dots> \<longleftrightarrow> (\<forall>k\<in>set (required_cases c). \<exists>x\<in>set (ne_cases e). nc_case_id x = k)"
    unfolding case_map_Some [OF conformance_evidence_ok(1) [OF assms(2)]] by blast
  finally show ?thesis
    unfolding attest_provider_contract_def Let_def raise_unless_eq attestation_ok [OF assms] by auto
qed

lemma attest_refused: "attest_provider_contract h c e = Inl err \<Longrightarrow> is_value_error err"
  by (auto simp: attest_provider_contract_def contract_attestation_init_def lower_digest_def revision_check_def Let_def ebind_eq_Inl split: if_splits)

lemma certified_covers: "certified h c e revision \<Longrightarrow> ne_contract_digest e = reconciliation_contract_digest h c \<and>
   (\<forall>k\<in>set (required_cases c). \<exists>x\<in>set (ne_cases e). nc_case_id x = k) \<and> ne_adapter_revision e = revision"
  by (auto simp: certified_def)

lemma required_passed:
  assumes "conformance_evidence_init e = Inr e'" and "\<forall>k\<in>set (required_cases c). \<exists>x\<in>set (ne_cases e). nc_case_id x = k"
    and "k \<in> set (required_cases c)"
  shows "nc_passed (the (case_map e k)) \<longleftrightarrow> (\<exists>x\<in>set (ne_cases e). nc_case_id x = k \<and> nc_passed x)"
proof -
  obtain x where "x \<in> set (ne_cases e)" "nc_case_id x = k" using assms(2,3) by blast
  then have "case_map e k = Some x" by (simp add: case_map_Some [OF conformance_evidence_ok(1) [OF assms(1)]])
  then show ?thesis by (metis case_map_Some [OF conformance_evidence_ok(1) [OF assms(1)]] option.sel)
qed

lemma certified_attestation:
  assumes "conformance_evidence_init e = Inr e'" and "ne_contract_digest e = reconciliation_contract_digest h c"
    and "\<forall>k\<in>set (required_cases c). \<exists>x\<in>set (ne_cases e). nc_case_id x = k"
  shows "na_safe_resubmission_certified (attestation_for h c e) \<longleftrightarrow> certified h c e (ne_adapter_revision e)"
proof -
  note required_passed [OF assms(1,3)]
  then have "filter (\<lambda>k. \<not> nc_passed (the (case_map e k))) (sort (required_cases c)) = [] \<longleftrightarrow>
      (\<forall>k\<in>set (required_cases c). \<exists>x\<in>set (ne_cases e). nc_case_id x = k \<and> nc_passed x)"
    by (simp add: filter_empty_conv)
  then show ?thesis using assms(2) by (auto simp: attestation_for_def certified_def Let_def)
qed

lemma verify_attestation_True:
  assumes "hex_digest h" and "conformance_evidence_init e = Inr e'"
  shows "verify_provider_attestation h c e at revision True = Inr True \<longleftrightarrow> certified h c e revision \<and> at = attestation_for h c e"
proof -
  have "verify_provider_attestation h c e at revision True = Inr True \<longleftrightarrow>
      revision_check ''adapter_revision'' revision = Inr () \<and> attest_provider_contract h c e = Inr at \<and> ne_adapter_revision e = revision \<and>
      na_safe_resubmission_certified at"
    unfolding verify_provider_attestation_def
    by (cases "revision_check ''adapter_revision'' revision"; cases "attest_provider_contract h c e") (auto simp: handle_def)
  also have "\<dots> \<longleftrightarrow> certified h c e revision \<and> at = attestation_for h c e"
    unfolding attest_Inr [OF assms] revision_check_Inr
    using certified_attestation [OF assms(2), of h c] certified_covers [of h c e revision] conformance_evidence_ok(3) [OF assms(2)] by metis
  finally show ?thesis .
qed

lemma verify_attestation_answers: "\<exists>b. verify_provider_attestation h c e at revision r = Inr b"
  unfolding verify_provider_attestation_def
  by (cases "revision_check ''adapter_revision'' revision"; cases "attest_provider_contract h c e")
    (auto simp: handle_def dest: revision_check_refused attest_refused)

section \<open>When a permit is given\<close>

lemma resubmission_permit_same: "resubmission_permit_init x = Inr y \<Longrightarrow> y = x"
  unfolding resubmission_permit_init_def by (auto simp: ebind_eq_Inr raise_unless_eq)

lemma authorize_attested_Inr:
  assumes "hex_digest h" and "conformance_evidence_init e = Inr e'"
  shows "authorize_attested_resubmission h d c e at revision s p lp heads runner = Inr permit \<longleftrightarrow>
    kd_action d = ''resubmit_same_invocation'' \<and> kd_resubmit_authorized d \<and> kd_requires_fresh_live_permit d \<and>
    kd_contract_digest d = reconciliation_contract_digest h c \<and> kd_live_permit_digest d = Some (live_permit_digest h lp) \<and>
    kd_invocation_id d = di_invocation_id (ds_intent s) \<and> kd_request_digest d = di_request_digest (ds_intent s) \<and>
    certified h c e revision \<and> at = attestation_for h c e \<and> authorize_live_dispatch h s p heads runner = Inr lp \<and>
    resubmission_permit_init (resubmission_permit_for h d c e at revision lp) = Inr permit"
proof -
  have checked: "(\<exists>b. m = Inr b \<and> b \<and> P) \<longleftrightarrow> m = Inr True \<and> P" for m :: "bool exc" and P by auto
  show ?thesis
    by (simp only: authorize_attested_resubmission_def raise_unless_eq ebind_eq_Inr de_Morgan_disj not_not checked
        verify_attestation_True [OF assms] verify_live_True conj_assoc)
qed

text \<open>A decision to resubmit carries what the permit needs.\<close>

lemma decided_resubmission:
  assumes "hex_digest h" and "decide_reconciliation h s p a c e (Some lp) (Some heads) (Some runner) = Inr d" and "kd_resubmit_authorized d"
  shows "authorize_live_dispatch h s p heads runner = Inr lp" and "d = decision_of h s e c ''absent'' ''resubmit_same_invocation'' True True
      (Some (live_permit_digest h lp)) ''provider proved absence and same invocation is protected by strong idempotency''"
    and "\<not> blank (di_invocation_id (ds_intent s))" and "di_request_digest (ds_intent s) = sha256_digest h (adapter_request_py (pa_request a))"
proof -
  obtain q where q: "create_reconciliation_query h s p a c = Inr q" "admit_reconciliation_observation h q c (kv_observation e) = Inr e"
    by (rule decide_reconciliation_refused [OF assms(2)])
  have action: "reconciliation_action c (ko_status (kv_observation e)) = ''resubmit_same_invocation''"
    using decide_not_resubmit [OF q, of "Some lp" "Some heads" "Some runner"] assms(2,3) by auto
  show "authorize_live_dispatch h s p heads runner = Inr lp" and "d = decision_of h s e c ''absent'' ''resubmit_same_invocation'' True True
      (Some (live_permit_digest h lp)) ''provider proved absence and same invocation is protected by strong idempotency''"
    using assms(2) unfolding decide_resubmit [OF q action] by simp_all
  show "\<not> blank (di_invocation_id (ds_intent s))" by (rule created_query(2) [OF q(1)])
  show "di_request_digest (ds_intent s) = sha256_digest h (adapter_request_py (pa_request a))"
    using created_query(5) [OF q(1)] by (simp add: request_digest_def)
qed

lemma decided_permit:
  assumes "hex_digest h" and "conformance_evidence_init ce = Inr ce" and "certified h c ce revision"
    and "decide_reconciliation h s p a c e (Some lp) (Some heads) (Some runner) = Inr d" and "kd_resubmit_authorized d"
  shows "authorize_attested_resubmission h d c ce (attestation_for h c ce) revision s p lp heads runner =
    Inr (resubmission_permit_for h d c ce (attestation_for h c ce) revision lp)"
proof -
  note dec = decided_resubmission [OF assms(1,4,5)]
  have "(length revision = 40 \<or> length revision = 64) \<and> list_all is_lower_hex revision"
    using conformance_evidence_ok(3) [OF assms(2)] certified_covers [OF assms(3)] by simp
  then have "resubmission_permit_init (resubmission_permit_for h d c ce (attestation_for h c ce) revision lp) =
      Inr (resubmission_permit_for h d c ce (attestation_for h c ce) revision lp)"
    using dec(3) lower_digest_sha256 [OF assms(1)]
    by (simp add: resubmission_permit_init_def ebind_eq_Inr lower_digest_Inr revision_check_Inr check_nonempty_Inr resubmission_permit_for_def
        dec(2,4) decision_of_def reconciliation_decision_digest_def reconciliation_evidence_digest_def reconciliation_contract_digest_def
        contract_attestation_digest_def conformance_evidence_digest_def live_permit_digest_def)
  then show ?thesis
    using dec(1) assms(3) by (simp add: authorize_attested_Inr [OF assms(1,2)]) (simp add: dec(2) decision_of_def)
qed

lemma attested_stale:
  assumes "verify_live_dispatch_permit h s p lp heads runner = Inr False"
  shows "verify_attested_resubmission_permit h permit d c e at revision s p lp heads runner = Inr False"
proof -
  obtain b where b: "verify_provider_attestation h c e at revision True = Inr b" using verify_attestation_answers by blast
  show ?thesis
    unfolding verify_attested_resubmission_permit_def authorize_attested_resubmission_def assms b by (simp add: handle_def)
qed

section \<open>Properties\<close>

definition ex_case :: "string \<Rightarrow> conformance_case" where
  "ex_case k = \<lparr>nc_case_id = k, nc_passed = True, nc_evidence_digest = sha256_digest zero_hash PNone, nc_detail = '''',
     nc_schema_version = ''ge.provider-conformance-case.v1''\<rparr>"

definition ex_revision :: string where
  "ex_revision = replicate 40 (CHR ''0'')"

definition ex_conformance :: conformance_evidence where
  "ex_conformance = \<lparr>ne_contract_digest = reconciliation_contract_digest zero_hash ex_contract, ne_adapter_revision = ex_revision,
     ne_environment_scope = ''production_equivalent'', ne_cases = map ex_case allowed_cases, ne_suite_version = suite_version,
     ne_schema_version = ''ge.provider-conformance-evidence.v1''\<rparr>"

lemma ex_revision: "length ex_revision = 40" "list_all is_lower_hex ex_revision"
  by (simp_all add: ex_revision_def list_all_iff is_lower_hex_def)

lemma ex_conformance: "conformance_evidence_init ex_conformance = Inr ex_conformance"
  by (simp add: conformance_evidence_init_def ex_conformance_def ebind_eq_Inr lower_digest_Inr revision_check_Inr reconciliation_contract_digest_def
      lower_digest_sha256 [OF zero_hash] ex_revision environment_scopes_def ex_case_def comp_def
      allowed_cases_def mandatory_cases_def)

lemma ex_certified: "certified zero_hash ex_contract ex_conformance ex_revision"
  using required_allowed [of ex_contract]
  by (auto simp: certified_def ex_contract_safe ex_conformance_def ex_case_def)

definition ex_attestation :: contract_attestation where
  "ex_attestation = attestation_for zero_hash ex_contract ex_conformance"

lemma ex_permitted: "authorize_attested_resubmission zero_hash (ex_decision zero_hash) ex_contract ex_conformance ex_attestation ex_revision
   (ex_unknown zero_hash) (permit_of zero_hash (ex_unknown zero_hash)) (ex_live_permit zero_hash) (ex_reserved_heads zero_hash) ex_runner =
   Inr (resubmission_permit_for zero_hash (ex_decision zero_hash) ex_contract ex_conformance ex_attestation ex_revision (ex_live_permit zero_hash))"
proof -
  have "kd_resubmit_authorized (ex_decision zero_hash)" by (simp add: ex_decision_def decision_of_def)
  from decided_permit [OF zero_hash ex_conformance ex_certified ex_decision this] show ?thesis by (simp add: ex_attestation_def)
qed

text \<open>C37: A permit to submit again needs certification: the evidence belongs to this contract and adapter revision, was
  collected in a production-equivalent environment and passed every required case, the contract is strongly idempotent, and
  the attestation is the one recomputed from that evidence and claims no project authority. The permit binds a decision that
  authorises the resubmission, the live permit of that decision, which the given capacity heads grant now, and the intent's
  own invocation and request; it allows no new physical attempt.\<close>

theorem resubmission_needs_certification:
  assumes "hex_digest h" and "conformance_evidence_init e = Inr e"
    and "authorize_attested_resubmission h d c e at revision s p lp heads runner = Inr permit"
  shows "ne_contract_digest e = reconciliation_contract_digest h c \<and> ne_adapter_revision e = revision \<and>
    ne_environment_scope e = ''production_equivalent'' \<and>
    (\<forall>k\<in>set mandatory_cases. \<exists>x\<in>set (ne_cases e). nc_case_id x = k \<and> nc_passed x) \<and>
    (kc_terminal_evidence_lookup c \<longrightarrow> (\<exists>x\<in>set (ne_cases e). nc_case_id x = ''terminal_evidence_binding'' \<and> nc_passed x)) \<and>
    safe_idempotent_resubmission c \<and> attest_provider_contract h c e = Inr at \<and> na_authority at = ''NONE'' \<and>
    np_attestation_digest permit = contract_attestation_digest h at \<and>
    kd_action d = ''resubmit_same_invocation'' \<and> kd_resubmit_authorized d \<and> np_decision_digest permit = reconciliation_decision_digest h d \<and>
    kd_live_permit_digest d = Some (np_live_permit_digest permit) \<and> np_live_permit_digest permit = live_permit_digest h lp \<and>
    authorize_live_dispatch h s p heads runner = Inr lp \<and>
    np_invocation_id permit = di_invocation_id (ds_intent s) \<and> np_request_digest permit = di_request_digest (ds_intent s) \<and>
    np_authority permit = ''IDEMPOTENT_RESUBMIT_ONLY'' \<and> \<not> np_new_physical_attempt_authorized permit"
proof -
  note given = authorize_attested_Inr [OF assms(1,2), THEN iffD1, OF assms(3)]
  then have cert: "certified h c e revision" "at = attestation_for h c e" by blast+
  have permit: "permit = resubmission_permit_for h d c e at revision lp" using given by (blast dest: resubmission_permit_same)
  have "attest_provider_contract h c e = Inr at" using certified_covers [OF cert(1)] cert(2) attest_Inr [OF assms(1,2)] by blast
  moreover have "na_authority at = ''NONE''" by (simp add: cert(2) attestation_for_def Let_def)
  moreover have "\<forall>k\<in>set (required_cases c). \<exists>x\<in>set (ne_cases e). nc_case_id x = k \<and> nc_passed x" "ne_contract_digest e = reconciliation_contract_digest h c"
      "ne_adapter_revision e = revision" "ne_environment_scope e = ''production_equivalent''" "safe_idempotent_resubmission c"
    using cert(1) by (simp_all add: certified_def)
  ultimately show ?thesis
    using given by (simp add: permit resubmission_permit_for_def required_cases_def)
qed

theorem resubmission_needs_certification_witness:
  "na_authority ex_attestation = ''NONE'' \<and> (\<exists>x\<in>set (ne_cases ex_conformance). nc_case_id x = ''absence_semantics'' \<and> nc_passed x) \<and>
   authorize_live_dispatch zero_hash (ex_unknown zero_hash) (permit_of zero_hash (ex_unknown zero_hash)) (ex_reserved_heads zero_hash) ex_runner
     = Inr (ex_live_permit zero_hash)"
proof -
  have "''absence_semantics'' \<in> set mandatory_cases" by (simp add: mandatory_cases_def)
  with resubmission_needs_certification [OF zero_hash ex_conformance ex_permitted] show ?thesis by blast
qed

text \<open>C38: A certified resubmission is permitted: when the conformance evidence certifies the contract for the adapter
  revision and reconciliation has decided to submit again under a live permit, then the attestation can be made, the permit
  is given for the intent's own invocation, and as long as the capacity heads are the same exactly this permit verifies.\<close>

theorem certified_resubmission_is_permitted:
  assumes "hex_digest h" and "conformance_evidence_init ce = Inr ce" and "certified h c ce revision"
    and "decide_reconciliation h s p a c e (Some lp) (Some heads) (Some runner) = Inr d" and "kd_resubmit_authorized d"
  shows "\<exists>at permit. attest_provider_contract h c ce = Inr at \<and>
    authorize_attested_resubmission h d c ce at revision s p lp heads runner = Inr permit \<and>
    np_invocation_id permit = aq_invocation_id (pa_request a) \<and>
    (\<forall>q. verify_attested_resubmission_permit h q d c ce at revision s p lp heads runner = Inr (q = permit))"
proof -
  note dec = decided_resubmission [OF assms(1,4,5)]
  let ?at = "attestation_for h c ce"
  let ?permit = "resubmission_permit_for h d c ce ?at revision lp"
  note permit = decided_permit [OF assms]
  obtain q where "create_reconciliation_query h s p a c = Inr q" by (rule decide_reconciliation_refused [OF assms(4)])
  then have "np_invocation_id ?permit = aq_invocation_id (pa_request a)"
    using created_query(4) by (simp add: resubmission_permit_for_def dec(2) decision_of_def)
  moreover have "attest_provider_contract h c ce = Inr ?at" using certified_covers [OF assms(3)] attest_Inr [OF assms(1,2)] by blast
  ultimately show ?thesis
    using permit by (auto simp: verify_attested_resubmission_permit_def)
qed

theorem certified_resubmission_is_permitted_witness:
  "\<exists>at permit. attest_provider_contract zero_hash ex_contract ex_conformance = Inr at \<and>
     verify_attested_resubmission_permit zero_hash permit (ex_decision zero_hash) ex_contract ex_conformance at ex_revision (ex_unknown zero_hash)
       (permit_of zero_hash (ex_unknown zero_hash)) (ex_live_permit zero_hash) (ex_reserved_heads zero_hash) ex_runner = Inr True"
proof -
  have "kd_resubmit_authorized (ex_decision zero_hash)" by (simp add: ex_decision_def decision_of_def)
  from certified_resubmission_is_permitted [OF zero_hash ex_conformance ex_certified ex_decision this] show ?thesis by auto
qed

text \<open>C39: Releasing the lease withdraws every authority to transmit: once the lease of an intent has been released for an
  outcome and the release is the durable capacity head, no live permit of the intent verifies, no reconciliation decides to
  submit again, and no attested resubmission permit verifies, whatever was decided, attested and permitted before.\<close>

theorem release_withdraws_resubmission:
  assumes "head_load h heads runner = Inr (s, cap)" and "l \<in> set (active_leases h s)" and "lease_id h l = di_lease_id (ds_intent st)"
    and "release_capacity_for_outcome h s spec registry plan session runner l b = Inr (s', g, t)"
    and "head_commit h heads runner (state_digest h s) s' = Inr (heads', cap')"
  shows "verify_live_dispatch_permit h st p lp heads' runner = Inr False \<and>
    (\<forall>d. decide_reconciliation h st p a c e live (Some heads') (Some runner) = Inr d \<longrightarrow> \<not> kd_resubmit_authorized d) \<and>
    verify_attested_resubmission_permit h permit d c ce at revision st p lp heads' runner = Inr False"
proof -
  note stale = released_not_authorized [OF assms]
  have "\<not> kd_resubmit_authorized d" if decided: "decide_reconciliation h st p a c e live (Some heads') (Some runner) = Inr d" for d
  proof
    assume authorized: "kd_resubmit_authorized d"
    obtain q where q: "create_reconciliation_query h st p a c = Inr q" "admit_reconciliation_observation h q c (kv_observation e) = Inr e"
      by (rule decide_reconciliation_refused [OF decided])
    have "reconciliation_action c (ko_status (kv_observation e)) = ''resubmit_same_invocation''"
      using decide_not_resubmit [OF q, of live "Some heads'" "Some runner"] decided authorized by auto
    then show False using decided stale(1) by (simp add: decide_resubmit [OF q])
  qed
  then show ?thesis using stale(2) attested_stale [OF stale(2)] by blast
qed

theorem release_withdraws_resubmission_witness:
  "\<exists>heads. verify_attested_resubmission_permit zero_hash (resubmission_permit_for zero_hash (ex_decision zero_hash) ex_contract ex_conformance
      ex_attestation ex_revision (ex_live_permit zero_hash)) (ex_decision zero_hash) ex_contract ex_conformance ex_attestation ex_revision
      (ex_unknown zero_hash) (permit_of zero_hash (ex_unknown zero_hash)) (ex_live_permit zero_hash) heads ex_runner = Inr False"
proof -
  obtain heads where commit: "head_commit zero_hash (ex_reserved_heads zero_hash) ex_runner (state_digest zero_hash (ex_reserved zero_hash))
      (ex_released zero_hash) = Inr (heads, stored_head zero_hash (ex_released zero_hash))"
    using ex_release_commit by blast
  have l: "ex_lease zero_hash \<in> set (active_leases zero_hash (ex_reserved zero_hash))" by (simp add: ex_reserved(3))
  have "lease_id zero_hash (ex_lease zero_hash) = di_lease_id (ds_intent (ex_unknown zero_hash))"
    by (simp add: ex_unknown(3) ex_intent_fields)
  from release_withdraws_resubmission [OF ex_reserved_heads l this ex_release_capacity commit] show ?thesis by blast
qed

end
