(* ===== verification/Conformance_Harness.thy ===== *)
theory Conformance_Harness
  imports Conformance
begin

text \<open>
  The conformance harness (\<open>conformance_harness.py\<close>): five cases are run against a provider, each after a reset, and their
  results become conformance evidence. The provider is the protocol \<open>ProviderConformanceTarget\<close>, a record of functions on
  a state; the reference target of the module is one of its values. A locale states what a faithful provider promises; the
  lemmas show that it passes every case, and that the reference target is faithful to the semantics it is created with.
\<close>

section \<open>Results\<close>

definition harness_version :: string where
  "harness_version = ''ge.provider-conformance-harness.v1''"

definition harness_revision :: "string \<Rightarrow> string \<Rightarrow> unit exc" where
  "harness_revision name v =
     (if \<not> ((length v = 40 \<or> length v = 64) \<and> list_all is_lower_hex v)
      then Inl (ValueError (name @ '' must be immutable 40- or 64-lowercase-hex'')) else Inr ())"

record conformance_submit =
  fs_invocation_id :: string
  fs_request_digest :: string
  fs_status :: string
  fs_provider_invocation_id :: "string option"
  fs_evidence_digest :: string
  fs_schema_version :: string

definition conformance_submit_py :: "conformance_submit \<Rightarrow> pyval" where
  "conformance_submit_py x = PDict [
    (''invocation_id'', PStr (fs_invocation_id x)),
    (''request_digest'', PStr (fs_request_digest x)),
    (''status'', PStr (fs_status x)),
    (''provider_invocation_id'', py_opt PStr (fs_provider_invocation_id x)),
    (''evidence_digest'', PStr (fs_evidence_digest x)),
    (''schema_version'', PStr (fs_schema_version x))]"

definition conformance_submit_init :: "conformance_submit \<Rightarrow> conformance_submit exc" where
  "conformance_submit_init x =
     ebind (check_nonempty ''invocation_id'' (fs_invocation_id x)) (\<lambda>_.
     ebind (lower_digest ''request_digest'' (fs_request_digest x)) (\<lambda>_.
     ebind (lower_digest ''evidence_digest'' (fs_evidence_digest x)) (\<lambda>_.
     if fs_status x = ''accepted'' \<and> empty_opt (fs_provider_invocation_id x)
     then Inl (ValueError ''accepted submit requires provider invocation identity'')
     else if fs_status x \<in> set [''duplicate_rejected'', ''different_request_rejected''] \<and> fs_provider_invocation_id x \<noteq> None
     then Inl (ValueError ''rejected submit cannot create a new provider invocation'')
     else Inr x)))"

definition conformance_submit_digest :: "hash \<Rightarrow> conformance_submit \<Rightarrow> string" where
  "conformance_submit_digest h x = sha256_digest h (conformance_submit_py x)"

record conformance_lookup =
  fl_invocation_id :: string
  fl_request_digest :: string
  fl_status :: string
  fl_provider_invocation_id :: "string option"
  fl_terminal_evidence_digest :: "string option"
  fl_evidence_digest :: string
  fl_schema_version :: string

definition conformance_lookup_py :: "conformance_lookup \<Rightarrow> pyval" where
  "conformance_lookup_py x = PDict [
    (''invocation_id'', PStr (fl_invocation_id x)),
    (''request_digest'', PStr (fl_request_digest x)),
    (''status'', PStr (fl_status x)),
    (''provider_invocation_id'', py_opt PStr (fl_provider_invocation_id x)),
    (''terminal_evidence_digest'', py_opt PStr (fl_terminal_evidence_digest x)),
    (''evidence_digest'', PStr (fl_evidence_digest x)),
    (''schema_version'', PStr (fl_schema_version x))]"

definition conformance_lookup_init :: "conformance_lookup \<Rightarrow> conformance_lookup exc" where
  "conformance_lookup_init x =
     ebind (check_nonempty ''invocation_id'' (fl_invocation_id x)) (\<lambda>_.
     ebind (lower_digest ''request_digest'' (fl_request_digest x)) (\<lambda>_.
     ebind (lower_digest ''evidence_digest'' (fl_evidence_digest x)) (\<lambda>_.
     ebind (case fl_terminal_evidence_digest x of None \<Rightarrow> Inr () | Some d \<Rightarrow> lower_digest ''terminal_evidence_digest'' d) (\<lambda>_.
     if fl_status x = ''accepted'' then
       (if empty_opt (fl_provider_invocation_id x) \<or> fl_terminal_evidence_digest x \<noteq> None
        then Inl (ValueError ''accepted lookup requires provider invocation and no terminal evidence'') else Inr x)
     else if fl_status x = ''terminal'' then
       (if empty_opt (fl_provider_invocation_id x) \<or> empty_opt (fl_terminal_evidence_digest x)
        then Inl (ValueError ''terminal lookup requires provider invocation and terminal evidence'') else Inr x)
     else if fl_terminal_evidence_digest x \<noteq> None
     then Inl (ValueError ''non-terminal lookup cannot carry terminal evidence'')
     else Inr x))))"

definition conformance_lookup_digest :: "hash \<Rightarrow> conformance_lookup \<Rightarrow> string" where
  "conformance_lookup_digest h x = sha256_digest h (conformance_lookup_py x)"

text \<open>The protocol of a target: its attributes, and its methods on a state of its own.\<close>

record 's conformance_target =
  ft_provider :: string
  ft_adapter :: string
  ft_adapter_version :: string
  ft_adapter_revision :: string
  ft_environment_scope :: string
  ft_reset :: "'s \<Rightarrow> 's exc"
  ft_submit :: "string \<Rightarrow> string \<Rightarrow> 's \<Rightarrow> (conformance_submit \<times> 's) exc"
  ft_lookup :: "string \<Rightarrow> string \<Rightarrow> 's \<Rightarrow> (conformance_lookup \<times> 's) exc"
  ft_mark_terminal :: "string \<Rightarrow> string \<Rightarrow> string \<Rightarrow> 's \<Rightarrow> 's exc"

record conformance_run =
  fr_harness_version :: string
  fr_contract_digest :: string
  fr_provider :: string
  fr_adapter :: string
  fr_adapter_version :: string
  fr_adapter_revision :: string
  fr_environment_scope :: string
  fr_case_results :: "conformance_case list"
  fr_conformance_evidence_digest :: string
  fr_all_required_cases_passed :: bool
  fr_schema_version :: string

definition conformance_run_py :: "conformance_run \<Rightarrow> pyval" where
  "conformance_run_py x = PDict [
    (''harness_version'', PStr (fr_harness_version x)),
    (''contract_digest'', PStr (fr_contract_digest x)),
    (''provider'', PStr (fr_provider x)),
    (''adapter'', PStr (fr_adapter x)),
    (''adapter_version'', PStr (fr_adapter_version x)),
    (''adapter_revision'', PStr (fr_adapter_revision x)),
    (''environment_scope'', PStr (fr_environment_scope x)),
    (''case_results'', PTuple (map conformance_case_py (fr_case_results x))),
    (''conformance_evidence_digest'', PStr (fr_conformance_evidence_digest x)),
    (''all_required_cases_passed'', PBool (fr_all_required_cases_passed x)),
    (''schema_version'', PStr (fr_schema_version x))]"

definition conformance_run_init :: "conformance_run \<Rightarrow> conformance_run exc" where
  "conformance_run_init x =
     (if fr_harness_version x \<noteq> harness_version then Inl (ValueError ''unsupported provider conformance harness version'')
      else
      ebind (lower_digest ''contract_digest'' (fr_contract_digest x)) (\<lambda>_.
      ebind (lower_digest ''conformance_evidence_digest'' (fr_conformance_evidence_digest x)) (\<lambda>_.
      ebind (harness_revision ''adapter_revision'' (fr_adapter_revision x)) (\<lambda>_.
      if fr_environment_scope x \<notin> set environment_scopes then Inl (ValueError ''unsupported conformance run environment'')
      else
      ebind (eall (\<lambda>(n, v). check_nonempty n v) [(''provider'', fr_provider x), (''adapter'', fr_adapter x), (''adapter_version'', fr_adapter_version x)]) (\<lambda>_.
      let ids = map nc_case_id (fr_case_results x) in
      if length ids \<noteq> length (remdups ids) then Inl (ValueError ''conformance run case IDs must be unique'')
      else if fr_all_required_cases_passed x \<noteq> list_all nc_passed (fr_case_results x)
      then Inl (ValueError ''conformance run all-pass flag does not reconcile'')
      else Inr x)))))"

definition conformance_run_id :: "hash \<Rightarrow> conformance_run \<Rightarrow> string" where
  "conformance_run_id h x = stable_id h ''gepcr'' (conformance_run_py x)"

definition conformance_run_digest :: "hash \<Rightarrow> conformance_run \<Rightarrow> string" where
  "conformance_run_digest h x = sha256_digest h (conformance_run_py x)"

section \<open>Cases\<close>

definition make_case :: "hash \<Rightarrow> string \<Rightarrow> bool \<Rightarrow> pyval \<Rightarrow> conformance_case exc" where
  "make_case h k passed transcript = conformance_case_init
     \<lparr>nc_case_id = k, nc_passed = passed,
      nc_evidence_digest = sha256_digest h (PDict [(''harness_version'', PStr harness_version), (''case_id'', PStr k),
        (''transcript'', transcript)]),
      nc_detail = '''', nc_schema_version = ''ge.provider-conformance-case.v1''\<rparr>"

definition target_identity :: "reconciliation_contract \<Rightarrow> 's conformance_target \<Rightarrow> unit exc" where
  "target_identity c t =
     (if ft_provider t \<noteq> kc_provider c \<or> ft_adapter t \<noteq> kc_adapter c \<or> ft_adapter_version t \<noteq> kc_adapter_version c
      then Inl (ConformanceHarnessError ''conformance target identity does not match provider contract'')
      else if ft_environment_scope t \<notin> set environment_scopes
      then Inl (ConformanceHarnessError ''conformance target environment scope is unsupported'')
      else case harness_revision ''adapter_revision'' (ft_adapter_revision t) of
        Inl (ValueError message) \<Rightarrow> Inl (ConformanceHarnessError message)
      | r \<Rightarrow> r)"

definition same_request_passed :: "reconciliation_contract \<Rightarrow> conformance_submit \<Rightarrow> conformance_submit \<Rightarrow> bool" where
  "same_request_passed c first second =
     (if fs_status first \<noteq> ''accepted'' \<or> empty_opt (fs_provider_invocation_id first) then False
      else if kc_same_key_same_request c = ''same_operation''
      then fs_status second = ''accepted'' \<and> fs_provider_invocation_id second = fs_provider_invocation_id first
      else if kc_same_key_same_request c = ''duplicate_rejected'' then fs_status second = ''duplicate_rejected''
      else fs_status second = ''accepted'' \<and> fs_provider_invocation_id second \<noteq> None \<and>
        fs_provider_invocation_id second \<noteq> fs_provider_invocation_id first)"

definition same_request_case :: "hash \<Rightarrow> reconciliation_contract \<Rightarrow> 's conformance_target \<Rightarrow> string \<Rightarrow> string \<Rightarrow> 's \<Rightarrow>
   (conformance_case \<times> 's) exc" where
  "same_request_case h c t iid rd s =
     ebind (ft_reset t s) (\<lambda>s.
     ebind (ft_submit t iid rd s) (\<lambda>(first, s).
     ebind (ft_submit t iid rd s) (\<lambda>(second, s).
     ebind (make_case h ''same_request_semantics'' (same_request_passed c first second)
       (PDict [(''declared'', PStr (kc_same_key_same_request c)), (''first'', conformance_submit_py first),
         (''second'', conformance_submit_py second)])) (\<lambda>x.
     Inr (x, s)))))"

definition different_request_case :: "hash \<Rightarrow> reconciliation_contract \<Rightarrow> 's conformance_target \<Rightarrow> string \<Rightarrow> string \<Rightarrow> string \<Rightarrow> 's \<Rightarrow>
   (conformance_case \<times> 's) exc" where
  "different_request_case h c t iid rd drd s =
     ebind (ft_reset t s) (\<lambda>s.
     ebind (ft_submit t iid rd s) (\<lambda>(first, s).
     ebind (ft_submit t iid drd s) (\<lambda>(second, s).
     ebind (make_case h ''different_request_rejection''
       (fs_status first = ''accepted'' \<and> kc_same_key_different_request c = ''reject'' \<and> fs_status second = ''different_request_rejected'')
       (PDict [(''first'', conformance_submit_py first), (''different_request'', conformance_submit_py second)])) (\<lambda>x.
     Inr (x, s)))))"

definition lookup_identity_case :: "hash \<Rightarrow> 's conformance_target \<Rightarrow> string \<Rightarrow> string \<Rightarrow> string \<Rightarrow> 's \<Rightarrow>
   (conformance_case \<times> 's) exc" where
  "lookup_identity_case h t iid rd drd s =
     ebind (ft_reset t s) (\<lambda>s.
     ebind (ft_submit t iid rd s) (\<lambda>(submitted, s).
     ebind (ft_lookup t iid rd s) (\<lambda>(correct, s).
     ebind (ft_lookup t iid drd s) (\<lambda>(wrong, s).
     ebind (make_case h ''lookup_identity_binding''
       (fs_status submitted = ''accepted'' \<and> fl_status correct = ''accepted'' \<and>
        fl_provider_invocation_id correct = fs_provider_invocation_id submitted \<and> fl_status wrong = ''identity_mismatch'')
       (PDict [(''submit'', conformance_submit_py submitted), (''correct_lookup'', conformance_lookup_py correct),
         (''wrong_request_lookup'', conformance_lookup_py wrong)])) (\<lambda>x.
     Inr (x, s))))))"

definition absence_case :: "hash \<Rightarrow> 's conformance_target \<Rightarrow> string \<Rightarrow> string \<Rightarrow> 's \<Rightarrow> (conformance_case \<times> 's) exc" where
  "absence_case h t iid rd s =
     ebind (ft_reset t s) (\<lambda>s.
     ebind (ft_lookup t iid rd s) (\<lambda>(before, s).
     ebind (ft_submit t iid rd s) (\<lambda>(submitted, s).
     ebind (ft_lookup t iid rd s) (\<lambda>(after, s).
     ebind (make_case h ''absence_semantics''
       (fl_status before = ''absent'' \<and> fs_status submitted = ''accepted'' \<and> fl_status after = ''accepted'' \<and>
        fl_provider_invocation_id after = fs_provider_invocation_id submitted)
       (PDict [(''before'', conformance_lookup_py before), (''submit'', conformance_submit_py submitted), (''after'', conformance_lookup_py after)])) (\<lambda>x.
     Inr (x, s))))))"

definition terminal_case :: "hash \<Rightarrow> 's conformance_target \<Rightarrow> string \<Rightarrow> string \<Rightarrow> string \<Rightarrow> 's \<Rightarrow> (conformance_case \<times> 's) exc" where
  "terminal_case h t iid rd ted s =
     ebind (ft_reset t s) (\<lambda>s.
     ebind (ft_submit t iid rd s) (\<lambda>(submitted, s).
     ebind (if fs_status submitted = ''accepted'' then ft_mark_terminal t iid rd ted s else Inr s) (\<lambda>s.
     ebind (ft_lookup t iid rd s) (\<lambda>(terminal, s).
     ebind (make_case h ''terminal_evidence_binding''
       (fs_status submitted = ''accepted'' \<and> fl_status terminal = ''terminal'' \<and>
        fl_provider_invocation_id terminal = fs_provider_invocation_id submitted \<and> fl_terminal_evidence_digest terminal = Some ted)
       (PDict [(''submit'', conformance_submit_py submitted), (''terminal_lookup'', conformance_lookup_py terminal)])) (\<lambda>x.
     Inr (x, s))))))"

definition run_cases :: "hash \<Rightarrow> reconciliation_contract \<Rightarrow> 's conformance_target \<Rightarrow> string \<Rightarrow> string \<Rightarrow> string \<Rightarrow> string \<Rightarrow> 's \<Rightarrow>
   (conformance_case list \<times> 's) exc" where
  "run_cases h c t iid rd drd ted s =
     ebind (same_request_case h c t iid rd s) (\<lambda>(same, s).
     ebind (different_request_case h c t iid rd drd s) (\<lambda>(different, s).
     ebind (lookup_identity_case h t iid rd drd s) (\<lambda>(identity, s).
     ebind (absence_case h t iid rd s) (\<lambda>(absence, s).
     if kc_terminal_evidence_lookup c
     then ebind (terminal_case h t iid rd ted s) (\<lambda>(terminal, s). Inr ([same, different, identity, absence, terminal], s))
     else Inr ([same, different, identity, absence], s)))))"

definition harness_evidence :: "hash \<Rightarrow> reconciliation_contract \<Rightarrow> 's conformance_target \<Rightarrow> conformance_case list \<Rightarrow> conformance_evidence" where
  "harness_evidence h c t cases =
     \<lparr>ne_contract_digest = reconciliation_contract_digest h c, ne_adapter_revision = ft_adapter_revision t,
      ne_environment_scope = ft_environment_scope t, ne_cases = cases, ne_suite_version = suite_version,
      ne_schema_version = ''ge.provider-conformance-evidence.v1''\<rparr>"

definition harness_run :: "hash \<Rightarrow> reconciliation_contract \<Rightarrow> 's conformance_target \<Rightarrow> conformance_evidence \<Rightarrow> conformance_run" where
  "harness_run h c t e =
     \<lparr>fr_harness_version = harness_version, fr_contract_digest = reconciliation_contract_digest h c, fr_provider = ft_provider t,
      fr_adapter = ft_adapter t, fr_adapter_version = ft_adapter_version t, fr_adapter_revision = ft_adapter_revision t,
      fr_environment_scope = ft_environment_scope t, fr_case_results = ne_cases e,
      fr_conformance_evidence_digest = conformance_evidence_digest h e,
      fr_all_required_cases_passed = list_all nc_passed (ne_cases e), fr_schema_version = ''ge.provider-conformance-run.v1''\<rparr>"

definition run_provider_conformance :: "hash \<Rightarrow> reconciliation_contract \<Rightarrow> 's conformance_target \<Rightarrow> string \<Rightarrow> string \<Rightarrow> string \<Rightarrow> string \<Rightarrow>
   's \<Rightarrow> (conformance_evidence \<times> conformance_run \<times> 's) exc" where
  "run_provider_conformance h c t iid rd drd ted s =
     ebind (target_identity c t) (\<lambda>_.
     ebind (check_nonempty ''invocation_id'' iid) (\<lambda>_.
     ebind (lower_digest ''request_digest'' rd) (\<lambda>_.
     ebind (lower_digest ''different_request_digest'' drd) (\<lambda>_.
     ebind (lower_digest ''terminal_evidence_digest'' ted) (\<lambda>_.
     if rd = drd then Inl (ConformanceHarnessError ''conformance requests must have distinct digests'')
     else
     ebind (run_cases h c t iid rd drd ted s) (\<lambda>(cases, s).
     ebind (conformance_evidence_init (harness_evidence h c t cases)) (\<lambda>e.
     ebind (conformance_run_init (harness_run h c t e)) (\<lambda>r.
     Inr (e, r, s)))))))))"

section \<open>The reference target\<close>

record reference_operation =
  fp_invocation_id :: string
  fp_request_digest :: string
  fp_provider_invocation_id :: string
  fp_terminal_evidence_digest :: "string option"

record reference_state =
  fk_operations :: "string \<rightharpoonup> reference_operation list"
  fk_ordinal :: int

text \<open>The instance attributes that \<open>__init__\<close> sets and no method changes.\<close>

record reference_config =
  fc_adapter_revision :: string
  fc_same_key_same_request :: string

definition reference_reset :: "reference_state \<Rightarrow> reference_state" where
  "reference_reset s = \<lparr>fk_operations = Map.empty, fk_ordinal = 0\<rparr>"

definition reference_target_init :: "reference_config \<Rightarrow> (reference_config \<times> reference_state) exc" where
  "reference_target_init k =
     (if fc_same_key_same_request k \<notin> set same_request_semantics
      then Inl (ValueError ''unsupported reference duplicate semantics'')
      else ebind (harness_revision ''adapter_revision'' (fc_adapter_revision k)) (\<lambda>_.
      Inr (k, \<lparr>fk_operations = Map.empty, fk_ordinal = 0\<rparr>)))"

definition reference_result_digest :: "hash \<Rightarrow> string \<Rightarrow> pyval \<Rightarrow> string" where
  "reference_result_digest h kind payload = sha256_digest h (PDict [(''target'', PStr ''ge.reference-conformance-target.v1''),
     (''kind'', PStr kind), (''payload'', payload)])"

definition existing_operations :: "reference_state \<Rightarrow> string \<Rightarrow> reference_operation list" where
  "existing_operations s iid = (case fk_operations s iid of None \<Rightarrow> [] | Some xs \<Rightarrow> xs)"

definition new_operation :: "hash \<Rightarrow> string \<Rightarrow> string \<Rightarrow> reference_state \<Rightarrow> reference_operation \<times> reference_state" where
  "new_operation h iid rd s = (let
     ordinal = fk_ordinal s + 1;
     operation = \<lparr>fp_invocation_id = iid, fp_request_digest = rd,
       fp_provider_invocation_id = stable_id h ''refop'' (PDict [(''invocation_id'', PStr iid), (''request_digest'', PStr rd),
         (''ordinal'', PInt ordinal)]), fp_terminal_evidence_digest = None\<rparr> in
     (operation, s\<lparr>fk_operations := (fk_operations s)(iid \<mapsto> existing_operations s iid @ [operation]), fk_ordinal := ordinal\<rparr>))"

definition submit_answer :: "string \<Rightarrow> string \<Rightarrow> string \<Rightarrow> string option \<Rightarrow> string \<Rightarrow> conformance_submit exc" where
  "submit_answer iid rd status pid evidence = conformance_submit_init
     \<lparr>fs_invocation_id = iid, fs_request_digest = rd, fs_status = status, fs_provider_invocation_id = pid,
      fs_evidence_digest = evidence, fs_schema_version = ''ge.conformance-submit-result.v1''\<rparr>"

definition reference_submit :: "hash \<Rightarrow> reference_config \<Rightarrow> string \<Rightarrow> string \<Rightarrow> reference_state \<Rightarrow> (conformance_submit \<times> reference_state) exc" where
  "reference_submit h k iid rd s =
     ebind (check_nonempty ''invocation_id'' iid) (\<lambda>_.
     ebind (lower_digest ''request_digest'' rd) (\<lambda>_.
     let accept = (\<lambda>(operation, s). ebind (submit_answer iid rd ''accepted'' (Some (fp_provider_invocation_id operation))
       (reference_result_digest h ''accepted'' (PStr (fp_provider_invocation_id operation)))) (\<lambda>r. Inr (r, s))) in
     case existing_operations s iid of
       [] \<Rightarrow> accept (new_operation h iid rd s)
     | canonical # _ \<Rightarrow>
         if fp_request_digest canonical \<noteq> rd
         then ebind (submit_answer iid rd ''different_request_rejected'' None
           (reference_result_digest h ''different_request_rejected'' (PTuple [PStr iid, PStr rd]))) (\<lambda>r. Inr (r, s))
         else if fc_same_key_same_request k = ''duplicate_rejected''
         then ebind (submit_answer iid rd ''duplicate_rejected'' None
           (reference_result_digest h ''duplicate_rejected'' (PStr (fp_provider_invocation_id canonical)))) (\<lambda>r. Inr (r, s))
         else if fc_same_key_same_request k = ''same_operation'' then accept (canonical, s)
         else accept (new_operation h iid rd s)))"

definition lookup_answer :: "string \<Rightarrow> string \<Rightarrow> string \<Rightarrow> string option \<Rightarrow> string option \<Rightarrow> string \<Rightarrow> conformance_lookup exc" where
  "lookup_answer iid rd status pid terminal evidence = conformance_lookup_init
     \<lparr>fl_invocation_id = iid, fl_request_digest = rd, fl_status = status, fl_provider_invocation_id = pid,
      fl_terminal_evidence_digest = terminal, fl_evidence_digest = evidence, fl_schema_version = ''ge.conformance-lookup-result.v1''\<rparr>"

definition reference_lookup :: "hash \<Rightarrow> string \<Rightarrow> string \<Rightarrow> reference_state \<Rightarrow> conformance_lookup exc" where
  "reference_lookup h iid rd s =
     ebind (check_nonempty ''invocation_id'' iid) (\<lambda>_.
     ebind (lower_digest ''request_digest'' rd) (\<lambda>_.
     case existing_operations s iid of
       [] \<Rightarrow> lookup_answer iid rd ''absent'' None None (reference_result_digest h ''absent'' (PTuple [PStr iid, PStr rd]))
     | canonical # others \<Rightarrow>
         if fp_request_digest canonical \<noteq> rd
         then lookup_answer iid rd ''identity_mismatch'' None None
           (reference_result_digest h ''identity_mismatch'' (PTuple [PStr iid, PStr rd]))
         else if others \<noteq> []
         then lookup_answer iid rd ''unknown'' None None (reference_result_digest h ''ambiguous_multiple_operations''
           (PTuple (map (\<lambda>x. PStr (fp_provider_invocation_id x)) (canonical # others))))
         else case fp_terminal_evidence_digest canonical of
           Some d \<Rightarrow> lookup_answer iid rd ''terminal'' (Some (fp_provider_invocation_id canonical)) (Some d)
             (reference_result_digest h ''terminal'' (PStr (fp_provider_invocation_id canonical)))
         | None \<Rightarrow> lookup_answer iid rd ''accepted'' (Some (fp_provider_invocation_id canonical)) None
             (reference_result_digest h ''accepted_lookup'' (PStr (fp_provider_invocation_id canonical)))))"

definition reference_mark_terminal :: "string \<Rightarrow> string \<Rightarrow> string \<Rightarrow> reference_state \<Rightarrow> reference_state exc" where
  "reference_mark_terminal iid rd ted s =
     ebind (check_nonempty ''invocation_id'' iid) (\<lambda>_.
     ebind (lower_digest ''request_digest'' rd) (\<lambda>_.
     ebind (lower_digest ''terminal_evidence_digest'' ted) (\<lambda>_.
     case existing_operations s iid of
       [canonical] \<Rightarrow>
         if fp_request_digest canonical \<noteq> rd
         then Inl (ConformanceHarnessError ''reference target cannot terminalize unknown or ambiguous invocation'')
         else Inr (s\<lparr>fk_operations := (fk_operations s)(iid \<mapsto> [canonical\<lparr>fp_terminal_evidence_digest := Some ted\<rparr>])\<rparr>)
     | _ \<Rightarrow> Inl (ConformanceHarnessError ''reference target cannot terminalize unknown or ambiguous invocation''))))"

definition reference_target :: "hash \<Rightarrow> reference_config \<Rightarrow> reference_state conformance_target" where
  "reference_target h k =
     \<lparr>ft_provider = ''reference-provider'', ft_adapter = ''reference-adapter'', ft_adapter_version = ''1'',
      ft_adapter_revision = fc_adapter_revision k, ft_environment_scope = ''sandbox'',
      ft_reset = (\<lambda>s. Inr (reference_reset s)), ft_submit = reference_submit h k,
      ft_lookup = (\<lambda>iid rd s. ebind (reference_lookup h iid rd s) (\<lambda>r. Inr (r, s))),
      ft_mark_terminal = reference_mark_terminal\<rparr>"

section \<open>What a run reports\<close>

lemma make_case_ok:
  assumes "hex_digest h" and "k \<in> set allowed_cases"
  shows "make_case h k passed transcript = Inr \<lparr>nc_case_id = k, nc_passed = passed,
      nc_evidence_digest = sha256_digest h (PDict [(''harness_version'', PStr harness_version), (''case_id'', PStr k),
        (''transcript'', transcript)]),
      nc_detail = '''', nc_schema_version = ''ge.provider-conformance-case.v1''\<rparr>"
  using assms(2) lower_digest_sha256 [OF assms(1)]
  by (simp add: make_case_def conformance_case_init_def lower_digest_def)

lemma make_case_id: "make_case h k passed transcript = Inr x \<Longrightarrow> nc_case_id x = k"
  by (auto simp: make_case_def conformance_case_init_def ebind_eq_Inr raise_unless_eq)

lemma case_ids:
  "same_request_case h c t iid rd s = Inr (x, s') \<Longrightarrow> nc_case_id x = ''same_request_semantics''"
  "different_request_case h c t iid rd drd s = Inr (x, s') \<Longrightarrow> nc_case_id x = ''different_request_rejection''"
  "lookup_identity_case h t iid rd drd s = Inr (x, s') \<Longrightarrow> nc_case_id x = ''lookup_identity_binding''"
  "absence_case h t iid rd s = Inr (x, s') \<Longrightarrow> nc_case_id x = ''absence_semantics''"
  "terminal_case h t iid rd ted s = Inr (x, s') \<Longrightarrow> nc_case_id x = ''terminal_evidence_binding''"
  unfolding same_request_case_def different_request_case_def lookup_identity_case_def absence_case_def terminal_case_def
  by (auto simp: ebind_eq_Inr dest: make_case_id)

lemma run_cases_ids:
  assumes "run_cases h c t iid rd drd ted s = Inr (cases, s')"
  shows "map nc_case_id cases = required_cases c"
  using assms unfolding run_cases_def ebind_eq_Inr
  by (auto simp: required_cases_def mandatory_cases_def ebind_eq_Inr dest!: case_ids split: if_splits)

lemma conformance_evidence_same: "conformance_evidence_init x = Inr y \<Longrightarrow> y = x"
  unfolding conformance_evidence_init_def Let_def by (auto simp: ebind_eq_Inr raise_unless_eq)

lemma conformance_run_same: "conformance_run_init x = Inr y \<Longrightarrow> y = x"
  unfolding conformance_run_init_def Let_def by (auto simp: ebind_eq_Inr raise_unless_eq)

lemma run_conformance_Inr:
  assumes "run_provider_conformance h c t iid rd drd ted s = Inr (e, r, s')"
  obtains cases where "run_cases h c t iid rd drd ted s = Inr (cases, s')" and "e = harness_evidence h c t cases"
    and "conformance_evidence_init e = Inr e" and "r = harness_run h c t e" and "rd \<noteq> drd"
  using assms unfolding run_provider_conformance_def
  by (auto simp: ebind_eq_Inr raise_unless_eq dest: conformance_evidence_same conformance_run_same)

lemma cases_passed:
  assumes "map nc_case_id (ne_cases e) = required_cases c"
  shows "list_all nc_passed (ne_cases e) \<longleftrightarrow> (\<forall>k\<in>set (required_cases c). \<exists>x\<in>set (ne_cases e). nc_case_id x = k \<and> nc_passed x)"
proof -
  have distinct: "distinct (map nc_case_id (ne_cases e))" using required_distinct [of c] by (simp add: assms)
  have "x = y" if "x \<in> set (ne_cases e)" "y \<in> set (ne_cases e)" "nc_case_id x = nc_case_id y" for x y
    using distinct that by (auto simp: distinct_map inj_on_def)
  then show ?thesis unfolding assms [symmetric] list_all_iff by (auto simp: image_iff) metis
qed

section \<open>A faithful target\<close>

text \<open>
  The contract of a target with strongly idempotent semantics. \<open>known\<close> is what the target knows of an invocation: the
  request it was submitted with, the provider's identifier and the terminal evidence; \<open>ok\<close> is an invariant of its
  states, \<open>usable\<close> says which identifiers and digests it accepts.
\<close>

locale faithful_target =
  fixes t :: "'s conformance_target" and known :: "'s \<Rightarrow> string \<Rightarrow> (string \<times> string \<times> string option) option"
    and ok :: "'s \<Rightarrow> bool" and usable :: "string \<Rightarrow> string \<Rightarrow> bool" and semantics :: string
  assumes reset: "\<exists>s'. ft_reset t s = Inr s' \<and> ok s' \<and> known s' iid = None"
    and submit_new: "ok s \<Longrightarrow> usable iid rd \<Longrightarrow> known s iid = None \<Longrightarrow>
      \<exists>r s' pid. ft_submit t iid rd s = Inr (r, s') \<and> fs_status r = ''accepted'' \<and> fs_provider_invocation_id r = Some pid \<and> pid \<noteq> [] \<and>
        ok s' \<and> known s' iid = Some (rd, pid, None)"
    and submit_again: "ok s \<Longrightarrow> usable iid rd \<Longrightarrow> known s iid = Some (rd, pid, d) \<Longrightarrow>
      \<exists>r s'. ft_submit t iid rd s = Inr (r, s') \<and> ok s' \<and> known s' iid = Some (rd, pid, d) \<and>
        (if semantics = ''same_operation'' then fs_status r = ''accepted'' \<and> fs_provider_invocation_id r = Some pid
         else semantics = ''duplicate_rejected'' \<and> fs_status r = ''duplicate_rejected'')"
    and submit_other: "ok s \<Longrightarrow> usable iid rd \<Longrightarrow> known s iid = Some (rd', pid, d) \<Longrightarrow> rd' \<noteq> rd \<Longrightarrow>
      \<exists>r s'. ft_submit t iid rd s = Inr (r, s') \<and> ok s' \<and> known s' iid = Some (rd', pid, d) \<and> fs_status r = ''different_request_rejected''"
    and lookup_absent: "ok s \<Longrightarrow> usable iid rd \<Longrightarrow> known s iid = None \<Longrightarrow>
      \<exists>r s'. ft_lookup t iid rd s = Inr (r, s') \<and> ok s' \<and> known s' iid = None \<and> fl_status r = ''absent''"
    and lookup_found: "ok s \<Longrightarrow> usable iid rd \<Longrightarrow> known s iid = Some (rd, pid, d) \<Longrightarrow>
      \<exists>r s'. ft_lookup t iid rd s = Inr (r, s') \<and> ok s' \<and> known s' iid = Some (rd, pid, d) \<and> fl_provider_invocation_id r = Some pid \<and>
        (if d = None then fl_status r = ''accepted'' else fl_status r = ''terminal'' \<and> fl_terminal_evidence_digest r = d)"
    and lookup_other: "ok s \<Longrightarrow> usable iid rd \<Longrightarrow> known s iid = Some (rd', pid, d) \<Longrightarrow> rd' \<noteq> rd \<Longrightarrow>
      \<exists>r s'. ft_lookup t iid rd s = Inr (r, s') \<and> ok s' \<and> known s' iid = Some (rd', pid, d) \<and> fl_status r = ''identity_mismatch''"
    and terminal: "ok s \<Longrightarrow> usable iid rd \<Longrightarrow> usable iid ted \<Longrightarrow> known s iid = Some (rd, pid, d) \<Longrightarrow>
      \<exists>s'. ft_mark_terminal t iid rd ted s = Inr s' \<and> ok s' \<and> known s' iid = Some (rd, pid, Some ted)"
begin

lemma started:
  assumes "usable iid rd"
  obtains s1 r s2 pid where "ft_reset t s = Inr s1" and "ok s1" and "known s1 iid = None" and "ft_submit t iid rd s1 = Inr (r, s2)"
    and "fs_status r = ''accepted''" and "fs_provider_invocation_id r = Some pid" and "pid \<noteq> []" and "ok s2"
    and "known s2 iid = Some (rd, pid, None)"
  using reset [of s iid] submit_new [OF _ assms] by blast

lemma same_request:
  assumes "hex_digest h" and "usable iid rd" and "kc_same_key_same_request c \<in> set same_request_semantics"
  shows "\<exists>x s'. same_request_case h c t iid rd s = Inr (x, s') \<and> nc_case_id x = ''same_request_semantics'' \<and>
    (nc_passed x \<longleftrightarrow> kc_same_key_same_request c = semantics)"
proof (rule started [OF assms(2), of s])
  fix s1 r s2 pid
  assume first: "ft_reset t s = Inr s1" "ft_submit t iid rd s1 = Inr (r, s2)" "fs_status r = ''accepted''"
    "fs_provider_invocation_id r = Some pid" "pid \<noteq> []" "ok s2" "known s2 iid = Some (rd, pid, None)"
  obtain r' s' where second: "ft_submit t iid rd s2 = Inr (r', s')"
      "if semantics = ''same_operation'' then fs_status r' = ''accepted'' \<and> fs_provider_invocation_id r' = Some pid
       else semantics = ''duplicate_rejected'' \<and> fs_status r' = ''duplicate_rejected''"
    using submit_again [OF first(6) assms(2) first(7)] by blast
  have "same_request_passed c r r' \<longleftrightarrow> kc_same_key_same_request c = semantics"
    using first(3-5) second(2) assms(3) by (auto simp: same_request_passed_def empty_opt_def same_request_semantics_def split: if_splits)
  moreover have "''same_request_semantics'' \<in> set allowed_cases" by (simp add: allowed_cases_def mandatory_cases_def)
  ultimately show ?thesis
    by (simp add: same_request_case_def first(1,2) second(1) make_case_ok [OF assms(1)])
qed

lemma different_request:
  assumes "hex_digest h" and "usable iid rd" and "usable iid drd" and "rd \<noteq> drd" and "kc_same_key_different_request c = ''reject''"
  shows "\<exists>x s'. different_request_case h c t iid rd drd s = Inr (x, s') \<and> nc_case_id x = ''different_request_rejection'' \<and> nc_passed x"
proof (rule started [OF assms(2), of s])
  fix s1 r s2 pid
  assume first: "ft_reset t s = Inr s1" "ft_submit t iid rd s1 = Inr (r, s2)" "fs_status r = ''accepted''" "ok s2" "known s2 iid = Some (rd, pid, None)"
  obtain r' s' where second: "ft_submit t iid drd s2 = Inr (r', s')" "fs_status r' = ''different_request_rejected''"
    using submit_other [OF first(4) assms(3) first(5) assms(4)] by blast
  have "''different_request_rejection'' \<in> set allowed_cases" by (simp add: allowed_cases_def mandatory_cases_def)
  then show ?thesis
    by (simp add: different_request_case_def first(1-3) second assms(5) make_case_ok [OF assms(1)])
qed

lemma lookup_identity:
  assumes "hex_digest h" and "usable iid rd" and "usable iid drd" and "rd \<noteq> drd"
  shows "\<exists>x s'. lookup_identity_case h t iid rd drd s = Inr (x, s') \<and> nc_case_id x = ''lookup_identity_binding'' \<and> nc_passed x"
proof (rule started [OF assms(2), of s])
  fix s1 r s2 pid
  assume first: "ft_reset t s = Inr s1" "ft_submit t iid rd s1 = Inr (r, s2)" "fs_status r = ''accepted''"
    "fs_provider_invocation_id r = Some pid" "ok s2" "known s2 iid = Some (rd, pid, None)"
  obtain r' s3 where correct: "ft_lookup t iid rd s2 = Inr (r', s3)" "ok s3" "known s3 iid = Some (rd, pid, None)"
      "fl_provider_invocation_id r' = Some pid" "fl_status r' = ''accepted''"
    using lookup_found [OF first(5) assms(2) first(6)] by auto
  obtain r'' s' where wrong: "ft_lookup t iid drd s3 = Inr (r'', s')" "fl_status r'' = ''identity_mismatch''"
    using lookup_other [OF correct(2) assms(3) correct(3) assms(4)] by blast
  have "''lookup_identity_binding'' \<in> set allowed_cases" by (simp add: allowed_cases_def mandatory_cases_def)
  then show ?thesis
    by (simp add: lookup_identity_case_def first(1-4) correct(1,4,5) wrong make_case_ok [OF assms(1)])
qed

lemma absence:
  assumes "hex_digest h" and "usable iid rd"
  shows "\<exists>x s'. absence_case h t iid rd s = Inr (x, s') \<and> nc_case_id x = ''absence_semantics'' \<and> nc_passed x"
proof -
  obtain s1 where s1: "ft_reset t s = Inr s1" "ok s1" "known s1 iid = None" using reset by blast
  obtain r0 s2 where before: "ft_lookup t iid rd s1 = Inr (r0, s2)" "ok s2" "known s2 iid = None" "fl_status r0 = ''absent''"
    using lookup_absent [OF s1(2) assms(2) s1(3)] by blast
  obtain r s3 pid where submitted: "ft_submit t iid rd s2 = Inr (r, s3)" "fs_status r = ''accepted''" "fs_provider_invocation_id r = Some pid"
      "ok s3" "known s3 iid = Some (rd, pid, None)"
    using submit_new [OF before(2) assms(2) before(3)] by blast
  obtain r' s' where found: "ft_lookup t iid rd s3 = Inr (r', s')" "fl_provider_invocation_id r' = Some pid" "fl_status r' = ''accepted''"
    using lookup_found [OF submitted(4) assms(2) submitted(5)] by auto
  have "''absence_semantics'' \<in> set allowed_cases" by (simp add: allowed_cases_def mandatory_cases_def)
  then show ?thesis
    by (simp add: absence_case_def s1(1) before(1,4) submitted(1-3) found make_case_ok [OF assms(1)])
qed

lemma terminal_evidence:
  assumes "hex_digest h" and "usable iid rd" and "usable iid ted"
  shows "\<exists>x s'. terminal_case h t iid rd ted s = Inr (x, s') \<and> nc_case_id x = ''terminal_evidence_binding'' \<and> nc_passed x"
proof (rule started [OF assms(2), of s])
  fix s1 r s2 pid
  assume first: "ft_reset t s = Inr s1" "ft_submit t iid rd s1 = Inr (r, s2)" "fs_status r = ''accepted''"
    "fs_provider_invocation_id r = Some pid" "ok s2" "known s2 iid = Some (rd, pid, None)"
  obtain s3 where marked: "ft_mark_terminal t iid rd ted s2 = Inr s3" "ok s3" "known s3 iid = Some (rd, pid, Some ted)"
    using terminal [OF first(5) assms(2,3) first(6)] by blast
  obtain r' s' where found: "ft_lookup t iid rd s3 = Inr (r', s')" "fl_provider_invocation_id r' = Some pid" "fl_status r' = ''terminal''"
      "fl_terminal_evidence_digest r' = Some ted"
    using lookup_found [OF marked(2) assms(2) marked(3)] by auto
  have "''terminal_evidence_binding'' \<in> set allowed_cases" by (simp add: allowed_cases_def)
  then show ?thesis
    by (simp add: terminal_case_def first(1-4) marked(1) found make_case_ok [OF assms(1)])
qed

lemma faithful_cases:
  assumes "hex_digest h" and "usable iid rd" and "usable iid drd" and "usable iid ted" and "rd \<noteq> drd"
    and "kc_same_key_same_request c \<in> set same_request_semantics" and "kc_same_key_different_request c = ''reject''"
  shows "\<exists>cases s'. run_cases h c t iid rd drd ted s = Inr (cases, s') \<and>
    (list_all nc_passed cases \<longleftrightarrow> kc_same_key_same_request c = semantics)"
proof -
  obtain x1 s1 where 1: "same_request_case h c t iid rd s = Inr (x1, s1)" "nc_passed x1 \<longleftrightarrow> kc_same_key_same_request c = semantics"
    using same_request [OF assms(1,2,6)] by blast
  obtain x2 s2 where 2: "different_request_case h c t iid rd drd s1 = Inr (x2, s2)" "nc_passed x2"
    using different_request [OF assms(1,2,3,5,7)] by blast
  obtain x3 s3 where 3: "lookup_identity_case h t iid rd drd s2 = Inr (x3, s3)" "nc_passed x3"
    using lookup_identity [OF assms(1,2,3,5)] by blast
  obtain x4 s4 where 4: "absence_case h t iid rd s3 = Inr (x4, s4)" "nc_passed x4" using absence [OF assms(1,2)] by blast
  obtain x5 s5 where 5: "terminal_case h t iid rd ted s4 = Inr (x5, s5)" "nc_passed x5" using terminal_evidence [OF assms(1,2,4)] by blast
  show ?thesis using 1 2 3 4 5 by (simp add: run_cases_def)
qed

end

section \<open>The reference target is faithful\<close>

definition reference_known :: "reference_state \<Rightarrow> string \<Rightarrow> (string \<times> string \<times> string option) option" where
  "reference_known s iid = (case existing_operations s iid of [] \<Rightarrow> None
     | x # _ \<Rightarrow> Some (fp_request_digest x, fp_provider_invocation_id x, fp_terminal_evidence_digest x))"

text \<open>At most one operation, with a provider identifier and, when it is terminal, a digest of its evidence.\<close>

definition operations_ok :: "reference_operation list \<Rightarrow> bool" where
  "operations_ok xs \<longleftrightarrow> length xs \<le> 1 \<and> (\<forall>x\<in>set xs. fp_provider_invocation_id x \<noteq> [] \<and>
     (\<forall>d. fp_terminal_evidence_digest x = Some d \<longrightarrow> lower_digest [] d = Inr ()))"

definition reference_ok :: "reference_state \<Rightarrow> bool" where
  "reference_ok s \<longleftrightarrow> (\<forall>iid. operations_ok (existing_operations s iid))"

definition reference_usable :: "hash \<Rightarrow> reference_config \<Rightarrow> string \<Rightarrow> string \<Rightarrow> bool" where
  "reference_usable h k iid rd \<longleftrightarrow> hex_digest h \<and> fc_same_key_same_request k \<in> {''same_operation'', ''duplicate_rejected''} \<and>
     \<not> blank iid \<and> lower_digest [] rd = Inr ()"

lemma lower_digest_name: "lower_digest n v = Inr u \<longleftrightarrow> lower_digest [] v = Inr ()"
  by (simp add: lower_digest_Inr)

lemma reference_known_None: "reference_known s iid = None \<longleftrightarrow> existing_operations s iid = []"
  by (simp add: reference_known_def split: list.splits)

lemma reference_known_Some:
  assumes "reference_ok s" and "reference_known s iid = Some (rd, pid, d)"
  obtains x where "existing_operations s iid = [x]" and "fp_request_digest x = rd" and "fp_provider_invocation_id x = pid"
    and "fp_terminal_evidence_digest x = d" and "pid \<noteq> []" and "d \<noteq> None \<longrightarrow> lower_digest [] (the d) = Inr ()"
proof -
  obtain x xs where x: "existing_operations s iid = x # xs" "rd = fp_request_digest x" "pid = fp_provider_invocation_id x"
      "d = fp_terminal_evidence_digest x"
    using assms(2) by (auto simp: reference_known_def split: list.splits)
  have "operations_ok (x # xs)" using assms(1) x(1) by (metis reference_ok_def)
  then have "xs = []" "pid \<noteq> []" "d \<noteq> None \<longrightarrow> lower_digest [] (the d) = Inr ()" using x(3,4) by (auto simp: operations_ok_def)
  with x that show ?thesis by blast
qed

lemma submit_answer_ok:
  assumes "reference_usable h k iid rd" and "status = ''accepted'' \<longrightarrow> \<not> empty_opt pid" and "status \<noteq> ''accepted'' \<longrightarrow> pid = None"
  shows "submit_answer iid rd status pid (reference_result_digest h kind payload) = Inr
     \<lparr>fs_invocation_id = iid, fs_request_digest = rd, fs_status = status, fs_provider_invocation_id = pid,
      fs_evidence_digest = reference_result_digest h kind payload, fs_schema_version = ''ge.conformance-submit-result.v1''\<rparr>"
  using assms lower_digest_sha256 [of h]
  by (auto simp: submit_answer_def conformance_submit_init_def ebind_eq_Inr check_nonempty_Inr lower_digest_Inr reference_usable_def
      reference_result_digest_def)

lemma lookup_answer_ok:
  assumes "reference_usable h k iid rd" and "status \<in> {''accepted'', ''terminal''} \<longrightarrow> \<not> empty_opt pid"
    and "status = ''terminal'' \<longleftrightarrow> d \<noteq> None" and "d \<noteq> None \<longrightarrow> lower_digest [] (the d) = Inr ()"
  shows "lookup_answer iid rd status pid d (reference_result_digest h kind payload) = Inr
     \<lparr>fl_invocation_id = iid, fl_request_digest = rd, fl_status = status, fl_provider_invocation_id = pid, fl_terminal_evidence_digest = d,
      fl_evidence_digest = reference_result_digest h kind payload, fl_schema_version = ''ge.conformance-lookup-result.v1''\<rparr>"
proof -
  have "d \<noteq> None \<longrightarrow> \<not> empty_opt d" using assms(4) by (auto simp: empty_opt_def lower_digest_Inr)
  then show ?thesis
    using assms lower_digest_sha256 [of h]
    by (cases d) (auto simp: lookup_answer_def conformance_lookup_init_def ebind_eq_Inr check_nonempty_Inr lower_digest_Inr reference_usable_def
        reference_result_digest_def)
qed

lemma usable_checks:
  assumes "reference_usable h k iid rd"
  shows "check_nonempty n iid = Inr ()" "lower_digest n rd = Inr ()"
  using assms by (simp_all add: reference_usable_def check_nonempty_Inr lower_digest_name [of n])

lemma replaced_operation:
  assumes "reference_ok s" and "operations_ok [x]"
  shows "reference_ok (s\<lparr>fk_operations := (fk_operations s)(iid \<mapsto> [x]), fk_ordinal := n\<rparr>)"
    and "reference_known (s\<lparr>fk_operations := (fk_operations s)(iid \<mapsto> [x]), fk_ordinal := n\<rparr>) iid =
      Some (fp_request_digest x, fp_provider_invocation_id x, fp_terminal_evidence_digest x)"
proof -
  have ops: "existing_operations (s\<lparr>fk_operations := (fk_operations s)(iid \<mapsto> [x]), fk_ordinal := n\<rparr>) i =
      (if i = iid then [x] else existing_operations s i)" for i
    by (simp add: existing_operations_def)
  show "reference_ok (s\<lparr>fk_operations := (fk_operations s)(iid \<mapsto> [x]), fk_ordinal := n\<rparr>)"
    using assms unfolding reference_ok_def ops by simp
  show "reference_known (s\<lparr>fk_operations := (fk_operations s)(iid \<mapsto> [x]), fk_ordinal := n\<rparr>) iid =
      Some (fp_request_digest x, fp_provider_invocation_id x, fp_terminal_evidence_digest x)"
    unfolding reference_known_def ops by simp
qed

lemma new_operation_facts:
  assumes "existing_operations s iid = []" and "reference_ok s"
  shows "\<exists>x s'. new_operation h iid rd s = (x, s') \<and> fp_provider_invocation_id x \<noteq> [] \<and> reference_ok s' \<and>
    reference_known s' iid = Some (rd, fp_provider_invocation_id x, None)"
proof -
  obtain x where x: "new_operation h iid rd s = (x, s\<lparr>fk_operations := (fk_operations s)(iid \<mapsto> [x]), fk_ordinal := fk_ordinal s + 1\<rparr>)"
      "fp_provider_invocation_id x \<noteq> []" "fp_request_digest x = rd" "fp_terminal_evidence_digest x = None"
    using assms(1) by (simp add: new_operation_def Let_def stable_id_def)
  have "operations_ok [x]" using x(2,4) by (simp add: operations_ok_def)
  then show ?thesis using replaced_operation [OF assms(2), where x = x and iid = iid and n = "fk_ordinal s + 1"] x by simp
qed

lemma marked_operation:
  assumes "existing_operations s iid = [x]" and "reference_ok s" and "lower_digest [] ted = Inr ()"
  shows "reference_ok (s\<lparr>fk_operations := (fk_operations s)(iid \<mapsto> [x\<lparr>fp_terminal_evidence_digest := Some ted\<rparr>])\<rparr>)"
    and "reference_known (s\<lparr>fk_operations := (fk_operations s)(iid \<mapsto> [x\<lparr>fp_terminal_evidence_digest := Some ted\<rparr>])\<rparr>) iid =
      Some (fp_request_digest x, fp_provider_invocation_id x, Some ted)"
proof -
  have "operations_ok [x]" using assms(1,2) by (metis reference_ok_def)
  then have "operations_ok [x\<lparr>fp_terminal_evidence_digest := Some ted\<rparr>]" using assms(3) by (simp add: operations_ok_def)
  moreover have "s\<lparr>fk_operations := f, fk_ordinal := fk_ordinal s\<rparr> = s\<lparr>fk_operations := f\<rparr>" for f by (cases s) simp
  ultimately
  show "reference_ok (s\<lparr>fk_operations := (fk_operations s)(iid \<mapsto> [x\<lparr>fp_terminal_evidence_digest := Some ted\<rparr>])\<rparr>)"
    and "reference_known (s\<lparr>fk_operations := (fk_operations s)(iid \<mapsto> [x\<lparr>fp_terminal_evidence_digest := Some ted\<rparr>])\<rparr>) iid =
      Some (fp_request_digest x, fp_provider_invocation_id x, Some ted)"
    using replaced_operation [OF assms(2), where x = "x\<lparr>fp_terminal_evidence_digest := Some ted\<rparr>" and iid = iid and n = "fk_ordinal s"] by simp_all
qed

interpretation reference: faithful_target "reference_target h k" reference_known reference_ok "reference_usable h k" "fc_same_key_same_request k"
proof unfold_locales
  fix s iid
  show "\<exists>s'. ft_reset (reference_target h k) s = Inr s' \<and> reference_ok s' \<and> reference_known s' iid = None"
    by (simp add: reference_target_def reference_reset_def reference_ok_def operations_ok_def reference_known_def existing_operations_def)
next
  fix s iid rd assume s: "reference_ok s" and u: "reference_usable h k iid rd" and "reference_known s iid = None"
  then have e: "existing_operations s iid = []" by (simp add: reference_known_None)
  obtain x s' where x: "new_operation h iid rd s = (x, s')" "fp_provider_invocation_id x \<noteq> []" "reference_ok s'"
      "reference_known s' iid = Some (rd, fp_provider_invocation_id x, None)"
    using new_operation_facts [OF e s] by blast
  then show "\<exists>r s' pid. ft_submit (reference_target h k) iid rd s = Inr (r, s') \<and> fs_status r = ''accepted'' \<and>
      fs_provider_invocation_id r = Some pid \<and> pid \<noteq> [] \<and> reference_ok s' \<and> reference_known s' iid = Some (rd, pid, None)"
    by (simp add: reference_target_def reference_submit_def usable_checks [OF u] e submit_answer_ok [OF u] empty_opt_def)
  show "\<exists>r s'. ft_lookup (reference_target h k) iid rd s = Inr (r, s') \<and> reference_ok s' \<and> reference_known s' iid = None \<and> fl_status r = ''absent''"
    using s e by (simp add: reference_target_def reference_lookup_def usable_checks [OF u] lookup_answer_ok [OF u] reference_known_None)
next
  fix s iid rd pid d assume s: "reference_ok s" and u: "reference_usable h k iid rd" and known: "reference_known s iid = Some (rd, pid, d)"
  obtain x where x: "existing_operations s iid = [x]" "fp_request_digest x = rd" "fp_provider_invocation_id x = pid"
      "fp_terminal_evidence_digest x = d" "pid \<noteq> []" "d \<noteq> None \<longrightarrow> lower_digest [] (the d) = Inr ()"
    by (rule reference_known_Some [OF s known])
  have k: "fc_same_key_same_request k = ''same_operation'' \<or> fc_same_key_same_request k = ''duplicate_rejected''"
    using u by (simp add: reference_usable_def)
  then show "\<exists>r s'. ft_submit (reference_target h k) iid rd s = Inr (r, s') \<and> reference_ok s' \<and> reference_known s' iid = Some (rd, pid, d) \<and>
      (if fc_same_key_same_request k = ''same_operation'' then fs_status r = ''accepted'' \<and> fs_provider_invocation_id r = Some pid
       else fc_same_key_same_request k = ''duplicate_rejected'' \<and> fs_status r = ''duplicate_rejected'')"
    using s known x
    by (elim disjE) (simp_all add: reference_target_def reference_submit_def usable_checks [OF u] submit_answer_ok [OF u] empty_opt_def)
  show "\<exists>r s'. ft_lookup (reference_target h k) iid rd s = Inr (r, s') \<and> reference_ok s' \<and> reference_known s' iid = Some (rd, pid, d) \<and>
      fl_provider_invocation_id r = Some pid \<and>
      (if d = None then fl_status r = ''accepted'' else fl_status r = ''terminal'' \<and> fl_terminal_evidence_digest r = d)"
    using s known x by (cases d) (simp_all add: reference_target_def reference_lookup_def usable_checks [OF u] lookup_answer_ok [OF u] empty_opt_def)
  fix ted assume ut: "reference_usable h k iid ted"
  then have "lower_digest [] ted = Inr ()" by (simp add: reference_usable_def)
  with marked_operation [OF x(1) s this]
  show "\<exists>s'. ft_mark_terminal (reference_target h k) iid rd ted s = Inr s' \<and> reference_ok s' \<and> reference_known s' iid = Some (rd, pid, Some ted)"
    using x(1-3) by (simp add: reference_target_def reference_mark_terminal_def usable_checks [OF u] usable_checks(2) [OF ut])
next
  fix s iid rd rd' pid d
  assume s: "reference_ok s" and u: "reference_usable h k iid rd" and known: "reference_known s iid = Some (rd', pid, d)" and "rd' \<noteq> rd"
  obtain x where x: "existing_operations s iid = [x]" "fp_request_digest x = rd'" by (rule reference_known_Some [OF s known])
  show "\<exists>r s'. ft_submit (reference_target h k) iid rd s = Inr (r, s') \<and> reference_ok s' \<and> reference_known s' iid = Some (rd', pid, d) \<and>
      fs_status r = ''different_request_rejected''"
    using s known x \<open>rd' \<noteq> rd\<close> by (simp add: reference_target_def reference_submit_def usable_checks [OF u] submit_answer_ok [OF u])
  show "\<exists>r s'. ft_lookup (reference_target h k) iid rd s = Inr (r, s') \<and> reference_ok s' \<and> reference_known s' iid = Some (rd', pid, d) \<and>
      fl_status r = ''identity_mismatch''"
    using s known x \<open>rd' \<noteq> rd\<close> by (simp add: reference_target_def reference_lookup_def usable_checks [OF u] lookup_answer_ok [OF u])
qed

section \<open>What the harness establishes\<close>

lemma harness_revision_Inr: "harness_revision n v = Inr u \<longleftrightarrow> (length v = 40 \<or> length v = 64) \<and> list_all is_lower_hex v"
  by (simp add: harness_revision_def)

lemma conformant_attestation:
  assumes "conformance_evidence_init e = Inr e'" and "\<forall>k\<in>set (required_cases c). \<exists>x\<in>set (ne_cases e). nc_case_id x = k"
  shows "na_contract_conformant (attestation_for h c e) \<longleftrightarrow> (\<forall>k\<in>set (required_cases c). \<exists>x\<in>set (ne_cases e). nc_case_id x = k \<and> nc_passed x)"
  using required_passed [OF assms] by (auto simp: attestation_for_def Let_def filter_empty_conv)

lemma harness_run_attestation:
  assumes "hex_digest h" and "run_provider_conformance h c t iid rd drd ted s = Inr (e, r, s')"
  shows "map nc_case_id (ne_cases e) = required_cases c \<and> fr_conformance_evidence_digest r = conformance_evidence_digest h e \<and>
    (\<exists>at. attest_provider_contract h c e = Inr at \<and> na_adapter_revision at = ft_adapter_revision t \<and>
      (na_contract_conformant at \<longleftrightarrow> fr_all_required_cases_passed r) \<and>
      (na_safe_resubmission_certified at \<longleftrightarrow> fr_all_required_cases_passed r \<and> ft_environment_scope t = ''production_equivalent'' \<and>
        safe_idempotent_resubmission c))"
  using assms(2)
proof (rule run_conformance_Inr)
  fix cases
  assume run: "run_cases h c t iid rd drd ted s = Inr (cases, s')" and e: "e = harness_evidence h c t cases"
    "conformance_evidence_init e = Inr e" and r: "r = harness_run h c t e"
  have fields: "ne_cases e = cases" "ne_contract_digest e = reconciliation_contract_digest h c" "ne_adapter_revision e = ft_adapter_revision t"
      "ne_environment_scope e = ft_environment_scope t" "fr_all_required_cases_passed r = list_all nc_passed cases"
      "fr_conformance_evidence_digest r = conformance_evidence_digest h e"
    by (simp_all add: e(1) r harness_evidence_def harness_run_def)
  have ids: "map nc_case_id (ne_cases e) = required_cases c" using run_cases_ids [OF run] by (simp add: fields)
  then have covered: "\<forall>k\<in>set (required_cases c). \<exists>x\<in>set (ne_cases e). nc_case_id x = k" by (metis imageE list.set_map)
  let ?at = "attestation_for h c e"
  have "attest_provider_contract h c e = Inr ?at" using covered fields(2) by (simp add: attest_Inr [OF assms(1) e(2)])
  moreover have "na_adapter_revision ?at = ft_adapter_revision t" by (simp add: attestation_for_def Let_def fields)
  moreover have "na_safe_resubmission_certified ?at \<longleftrightarrow> fr_all_required_cases_passed r \<and> ft_environment_scope t = ''production_equivalent'' \<and>
      safe_idempotent_resubmission c"
    using certified_attestation [OF e(2) fields(2) covered] cases_passed [OF ids] by (auto simp: certified_def fields)
  moreover have "na_contract_conformant ?at \<longleftrightarrow> fr_all_required_cases_passed r"
    using conformant_attestation [OF e(2) covered] cases_passed [OF ids] by (simp add: fields)
  ultimately show ?thesis using ids fields(6) by blast
qed

text \<open>
  The report of the harness, whatever the target is: the evidence covers exactly the required cases, the provider contract
  can be attested from it, the attestation calls the contract conformant exactly when the run says that every case passed,
  and certifies safe resubmission only for a production-equivalent target and a strongly idempotent contract.
\<close>

theorem harness_run_is_attestable:
  assumes "hex_digest h" and "run_provider_conformance h c t iid rd drd ted s = Inr (e, r, s')"
  shows "map nc_case_id (ne_cases e) = required_cases c \<and> fr_conformance_evidence_digest r = conformance_evidence_digest h e \<and>
    (\<exists>at. attest_provider_contract h c e = Inr at \<and> na_adapter_revision at = ft_adapter_revision t \<and>
      (na_contract_conformant at \<longleftrightarrow> fr_all_required_cases_passed r) \<and>
      (na_safe_resubmission_certified at \<longleftrightarrow> fr_all_required_cases_passed r \<and> ft_environment_scope t = ''production_equivalent'' \<and>
        safe_idempotent_resubmission c))"
  by (rule harness_run_attestation [OF assms])

text \<open>
  The harness tells the declared semantics from the target's: run against the reference target with strongly idempotent
  semantics, for any contract of that target, it returns, and finds every case passed exactly when the contract declares
  the semantics that the target has. Being a sandbox, the target is never certified for resubmission.
\<close>

theorem reference_target_is_judged:
  assumes "hex_digest h" and "reconciliation_contract_init c = Inr c" and "target_identity c (reference_target h k) = Inr ()"
    and "fc_same_key_same_request k \<in> {''same_operation'', ''duplicate_rejected''}" and "\<not> blank iid" and "rd \<noteq> drd"
    and "lower_digest [] rd = Inr ()" and "lower_digest [] drd = Inr ()" and "lower_digest [] ted = Inr ()"
  shows "\<exists>e r s'. run_provider_conformance h c (reference_target h k) iid rd drd ted s = Inr (e, r, s') \<and>
    (fr_all_required_cases_passed r \<longleftrightarrow> kc_same_key_same_request c = fc_same_key_same_request k) \<and>
    (\<exists>at. attest_provider_contract h c e = Inr at \<and> \<not> na_safe_resubmission_certified at)"
proof -
  let ?t = "reference_target h k"
  have usable: "reference_usable h k iid rd" "reference_usable h k iid drd" "reference_usable h k iid ted"
    using assms(1,4,5,7-9) by (simp_all add: reference_usable_def)
  have contract: "kc_same_key_same_request c \<in> set same_request_semantics" "kc_same_key_different_request c = ''reject''"
      "\<not> blank (kc_provider c)" "\<not> blank (kc_adapter c)" "\<not> blank (kc_adapter_version c)"
    using assms(2) by (simp_all add: reconciliation_contract_init_def ebind_eq_Inr check_nonempty_Inr split: if_splits)
  obtain cases s' where run: "run_cases h c ?t iid rd drd ted s = Inr (cases, s')"
      "list_all nc_passed cases \<longleftrightarrow> kc_same_key_same_request c = fc_same_key_same_request k"
    using reference.faithful_cases [OF assms(1) usable assms(6) contract(1,2)] by blast
  let ?e = "harness_evidence h c ?t cases"
  have identity: "ft_provider ?t = kc_provider c" "ft_adapter ?t = kc_adapter c" "ft_adapter_version ?t = kc_adapter_version c"
      "ft_environment_scope ?t \<in> set environment_scopes" "harness_revision ''adapter_revision'' (ft_adapter_revision ?t) = Inr ()"
    using assms(3) by (auto simp: target_identity_def split: if_splits sum.splits py_error.splits)
  have ids: "map nc_case_id cases = required_cases c" by (rule run_cases_ids [OF run(1)])
  have "distinct (map nc_case_id cases)" "\<forall>k\<in>set (map nc_case_id cases). k \<in> set allowed_cases"
    unfolding ids using required_distinct required_allowed by blast+
  then have evidence: "conformance_evidence_init ?e = Inr ?e" and report: "conformance_run_init (harness_run h c ?t ?e) = Inr (harness_run h c ?t ?e)"
    using identity contract(3-5) lower_digest_sha256 [OF assms(1)] length_remdups_eq [of "map nc_case_id cases"]
    by (simp_all add: conformance_evidence_init_def conformance_run_init_def harness_evidence_def harness_run_def ebind_eq_Inr check_nonempty_Inr
        lower_digest_Inr revision_check_Inr harness_revision_Inr list_ex_iff Let_def reconciliation_contract_digest_def conformance_evidence_digest_def)
  have returns: "run_provider_conformance h c ?t iid rd drd ted s = Inr (?e, harness_run h c ?t ?e, s')"
    using usable_checks [OF usable(1)] usable_checks(2) [OF usable(2)] usable_checks(2) [OF usable(3)] assms(6)
    by (simp add: run_provider_conformance_def assms(3) run(1) evidence report)
  have "fr_all_required_cases_passed (harness_run h c ?t ?e) \<longleftrightarrow> kc_same_key_same_request c = fc_same_key_same_request k"
    using run(2) by (simp add: harness_run_def harness_evidence_def)
  moreover have "ft_environment_scope ?t \<noteq> ''production_equivalent''" by (simp add: reference_target_def)
  then have "\<exists>at. attest_provider_contract h c ?e = Inr at \<and> \<not> na_safe_resubmission_certified at"
    using harness_run_attestation [OF assms(1) returns] by auto
  ultimately show ?thesis using returns by blast
qed

text \<open>An instance: a contract that declares that a duplicate is rejected does not pass against a target that coalesces it.\<close>

definition ex_reference :: reference_config where
  "ex_reference = \<lparr>fc_adapter_revision = ex_revision, fc_same_key_same_request = ''same_operation''\<rparr>"

theorem reference_target_is_judged_witness:
  "\<exists>e r s'. run_provider_conformance zero_hash (ex_contract\<lparr>kc_same_key_same_request := ''duplicate_rejected''\<rparr>) (reference_target zero_hash ex_reference)
     ''gei-conformance-1'' (''sha256:'' @ replicate 64 (CHR ''1'')) (''sha256:'' @ replicate 64 (CHR ''2'')) (''sha256:'' @ replicate 64 (CHR ''3''))
     \<lparr>fk_operations = Map.empty, fk_ordinal = 0\<rparr> = Inr (e, r, s') \<and> \<not> fr_all_required_cases_passed r"
proof -
  let ?c = "ex_contract\<lparr>kc_same_key_same_request := ''duplicate_rejected''\<rparr>"
  have digests: "lower_digest [] (''sha256:'' @ replicate 64 d) = Inr ()" if "is_lower_hex d" for d
    using that by (simp add: lower_digest_Inr startswith_def list_all_iff)
  have "reconciliation_contract_init ?c = Inr ?c"
    by (simp add: reconciliation_contract_init_def same_request_semantics_def check_nonempty_def blank_iff is_space_def ex_contract_def)
  moreover have "target_identity ?c (reference_target zero_hash ex_reference) = Inr ()"
    using ex_revision by (simp add: target_identity_def reference_target_def ex_contract_def ex_reference_def environment_scopes_def harness_revision_def)
  moreover have "fc_same_key_same_request ex_reference \<in> {''same_operation'', ''duplicate_rejected''}" by (simp add: ex_reference_def)
  moreover have "\<not> blank ''gei-conformance-1''" by (simp add: blank_iff is_space_def)
  moreover have "''sha256:'' @ replicate 64 (CHR ''1'') \<noteq> ''sha256:'' @ replicate 64 (CHR ''2'')" by (simp add: numeral_eq_Suc)
  ultimately have "\<exists>e r s'. run_provider_conformance zero_hash ?c (reference_target zero_hash ex_reference)
     ''gei-conformance-1'' (''sha256:'' @ replicate 64 (CHR ''1'')) (''sha256:'' @ replicate 64 (CHR ''2'')) (''sha256:'' @ replicate 64 (CHR ''3''))
     \<lparr>fk_operations = Map.empty, fk_ordinal = 0\<rparr> = Inr (e, r, s') \<and>
     (fr_all_required_cases_passed r \<longleftrightarrow> kc_same_key_same_request ?c = fc_same_key_same_request ex_reference) \<and>
     (\<exists>at. attest_provider_contract zero_hash ?c e = Inr at \<and> \<not> na_safe_resubmission_certified at)"
    by (rule reference_target_is_judged [OF zero_hash]) (rule digests, simp add: is_lower_hex_def)+
  then show ?thesis by (auto simp: ex_reference_def)
qed

end
