(* ===== verification/Sha256.thy ===== *)
theory Sha256
  imports Hex_Digest "HOL-Library.Word"
begin

unbundle bit_operations_syntax

text \<open>
  The digest primitive: \<open>hashlib.sha256(payload).hexdigest()\<close> (FIPS 180-4). A 32-bit
  word is an integer below \<open>2 ^ 32\<close> with the wrap-around of addition and rotation written
  out (\<open>wrap32\<close>), so the kernel can compute with it. The interpretation shows
  that SHA-256 provides the interface \<open>hex_digest\<close>.
\<close>

section \<open>SHA-256\<close>

type_synonym word32 = int
type_synonym chain = "word32 \<times> word32 \<times> word32 \<times> word32 \<times> word32 \<times> word32 \<times> word32 \<times> word32"

definition wrap32 :: "int \<Rightarrow> word32" where
  "wrap32 x = x mod 4294967296"

definition rotr :: "nat \<Rightarrow> word32 \<Rightarrow> word32" where
  "rotr n x = drop_bit n x OR wrap32 (push_bit (32 - n) x)"

definition Ch :: "word32 \<Rightarrow> word32 \<Rightarrow> word32 \<Rightarrow> word32" where
  "Ch x y z = (x AND y) XOR (NOT x AND z)"

definition Maj :: "word32 \<Rightarrow> word32 \<Rightarrow> word32 \<Rightarrow> word32" where
  "Maj x y z = (x AND y) XOR (x AND z) XOR (y AND z)"

definition big_sigma0 :: "word32 \<Rightarrow> word32" where
  "big_sigma0 x = rotr 2 x XOR rotr 13 x XOR rotr 22 x"

definition big_sigma1 :: "word32 \<Rightarrow> word32" where
  "big_sigma1 x = rotr 6 x XOR rotr 11 x XOR rotr 25 x"

definition small_sigma0 :: "word32 \<Rightarrow> word32" where
  "small_sigma0 x = rotr 7 x XOR rotr 18 x XOR drop_bit 3 x"

definition small_sigma1 :: "word32 \<Rightarrow> word32" where
  "small_sigma1 x = rotr 17 x XOR rotr 19 x XOR drop_bit 10 x"

definition round_constants :: "word32 list" where
  "round_constants = [
    0x428A2F98, 0x71374491, 0xB5C0FBCF, 0xE9B5DBA5, 0x3956C25B, 0x59F111F1, 0x923F82A4, 0xAB1C5ED5,
    0xD807AA98, 0x12835B01, 0x243185BE, 0x550C7DC3, 0x72BE5D74, 0x80DEB1FE, 0x9BDC06A7, 0xC19BF174,
    0xE49B69C1, 0xEFBE4786, 0x0FC19DC6, 0x240CA1CC, 0x2DE92C6F, 0x4A7484AA, 0x5CB0A9DC, 0x76F988DA,
    0x983E5152, 0xA831C66D, 0xB00327C8, 0xBF597FC7, 0xC6E00BF3, 0xD5A79147, 0x06CA6351, 0x14292967,
    0x27B70A85, 0x2E1B2138, 0x4D2C6DFC, 0x53380D13, 0x650A7354, 0x766A0ABB, 0x81C2C92E, 0x92722C85,
    0xA2BFE8A1, 0xA81A664B, 0xC24B8B70, 0xC76C51A3, 0xD192E819, 0xD6990624, 0xF40E3585, 0x106AA070,
    0x19A4C116, 0x1E376C08, 0x2748774C, 0x34B0BCB5, 0x391C0CB3, 0x4ED8AA4A, 0x5B9CCA4F, 0x682E6FF3,
    0x748F82EE, 0x78A5636F, 0x84C87814, 0x8CC70208, 0x90BEFFFA, 0xA4506CEB, 0xBEF9A3F7, 0xC67178F2]"

definition initial_chain :: chain where
  "initial_chain = (0x6A09E667, 0xBB67AE85, 0x3C6EF372, 0xA54FF53A, 0x510E527F, 0x9B05688C, 0x1F83D9AB, 0x5BE0CD19)"

text \<open>The message schedule is kept newest word first.\<close>

fun expand :: "nat \<Rightarrow> word32 list \<Rightarrow> word32 list" where
  "expand 0 ws = ws"
| "expand (Suc n) ws =
     expand n (wrap32 (small_sigma1 (ws ! 1) + ws ! 6 + small_sigma0 (ws ! 14) + ws ! 15) # ws)"

definition schedule :: "word32 list \<Rightarrow> word32 list" where
  "schedule block = rev (expand 48 (rev block))"

fun sha_round :: "chain \<Rightarrow> word32 \<times> word32 \<Rightarrow> chain" where
  "sha_round (a, b, c, d, e, f, g, i) (k, w) =
     (let t1 = wrap32 (i + big_sigma1 e + Ch e f g + k + w);
          t2 = wrap32 (big_sigma0 a + Maj a b c)
      in (wrap32 (t1 + t2), a, b, c, wrap32 (d + t1), e, f, g))"

fun add_chain :: "chain \<Rightarrow> chain \<Rightarrow> chain" where
  "add_chain (a, b, c, d, e, f, g, i) (a', b', c', d', e', f', g', i') =
     (wrap32 (a + a'), wrap32 (b + b'), wrap32 (c + c'), wrap32 (d + d'),
      wrap32 (e + e'), wrap32 (f + f'), wrap32 (g + g'), wrap32 (i + i'))"

definition compress :: "chain \<Rightarrow> word32 list \<Rightarrow> chain" where
  "compress c block = add_chain c (foldl sha_round c (zip round_constants (schedule block)))"

text \<open>The message length as eight big-endian bytes.\<close>

definition length_bytes :: "nat \<Rightarrow> nat list" where
  "length_bytes n = [n div 72057594037927936 mod 256, n div 281474976710656 mod 256,
     n div 1099511627776 mod 256, n div 4294967296 mod 256, n div 16777216 mod 256,
     n div 65536 mod 256, n div 256 mod 256, n mod 256]"

definition pad :: "nat list \<Rightarrow> nat list" where
  "pad bs = bs @ [128] @ replicate ((119 - length bs mod 64) mod 64) 0 @ length_bytes (8 * length bs)"

fun words_of :: "nat list \<Rightarrow> word32 list" where
  "words_of (a # b # c # d # bs) = int (((a * 256 + b) * 256 + c) * 256 + d) # words_of bs"
| "words_of _ = []"

function compress_all :: "chain \<Rightarrow> word32 list \<Rightarrow> chain" where
  "compress_all c ws = (if length ws < 16 then c else compress_all (compress c (take 16 ws)) (drop 16 ws))"
  by pat_completeness auto
termination by (relation "measure (\<lambda>(c, ws). length ws)") auto

declare compress_all.simps [simp del]

definition word_hex :: "word32 \<Rightarrow> string" where
  "word_hex w = (let n = nat w in map hex_char [n div 268435456 mod 16, n div 16777216 mod 16,
     n div 1048576 mod 16, n div 65536 mod 16, n div 4096 mod 16, n div 256 mod 16,
     n div 16 mod 16, n mod 16])"

definition sha256_hex :: hash where
  "sha256_hex s = (case compress_all initial_chain (words_of (pad (map of_char s))) of
     (a, b, c, d, e, f, g, i) \<Rightarrow> concat (map word_hex [a, b, c, d, e, f, g, i]))"

lemma is_lower_hex_hex_char: "n < 16 \<Longrightarrow> is_lower_hex (hex_char n)"
  by (auto simp: is_lower_hex_def hex_char_def Let_def)

lemma length_word_hex [simp]: "length (word_hex w) = 8"
  by (simp add: word_hex_def Let_def)

lemma word_hex_lower: "c \<in> set (word_hex w) \<Longrightarrow> is_lower_hex c"
  by (auto simp: word_hex_def Let_def intro: is_lower_hex_hex_char)

interpretation sha256: hex_digest sha256_hex
proof unfold_locales
  fix s
  show "length (sha256_hex s) = 64"
    by (simp add: sha256_hex_def split: prod.split)
next
  fix c s
  assume "c \<in> set (sha256_hex s)"
  then show "is_lower_hex c"
    by (auto simp: sha256_hex_def dest: word_hex_lower split: prod.splits)
qed

text \<open>The published test vector for the one-block message \<open>abc\<close>, computed by the kernel.\<close>

lemma replicate_numeral: "replicate (numeral k) x = x # replicate (pred_numeral k) x"
  by (simp add: numeral_eq_Suc)

lemma expand_numeral: "expand (numeral k) ws =
    expand (pred_numeral k) (wrap32 (small_sigma1 (ws ! 1) + ws ! 6 + small_sigma0 (ws ! 14) + ws ! 15) # ws)"
  by (simp add: numeral_eq_Suc)

lemma words_abc:
  "words_of (pad (map of_char ''abc'')) = [0x61626380, 0, 0, 0, 0, 0, 0, 0, 0, 0, 0, 0, 0, 0, 0, 0x18]"
  by (simp add: pad_def length_bytes_def replicate_numeral)

lemmas sha_functions = small_sigma0_def small_sigma1_def big_sigma0_def big_sigma1_def
  Ch_def Maj_def rotr_def wrap32_def

lemma schedule_abc:
  "schedule [0x61626380, 0, 0, 0, 0, 0, 0, 0, 0, 0, 0, 0, 0, 0, 0, 0x18] =
    [0x61626380, 0, 0, 0, 0, 0, 0, 0,
     0, 0, 0, 0, 0, 0, 0, 0x00000018,
     0x61626380, 0x000F0000, 0x7DA86405, 0x600003C6, 0x3E9D7B78, 0x0183FC00, 0x12DCBFDB, 0xE2E2C38E,
     0xC8215C1A, 0xB73679A2, 0xE5BC3909, 0x32663C5B, 0x9D209D67, 0xEC8726CB, 0x702138A4, 0xD3B7973B,
     0x93F5997F, 0x3B68BA73, 0xAFF4FFC1, 0xF10A5C62, 0x0A8B3996, 0x72AF830A, 0x9409E33E, 0x24641522,
     0x9F47BF94, 0xF0A64F5A, 0x3E246A79, 0x27333BA3, 0x0C4763F2, 0x840ABF27, 0x7A290D5D, 0x065C43DA,
     0xFB3E89CB, 0xCC7617DB, 0xB9E66C34, 0xA9993667, 0x84BADEDD, 0xC21462BC, 0x1487472C, 0xB20F7A99,
     0xEF57B9CD, 0xEBE6B238, 0x9FE3095E, 0x78BC8D4B, 0xA43FCF15, 0x668B2FF8, 0xEEABA2CC, 0x12B1EDEB]"
  by (simp add: schedule_def expand_numeral sha_functions)

lemma compress_abc:
  "compress initial_chain [0x61626380, 0, 0, 0, 0, 0, 0, 0, 0, 0, 0, 0, 0, 0, 0, 0x18] =
    (0xBA7816BF, 0x8F01CFEA, 0x414140DE, 0x5DAE2223, 0xB00361A3, 0x96177A9C, 0xB410FF61, 0xF20015AD)"
  by (simp add: compress_def schedule_abc initial_chain_def round_constants_def sha_functions Let_def)

lemma sha256_abc:
  "sha256_hex ''abc'' = ''ba7816bf8f01cfea414140de5dae2223b00361a396177a9cb410ff61f20015ad''"
  unfolding sha256_hex_def words_abc
  by (simp add: compress_all.simps compress_abc word_hex_def Let_def hex_char_def char_of_eq_iff)

section \<open>Properties\<close>

text \<open>Every content digest has the shape that the constructors demand of a digest: the prefix
  \<open>sha256:\<close>, 71 characters in all, and 64 characters that \<open>int(_, 16)\<close> accepts; every
  stable identifier is its prefix, a dash and 24 characters.\<close>

theorem digest_shape_of_sha256:
  "startswith (sha256_digest sha256_hex v) ''sha256:'' \<and> length (sha256_digest sha256_hex v) = 71 \<and>
   int16_ok (drop 7 (sha256_digest sha256_hex v)) \<and> length (stable_id sha256_hex p v) = length p + 25"
  using sha256.sha256_digest_length sha256.sha256_digest_prefix sha256.sha256_digest_int16 sha256.stable_id_length
  by blast

end
