(* ===== verification/Spec2Isabelle.thy ===== *)
theory Spec2Isabelle
  imports Recovery_Driver Retry_Authority Transition_Policy Portfolio_Store Human_Authority Conformance_Harness Sha256
begin

text \<open>
  A verification development for the General Execution package (\<open>src/src/general_execution\<close>).

  \<^bold>\<open>The program.\<close> A caller states what is to be done (\<open>ExecutionSpec\<close>) and who may do it
  (\<open>RunnerRegistry\<close>). The planner picks a runner, a logical session is bound to the plan, and a provider
  adapter is asked to execute it. A logical session may need several physical attempts; each is authorised,
  holds one slot of the runner's capacity, is entered in a dispatch outbox before anything is sent, is
  observed, and is released against its outcome. The capacity head and the outbox are durable (SQLite), so
  that a restarted process finds out how far a session came and what has to be done next. A hash-chained
  ledger records what happened. Every object is identified by the SHA-256 of its canonical JSON text.

  \<^bold>\<open>The theories\<close>, bottom up, with the module each models:
  \<^item> \<open>Prelude\<close>: Python exceptions as values (\<open>Inl\<close> the exception with its message, \<open>Inr\<close> the result), their
    sequencing (\<open>ebind\<close>), \<open>except\<close> clauses (\<open>rethrow\<close>, \<open>handle\<close>), loops of checks, string predicates.
  \<^item> \<open>Canonical\<close>, \<open>Encoding\<close> (\<open>canonical.py\<close>, and the \<open>to_dict\<close>/\<open>from_dict\<close> idioms): dynamic values, normalisation,
    canonical text, digests, and the locales \<open>encoding\<close>, \<open>codec\<close>, \<open>strict_codec\<close>, \<open>sound_codec\<close> that every class and
    reader interprets.
  \<^item> \<open>Json_Loads\<close>: the reader \<open>json.loads\<close>, with the round trip. Its fuel is the length of the text plus one,
    and every call consumes a character, so it never runs out. Floats and lone surrogates are rejected.
  \<^item> \<open>Hex_Digest\<close>, \<open>Sha256\<close>: the interface of a hexadecimal digest, and SHA-256 itself as its instance. All other
    theories are parametric in the digest function \<open>h\<close>.
  \<^item> \<open>Models\<close>, \<open>Planner\<close>, \<open>Session\<close>, \<open>Ledger\<close>, \<open>Wire\<close>, \<open>Adapter\<close>, \<open>Provenance\<close>, \<open>Physical\<close>, \<open>Physical_Wire\<close>: the modules of the
    same names. Session calls refine the abstract lifecycle \<open>phase_step\<close>.
  \<^item> \<open>Replay\<close>: the locale of append-only histories, which capacity states and ledgers interpret.
  \<^item> \<open>Capacity_State\<close>, \<open>Capacity\<close> (\<open>capacity.py\<close>): transitions, replay, the invariant of a runner, its refinement of an
    abstract slot table, reservations, releases and grants.
  \<^item> \<open>Cas_Store\<close>: the locale of a compare-and-swap store, interpreted by \<open>Durable\<close> (\<open>durable.py\<close>, the capacity heads)
    and by \<open>Outbox\<close> (\<open>dispatch.py\<close>, the dispatch intents).
  \<^item> \<open>Sql_Table\<close>, \<open>Dispatch\<close>, \<open>Outbox\<close> (\<open>dispatch.py\<close>): intents, their states and codec; the outbox table, its operations and
    their refinement of an abstract revision counter, recovery.
  \<^item> \<open>Dispatch_Guard\<close> (\<open>dispatch_guard.py\<close>): live permits, which a release withdraws.
  \<^item> \<open>Observed\<close>, \<open>Outbox_State\<close> (\<open>observed.py\<close>): durable outcomes, the transaction that records one, capacity release after
    a restart; the invariant of the two tables.
  \<^item> \<open>Session_Recovery\<close> (\<open>session_recovery.py\<close>): the projection of a session after a restart;
    \<open>Recovery_Driver\<close> (\<open>recovery_driver.py\<close>): the bounded recovery step and its runs.
  \<^item> \<open>Reconciliation\<close> (\<open>reconciliation.py\<close>): what to do about a submission whose fate is unknown; \<open>Conformance\<close>
    (\<open>conformance.py\<close>): attestations of provider contracts and permits to submit the same invocation again;
    \<open>Conformance_Harness\<close> (\<open>conformance_harness.py\<close>): the cases run against any provider, a locale of what a faithful
    provider promises, and the reference target as its instance.
  \<^item> \<open>Field_Checks\<close>: the field checks that the control-plane modules repeat, over any Python value.
  \<^item> \<open>Retry_Authority\<close> (\<open>retry_authority.py\<close>): retry policies, failure observations, the decision and its bounds.
  \<^item> \<open>Transition_Policy\<close> (\<open>transition_policy.py\<close>): rules and policies, their reader, rule matching.
  \<^item> \<open>Portfolio_State\<close>, \<open>Execution_Checkpoint\<close>, \<open>Portfolio_Store\<close> (\<open>portfolio_state.py\<close>, \<open>execution_checkpoint.py\<close>,
    \<open>portfolio_persistence.py\<close>): portfolios of work and the checkpoints of their changes, their readers, and the durable
    store, another instance of \<open>Cas_Store\<close>, which refines an append-only history.
  \<^item> \<open>Asp_Transition\<close> (\<open>asp_transition.py\<close>): the engine that moves a portfolio: evidence, authority, the wake of a
    parked item, the new slots, and the result with its checkpoint.
  \<^item> \<open>Resume_Tick\<close> (\<open>resume_tick.py\<close>): one tick of an unattended portfolio: recovery, verification gate, transition and
    commit, with the database given at each moment it is read.
  \<^item> \<open>Human_Authority\<close> (\<open>human_authority.py\<close>): the approval that releases a human gate, and its consumption by a tick.

  \<^bold>\<open>Conventions.\<close> A dataclass is a record with a two-letter field prefix, \<open>X_init\<close> its \<open>__post_init__\<close> and
  \<open>X_py\<close> its \<open>asdict\<close>. Python's unbounded integers are \<open>int\<close>. Strings are the UTF-8 bytes of the \<open>str\<close>; for the
  ASCII identifiers, digests and tags of the program these are its characters. A keyword call \<open>C(**data)\<close> stores
  any value in Python; the fields of a record are typed as annotated, so a value of another JSON type is a
  \<open>TypeError\<close> at the call. \<open>str()\<close> of a container is an error. \<open>uuid4\<close> is an argument of the operations that
  draw one. A SQLite table is a map or the list of its rows; a transaction that raises leaves it unchanged.
  An operation that reads outside its transaction takes the store at each of the moments it reads it (\<open>seen\<close>,
  \<open>heads\<close>, \<open>later\<close>, \<open>first\<close>, the views of a tick); its theorems say which values they allow. The exception is
  a step of the recovery driver: it works on one pair of stores, that is, without interference during the step.
  Definitions named \<open>ex_*\<close> are one concrete run (a read-only specification, one runner, one failed attempt)
  on which the witnesses evaluate the hypotheses of the properties.

  \<^bold>\<open>The properties.\<close> Each stands after a text block with its number. They show: the lifecycle of sessions and of
  dispatch intents as refinements of small machines; the capacity invariant and its slot table; that at most
  one of two competing commits, submissions, recordings or releases takes effect; that what is written is read
  back exactly and nothing else is read; that recovery reports what is stored, invents nothing and is idempotent;
  that a retry needs durable evidence; that ledgers and retry chains are decided by their declarative meaning; that a
  portfolio moves only with evidence and authority, loses no work and takes each observation at most once; that a human
  approval is bound and consumed once; that a submission of unknown fate is repeated only on proven absence, under a
  certified contract and a live lease.

  \<^bold>\<open>Not modelled.\<close> Connections, pragmas, files and processes (I/O). Of the modules around this core: the second
  transition engine (\<open>asp_transition_engine.py\<close>), which nothing but the package export names; the rejection and the
  superseding of a human gate (\<open>human_gate_decision.py\<close>); the stores of login leases, launch receipts and activations, and
  the escalation records and budgets that build on them (\<open>persistent_auth_lease.py\<close>, \<open>executor_activation.py\<close>,
  \<open>work_escalation_bridge.py\<close> and others), which no modelled component reads; decision procedures over provider manifests and
  resources (\<open>execution_protocol.py\<close>, \<open>provider_portability.py\<close> and others); hosts, sandboxes, reports, exports and scripts,
  which are text and I/O. The manifest lists each with its reason.
\<close>

end
